(* ===== verification/RA_Prelude.thy ===== *)
theory RA_Prelude
  imports Complex_Main "HOL-Library.Monad_Syntax"
begin

section \<open>Shared vocabulary of the model\<close>

text \<open>
  What the components share: the Python values that arrive as JSON, the string operations the
  server uses, rounding, the exceptions it raises and the result type of fallible code.

  Text is a \<^typ>\<open>string\<close>, one \<^typ>\<open>char\<close> per code point U+0000 to U+00FF; the string operations
  below are Python's on that range. Floats are idealised as exact rationals: \<open>round (x, 4)\<close> is
  kept as a rounding to four decimals with ties to even, the error of binary floating point is not
  modelled. A \<open>uuid\<close> is its canonical lower-case text. Wall-clock times are integers
  (microseconds), readings of \<open>time.monotonic\<close> are rationals (seconds).
\<close>

type_synonym uuid = string
type_synonym instant = int
type_synonym mono_time = rat

abbreviation second :: instant where "second \<equiv> 1000000"

named_theorems frame_simps "fields an operation leaves unchanged"
named_theorems inv_intros "preservation of invariants"

subsection \<open>Exceptions and results\<close>

datatype exn =
    HTTPException (exn_status: nat) (exn_code: "string option") (exn_message: string)
      (exn_retry_after: "int option")
  | ValueError string
  | RuntimeError string
  | AttributeError
  | UniqueViolation
  | KeyError
  | TypeError
  | DbError
  | JobAccessUnavailable
  | ExtractError string
  | ZeroDivisionError
  | OverflowError
  | IndexError
  | NameError

type_synonym 'a res = "exn + 'a"

definition res_bind :: "'a res \<Rightarrow> ('a \<Rightarrow> 'b res) \<Rightarrow> 'b res" where
  "res_bind r f = (case r of Inl e \<Rightarrow> Inl e | Inr x \<Rightarrow> f x)"

lemma res_bind_simps [simp]:
  "res_bind (Inl e) f = Inl e"
  "res_bind (Inr x) f = f x"
  by (simp_all add: res_bind_def)

lemma res_bind_eq_Inr: "res_bind r f = Inr y \<longleftrightarrow> (\<exists>x. r = Inr x \<and> f x = Inr y)"
  by (cases r) auto

lemma res_bind_eq_Inl: "res_bind r f = Inl e \<longleftrightarrow> r = Inl e \<or> (\<exists>x. r = Inr x \<and> f x = Inl e)"
  by (cases r) auto

lemma res_bind_cong [fundef_cong]:
  "r = r' \<Longrightarrow> (\<And>x. r' = Inr x \<Longrightarrow> f x = g x) \<Longrightarrow> res_bind r f = res_bind r' g"
  by (cases r') auto

text \<open>A list comprehension whose element expression may raise: the first exception wins.\<close>

fun res_map :: "('a \<Rightarrow> 'b res) \<Rightarrow> 'a list \<Rightarrow> 'b list res" where
  "res_map f [] = Inr []"
| "res_map f (x # xs) = res_bind (f x) (\<lambda>y. res_bind (res_map f xs) (\<lambda>ys. Inr (y # ys)))"

lemma res_map_length: "res_map f xs = Inr ys \<Longrightarrow> length ys = length xs"
  by (induction xs arbitrary: ys) (auto simp: res_bind_eq_Inr)

lemma res_map_Inr_iff: "res_map f xs = Inr ys \<longleftrightarrow> list_all2 (\<lambda>x y. f x = Inr y) xs ys"
  by (induction xs arbitrary: ys) (auto simp: res_bind_eq_Inr list_all2_Cons1)

lemma res_map_cong [fundef_cong]:
  "xs = ys \<Longrightarrow> (\<And>x. x \<in> set ys \<Longrightarrow> f x = g x) \<Longrightarrow> res_map f xs = res_map g ys"
  by (induction ys arbitrary: xs) auto

subsection \<open>JSON values and Python dictionaries\<close>

datatype json =
    JNull | JBool bool | JInt int | JNum rat | JStr string
  | JArr "json list" | JObj "(string \<times> json) list"

type_synonym dict = "(string \<times> json) list"

text \<open>\<open>d.get(k)\<close>: a missing key and a null value both read as None.\<close>

definition dget :: "dict \<Rightarrow> string \<Rightarrow> json" where
  "dget d k = (case map_of d k of None \<Rightarrow> JNull | Some v \<Rightarrow> v)"

definition has_key :: "dict \<Rightarrow> string \<Rightarrow> bool" where
  "has_key d k \<longleftrightarrow> map_of d k \<noteq> None"

fun truthy :: "json \<Rightarrow> bool" where
  "truthy JNull = False"
| "truthy (JBool b) = b"
| "truthy (JInt i) = (i \<noteq> 0)"
| "truthy (JNum q) = (q \<noteq> 0)"
| "truthy (JStr s) = (s \<noteq> [])"
| "truthy (JArr xs) = (xs \<noteq> [])"
| "truthy (JObj d) = (d \<noteq> [])"

definition py_or :: "json \<Rightarrow> json \<Rightarrow> json" where
  "py_or a b = (if truthy a then a else b)"

fun is_dict :: "json \<Rightarrow> bool" where
  "is_dict (JObj _) = True"
| "is_dict _ = False"

text \<open>\<open>x.get(\<dots>)\<close> on a value that is not a dictionary raises.\<close>

fun as_dict :: "json \<Rightarrow> dict res" where
  "as_dict (JObj d) = Inr d"
| "as_dict _ = Inl AttributeError"

text \<open>\<open>isinstance(v, (int, float))\<close>; a bool is an int in Python.\<close>

fun num_value :: "json \<Rightarrow> rat option" where
  "num_value (JInt i) = Some (of_int i)"
| "num_value (JNum q) = Some q"
| "num_value (JBool b) = Some (if b then 1 else 0)"
| "num_value _ = None"

text \<open>\<open>dict.update\<close> and \<open>d[k] = v\<close>: an existing key keeps its place.\<close>

fun dput :: "string \<Rightarrow> 'v \<Rightarrow> (string \<times> 'v) list \<Rightarrow> (string \<times> 'v) list" where
  "dput k v [] = [(k, v)]"
| "dput k v ((k', v') # d) = (if k = k' then (k, v) # d else (k', v') # dput k v d)"

lemma map_of_dput [simp]: "map_of (dput k v d) = (map_of d)(k \<mapsto> v)"
  by (induction d) auto

lemma set_keys_dput [simp]: "fst ` set (dput k v d) = insert k (fst ` set d)"
  by (induction k v d rule: dput.induct) (simp_all add: insert_commute)

lemma distinct_keys_dput: "distinct (map fst d) \<Longrightarrow> distinct (map fst (dput k v d))"
proof (induction d)
  case (Cons p d)
  obtain k' v' where p: "p = (k', v')" by (cases p)
  have "set (map fst (dput k v d)) = insert k (set (map fst d))"
    by simp
  with Cons p show ?case by auto
qed simp

subsection \<open>Strings\<close>

definition is_space :: "char \<Rightarrow> bool" where
  "is_space c = (let n = of_char c :: nat in
     (9 \<le> n \<and> n \<le> 13) \<or> (28 \<le> n \<and> n \<le> 32) \<or> n = 133 \<or> n = 160)"

definition lower_char :: "char \<Rightarrow> char" where
  "lower_char c = (let n = of_char c :: nat in
     if (65 \<le> n \<and> n \<le> 90) \<or> (192 \<le> n \<and> n \<le> 222 \<and> n \<noteq> 215) then char_of (n + 32) else c)"

definition lower :: "string \<Rightarrow> string" where
  "lower = map lower_char"

definition lstrip :: "string \<Rightarrow> string" where
  "lstrip = dropWhile is_space"

definition rstrip :: "string \<Rightarrow> string" where
  "rstrip s = rev (dropWhile is_space (rev s))"

definition strip :: "string \<Rightarrow> string" where
  "strip s = rstrip (lstrip s)"

text \<open>\<open>s.rstrip(c)\<close> and \<open>s.strip(c)\<close> for one character.\<close>

definition rstrip_char :: "char \<Rightarrow> string \<Rightarrow> string" where
  "rstrip_char c s = rev (dropWhile (\<lambda>x. x = c) (rev s))"

definition strip_char :: "char \<Rightarrow> string \<Rightarrow> string" where
  "strip_char c s = rstrip_char c (dropWhile (\<lambda>x. x = c) s)"

definition starts_with :: "string \<Rightarrow> string \<Rightarrow> bool" where
  "starts_with s p \<longleftrightarrow> take (length p) s = p"

definition ends_with :: "string \<Rightarrow> string \<Rightarrow> bool" where
  "ends_with s p \<longleftrightarrow> length p \<le> length s \<and> drop (length s - length p) s = p"

fun contains :: "string \<Rightarrow> string \<Rightarrow> bool" where
  "contains [] p = (p = [])"
| "contains (c # s) p = (starts_with (c # s) p \<or> contains s p)"

text \<open>\<open>s.split(p, 1)\<close> at the first occurrence: the parts before and after, if it occurs.\<close>

fun split_once :: "string \<Rightarrow> string \<Rightarrow> (string \<times> string) option" where
  "split_once p [] = (if p = [] then Some ([], []) else None)"
| "split_once p (c # s) =
     (if starts_with (c # s) p then Some ([], drop (length p) (c # s))
      else map_option (\<lambda>(a, b). (c # a, b)) (split_once p s))"

text \<open>\<open>s.split(c)\<close> for a one-character separator: never empty, \<open>''''.split(c) = [''''] \<close>.\<close>

fun split_char :: "char \<Rightarrow> string \<Rightarrow> string list" where
  "split_char c [] = [[]]"
| "split_char c (x # s) =
     (if x = c then [] # split_char c s
      else (case split_char c s of [] \<Rightarrow> [[x]] | w # ws \<Rightarrow> (x # w) # ws))"

fun join :: "string \<Rightarrow> string list \<Rightarrow> string" where
  "join sep [] = []"
| "join sep [w] = w"
| "join sep (w # v # ws) = w @ sep @ join sep (v # ws)"

definition replace_char :: "char \<Rightarrow> char \<Rightarrow> string \<Rightarrow> string" where
  "replace_char a b = map (\<lambda>c. if c = a then b else c)"

fun nat_str :: "nat \<Rightarrow> string" where
  "nat_str n = (if n < 10 then [char_of (48 + n)] else nat_str (n div 10) @ [char_of (48 + n mod 10)])"

declare nat_str.simps [simp del]

definition int_str :: "int \<Rightarrow> string" where
  "int_str i = (if i < 0 then CHR ''-'' # nat_str (nat (- i)) else nat_str (nat i))"

text \<open>
  \<open>str(v)\<close>; the rendering of floats, lists and dictionaries is the argument \<open>rep\<close>.
\<close>

fun py_str :: "(json \<Rightarrow> string) \<Rightarrow> json \<Rightarrow> string" where
  "py_str rep (JStr s) = s"
| "py_str rep JNull = ''None''"
| "py_str rep (JBool b) = (if b then ''True'' else ''False'')"
| "py_str rep (JInt i) = int_str i"
| "py_str rep v = rep v"

lemma split_char_nonempty [simp]: "split_char c s \<noteq> []"
  by (induction s) (auto split: list.splits)

lemma join_Cons: "ws \<noteq> [] \<Longrightarrow> join sep (w # ws) = w @ sep @ join sep ws"
  by (cases ws) auto

lemma join_split_char: "join [c] (split_char c s) = s"
proof (induction s)
  case (Cons x s)
  show ?case
  proof (cases "x = c")
    case True
    with Cons show ?thesis by (simp add: join_Cons)
  next
    case False
    obtain w ws where w: "split_char c s = w # ws"
      by (cases "split_char c s") auto
    from Cons w have "join [c] (w # ws) = s" by simp
    then have "join [c] ((x # w) # ws) = x # s" by (cases ws) auto
    with False w show ?thesis by simp
  qed
qed simp

lemma starts_with_iff: "starts_with s p \<longleftrightarrow> (\<exists>t. s = p @ t)"
proof
  assume "starts_with s p"
  then have "s = p @ drop (length p) s"
    by (metis append_take_drop_id starts_with_def)
  then show "\<exists>t. s = p @ t" ..
qed (auto simp: starts_with_def)

lemma contains_iff: "contains s p \<longleftrightarrow> (\<exists>a b. s = a @ p @ b)"
proof (induction s)
  case (Cons c s)
  show ?case
  proof
    assume "contains (c # s) p"
    then consider "starts_with (c # s) p" | "contains s p" by auto
    then show "\<exists>a b. c # s = a @ p @ b"
    proof cases
      case 1
      then show ?thesis by (metis append_Nil starts_with_iff)
    next
      case 2
      then obtain a b where "s = a @ p @ b" using Cons by blast
      then have "c # s = (c # a) @ p @ b" by simp
      then show ?thesis by blast
    qed
  next
    assume "\<exists>a b. c # s = a @ p @ b"
    then obtain a b where ab: "c # s = a @ p @ b" by blast
    show "contains (c # s) p"
    proof (cases a)
      case Nil
      with ab have "starts_with (c # s) p" by (auto simp: starts_with_iff)
      then show ?thesis by simp
    next
      case (Cons x a')
      with ab have "s = a' @ p @ b" by simp
      with Cons.IH show ?thesis by auto
    qed
  qed
qed simp

lemma ends_with_iff: "ends_with s p \<longleftrightarrow> (\<exists>t. s = t @ p)"
proof
  assume "ends_with s p"
  then have "s = take (length s - length p) s @ p"
    by (metis append_take_drop_id ends_with_def)
  then show "\<exists>t. s = t @ p" ..
qed (auto simp: ends_with_def)

lemma dropWhile_idem [simp]: "dropWhile P (dropWhile P xs) = dropWhile P xs"
  by (induction xs) auto

lemma lower_char_idem [simp]: "lower_char (lower_char c) = lower_char c"
proof -
  define n where "n = (of_char c :: nat)"
  have "of_char (char_of (n + 32) :: char) = (n + 32) mod (256::nat)"
    by simp
  moreover have "n < 256" by (simp add: n_def)
  ultimately show ?thesis
    by (auto simp: lower_char_def Let_def n_def [symmetric])
qed

lemma lower_idem [simp]: "lower (lower s) = lower s"
  by (simp add: lower_def)

lemma length_lower [simp]: "length (lower s) = length s"
  by (simp add: lower_def)

lemma strip_idem [simp]: "strip (strip s) = strip s"
proof -
  have l: "lstrip (rstrip (lstrip s)) = rstrip (lstrip s)"
  proof (cases "lstrip s")
    case Nil
    then have "rstrip (lstrip s) = []" by (simp add: rstrip_def)
    then show ?thesis by (simp add: lstrip_def)
  next
    case (Cons c t)
    then have c: "\<not> is_space c"
      by (metis dropWhile_eq_Cons_conv lstrip_def)
    have "\<exists>u. rstrip (c # t) = c # u"
    proof -
      have "dropWhile is_space (rev t @ [c]) = dropWhile is_space (rev t) @ [c]"
        using c by (induction "rev t" arbitrary: t rule: rev_induct)
          (auto simp: dropWhile_append)
      then show ?thesis by (simp add: rstrip_def)
    qed
    then obtain u where "rstrip (c # t) = c # u" ..
    with Cons c show ?thesis by (simp add: lstrip_def)
  qed
  have "rstrip (rstrip (lstrip s)) = rstrip (lstrip s)"
    by (simp add: rstrip_def)
  with l show ?thesis by (simp add: strip_def)
qed

subsection \<open>Numbers\<close>

text \<open>\<open>round(x)\<close> and \<open>round(x, 4)\<close>: to the nearest, ties to even.\<close>

definition py_round :: "rat \<Rightarrow> int" where
  "py_round x =
     (let f = \<lfloor>x\<rfloor>; r = x - of_int f
      in if r < 1 / 2 then f else if r > 1 / 2 then f + 1 else if even f then f else f + 1)"

definition round4 :: "rat \<Rightarrow> rat" where
  "round4 x = of_int (py_round (x * 10000)) / 10000"

text \<open>\<open>int(x)\<close> of a float truncates towards zero.\<close>

definition py_int :: "rat \<Rightarrow> int" where
  "py_int x = (if x < 0 then - \<lfloor>- x\<rfloor> else \<lfloor>x\<rfloor>)"

lemma py_round_le: "of_int (py_round x) \<le> x + 1 / 2"
  using of_int_floor_le [of x] by (auto simp: py_round_def Let_def not_less; linarith)

lemma py_round_ge: "x - 1 / 2 \<le> of_int (py_round x)"
proof -
  have "x < of_int \<lfloor>x\<rfloor> + 1" by linarith
  then show ?thesis by (auto simp: py_round_def Let_def; linarith)
qed

lemma py_round_of_int [simp]: "py_round (of_int i) = i"
  by (simp add: py_round_def)

lemma py_round_mono:
  assumes "x \<le> y"
  shows "py_round x \<le> py_round y"
proof (cases "\<lfloor>x\<rfloor> = \<lfloor>y\<rfloor>")
  case True
  with assms show ?thesis by (auto simp: py_round_def Let_def)
next
  case False
  with assms have "\<lfloor>x\<rfloor> + 1 \<le> \<lfloor>y\<rfloor>"
    by (meson floor_mono less_le not_le zless_imp_add1_zle)
  moreover have "py_round x \<le> \<lfloor>x\<rfloor> + 1" "\<lfloor>y\<rfloor> \<le> py_round y"
    by (auto simp: py_round_def Let_def)
  ultimately show ?thesis by linarith
qed

lemma round4_mono: "x \<le> y \<Longrightarrow> round4 x \<le> round4 y"
  by (simp add: round4_def py_round_mono divide_right_mono)

lemma round4_zero [simp]: "round4 0 = 0"
  using py_round_of_int [of 0] by (simp add: round4_def)

lemma round4_nonneg: "0 \<le> x \<Longrightarrow> 0 \<le> round4 x"
  using round4_mono [of 0 x] by simp

lemma round4_error: "\<bar>round4 x - x\<bar> \<le> 1 / 20000"
proof -
  have "\<bar>of_int (py_round (x * 10000)) - x * 10000\<bar> \<le> 1 / 2"
    using py_round_le [of "x * 10000"] py_round_ge [of "x * 10000"] by linarith
  then have "\<bar>(of_int (py_round (x * 10000)) - x * 10000) / 10000\<bar> \<le> 1 / 20000"
    by (simp add: abs_divide)
  then show ?thesis by (simp add: round4_def diff_divide_distrib)
qed

lemma round4_idem [simp]: "round4 (round4 x) = round4 x"
  by (simp add: round4_def)

end
