(* ===== verification/Config.thy ===== *)
theory Config
  imports RA_Prelude
begin

section \<open>Settings (app/config.py)\<close>

text \<open>
  The \<open>Settings\<close> class as a record and its defaults; a field from the environment overrides its default.
  Every component takes the settings as an argument, as the code reads the module-level
  \<open>settings\<close> at each call.
\<close>

record settings =
  openai_api_key :: string
  api_key :: string
  database_url :: string
  redis_url :: string
  auth_jwt_secret :: string
  auth_jwt_issuer :: string
  auth_jwt_audience :: string
  auth_access_token_ttl_seconds :: int
  auth_refresh_token_ttl_seconds :: int
  cover_public_base_url :: string
  readiness_timeout_seconds :: rat
  maintenance_mode :: bool
  environment :: string
  sentry_dsn :: string
  sentry_environment :: string
  sentry_release :: string
  sentry_traces_sample_rate :: rat
  max_duration_seconds :: int
  transcribe_model :: string
  recipe_model :: string
  vision_model :: string
  job_ttl_seconds :: int
  cost_transcribe_cents_per_min :: rat
  cost_text_cents_per_extract :: rat
  cost_ocr_cents_per_slide :: rat
  openai_chat_input_usd_per_mtok :: rat
  openai_chat_output_usd_per_mtok :: rat
  openai_chat_cached_input_usd_per_mtok :: rat
  openai_transcribe_input_usd_per_mtok :: rat
  openai_transcribe_output_usd_per_mtok :: rat
  openai_transcribe_usd_per_min :: rat
  superwall_webhook_secret :: string
  superwall_application_id :: int
  public_api_base_url :: string
  dashboard_password :: string
  dashboard_session_secret :: string
  dashboard_totp_secret :: string
  dashboard_cookie_secure :: bool
  cors_origins :: string
  billing_guard_enabled :: bool
  daily_api_budget_cents :: rat
  monthly_api_budget_cents :: rat
  user_monthly_budget_cents :: rat
  max_job_cost_cents :: rat
  local_stt_min_chars :: int
  caption_skip_audio_min_chars :: int
  max_vision_frames :: int
  first_vision_pass_frames :: int
  ocr_slide_max_tokens :: int
  ocr_overlay_max_tokens :: int
  max_concurrent_jobs :: int
  max_concurrent_jobs_per_user :: int
  max_pending_jobs_per_user :: int
  worker_enabled :: bool
  worker_poll_seconds :: rat
  worker_lease_seconds :: int
  worker_heartbeat_interval_seconds :: int
  worker_heartbeat_ttl_seconds :: int
  max_request_body_bytes :: int
  webhook_max_age_seconds :: int
  apple_root_ca_pem :: string
  apple_bundle_id :: string
  apple_environment :: string
  apple_team_id :: string
  apple_key_id :: string
  apple_private_key :: string
  apple_token_encryption_key :: string
  apns_enabled :: bool
  apns_team_id :: string
  apns_key_id :: string
  apns_auth_key :: string
  apns_auth_key_b64 :: string
  apns_topic :: string
  apns_environment :: string
  trusted_proxy_ips :: string
  rate_limit_per_ip_per_minute :: int
  rate_limit_per_user_per_minute :: int
  rate_limit_extract_per_ip_per_minute :: int
  rate_limit_extract_per_user_per_minute :: int
  rate_limit_extract_daily_per_user :: int

definition default_settings :: settings where
  "default_settings = \<lparr>
     openai_api_key = [],
     api_key = [],
     database_url = [],
     redis_url = [],
     auth_jwt_secret = [],
     auth_jwt_issuer = ''reciapp-api'',
     auth_jwt_audience = ''reciapp-ios'',
     auth_access_token_ttl_seconds = 3600,
     auth_refresh_token_ttl_seconds = 60 * 60 * 24 * 60,
     cover_public_base_url = [],
     readiness_timeout_seconds = 3,
     maintenance_mode = False,
     environment = ''production'',
     sentry_dsn = [],
     sentry_environment = ''production'',
     sentry_release = [],
     sentry_traces_sample_rate = 0,
     max_duration_seconds = 600,
     transcribe_model = ''gpt-4o-mini-transcribe'',
     recipe_model = ''gpt-6-luna'',
     vision_model = ''gpt-6-luna'',
     job_ttl_seconds = 3600,
     cost_transcribe_cents_per_min = 3 / 10,
     cost_text_cents_per_extract = 1 / 10,
     cost_ocr_cents_per_slide = 1 / 4,
     openai_chat_input_usd_per_mtok = 1 / 10,
     openai_chat_output_usd_per_mtok = 1 / 2,
     openai_chat_cached_input_usd_per_mtok = 1 / 100,
     openai_transcribe_input_usd_per_mtok = 5 / 4,
     openai_transcribe_output_usd_per_mtok = 5,
     openai_transcribe_usd_per_min = 3 / 1000,
     superwall_webhook_secret = [],
     superwall_application_id = 54783,
     public_api_base_url = ''https://api.acasillas.com/reciapp'',
     dashboard_password = [],
     dashboard_session_secret = [],
     dashboard_totp_secret = [],
     dashboard_cookie_secure = True,
     cors_origins = ''https://api.acasillas.com'',
     billing_guard_enabled = True,
     daily_api_budget_cents = 1000,
     monthly_api_budget_cents = 5000,
     user_monthly_budget_cents = 500,
     max_job_cost_cents = 50,
     local_stt_min_chars = 80,
     caption_skip_audio_min_chars = 80,
     max_vision_frames = 8,
     first_vision_pass_frames = 2,
     ocr_slide_max_tokens = 400,
     ocr_overlay_max_tokens = 800,
     max_concurrent_jobs = 8,
     max_concurrent_jobs_per_user = 2,
     max_pending_jobs_per_user = 20,
     worker_enabled = False,
     worker_poll_seconds = 5,
     worker_lease_seconds = 900,
     worker_heartbeat_interval_seconds = 20,
     worker_heartbeat_ttl_seconds = 90,
     max_request_body_bytes = 262144,
     webhook_max_age_seconds = 7 * 24 * 60 * 60,
     apple_root_ca_pem = [],
     apple_bundle_id = ''com.membri.reciapp'',
     apple_environment = ''Production'',
     apple_team_id = [],
     apple_key_id = [],
     apple_private_key = [],
     apple_token_encryption_key = [],
     apns_enabled = False,
     apns_team_id = [],
     apns_key_id = [],
     apns_auth_key = [],
     apns_auth_key_b64 = [],
     apns_topic = ''com.membri.reciapp'',
     apns_environment = ''production'',
     trusted_proxy_ips = [],
     rate_limit_per_ip_per_minute = 90,
     rate_limit_per_user_per_minute = 60,
     rate_limit_extract_per_ip_per_minute = 7,
     rate_limit_extract_per_user_per_minute = 5,
     rate_limit_extract_daily_per_user = 50 \<rparr>"

text \<open>
  A blank \<open>apple_root_ca_pem\<close> is replaced by the certificate shipped with the server, the argument
  \<open>bundled\<close> (a file under app/certs); \<open>default_settings\<close> leaves the field empty.
\<close>

definition use_bundled_apple_root_ca_when_unset :: "string \<Rightarrow> string option \<Rightarrow> string" where
  "use_bundled_apple_root_ca_when_unset bundled value =
     (case value of None \<Rightarrow> bundled | Some v \<Rightarrow> if strip v = [] then bundled else v)"

text \<open>\<open>cors_origin_list\<close>: comma-separated, stripped, blanks dropped.\<close>

definition cors_origin_list :: "settings \<Rightarrow> string list" where
  "cors_origin_list s =
     filter (\<lambda>o'. o' \<noteq> []) (map strip (split_char (CHR '','') (cors_origins s)))"

end
