(* ===== verification/Job_Guard.thy ===== *)
theory Job_Guard
  imports Config "HOL-Library.Multiset"
begin

section \<open>In-process job slots (app/job_guard.py)\<close>

text \<open>
  The module state is \<open>_global_active\<close> and the \<open>defaultdict\<close> \<open>_user_active\<close>; each function runs
  under \<open>_lock\<close>, so it is one atomic step. Reading a missing key of the \<open>defaultdict\<close> inserts it
  with 0, which \<open>touch\<close> keeps. The interface \<open>slot_pool\<close> states what the job pipeline relies on:
  a granted claim adds one held slot, a release by a holder removes one.
\<close>

subsection \<open>State and operations\<close>

record guard =
  global_active :: int
  user_active :: "(uuid \<times> int) list"

definition init_guard :: guard where
  "init_guard = \<lparr>global_active = 0, user_active = []\<rparr>"

definition user_count :: "guard \<Rightarrow> uuid \<Rightarrow> int" where
  "user_count g u = (case map_of (user_active g) u of None \<Rightarrow> 0 | Some n \<Rightarrow> n)"

definition touch :: "uuid \<Rightarrow> guard \<Rightarrow> guard" where
  "touch u g = g\<lparr>user_active := dput u (user_count g u) (user_active g)\<rparr>"

definition try_claim :: "settings \<Rightarrow> uuid \<Rightarrow> guard \<Rightarrow> bool \<times> guard" where
  "try_claim cfg u g =
     (if global_active g \<ge> max_concurrent_jobs cfg then (False, g)
      else let g' = touch u g in
        if user_count g' u \<ge> max_concurrent_jobs_per_user cfg then (False, g')
        else (True, g'\<lparr>global_active := global_active g' + 1,
                       user_active := dput u (user_count g' u + 1) (user_active g')\<rparr>))"

definition claim :: "settings \<Rightarrow> uuid \<Rightarrow> guard \<Rightarrow> unit res \<times> guard" where
  "claim cfg u g =
     (case try_claim cfg u g of
        (True, g') \<Rightarrow> (Inr (), g')
      | (False, g') \<Rightarrow>
          (Inl (HTTPException 429 None ''Too many jobs in progress'' (Some 15)), g'))"

text \<open>\<open>dict.pop(k, None)\<close>.\<close>

definition dpop :: "string \<Rightarrow> (string \<times> 'v) list \<Rightarrow> (string \<times> 'v) list" where
  "dpop k d = filter (\<lambda>(k', _). k' \<noteq> k) d"

definition release :: "uuid \<Rightarrow> guard \<Rightarrow> guard" where
  "release u g =
     (let n = max 0 (user_count g u - 1);
          ua = dput u n (user_active g)
      in \<lparr>global_active = max 0 (global_active g - 1),
          user_active = (if n = 0 then dpop u ua else ua)\<rparr>)"

definition active_counts :: "guard \<Rightarrow> int \<times> nat" where
  "active_counts g = (global_active g, length (user_active g))"

subsection \<open>The slot-pool interface\<close>

locale slot_pool =
  fixes acquire :: "'u \<Rightarrow> 's \<Rightarrow> bool \<times> 's"
    and give_back :: "'u \<Rightarrow> 's \<Rightarrow> 's"
    and holders :: "'s \<Rightarrow> 'u multiset"
    and ok :: "'s \<Rightarrow> bool"
    and cap :: nat
    and ucap :: nat
  assumes acquire_ok: "ok s \<Longrightarrow> acquire u s = (b, s') \<Longrightarrow> ok s'"
    and acquire_True: "ok s \<Longrightarrow> acquire u s = (True, s') \<Longrightarrow>
          holders s' = add_mset u (holders s) \<and> size (holders s) < cap \<and> count (holders s) u < ucap"
    and acquire_False: "ok s \<Longrightarrow> acquire u s = (False, s') \<Longrightarrow>
          holders s' = holders s \<and> (cap \<le> size (holders s) \<or> ucap \<le> count (holders s) u)"
    and give_back_ok: "ok s \<Longrightarrow> u \<in># holders s \<Longrightarrow> ok (give_back u s)"
    and give_back_holders: "ok s \<Longrightarrow> u \<in># holders s \<Longrightarrow>
          holders (give_back u s) = holders s - {#u#}"
begin

text \<open>A claim followed by the matching release leaves the holders as they were.\<close>

lemma bracket_neutral:
  assumes "ok s" and "acquire u s = (True, s')"
  shows "ok (give_back u s') \<and> holders (give_back u s') = holders s"
  using assms acquire_ok [OF assms] acquire_True [OF assms] give_back_ok [of s' u]
    give_back_holders [of s' u] by simp

text \<open>The runs of a pool: claims by anyone, releases by holders only.\<close>

inductive pool_run :: "'s \<Rightarrow> 's \<Rightarrow> bool" where
  stay: "pool_run s s"
| claimed: "pool_run s t \<Longrightarrow> acquire u t = (b, t') \<Longrightarrow> pool_run s t'"
| released: "pool_run s t \<Longrightarrow> u \<in># holders t \<Longrightarrow> pool_run s (give_back u t)"

lemma pool_run_bounded:
  assumes "pool_run s t" and "ok s"
    and "size (holders s) \<le> cap" and "\<forall>u. count (holders s) u \<le> ucap"
  shows "ok t \<and> size (holders t) \<le> cap \<and> (\<forall>u. count (holders t) u \<le> ucap)"
  using assms
proof (induction rule: pool_run.induct)
  case (claimed s t u b t')
  then have t: "ok t" "size (holders t) \<le> cap" "\<forall>u. count (holders t) u \<le> ucap" by auto
  have ok': "ok t'" using t(1) claimed.hyps(2) by (rule acquire_ok)
  show ?case
  proof (cases b)
    case True
    with acquire_True [of t u t'] t claimed.hyps(2) ok' show ?thesis by auto
  next
    case False
    with acquire_False [of t u t'] t claimed.hyps(2) ok' show ?thesis by auto
  qed
next
  case (released s t u)
  then have t: "ok t" "size (holders t) \<le> cap" "\<forall>v. count (holders t) v \<le> ucap" by auto
  have "holders (give_back u t) \<subseteq># holders t"
    using give_back_holders [OF t(1) released.hyps(2)] by simp
  then have "size (holders (give_back u t)) \<le> cap" "\<forall>v. count (holders (give_back u t)) v \<le> ucap"
    using t(2,3) by (meson order_trans size_mset_mono subseteq_mset_def)+
  with give_back_ok [OF t(1) released.hyps(2)] show ?case by blast
qed auto

end

subsection \<open>The module is a slot pool\<close>

text \<open>The slots held, as a multiset of users, and what the module keeps between its fields.\<close>

fun held_of :: "(uuid \<times> int) list \<Rightarrow> uuid multiset" where
  "held_of [] = {#}"
| "held_of ((u, n) # d) = replicate_mset (nat n) u + held_of d"

definition held :: "guard \<Rightarrow> uuid multiset" where
  "held g = held_of (user_active g)"

definition guard_ok :: "guard \<Rightarrow> bool" where
  "guard_ok g \<longleftrightarrow> distinct (map fst (user_active g)) \<and> (\<forall>p \<in> set (user_active g). 0 \<le> snd p) \<and>
     global_active g = sum_list (map snd (user_active g))"

lemma guard_ok_init [simp]: "guard_ok init_guard" and held_init [simp]: "held init_guard = {#}"
  by (simp_all add: guard_ok_def init_guard_def held_def)

lemma count_held_of:
  "distinct (map fst d) \<Longrightarrow>
   count (held_of d) u = nat (case map_of d u of None \<Rightarrow> 0 | Some n \<Rightarrow> n)"
proof (induction d)
  case (Cons p d)
  then have "fst p \<notin> fst ` set d" by simp
  then have "map_of d (fst p) = None" by (simp add: map_of_eq_None_iff)
  with Cons show ?case by (cases p) auto
qed simp

lemma count_held: "guard_ok g \<Longrightarrow> count (held g) u = nat (user_count g u)"
  by (simp add: held_def guard_ok_def user_count_def count_held_of)

lemma size_held_of: "\<forall>p \<in> set d. 0 \<le> snd p \<Longrightarrow> int (size (held_of d)) = sum_list (map snd d)"
  by (induction d) auto

lemma size_held: "guard_ok g \<Longrightarrow> int (size (held g)) = global_active g"
  by (simp add: held_def guard_ok_def size_held_of)

lemma user_count_nonneg: "guard_ok g \<Longrightarrow> 0 \<le> user_count g u"
  by (auto simp: guard_ok_def user_count_def split: option.splits dest!: map_of_SomeD)

lemma sum_dput:
  fixes m :: int
  shows "sum_list (map snd (dput u m d)) =
     sum_list (map snd d) - (case map_of d u of None \<Rightarrow> 0 | Some n \<Rightarrow> n) + m"
  by (induction u m d rule: dput.induct) auto

lemma held_of_dput:
  "\<forall>p \<in> set d. 0 \<le> snd p \<Longrightarrow> 0 \<le> m \<Longrightarrow>
   held_of (dput u m d) + replicate_mset (nat (case map_of d u of None \<Rightarrow> 0 | Some n \<Rightarrow> n)) u =
   held_of d + replicate_mset (nat m) u"
  by (induction u m d rule: dput.induct) (auto simp: ac_simps)

lemma nonneg_dput:
  "\<forall>p \<in> set d. 0 \<le> snd p \<Longrightarrow> 0 \<le> (m::int) \<Longrightarrow> \<forall>p \<in> set (dput u m d). 0 \<le> snd p"
  by (induction u m d rule: dput.induct) auto

lemma dpop_zero:
  assumes "distinct (map fst d)" and "map_of d u = Some (0::int)"
  shows "held_of (dpop u d) = held_of d \<and> sum_list (map snd (dpop u d)) = sum_list (map snd d)"
  using assms
proof (induction d)
  case (Cons p d)
  obtain k n where p: "p = (k, n)" by (cases p)
  show ?case
  proof (cases "k = u")
    case True
    with Cons.prems p have "u \<notin> fst ` set d" "n = 0" by auto
    then have "dpop u d = d" by (force simp: dpop_def filter_id_conv)
    with True p \<open>n = 0\<close> show ?thesis by (simp add: dpop_def)
  next
    case False
    with Cons p show ?thesis by (simp add: dpop_def)
  qed
qed simp

lemma set_dpop: "set (dpop u d) \<subseteq> set d"
  by (auto simp: dpop_def)

lemma distinct_dpop: "distinct (map fst d) \<Longrightarrow> distinct (map fst (dpop u d))"
  by (simp add: dpop_def distinct_map_filter)

text \<open>Setting a user's count keeps the module consistent and changes that user's slots only.\<close>

lemma set_count:
  assumes "guard_ok g" and "0 \<le> m"
    and "g' = \<lparr>global_active = global_active g - user_count g u + m,
               user_active = dput u m (user_active g)\<rparr>"
  shows "guard_ok g'"
    and "held g' + replicate_mset (nat (user_count g u)) u = held g + replicate_mset (nat m) u"
proof -
  have d: "\<forall>p \<in> set (user_active g). 0 \<le> snd p" using assms(1) by (simp add: guard_ok_def)
  show "guard_ok g'"
    using assms nonneg_dput [OF d assms(2), of u]
    by (simp add: guard_ok_def user_count_def sum_dput distinct_keys_dput)
  show "held g' + replicate_mset (nat (user_count g u)) u = held g + replicate_mset (nat m) u"
    using held_of_dput [OF d assms(2), of u] assms(3) by (simp add: held_def user_count_def)
qed

lemma touch_eq:
  "touch u g = \<lparr>global_active = global_active g - user_count g u + user_count g u,
                user_active = dput u (user_count g u) (user_active g)\<rparr>"
  by (simp add: touch_def)

lemma touch_keeps:
  assumes "guard_ok g"
  shows "guard_ok (touch u g)" "held (touch u g) = held g"
    "user_count (touch u g) v = user_count g v" "global_active (touch u g) = global_active g"
  using set_count [OF assms user_count_nonneg [OF assms] touch_eq [of u g]]
  by (auto simp: touch_def user_count_def)

lemma try_claim_keeps:
  assumes ok: "guard_ok g" and tc: "try_claim cfg u g = (b, g')"
  shows "guard_ok g'"
    and "b \<Longrightarrow> held g' = add_mset u (held g) \<and> size (held g) < nat (max_concurrent_jobs cfg)
           \<and> count (held g) u < nat (max_concurrent_jobs_per_user cfg)"
    and "\<not> b \<Longrightarrow> held g' = held g \<and> (nat (max_concurrent_jobs cfg) \<le> size (held g)
           \<or> nat (max_concurrent_jobs_per_user cfg) \<le> count (held g) u)"
proof -
  note t = touch_keeps [OF ok, of u]
  let ?t = "touch u g" and ?n = "user_count g u"
  let ?g' = "\<lparr>global_active = global_active ?t - user_count ?t u + (?n + 1),
               user_active = dput u (?n + 1) (user_active ?t)\<rparr>"
  have n: "0 \<le> ?n" using ok by (rule user_count_nonneg)
  have s: "guard_ok ?g'" "held ?g' + replicate_mset (nat ?n) u = held g + replicate_mset (nat (?n + 1)) u"
    using set_count [OF t(1), of "?n + 1" ?g' u] n t by auto
  have "nat (?n + 1) = Suc (nat ?n)" using n by simp
  with s(2) have h: "held ?g' = add_mset u (held g)" by simp
  have eq: "b \<Longrightarrow> g' = ?g'"
    using tc t by (auto simp: try_claim_def Let_def split: if_splits intro!: guard.equality)
  have neq: "\<not> b \<Longrightarrow> g' = g \<or> g' = ?t"
    using tc by (auto simp: try_claim_def Let_def split: if_splits)
  have g: "int (size (held g)) = global_active g" and c: "int (count (held g) u) = ?n"
    using size_held [OF ok] count_held [OF ok, of u] n by auto
  show "guard_ok g'" using ok t(1) s(1) eq neq by (cases b) auto
  show "b \<Longrightarrow> held g' = add_mset u (held g) \<and> size (held g) < nat (max_concurrent_jobs cfg)
           \<and> count (held g) u < nat (max_concurrent_jobs_per_user cfg)"
    using tc t h eq g c
    by (simp add: try_claim_def Let_def zless_nat_eq_int_zless split: if_splits)
  show "\<not> b \<Longrightarrow> held g' = held g \<and> (nat (max_concurrent_jobs cfg) \<le> size (held g)
           \<or> nat (max_concurrent_jobs_per_user cfg) \<le> count (held g) u)"
    using tc t g c neq by (auto simp: try_claim_def Let_def split: if_splits)
qed

lemma release_keeps:
  assumes ok: "guard_ok g" and u: "u \<in># held g"
  shows "guard_ok (release u g)" and "held (release u g) = held g - {#u#}"
proof -
  let ?n = "user_count g u"
  have n: "1 \<le> ?n" using u count_held [OF ok, of u] by (simp flip: count_greater_zero_iff)
  let ?g' = "\<lparr>global_active = global_active g - ?n + (?n - 1),
               user_active = dput u (?n - 1) (user_active g)\<rparr>"
  have s: "guard_ok ?g'" "held ?g' + replicate_mset (nat ?n) u = held g + replicate_mset (nat (?n - 1)) u"
    using set_count [OF ok, of "?n - 1" ?g' u] n by auto
  obtain m where m: "nat ?n = Suc m" "nat (?n - 1) = m"
    using n by (metis Suc_nat_eq_nat_zadd1 add.commute diff_add_cancel diff_ge_0_iff_ge)
  with s(2) have "add_mset u (held ?g') = held g" by simp
  then have h: "held ?g' = held g - {#u#}" by (metis add_mset_remove_trivial)
  have "1 \<le> global_active g"
    using u size_held [OF ok] by (cases "held g") auto
  then have r: "release u g = (if ?n - 1 = 0 then ?g'\<lparr>user_active := dpop u (user_active ?g')\<rparr> else ?g')"
    using n by (auto simp: release_def Let_def max_def)
  have z: "?n - 1 = 0 \<Longrightarrow> map_of (user_active ?g') u = Some 0" by simp
  have d: "distinct (map fst (user_active ?g'))" using s(1) by (simp add: guard_ok_def)
  show "guard_ok (release u g)"
    using r s(1) dpop_zero [OF d z] set_dpop [of u "user_active ?g'"] distinct_dpop [OF d, of u]
    by (auto simp: guard_ok_def split: if_splits)
  show "held (release u g) = held g - {#u#}"
    using r h dpop_zero [OF d z] by (auto simp: held_def)
qed

interpretation slots: slot_pool "try_claim cfg" release held guard_ok
    "nat (max_concurrent_jobs cfg)" "nat (max_concurrent_jobs_per_user cfg)" for cfg
  by unfold_locales (use try_claim_keeps release_keeps in blast)+

subsection \<open>Runs of the module\<close>

text \<open>
  Calls in the order the lock admits them; None when a release is not by a holder, which the
  pipeline never does for a slot it claimed.
\<close>

datatype slot_call = Claim uuid | Release uuid

fun run_slots :: "settings \<Rightarrow> slot_call list \<Rightarrow> guard \<Rightarrow> guard option" where
  "run_slots cfg [] g = Some g"
| "run_slots cfg (Claim u # cs) g = run_slots cfg cs (snd (try_claim cfg u g))"
| "run_slots cfg (Release u # cs) g =
     (if user_count g u \<ge> 1 then run_slots cfg cs (release u g) else None)"

lemma run_slots_pool_run:
  assumes "run_slots cfg cs g = Some g'" and "guard_ok g" and "slots.pool_run cfg g0 g"
  shows "slots.pool_run cfg g0 g' \<and> guard_ok g'"
  using assms
proof (induction cfg cs g rule: run_slots.induct)
  case (2 cfg u cs g)
  obtain b t where t: "try_claim cfg u g = (b, t)" by (cases "try_claim cfg u g")
  with 2 slots.claimed [of cfg g0 g u b t] try_claim_keeps(1) [of g cfg u b t] show ?case by simp
next
  case (3 cfg u cs g)
  then have u: "u \<in># held g"
    by (auto simp: count_held simp flip: count_greater_zero_iff split: if_splits)
  with 3 slots.released [of cfg g0 g u] release_keeps [of g u] show ?case by (auto split: if_splits)
qed auto

text \<open>C4: Along any sequence of claims and matching releases from the start of the process, the
  global counter equals the number of slots held, is never above \<open>max_concurrent_jobs\<close>, and no
  user holds more than \<open>max_concurrent_jobs_per_user\<close> slots.\<close>

theorem concurrency_bounded:
  assumes "run_slots cfg cs init_guard = Some g"
    and "0 \<le> max_concurrent_jobs cfg" and "0 \<le> max_concurrent_jobs_per_user cfg"
  shows "global_active g = int (size (held g)) \<and> global_active g \<le> max_concurrent_jobs cfg \<and>
         (\<forall>u. user_count g u = int (count (held g) u) \<and>
              user_count g u \<le> max_concurrent_jobs_per_user cfg)"
proof -
  have r: "slots.pool_run cfg init_guard g" and ok: "guard_ok g"
    using run_slots_pool_run [OF assms(1), of init_guard] slots.stay by auto
  have "size (held g) \<le> nat (max_concurrent_jobs cfg)"
    and "\<forall>u. count (held g) u \<le> nat (max_concurrent_jobs_per_user cfg)"
    using slots.pool_run_bounded [OF r] by auto
  with assms(2,3) show ?thesis
    using size_held [OF ok] count_held [OF ok] user_count_nonneg [OF ok]
    by (simp add: nat_le_iff)
qed

theorem concurrency_bounded_witness:
  "\<exists>g. run_slots default_settings [Claim ''a'', Claim ''a'', Claim ''a'', Claim ''b'', Release ''a''] init_guard
        = Some g \<and> global_active g = 2 \<and> global_active g \<le> max_concurrent_jobs default_settings"
proof -
  let ?cs = "[Claim ''a'', Claim ''a'', Claim ''a'', Claim ''b'', Release ''a'']"
  have r: "run_slots default_settings ?cs init_guard =
      Some \<lparr>global_active = 2, user_active = [(''a'', 1), (''b'', 1)]\<rparr>"
    by (simp add: try_claim_def touch_def user_count_def release_def init_guard_def
        default_settings_def)
  from concurrency_bounded [OF r] r show ?thesis by (simp add: default_settings_def)
qed

text \<open>A release undoes the claim it matches: after a granted claim and the release of the same
  user, the held slots are what they were, so a job that ends in any way leaves no slot behind.\<close>

theorem claim_release_neutral:
  assumes "guard_ok g" and "try_claim cfg u g = (True, g')"
  shows "held (release u g') = held g \<and> global_active (release u g') = global_active g \<and>
         guard_ok (release u g')"
  using slots.bracket_neutral [OF assms] assms(1) size_held by metis

theorem claim_release_neutral_witness:
  "held (release ''a'' (snd (try_claim default_settings ''a'' init_guard))) = held init_guard"
proof -
  have t: "try_claim default_settings ''a'' init_guard =
      (True, snd (try_claim default_settings ''a'' init_guard))"
    by (simp add: try_claim_def touch_def user_count_def init_guard_def default_settings_def)
  from claim_release_neutral [OF guard_ok_init t] show ?thesis by simp
qed

end
