(* ===== verification/Costing.thy ===== *)
theory Costing
  imports Config
begin

section \<open>The cost meter (app/costing.py)\<close>

text \<open>
  One \<open>JobCostMeter\<close> per extraction or translation job accumulates the cents of every OpenAI
  call. A provider object (\<open>response.usage\<close> and its details) is a \<open>node\<close>: a plain value, a
  dictionary, or an object read by attribute; \<open>_int_attr\<close> reads keys of the one and attributes of
  the other, while \<open>getattr\<close> on a dictionary finds nothing.
\<close>

datatype node = NVal json | NDict "(string \<times> node) list" | NObj "(string \<times> node) list"

abbreviation NNone :: node where "NNone \<equiv> NVal JNull"

definition nget :: "(string \<times> node) list \<Rightarrow> string \<Rightarrow> node" where
  "nget d k = (case map_of d k of None \<Rightarrow> NNone | Some v \<Rightarrow> v)"

fun getattr :: "node \<Rightarrow> string \<Rightarrow> node" where
  "getattr (NObj d) k = nget d k"
| "getattr _ k = NNone"

fun ntruthy :: "node \<Rightarrow> bool" where
  "ntruthy (NVal v) = truthy v"
| "ntruthy (NDict d) = (d \<noteq> [])"
| "ntruthy (NObj d) = True"

definition nor :: "node \<Rightarrow> node \<Rightarrow> node" where
  "nor a b = (if ntruthy a then a else b)"

fun nnum :: "node \<Rightarrow> rat option" where
  "nnum (NVal v) = num_value v"
| "nnum _ = None"

fun int_attr :: "node \<Rightarrow> string list \<Rightarrow> int option" where
  "int_attr obj [] = None"
| "int_attr obj (n # ns) =
     (case nnum (case obj of NDict d \<Rightarrow> nget d n | _ \<Rightarrow> getattr obj n) of
        Some v \<Rightarrow> Some (py_int v)
      | None \<Rightarrow> int_attr obj ns)"

definition int_or :: "int option \<Rightarrow> int \<Rightarrow> int" where
  "int_or x d = (case x of None \<Rightarrow> d | Some v \<Rightarrow> if v = 0 then d else v)"

subsection \<open>Cents from provider usage\<close>

definition chat_usage_cents :: "settings \<Rightarrow> node \<Rightarrow> rat option" where
  "chat_usage_cents cfg usage =
     (if usage = NNone then None
      else let prompt = int_attr usage [''prompt_tokens'', ''input_tokens''];
               completion = int_attr usage [''completion_tokens'', ''output_tokens'']
        in if prompt = None \<and> completion = None then None
        else let prompt = int_or prompt 0; completion = int_or completion 0;
                 details = nor (getattr usage ''prompt_tokens_details'')
                               (getattr usage ''input_tokens_details'');
                 cached = (if details \<noteq> NNone then int_or (int_attr details [''cached_tokens'']) 0 else 0);
                 cached = min cached prompt;
                 uncached = max (prompt - cached) 0;
                 dollars = of_int uncached / 1000000 * openai_chat_input_usd_per_mtok cfg
                         + of_int cached / 1000000 * openai_chat_cached_input_usd_per_mtok cfg
                         + of_int completion / 1000000 * openai_chat_output_usd_per_mtok cfg
             in Some (round4 (dollars * 100)))"

definition transcribe_usage_cents :: "settings \<Rightarrow> node \<Rightarrow> rat option \<Rightarrow> rat option" where
  "transcribe_usage_cents cfg usage duration =
     (let by_duration =
            (case duration of
               Some s \<Rightarrow> if s > 0 then Some (round4 (s / 60 * openai_transcribe_usd_per_min cfg * 100))
                         else None
             | None \<Rightarrow> None)
      in if usage = NNone then by_duration
      else let inp = int_attr usage [''input_tokens'', ''prompt_tokens''];
               out = int_attr usage [''output_tokens'', ''completion_tokens''];
               details = nor (getattr usage ''input_token_details'')
                             (getattr usage ''prompt_tokens_details'');
               audio = (if details \<noteq> NNone then int_or (int_attr details [''audio_tokens'']) 0 else 0);
               txt = (if details \<noteq> NNone then int_or (int_attr details [''text_tokens'']) 0 else 0)
        in if inp \<noteq> None \<or> out \<noteq> None \<or> audio \<noteq> 0 \<or> txt \<noteq> 0
           then let billed = (if audio \<noteq> 0 \<or> txt \<noteq> 0 then audio + txt else int_or inp 0);
                    dollars = of_int billed / 1000000 * openai_transcribe_input_usd_per_mtok cfg
                            + of_int (int_or out 0) / 1000000 * openai_transcribe_output_usd_per_mtok cfg
                in Some (round4 (dollars * 100))
           else (case nnum (getattr usage ''seconds'') of
                   Some s \<Rightarrow> if s > 0 then Some (round4 (s / 60 * openai_transcribe_usd_per_min cfg * 100))
                             else by_duration
                 | None \<Rightarrow> by_duration))"

subsection \<open>The meter\<close>

datatype detail =
    ChatDetail (detail_cents: rat) (detail_frames: int)
  | TranscribeDetail (detail_cents: rat)
  | FallbackDetail string (detail_cents: rat)

record meter =
  cents :: rat
  openai_called :: bool
  chat_calls :: int
  transcribe_calls :: int
  vision_frames :: int
  details :: "detail list"

definition new_meter :: meter where
  "new_meter = \<lparr>cents = 0, openai_called = False, chat_calls = 0, transcribe_calls = 0,
     vision_frames = 0, details = []\<rparr>"

definition rat_or :: "rat option \<Rightarrow> rat \<Rightarrow> rat" where
  "rat_or x d = (case x of None \<Rightarrow> d | Some v \<Rightarrow> if v = 0 then d else v)"

definition chat_added :: "settings \<Rightarrow> node \<Rightarrow> rat option \<Rightarrow> int \<Rightarrow> rat" where
  "chat_added cfg response fallback frames =
     (case chat_usage_cents cfg (getattr response ''usage'') of
        Some c \<Rightarrow> c
      | None \<Rightarrow>
          let added = rat_or fallback (cost_text_cents_per_extract cfg)
          in if frames \<noteq> 0 then max added (of_int frames * cost_ocr_cents_per_slide cfg) else added)"

definition add_chat :: "settings \<Rightarrow> node \<Rightarrow> rat option \<Rightarrow> int \<Rightarrow> meter \<Rightarrow> rat \<times> meter" where
  "add_chat cfg response fallback frames m =
     (let added = chat_added cfg response fallback frames
      in (added, m\<lparr>openai_called := True, chat_calls := chat_calls m + 1,
                   vision_frames := (if frames \<noteq> 0 then vision_frames m + frames else vision_frames m),
                   cents := round4 (cents m + added),
                   details := details m @ [ChatDetail added frames]\<rparr>))"

definition transcription_added :: "settings \<Rightarrow> node \<Rightarrow> rat option \<Rightarrow> rat option \<Rightarrow> rat" where
  "transcription_added cfg response duration fallback =
     (case transcribe_usage_cents cfg (getattr response ''usage'') duration of
        Some c \<Rightarrow> c
      | None \<Rightarrow>
          let minutes = max (rat_or duration 60 / 60) (1 / 4)
          in (case fallback of Some f \<Rightarrow> f | None \<Rightarrow> minutes * cost_transcribe_cents_per_min cfg))"

definition add_transcription ::
  "settings \<Rightarrow> node \<Rightarrow> rat option \<Rightarrow> rat option \<Rightarrow> meter \<Rightarrow> rat \<times> meter" where
  "add_transcription cfg response duration fallback m =
     (let added = transcription_added cfg response duration fallback
      in (added, m\<lparr>openai_called := True, transcribe_calls := transcribe_calls m + 1,
                   cents := round4 (cents m + added),
                   details := details m @ [TranscribeDetail added]\<rparr>))"

definition add_fallback :: "rat \<Rightarrow> string \<Rightarrow> meter \<Rightarrow> rat \<times> meter" where
  "add_fallback c kind m =
     (let added = max c 0
      in if added \<le> 0 then (0, m)
         else (added, m\<lparr>openai_called := True, cents := round4 (cents m + added),
                        details := details m @ [FallbackDetail kind added]\<rparr>))"

text \<open>The module-level helpers act on the meter of the current scope, if there is one.\<close>

definition record_chat_usage ::
  "settings \<Rightarrow> node \<Rightarrow> rat option \<Rightarrow> int \<Rightarrow> meter option \<Rightarrow> rat \<times> meter option" where
  "record_chat_usage cfg response fallback frames cur =
     (case cur of None \<Rightarrow> (0, None)
      | Some m \<Rightarrow> (case add_chat cfg response fallback frames m of (a, m') \<Rightarrow> (a, Some m')))"

definition record_transcription_usage ::
  "settings \<Rightarrow> node \<Rightarrow> rat option \<Rightarrow> rat option \<Rightarrow> meter option \<Rightarrow> rat \<times> meter option" where
  "record_transcription_usage cfg response duration fallback cur =
     (case cur of None \<Rightarrow> (0, None)
      | Some m \<Rightarrow> (case add_transcription cfg response duration fallback m of (a, m') \<Rightarrow> (a, Some m')))"

text \<open>\<open>cost_meter_scope\<close>: the body runs with its own meter and the outer one is restored.\<close>

definition cost_meter_scope ::
  "(meter \<Rightarrow> 'r \<times> meter) \<Rightarrow> meter option \<Rightarrow> 'r \<times> meter \<times> meter option" where
  "cost_meter_scope body outer = (case body new_meter of (r, m) \<Rightarrow> (r, m, outer))"

definition max_carousel_slides :: int where
  "max_carousel_slides = 12"

definition estimate_miss_cost_cents :: "settings \<Rightarrow> int option \<Rightarrow> int \<Rightarrow> int \<Rightarrow> bool \<Rightarrow> rat" where
  "estimate_miss_cost_cents cfg duration slides frames used_transcribe =
     (let cost = cost_text_cents_per_extract cfg;
          minutes = max (of_int (int_or duration 60) / 60) (1 / 4);
          cost = (if used_transcribe then cost + minutes * cost_transcribe_cents_per_min cfg else cost);
          cost = (if slides > 0
                  then cost + of_int (min slides max_carousel_slides) * cost_ocr_cents_per_slide cfg else cost);
          cost = (if frames > 0 then cost + of_int frames * cost_ocr_cents_per_slide cfg else cost)
      in round4 cost)"

subsection \<open>The meter agrees with its log\<close>

text \<open>Calls of the meter as data, run in order.\<close>

datatype meter_call =
    Chat node "rat option" int
  | Transcribe node "rat option" "rat option"
  | Fallback rat string

fun meter_step :: "settings \<Rightarrow> meter_call \<Rightarrow> meter \<Rightarrow> meter" where
  "meter_step cfg (Chat r f n) m = snd (add_chat cfg r f n m)"
| "meter_step cfg (Transcribe r d f) m = snd (add_transcription cfg r d f m)"
| "meter_step cfg (Fallback c k) m = snd (add_fallback c k m)"

definition meter_run :: "settings \<Rightarrow> meter_call list \<Rightarrow> meter \<Rightarrow> meter" where
  "meter_run cfg cs m = fold (meter_step cfg) cs m"

definition logged :: "meter \<Rightarrow> rat" where
  "logged m = sum_list (map detail_cents (details m))"

definition meter_ok :: "meter \<Rightarrow> bool" where
  "meter_ok m \<longleftrightarrow>
     \<bar>cents m - logged m\<bar> \<le> of_nat (length (details m)) / 20000 \<and>
     (openai_called m \<longleftrightarrow> details m \<noteq> []) \<and>
     chat_calls m = int (length (filter is_ChatDetail (details m))) \<and>
     transcribe_calls m = int (length (filter is_TranscribeDetail (details m)))"

lemma meter_ok_new [simp]: "meter_ok new_meter"
  by (simp add: meter_ok_def new_meter_def logged_def)

lemma rounded_log:
  fixes c l a n :: rat
  assumes "\<bar>c - l\<bar> \<le> n / 20000"
  shows "\<bar>round4 (c + a) - (l + a)\<bar> \<le> (1 + n) / 20000"
  using assms round4_error [of "c + a"] by (auto simp: abs_le_iff add_divide_distrib; linarith)

text \<open>Every charge appends one entry to the log and rounds the total once.\<close>

lemma meter_ok_append:
  assumes ok: "meter_ok m"
    and "cents m' = round4 (cents m + detail_cents d)" and "details m' = details m @ [d]"
    and "openai_called m'"
    and "chat_calls m' = chat_calls m + (if is_ChatDetail d then 1 else 0)"
    and "transcribe_calls m' = transcribe_calls m + (if is_TranscribeDetail d then 1 else 0)"
  shows "meter_ok m'"
proof -
  have "logged m' = logged m + detail_cents d" by (simp add: logged_def assms(3))
  moreover have "\<bar>cents m - logged m\<bar> \<le> of_nat (length (details m)) / 20000"
    using ok by (simp only: meter_ok_def)
  ultimately have "\<bar>cents m' - logged m'\<bar> \<le> (1 + of_nat (length (details m))) / 20000"
    using rounded_log by (simp only: assms(2))
  then have "\<bar>cents m' - logged m'\<bar> \<le> of_nat (length (details m')) / 20000"
    by (simp only: assms(3) length_append list.size) simp
  then show ?thesis using ok assms(3-) unfolding meter_ok_def by simp
qed

lemma meter_step_ok [inv_intros]: "meter_ok m \<Longrightarrow> meter_ok (meter_step cfg c m)"
proof (cases c)
  case (Chat r f n)
  assume "meter_ok m"
  then show ?thesis
    by (rule meter_ok_append [where d = "ChatDetail (chat_added cfg r f n) n"])
      (simp_all add: Chat add_chat_def Let_def)
next
  case (Transcribe r d f)
  assume "meter_ok m"
  then show ?thesis
    by (rule meter_ok_append [where d = "TranscribeDetail (transcription_added cfg r d f)"])
      (simp_all add: Transcribe add_transcription_def Let_def)
next
  case (Fallback x k)
  assume ok: "meter_ok m"
  show ?thesis
  proof (cases "max x 0 \<le> 0")
    case True
    with ok show ?thesis by (simp add: Fallback add_fallback_def)
  next
    case False
    from ok show ?thesis
      by (rule meter_ok_append [where d = "FallbackDetail k (max x 0)"])
        (use False in \<open>simp_all add: Fallback add_fallback_def Let_def\<close>)
  qed
qed

lemma meter_run_ok: "meter_ok m \<Longrightarrow> meter_ok (meter_run cfg cs m)"
  unfolding meter_run_def by (induction cs arbitrary: m) (auto intro: inv_intros)

definition prices_ok :: "settings \<Rightarrow> bool" where
  "prices_ok cfg \<longleftrightarrow> 0 \<le> cost_text_cents_per_extract cfg \<and> 0 \<le> cost_transcribe_cents_per_min cfg \<and>
     0 \<le> cost_ocr_cents_per_slide cfg"

lemma prices_ok_default [simp]: "prices_ok default_settings"
  by (simp add: prices_ok_def default_settings_def)

lemma estimate_mono_frames:
  assumes "prices_ok cfg" and "f \<le> f'"
  shows "estimate_miss_cost_cents cfg d s f t \<le> estimate_miss_cost_cents cfg d s f' t"
proof -
  let ?p = "cost_ocr_cents_per_slide cfg"
  have p: "0 \<le> ?p" using assms(1) by (simp add: prices_ok_def)
  have "of_int f * ?p \<le> of_int f' * ?p" using assms(2) p by (simp add: mult_right_mono)
  moreover have "f' > 0 \<Longrightarrow> 0 \<le> of_int f' * ?p" using p by simp
  ultimately show ?thesis
    using assms(2) unfolding estimate_miss_cost_cents_def Let_def
    by (intro round4_mono) auto
qed

end
