(* ===== verification/Ip_Address.thy ===== *)
theory Ip_Address
  imports RA_Prelude
begin

section \<open>IP addresses as the ipaddress module reads them\<close>

text \<open>
  What the server uses of Python's \<open>ipaddress\<close>: parsing of IPv4 and IPv6 text, networks with a
  prefix length, membership, the classification properties and the canonical text. An address is
  its numeric value. Networks in dotted-netmask notation are not parsed (they read as invalid).
\<close>

datatype ip = V4 (v4_num: int) | V6 (v6_num: int)

subsection \<open>Parsing\<close>

definition is_digit :: "char \<Rightarrow> bool" where
  "is_digit c = (let n = of_char c :: nat in 48 \<le> n \<and> n \<le> 57)"

definition digits_value :: "string \<Rightarrow> int" where
  "digits_value s = fold (\<lambda>c a. a * 10 + (of_char c - 48)) s 0"

definition parse_octet :: "string \<Rightarrow> int option" where
  "parse_octet s =
     (if s = [] \<or> \<not> list_all is_digit s \<or> length s > 3 then None
      else if s \<noteq> ''0'' \<and> hd s = CHR ''0'' then None
      else if digits_value s > 255 then None else Some (digits_value s))"

definition parse_v4 :: "string \<Rightarrow> int option" where
  "parse_v4 s =
     (case map parse_octet (split_char (CHR ''.'') s) of
        [Some a, Some b, Some c, Some d] \<Rightarrow> Some (((a * 256 + b) * 256 + c) * 256 + d)
      | _ \<Rightarrow> None)"

definition hex_value :: "char \<Rightarrow> int option" where
  "hex_value c = (let n = of_char c :: int in
     if 48 \<le> n \<and> n \<le> 57 then Some (n - 48)
     else if 97 \<le> n \<and> n \<le> 102 then Some (n - 87)
     else if 65 \<le> n \<and> n \<le> 70 then Some (n - 55) else None)"

fun hex_fold :: "int \<Rightarrow> string \<Rightarrow> int option" where
  "hex_fold acc [] = Some acc"
| "hex_fold acc (c # s) = (case hex_value c of None \<Rightarrow> None | Some v \<Rightarrow> hex_fold (acc * 16 + v) s)"

definition parse_hextet :: "string \<Rightarrow> int option" where
  "parse_hextet s = (if s = [] \<or> length s > 4 then None else hex_fold 0 s)"

fun opt_all :: "'a option list \<Rightarrow> 'a list option" where
  "opt_all [] = Some []"
| "opt_all (None # xs) = None"
| "opt_all (Some x # xs) = map_option (Cons x) (opt_all xs)"

text \<open>The trailing dotted quad of an IPv6 text counts as two groups.\<close>

definition expand_tail :: "string list \<Rightarrow> string list option \<times> int list" where
  "expand_tail parts =
     (if parts \<noteq> [] \<and> contains (last parts) ''.''
      then (case parse_v4 (last parts) of
              None \<Rightarrow> (None, [])
            | Some n \<Rightarrow> (Some (butlast parts), [n div 65536, n mod 65536]))
      else (Some parts, []))"

definition value_of_groups :: "int list \<Rightarrow> int" where
  "value_of_groups gs = fold (\<lambda>g a. a * 65536 + g) gs 0"

definition groups :: "string \<Rightarrow> int list option" where
  "groups s =
     (if s = [] then Some []
      else case expand_tail (split_char (CHR '':'') s) of
             (None, _) \<Rightarrow> None
           | (Some ps, ts) \<Rightarrow> map_option (\<lambda>gs. gs @ ts) (opt_all (map parse_hextet ps)))"

definition parse_v6 :: "string \<Rightarrow> int option" where
  "parse_v6 s0 =
     (let s = takeWhile (\<lambda>c. c \<noteq> CHR ''%'') s0
      in case split_once ''::'' s of
           Some (a, b) \<Rightarrow>
             (case (groups a, groups b) of
                (Some ga, Some gb) \<Rightarrow>
                  if contains a ''.'' \<or> length ga + length gb > 7 then None
                  else Some (value_of_groups (ga @ replicate (8 - length ga - length gb) 0 @ gb))
              | _ \<Rightarrow> None)
         | None \<Rightarrow>
             (case groups s of
                Some gs \<Rightarrow> if length gs = 8 then Some (value_of_groups gs) else None
              | None \<Rightarrow> None))"

definition ip_address :: "string \<Rightarrow> ip option" where
  "ip_address s = (case parse_v4 s of Some n \<Rightarrow> Some (V4 n) | None \<Rightarrow> map_option V6 (parse_v6 s))"

subsection \<open>Networks\<close>

datatype net = Net4 int nat | Net6 int nat  \<comment> \<open>base address, prefix length\<close>

fun in_net :: "ip \<Rightarrow> net \<Rightarrow> bool" where
  "in_net (V4 a) (Net4 b l) = (a div 2 ^ (32 - l) = b div 2 ^ (32 - l))"
| "in_net (V6 a) (Net6 b l) = (a div 2 ^ (128 - l) = b div 2 ^ (128 - l))"
| "in_net _ _ = False"

definition parse_prefix :: "nat \<Rightarrow> string \<Rightarrow> nat option" where
  "parse_prefix m s =
     (if s \<noteq> [] \<and> list_all is_digit s \<and> digits_value s \<le> int m then Some (nat (digits_value s)) else None)"

text \<open>\<open>ip_network(s, strict=False)\<close>.\<close>

definition ip_network :: "string \<Rightarrow> net option" where
  "ip_network s =
     (case split_char (CHR ''/'') s of
        [a] \<Rightarrow> (case ip_address a of
                  Some (V4 n) \<Rightarrow> Some (Net4 n 32) | Some (V6 n) \<Rightarrow> Some (Net6 n 128) | None \<Rightarrow> None)
      | [a, l] \<Rightarrow> (case ip_address a of
                  Some (V4 n) \<Rightarrow> map_option (Net4 n) (parse_prefix 32 l)
                | Some (V6 n) \<Rightarrow> map_option (Net6 n) (parse_prefix 128 l)
                | None \<Rightarrow> None)
      | _ \<Rightarrow> None)"

subsection \<open>Classification\<close>

definition v4 :: "int \<Rightarrow> int \<Rightarrow> int \<Rightarrow> int \<Rightarrow> int" where
  "v4 a b c d = ((a * 256 + b) * 256 + c) * 256 + d"

definition v6_top :: "int \<Rightarrow> int \<Rightarrow> int \<Rightarrow> int" where
  "v6_top a b c = ((a * 65536 + b) * 65536 + c) * 2 ^ 80"

definition private4 :: "net list" where
  "private4 = [Net4 (v4 0 0 0 0) 8, Net4 (v4 10 0 0 0) 8, Net4 (v4 127 0 0 0) 8,
     Net4 (v4 169 254 0 0) 16, Net4 (v4 172 16 0 0) 12, Net4 (v4 192 0 0 0) 24,
     Net4 (v4 192 0 0 170) 31, Net4 (v4 192 0 2 0) 24, Net4 (v4 192 168 0 0) 16,
     Net4 (v4 198 18 0 0) 15, Net4 (v4 198 51 100 0) 24, Net4 (v4 203 0 113 0) 24,
     Net4 (v4 240 0 0 0) 4, Net4 (v4 255 255 255 255) 32]"

definition private4_exceptions :: "net list" where
  "private4_exceptions = [Net4 (v4 192 0 0 9) 32, Net4 (v4 192 0 0 10) 32]"

definition private6 :: "net list" where
  "private6 = [Net6 1 128, Net6 0 128, Net6 (65535 * 2 ^ 32) 96, Net6 (v6_top 100 65435 1) 48,
     Net6 (v6_top 256 0 0) 64, Net6 (v6_top 8193 0 0) 23, Net6 (v6_top 8193 3512 0) 32,
     Net6 (v6_top 8194 0 0) 16, Net6 (v6_top 16383 0 0) 20, Net6 (v6_top 64512 0 0) 7,
     Net6 (v6_top 65152 0 0) 10]"

definition private6_exceptions :: "net list" where
  "private6_exceptions = [Net6 (v6_top 8193 1 0 + 1) 128, Net6 (v6_top 8193 1 0 + 2) 128,
     Net6 (v6_top 8193 3 0) 32, Net6 (v6_top 8193 4 274) 48, Net6 (v6_top 8193 32 0) 28,
     Net6 (v6_top 8193 48 0) 28]"

definition reserved6 :: "net list" where
  "reserved6 = [Net6 0 8, Net6 (v6_top 256 0 0) 8, Net6 (v6_top 512 0 0) 7, Net6 (v6_top 1024 0 0) 6,
     Net6 (v6_top 2048 0 0) 5, Net6 (v6_top 4096 0 0) 4, Net6 (v6_top 16384 0 0) 3,
     Net6 (v6_top 24576 0 0) 3, Net6 (v6_top 32768 0 0) 3, Net6 (v6_top 40960 0 0) 3,
     Net6 (v6_top 49152 0 0) 3, Net6 (v6_top 57344 0 0) 4, Net6 (v6_top 61440 0 0) 5,
     Net6 (v6_top 63488 0 0) 6, Net6 (v6_top 65024 0 0) 9]"

definition any_net :: "ip \<Rightarrow> net list \<Rightarrow> bool" where
  "any_net a ns = list_ex (in_net a) ns"

definition ipv4_mapped :: "int \<Rightarrow> int option" where
  "ipv4_mapped n = (if n div 2 ^ 32 = 65535 then Some (n mod 2 ^ 32) else None)"

definition is_private4 :: "int \<Rightarrow> bool" where
  "is_private4 n = (any_net (V4 n) private4 \<and> \<not> any_net (V4 n) private4_exceptions)"

fun is_private :: "ip \<Rightarrow> bool" where
  "is_private (V4 n) = is_private4 n"
| "is_private (V6 n) =
     (case ipv4_mapped n of
        Some m \<Rightarrow> is_private4 m
      | None \<Rightarrow> any_net (V6 n) private6 \<and> \<not> any_net (V6 n) private6_exceptions)"

fun is_loopback :: "ip \<Rightarrow> bool" where
  "is_loopback (V4 n) = in_net (V4 n) (Net4 (v4 127 0 0 0) 8)"
| "is_loopback (V6 n) = (n = 1)"

fun is_link_local :: "ip \<Rightarrow> bool" where
  "is_link_local (V4 n) = in_net (V4 n) (Net4 (v4 169 254 0 0) 16)"
| "is_link_local (V6 n) = in_net (V6 n) (Net6 (v6_top 65152 0 0) 10)"

fun is_reserved :: "ip \<Rightarrow> bool" where
  "is_reserved (V4 n) = in_net (V4 n) (Net4 (v4 240 0 0 0) 4)"
| "is_reserved (V6 n) = any_net (V6 n) reserved6"

fun is_multicast :: "ip \<Rightarrow> bool" where
  "is_multicast (V4 n) = in_net (V4 n) (Net4 (v4 224 0 0 0) 4)"
| "is_multicast (V6 n) = in_net (V6 n) (Net6 (v6_top 65280 0 0) 8)"

fun is_unspecified :: "ip \<Rightarrow> bool" where
  "is_unspecified (V4 n) = (n = 0)"
| "is_unspecified (V6 n) = (n = 0)"

subsection \<open>Canonical text\<close>

definition v4_str :: "int \<Rightarrow> string" where
  "v4_str n = join ''.'' (map int_str [n div 2 ^ 24 mod 256, n div 2 ^ 16 mod 256, n div 2 ^ 8 mod 256, n mod 256])"

fun hex_str :: "int \<Rightarrow> string" where
  "hex_str n =
     (let d = (\<lambda>k::int. if k < 10 then char_of (48 + k) else char_of (87 + k))
      in if n < 16 then [d (max n 0)] else hex_str (n div 16) @ [d (n mod 16)])"

declare hex_str.simps [simp del]

definition v6_groups :: "int \<Rightarrow> int list" where
  "v6_groups n = map (\<lambda>i. n div 65536 ^ (7 - i) mod 65536) [0..<8]"

text \<open>The first longest run of at least two zero groups is written \<open>::\<close>.\<close>

definition zero_run :: "int list \<Rightarrow> nat \<Rightarrow> nat" where
  "zero_run gs i = length (takeWhile (\<lambda>g. g = 0) (drop i gs))"

definition v6_str :: "int \<Rightarrow> string" where
  "v6_str n =
     (let gs = v6_groups n;
          best = fold max (map (zero_run gs) [0..<8]) 0;
          hex = (\<lambda>xs. join '':'' (map hex_str xs))
      in if best < 2 then hex gs
         else let i = length (takeWhile (\<lambda>j. zero_run gs j \<noteq> best) [0..<8])
              in hex (take i gs) @ ''::'' @ hex (drop (i + best) gs))"

fun ip_str :: "ip \<Rightarrow> string" where
  "ip_str (V4 n) = v4_str n"
| "ip_str (V6 n) = v6_str n"

lemma ip_address_examples:
  "ip_address ''10.0.0.1'' = Some (V4 167772161)"
  "ip_address ''256.1.1.1'' = None"
  "ip_address ''::1'' = Some (V6 1)"
  "ip_address ''metadata'' = None"
  by code_simp+

end
