(* ===== verification/Rate_Limit.thy ===== *)
theory Rate_Limit
  imports Config Ip_Address
begin

section \<open>Rate limits and temporary bans (app/security.py, app/cache.py)\<close>

text \<open>
  The in-process sliding window, the Redis fixed window that replaces it when Redis answers, the
  escalating ban register and \<open>require_rate_limit\<close>, which combines them. Time is the argument
  \<open>now\<close> of each call (\<open>time.monotonic\<close>). What Redis answers is an argument (\<open>redis_env\<close>): whether
  a connection attempt succeeds, the reply to INCR (None when it raises) and whether EXPIRE raises.
\<close>

subsection \<open>The Redis client (app/cache.py)\<close>

record cache =
  cache_client :: bool
  failed_until :: mono_time

record redis_env =
  connect_ok :: bool
  incr_reply :: "int option"
  expire_ok :: bool

definition fail_backoff_seconds :: rat where
  "fail_backoff_seconds = 5"

definition reset_cache :: cache where
  "reset_cache = \<lparr>cache_client = False, failed_until = 0\<rparr>"

definition get_redis :: "settings \<Rightarrow> redis_env \<Rightarrow> mono_time \<Rightarrow> cache \<Rightarrow> bool \<times> cache" where
  "get_redis cfg env now c =
     (if strip (redis_url cfg) = [] then (False, c)
      else if cache_client c then (True, c)
      else if now < failed_until c then (False, c)
      else if connect_ok env then (True, c\<lparr>cache_client := True\<rparr>)
      else (False, c\<lparr>failed_until := now + fail_backoff_seconds\<rparr>))"

text \<open>None means the caller uses the memory limiter.\<close>

definition redis_rate_allow ::
  "settings \<Rightarrow> redis_env \<Rightarrow> mono_time \<Rightarrow> int \<Rightarrow> cache \<Rightarrow> bool option \<times> cache" where
  "redis_rate_allow cfg env now lmt c =
     (case get_redis cfg env now c of
        (False, c') \<Rightarrow> (None, c')
      | (True, c') \<Rightarrow>
          (case incr_reply env of
             None \<Rightarrow> (None, reset_cache)
           | Some n \<Rightarrow> if n = 1 \<and> \<not> expire_ok env then (None, reset_cache)
                       else (Some (n \<le> lmt), c')))"

subsection \<open>The sliding window\<close>

record limiter =
  lim_limit :: int
  lim_window :: int
  hits :: "string \<Rightarrow> mono_time list"

definition new_limiter :: "int \<Rightarrow> int \<Rightarrow> limiter" where
  "new_limiter l w = \<lparr>lim_limit = max 1 l, lim_window = max 1 w, hits = (\<lambda>_. [])\<rparr>"

definition allow :: "string \<Rightarrow> mono_time \<Rightarrow> limiter \<Rightarrow> bool \<times> limiter" where
  "allow key now l =
     (let cutoff = now - of_int (lim_window l);
          bucket = dropWhile (\<lambda>t. t \<le> cutoff) (hits l key)
      in if int (length bucket) \<ge> lim_limit l
         then (False, l\<lparr>hits := (hits l)(key := bucket)\<rparr>)
         else (True, l\<lparr>hits := (hits l)(key := bucket @ [now])\<rparr>))"

type_synonym limiters = "(int \<times> int) \<rightharpoonup> limiter"

definition allow_rate_limit ::
  "settings \<Rightarrow> redis_env \<Rightarrow> mono_time \<Rightarrow> string \<Rightarrow> int \<Rightarrow> int \<Rightarrow> cache \<times> limiters
     \<Rightarrow> bool \<times> (cache \<times> limiters)" where
  "allow_rate_limit cfg env now key lim0 win0 st =
     (let l = max 1 lim0; w = max 1 win0
      in case redis_rate_allow cfg env now l (fst st) of
           (Some b, c') \<Rightarrow> (b, (c', snd st))
         | (None, c') \<Rightarrow>
             (let limr = (case snd st (l, w) of None \<Rightarrow> new_limiter l w | Some x \<Rightarrow> x);
                  r = allow key now limr
              in (fst r, (c', (snd st)((l, w) \<mapsto> snd r)))))"

subsection \<open>Bans\<close>

definition ban_window_seconds :: rat where "ban_window_seconds = 5 * 60"
definition ban_threshold :: nat where "ban_threshold = 3"
definition ban_durations_seconds :: "int list" where
  "ban_durations_seconds = [5 * 60, 60 * 60, 24 * 60 * 60]"

record ban_state =
  violations :: "mono_time list"
  banned_until :: mono_time
  level :: nat

type_synonym bans = "string \<rightharpoonup> ban_state"

definition new_ban :: ban_state where
  "new_ban = \<lparr>violations = [], banned_until = 0, level = 0\<rparr>"

fun ban_markers :: "(string \<times> string) list \<Rightarrow> string \<Rightarrow> string" where
  "ban_markers [] key = ''key:'' @ key"
| "ban_markers ((marker, prefix) # ms) key =
     (case split_once marker key of
        Some (a, b) \<Rightarrow> prefix @ b
      | None \<Rightarrow> ban_markers ms key)"

definition ban_key :: "string \<Rightarrow> string" where
  "ban_key key =
     (if starts_with key ''extract-ip:'' \<or> starts_with key ''extract-user:''
         \<or> starts_with key ''extract-user-day:'' then key
      else ban_markers [(''-ip:'', ''ip:''), (''ip:'', ''ip:''),
                        (''-user:'', ''user:''), (''user:'', ''user:'')] key)"

definition ban_retry_after :: "ban_state \<Rightarrow> mono_time \<Rightarrow> int" where
  "ban_retry_after s now = max 1 (py_int (banned_until s - now))"

definition raise_if_banned :: "string \<Rightarrow> mono_time \<Rightarrow> bans \<Rightarrow> unit res" where
  "raise_if_banned key now bs =
     (case bs (ban_key key) of
        None \<Rightarrow> Inr ()
      | Some s \<Rightarrow>
          if banned_until s \<le> now then Inr ()
          else Inl (HTTPException 429 None ''Temporarily banned for repeated rate-limit violations''
                      (Some (ban_retry_after s now))))"

definition violate :: "mono_time \<Rightarrow> ban_state \<Rightarrow> int option \<times> ban_state" where
  "violate now s =
     (if banned_until s > now then (Some (ban_retry_after s now), s)
      else let vs = dropWhile (\<lambda>t. t \<le> now - ban_window_seconds) (violations s) @ [now]
           in if length vs < ban_threshold then (None, s\<lparr>violations := vs\<rparr>)
              else let duration = ban_durations_seconds ! min (level s) (length ban_durations_seconds - 1)
                   in (Some duration, s\<lparr>level := level s + 1, violations := [],
                                        banned_until := now + of_int duration\<rparr>))"

definition record_rate_limit_violation ::
  "string \<Rightarrow> mono_time \<Rightarrow> bans \<Rightarrow> int option \<times> bans" where
  "record_rate_limit_violation key now bs =
     (let bk = ban_key key;
          s = (case bs bk of None \<Rightarrow> new_ban | Some s \<Rightarrow> s);
          r = violate now s
      in (fst r, bs(bk \<mapsto> snd r)))"

definition check_not_banned :: "string \<Rightarrow> string option \<Rightarrow> mono_time \<Rightarrow> bans \<Rightarrow> unit res" where
  "check_not_banned client_ip user now bs =
     res_bind (raise_if_banned (''ip:'' @ client_ip) now bs)
       (\<lambda>_. case user of
              Some u \<Rightarrow> if u \<noteq> [] then raise_if_banned (''user:'' @ u) now bs else Inr ()
            | None \<Rightarrow> Inr ())"

subsection \<open>require_rate_limit\<close>

text \<open>
  \<open>audit_security_event\<close> is best effort: nothing is written in maintenance mode, and a failing
  insert (\<open>db_ok\<close> false) is swallowed. \<open>log_ip\<close> is the pseudonym of the request's address.
\<close>

record audit_entry =
  ae_event :: string
  ae_user :: "string option"
  ae_ip :: "string option"

record sec_state =
  sec_cache :: cache
  sec_limiters :: limiters
  sec_bans :: bans
  sec_audit :: "audit_entry list"

definition audit_security_event ::
  "settings \<Rightarrow> bool \<Rightarrow> string \<Rightarrow> string option \<Rightarrow> string option \<Rightarrow> sec_state \<Rightarrow> sec_state" where
  "audit_security_event cfg db_ok event log_ip user st =
     (if maintenance_mode cfg \<or> \<not> db_ok then st
      else st\<lparr>sec_audit := sec_audit st @
                [\<lparr>ae_event = take 80 event, ae_user = user, ae_ip = log_ip\<rparr>]\<rparr>)"

definition require_rate_limit ::
  "settings \<Rightarrow> redis_env \<Rightarrow> bool \<Rightarrow> mono_time \<Rightarrow> string option \<Rightarrow> string \<Rightarrow> int \<Rightarrow> int \<Rightarrow> string \<Rightarrow> int
     \<Rightarrow> string option \<Rightarrow> sec_state \<Rightarrow> unit res \<times> sec_state" where
  "require_rate_limit cfg env db_ok now log_ip key lmt win event retry_after user st =
     (case raise_if_banned key now (sec_bans st) of
        Inl e \<Rightarrow> (Inl e, st)
      | Inr _ \<Rightarrow>
        (case allow_rate_limit cfg env now key lmt win (sec_cache st, sec_limiters st) of
           (True, (c, ls)) \<Rightarrow> (Inr (), st\<lparr>sec_cache := c, sec_limiters := ls\<rparr>)
         | (False, (c, ls)) \<Rightarrow>
             (let r = record_rate_limit_violation key now (sec_bans st);
                  st' = audit_security_event cfg db_ok event log_ip user
                          (st\<lparr>sec_cache := c, sec_limiters := ls, sec_bans := snd r\<rparr>);
                  ban = fst r
              in (Inl (HTTPException 429 None
                    (if ban \<noteq> None \<and> ban \<noteq> Some 0
                     then ''Temporarily banned for repeated rate-limit violations''
                     else ''Too many requests'')
                    (Some (max 1 (case ban of Some b \<Rightarrow> if b = 0 then retry_after else b
                                            | None \<Rightarrow> retry_after)))), st'))))"

subsection \<open>The window bounds admitted calls\<close>

text \<open>Calls of one limiter in the order of its lock; the admitted ones.\<close>

fun admitted :: "(string \<times> mono_time) list \<Rightarrow> limiter \<Rightarrow> (string \<times> mono_time) list" where
  "admitted [] l = []"
| "admitted ((k, t) # cs) l =
     (case allow k t l of (b, l') \<Rightarrow> (if b then [(k, t)] else []) @ admitted cs l')"

definition times_of :: "string \<Rightarrow> (string \<times> mono_time) list \<Rightarrow> mono_time list" where
  "times_of k ps = map snd (filter (\<lambda>p. fst p = k) ps)"

definition in_window :: "rat \<Rightarrow> mono_time \<Rightarrow> mono_time list \<Rightarrow> nat" where
  "in_window w t ts = length (filter (\<lambda>x. t - w < x \<and> x \<le> t) ts)"

text \<open>What the bucket of \<open>k\<close> knows of the calls \<open>A\<close> admitted so far, the last reading being \<open>now\<close>.\<close>

definition tracks :: "limiter \<Rightarrow> string \<Rightarrow> mono_time list \<Rightarrow> mono_time \<Rightarrow> bool" where
  "tracks l k A now \<longleftrightarrow>
     sorted (hits l k) \<and> (\<forall>x \<in> set (hits l k). x \<le> now) \<and> (\<forall>x \<in> set A. x \<le> now) \<and>
     filter (\<lambda>x. now - of_int (lim_window l) < x) (hits l k)
       = filter (\<lambda>x. now - of_int (lim_window l) < x) A \<and>
     (\<forall>t. int (in_window (of_int (lim_window l)) t A) \<le> lim_limit l)"

lemma dropWhile_le_sorted:
  "sorted xs \<Longrightarrow> dropWhile (\<lambda>t. t \<le> c) xs = filter (\<lambda>t. (c::'a::linorder) < t) xs"
proof (induction xs)
  case (Cons x xs)
  show ?case
  proof (cases "x \<le> c")
    case True
    with Cons show ?thesis by auto
  next
    case False
    with Cons.prems have "\<forall>y \<in> set xs. c < y" by auto
    with False show ?thesis by (simp add: filter_id_conv)
  qed
qed simp

lemma filter_later:
  assumes "filter (\<lambda>x. (a::'a::linorder) < x) xs = filter (\<lambda>x. a < x) ys" and "a \<le> b"
  shows "filter (\<lambda>x. b < x) xs = filter (\<lambda>x. b < x) ys"
proof -
  have "filter (\<lambda>x. b < x) zs = filter (\<lambda>x. b < x) (filter (\<lambda>x. a < x) zs)" for zs
    using assms(2) by (induction zs) auto
  then show ?thesis using assms(1) by metis
qed

lemma tracks_later:
  assumes "tracks l k A now" and "now \<le> now'"
  shows "tracks l k A now'"
  using assms filter_later [of "now - of_int (lim_window l)" "hits l k" A "now' - of_int (lim_window l)"]
  by (fastforce simp: tracks_def)

lemma allow_other:
  "k \<noteq> k' \<Longrightarrow> allow k t l = (b, l') \<Longrightarrow> hits l' k' = hits l k'"
  by (auto simp: allow_def Let_def split: if_splits)

lemma allow_params:
  "allow k t l = (b, l') \<Longrightarrow> lim_limit l' = lim_limit l \<and> lim_window l' = lim_window l"
  by (auto simp: allow_def Let_def split: if_splits)

lemma tracks_other:
  "k \<noteq> k' \<Longrightarrow> allow k t l = (b, l') \<Longrightarrow> tracks l k' A now \<Longrightarrow> tracks l' k' A now"
  using allow_other [of k k' t l b l'] allow_params [of k t l b l'] by (simp add: tracks_def)

text \<open>An admitted call sees fewer than \<open>limit\<close> earlier ones in every window that contains it.\<close>

lemma in_window_snoc:
  assumes "t \<le> u" and "u - w < t" and "length (filter (\<lambda>x. t - w < x) A) < n"
  shows "in_window w u (A @ [t]) \<le> n"
proof -
  have "length (filter (\<lambda>x. u - w < x \<and> x \<le> u) A) \<le> length (filter (\<lambda>x. t - w < x) A)"
    using assms(1) by (induction A) auto
  with assms show ?thesis by (simp add: in_window_def)
qed

lemma allow_tracks:
  assumes tr: "tracks l k A now" and a: "allow k t l = (b, l')" and "now \<le> t"
    and w: "0 < lim_window l"
  shows "tracks l' k (if b then A @ [t] else A) t"
proof -
  let ?W = "of_int (lim_window l) :: rat"
  have tr': "tracks l k A t" using tr \<open>now \<le> t\<close> by (rule tracks_later)
  define B where "B = dropWhile (\<lambda>x. x \<le> t - ?W) (hits l k)"
  have B: "B = filter (\<lambda>x. t - ?W < x) (hits l k)"
    using tr' unfolding B_def by (simp add: tracks_def dropWhile_le_sorted)
  then have BA: "B = filter (\<lambda>x. t - ?W < x) A" using tr' by (simp add: tracks_def)
  have "sorted (hits l k)" using tr' by (simp add: tracks_def)
  then have sB: "sorted B" unfolding B by (rule sorted_wrt_filter)
  have fB: "\<forall>x \<in> set B. x \<le> t" "filter (\<lambda>x. t - ?W < x) B = B"
    using tr' B by (auto simp: tracks_def)
  have p: "lim_limit l' = lim_limit l" "lim_window l' = lim_window l"
    using allow_params [OF a] by auto
  show ?thesis
  proof (cases b)
    case False
    then have "hits l' k = B" using a by (auto simp: allow_def Let_def B_def split: if_splits)
    with False tr' sB fB BA p show ?thesis by (simp add: tracks_def)
  next
    case True
    then have h: "hits l' k = B @ [t]" and len: "int (length B) < lim_limit l"
      using a by (auto simp: allow_def Let_def B_def split: if_splits)
    have win: "int (in_window ?W u (A @ [t])) \<le> lim_limit l" for u
    proof (cases "t \<le> u \<and> u - ?W < t")
      case True
      have "length (filter (\<lambda>x. t - ?W < x) A) < nat (lim_limit l)" using len BA by auto
      from in_window_snoc [OF _ _ this] True len show ?thesis by fastforce
    next
      case False
      then have "in_window ?W u (A @ [t]) = in_window ?W u A" by (auto simp: in_window_def)
      with tr' show ?thesis by (simp add: tracks_def)
    qed
    show ?thesis using True h tr' sB fB BA p w win by (simp add: tracks_def sorted_append)
  qed
qed

lemma admitted_tracks:
  assumes "tracks l k A now" and "sorted (map snd cs)" and "\<forall>c \<in> set cs. now \<le> snd c"
    and "0 < lim_window l"
  shows "int (in_window (of_int (lim_window l)) t (A @ times_of k (admitted cs l))) \<le> lim_limit l"
  using assms
proof (induction cs arbitrary: l A now)
  case Nil
  then show ?case by (simp add: tracks_def times_of_def)
next
  case (Cons c cs)
  obtain k' u where c: "c = (k', u)" by (cases c)
  obtain b l' where a: "allow k' u l = (b, l')" by (cases "allow k' u l")
  have p: "lim_limit l' = lim_limit l" "lim_window l' = lim_window l" using allow_params [OF a] by auto
  have later: "sorted (map snd cs)" "\<forall>d \<in> set cs. u \<le> snd d" "now \<le> u"
    using Cons.prems c by auto
  let ?A = "if b \<and> k' = k then A @ [u] else A"
  have "tracks l' k ?A u"
  proof (cases "k' = k")
    case True
    with allow_tracks [OF Cons.prems(1) _ later(3) Cons.prems(4)] a show ?thesis by simp
  next
    case False
    with tracks_other [OF False a Cons.prems(1)] later(3) show ?thesis by (simp add: tracks_later)
  qed
  from Cons.IH [OF this later(1,2)] p Cons.prems(4)
  have "int (in_window (of_int (lim_window l)) t (?A @ times_of k (admitted cs l'))) \<le> lim_limit l"
    by simp
  moreover have "?A @ times_of k (admitted cs l') = A @ times_of k (admitted (c # cs) l)"
    using c a by (auto simp: times_of_def)
  ultimately show ?case by simp
qed

lemma tracks_new: "tracks (new_limiter n w) k [] now"
  by (simp add: tracks_def new_limiter_def in_window_def)



subsection \<open>Bans are scoped, escalate and end\<close>

definition extract_key :: "string \<Rightarrow> bool" where
  "extract_key key \<longleftrightarrow> starts_with key ''extract-ip:'' \<or> starts_with key ''extract-user:''
     \<or> starts_with key ''extract-user-day:''"

lemma ban_key_extract: "extract_key key \<Longrightarrow> ban_key key = key"
  by (auto simp: extract_key_def ban_key_def)

lemma ban_key_generic:
  "\<not> extract_key key \<Longrightarrow> \<exists>r. ban_key key = ''ip:'' @ r \<or> ban_key key = ''user:'' @ r \<or> ban_key key = ''key:'' @ r"
  by (auto simp: extract_key_def ban_key_def split: option.splits)

lemma ban_key_extract_ne:
  assumes "extract_key key" and "\<not> extract_key other"
  shows "ban_key other \<noteq> ban_key key"
proof -
  have "\<exists>r. key = CHR ''e'' # r" using assms(1) by (auto simp: extract_key_def starts_with_iff)
  then show ?thesis using ban_key_generic [OF assms(2)] ban_key_extract [OF assms(1)] by auto
qed

lemma raise_if_banned_cong:
  "bs (ban_key key) = bs' (ban_key key) \<Longrightarrow> raise_if_banned key now bs = raise_if_banned key now bs'"
  by (simp add: raise_if_banned_def)

lemma record_violation_other:
  "ban_key other \<noteq> ban_key key \<Longrightarrow>
   snd (record_rate_limit_violation key now bs) (ban_key other) = bs (ban_key other)"
  by (simp add: record_rate_limit_violation_def Let_def)

lemma ban_retry_after_pos: "1 \<le> ban_retry_after s now"
  by (simp add: ban_retry_after_def)

text \<open>Import bursts never block library reads. Whatever violations are recorded on extract keys,
  the answer of a ban check on any other key (the generic \<open>ip:\<close> and \<open>user:\<close> keys of the
  middleware among them) is unchanged.\<close>

theorem extract_bans_scoped:
  assumes "\<forall>v \<in> set vs. extract_key (fst v)" and "\<not> extract_key other"
  shows "raise_if_banned other now
           (fold (\<lambda>(k, t) b. snd (record_rate_limit_violation k t b)) vs bs)
         = raise_if_banned other now bs"
  using assms(1)
proof (induction vs arbitrary: bs)
  case (Cons v vs)
  obtain k t where v: "v = (k, t)" by (cases v)
  let ?b = "snd (record_rate_limit_violation k t bs)"
  have "ban_key other \<noteq> ban_key k" using ban_key_extract_ne [of k other] Cons.prems v assms(2) by simp
  then have "raise_if_banned other now ?b = raise_if_banned other now bs"
    by (intro raise_if_banned_cong record_violation_other)
  with Cons v show ?case by simp
qed simp

theorem extract_bans_scoped_witness:
  "raise_if_banned ''ip:10.0.0.1'' 3
     (fold (\<lambda>(k, t) b. snd (record_rate_limit_violation k t b))
        [(''extract-ip:10.0.0.1'', 0), (''extract-ip:10.0.0.1'', 1), (''extract-ip:10.0.0.1'', 2)] Map.empty)
   = Inr ()"
  using extract_bans_scoped [of "[(''extract-ip:10.0.0.1'', 0), (''extract-ip:10.0.0.1'', 1),
      (''extract-ip:10.0.0.1'', 2)]" "''ip:10.0.0.1''" 3 Map.empty]
  by (simp add: extract_key_def starts_with_def raise_if_banned_def)

definition ban_of :: "string \<Rightarrow> bans \<Rightarrow> ban_state" where
  "ban_of key bs = (case bs (ban_key key) of None \<Rightarrow> new_ban | Some s \<Rightarrow> s)"

lemma ban_of_new [simp]: "bs (ban_key key) = None \<Longrightarrow> ban_of key bs = new_ban"
  by (simp add: ban_of_def)

text \<open>The third violation within five minutes starts a ban of 5 minutes, 1 hour or 24 hours by
  level, counts the level up and forgets the violations; the key is refused with a Retry-After of
  at least one second until the ban ends, and is free from then on.\<close>

theorem third_violation_bans:
  assumes "banned_until (ban_of key bs) \<le> now"
    and "length (dropWhile (\<lambda>t. t \<le> now - 300) (violations (ban_of key bs))) = 2"
    and "record_rate_limit_violation key now bs = (r, bs')"
  shows "\<exists>d. r = Some d \<and>
           d = (if level (ban_of key bs) = 0 then 300 else if level (ban_of key bs) = 1 then 3600 else 86400) \<and>
           level (ban_of key bs') = level (ban_of key bs) + 1 \<and> violations (ban_of key bs') = [] \<and>
           (\<forall>t. now \<le> t \<and> t < now + of_int d \<longrightarrow>
              (\<exists>m n. raise_if_banned key t bs' = Inl (HTTPException 429 None m (Some n)) \<and> 1 \<le> n)) \<and>
           (\<forall>t. now + of_int d \<le> t \<longrightarrow> raise_if_banned key t bs' = Inr ())"
proof -
  let ?s = "ban_of key bs"
  let ?d = "ban_durations_seconds ! min (level ?s) (length ban_durations_seconds - 1)"
  have d: "?d = (if level ?s = 0 then 300 else if level ?s = 1 then 3600 else 86400)"
    by (auto simp: ban_durations_seconds_def min_def numeral_2_eq_2 less_Suc_eq)
  have v: "violate now ?s = (Some ?d, ?s\<lparr>level := level ?s + 1, violations := [],
             banned_until := now + of_int ?d\<rparr>)"
    using assms(1,2) by (simp add: violate_def Let_def ban_window_seconds_def ban_threshold_def)
  have r: "r = Some ?d" and b: "bs' (ban_key key) = Some (?s\<lparr>level := level ?s + 1, violations := [],
             banned_until := now + of_int ?d\<rparr>)"
    using assms(3) v by (auto simp: record_rate_limit_violation_def Let_def ban_of_def)
  show ?thesis
    using r d b ban_retry_after_pos
    by (intro exI [of _ ?d]) (auto simp: raise_if_banned_def ban_of_def not_le)
qed

theorem third_violation_bans_witness:
  "\<exists>m n. raise_if_banned ''extract-ip:1.1.1.1'' 100
      (snd (record_rate_limit_violation ''extract-ip:1.1.1.1'' 30
        (Map.empty(''extract-ip:1.1.1.1'' \<mapsto> \<lparr>violations = [10, 20], banned_until = 0, level = 0\<rparr>))))
     = Inl (HTTPException 429 None m (Some n)) \<and> 1 \<le> n"
proof -
  let ?k = "''extract-ip:1.1.1.1''"
  let ?s = "\<lparr>violations = [10, 20], banned_until = 0, level = 0\<rparr> :: ban_state"
  let ?b = "Map.empty(?k \<mapsto> ?s)"
  have "ban_key ?k = ?k" by (simp add: ban_key_def starts_with_def)
  then have s: "ban_of ?k ?b = ?s" by (simp add: ban_of_def)
  obtain r b' where rb: "record_rate_limit_violation ?k 30 ?b = (r, b')" by fastforce
  show ?thesis
    using third_violation_bans [OF _ _ rb] s rb by simp
qed

text \<open>\<open>require_rate_limit\<close> either admits the call, when no ban holds, leaving bans and the audit
  log alone, or refuses it with status 429 and a Retry-After of at least one second.\<close>

theorem require_rate_limit_outcome:
  assumes "require_rate_limit cfg env db_ok now log_ip key lmt win event retry user st = (r, st')"
  shows "(r = Inr () \<and> raise_if_banned key now (sec_bans st) = Inr () \<and>
            sec_bans st' = sec_bans st \<and> sec_audit st' = sec_audit st) \<or>
         (\<exists>m n. r = Inl (HTTPException 429 None m (Some n)) \<and> 1 \<le> n)"
proof (cases "raise_if_banned key now (sec_bans st)")
  case (Inl e)
  then obtain m n where "e = HTTPException 429 None m (Some n)" "1 \<le> n"
    using ban_retry_after_pos by (auto simp: raise_if_banned_def split: option.splits if_splits)
  moreover have "r = Inl e" using assms Inl by (simp add: require_rate_limit_def)
  ultimately show ?thesis by blast
next
  case (Inr x)
  with assms show ?thesis
    by (auto simp: require_rate_limit_def Let_def split: prod.splits bool.splits)
qed

theorem require_rate_limit_outcome_witness:
  "fst (require_rate_limit default_settings \<lparr>connect_ok = False, incr_reply = None, expire_ok = True\<rparr> True 5
      None ''auth-ip:1'' 10 60 ''e'' 60 None
      \<lparr>sec_cache = reset_cache, sec_limiters = Map.empty, sec_bans = Map.empty, sec_audit = []\<rparr>) = Inr ()"
proof -
  let ?st = "\<lparr>sec_cache = reset_cache, sec_limiters = Map.empty, sec_bans = Map.empty, sec_audit = []\<rparr>"
  let ?env = "\<lparr>connect_ok = False, incr_reply = None, expire_ok = True\<rparr>"
  obtain r st' where e: "require_rate_limit default_settings ?env True 5 None ''auth-ip:1'' 10 60 ''e'' 60 None ?st = (r, st')"
    by fastforce
  have "r = Inr ()"
    using e by (auto simp: require_rate_limit_def raise_if_banned_def allow_rate_limit_def redis_rate_allow_def
        get_redis_def reset_cache_def default_settings_def strip_def lstrip_def rstrip_def allow_def
        new_limiter_def Let_def)
  with require_rate_limit_outcome [OF e] e show ?thesis by simp
qed

end
