(* ===== verification/Url_Parse.thy ===== *)
theory Url_Parse
  imports RA_Prelude
begin

section \<open>URLs as urllib.parse reads them\<close>

text \<open>
  What the server uses of \<open>urllib.parse\<close>: \<open>urlparse\<close> with its \<open>hostname\<close>, \<open>port\<close>, \<open>username\<close> and
  \<open>password\<close> properties, \<open>parse_qs\<close>, \<open>urlencode\<close> and \<open>urlunparse\<close>. In this theory and in those
  that build on it for URLs, a \<^typ>\<open>char\<close> is a byte of the UTF-8 text, as percent-encoding works on
  bytes; only ASCII letters have a case.
\<close>

definition ascii_lower_char :: "char \<Rightarrow> char" where
  "ascii_lower_char c = (let n = of_char c :: nat in if 65 \<le> n \<and> n \<le> 90 then char_of (n + 32) else c)"

definition ascii_lower :: "string \<Rightarrow> string" where
  "ascii_lower = map ascii_lower_char"

definition is_alpha :: "char \<Rightarrow> bool" where
  "is_alpha c = (let n = of_char c :: nat in (65 \<le> n \<and> n \<le> 90) \<or> (97 \<le> n \<and> n \<le> 122))"

definition is_num :: "char \<Rightarrow> bool" where
  "is_num c = (let n = of_char c :: nat in 48 \<le> n \<and> n \<le> 57)"

definition is_scheme_char :: "char \<Rightarrow> bool" where
  "is_scheme_char c = (is_alpha c \<or> is_num c \<or> c \<in> set ''+-.'')"

text \<open>\<open>s.partition(c)\<close> and \<open>s.rpartition(c)\<close> as the part before, whether \<open>c\<close> occurs, the part after.\<close>

definition partition1 :: "char \<Rightarrow> string \<Rightarrow> string \<times> bool \<times> string" where
  "partition1 c s = (case split_once [c] s of Some (a, b) \<Rightarrow> (a, True, b) | None \<Rightarrow> (s, False, []))"

definition rpartition1 :: "char \<Rightarrow> string \<Rightarrow> string \<times> bool \<times> string" where
  "rpartition1 c s = (case split_once [c] (rev s) of
      Some (a, b) \<Rightarrow> (rev b, True, rev a) | None \<Rightarrow> ([], False, s))"

record url =
  u_scheme :: string
  u_netloc :: string
  u_path :: string
  u_params :: string
  u_query :: string
  u_fragment :: string

definition split_scheme :: "string \<Rightarrow> string \<times> string" where
  "split_scheme s =
     (case split_once '':'' s of
        Some (a, b) \<Rightarrow> if a \<noteq> [] \<and> is_alpha (hd a) \<and> list_all is_scheme_char a
                       then (ascii_lower a, b) else ([], s)
      | None \<Rightarrow> ([], s))"

definition split_netloc :: "string \<Rightarrow> string \<times> string" where
  "split_netloc s =
     (if starts_with s ''//''
      then (takeWhile (\<lambda>c. c \<notin> set ''/?#'') (drop 2 s), dropWhile (\<lambda>c. c \<notin> set ''/?#'') (drop 2 s))
      else ([], s))"

text \<open>The parameters are split off the last path segment.\<close>

definition split_params :: "string \<Rightarrow> string \<times> string" where
  "split_params p =
     (case rpartition1 (CHR ''/'') p of
        (dir, slash, last_seg) \<Rightarrow>
          (case partition1 (CHR '';'') last_seg of
             (a, found, b) \<Rightarrow>
               if found then ((if slash then dir @ ''/'' @ a else a), b) else (p, [])))"

definition uses_params :: "string list" where
  "uses_params = ['''', ''ftp'', ''hdl'', ''prospero'', ''http'', ''https'', ''shttp'', ''rtsp'',
     ''rtsps'', ''rtspu'', ''sip'', ''sips'', ''mms'', ''sftp'', ''tel'']"

definition clean_url :: "string \<Rightarrow> string" where
  "clean_url s = filter (\<lambda>c. (of_char c :: nat) \<notin> {9, 10, 13})
     (dropWhile (\<lambda>c. (of_char c :: nat) \<le> 32) s)"

text \<open>\<open>urlparse\<close>: ValueError for unbalanced brackets in the authority.\<close>

definition urlparse :: "string \<Rightarrow> url res" where
  "urlparse s0 =
     (let (sch, r1) = split_scheme (clean_url s0);
          (loc, r2) = split_netloc r1
      in if (CHR ''['' \<in> set loc) \<noteq> (CHR '']'' \<in> set loc) then Inl (ValueError ''Invalid IPv6 URL'')
      else let (r3, _, frag) = partition1 (CHR ''#'') r2;
               (r4, _, query) = partition1 (CHR ''?'') r3;
               (path, params) = (if sch \<in> set uses_params \<and> CHR '';'' \<in> set r4 then split_params r4
                                 else (r4, []))
           in Inr \<lparr>u_scheme = sch, u_netloc = loc, u_path = path, u_params = params,
                   u_query = query, u_fragment = frag\<rparr>)"

definition host_info :: "url \<Rightarrow> string \<times> string option" where
  "host_info u =
     (let (_, _, info) = rpartition1 (CHR ''@'') (u_netloc u);
          (_, br, bracketed) = partition1 (CHR ''['') info;
          (host, port) =
            (if br then let (h, _, r) = partition1 (CHR '']'') bracketed; (_, _, p) = partition1 (CHR '':'') r
                        in (h, p)
             else let (h, _, p) = partition1 (CHR '':'') info in (h, p))
      in (host, if port = [] then None else Some port))"

definition hostname :: "url \<Rightarrow> string option" where
  "hostname u = (let h = fst (host_info u) in if h = [] then None else Some (ascii_lower h))"

definition digits_int :: "string \<Rightarrow> int" where
  "digits_int s = fold (\<lambda>c a. a * 10 + (of_char c - 48)) s 0"

definition url_port :: "url \<Rightarrow> int option res" where
  "url_port u =
     (case snd (host_info u) of
        None \<Rightarrow> Inr None
      | Some p \<Rightarrow> if list_all is_num p \<and> digits_int p \<le> 65535 then Inr (Some (digits_int p))
                  else Inl (ValueError ''Port could not be cast to integer value''))"

definition userinfo :: "url \<Rightarrow> string option \<times> string option" where
  "userinfo u =
     (let (info, have, _) = rpartition1 (CHR ''@'') (u_netloc u)
      in if \<not> have then (None, None)
         else let (name, havep, pw) = partition1 (CHR '':'') info
              in (Some name, if havep then Some pw else None))"

subsection \<open>Query strings\<close>

definition hex_digit :: "char \<Rightarrow> nat option" where
  "hex_digit c = (let n = of_char c :: nat in
     if 48 \<le> n \<and> n \<le> 57 then Some (n - 48)
     else if 97 \<le> n \<and> n \<le> 102 then Some (n - 87)
     else if 65 \<le> n \<and> n \<le> 70 then Some (n - 55) else None)"

fun unquote :: "string \<Rightarrow> string" where
  "unquote (c # a # b # s) =
     (if c = CHR ''%''
      then (case (hex_digit a, hex_digit b) of
              (Some x, Some y) \<Rightarrow> char_of (x * 16 + y) # unquote s
            | _ \<Rightarrow> c # unquote (a # b # s))
      else c # unquote (a # b # s))"
| "unquote s = s"

definition unquote_plus :: "string \<Rightarrow> string" where
  "unquote_plus s = unquote (replace_char (CHR ''+'') (CHR '' '') s)"

definition is_quote_safe :: "char \<Rightarrow> bool" where
  "is_quote_safe c = (is_alpha c \<or> is_num c \<or> c \<in> set ''_.-~'')"

definition hex_upper :: "nat \<Rightarrow> char" where
  "hex_upper n = (if n < 10 then char_of (48 + n) else char_of (55 + n))"

definition quote_plus :: "string \<Rightarrow> string" where
  "quote_plus s = concat (map (\<lambda>c. if is_quote_safe c then [c]
      else if c = CHR '' '' then ''+''
      else let n = of_char c :: nat in [CHR ''%'', hex_upper (n div 16), hex_upper (n mod 16)]) s)"

text \<open>\<open>parse_qs(query, keep_blank_values=False)\<close>: names in order of first appearance.\<close>

definition qs_pair :: "string \<Rightarrow> (string \<times> string) option" where
  "qs_pair item =
     (case split_once ''='' item of
        Some (n, v) \<Rightarrow> if v = [] then None else Some (unquote_plus n, unquote_plus v)
      | None \<Rightarrow> None)"

fun add_value :: "string \<Rightarrow> string \<Rightarrow> (string \<times> string list) list \<Rightarrow> (string \<times> string list) list" where
  "add_value n v [] = [(n, [v])]"
| "add_value n v ((k, vs) # d) = (if k = n then (k, vs @ [v]) # d else (k, vs) # add_value n v d)"

definition parse_qs :: "string \<Rightarrow> (string \<times> string list) list" where
  "parse_qs q = fold (\<lambda>item d. case qs_pair item of Some (n, v) \<Rightarrow> add_value n v d | None \<Rightarrow> d)
     (split_char (CHR ''&'') q) []"

definition urlencode :: "(string \<times> string list) list \<Rightarrow> string" where
  "urlencode d = join ''&'' (concat (map (\<lambda>(k, vs). map (\<lambda>v. quote_plus k @ ''='' @ quote_plus v) vs) d))"

text \<open>\<open>urlunparse((scheme, netloc, path, '', query, ''))\<close> for the scheme the code passes, https.\<close>

definition urlunparse_https :: "string \<Rightarrow> string \<Rightarrow> string \<Rightarrow> string" where
  "urlunparse_https loc path query =
     (let p = (if path \<noteq> [] \<and> hd path \<noteq> CHR ''/'' then CHR ''/'' # path else path);
          body = (if loc \<noteq> [] \<or> take 2 path \<noteq> ''//'' then ''//'' @ loc @ p else path)
      in ''https:'' @ body @ (if query = [] then [] else CHR ''?'' # query))"

subsection \<open>Lemmas\<close>

lemma split_once_notin: "c \<notin> set a \<Longrightarrow> split_once [c] (a @ c # b) = Some (a, b)"
  by (induction a) (auto simp: starts_with_def)

lemma split_once_None: "c \<notin> set s \<Longrightarrow> split_once [c] s = None"
  by (induction s) (auto simp: starts_with_def)

lemma partition1_found: "c \<notin> set a \<Longrightarrow> partition1 c (a @ c # b) = (a, True, b)"
  by (simp add: partition1_def split_once_notin)

lemma partition1_none: "c \<notin> set s \<Longrightarrow> partition1 c s = (s, False, [])"
  by (simp add: partition1_def split_once_None)

lemma split_char_notin: "c \<notin> set s \<Longrightarrow> split_char c s = [s]"
  by (induction s) auto

lemma split_char_append: "c \<notin> set a \<Longrightarrow> split_char c (a @ c # b) = a # split_char c b"
  by (induction a) auto

lemma unquote_plain: "CHR ''%'' \<notin> set s \<Longrightarrow> unquote s = s"
  by (induction s rule: unquote.induct) auto

lemma unquote_plus_plain: "CHR ''%'' \<notin> set s \<Longrightarrow> CHR ''+'' \<notin> set s \<Longrightarrow> unquote_plus s = s"
proof -
  assume a: "CHR ''%'' \<notin> set s" "CHR ''+'' \<notin> set s"
  have "replace_char (CHR ''+'') (CHR '' '') s = s"
    using a(2) by (induction s) (auto simp: replace_char_def)
  with a(1) show ?thesis by (simp add: unquote_plus_def unquote_plain)
qed

end
