(* ===== verification/Url_Guard.thy ===== *)
theory Url_Guard
  imports Url_Parse Ip_Address Config
begin

section \<open>Request origin and outbound URL guards (app/security.py)\<close>

text \<open>
  Which address a request is attributed to, which hosts may reach the dashboard, which outbound
  URLs may be fetched and which paths are scanner probes. Name resolution is the argument
  \<open>resolve\<close> (\<open>socket.getaddrinfo\<close>: None for gaierror); headers are looked up in lower case.
\<close>

subsection \<open>The request\<close>

record request =
  client_host :: "string option"
  headers :: "(string \<times> string) list"
  url_path :: string

definition header :: "request \<Rightarrow> string \<Rightarrow> string" where
  "header r k = (case map_of (headers r) k of None \<Rightarrow> [] | Some v \<Rightarrow> v)"

definition str_or :: "string \<Rightarrow> string \<Rightarrow> string" where
  "str_or a b = (if a = [] then b else a)"

definition trusted_proxy_networks :: "settings \<Rightarrow> net list" where
  "trusted_proxy_networks cfg =
     concat (map (\<lambda>raw. let item = strip raw in
        if item = [] \<or> item = ''---'' then []
        else case ip_network item of Some n \<Rightarrow> [n] | None \<Rightarrow> [])
       (split_char (CHR '','') (trusted_proxy_ips cfg)))"

definition is_trusted_proxy :: "settings \<Rightarrow> string \<Rightarrow> bool" where
  "is_trusted_proxy cfg value =
     (if value = [] then False
      else case ip_address value of
             None \<Rightarrow> False
           | Some a \<Rightarrow> list_ex (in_net a) (trusted_proxy_networks cfg))"

definition before_comma :: "string \<Rightarrow> string" where
  "before_comma s = fst (partition1 (CHR '','') s)"

definition request_ip :: "settings \<Rightarrow> request \<Rightarrow> string" where
  "request_ip cfg r =
     (let client = (case client_host r of None \<Rightarrow> [] | Some h \<Rightarrow> h);
          forwarded = header r ''x-forwarded-for'';
          candidate = (if forwarded \<noteq> [] \<and> is_trusted_proxy cfg client
                       then strip (before_comma forwarded) else client)
      in case ip_address candidate of Some a \<Rightarrow> ip_str a | None \<Rightarrow> ''unknown'')"

definition request_host :: "request \<Rightarrow> string" where
  "request_host r =
     (let raw = str_or (header r ''x-forwarded-host'') (header r ''host'')
      in ascii_lower (fst (partition1 (CHR '':'') (strip (before_comma raw)))))"

definition is_public_dashboard_host :: "request \<Rightarrow> bool" where
  "is_public_dashboard_host r =
     (let host = request_host r in
      if host = [] then True
      else if ends_with host ''.sslip.io'' \<or> ends_with host ''.nip.io'' then True
      else host \<in> {''51.255.43.100'', ''api.acasillas.com'', ''acasillas.com'', ''www.acasillas.com''})"

definition is_tailscale_or_local_ip :: "string \<Rightarrow> bool" where
  "is_tailscale_or_local_ip value =
     (case ip_address value of
        None \<Rightarrow> False
      | Some a \<Rightarrow> is_loopback a \<or> is_private a \<or> in_net a (Net4 (v4 100 64 0 0) 10))"

definition dashboard_publicly_blocked :: "request \<Rightarrow> bool" where
  "dashboard_publicly_blocked r =
     (if \<not> starts_with (url_path r) ''/dashboard'' then False
      else if is_public_dashboard_host r then True else False)"

text \<open>\<open>sha256\<close> is the hexadecimal digest of the text (\<open>hashlib\<close>).\<close>

definition pseudonymous_ip :: "(string \<Rightarrow> string) \<Rightarrow> string option \<Rightarrow> string option" where
  "pseudonymous_ip sha256 value =
     (case value of
        None \<Rightarrow> None
      | Some v \<Rightarrow> if v = [] then None else Some (''sha256:'' @ take 32 (sha256 v)))"

subsection \<open>Outbound URLs\<close>

definition private_msg :: string where
  "private_msg = ''Private or metadata addresses are not accepted''"

definition validate_public_address :: "string \<Rightarrow> unit res" where
  "validate_public_address raw =
     (case ip_address raw of
        None \<Rightarrow> Inl (ValueError ''Invalid URL address'')
      | Some a \<Rightarrow>
          if is_private a \<or> is_loopback a \<or> is_link_local a \<or> is_reserved a \<or> is_multicast a
             \<or> is_unspecified a
          then Inl (ValueError private_msg) else Inr ())"

definition blocked_hosts :: "string list" where
  "blocked_hosts = [''localhost'', ''metadata.google.internal'']"

definition allowed_url_schemes :: "(string \<times> int) list" where
  "allowed_url_schemes = [(''http'', 80), (''https'', 443)]"

definition host_allowed :: "string list \<Rightarrow> string \<Rightarrow> bool" where
  "host_allowed allowed host = list_ex (\<lambda>i. host = i \<or> ends_with host (CHR ''.'' # i)) allowed"

definition check_all :: "string list \<Rightarrow> unit res" where
  "check_all xs = res_bind (res_map validate_public_address xs) (\<lambda>_. Inr ())"

text \<open>An empty list of allowed hosts is the absent argument.\<close>

definition validate_public_url ::
  "(string \<Rightarrow> int \<Rightarrow> string list option) \<Rightarrow> string list \<Rightarrow> string \<Rightarrow> unit res" where
  "validate_public_url resolve allowed url =
     res_bind (urlparse url) (\<lambda>p.
       let host = rstrip_char (CHR ''.'') (case hostname p of None \<Rightarrow> [] | Some h \<Rightarrow> h);
           scheme = ascii_lower (u_scheme p);
           (user, pw) = userinfo p
       in case map_of allowed_url_schemes scheme of
            None \<Rightarrow> Inl (ValueError ''Only public HTTP(S) URLs are accepted'')
          | Some expected_port \<Rightarrow>
            if host = [] \<or> user \<notin> {None, Some []} \<or> pw \<notin> {None, Some []}
            then Inl (ValueError ''Only public HTTP(S) URLs are accepted'')
            else if host \<in> set blocked_hosts then Inl (ValueError private_msg)
            else (case url_port p of
              Inl _ \<Rightarrow> Inl (ValueError ''Invalid URL port'')
            | Inr port \<Rightarrow>
              if port \<noteq> None \<and> port \<noteq> Some expected_port
              then Inl (ValueError ''Non-standard ports are not accepted'')
              else if allowed \<noteq> [] \<and> \<not> host_allowed allowed host
              then Inl (ValueError ''Unsupported source host'')
              else res_bind (case ip_address host of
                               None \<Rightarrow> Inr () | Some a \<Rightarrow> validate_public_address (ip_str a)) (\<lambda>_.
                case resolve host (case port of Some n \<Rightarrow> if n = 0 then expected_port else n
                                              | None \<Rightarrow> expected_port) of
                  None \<Rightarrow> Inl (ValueError ''URL host could not be resolved'')
                | Some addresses \<Rightarrow> check_all (remdups addresses))))"

subsection \<open>Fetching with bounded, validated redirects\<close>

definition max_redirects :: nat where
  "max_redirects = 5"

text \<open>
  \<open>_SafeRedirectHandler\<close>: the server's chain of redirect targets is the argument; the handler
  counts each one before it validates it. The result is the URL finally fetched.
\<close>

fun follow_redirects ::
  "(string \<Rightarrow> int \<Rightarrow> string list option) \<Rightarrow> nat \<Rightarrow> string \<Rightarrow> string list \<Rightarrow> string res" where
  "follow_redirects resolve n u [] = Inr u"
| "follow_redirects resolve n u (v # vs) =
     (if n + 1 > max_redirects then Inl (ValueError ''Too many redirects'')
      else res_bind (validate_public_url resolve [] v) (\<lambda>_. follow_redirects resolve (n + 1) v vs))"

definition safe_urlopen ::
  "(string \<Rightarrow> int \<Rightarrow> string list option) \<Rightarrow> string \<Rightarrow> string list \<Rightarrow> string res" where
  "safe_urlopen resolve u chain =
     res_bind (validate_public_url resolve [] u) (\<lambda>_. follow_redirects resolve 0 u chain)"

text \<open>\<open>body v\<close> is the response of the URL finally fetched; \<open>read(limit + 1)\<close> is a prefix of it.\<close>

definition safe_urlopen_limited ::
  "(string \<Rightarrow> int \<Rightarrow> string list option) \<Rightarrow> (string \<Rightarrow> string) \<Rightarrow> int \<Rightarrow> string \<Rightarrow> string list
     \<Rightarrow> string res" where
  "safe_urlopen_limited resolve body max_bytes u chain =
     (let lmt = nat (max 1 max_bytes)
      in res_bind (safe_urlopen resolve u chain) (\<lambda>v.
           let data = take (lmt + 1) (body v)
           in if length data > lmt then Inl (ValueError ''Download exceeded the size bound'')
              else Inr data))"

subsection \<open>Comparison of secrets, scanner probes\<close>

definition safe_compare :: "string option \<Rightarrow> string option \<Rightarrow> bool" where
  "safe_compare l r =
     (case (l, r) of (Some a, Some b) \<Rightarrow> a \<noteq> [] \<and> b \<noteq> [] \<and> a = b | _ \<Rightarrow> False)"

definition scanner_exact :: "string list" where
  "scanner_exact = [''/backup.zip'', ''/backup.tar.gz'', ''/backup.sql'', ''/database.sql'', ''/dump.sql'',
     ''/docker-compose.yml'', ''/phpinfo.php'', ''/config.php'', ''/server.key'', ''/secrets.json'',
     ''/xmlrpc.php'', ''/wp-config.php'', ''/wp-login.php'', ''/.npmrc'', ''/.bash_history'']"

definition scanner_prefixes :: "string list" where
  "scanner_prefixes = [''/.env'', ''/.git'', ''/.ssh'', ''/.svn'', ''/.vscode'', ''/.ds_store'',
     ''/wp-admin'', ''/wp-content'', ''/wp-includes'', ''/xmlrpc.php'', ''/actuator'', ''/storage/logs'',
     ''/server.key'', ''/phpinfo'', ''/vendor/phpunit'', ''/telescope'', ''/debug/default'']"

definition is_scanner_probe :: "string \<Rightarrow> bool" where
  "is_scanner_probe path =
     (let raw = ascii_lower (fst (partition1 (CHR ''?'') path)) in
      if raw \<in> {''/health'', ''/ready'', ''/ping''} \<or> starts_with raw ''/v1/''
         \<or> starts_with raw ''/dashboard'' then False
      else if starts_with raw ''/.well-known/'' then False
      else if raw \<in> set scanner_exact then True
      else list_ex (\<lambda>p. raw = p \<or> starts_with raw (p @ ''/'') \<or> starts_with raw (p @ ''.''))
             scanner_prefixes)"

subsection \<open>What the guards accept\<close>

definition public_ip :: "ip \<Rightarrow> bool" where
  "public_ip a \<longleftrightarrow> \<not> is_private a \<and> \<not> is_loopback a \<and> \<not> is_link_local a \<and> \<not> is_reserved a
     \<and> \<not> is_multicast a \<and> \<not> is_unspecified a"

lemma validate_public_address_iff:
  "validate_public_address raw = Inr () \<longleftrightarrow> (\<exists>a. ip_address raw = Some a \<and> public_ip a)"
  by (auto simp: validate_public_address_def public_ip_def split: option.splits)

lemma res_map_unit: "res_map f xs = Inr ys \<Longrightarrow> x \<in> set xs \<Longrightarrow> f x = (Inr () :: unit res)"
  by (induction xs arbitrary: ys) (auto simp: res_bind_eq_Inr)

lemma check_all_iff: "check_all xs = Inr () \<longleftrightarrow> (\<forall>x \<in> set xs. validate_public_address x = Inr ())"
proof
  assume "check_all xs = Inr ()"
  then obtain ys where "res_map validate_public_address xs = Inr ys"
    by (auto simp: check_all_def res_bind_eq_Inr)
  then show "\<forall>x \<in> set xs. validate_public_address x = Inr ()" by (auto dest: res_map_unit)
next
  assume "\<forall>x \<in> set xs. validate_public_address x = Inr ()"
  then have "\<exists>ys. res_map validate_public_address xs = Inr ys" by (induction xs) auto
  then show "check_all xs = Inr ()" by (auto simp: check_all_def)
qed

text \<open>Everything an accepted URL satisfies.\<close>

definition url_safe :: "(string \<Rightarrow> int \<Rightarrow> string list option) \<Rightarrow> string list \<Rightarrow> string \<Rightarrow> bool" where
  "url_safe resolve allowed url \<longleftrightarrow>
     (\<exists>p host port addrs. urlparse url = Inr p \<and>
        host = rstrip_char (CHR ''.'') (case hostname p of None \<Rightarrow> [] | Some h \<Rightarrow> h) \<and> host \<noteq> [] \<and>
        (ascii_lower (u_scheme p) = ''http'' \<and> port = 80 \<or> ascii_lower (u_scheme p) = ''https'' \<and> port = 443) \<and>
        host \<notin> {''localhost'', ''metadata.google.internal''} \<and>
        fst (userinfo p) \<in> {None, Some []} \<and> snd (userinfo p) \<in> {None, Some []} \<and>
        url_port p \<in> {Inr None, Inr (Some port)} \<and>
        (allowed = [] \<or> host_allowed allowed host) \<and>
        resolve host port = Some addrs \<and>
        (\<forall>a \<in> set addrs. \<exists>ip. ip_address a = Some ip \<and> public_ip ip))"

lemma validate_public_url_safe:
  assumes "validate_public_url resolve allowed url = Inr ()"
  shows "url_safe resolve allowed url"
proof -
  obtain p where p: "urlparse url = Inr p"
    using assms by (auto simp: validate_public_url_def res_bind_eq_Inr)
  obtain user pw where ui: "userinfo p = (user, pw)" by (cases "userinfo p")
  show ?thesis
    using assms p ui unfolding url_safe_def validate_public_url_def
    by (auto simp: Let_def allowed_url_schemes_def blocked_hosts_def res_bind_eq_Inr check_all_iff
        validate_public_address_iff split: option.splits if_splits sum.splits)
qed

lemma follow_redirects_safe:
  "follow_redirects resolve n u vs = Inr w \<Longrightarrow>
   (\<forall>v \<in> set vs. url_safe resolve [] v) \<and> n + length vs \<le> max max_redirects n \<and> w = last (u # vs)"
proof (induction resolve n u vs rule: follow_redirects.induct)
  case (2 resolve n u v vs)
  then show ?case
    by (auto simp: res_bind_eq_Inr split: if_splits dest: validate_public_url_safe)
qed simp

text \<open>C6: No fetch leaves the public internet. A body returned by \<open>safe_urlopen_limited\<close> is within the
  size bound, came over at most five redirects, and the first URL and every redirect target had a
  public HTTP or HTTPS host on its standard port without credentials, all of whose resolved
  addresses are outside the private, loopback, link-local, reserved, multicast and unspecified
  ranges.\<close>

theorem safe_fetch:
  assumes "safe_urlopen_limited resolve body max_bytes u chain = Inr data"
  shows "(\<forall>v \<in> set (u # chain). url_safe resolve [] v) \<and> length chain \<le> 5 \<and>
         int (length data) \<le> max 1 max_bytes \<and> data = body (last (u # chain))"
proof -
  obtain v where v: "safe_urlopen resolve u chain = Inr v"
    and d: "data = take (nat (max 1 max_bytes) + 1) (body v)" "length data \<le> nat (max 1 max_bytes)"
    using assms by (auto simp: safe_urlopen_limited_def Let_def res_bind_eq_Inr split: if_splits)
  have "data = body v" using d by auto
  moreover have "int (length data) \<le> max 1 max_bytes" using d(2) by linarith
  moreover have "url_safe resolve [] u" "follow_redirects resolve 0 u chain = Inr v"
    using v validate_public_url_safe by (auto simp: safe_urlopen_def res_bind_eq_Inr)
  moreover from follow_redirects_safe [OF this(2)]
  have "\<forall>w \<in> set chain. url_safe resolve [] w" "length chain \<le> 5" "v = last (u # chain)"
    by (auto simp: max_redirects_def)
  ultimately show ?thesis by auto
qed

definition example_resolve :: "string \<Rightarrow> int \<Rightarrow> string list option" where
  "example_resolve host port =
     (if host = ''api.test'' then Some [''93.184.216.34''] else if host = ''evil.test'' then Some [''10.0.0.7'']
      else if host = ''node.test'' then Some [''100.64.0.1''] else None)"

lemma example_urls:
  "validate_public_url example_resolve [] ''https://api.test/x'' = Inr ()"
  "validate_public_url example_resolve [] ''https://evil.test/x'' = Inl (ValueError private_msg)"
  "validate_public_url example_resolve [] ''https://node.test/x'' = Inr ()"
  "validate_public_url example_resolve [] ''ftp://api.test/x''
     = Inl (ValueError ''Only public HTTP(S) URLs are accepted'')"
  by code_simp+

theorem safe_fetch_witness:
  "safe_urlopen_limited example_resolve (\<lambda>_. ''ok'') 10 ''https://api.test/x'' [''https://api.test/y''] = Inr ''ok'' \<and>
   length [''https://api.test/y''] \<le> 5"
proof -
  have "safe_urlopen_limited example_resolve (\<lambda>_. ''ok'') 10 ''https://api.test/x'' [''https://api.test/y'']
     = Inr ''ok''"
    by code_simp
  from safe_fetch [OF this] this show ?thesis by simp
qed

text \<open>The guard and the server's own notion of an internal address differ: the shared address
  space 100.64.0.0/10, which \<open>is_tailscale_or_local_ip\<close> counts as internal because Tailscale uses
  it, is accepted as a public fetch target, although every other internal IPv4 address is refused.\<close>

theorem tailscale_range_fetchable:
  "(\<forall>raw n. ip_address raw = Some (V4 n) \<longrightarrow> is_tailscale_or_local_ip raw \<longrightarrow>
      validate_public_address raw = Inr () \<longrightarrow> in_net (V4 n) (Net4 (v4 100 64 0 0) 10)) \<and>
   is_tailscale_or_local_ip ''100.64.0.1'' \<and> validate_public_address ''100.64.0.1'' = Inr () \<and>
   validate_public_url example_resolve [] ''https://node.test/x'' = Inr ()"
proof (intro conjI allI impI)
  show "is_tailscale_or_local_ip ''100.64.0.1''" by code_simp
  show "validate_public_address ''100.64.0.1'' = Inr ()" by code_simp
qed (auto simp: is_tailscale_or_local_ip_def validate_public_address_def example_urls
      split: if_splits)

theorem tailscale_range_fetchable_witness:
  "in_net (V4 (v4 100 64 0 1)) (Net4 (v4 100 64 0 0) 10)"
proof -
  have "ip_address ''100.64.0.1'' = Some (V4 (v4 100 64 0 1))" by code_simp
  with tailscale_range_fetchable show ?thesis by blast
qed

text \<open>An address taken from X-Forwarded-For is used only behind a configured proxy: when the peer
  is not in \<open>trusted_proxy_ips\<close>, no header changes the address a request is attributed to.\<close>

theorem forwarded_needs_proxy:
  assumes "\<not> is_trusted_proxy cfg (case client_host r of None \<Rightarrow> [] | Some h \<Rightarrow> h)"
  shows "request_ip cfg r = request_ip cfg (r\<lparr>headers := hs\<rparr>)"
  using assms by (simp add: request_ip_def)

theorem forwarded_needs_proxy_witness:
  "request_ip default_settings \<lparr>client_host = Some ''203.0.113.9'',
     headers = [(''x-forwarded-for'', ''1.2.3.4'')], url_path = ''/''\<rparr> = ''203.0.113.9''"
proof -
  let ?r = "\<lparr>client_host = Some ''203.0.113.9'', headers = [(''x-forwarded-for'', ''1.2.3.4'')], url_path = ''/''\<rparr>"
  have "\<not> is_trusted_proxy default_settings ''203.0.113.9''" by code_simp
  with forwarded_needs_proxy [of default_settings ?r "[]"]
  have "request_ip default_settings ?r = request_ip default_settings (?r\<lparr>headers := []\<rparr>)" by simp
  also have "\<dots> = ''203.0.113.9''" by code_simp
  finally show ?thesis .
qed

end
