(* ===== verification/Url_Norm.thy ===== *)
theory Url_Norm
  imports Url_Parse
begin

section \<open>Platforms and cache keys (app/platforms.py, app/url_norm.py)\<close>

text \<open>
  \<open>detect_platform\<close> searches the whole URL text with four regular expressions; \<open>normalize_url\<close>
  gives the key under which recipes and jobs are shared. Each regular expression is written out as
  the search it performs on the lower-cased text. URL text is bytes, as in \<^theory_text>\<open>Url_Parse\<close>.
\<close>

datatype platform = Tiktok | Youtube | Instagram | Facebook | UnknownPlatform

subsection \<open>Platform detection\<close>

text \<open>Some occurrence of \<open>p\<close> is followed by a text that satisfies \<open>P\<close>.\<close>

fun search_then :: "string \<Rightarrow> (string \<Rightarrow> bool) \<Rightarrow> string \<Rightarrow> bool" where
  "search_then p P [] = (p = [] \<and> P [])"
| "search_then p P (c # s) =
     ((starts_with (c # s) p \<and> P (drop (length p) (c # s))) \<or> search_then p P s)"

definition newline_free :: "string \<Rightarrow> string" where
  "newline_free s = takeWhile (\<lambda>c. (of_char c :: nat) \<noteq> 10) s"

definition youtube_re :: "string \<Rightarrow> bool" where
  "youtube_re s =
     (search_then ''youtube.com/''
        (\<lambda>t. (starts_with t ''watch?'' \<and> contains (newline_free (drop 6 t)) ''v='')
             \<or> starts_with t ''shorts/'' \<or> starts_with t ''embed/'') s
      \<or> contains s ''youtu.be/'')"

definition tiktok_re :: "string \<Rightarrow> bool" where
  "tiktok_re s = contains s ''tiktok.com/''"

definition instagram_re :: "string \<Rightarrow> bool" where
  "instagram_re s = search_then ''instagram.com/''
     (\<lambda>t. starts_with t ''reel/'' \<or> starts_with t ''p/'' \<or> starts_with t ''tv/'') s"

definition facebook_re :: "string \<Rightarrow> bool" where
  "facebook_re s = (contains s ''facebook.com'' \<or> contains s ''fb.watch'')"

definition detect_platform :: "string \<Rightarrow> platform" where
  "detect_platform url =
     (let s = ascii_lower url in
      if tiktok_re s then Tiktok
      else if youtube_re s then Youtube
      else if instagram_re s then Instagram
      else if facebook_re s then Facebook
      else UnknownPlatform)"

subsection \<open>YouTube video ids\<close>

definition first_segment :: "string \<Rightarrow> string option" where
  "first_segment s = (let w = hd (split_char (CHR ''/'') s) in if w = [] then None else Some w)"

definition youtube_video_id :: "string \<Rightarrow> string option res" where
  "youtube_video_id url =
     res_bind (urlparse url) (\<lambda>p.
       let host = ascii_lower (u_netloc p); path = u_path p in
       if contains host ''youtu.be'' then Inr (first_segment (strip_char (CHR ''/'') path))
       else if contains host ''youtube.com'' then
         (case split_once ''/shorts/'' path of
            Some (_, r) \<Rightarrow> Inr (first_segment r)
          | None \<Rightarrow>
            (case split_once ''/embed/'' path of
               Some (_, r) \<Rightarrow> Inr (first_segment r)
             | None \<Rightarrow>
               (case map_of (parse_qs (u_query p)) ''v'' of
                  Some (v # _) \<Rightarrow> Inr (Some v)
                | _ \<Rightarrow> Inr None)))
       else Inr None)"

subsection \<open>Normalisation\<close>

definition ascii_space :: "char \<Rightarrow> bool" where
  "ascii_space c = (let n = of_char c :: nat in (9 \<le> n \<and> n \<le> 13) \<or> (28 \<le> n \<and> n \<le> 32))"

definition ascii_strip :: "string \<Rightarrow> string" where
  "ascii_strip s = rev (dropWhile ascii_space (rev (dropWhile ascii_space s)))"

definition drop_query :: "string list" where
  "drop_query = [''utm_source'', ''utm_medium'', ''utm_campaign'', ''utm_term'', ''utm_content'',
     ''fbclid'', ''gclid'', ''igshid'', ''igsh'', ''si'', ''feature'', ''pp'', ''ref'']"

definition normalize_url :: "string \<Rightarrow> string res" where
  "normalize_url url =
     (let raw = ascii_strip url in
      res_bind (urlparse raw) (\<lambda>p.
        let host = ascii_lower (u_netloc p);
            host_core = (if starts_with host ''www.'' then drop 4 host else host);
            platform = detect_platform raw;
            path = rstrip_char (CHR ''/'') (u_path p);
            generic =
              (let cleaned = filter (\<lambda>(k, _). ascii_lower k \<notin> set drop_query) (parse_qs (u_query p));
                   path' = (if path = [] then u_path p else path);
                   host' = (if host = [] then host_core else host)
               in urlunparse_https host' path' (urlencode cleaned))
        in if platform = Tiktok then Inr (urlunparse_https ''www.tiktok.com'' path [])
           else if platform = Instagram then Inr (urlunparse_https ''www.instagram.com'' path [])
           else if platform = Facebook then
             Inr (urlunparse_https
               (if contains host_core ''fb.watch'' then ''fb.watch''
                else if host = [] then ''www.facebook.com'' else host) path [])
           else if platform = Youtube then
             res_bind (youtube_video_id raw) (\<lambda>vid.
               case vid of Some v \<Rightarrow> Inr (''https://www.youtube.com/watch?v='' @ v) | None \<Rightarrow> Inr generic)
           else Inr generic))"

subsection \<open>Symbolic evaluation\<close>

definition plain_char :: "char \<Rightarrow> bool" where
  "plain_char c = (is_alpha c \<or> is_num c \<or> c = CHR ''-'' \<or> c = CHR ''_'')"

definition plain :: "string \<Rightarrow> bool" where
  "plain s = list_all plain_char s"

lemma plain_notin: "plain s \<Longrightarrow> \<not> plain_char c \<Longrightarrow> c \<notin> set s"
  by (auto simp: plain_def list_all_iff)

lemma starts_with_append_right:
  assumes "p \<noteq> []" and "last p \<notin> set v"
  shows "starts_with (a @ v) p = starts_with a p"
proof
  assume "starts_with (a @ v) p"
  then obtain t where t: "a @ v = p @ t" by (auto simp: starts_with_iff)
  then obtain us where "a = p @ us \<or> (p = a @ us \<and> us @ t = v)"
    by (auto simp: append_eq_append_conv2)
  then show "starts_with a p"
  proof
    assume u: "p = a @ us \<and> us @ t = v"
    then have "us = []" using assms by (metis Un_iff last_appendR last_in_set set_append)
    with u show ?thesis by (auto simp: starts_with_iff)
  qed (auto simp: starts_with_iff)
qed (auto simp: starts_with_iff)

lemma contains_last: "p \<noteq> [] \<Longrightarrow> contains s p \<Longrightarrow> last p \<in> set s"
  by (auto simp: contains_iff)

lemma contains_append_right: "p \<noteq> [] \<Longrightarrow> last p \<notin> set v \<Longrightarrow> contains (a @ v) p = contains a p"
proof (induction a)
  case Nil
  then show ?case using contains_last [of p v] by auto
next
  case (Cons c a)
  then show ?case using starts_with_append_right [of p v "c # a"] by simp
qed

lemma ascii_strip_id:
  assumes "s \<noteq> []" and "\<not> ascii_space (hd s)" and "\<not> ascii_space (last s)"
  shows "ascii_strip s = s"
proof -
  have "dropWhile ascii_space s = s" using assms by (cases s) auto
  moreover have "dropWhile ascii_space (rev s) = rev s"
    using assms by (cases "rev s") (auto simp: hd_rev [symmetric])
  ultimately show ?thesis by (simp add: ascii_strip_def)
qed

lemma ascii_lower_append [simp]: "ascii_lower (a @ b) = ascii_lower a @ ascii_lower b"
  by (simp add: ascii_lower_def)

lemma ascii_lower_Cons [simp]: "ascii_lower (c # b) = ascii_lower_char c # ascii_lower b"
  by (simp add: ascii_lower_def)

lemma ascii_lower_Nil [simp]: "ascii_lower [] = []"
  by (simp add: ascii_lower_def)

lemma ascii_lower_char_inj_low: "of_char c < (65::nat) \<Longrightarrow> ascii_lower_char d = c \<longleftrightarrow> d = c"
  by (auto simp: ascii_lower_char_def Let_def)

lemma slash_lower: "CHR ''/'' \<notin> set v \<Longrightarrow> CHR ''/'' \<notin> set (ascii_lower v)"
  using ascii_lower_char_inj_low [of "CHR ''/''"] by (force simp: ascii_lower_def)

lemma split_once_contains: "split_once p s = None \<longleftrightarrow> \<not> contains s p"
  by (induction p s rule: split_once.induct) auto

lemma plain_visible: "plain_char c \<Longrightarrow> \<not> (of_char c :: nat) \<le> 32"
  by (auto simp: plain_char_def is_alpha_def is_num_def Let_def)

lemma plain_facts:
  assumes "plain v"
  shows "CHR ''/'' \<notin> set v" "CHR ''?'' \<notin> set v" "CHR ''#'' \<notin> set v" "CHR '';'' \<notin> set v"
    "CHR ''%'' \<notin> set v" "CHR ''+'' \<notin> set v" "CHR ''&'' \<notin> set v" "CHR ''='' \<notin> set v"
    "CHR ''['' \<notin> set v" "CHR '']'' \<notin> set v" "CHR '' '' \<notin> set v" "CHR ''.'' \<notin> set v" "CHR '':'' \<notin> set v"
  by (rule plain_notin [OF assms], simp add: plain_char_def is_alpha_def is_num_def)+

text \<open>Parsing of \<open>https://host/path?query\<close> with a symbolic host, path and query.\<close>

definition host_text :: "string \<Rightarrow> bool" where
  "host_text h = list_all (\<lambda>c. plain_char c \<or> c = CHR ''.'') h"

definition path_text :: "string \<Rightarrow> bool" where
  "path_text p = list_all (\<lambda>c. plain_char c \<or> c \<in> set ''./@'') p"

definition query_text :: "string \<Rightarrow> bool" where
  "query_text q = list_all (\<lambda>c. plain_char c \<or> c \<in> set ''./@=&'') q"

definition with_query :: "string \<Rightarrow> string" where
  "with_query q = (if q = [] then [] else CHR ''?'' # q)"

definition visible :: "char \<Rightarrow> bool" where
  "visible c \<longleftrightarrow> \<not> (of_char c :: nat) \<le> 32 \<and> c \<notin> set ''?#;[]''"

lemma plain_char_visible: "plain_char c \<Longrightarrow> visible c"
proof -
  assume p: "plain_char c"
  have "\<not> plain_char d" if "d \<in> set ''?#;[]''" for d
    using that by (auto simp: plain_char_def is_alpha_def is_num_def)
  with p plain_visible [OF p] show ?thesis unfolding visible_def by blast
qed

lemma visible_gt: "visible c \<Longrightarrow> \<not> (of_char c :: nat) \<le> 32"
  by (simp add: visible_def)

lemma visible_punct: "visible (CHR ''.'')" "visible (CHR ''/'')" "visible (CHR ''@'')"
    "visible (CHR ''='')" "visible (CHR ''&'')"
  by (simp_all add: visible_def)

lemma text_visible:
  "host_text h \<Longrightarrow> \<forall>c \<in> set h. visible c"
  "path_text p \<Longrightarrow> \<forall>c \<in> set p. visible c"
  "query_text q \<Longrightarrow> \<forall>c \<in> set q. visible c"
  using plain_char_visible visible_punct
  by (auto simp: host_text_def path_text_def query_text_def list_all_iff)

lemma host_slash: "host_text h \<Longrightarrow> CHR ''/'' \<notin> set h"
proof
  assume "host_text h" "CHR ''/'' \<in> set h"
  then have "plain_char (CHR ''/'') \<or> CHR ''/'' = CHR ''.''" unfolding host_text_def list_all_iff by blast
  then show False by (simp add: plain_char_def is_alpha_def is_num_def)
qed

lemma visible_notin:
  assumes "\<forall>c \<in> set s. visible c"
  shows "CHR ''?'' \<notin> set s" "CHR ''#'' \<notin> set s" "CHR '';'' \<notin> set s" "CHR ''['' \<notin> set s" "CHR '']'' \<notin> set s"
  using assms by (force simp: visible_def)+

lemma urlparse_https:
  assumes "host_text h" and "path_text p" and "query_text q"
  shows "urlparse (''https://'' @ h @ CHR ''/'' # p @ with_query q) =
     Inr \<lparr>u_scheme = ''https'', u_netloc = h, u_path = CHR ''/'' # p, u_params = [],
          u_query = q, u_fragment = []\<rparr>"
proof -
  note v = text_visible(1) [OF assms(1)] text_visible(2) [OF assms(2)] text_visible(3) [OF assms(3)]
  note n = visible_notin [OF v(1)] visible_notin [OF v(2)] visible_notin [OF v(3)]
  let ?rest = "h @ CHR ''/'' # p @ with_query q"
  have vis: "\<not> (of_char c :: nat) \<le> 32" if "c \<in> set ?rest" for c
  proof -
    have "visible c \<or> c = CHR ''/'' \<or> c = CHR ''?''"
      using that v by (auto simp: with_query_def split: if_splits)
    then show ?thesis using visible_gt [of c] by auto
  qed
  have "(of_char c :: nat) \<notin> {9, 10, 13}" if "c \<in> set ?rest" for c
    using vis [OF that] by auto
  then have "filter (\<lambda>c. (of_char c :: nat) \<notin> {9, 10, 13}) ?rest = ?rest"
    unfolding filter_id_conv by blast
  then have cl: "clean_url (''https://'' @ ?rest) = ''https://'' @ ?rest"
    by (simp add: clean_url_def)
  have sch: "split_scheme (''https://'' @ ?rest) = (''https'', ''//'' @ ?rest)"
    by (simp add: split_scheme_def starts_with_def is_alpha_def is_scheme_char_def ascii_lower_char_def)
  have hc: "\<forall>c \<in> set h. c \<notin> set ''/?#''"
    using host_slash [OF assms(1)] n(1,2) by auto
  have nl: "split_netloc (''//'' @ ?rest) = (h, CHR ''/'' # p @ with_query q)"
    using hc by (simp add: split_netloc_def starts_with_def takeWhile_append2 dropWhile_append2)
  have fr: "partition1 (CHR ''#'') (CHR ''/'' # p @ with_query q) = (CHR ''/'' # p @ with_query q, False, [])"
    using n by (intro partition1_none) (simp add: with_query_def)
  have pq: "CHR ''?'' \<notin> set (CHR ''/'' # p)" using n by simp
  have "\<exists>b. partition1 (CHR ''?'') (CHR ''/'' # p @ with_query q) = (CHR ''/'' # p, b, q)"
    using partition1_found [OF pq, of q] partition1_none [OF pq] by (cases "q = []") (auto simp: with_query_def)
  then obtain b where "partition1 (CHR ''?'') (CHR ''/'' # p @ with_query q) = (CHR ''/'' # p, b, q)" ..
  with cl sch nl n fr show ?thesis by (simp add: urlparse_def)
qed

lemma visible_last: "\<not> ascii_space c" if "\<not> (of_char c :: nat) \<le> 32"
  using that by (auto simp: ascii_space_def Let_def)

lemma ascii_strip_https:
  assumes "host_text h" and "path_text p" and "query_text q"
  shows "ascii_strip (''https://'' @ h @ CHR ''/'' # p @ with_query q)
           = ''https://'' @ h @ CHR ''/'' # p @ with_query q"
proof (rule ascii_strip_id)
  let ?u = "''https://'' @ h @ CHR ''/'' # p @ with_query q"
  have "last ?u = last (CHR ''/'' # p @ with_query q)" by simp
  also have "\<dots> \<in> set (CHR ''/'' # p @ with_query q)" by (rule last_in_set) simp
  finally have "last ?u \<in> insert (CHR ''/'') (insert (CHR ''?'') (set p \<union> set q))"
    by (simp add: with_query_def split: if_splits)
  then have "\<not> (of_char (last ?u) :: nat) \<le> 32"
    using text_visible(2) [OF assms(2)] text_visible(3) [OF assms(3)] visible_gt [of "last ?u"] by auto
  then show "\<not> ascii_space (last ?u)" by (rule visible_last)
qed (simp_all add: ascii_space_def)

lemma plain_texts: "plain v \<Longrightarrow> host_text v \<and> path_text v \<and> query_text v"
  by (auto simp: plain_def host_text_def path_text_def query_text_def list_all_iff)

text \<open>One link per form, in the shape the lemmas above evaluate.\<close>

definition youtu_be_link :: "string \<Rightarrow> string" where
  "youtu_be_link v = ''https://youtu.be/'' @ v"

definition youtube_path_link :: "string \<Rightarrow> string \<Rightarrow> string" where
  "youtube_path_link kind v = ''https://www.youtube.com/'' @ kind @ ''/'' @ v"

definition youtube_watch_link :: "string \<Rightarrow> string \<Rightarrow> string" where
  "youtube_watch_link v rest = ''https://www.youtube.com/watch?v='' @ v @ rest"

lemma host_texts [simp]: "host_text ''youtu.be''" "host_text ''www.youtube.com''" "host_text ''www.tiktok.com''"
  by (simp_all add: host_text_def plain_char_def is_alpha_def is_num_def)

lemma link_shapes:
  "youtu_be_link v = ''https://'' @ ''youtu.be'' @ CHR ''/'' # v @ with_query []"
  "youtube_path_link k v = ''https://'' @ ''www.youtube.com'' @ CHR ''/'' # (k @ ''/'' @ v) @ with_query []"
  "youtube_watch_link v m = ''https://'' @ ''www.youtube.com'' @ CHR ''/'' # ''watch'' @ with_query (''v='' @ v @ m)"
  by (simp_all add: youtu_be_link_def youtube_path_link_def youtube_watch_link_def with_query_def)

lemma query_nil [simp]: "query_text []"
  by (simp add: query_text_def)

lemma plain_lower: "plain v \<Longrightarrow> CHR ''/'' \<notin> set (ascii_lower v)"
  by (intro slash_lower plain_facts)

lemma lower_literals:
  "ascii_lower ''https://youtu.be/'' = ''https://youtu.be/''"
  "ascii_lower ''https://www.youtube.com/'' = ''https://www.youtube.com/''"
  "ascii_lower ''https://www.youtube.com/watch?v='' = ''https://www.youtube.com/watch?v=''"
  "ascii_lower ''https://www.youtube.com/shorts/'' = ''https://www.youtube.com/shorts/''"
  "ascii_lower ''https://www.youtube.com/embed/'' = ''https://www.youtube.com/embed/''"
  by (simp_all add: ascii_lower_def ascii_lower_char_def)

text \<open>A plain tail adds no TikTok marker, and the YouTube expression is found in the prefix.\<close>

lemma no_tiktok: "CHR ''/'' \<notin> set v \<Longrightarrow> tiktok_re (a @ v) = tiktok_re a"
  unfolding tiktok_re_def by (intro contains_append_right) simp_all

lemma youtube_detected:
  assumes "CHR ''/'' \<notin> set w" and "ascii_lower a = a" and "\<not> tiktok_re a"
    and "youtube_re (a @ ascii_lower w)"
  shows "detect_platform (a @ w) = Youtube"
  using assms(3,4)
  by (simp only: detect_platform_def Let_def ascii_lower_append assms(2)
      no_tiktok [OF slash_lower [OF assms(1)]] if_True if_False)

lemma youtube_prefixes:
  "youtube_re (''https://youtu.be/'' @ u)" "youtube_re (''https://www.youtube.com/shorts/'' @ u)"
  "youtube_re (''https://www.youtube.com/embed/'' @ u)" "youtube_re (''https://www.youtube.com/watch?v='' @ u)"
  "\<not> tiktok_re ''https://youtu.be/''" "\<not> tiktok_re ''https://www.youtube.com/shorts/''"
  "\<not> tiktok_re ''https://www.youtube.com/embed/''" "\<not> tiktok_re ''https://www.youtube.com/watch?v=''"
  by (simp_all add: youtube_re_def tiktok_re_def starts_with_def newline_free_def)

lemma links_detected:
  assumes "CHR ''/'' \<notin> set v" and "CHR ''/'' \<notin> set r"
  shows "detect_platform (youtu_be_link v) = Youtube"
    "detect_platform (youtube_path_link ''shorts'' v) = Youtube"
    "detect_platform (youtube_path_link ''embed'' v) = Youtube"
    "detect_platform (youtube_watch_link v r) = Youtube"
proof -
  have vr: "CHR ''/'' \<notin> set (v @ r)" using assms by simp
  have k: "youtube_path_link ''shorts'' v = ''https://www.youtube.com/shorts/'' @ v"
    "youtube_path_link ''embed'' v = ''https://www.youtube.com/embed/'' @ v"
    by (simp_all add: youtube_path_link_def)
  show "detect_platform (youtu_be_link v) = Youtube"
    unfolding youtu_be_link_def using assms(1) lower_literals(1) youtube_prefixes(5,1)
    by (rule youtube_detected)
  show "detect_platform (youtube_path_link ''shorts'' v) = Youtube"
    unfolding k using assms(1) lower_literals(4) youtube_prefixes(6,2) by (rule youtube_detected)
  show "detect_platform (youtube_path_link ''embed'' v) = Youtube"
    unfolding k using assms(1) lower_literals(5) youtube_prefixes(7,3) by (rule youtube_detected)
  show "detect_platform (youtube_watch_link v r) = Youtube"
    unfolding youtube_watch_link_def using vr lower_literals(3) youtube_prefixes(8,4)
    by (rule youtube_detected)
qed

lemma first_segment_plain: "v \<noteq> [] \<Longrightarrow> CHR ''/'' \<notin> set v \<Longrightarrow> first_segment v = Some v"
  by (simp add: first_segment_def split_char_notin)

lemma strip_char_plain: "c \<notin> set v \<Longrightarrow> strip_char c (c # v) = v"
proof -
  assume c: "c \<notin> set v"
  have "dropWhile (\<lambda>x. x = c) v = v" using c by (cases v) auto
  moreover have "dropWhile (\<lambda>x. x = c) (rev v) = rev v"
    using c by (cases "rev v") (auto simp: in_set_conv_decomp dest: arg_cong [of _ _ rev])
  ultimately show ?thesis by (simp add: strip_char_def rstrip_char_def)
qed

lemma add_value_head:
  "map_of d k = Some (x # xs) \<Longrightarrow> \<exists>ys. map_of (add_value n v d) k = Some (x # ys)"
  by (induction n v d rule: add_value.induct) (auto split: if_splits)

lemma parse_fold_head:
  "map_of d k = Some (x # xs) \<Longrightarrow>
   \<exists>ys. map_of (fold (\<lambda>item d. case qs_pair item of Some (n, v) \<Rightarrow> add_value n v d | None \<Rightarrow> d) is d) k
          = Some (x # ys)"
proof (induction "is" arbitrary: d xs)
  case (Cons i "is")
  show ?case
  proof (cases "qs_pair i")
    case None
    with Cons show ?thesis by simp
  next
    case (Some nv)
    obtain n v where nv: "nv = (n, v)" by (cases nv)
    obtain ys where "map_of (add_value n v d) k = Some (x # ys)"
      using add_value_head [OF Cons.prems] by blast
    with Cons.IH Some nv show ?thesis by simp
  qed
qed simp

lemma parse_qs_v:
  assumes "plain v" and "v \<noteq> []" and "m = [] \<or> (\<exists>r. m = CHR ''&'' # r)"
  shows "\<exists>ys. map_of (parse_qs (''v='' @ v @ m)) ''v'' = Some (v # ys)"
proof -
  note f = plain_facts [OF assms(1)]
  have "\<exists>is. split_char (CHR ''&'') (''v='' @ v @ m) = (''v='' @ v) # is"
    using assms(3) f(7) split_char_append [of "CHR ''&''" "''v='' @ v"] split_char_notin [of "CHR ''&''" "''v='' @ v"]
    by auto
  then obtain "is" where i: "split_char (CHR ''&'') (''v='' @ v @ m) = (''v='' @ v) # is" ..
  have "qs_pair (''v='' @ v) = Some (''v'', v)"
    using assms(2) f by (simp add: qs_pair_def starts_with_def unquote_plus_plain)
  then show ?thesis using parse_fold_head [of "[(''v'', [v])]" "''v''" v "[]" "is"] i
    by (simp add: parse_qs_def)
qed

lemma normalize_youtube:
  assumes "ascii_strip u = u" and "urlparse u = Inr p" and "detect_platform u = Youtube"
    and "youtube_video_id u = Inr (Some v)"
  shows "normalize_url u = Inr (youtube_watch_link v [])"
  using assms by (simp add: normalize_url_def Let_def youtube_watch_link_def)



subsection \<open>The platform is searched in the whole URL\<close>

lemma tiktok_detected: "contains (ascii_lower u) ''tiktok.com/'' \<Longrightarrow> detect_platform u = Tiktok"
  by (simp add: detect_platform_def tiktok_re_def)

lemma normalize_tiktok:
  assumes "host_text h" and "path_text p" and "query_text q"
    and "contains (ascii_lower (''https://'' @ h @ CHR ''/'' # p @ with_query q)) ''tiktok.com/''"
  shows "normalize_url (''https://'' @ h @ CHR ''/'' # p @ with_query q) =
     Inr (urlunparse_https ''www.tiktok.com'' (rstrip_char (CHR ''/'') (CHR ''/'' # p)) [])"
  using urlparse_https [OF assms(1-3)] ascii_strip_https [OF assms(1-3)] tiktok_detected [OF assms(4)]
  by (simp add: normalize_url_def Let_def)

definition tiktok_marker :: string where
  "tiktok_marker = ''x=tiktok.com/''"

text \<open>The platform test is not bound to the host, so a link on any accepted host that mentions
  TikTok in its query gets the cache key of a TikTok video: the key of
  \<open>https://host/path?x=tiktok.com/\<close> is that of \<open>https://www.tiktok.com/path\<close>.\<close>

theorem platform_confusion:
  assumes "host_text h" and "path_text p"
  shows "detect_platform (''https://'' @ h @ CHR ''/'' # p @ with_query tiktok_marker) = Tiktok \<and>
         normalize_url (''https://'' @ h @ CHR ''/'' # p @ with_query tiktok_marker) =
         normalize_url (''https://'' @ ''www.tiktok.com'' @ CHR ''/'' # p @ with_query [])"
proof -
  have q: "query_text tiktok_marker"
    by (simp add: query_text_def tiktok_marker_def plain_char_def is_alpha_def)
  have m: "ascii_lower tiktok_marker = ''x='' @ ''tiktok.com/''"
    by (simp add: tiktok_marker_def ascii_lower_char_def)
  have "ascii_lower (''https://'' @ h @ CHR ''/'' # p @ with_query tiktok_marker) =
      (ascii_lower (''https://'' @ h @ CHR ''/'' # p @ ''?'') @ ''x='') @ ''tiktok.com/'' @ []"
    using m by (simp add: with_query_def tiktok_marker_def ascii_lower_char_def)
  then have c1: "contains (ascii_lower (''https://'' @ h @ CHR ''/'' # p @ with_query tiktok_marker)) ''tiktok.com/''"
    unfolding contains_iff by blast
  have "ascii_lower (''https://'' @ ''www.tiktok.com'' @ CHR ''/'' # p @ with_query []) =
      ''https://www.'' @ ''tiktok.com/'' @ ascii_lower p"
    by (simp add: with_query_def ascii_lower_char_def)
  then have c2: "contains (ascii_lower (''https://'' @ ''www.tiktok.com'' @ CHR ''/'' # p @ with_query [])) ''tiktok.com/''"
    unfolding contains_iff by blast
  show ?thesis
    using normalize_tiktok [OF assms q c1] normalize_tiktok [OF host_texts(3) assms(2) query_nil c2]
      tiktok_detected [OF c1] by simp
qed

theorem platform_confusion_witness:
  "normalize_url ''https://www.youtube.com/@user/video/123?x=tiktok.com/'' =
   Inr ''https://www.tiktok.com/@user/video/123''"
proof -
  have t: "path_text ''@user/video/123''" "host_text ''www.youtube.com''"
    by (simp_all add: path_text_def plain_char_def is_alpha_def is_num_def)
  have "normalize_url (''https://'' @ ''www.tiktok.com'' @ CHR ''/'' # ''@user/video/123'' @ with_query []) =
      Inr ''https://www.tiktok.com/@user/video/123''"
    by code_simp
  with platform_confusion [OF t(2,1)] show ?thesis by (simp add: with_query_def tiktok_marker_def)
qed

end
