(* ===== verification/Tx.thy ===== *)
theory Tx
  imports RA_Prelude
begin

section \<open>Database calls, interleaving and failures\<close>

text \<open>
  A handler is a sequence of database calls, each one committed statement (app/db.py: every
  \<open>fetch_one\<close>, \<open>execute\<close> and \<open>execute_returning\<close> is its own transaction; a \<open>get_conn\<close> block is one
  transaction). Between two calls anything may happen to the database, and a call may fail. A
  world is the database with the list of what happens at the coming calls: nothing (\<open>Quiet\<close>), other
  transactions (\<open>Interfere\<close>), an outage in which the call has no effect, or a reply lost after the commit. When the
  list is exhausted the handler runs alone.
\<close>

datatype 'db fault = Quiet | Interfere "'db \<Rightarrow> 'db" | Outage | LostReply

record 'db world =
  db :: 'db
  env :: "'db fault list"

type_synonym ('db, 'r) tx = "'db world \<Rightarrow> 'r res \<times> 'db world"

definition atomically :: "('db \<Rightarrow> 'r res \<times> 'db) \<Rightarrow> ('db, 'r) tx" where
  "atomically f w =
     (case env w of
        [] \<Rightarrow> (case f (db w) of (r, d) \<Rightarrow> (r, w\<lparr>db := d\<rparr>))
      | Quiet # es \<Rightarrow> (case f (db w) of (r, d) \<Rightarrow> (r, w\<lparr>db := d, env := es\<rparr>))
      | Interfere g # es \<Rightarrow> (case f (g (db w)) of (r, d) \<Rightarrow> (r, w\<lparr>db := d, env := es\<rparr>))
      | Outage # es \<Rightarrow> (Inl DbError, w\<lparr>env := es\<rparr>)
      | LostReply # es \<Rightarrow> (Inl DbError, w\<lparr>db := snd (f (db w)), env := es\<rparr>))"

definition tx_return :: "'r \<Rightarrow> ('db, 'r) tx" where
  "tx_return x w = (Inr x, w)"

definition tx_raise :: "exn \<Rightarrow> ('db, 'r) tx" where
  "tx_raise e w = (Inl e, w)"

definition tx_lift :: "'r res \<Rightarrow> ('db, 'r) tx" where
  "tx_lift r w = (r, w)"

definition tx_bind :: "('db, 'a) tx \<Rightarrow> ('a \<Rightarrow> ('db, 'b) tx) \<Rightarrow> ('db, 'b) tx" where
  "tx_bind m f w = (case m w of (Inl e, w') \<Rightarrow> (Inl e, w') | (Inr x, w') \<Rightarrow> f x w')"

text \<open>\<open>try: m / except: h\<close>.\<close>

definition tx_catch :: "('db, 'r) tx \<Rightarrow> (exn \<Rightarrow> ('db, 'r) tx) \<Rightarrow> ('db, 'r) tx" where
  "tx_catch m h w = (case m w of (Inl e, w') \<Rightarrow> h e w' | (Inr x, w') \<Rightarrow> (Inr x, w'))"

text \<open>A step of the process itself: no database call.\<close>

definition local :: "('db \<Rightarrow> 'r res \<times> 'db) \<Rightarrow> ('db, 'r) tx" where
  "local f w = (case f (db w) of (r, d) \<Rightarrow> (r, w\<lparr>db := d\<rparr>))"

text \<open>\<open>try: m / finally: f\<close> for an \<open>f\<close> that does not raise.\<close>

definition finally_do :: "('db, 'r) tx \<Rightarrow> ('db, unit) tx \<Rightarrow> ('db, 'r) tx" where
  "finally_do m f w = (case m w of (r, w') \<Rightarrow> (r, snd (f w')))"

lemma tx_simps [simp]:
  "tx_return x w = (Inr x, w)"
  "tx_raise e w = (Inl e, w)"
  "tx_lift r w = (r, w)"
  by (simp_all add: tx_return_def tx_raise_def tx_lift_def)

lemma atomically_alone [simp]:
  "atomically f \<lparr>db = d, env = []\<rparr> = (fst (f d), \<lparr>db = snd (f d), env = []\<rparr>)"
  by (simp add: atomically_def split: prod.splits)

abbreviation alone :: "'db \<Rightarrow> 'db world" where
  "alone d \<equiv> \<lparr>db = d, env = []\<rparr>"

lemma tx_bind_alone: "m w = (Inr x, w') \<Longrightarrow> tx_bind m f w = f x w'"
  by (simp add: tx_bind_def)

lemma tx_bind_fail: "m w = (Inl e, w') \<Longrightarrow> tx_bind m f w = (Inl e, w')"
  by (simp add: tx_bind_def)

lemma tx_bind_lift [simp]:
  "tx_bind (tx_lift (Inr x)) f = f x"
  "tx_bind (tx_lift (Inl e)) f = tx_raise e"
  "tx_bind (tx_return x) f = f x"
  by (auto simp: tx_bind_def)

lemma tx_catch_ok: "m w = (Inr x, w') \<Longrightarrow> tx_catch m h w = (Inr x, w')"
  by (simp add: tx_catch_def)

lemma tx_catch_fail: "m w = (Inl e, w') \<Longrightarrow> tx_catch m h w = h e w'"
  by (simp add: tx_catch_def)

lemmas tx_run = tx_bind_def tx_catch_def

subsection \<open>Guarantees\<close>

text \<open>
  A relation on databases that every other transaction respects and that every call of a handler
  respects holds between the databases before and after the handler, whatever the interleaving
  and the failures.
\<close>

definition env_in :: "('db \<Rightarrow> 'db \<Rightarrow> bool) \<Rightarrow> 'db world \<Rightarrow> bool" where
  "env_in R w \<longleftrightarrow> (\<forall>g d. Interfere g \<in> set (env w) \<longrightarrow> R d (g d))"

definition keeps :: "('db \<Rightarrow> 'db \<Rightarrow> bool) \<Rightarrow> ('db, 'r) tx \<Rightarrow> bool" where
  "keeps R m \<longleftrightarrow> (\<forall>w r w'. env_in R w \<longrightarrow> m w = (r, w') \<longrightarrow>
     R (db w) (db w') \<and> env_in R w' \<and> (env w = [] \<longrightarrow> env w' = []))"

named_theorems keeps_intros "composition rules for guarantees"

locale guarantee =
  fixes R :: "'db \<Rightarrow> 'db \<Rightarrow> bool"
  assumes R_refl: "R d d"
    and R_trans: "R a b \<Longrightarrow> R b c \<Longrightarrow> R a c"
begin

lemma keeps_return: "keeps R (tx_return x)"
  and keeps_raise: "keeps R (tx_raise e)"
  and keeps_lift: "keeps R (tx_lift r)"
  by (auto simp: keeps_def R_refl)

lemma keeps_atomically:
  assumes "\<And>d. R d (snd (f d))"
  shows "keeps R (atomically f)"
  unfolding keeps_def
proof (intro allI impI)
  fix w r w' assume e: "env_in R w" and a: "atomically f w = (r, w')"
  show "R (db w) (db w') \<and> env_in R w' \<and> (env w = [] \<longrightarrow> env w' = [])"
  proof (cases "env w")
    case Nil
    then show ?thesis using a assms [of "db w"] e
      by (auto simp: atomically_def env_in_def split: prod.splits)
  next
    case (Cons x es)
    then show ?thesis
    proof (cases x)
      case Quiet
      with a Cons e assms [of "db w"] show ?thesis
        by (auto simp: atomically_def env_in_def split: prod.splits)
    next
      case (Interfere g)
      have "R (db w) (g (db w))" using e Cons Interfere by (simp add: env_in_def)
      then have "R (db w) (snd (f (g (db w))))" using assms R_trans by blast
      with a Cons Interfere e show ?thesis
        by (auto simp: atomically_def env_in_def split: prod.splits)
    next
      case Outage
      with a Cons e show ?thesis by (auto simp: atomically_def env_in_def R_refl)
    next
      case LostReply
      with a Cons e assms show ?thesis by (auto simp: atomically_def env_in_def)
    qed
  qed
qed

lemma keeps_bind:
  assumes m: "keeps R m" and f: "\<And>x. keeps R (f x)"
  shows "keeps R (tx_bind m f)"
  unfolding keeps_def
proof (intro allI impI)
  fix w r w' assume e: "env_in R w" and b: "tx_bind m f w = (r, w')"
  obtain r1 w1 where m1: "m w = (r1, w1)" by (cases "m w")
  with m e have 1: "R (db w) (db w1)" "env_in R w1" "env w = [] \<longrightarrow> env w1 = []" unfolding keeps_def by blast+
  show "R (db w) (db w') \<and> env_in R w' \<and> (env w = [] \<longrightarrow> env w' = [])"
  proof (cases r1)
    case (Inl x)
    with b m1 1 show ?thesis by (auto simp: tx_bind_def)
  next
    case (Inr x)
    with b m1 have "f x w1 = (r, w')" by (simp add: tx_bind_def)
    with f [of x] 1(2) have "R (db w1) (db w')" "env_in R w'" "env w1 = [] \<longrightarrow> env w' = []" unfolding keeps_def by blast+
    with 1(1,3) R_trans show ?thesis by blast
  qed
qed

lemma keeps_catch:
  assumes m: "keeps R m" and h: "\<And>e. keeps R (h e)"
  shows "keeps R (tx_catch m h)"
  unfolding keeps_def
proof (intro allI impI)
  fix w r w' assume e: "env_in R w" and b: "tx_catch m h w = (r, w')"
  obtain r1 w1 where m1: "m w = (r1, w1)" by (cases "m w")
  with m e have 1: "R (db w) (db w1)" "env_in R w1" "env w = [] \<longrightarrow> env w1 = []" unfolding keeps_def by blast+
  show "R (db w) (db w') \<and> env_in R w' \<and> (env w = [] \<longrightarrow> env w' = [])"
  proof (cases r1)
    case (Inr x)
    with b m1 1 show ?thesis by (auto simp: tx_catch_def)
  next
    case (Inl x)
    with b m1 have "h x w1 = (r, w')" by (simp add: tx_catch_def)
    with h [of x] 1(2) have "R (db w1) (db w')" "env_in R w'" "env w1 = [] \<longrightarrow> env w' = []" unfolding keeps_def by blast+
    with 1(1,3) R_trans show ?thesis by blast
  qed
qed

lemma keeps_local:
  assumes "\<And>d. R d (snd (f d))"
  shows "keeps R (local f)"
proof -
  have "local f w = (fst (f (db w)), w\<lparr>db := snd (f (db w))\<rparr>)" for w
    by (simp add: local_def split: prod.split)
  with assms show ?thesis by (simp add: keeps_def env_in_def)
qed

lemma keeps_if: "(b \<Longrightarrow> keeps R m) \<Longrightarrow> (\<not> b \<Longrightarrow> keeps R n) \<Longrightarrow> keeps R (if b then m else n)"
  by simp

lemma keeps_let: "(\<And>x. x = t \<Longrightarrow> keeps R (f x)) \<Longrightarrow> keeps R (let x = t in f x)"
  by simp

lemma keeps_option:
  "(x = None \<Longrightarrow> keeps R m) \<Longrightarrow> (\<And>y. x = Some y \<Longrightarrow> keeps R (f y)) \<Longrightarrow>
   keeps R (case x of None \<Rightarrow> m | Some y \<Rightarrow> f y)"
  by (cases x) auto

lemma keeps_prod:
  "(\<And>a b. x = (a, b) \<Longrightarrow> keeps R (f a b)) \<Longrightarrow> keeps R (case x of (a, b) \<Rightarrow> f a b)"
  by (cases x) auto

lemma keeps_sum:
  "(\<And>e. x = Inl e \<Longrightarrow> keeps R (m e)) \<Longrightarrow> (\<And>y. x = Inr y \<Longrightarrow> keeps R (f y)) \<Longrightarrow>
   keeps R (case x of Inl e \<Rightarrow> m e | Inr y \<Rightarrow> f y)"
  by (cases x) auto

lemmas keeps_rules = keeps_return keeps_raise keeps_lift keeps_bind keeps_catch keeps_if keeps_let
  keeps_option keeps_prod keeps_sum

text \<open>The use of a guarantee: it relates the databases around a run, and a run alone stays alone.\<close>

lemma keeps_alone:
  assumes "keeps R m" "env w = []" "m w = (r, w')"
  shows "w' = alone (db w') \<and> R (db w) (db w')"
proof -
  have "env_in R w" using assms(2) by (simp add: env_in_def)
  with assms have "R (db w) (db w') \<and> env w' = []" unfolding keeps_def by blast
  then show ?thesis by (cases w') simp
qed

lemma keepsD: "keeps R m \<Longrightarrow> env_in R w \<Longrightarrow> m w = (r, w') \<Longrightarrow> R (db w) (db w')"
  unfolding keeps_def by blast

end

subsection \<open>Runs with failures only\<close>

text \<open>
  A run in which other transactions do not interfere, while any call may fail before or after its
  commit: \<open>hoare P m Q\<close> says that from a database with \<open>P\<close> every such run ends in \<open>Q\<close>.
\<close>

definition failures_only :: "'db world \<Rightarrow> bool" where
  "failures_only w \<longleftrightarrow> (\<forall>g. Interfere g \<notin> set (env w))"

definition hoare :: "('db \<Rightarrow> bool) \<Rightarrow> ('db, 'r) tx \<Rightarrow> ('r res \<Rightarrow> 'db \<Rightarrow> bool) \<Rightarrow> bool" where
  "hoare P m Q \<longleftrightarrow> (\<forall>w r w'. failures_only w \<longrightarrow> P (db w) \<longrightarrow> m w = (r, w') \<longrightarrow>
                      failures_only w' \<and> Q r (db w'))"

lemma hoareD: "hoare P m Q \<Longrightarrow> failures_only w \<Longrightarrow> P (db w) \<Longrightarrow> m w = (r, w') \<Longrightarrow> Q r (db w')"
  unfolding hoare_def by blast

lemma hoare_return: "(\<And>d. P d \<Longrightarrow> Q (Inr x) d) \<Longrightarrow> hoare P (tx_return x) Q"
  and hoare_raise: "(\<And>d. P d \<Longrightarrow> Q (Inl e) d) \<Longrightarrow> hoare P (tx_raise e) Q"
  and hoare_lift: "(\<And>d. P d \<Longrightarrow> Q r d) \<Longrightarrow> hoare P (tx_lift r) Q"
  by (auto simp: hoare_def)

lemma hoare_atomically:
  assumes "\<And>d. P d \<Longrightarrow> Q (fst (f d)) (snd (f d))"
    and "\<And>d. P d \<Longrightarrow> Q (Inl DbError) d"
    and "\<And>d. P d \<Longrightarrow> Q (Inl DbError) (snd (f d))"
  shows "hoare P (atomically f) Q"
  unfolding hoare_def
proof (intro allI impI)
  fix w r w' assume q: "failures_only w" and p: "P (db w)" and a: "atomically f w = (r, w')"
  show "failures_only w' \<and> Q r (db w')"
  proof (cases "env w")
    case Nil
    with a assms(1) [OF p] q show ?thesis
      by (auto simp: atomically_def failures_only_def split: prod.splits)
  next
    case (Cons x es)
    with q have "x = Quiet \<or> x = Outage \<or> x = LostReply" by (cases x) (auto simp: failures_only_def)
    with a assms [OF p] Cons q show ?thesis
      by (auto simp: atomically_def failures_only_def split: prod.splits)
  qed
qed

lemma hoare_bind:
  assumes "hoare P m (\<lambda>r d. case r of Inl e \<Rightarrow> Q (Inl e) d | Inr x \<Rightarrow> I x d)"
    and "\<And>x. hoare (I x) (f x) Q"
  shows "hoare P (tx_bind m f) Q"
  unfolding hoare_def
proof (intro allI impI)
  fix w r w' assume q: "failures_only w" and p: "P (db w)" and b: "tx_bind m f w = (r, w')"
  obtain r1 w1 where m1: "m w = (r1, w1)" by (cases "m w")
  with assms(1) q p have 1: "failures_only w1"
    "case r1 of Inl e \<Rightarrow> Q (Inl e) (db w1) | Inr x \<Rightarrow> I x (db w1)"
    unfolding hoare_def by blast+
  show "failures_only w' \<and> Q r (db w')"
  proof (cases r1)
    case (Inl e)
    with b m1 1 show ?thesis by (auto simp: tx_bind_def)
  next
    case (Inr x)
    with b m1 1 assms(2) [of x] show ?thesis by (auto simp: tx_bind_def hoare_def)
  qed
qed

lemma hoare_catch:
  assumes "hoare P m (\<lambda>r d. case r of Inl e \<Rightarrow> I e d | Inr x \<Rightarrow> Q (Inr x) d)"
    and "\<And>e. hoare (I e) (h e) Q"
  shows "hoare P (tx_catch m h) Q"
  unfolding hoare_def
proof (intro allI impI)
  fix w r w' assume q: "failures_only w" and p: "P (db w)" and b: "tx_catch m h w = (r, w')"
  obtain r1 w1 where m1: "m w = (r1, w1)" by (cases "m w")
  with assms(1) q p have 1: "failures_only w1"
    "case r1 of Inl e \<Rightarrow> I e (db w1) | Inr x \<Rightarrow> Q (Inr x) (db w1)"
    unfolding hoare_def by blast+
  show "failures_only w' \<and> Q r (db w')"
  proof (cases r1)
    case (Inr x)
    with b m1 1 show ?thesis by (auto simp: tx_catch_def)
  next
    case (Inl e)
    with b m1 1 assms(2) [of e] show ?thesis by (auto simp: tx_catch_def hoare_def)
  qed
qed

lemma hoare_if: "(b \<Longrightarrow> hoare P m Q) \<Longrightarrow> (\<not> b \<Longrightarrow> hoare P n Q) \<Longrightarrow> hoare P (if b then m else n) Q"
  by simp

lemma hoare_let: "(\<And>x. x = t \<Longrightarrow> hoare P (f x) Q) \<Longrightarrow> hoare P (let x = t in f x) Q"
  by simp

lemma hoare_option:
  "(x = None \<Longrightarrow> hoare P m Q) \<Longrightarrow> (\<And>y. x = Some y \<Longrightarrow> hoare P (f y) Q) \<Longrightarrow>
   hoare P (case x of None \<Rightarrow> m | Some y \<Rightarrow> f y) Q"
  by (cases x) auto

lemma hoare_conseq:
  "hoare P m Q \<Longrightarrow> (\<And>d. P' d \<Longrightarrow> P d) \<Longrightarrow> (\<And>r d. Q r d \<Longrightarrow> Q' r d) \<Longrightarrow> hoare P' m Q'"
  unfolding hoare_def by blast

lemma hoare_False: "(\<And>d. \<not> P d) \<Longrightarrow> hoare P m Q"
  unfolding hoare_def by blast

end
