(* ===== verification/Py_Datetime.thy ===== *)
theory Py_Datetime
  imports Url_Parse
begin

section \<open>Dates and times (Python's \<open>datetime\<close>, in UTC)\<close>

text \<open>
  An aware \<open>datetime\<close> in UTC is an \<^typ>\<open>instant\<close>, microseconds since 1970. Modelled are
  \<open>datetime.fromtimestamp\<close> with its range errors and \<open>datetime.fromisoformat\<close> followed by
  \<open>astimezone(utc)\<close> on calendar dates (the ISO week form is not accepted here); a text without an
  offset is read in the server's zone, UTC.
\<close>

subsection \<open>The calendar\<close>

definition leap :: "int \<Rightarrow> bool" where
  "leap y \<longleftrightarrow> y mod 4 = 0 \<and> (y mod 100 \<noteq> 0 \<or> y mod 400 = 0)"

definition days_in_month :: "int \<Rightarrow> int \<Rightarrow> int" where
  "days_in_month y m =
     (if m = 2 then (if leap y then 29 else 28) else if m \<in> {4, 6, 9, 11} then 30 else 31)"

text \<open>Days from 1970-01-01 to a date of the proleptic Gregorian calendar.\<close>

definition days_before_year :: "int \<Rightarrow> int" where
  "days_before_year y = (let n = y - 1 in n * 365 + n div 4 - n div 100 + n div 400)"

definition days_before_month :: "int \<Rightarrow> int \<Rightarrow> int" where
  "days_before_month y m = sum_list (map (days_in_month y) [1..m - 1])"

definition epoch_day :: "int \<Rightarrow> int \<Rightarrow> int \<Rightarrow> int" where
  "epoch_day y m d = days_before_year y + days_before_month y m + d - 719163"

definition min_second :: int where "min_second = -62135596800"
definition max_second :: int where "max_second = 253402300799"

definition in_range :: "instant \<Rightarrow> bool" where
  "in_range t \<longleftrightarrow> min_second \<le> t div second \<and> t div second \<le> max_second"

text \<open>
  \<open>datetime.fromtimestamp(x, tz=utc)\<close>: a year outside 1 to 9999 is a ValueError, a value beyond the
  range of the platform's \<open>gmtime\<close> an OverflowError or OSError, both written OverflowError here.
\<close>

definition fromtimestamp :: "rat \<Rightarrow> instant res" where
  "fromtimestamp x =
     (let us = py_round (x * 1000000); s = us div second
      in if in_range us then Inr us
         else if - 67768040609740800 \<le> s \<and> s \<le> 67768036191676799
         then Inl (ValueError ''year is out of range'') else Inl OverflowError)"

subsection \<open>\<open>fromisoformat\<close>\<close>

definition fixed_digits :: "nat \<Rightarrow> string \<Rightarrow> (int \<times> string) option" where
  "fixed_digits n s =
     (let a = take n s in if length a = n \<and> list_all is_num a then Some (digits_int a, drop n s) else None)"

text \<open>The date, which ends at column 10 or at column 8, and the rest of the text.\<close>

definition parse_date :: "string \<Rightarrow> (int \<times> string) option" where
  "parse_date s =
     (case fixed_digits 4 s of None \<Rightarrow> None | Some (y, s1) \<Rightarrow>
        (let ext = starts_with s1 ''-''; s1' = (if ext then drop 1 s1 else s1) in
         case fixed_digits 2 s1' of None \<Rightarrow> None | Some (m, s2) \<Rightarrow>
           if ext \<and> \<not> starts_with s2 ''-'' then None
           else case fixed_digits 2 (if ext then drop 1 s2 else s2) of None \<Rightarrow> None | Some (d, s3) \<Rightarrow>
             if 1 \<le> y \<and> 1 \<le> m \<and> m \<le> 12 \<and> 1 \<le> d \<and> d \<le> days_in_month y m
             then Some (epoch_day y m d, s3) else None))"

text \<open>The fraction of a second: any number of digits, the first six count.\<close>

definition parse_fraction :: "string \<Rightarrow> int option" where
  "parse_fraction s =
     (if s \<noteq> [] \<and> list_all is_num s
      then Some (digits_int (take 6 (s @ replicate 6 CHR ''0''))) else None)"

text \<open>\<open>HH[:MM[:SS[.f]]]\<close>, or without the colons: microseconds.\<close>

definition parse_clock :: "string \<Rightarrow> int option" where
  "parse_clock s =
     (case fixed_digits 2 s of None \<Rightarrow> None | Some (h, s1) \<Rightarrow>
        if s1 = [] then Some (h * 3600 * second)
        else let ext = starts_with s1 '':''; s1' = (if ext then drop 1 s1 else s1) in
          case fixed_digits 2 s1' of None \<Rightarrow> None | Some (m, s2) \<Rightarrow>
            if 59 < m then None
            else if s2 = [] then Some ((h * 3600 + m * 60) * second)
            else if ext \<and> \<not> starts_with s2 '':'' then None
            else case fixed_digits 2 (if ext then drop 1 s2 else s2) of None \<Rightarrow> None | Some (sc, s3) \<Rightarrow>
              if 59 < sc then None
              else if s3 = [] then Some ((h * 3600 + m * 60 + sc) * second)
              else if hd s3 \<noteq> CHR ''.'' \<and> hd s3 \<noteq> CHR '','' then None
              else map_option (\<lambda>f. (h * 3600 + m * 60 + sc) * second + f) (parse_fraction (tl s3)))"

definition day_us :: int where "day_us = 86400 * second"

definition is_offset_char :: "char \<Rightarrow> bool" where
  "is_offset_char c \<longleftrightarrow> c = CHR ''+'' \<or> c = CHR ''-''"

definition parse_time :: "string \<Rightarrow> int option" where
  "parse_time s =
     (let body = takeWhile (\<lambda>c. \<not> is_offset_char c) s; off = dropWhile (\<lambda>c. \<not> is_offset_char c) s in
      case parse_clock body of None \<Rightarrow> None | Some t \<Rightarrow>
        if day_us \<le> t then None
        else if off = [] then Some t
        else case parse_clock (tl off) of None \<Rightarrow> None | Some z \<Rightarrow>
          if day_us \<le> z then None
          else Some (if hd off = CHR ''-'' then t + z else t - z))"

definition expand_z :: "string \<Rightarrow> string" where
  "expand_z s = concat (map (\<lambda>c. if c = CHR ''Z'' then ''+00:00'' else [c]) s)"

text \<open>
  \<open>datetime.fromisoformat(s.replace("Z", "+00:00")).astimezone(utc)\<close>; an instant the conversion
  moves out of the years 1 to 9999 is an OverflowError.
\<close>

definition parse_iso :: "string \<Rightarrow> instant res" where
  "parse_iso s =
     (case parse_date (expand_z s) of
        None \<Rightarrow> Inl (ValueError ''Invalid isoformat string'')
      | Some (day, rest) \<Rightarrow>
        if rest = [] then Inr (day * day_us)
        else (case parse_time (tl rest) of
                None \<Rightarrow> Inl (ValueError ''Invalid isoformat string'')
              | Some t \<Rightarrow> if in_range (day * day_us + t) then Inr (day * day_us + t)
                          else Inl OverflowError))"

subsection \<open>Lemmas\<close>

lemma fromtimestamp_Inr: "fromtimestamp x = Inr t \<Longrightarrow> in_range t \<and> t = py_round (x * 1000000)"
  by (auto simp: fromtimestamp_def Let_def split: if_splits)

lemma fromtimestamp_mono:
  assumes "fromtimestamp x = Inr s" "fromtimestamp y = Inr t" "x \<le> y"
  shows "s \<le> t"
proof -
  have "s = py_round (x * 1000000)" "t = py_round (y * 1000000)"
    using assms(1,2) fromtimestamp_Inr by blast+
  with assms(3) show ?thesis by (simp add: py_round_mono)
qed

lemma iso_examples:
  "parse_iso ''1970-01-01T00:00:00Z'' = Inr 0"
  "parse_iso ''2024-02-29 12:00:01.5+02:00'' = Inr 1709200801500000"
  "parse_iso ''20240229T1200'' = Inr 1709208000000000"
  "parse_iso ''2023-02-29'' = Inl (ValueError ''Invalid isoformat string'')"
  by code_simp+

subsection \<open>Starts of days, months and years\<close>

text \<open>\<open>now.replace (month=1, day=1, \<dots>)\<close> and its likes, and \<open>date_trunc\<close> in UTC.\<close>

definition year_of_day :: "int \<Rightarrow> int" where
  "year_of_day day =
     (let D = day + 719162; n = D * 400 div 146097
      in if days_before_year (n + 2) \<le> D then n + 2 else n + 1)"

definition month_of_day :: "int \<Rightarrow> int" where
  "month_of_day day =
     int (length [m \<leftarrow> [1..12]. epoch_day (year_of_day day) m 1 \<le> day])"

definition day_start :: "instant \<Rightarrow> instant" where
  "day_start t = t div day_us * day_us"

definition year_start :: "instant \<Rightarrow> instant" where
  "year_start t = epoch_day (year_of_day (t div day_us)) 1 1 * day_us"

definition month_start :: "instant \<Rightarrow> instant" where
  "month_start t =
     (let day = t div day_us in epoch_day (year_of_day day) (month_of_day day) 1 * day_us)"

definition next_year_start :: "instant \<Rightarrow> instant" where
  "next_year_start t = epoch_day (year_of_day (t div day_us) + 1) 1 1 * day_us"

definition next_month_start :: "instant \<Rightarrow> instant" where
  "next_month_start t =
     (let day = t div day_us; y = year_of_day day; m = month_of_day day
      in (if m = 12 then epoch_day (y + 1) 1 1 else epoch_day y (m + 1) 1) * day_us)"

lemma days_before_year_bounds:
  fixes n :: int
  shows "400 * days_before_year (n + 1) \<le> 146097 * n + 396"
    and "146097 * n \<le> 400 * days_before_year (n + 1) + 699"
proof -
  have d: "400 * days_before_year (n + 1) = 146000 * n + 400 * (n div 4) - 400 * (n div 100) + 400 * (n div 400)"
    by (simp add: days_before_year_def)
  have m: "k * (n div k) \<le> n \<and> n < k * (n div k) + k" if "0 < k" for k :: int
    using that mult_div_mod_eq [of k n] pos_mod_bound [of k n] pos_mod_sign [of k n] by linarith
  note m [of 4] m [of 100] m [of 400]
  then show "400 * days_before_year (n + 1) \<le> 146097 * n + 396"
    "146097 * n \<le> 400 * days_before_year (n + 1) + 699"
    unfolding d by linarith+
qed

lemma days_before_year_step: "days_before_year y + 362 \<le> days_before_year (y + 1)"
  using days_before_year_bounds(1) [of "y - 1"] days_before_year_bounds(2) [of y] by simp

lemma days_before_year_mono: "a \<le> b \<Longrightarrow> days_before_year a \<le> days_before_year b"
proof (induction "nat (b - a)" arbitrary: b)
  case (Suc k)
  then have "days_before_year a \<le> days_before_year (b - 1)" by simp
  with days_before_year_step [of "b - 1"] show ?case by simp
qed simp

lemma year_of_day_bounds:
  "days_before_year (year_of_day day) \<le> day + 719162"
  "day + 719162 < days_before_year (year_of_day day + 1)"
proof -
  define D n where "D = day + 719162" and "n = D * 400 div 146097"
  have n: "146097 * n \<le> D * 400" "D * 400 \<le> 146097 * n + 146096"
    using mult_div_mod_eq [of 146097 "D * 400"] pos_mod_bound [of 146097 "D * 400"]
      pos_mod_sign [of 146097 "D * 400"] unfolding n_def by linarith+
  have lo: "days_before_year (n + 1) \<le> D"
    using days_before_year_bounds(1) [of n] n(1) by linarith
  have hi: "D \<le> days_before_year (n + 2) + 1"
  proof -
    have "n + 1 + 1 = n + 2" by simp
    with days_before_year_bounds(2) [of "n + 1"]
    have "146097 * (n + 1) \<le> 400 * days_before_year (n + 2) + 699" by (simp only:)
    moreover have "146097 * (n + 1) = 146097 * n + 146097" by simp
    ultimately have "D * 400 \<le> 400 * days_before_year (n + 2) + 698" using n(2) by linarith
    then show ?thesis by linarith
  qed
  have y: "year_of_day day = (if days_before_year (n + 2) \<le> D then n + 2 else n + 1)"
    by (simp add: year_of_day_def Let_def n_def D_def)
  show "days_before_year (year_of_day day) \<le> day + 719162" using lo by (simp add: y flip: D_def)
  show "day + 719162 < days_before_year (year_of_day day + 1)"
  proof -
    have "D < days_before_year (n + 2 + 1)" if "days_before_year (n + 2) \<le> D"
      using hi days_before_year_step [of "n + 2"] by linarith
    moreover have "D < days_before_year (n + 1 + 1)" if "\<not> days_before_year (n + 2) \<le> D"
    proof -
      have "n + 1 + 1 = n + 2" by simp
      with that show ?thesis by (simp only: not_le)
    qed
    ultimately show ?thesis unfolding y D_def [symmetric] by (cases "days_before_year (n + 2) \<le> D") (simp_all only: if_True if_False simp_thms)
  qed
qed

lemma year_of_day_mono: "a \<le> b \<Longrightarrow> year_of_day a \<le> year_of_day b"
proof (rule ccontr)
  assume "a \<le> b" "\<not> year_of_day a \<le> year_of_day b"
  then have "days_before_year (year_of_day b + 1) \<le> days_before_year (year_of_day a)"
    by (intro days_before_year_mono) simp
  with year_of_day_bounds(1) [of a] year_of_day_bounds(2) [of b] \<open>a \<le> b\<close> show False by simp
qed

lemma days_in_month_pos: "28 \<le> days_in_month y m"
  by (auto simp: days_in_month_def)

lemma days_before_month_step:
  assumes "1 \<le> m"
  shows "days_before_month y (m + 1) = days_before_month y m + days_in_month y m"
proof -
  have "[1..m] = [1..m - 1] @ [m]" using assms by (rule upto_rec2)
  then show ?thesis by (simp add: days_before_month_def)
qed

lemma days_before_month_mono: "1 \<le> a \<Longrightarrow> a \<le> b \<Longrightarrow> days_before_month y a \<le> days_before_month y b"
proof (induction "nat (b - a)" arbitrary: b)
  case (Suc k)
  then have b: "a \<le> b - 1" "k = nat (b - 1 - a)" by simp_all
  with Suc have "days_before_month y a \<le> days_before_month y (b - 1)" by blast
  moreover have "days_before_month y b = days_before_month y (b - 1) + days_in_month y (b - 1)"
    using days_before_month_step [of "b - 1" y] b Suc.prems by simp
  ultimately show ?case using days_in_month_pos [of y "b - 1"] by simp
qed simp

lemma epoch_day_first: "epoch_day y 1 1 = days_before_year y - 719162"
  by (simp add: epoch_day_def days_before_month_def)

lemma epoch_day_mono: "1 \<le> a \<Longrightarrow> a \<le> b \<Longrightarrow> epoch_day y a 1 \<le> epoch_day y b 1"
  by (simp add: epoch_day_def days_before_month_mono)

lemma year_start_le: "epoch_day (year_of_day day) 1 1 \<le> day"
  using year_of_day_bounds(1) [of day] by (simp add: epoch_day_first)

lemma filter_initial:
  assumes "sorted xs" "\<And>a b. a \<le> b \<Longrightarrow> P b \<Longrightarrow> P a"
  shows "filter P xs = take (length (filter P xs)) xs"
  using assms
proof (induction xs)
  case (Cons x xs)
  show ?case
  proof (cases "P x")
    case False
    with Cons.prems have "\<forall>y \<in> set xs. \<not> P y" by auto
    with False show ?thesis by simp
  qed (use Cons in simp)
qed simp

lemma month_of_day_bounds: "1 \<le> month_of_day day" "month_of_day day \<le> 12" "epoch_day (year_of_day day) (month_of_day day) 1 \<le> day"
proof -
  let ?P = "\<lambda>m. epoch_day (year_of_day day) m 1 \<le> day" and ?ms = "[1..12] :: int list"
  let ?Q = "\<lambda>m. m < 1 \<or> ?P m"
  have f: "filter ?P ?ms = filter ?Q ?ms" by (rule filter_cong) auto
  have down: "?Q a" if "a \<le> b" "?Q b" for a b
    using that epoch_day_mono [of a b "year_of_day day"] by (cases "a < 1") auto
  have t: "filter ?Q ?ms = take (length (filter ?Q ?ms)) ?ms"
    by (rule filter_initial) (use down in auto)
  define k where "k = length (filter ?P ?ms)"
  have m: "month_of_day day = int k" by (simp add: month_of_day_def k_def)
  have "1 \<in> set (filter ?P ?ms)" using year_start_le by simp
  then have k1: "1 \<le> k" unfolding k_def by (metis One_nat_def Suc_leI empty_iff empty_set length_greater_0_conv)
  have "k \<le> length ?ms" unfolding k_def by (rule length_filter_le)
  then have k12: "k \<le> 12" by simp
  have "?ms ! (k - 1) \<in> set (take k ?ms)" using k1 k12 by (auto simp: in_set_conv_nth intro!: exI [of _ "k - 1"])
  then have "?ms ! (k - 1) \<in> set (filter ?Q ?ms)" using t f unfolding k_def by metis
  moreover have "?ms ! (k - 1) = int k" using k1 k12 by simp
  ultimately have "?Q (int k)" by auto
  then have "?P (int k)" using k1 by auto
  then show "epoch_day (year_of_day day) (month_of_day day) 1 \<le> day" by (simp add: m)
  show "1 \<le> month_of_day day" "month_of_day day \<le> 12" using k1 k12 by (simp_all add: m)
qed

lemma day_start_le: "day_start t \<le> t" and day_start_mono: "s \<le> t \<Longrightarrow> day_start s \<le> day_start t"
proof -
  show "day_start t \<le> t" by (simp add: day_start_def day_us_def)
  show "s \<le> t \<Longrightarrow> day_start s \<le> day_start t"
    by (simp add: day_start_def day_us_def zdiv_mono1)
qed

lemma month_start_le: "month_start t \<le> t"
proof -
  let ?day = "t div day_us"
  have "epoch_day (year_of_day ?day) (month_of_day ?day) 1 * day_us \<le> ?day * day_us"
    using month_of_day_bounds(3) by (simp add: day_us_def)
  with day_start_le [of t] show ?thesis by (simp add: month_start_def Let_def day_start_def)
qed

lemma length_filter_mono: "(\<And>x. P x \<Longrightarrow> Q x) \<Longrightarrow> length (filter P xs) \<le> length (filter Q xs)"
  by (induction xs) (auto intro: le_SucI)

lemma month_start_mono:
  assumes "s \<le> t"
  shows "month_start s \<le> month_start t"
proof -
  let ?a = "s div day_us" and ?b = "t div day_us"
  have ab: "?a \<le> ?b" using assms by (simp add: zdiv_mono1 day_us_def)
  let ?e = "\<lambda>d. epoch_day (year_of_day d) (month_of_day d) 1"
  have "?e ?a \<le> ?e ?b"
  proof (cases "year_of_day ?a = year_of_day ?b")
    case True
    have "length [m \<leftarrow> [1..12]. epoch_day (year_of_day ?b) m 1 \<le> ?a] \<le>
          length [m \<leftarrow> [1..12]. epoch_day (year_of_day ?b) m 1 \<le> ?b]"
      using ab by (intro length_filter_mono) simp
    then have "month_of_day ?a \<le> month_of_day ?b" by (simp add: month_of_day_def True)
    with True month_of_day_bounds(1) show ?thesis by (simp add: epoch_day_mono)
  next
    case False
    with year_of_day_mono [OF ab] have "year_of_day ?a + 1 \<le> year_of_day ?b" by simp
    from days_before_year_mono [OF this] year_of_day_bounds(2) [of ?a]
    have "?a < epoch_day (year_of_day ?b) 1 1" by (simp add: epoch_day_first)
    with month_of_day_bounds [of ?a] month_of_day_bounds(1) [of ?b] epoch_day_mono [of 1 "month_of_day ?b" "year_of_day ?b"]
    show ?thesis by linarith
  qed
  then show ?thesis by (simp add: month_start_def Let_def day_us_def)
qed

lemma calendar_examples:
  "month_start (1709208000 * second) = 1706745600 * second"
  "year_start (1709208000 * second) = 1704067200 * second"
  "next_month_start (1735603200 * second) = 1735689600 * second"
  by code_simp+

end
