(* ===== verification/User_Limits.thy ===== *)
theory User_Limits
  imports Config
begin

section \<open>Plan limits and subscription prices (app/limits.py)\<close>

text \<open>
  How a profile row and the application defaults give the limits of a user, and how the price in
  a subscription event becomes cents and approximate monthly revenue. A profile row is a record
  with optional columns; a subscription event's \<open>data\<close> is a JSON dictionary.
\<close>

subsection \<open>Limits of a user\<close>

definition weeks_per_month :: rat where
  "weeks_per_month = 52 / 12"

definition default_pro_monthly_cents :: int where
  "default_pro_monthly_cents = py_round (999 * weeks_per_month)"

record user_limits =
  ul_free_weekly_limit :: int
  ul_pro_monthly_price_cents :: int
  ul_pro_margin_ratio :: rat
  ul_pro_budget_cents :: rat

record app_defaults =
  ad_free_weekly_limit :: int
  ad_pro_margin_ratio :: rat
  ad_default_pro_monthly_price_cents :: int

definition app_defaults0 :: app_defaults where
  "app_defaults0 = \<lparr>ad_free_weekly_limit = 3, ad_pro_margin_ratio = 2 / 5,
     ad_default_pro_monthly_price_cents = default_pro_monthly_cents\<rparr>"

text \<open>The columns of \<open>app_settings\<close> and of \<open>profiles\<close> that limits are resolved from.\<close>

record settings_row =
  sr_free_weekly_limit :: "int option"
  sr_pro_margin_ratio :: "rat option"
  sr_default_pro_monthly_price_cents :: "int option"

record limit_columns =
  lc_free_weekly_limit :: "int option"
  lc_pro_margin_ratio :: "rat option"
  lc_pro_monthly_price_cents :: "int option"

text \<open>\<open>x or d\<close> on an optional number: None and 0 both give the default.\<close>

definition num_or :: "('a::zero) option \<Rightarrow> 'a \<Rightarrow> 'a" where
  "num_or x d = (case x of None \<Rightarrow> d | Some v \<Rightarrow> if v = 0 then d else v)"

definition get_app_defaults :: "settings_row option \<Rightarrow> app_defaults" where
  "get_app_defaults row =
     (case row of None \<Rightarrow> app_defaults0
      | Some r \<Rightarrow> \<lparr>ad_free_weekly_limit = num_or (sr_free_weekly_limit r) 3,
                   ad_pro_margin_ratio = num_or (sr_pro_margin_ratio r) (2 / 5),
                   ad_default_pro_monthly_price_cents =
                     num_or (sr_default_pro_monthly_price_cents r) default_pro_monthly_cents\<rparr>)"

text \<open>The defaults are read only when a column is missing.\<close>

definition resolve_user_limits :: "settings_row option \<Rightarrow> limit_columns \<Rightarrow> user_limits" where
  "resolve_user_limits row p =
     (let d = get_app_defaults row;
          free = (case lc_free_weekly_limit p of None \<Rightarrow> ad_free_weekly_limit d | Some v \<Rightarrow> v);
          margin = (case lc_pro_margin_ratio p of None \<Rightarrow> ad_pro_margin_ratio d | Some v \<Rightarrow> v);
          price = (case lc_pro_monthly_price_cents p of
                     None \<Rightarrow> ad_default_pro_monthly_price_cents d | Some v \<Rightarrow> v);
          budget = of_int price * (1 - margin)
      in \<lparr>ul_free_weekly_limit = free, ul_pro_monthly_price_cents = price,
          ul_pro_margin_ratio = margin, ul_pro_budget_cents = round4 budget\<rparr>)"

subsection \<open>Prices in a subscription event\<close>

datatype period = Week | Month | Year | Unknown

text \<open>The loop over the four keys: the first value that names a period wins.\<close>

fun period_of_keys :: "(json \<Rightarrow> string) \<Rightarrow> dict \<Rightarrow> string list \<Rightarrow> period option" where
  "period_of_keys rep data [] = None"
| "period_of_keys rep data (k # ks) =
     (let raw = dget data k in
      if raw = JNull then period_of_keys rep data ks
      else let text = lower (strip (py_str rep raw)) in
        if text \<in> {''week'', ''weekly'', ''p1w''} then Some Week
        else if text \<in> {''month'', ''monthly'', ''p1m''} then Some Month
        else if text \<in> {''year'', ''yearly'', ''annual'', ''annually'', ''p1y''} then Some Year
        else period_of_keys rep data ks)"

definition billing_period_from_superwall :: "(json \<Rightarrow> string) \<Rightarrow> dict \<Rightarrow> period" where
  "billing_period_from_superwall rep data =
     (case period_of_keys rep data
             [''period'', ''subscriptionPeriod'', ''billingPeriod'', ''productPeriod''] of
        Some p \<Rightarrow> p
      | None \<Rightarrow>
        let product = lower (py_str rep
              (py_or (dget data ''productId'') (py_or (dget data ''productIdentifier'') (JStr [])))) in
        if contains product ''_wk'' \<or> contains product ''weekly'' then Week
        else if contains product ''_mo'' \<or> contains product ''monthly'' then Month
        else if contains product ''_an'' \<or> contains product ''_yr'' \<or> contains product ''yearly''
                \<or> contains product ''annual'' then Year
        else Unknown)"

text \<open>The first positive number under the given keys, in cents, at least 1.\<close>

fun first_positive_cents :: "dict \<Rightarrow> string list \<Rightarrow> int option" where
  "first_positive_cents data [] = None"
| "first_positive_cents data (k # ks) =
     (case num_value (dget data k) of
        Some v \<Rightarrow> if v > 0 then Some (max (py_round (v * 100)) 1) else first_positive_cents data ks
      | None \<Rightarrow> first_positive_cents data ks)"

definition period_price_cents_from_superwall :: "dict \<Rightarrow> int option" where
  "period_price_cents_from_superwall data =
     first_positive_cents data [''price'', ''priceInPurchasedCurrency'']"

definition monthly_price_cents_from_superwall :: "(json \<Rightarrow> string) \<Rightarrow> dict \<Rightarrow> int option" where
  "monthly_price_cents_from_superwall rep data =
     (case period_price_cents_from_superwall data of
        None \<Rightarrow> None
      | Some cents \<Rightarrow>
        (case billing_period_from_superwall rep data of
           Week \<Rightarrow> Some (max (py_round (of_int cents * weeks_per_month)) 1)
         | Year \<Rightarrow> Some (max (py_round (of_int cents / 12)) 1)
         | Month \<Rightarrow> Some cents
         | Unknown \<Rightarrow> Some cents))"

definition price_cents_from_superwall :: "dict \<Rightarrow> int option" where
  "price_cents_from_superwall data = period_price_cents_from_superwall data"

definition proceeds_cents_from_superwall :: "dict \<Rightarrow> int option" where
  "proceeds_cents_from_superwall data =
     first_positive_cents data [''proceeds'', ''netProceeds'', ''proceedsInPurchasedCurrency'']"

subsection \<open>Lemmas\<close>

lemma py_round_floor: "of_int f \<le> x \<Longrightarrow> x < of_int f + 1 / 2 \<Longrightarrow> py_round x = f"
proof -
  assume a: "of_int f \<le> x" "x < of_int f + 1 / 2"
  then have "\<lfloor>x\<rfloor> = f" by (intro floor_unique) linarith+
  with a show ?thesis by (simp add: py_round_def Let_def)
qed

lemma default_pro_monthly_cents_eq [simp]: "default_pro_monthly_cents = 4329"
  by (simp add: default_pro_monthly_cents_def weeks_per_month_def py_round_def)

lemma first_positive_cents_pos: "first_positive_cents data ks = Some c \<Longrightarrow> 1 \<le> c"
  by (induction ks) (auto split: option.splits if_splits)

lemma period_price_pos: "period_price_cents_from_superwall data = Some c \<Longrightarrow> 1 \<le> c"
  unfolding period_price_cents_from_superwall_def by (rule first_positive_cents_pos)

lemma monthly_price_pos: "monthly_price_cents_from_superwall rep data = Some c \<Longrightarrow> 1 \<le> c"
  by (auto simp: monthly_price_cents_from_superwall_def period_price_pos
      split: option.splits period.splits)

lemma monthly_price_None_iff:
  "monthly_price_cents_from_superwall rep data = None \<longleftrightarrow> period_price_cents_from_superwall data = None"
  by (auto simp: monthly_price_cents_from_superwall_def split: option.splits period.splits)

lemma resolve_full_row:
  "lc_free_weekly_limit p = Some f \<Longrightarrow> lc_pro_margin_ratio p = Some m \<Longrightarrow>
   lc_pro_monthly_price_cents p = Some c \<Longrightarrow>
   resolve_user_limits row p = \<lparr>ul_free_weekly_limit = f, ul_pro_monthly_price_cents = c,
     ul_pro_margin_ratio = m, ul_pro_budget_cents = round4 (of_int c * (1 - m))\<rparr>"
  by (simp add: resolve_user_limits_def)

text \<open>The budget leaves the margin: what may be spent plus the margin is the price, up to the
  rounding of the fourth decimal.\<close>

lemma budget_margin:
  "\<bar>ul_pro_budget_cents (resolve_user_limits row p)
     + of_int (ul_pro_monthly_price_cents (resolve_user_limits row p))
         * ul_pro_margin_ratio (resolve_user_limits row p)
     - of_int (ul_pro_monthly_price_cents (resolve_user_limits row p))\<bar> \<le> 1 / 20000"
proof -
  define c where "c = (of_int (ul_pro_monthly_price_cents (resolve_user_limits row p)) :: rat)"
  define m where "m = ul_pro_margin_ratio (resolve_user_limits row p)"
  have b: "ul_pro_budget_cents (resolve_user_limits row p) = round4 (c * (1 - m))"
    by (simp add: c_def m_def resolve_user_limits_def Let_def)
  have e: "round4 (c * (1 - m)) + c * m - c = round4 (c * (1 - m)) - c * (1 - m)"
    by (simp add: algebra_simps)
  have "\<bar>round4 (c * (1 - m)) + c * m - c\<bar> \<le> 1 / 20000"
    by (subst e) (rule round4_error)
  then show ?thesis by (simp only: b c_def m_def)
qed

end
