(* ===== verification/Billing_Store.thy ===== *)
theory Billing_Store
  imports Tx Py_Datetime User_Limits
begin

section \<open>Profiles and receipts\<close>

text \<open>
  The tables that subscription events read and write (\<open>migrations/001_init.sql\<close>): profiles, the
  receipts of Superwall events and of Apple notifications, the application settings. The locale
  \<open>receipt_book\<close> is the contract both receipt tables keep: a receipt is created once, and a
  processed or skipped receipt never changes. The compare-and-set update of a profile, written the
  same way in app/superwall.py and app/apple_notifications.py, is shared, as is the order it keeps.
\<close>

datatype receipt_status = Received | Processed | Skipped | Failed

definition is_terminal :: "receipt_status \<Rightarrow> bool" where
  "is_terminal s \<longleftrightarrow> s = Processed \<or> s = Skipped"

lemma is_terminal_simps [simp]:
  "is_terminal Processed" "is_terminal Skipped" "\<not> is_terminal Received" "\<not> is_terminal Failed"
  by (simp_all add: is_terminal_def)

record sw_receipt =
  sw_name :: string
  sw_at :: instant
  sw_user :: "uuid option"
  sw_payload :: json
  sw_status :: receipt_status
  sw_error :: "string option"
  sw_processed_at :: "instant option"

record ap_receipt =
  ap_type :: string
  ap_sha256 :: string
  ap_payload :: json
  ap_status :: receipt_status

record profile =
  pf_email :: "string option"
  pf_is_pro :: bool
  pf_pro_expires_at :: "instant option"
  pf_event_at :: "instant option"
  pf_event_id :: "string option"
  pf_product_id :: json
  pf_currency :: json
  pf_price_cents :: "int option"
  pf_proceeds_cents :: "int option"
  pf_free_weekly_limit :: "int option"
  pf_pro_monthly_price_cents :: "int option"
  pf_pro_margin_ratio :: "rat option"
  pf_deleted_at :: "instant option"

record billing_db =
  profiles :: "uuid \<rightharpoonup> profile"
  sw_receipts :: "string \<rightharpoonup> sw_receipt"
  ap_receipts :: "string \<rightharpoonup> ap_receipt"
  app_settings :: "settings_row option"

subsection \<open>Statements on profiles\<close>

text \<open>The columns an update assigns.\<close>

datatype assignment =
    EventAt instant | EventId string | ProductId json | Currency json | PriceCents "int option"
  | ProceedsCents int | IsPro bool | ProExpiresAt "instant option" | MonthlyPrice "int option"
  | FreeWeeklyLimit int

fun assign :: "assignment \<Rightarrow> profile \<Rightarrow> profile" where
  "assign (EventAt t) p = p\<lparr>pf_event_at := Some t\<rparr>"
| "assign (EventId e) p = p\<lparr>pf_event_id := Some e\<rparr>"
| "assign (ProductId v) p = p\<lparr>pf_product_id := v\<rparr>"
| "assign (Currency v) p = p\<lparr>pf_currency := v\<rparr>"
| "assign (PriceCents c) p = p\<lparr>pf_price_cents := c\<rparr>"
| "assign (ProceedsCents c) p = p\<lparr>pf_proceeds_cents := Some c\<rparr>"
| "assign (IsPro b) p = p\<lparr>pf_is_pro := b\<rparr>"
| "assign (ProExpiresAt t) p = p\<lparr>pf_pro_expires_at := t\<rparr>"
| "assign (MonthlyPrice c) p = p\<lparr>pf_pro_monthly_price_cents := c\<rparr>"
| "assign (FreeWeeklyLimit n) p = p\<lparr>pf_free_weekly_limit := Some n\<rparr>"

definition assign_all :: "assignment list \<Rightarrow> profile \<Rightarrow> profile" where
  "assign_all as p = fold assign as p"

text \<open>The column types: \<open>numeric(12, 4)\<close> prices, 32-bit monthly price and free limit.\<close>

fun storable :: "assignment \<Rightarrow> bool" where
  "storable (PriceCents (Some c)) \<longleftrightarrow> c < 100000000"
| "storable (ProceedsCents c) \<longleftrightarrow> c < 100000000"
| "storable (MonthlyPrice (Some c)) \<longleftrightarrow> c < 2147483648"
| "storable _ \<longleftrightarrow> True"

definition fetch_profile :: "uuid \<Rightarrow> (billing_db, profile option) tx" where
  "fetch_profile u = atomically (\<lambda>d. (Inr (profiles d u), d))"

definition fetch_defaults :: "(billing_db, app_defaults) tx" where
  "fetch_defaults = atomically (\<lambda>d. (Inr (get_app_defaults (app_settings d)), d))"

text \<open>
  \<open>update profiles set \<dots> where id = %s and deleted_at is null and subscription_event_at is not
  distinct from %s and subscription_event_id is not distinct from %s returning id\<close>: whether a row
  was updated.
\<close>

definition cas_update ::
  "uuid \<Rightarrow> instant option \<Rightarrow> string option \<Rightarrow> assignment list \<Rightarrow> billing_db \<Rightarrow> bool res \<times> billing_db" where
  "cas_update u seen_at seen_id as d =
     (case profiles d u of
        Some p \<Rightarrow>
          if pf_deleted_at p = None \<and> pf_event_at p = seen_at \<and> pf_event_id p = seen_id
          then if list_all storable as
               then (Inr True, d\<lparr>profiles := (profiles d)(u \<mapsto> assign_all as p)\<rparr>)
               else (Inl DbError, d)
          else (Inr False, d)
      | None \<Rightarrow> (Inr False, d))"

definition update_profile ::
  "uuid \<Rightarrow> instant option \<Rightarrow> string option \<Rightarrow> assignment list \<Rightarrow> (billing_db, bool) tx" where
  "update_profile u seen_at seen_id as = atomically (cas_update u seen_at seen_id as)"

subsection \<open>The contract of a receipt table\<close>

definition receipts_kept :: "('db \<Rightarrow> string \<Rightarrow> receipt_status option) \<Rightarrow> 'db \<Rightarrow> 'db \<Rightarrow> bool" where
  "receipts_kept st d d' \<longleftrightarrow> (\<forall>e s. st d e = Some s \<longrightarrow> is_terminal s \<longrightarrow> st d' e = Some s)"

interpretation rk: guarantee "receipts_kept st"
  by unfold_locales (auto simp: receipts_kept_def)

text \<open>
  \<open>record\<close> registers a delivery and says whether it is to be processed, \<open>mark\<close> sets the outcome.
\<close>

locale receipt_book =
  fixes status_at :: "'db \<Rightarrow> string \<Rightarrow> receipt_status option"
    and record_at :: "'x \<Rightarrow> string \<Rightarrow> ('db, bool) tx"
    and mark_at :: "'y \<Rightarrow> string \<Rightarrow> receipt_status \<Rightarrow> ('db, unit) tx"
  assumes record_keeps: "keeps (receipts_kept status_at) (record_at x e)"
    and mark_keeps: "keeps (receipts_kept status_at) (mark_at y e s)"
    and record_known: "\<lbrakk>status_at (db w) e = Some s; is_terminal s; env_in (receipts_kept status_at) w;
                        record_at x e w = (Inr b, w')\<rbrakk> \<Longrightarrow> \<not> b"
    and mark_sets: "\<lbrakk>status_at d e = Some s; \<not> is_terminal s\<rbrakk> \<Longrightarrow>
                      \<exists>d'. mark_at y e t \<lparr>db = d, env = []\<rparr> = (Inr (), \<lparr>db = d', env = []\<rparr>) \<and>
                           status_at d' e = Some t"
    and record_new: "status_at d e = None \<Longrightarrow>
                      \<exists>d' b. record_at x e \<lparr>db = d, env = []\<rparr> = (b, \<lparr>db = d', env = []\<rparr>) \<and>
                           (b = Inr True \<and> status_at d' e = Some Received \<or> b = Inl DbError \<and> d' = d)"
    and record_retry: "\<lbrakk>status_at d e = Some s; \<not> is_terminal s\<rbrakk> \<Longrightarrow>
                      record_at x e \<lparr>db = d, env = []\<rparr> = (Inr True, \<lparr>db = d, env = []\<rparr>)"
begin

text \<open>A delivery whose receipt was left open is processed again, one that was settled is not.\<close>

lemma retry_until_terminal:
  assumes "status_at d e = Some s"
  shows "record_at x e \<lparr>db = d, env = []\<rparr> = (Inr True, \<lparr>db = d, env = []\<rparr>) \<and> \<not> is_terminal s \<or>
         is_terminal s \<and> fst (record_at x e \<lparr>db = d, env = []\<rparr>) \<noteq> Inr True"
proof (cases "is_terminal s")
  case True
  have "fst (record_at x e \<lparr>db = d, env = []\<rparr>) \<noteq> Inr True"
  proof
    assume "fst (record_at x e \<lparr>db = d, env = []\<rparr>) = Inr True"
    then obtain w' where "record_at x e \<lparr>db = d, env = []\<rparr> = (Inr True, w')"
      by (cases "record_at x e \<lparr>db = d, env = []\<rparr>") auto
    from record_known [OF _ True _ this] assms show False by (auto simp: env_in_def)
  qed
  with True show ?thesis by blast
next
  case False
  with assms show ?thesis by (simp add: record_retry)
qed

text \<open>After a failure is marked, the next delivery is processed.\<close>

lemma failed_is_retried:
  assumes "status_at d e = Some s" "\<not> is_terminal s"
  obtains d' where "mark_at y e Failed \<lparr>db = d, env = []\<rparr> = (Inr (), \<lparr>db = d', env = []\<rparr>)"
    "record_at x e \<lparr>db = d', env = []\<rparr> = (Inr True, \<lparr>db = d', env = []\<rparr>)"
  using mark_sets [OF assms, of y Failed] by (auto simp: record_retry)

text \<open>Any handler composed of these calls and of calls that leave the table alone keeps settled
  receipts; a later delivery, after whatever happened in between, is a duplicate.\<close>

lemma settled_forever:
  assumes "status_at (db w) e = Some s" "is_terminal s" "env_in (receipts_kept status_at) w"
    and "keeps (receipts_kept status_at) m" "m w = (r, w1)" "record_at x e w1 = (Inr b, w2)"
  shows "\<not> b"
proof -
  from assms(3-5) have k: "receipts_kept status_at (db w) (db w1)" "env_in (receipts_kept status_at) w1"
    unfolding keeps_def by blast+
  with assms(1,2) have "status_at (db w1) e = Some s" by (auto simp: receipts_kept_def)
  from record_known [OF this assms(2) k(2) assms(6)] show ?thesis .
qed

end

subsection \<open>The order of subscription events\<close>

text \<open>
  The relation that every subscription update respects: the time of the last applied event of a
  profile never decreases, the profile of a deleted account does not change, and no settled
  receipt changes. Rows of \<open>profiles\<close> are never deleted: an account
deletion sets \<open>deleted_at\<close>.
\<close>

definition event_before :: "instant option \<Rightarrow> instant option \<Rightarrow> bool" where
  "event_before a b \<longleftrightarrow> (case a of None \<Rightarrow> True | Some s \<Rightarrow> (case b of None \<Rightarrow> False | Some t \<Rightarrow> s \<le> t))"

lemma event_before_refl [simp]: "event_before a a"
  by (simp add: event_before_def split: option.splits)

lemma event_before_trans: "event_before a b \<Longrightarrow> event_before b c \<Longrightarrow> event_before a c"
  by (auto simp: event_before_def split: option.splits)

definition profile_order :: "profile \<Rightarrow> profile \<Rightarrow> bool" where
  "profile_order p p' \<longleftrightarrow>
     event_before (pf_event_at p) (pf_event_at p') \<and> (pf_deleted_at p \<noteq> None \<longrightarrow> p' = p)"

definition sw_status_at :: "billing_db \<Rightarrow> string \<Rightarrow> receipt_status option" where
  "sw_status_at d e = map_option sw_status (sw_receipts d e)"

definition ap_status_at :: "billing_db \<Rightarrow> string \<Rightarrow> receipt_status option" where
  "ap_status_at d e = map_option ap_status (ap_receipts d e)"

definition billing_order :: "billing_db \<Rightarrow> billing_db \<Rightarrow> bool" where
  "billing_order d d' \<longleftrightarrow>
     (\<forall>u p. profiles d u = Some p \<longrightarrow> (\<exists>p'. profiles d' u = Some p' \<and> profile_order p p')) \<and>
     receipts_kept sw_status_at d d' \<and> receipts_kept ap_status_at d d'"

lemma profile_order_refl [simp]: "profile_order p p"
  by (simp add: profile_order_def)

lemma profile_order_trans: "profile_order a b \<Longrightarrow> profile_order b c \<Longrightarrow> profile_order a c"
  unfolding profile_order_def by (metis event_before_trans)

interpretation bo: guarantee billing_order
proof
  show "billing_order d d" for d
    by (simp add: billing_order_def receipts_kept_def)
next
  fix a b c assume ab: "billing_order a b" and bc: "billing_order b c"
  have "\<exists>p'. profiles c u = Some p' \<and> profile_order p p'" if "profiles a u = Some p" for u p
  proof -
    from ab that obtain q where q: "profiles b u = Some q" "profile_order p q"
      unfolding billing_order_def by blast
    with bc obtain r where "profiles c u = Some r" "profile_order q r"
      unfolding billing_order_def by blast
    with q(2) profile_order_trans show ?thesis by blast
  qed
  moreover have "receipts_kept sw_status_at a c"
    using ab bc unfolding billing_order_def by (auto intro: rk.R_trans)
  moreover have "receipts_kept ap_status_at a c"
    using ab bc unfolding billing_order_def by (auto intro: rk.R_trans)
  ultimately show "billing_order a c" unfolding billing_order_def by blast
qed

text \<open>An update that carries the event's time and identifier after a check of the order.\<close>

definition stamps :: "instant \<Rightarrow> assignment list \<Rightarrow> bool" where
  "stamps t as \<longleftrightarrow> (\<forall>p. pf_event_at (assign_all as p) = Some t)"

lemma cas_update_order:
  assumes "stamps t as" "event_before seen_at (Some t)"
  shows "billing_order d (snd (cas_update u seen_at seen_id as d))"
proof (cases "profiles d u")
  case None
  then show ?thesis by (simp add: cas_update_def bo.R_refl)
next
  case (Some p)
  let ?d = "d\<lparr>profiles := (profiles d)(u \<mapsto> assign_all as p)\<rparr>"
  show ?thesis
  proof (cases "pf_deleted_at p = None \<and> pf_event_at p = seen_at \<and> pf_event_id p = seen_id \<and>
                list_all storable as")
    case True
    then have "profile_order p (assign_all as p)"
      using assms by (auto simp: profile_order_def stamps_def)
    then have "billing_order d ?d"
      using Some by (auto simp: billing_order_def receipts_kept_def sw_status_at_def ap_status_at_def
          split: option.splits)
    with True Some show ?thesis by (simp add: cas_update_def)
  next
    case False
    with Some have "snd (cas_update u seen_at seen_id as d) = d" by (auto simp: cas_update_def)
    then show ?thesis by (simp add: bo.R_refl)
  qed
qed

lemma update_profile_order:
  "stamps t as \<Longrightarrow> event_before seen_at (Some t) \<Longrightarrow>
   keeps billing_order (update_profile u seen_at seen_id as)"
  unfolding update_profile_def by (rule bo.keeps_atomically) (rule cas_update_order)

lemma fetch_keeps: "keeps billing_order (fetch_profile u)" "keeps billing_order fetch_defaults"
  unfolding fetch_profile_def fetch_defaults_def by (rule bo.keeps_atomically, simp add: bo.R_refl)+

lemma assign_all_simps [simp]:
  "assign_all [] p = p"
  "assign_all (a # as) p = assign_all as (assign a p)"
  "assign_all (as @ bs) p = assign_all bs (assign_all as p)"
  by (simp_all add: assign_all_def)

end
