(* ===== verification/Superwall.thy ===== *)
theory Superwall
  imports Billing_Store
begin

section \<open>Subscription events (app/superwall.py)\<close>

text \<open>
  A webhook delivery: the user and the event are read from the payload, the delivery is recorded,
  and the profile is updated by compare-and-set when the event is newer than the last one applied.
  The rendering of floats and containers by \<open>str\<close> is the argument \<open>rep\<close>; the readings of the clock
  are a record, in the order the handler takes them.
\<close>

subsection \<open>Reading the payload\<close>

definition pro_on :: "string list" where
  "pro_on = [''initial_purchase'', ''renewal'', ''uncancellation'', ''non_renewing_purchase'',
     ''subscription_extended'']"

definition pro_off :: "string list" where
  "pro_off = [''expiration'', ''refund'', ''refunded'', ''subscription_refunded'', ''revocation'',
     ''revoked'']"

definition pro_stays_on :: "string list" where
  "pro_stays_on = [''cancellation'', ''billing_issue'', ''subscription_paused'', ''product_change'']"

definition sensitive_keys :: "string list" where
  "sensitive_keys = [''authorization'', ''access_token'', ''id_token'', ''password'', ''secret'',
     ''signature'', ''api_key'', ''apikey'']"

definition is_hex :: "char \<Rightarrow> bool" where
  "is_hex c \<longleftrightarrow> hex_digit c \<noteq> None"

definition uuid_chars :: "string \<Rightarrow> bool" where
  "uuid_chars s \<longleftrightarrow> length s = 36 \<and>
     (\<forall>i<36. if i \<in> {8, 13, 18, 23} then s ! i = CHR ''-'' else is_hex (s ! i))"

text \<open>
  \<open>_UUID_RE.match (s)\<close>: the dollar sign also matches before a final newline. \<open>UUID (s)\<close> of a text
  with the newline is a ValueError.
\<close>

definition newline :: char where "newline = CHR 0x0A"

definition uuid_re :: "string \<Rightarrow> bool" where
  "uuid_re s \<longleftrightarrow> uuid_chars s \<or> (s \<noteq> [] \<and> last s = newline \<and> uuid_chars (butlast s))"

text \<open>\<open>UUID (s)\<close>, in canonical form: prefixes, braces and hyphens are dropped, 32 hexadecimal digits
  must remain.\<close>

fun replace_all :: "string \<Rightarrow> nat \<Rightarrow> string \<Rightarrow> string" where
  "replace_all p skip [] = []"
| "replace_all p (Suc skip) (c # s) = replace_all p skip s"
| "replace_all p 0 (c # s) =
     (if p \<noteq> [] \<and> starts_with (c # s) p then replace_all p (length p - 1) s else c # replace_all p 0 s)"

definition strip_braces :: "string \<Rightarrow> string" where
  "strip_braces s = rev (dropWhile (\<lambda>c. c = CHR ''{'' \<or> c = CHR ''}'')
     (rev (dropWhile (\<lambda>c. c = CHR ''{'' \<or> c = CHR ''}'') s)))"

definition uuid_text :: "string \<Rightarrow> uuid" where
  "uuid_text h = take 8 h @ ''-'' @ take 4 (drop 8 h) @ ''-'' @ take 4 (drop 12 h) @ ''-'' @
     take 4 (drop 16 h) @ ''-'' @ drop 20 h"

definition py_uuid :: "string \<Rightarrow> uuid res" where
  "py_uuid s =
     (let h = [c \<leftarrow> strip_braces (replace_all ''uuid:'' 0 (replace_all ''urn:'' 0 s)). c \<noteq> CHR ''-''] in
      if length h = 32 \<and> list_all is_hex h then Inr (uuid_text (ascii_lower h))
      else Inl (ValueError ''badly formed hexadecimal UUID string''))"

definition user_attribute_keys :: "string list" where
  "user_attribute_keys = [''user_id'', ''userId'', ''app_user_id'', ''appUserId'', ''supabase_user_id'',
     ''supabaseUserId'']"

definition account_keys :: "string list" where
  "account_keys = [''originalAppUserId'', ''appUserId'', ''appAccountToken'']"

definition alias_prefix :: string where
  "alias_prefix = CHR 0x24 # ''SuperwallAlias:''"

definition candidate_ids :: "(json \<Rightarrow> string) \<Rightarrow> dict \<Rightarrow> dict \<Rightarrow> string list" where
  "candidate_ids rep payload data =
     (let attrs = py_or (dget data ''userAttributes'') (py_or (dget payload ''userAttributes'') (JObj [])) in
      (case attrs of
         JObj a \<Rightarrow> map (\<lambda>k. py_str rep (dget a k)) [k \<leftarrow> user_attribute_keys. truthy (dget a k)]
       | _ \<Rightarrow> [])
      @ map (\<lambda>k. py_str rep (py_or (dget data k) (dget payload k)))
          [k \<leftarrow> account_keys. truthy (dget data k) \<or> truthy (dget payload k)])"

fun first_uuid :: "string list \<Rightarrow> uuid option res" where
  "first_uuid [] = Inr None"
| "first_uuid (raw # rest) =
     (let cleaned = (if starts_with raw ''user_'' then drop 5 raw else raw) in
      if starts_with cleaned alias_prefix then first_uuid rest
      else if uuid_re cleaned then res_bind (py_uuid cleaned) (\<lambda>u. Inr (Some u))
      else first_uuid rest)"

definition payload_data :: "dict \<Rightarrow> dict res" where
  "payload_data payload = as_dict (py_or (dget payload ''data'') (JObj []))"

definition extract_app_user_id :: "(json \<Rightarrow> string) \<Rightarrow> dict \<Rightarrow> uuid option res" where
  "extract_app_user_id rep payload =
     res_bind (payload_data payload) (\<lambda>data. first_uuid (candidate_ids rep payload data))"

definition first_truthy :: "json list \<Rightarrow> json option" where
  "first_truthy vs = find truthy vs"

definition event_id_of :: "(json \<Rightarrow> string) \<Rightarrow> dict \<Rightarrow> string option \<Rightarrow> string option res" where
  "event_id_of rep payload supplied =
     res_bind (payload_data payload) (\<lambda>data.
       Inr (map_option (\<lambda>v. take 240 (py_str rep v))
         (first_truthy [dget payload ''id'', dget payload ''eventId'', dget data ''id'', dget data ''eventId'',
            (case supplied of None \<Rightarrow> JNull | Some s \<Rightarrow> JStr s)])))"

definition time_keys :: "string list" where
  "time_keys = [''createdAt'', ''eventTimestamp'', ''timestamp'']"

definition is_value_error :: "exn \<Rightarrow> bool" where
  "is_value_error e \<longleftrightarrow> (case e of ValueError _ \<Rightarrow> True | _ \<Rightarrow> False)"

definition event_datetime :: "instant \<Rightarrow> dict \<Rightarrow> instant res" where
  "event_datetime now payload =
     res_bind (payload_data payload) (\<lambda>data.
       case find (\<lambda>v. v \<noteq> JNull) (map (dget payload) time_keys @ map (dget data) time_keys) of
         None \<Rightarrow> Inr now
       | Some v \<Rightarrow>
         (case num_value v of
            Some q \<Rightarrow> fromtimestamp (q / (if q > 10000000000 then 1000 else 1))
          | None \<Rightarrow>
            (case v of
               JStr s \<Rightarrow> (case parse_iso s of
                            Inr t \<Rightarrow> Inr t
                          | Inl e \<Rightarrow> if is_value_error e then Inr now else Inl e)
             | _ \<Rightarrow> Inr now)))"

subsection \<open>Redaction\<close>

definition sensitive_key :: "string \<Rightarrow> bool" where
  "sensitive_key k \<longleftrightarrow> replace_char (CHR ''-'') (CHR ''_'') (lower k) \<in> set sensitive_keys"

definition redacted_text :: json where
  "redacted_text = JStr ''[REDACTED]''"

fun redacted :: "json \<Rightarrow> json" where
  "redacted (JObj d) = JObj (map (\<lambda>(k, v). (k, if sensitive_key k then redacted_text else redacted v)) d)"
| "redacted (JArr xs) = JArr (take 100 (map redacted xs))"
| "redacted (JStr s) = JStr (take 4000 s)"
| "redacted v = v"

subsection \<open>Receipts\<close>

definition fetch_event :: "string \<Rightarrow> (billing_db, receipt_status option) tx" where
  "fetch_event e = atomically (\<lambda>d. (Inr (sw_status_at d e), d))"

definition insert_event ::
  "string \<Rightarrow> instant \<Rightarrow> uuid option \<Rightarrow> json \<Rightarrow> string \<Rightarrow> billing_db \<Rightarrow> unit res \<times> billing_db" where
  "insert_event name evt user payload e d =
     (if sw_receipts d e \<noteq> None then (Inl UniqueViolation, d)
      else if (case user of None \<Rightarrow> False | Some u \<Rightarrow> profiles d u = None) then (Inl DbError, d)
      else (Inr (), d\<lparr>sw_receipts := (sw_receipts d)(e \<mapsto>
             \<lparr>sw_name = take 120 name, sw_at = evt, sw_user = user, sw_payload = redacted payload,
              sw_status = Received, sw_error = None, sw_processed_at = None\<rparr>)\<rparr>))"

definition record_event ::
  "string \<Rightarrow> instant \<Rightarrow> uuid option \<Rightarrow> json \<Rightarrow> string \<Rightarrow> (billing_db, bool) tx" where
  "record_event name evt user payload e =
     tx_bind (fetch_event e) (\<lambda>existing.
       case existing of
         Some s \<Rightarrow> tx_return (\<not> is_terminal s)
       | None \<Rightarrow>
         tx_catch (tx_bind (atomically (insert_event name evt user payload e)) (\<lambda>_. tx_return True))
           (\<lambda>err. if err = UniqueViolation
                  then tx_bind (fetch_event e) (\<lambda>again.
                         case again of None \<Rightarrow> tx_raise UniqueViolation
                         | Some s \<Rightarrow> tx_return (\<not> is_terminal s))
                  else tx_raise err))"

definition set_event_status ::
  "string option \<times> instant \<Rightarrow> string \<Rightarrow> receipt_status \<Rightarrow> billing_db \<Rightarrow> bool res \<times> billing_db" where
  "set_event_status y e s d =
     (case sw_receipts d e of
        Some r \<Rightarrow>
          if is_terminal (sw_status r) then (Inr False, d)
          else (Inr True, d\<lparr>sw_receipts := (sw_receipts d)(e \<mapsto> r\<lparr>sw_status := s,
                 sw_error := map_option (take 500) (fst y), sw_processed_at := Some (snd y)\<rparr>)\<rparr>)
      | None \<Rightarrow> (Inr False, d))"

definition mark_event ::
  "string option \<times> instant \<Rightarrow> string \<Rightarrow> receipt_status \<Rightarrow> (billing_db, unit) tx" where
  "mark_event y e s =
     tx_bind (atomically (set_event_status y e s)) (\<lambda>done.
       if done then tx_return ()
       else tx_bind (fetch_event e) (\<lambda>current.
         case current of
           Some c \<Rightarrow> if is_terminal c then tx_return ()
                     else tx_raise (RuntimeError ''Subscription event status was not persisted'')
         | None \<Rightarrow> tx_raise (RuntimeError ''Subscription event status was not persisted'')))"


subsection \<open>The update of the profile\<close>

record sw_clock =
  ck_received :: instant  \<comment> \<open>the default event time\<close>
  ck_checked :: instant   \<comment> \<open>the age test\<close>
  ck_applied :: instant   \<comment> \<open>the expiry test\<close>
  ck_marked :: instant    \<comment> \<open>\<open>processed_at\<close>\<close>

definition first_of :: "dict \<Rightarrow> string \<Rightarrow> string \<Rightarrow> json" where
  "first_of data a b = (if truthy (dget data a) then dget data a else dget data b)"

definition expiry_of :: "dict \<Rightarrow> instant option res" where
  "expiry_of data =
     (case num_value (dget data ''expirationAt'') of
        Some q \<Rightarrow> if q > 0 then res_bind (fromtimestamp (q / 1000)) (\<lambda>t. Inr (Some t)) else Inr None
      | None \<Rightarrow> Inr None)"

definition revoke :: "app_defaults \<Rightarrow> instant option \<Rightarrow> assignment list" where
  "revoke defaults expires =
     [IsPro False, ProExpiresAt expires, MonthlyPrice None, FreeWeeklyLimit (ad_free_weekly_limit defaults)]"

definition entitlement ::
  "(json \<Rightarrow> string) \<Rightarrow> instant \<Rightarrow> string \<Rightarrow> dict \<Rightarrow> instant option \<Rightarrow> app_defaults \<Rightarrow> assignment list" where
  "entitlement rep now name data expires defaults =
     (let monthly = monthly_price_cents_from_superwall rep data in
      if name \<in> set pro_on then
        [IsPro True, ProExpiresAt expires,
         MonthlyPrice (Some (num_or monthly (ad_default_pro_monthly_price_cents defaults)))]
      else if name \<in> set pro_off then
        revoke defaults (case expires of Some t \<Rightarrow> Some t | None \<Rightarrow> Some now)
      else if (case expires of Some t \<Rightarrow> t \<le> now | None \<Rightarrow> False) then revoke defaults expires
      else [IsPro True, ProExpiresAt expires] @
           (case monthly of Some c \<Rightarrow> [MonthlyPrice (Some c)] | None \<Rightarrow> []))"

definition event_columns :: "dict \<Rightarrow> instant \<Rightarrow> string \<Rightarrow> assignment list" where
  "event_columns data evt e =
     [EventAt evt, EventId e, ProductId (first_of data ''productId'' ''productIdentifier''),
      Currency (first_of data ''currency'' ''currencyCode''),
      PriceCents (period_price_cents_from_superwall data)] @
     (case proceeds_cents_from_superwall data of Some c \<Rightarrow> [ProceedsCents c] | None \<Rightarrow> [])"

definition profile_update ::
  "(json \<Rightarrow> string) \<Rightarrow> instant \<Rightarrow> string \<Rightarrow> dict \<Rightarrow> instant \<Rightarrow> string \<Rightarrow> instant option \<Rightarrow>
   app_defaults \<Rightarrow> assignment list" where
  "profile_update rep now name data evt e expires defaults =
     event_columns data evt e @ entitlement rep now name data expires defaults"

fun new_is_pro :: "assignment list \<Rightarrow> bool option" where
  "new_is_pro [] = None"
| "new_is_pro (IsPro b # as) = Some b"
| "new_is_pro (a # as) = new_is_pro as"

fun new_price :: "assignment list \<Rightarrow> int option" where
  "new_price [] = None"
| "new_price (MonthlyPrice c # as) = c"
| "new_price (a # as) = new_price as"

record sw_result =
  sr_event :: string
  sr_user :: "uuid option"
  sr_updated :: bool
  sr_is_pro :: "bool option"
  sr_price :: "int option"
  sr_skipped :: "string option"

definition skip :: "sw_result \<Rightarrow> string \<Rightarrow> sw_result" where
  "skip r why = r\<lparr>sr_skipped := Some why\<rparr>"

text \<open>The compare-and-set and what follows a lost one.\<close>

definition skip_event :: "sw_clock \<Rightarrow> string \<Rightarrow> sw_result \<Rightarrow> string \<Rightarrow> (billing_db, sw_result) tx" where
  "skip_event clk e r why =
     tx_bind (mark_event (Some why, ck_marked clk) e Skipped) (\<lambda>_. tx_return (skip r why))"

definition duplicate_event :: "sw_clock \<Rightarrow> string \<Rightarrow> sw_result \<Rightarrow> (billing_db, sw_result) tx" where
  "duplicate_event clk e r =
     tx_bind (mark_event (None, ck_marked clk) e Processed) (\<lambda>_. tx_return (skip r ''duplicate''))"

definition commit_event ::
  "sw_clock \<Rightarrow> uuid \<Rightarrow> string \<Rightarrow> instant \<Rightarrow> profile \<Rightarrow> assignment list \<Rightarrow> sw_result \<Rightarrow>
   (billing_db, sw_result) tx" where
  "commit_event clk u e evt current update r =
     tx_bind (update_profile u (pf_event_at current) (pf_event_id current) update) (\<lambda>res.
       if res then
         tx_bind (mark_event (None, ck_marked clk) e Processed) (\<lambda>_.
           tx_return (r\<lparr>sr_updated := True, sr_is_pro := new_is_pro update, sr_price := new_price update\<rparr>))
       else
         tx_bind (fetch_profile u) (\<lambda>found.
           case found of
             None \<Rightarrow> skip_event clk e r ''profile_unavailable''
           | Some latest \<Rightarrow>
             if pf_deleted_at latest \<noteq> None then skip_event clk e r ''profile_unavailable''
             else if pf_event_id latest = Some e then duplicate_event clk e r
             else if (case pf_event_at latest of Some t \<Rightarrow> evt < t | None \<Rightarrow> False)
             then skip_event clk e r ''out_of_order''
             else tx_raise (RuntimeError ''Subscription changed concurrently; retry event'')))"

definition apply_to_profile ::
  "(json \<Rightarrow> string) \<Rightarrow> sw_clock \<Rightarrow> dict \<Rightarrow> uuid \<Rightarrow> string \<Rightarrow> string \<Rightarrow> instant \<Rightarrow> sw_result \<Rightarrow>
   (billing_db, sw_result) tx" where
  "apply_to_profile rep clk data u e name evt r =
     tx_bind (fetch_profile u) (\<lambda>found.
       case found of
         None \<Rightarrow> skip_event clk e r ''profile_unavailable''
       | Some current \<Rightarrow>
         if pf_deleted_at current \<noteq> None then skip_event clk e r ''profile_unavailable''
         else if pf_event_id current = Some e then duplicate_event clk e r
         else if (case pf_event_at current of Some t \<Rightarrow> evt < t | None \<Rightarrow> False)
         then skip_event clk e r ''out_of_order''
         else tx_bind (tx_lift (expiry_of data)) (\<lambda>expires.
           tx_bind fetch_defaults (\<lambda>defaults.
             commit_event clk u e evt current
               (profile_update rep (ck_applied clk) name data evt e expires defaults) r)))"

subsection \<open>The handler\<close>

definition event_name_of :: "(json \<Rightarrow> string) \<Rightarrow> dict \<Rightarrow> dict \<Rightarrow> string" where
  "event_name_of rep payload data =
     lower (py_str rep (py_or (dget data ''name'') (py_or (dget payload ''type'') (JStr []))))"

definition known_event :: "string \<Rightarrow> bool" where
  "known_event name \<longleftrightarrow> name \<in> set pro_on \<or> name \<in> set pro_off \<or> name \<in> set pro_stays_on"

definition handle_recorded ::
  "settings \<Rightarrow> (json \<Rightarrow> string) \<Rightarrow> sw_clock \<Rightarrow> dict \<Rightarrow> uuid option \<Rightarrow> string \<Rightarrow> string \<Rightarrow> instant \<Rightarrow>
   sw_result \<Rightarrow> (billing_db, sw_result) tx" where
  "handle_recorded cfg rep clk data user e name evt r =
     (let age = ck_checked clk - evt in
      if age > webhook_max_age_seconds cfg * second \<or> age < - 300 * second
      then skip_event clk e r ''stale_event''
      else case user of
        None \<Rightarrow> skip_event clk e r ''no_user_id''
      | Some u \<Rightarrow>
        if \<not> known_event name then skip_event clk e r (''unhandled_event:'' @ name)
        else apply_to_profile rep clk data u e name evt r)"

definition event_owner :: "uuid option \<Rightarrow> (billing_db, uuid option) tx" where
  "event_owner user =
     (case user of
        None \<Rightarrow> tx_return None
      | Some u \<Rightarrow> tx_bind (fetch_profile u) (\<lambda>p. tx_return (if p = None then None else Some u)))"

definition process_event ::
  "settings \<Rightarrow> (json \<Rightarrow> string) \<Rightarrow> sw_clock \<Rightarrow> dict \<Rightarrow> string option \<Rightarrow> (billing_db, sw_result) tx" where
  "process_event cfg rep clk payload supplied =
     tx_bind (tx_lift (payload_data payload)) (\<lambda>data.
     tx_bind (tx_lift (event_id_of rep payload supplied)) (\<lambda>resolved.
       case resolved of
         None \<Rightarrow> tx_raise (ValueError ''Webhook event id required'')
       | Some e \<Rightarrow>
         tx_bind (tx_lift (event_datetime (ck_received clk) payload)) (\<lambda>evt.
         tx_bind (tx_lift (extract_app_user_id rep payload)) (\<lambda>user.
         tx_bind (event_owner user) (\<lambda>owner.
           let name = event_name_of rep payload data;
               r = \<lparr>sr_event = name, sr_user = user, sr_updated = False, sr_is_pro = None,
                    sr_price = None, sr_skipped = None\<rparr>
           in tx_bind (record_event name evt owner (JObj payload) e) (\<lambda>fresh.
             if fresh then handle_recorded cfg rep clk data user e name evt r
             else tx_return (skip r ''duplicate'')))))))"

definition unavailable :: "string \<Rightarrow> int \<Rightarrow> exn" where
  "unavailable message retry = HTTPException 503 None message (Some retry)"

definition is_client_error :: "exn \<Rightarrow> bool" where
  "is_client_error e \<longleftrightarrow> (case e of HTTPException _ _ _ _ \<Rightarrow> True | ValueError _ \<Rightarrow> True | _ \<Rightarrow> False)"

definition fail_event ::
  "(json \<Rightarrow> string) \<Rightarrow> sw_clock \<Rightarrow> dict \<Rightarrow> string option \<Rightarrow> (billing_db, sw_result) tx" where
  "fail_event rep clk payload supplied =
     tx_bind (tx_lift (event_id_of rep payload supplied)) (\<lambda>resolved.
     tx_bind (case resolved of
                None \<Rightarrow> tx_return ()
              | Some e \<Rightarrow> tx_catch (mark_event (Some ''processing_failed'', ck_marked clk) e Failed)
                           (\<lambda>_. tx_return ()))
       (\<lambda>_. tx_raise (unavailable ''Subscription processing temporarily unavailable'' 1)))"

definition apply_superwall_event ::
  "settings \<Rightarrow> (json \<Rightarrow> string) \<Rightarrow> sw_clock \<Rightarrow> dict \<Rightarrow> string option \<Rightarrow> (billing_db, sw_result) tx" where
  "apply_superwall_event cfg rep clk payload supplied =
     (if maintenance_mode cfg then tx_raise (unavailable ''Maintenance in progress. Retry.'' 30)
      else tx_catch (process_event cfg rep clk payload supplied)
        (\<lambda>err. if is_client_error err then tx_raise err else fail_event rep clk payload supplied))"


section \<open>Guarantees of the handler\<close>

subsection \<open>The receipts keep the contract\<close>

lemma sw_status_at_simps [simp]:
  "sw_status_at (d\<lparr>profiles := P\<rparr>) e = sw_status_at d e"
  "sw_status_at (d\<lparr>ap_receipts := A\<rparr>) e = sw_status_at d e"
  "sw_status_at (d\<lparr>sw_receipts := S\<rparr>) e = map_option sw_status (S e)"
  by (simp_all add: sw_status_at_def)

lemma insert_event_kept: "receipts_kept sw_status_at d (snd (insert_event name evt user payload e d))"
  by (auto simp: insert_event_def receipts_kept_def sw_status_at_def)

lemma set_event_status_kept: "receipts_kept sw_status_at d (snd (set_event_status y e s d))"
  by (auto simp: set_event_status_def receipts_kept_def sw_status_at_def split: option.splits)

lemma fetch_event_kept: "keeps (receipts_kept sw_status_at) (fetch_event e)"
  unfolding fetch_event_def by (rule rk.keeps_atomically) (simp add: rk.R_refl)

lemma record_event_kept: "keeps (receipts_kept sw_status_at) (record_event name evt user payload e)"
  unfolding record_event_def
  by (intro rk.keeps_rules fetch_event_kept rk.keeps_atomically insert_event_kept)

lemma mark_event_kept: "keeps (receipts_kept sw_status_at) (mark_event y e s)"
  unfolding mark_event_def
  by (intro rk.keeps_rules fetch_event_kept rk.keeps_atomically set_event_status_kept)

lemma fetch_event_settled:
  assumes "sw_status_at (db w) e = Some s" "is_terminal s" "env_in (receipts_kept sw_status_at) w"
    and "fetch_event e w = (Inr x, w')"
  shows "x = Some s"
proof -
  have g: "sw_status_at (g (db w)) e = Some s" if "Interfere g \<in> set (env w)" for g
    using assms(1-3) that by (auto simp: env_in_def receipts_kept_def)
  show ?thesis
    using assms(1,4) g
    by (cases "env w") (auto simp: fetch_event_def atomically_def split: fault.splits)
qed

lemma record_event_settled:
  assumes "sw_status_at (db w) e = Some s" "is_terminal s" "env_in (receipts_kept sw_status_at) w"
    and r: "record_event name evt user payload e w = (Inr b, w')"
  shows "\<not> b"
proof -
  obtain x w1 where f: "fetch_event e w = (x, w1)" by (cases "fetch_event e w")
  with r obtain y where "x = Inr y" by (cases x) (auto simp: record_event_def tx_bind_def)
  with f fetch_event_settled [OF assms(1-3)] have "x = Inr (Some s)" by auto
  with f r assms(2) show ?thesis by (simp add: record_event_def tx_bind_def)
qed

interpretation sw: receipt_book sw_status_at
  "\<lambda>(name, evt, user, payload) e. record_event name evt user payload e" mark_event
proof
  fix x :: "string \<times> instant \<times> uuid option \<times> json" and y :: "string option \<times> instant"
    and d :: billing_db and e s t
  obtain name evt user payload where x: "x = (name, evt, user, payload)" by (cases x)
  show "keeps (receipts_kept sw_status_at) ((\<lambda>(name, evt, user, payload) e. record_event name evt user payload e) x e)"
    by (simp add: x record_event_kept)
  show "keeps (receipts_kept sw_status_at) (mark_event y e s)" by (rule mark_event_kept)
  show "\<exists>d' b. (\<lambda>(name, evt, user, payload) e. record_event name evt user payload e) x e \<lparr>db = d, env = []\<rparr>
         = (b, \<lparr>db = d', env = []\<rparr>) \<and>
         (b = Inr True \<and> sw_status_at d' e = Some Received \<or> b = Inl DbError \<and> d' = d)"
    if "sw_status_at d e = None"
    using that by (auto simp: x record_event_def fetch_event_def insert_event_def tx_run sw_status_at_def
        split: option.splits)
  assume "sw_status_at d e = Some s" "\<not> is_terminal s"
  then show "\<exists>d'. mark_event y e t \<lparr>db = d, env = []\<rparr> = (Inr (), \<lparr>db = d', env = []\<rparr>) \<and>
               sw_status_at d' e = Some t"
    and "(\<lambda>(name, evt, user, payload) e. record_event name evt user payload e) x e \<lparr>db = d, env = []\<rparr>
         = (Inr True, \<lparr>db = d, env = []\<rparr>)"
    by (auto simp: x record_event_def mark_event_def fetch_event_def set_event_status_def tx_run
        sw_status_at_def)
next
  fix x :: "string \<times> instant \<times> uuid option \<times> json" and w w' e s b
  assume "sw_status_at (db w) e = Some s" "is_terminal s" "env_in (receipts_kept sw_status_at) w"
    "(\<lambda>(name, evt, user, payload) e. record_event name evt user payload e) x e w = (Inr b, w')"
  then show "\<not> b" by (cases x) (auto dest: record_event_settled)
qed

subsection \<open>The order of events\<close>

lemma billing_order_receipts:
  assumes "profiles d' = profiles d" "ap_receipts d' = ap_receipts d" "receipts_kept sw_status_at d d'"
  shows "billing_order d d'"
  using assms by (simp add: billing_order_def receipts_kept_def ap_status_at_def)

lemma insert_event_order: "billing_order d (snd (insert_event name evt user payload e d))"
  by (rule billing_order_receipts) (simp_all add: insert_event_kept, simp_all add: insert_event_def)

lemma set_event_status_order: "billing_order d (snd (set_event_status y e s d))"
  by (rule billing_order_receipts)
    (simp_all add: set_event_status_kept, simp_all add: set_event_status_def split: option.splits)

lemma fetch_event_order: "keeps billing_order (fetch_event e)"
  unfolding fetch_event_def by (rule bo.keeps_atomically) (simp add: bo.R_refl)

lemma record_event_order: "keeps billing_order (record_event name evt user payload e)"
  unfolding record_event_def
  by (intro bo.keeps_rules fetch_event_order bo.keeps_atomically insert_event_order)

lemma mark_event_order: "keeps billing_order (mark_event y e s)"
  unfolding mark_event_def
  by (intro bo.keeps_rules fetch_event_order bo.keeps_atomically set_event_status_order)

lemma skip_order: "keeps billing_order (skip_event clk e r why)" "keeps billing_order (duplicate_event clk e r)"
  unfolding skip_event_def duplicate_event_def by (intro bo.keeps_rules mark_event_order)+

fun is_stamp :: "assignment \<Rightarrow> bool" where
  "is_stamp (EventAt _) = True"
| "is_stamp (EventId _) = True"
| "is_stamp _ = False"

lemma assign_no_stamp:
  "\<not> is_stamp a \<Longrightarrow> pf_event_at (assign a p) = pf_event_at p \<and> pf_event_id (assign a p) = pf_event_id p"
  by (cases a) auto

lemma assign_all_no_stamp:
  "\<forall>a \<in> set as. \<not> is_stamp a \<Longrightarrow>
   pf_event_at (assign_all as p) = pf_event_at p \<and> pf_event_id (assign_all as p) = pf_event_id p"
  by (induction as arbitrary: p) (auto simp: assign_no_stamp)

lemma entitlement_no_stamp: "a \<in> set (entitlement rep now name data expires defaults) \<Longrightarrow> \<not> is_stamp a"
  by (auto simp: entitlement_def revoke_def Let_def split: if_splits option.splits)

lemma update_stamps:
  "pf_event_at (assign_all (profile_update rep now name data evt e expires defaults) p) = Some evt"
  "pf_event_id (assign_all (profile_update rep now name data evt e expires defaults) p) = Some e"
  using entitlement_no_stamp
  by (simp_all add: profile_update_def event_columns_def assign_all_no_stamp split: option.splits)

lemma commit_event_order:
  "stamps evt update \<Longrightarrow> event_before (pf_event_at current) (Some evt) \<Longrightarrow>
   keeps billing_order (commit_event clk u e evt current update r)"
  unfolding commit_event_def
  by (intro bo.keeps_rules mark_event_order skip_order fetch_keeps update_profile_order)

lemma not_later: "\<not> (case a of Some t \<Rightarrow> s < t | None \<Rightarrow> False) \<Longrightarrow> event_before a (Some s)"
  by (auto simp: event_before_def split: option.splits)

lemma apply_to_profile_order: "keeps billing_order (apply_to_profile rep clk data u e name evt r)"
  unfolding apply_to_profile_def
  by (intro bo.keeps_rules skip_order fetch_keeps commit_event_order)
    (auto simp: stamps_def update_stamps not_later)

lemma handle_recorded_order: "keeps billing_order (handle_recorded cfg rep clk data user e name evt r)"
  unfolding handle_recorded_def by (intro bo.keeps_rules skip_order apply_to_profile_order)

lemma event_owner_order: "keeps billing_order (event_owner user)"
  unfolding event_owner_def by (intro bo.keeps_rules fetch_keeps)

lemma process_event_order: "keeps billing_order (process_event cfg rep clk payload supplied)"
  unfolding process_event_def
  by (intro bo.keeps_rules event_owner_order record_event_order handle_recorded_order)

lemma apply_superwall_event_order: "keeps billing_order (apply_superwall_event cfg rep clk payload supplied)"
  unfolding apply_superwall_event_def fail_event_def
  by (intro bo.keeps_rules process_event_order mark_event_order)


subsection \<open>An example delivery\<close>

definition ex_user :: uuid where "ex_user = ''00000000-0000-4000-8000-000000000001''"

definition ex_data :: dict where
  "ex_data = [(''name'', JStr ''initial_purchase''),
     (''userAttributes'', JObj [(''user_id'', JStr ex_user)]),
     (''productId'', JStr ''reciapp_wk_999''), (''price'', JNum (999 / 100)),
     (''expirationAt'', JInt 1700604800000)]"

definition ex_payload :: dict where
  "ex_payload = [(''id'', JStr ''ev1''), (''createdAt'', JInt 1700000000), (''data'', JObj ex_data)]"

definition ex_clock :: sw_clock where
  "ex_clock = \<lparr>ck_received = 1700000001 * second, ck_checked = 1700000001 * second,
     ck_applied = 1700000001 * second, ck_marked = 1700000001 * second\<rparr>"

definition ex_rep :: "json \<Rightarrow> string" where "ex_rep v = []"

definition ex_profile :: profile where
  "ex_profile = \<lparr>pf_email = None, pf_is_pro = False, pf_pro_expires_at = None, pf_event_at = None,
     pf_event_id = None, pf_product_id = JNull, pf_currency = JNull, pf_price_cents = None,
     pf_proceeds_cents = None, pf_free_weekly_limit = None, pf_pro_monthly_price_cents = None,
     pf_pro_margin_ratio = None, pf_deleted_at = None\<rparr>"

definition ex_db :: billing_db where
  "ex_db = \<lparr>profiles = [ex_user \<mapsto> ex_profile], sw_receipts = Map.empty, ap_receipts = Map.empty,
     app_settings = None\<rparr>"

definition ex_run :: "billing_db world \<Rightarrow> sw_result res \<times> billing_db world" where
  "ex_run = apply_superwall_event default_settings ex_rep ex_clock ex_payload None"

text \<open>C15: Subscription events are applied in order. Whatever other transactions do between the
  statements of the handler, as long as they respect the order themselves, and whichever statements
  fail, a delivery never moves the event time of a profile backwards, never touches the profile of a
  deleted account, and never changes a settled receipt.\<close>

theorem superwall_event_order:
  assumes "env_in billing_order w"
    and "apply_superwall_event cfg rep clk payload supplied w = (r, w')"
    and "profiles (db w) u = Some p"
  shows "(\<exists>p'. profiles (db w') u = Some p' \<and> event_before (pf_event_at p) (pf_event_at p') \<and>
               (pf_deleted_at p \<noteq> None \<longrightarrow> p' = p)) \<and>
         (\<forall>e s. sw_status_at (db w) e = Some s \<longrightarrow> is_terminal s \<longrightarrow> sw_status_at (db w') e = Some s)"
  using bo.keepsD [OF apply_superwall_event_order assms(1,2)] assms(3)
  unfolding billing_order_def profile_order_def receipts_kept_def by blast

theorem superwall_event_order_witness:
  "(\<exists>p'. profiles (db (snd (ex_run (alone ex_db)))) ex_user = Some p' \<and> event_before None (pf_event_at p')) \<and>
   fst (ex_run (alone ex_db)) =
     Inr \<lparr>sr_event = ''initial_purchase'', sr_user = Some ex_user, sr_updated = True, sr_is_pro = Some True,
          sr_price = Some 4329, sr_skipped = None\<rparr>"
proof -
  have "profiles (db (alone ex_db)) ex_user = Some ex_profile" by (simp add: ex_db_def)
  from superwall_event_order [OF _ _ this, of default_settings ex_rep ex_clock ex_payload None
      "fst (ex_run (alone ex_db))" "snd (ex_run (alone ex_db))"]
  have "\<exists>p'. profiles (db (snd (ex_run (alone ex_db)))) ex_user = Some p' \<and> event_before None (pf_event_at p')"
    by (auto simp: ex_run_def env_in_def ex_profile_def)
  moreover have "fst (ex_run (alone ex_db)) =
     Inr \<lparr>sr_event = ''initial_purchase'', sr_user = Some ex_user, sr_updated = True, sr_is_pro = Some True,
          sr_price = Some 4329, sr_skipped = None\<rparr>" by code_simp
  ultimately show ?thesis by blast
qed

subsection \<open>Replays\<close>

lemma env_in_receipts: "env_in billing_order w \<Longrightarrow> env_in (receipts_kept sw_status_at) w"
  unfolding env_in_def billing_order_def by blast

lemma event_owner_kept: "keeps (receipts_kept sw_status_at) (event_owner user)"
  unfolding event_owner_def fetch_profile_def
  by (intro rk.keeps_rules rk.keeps_atomically) (simp add: rk.R_refl)

text \<open>A settled delivery stays settled. When the receipt of an event is processed or skipped, every
  later delivery of the same event, under any interleaving with other transactions, that answers at all
  answers \<open>duplicate\<close> with nothing updated.\<close>

theorem superwall_replay:
  assumes "sw_status_at (db w) e = Some s" "is_terminal s" "env_in billing_order w"
    and e: "event_id_of rep payload supplied = Inr (Some e)"
    and run: "apply_superwall_event cfg rep clk payload supplied w = (Inr r, w')"
  shows "\<not> sr_updated r \<and> sr_skipped r = Some ''duplicate''"
proof -
  note envk = env_in_receipts [OF assms(3)]
  have p: "process_event cfg rep clk payload supplied w = (Inr r, w')"
    using run by (auto simp: apply_superwall_event_def fail_event_def tx_run is_client_error_def
        split: if_splits sum.splits prod.splits option.splits)
  obtain data where data: "payload_data payload = Inr data"
    using p by (cases "payload_data payload") (auto simp: process_event_def tx_bind_def)
  obtain evt where evt: "event_datetime (ck_received clk) payload = Inr evt"
    using p data e by (cases "event_datetime (ck_received clk) payload") (auto simp: process_event_def tx_bind_def)
  obtain user where user: "extract_app_user_id rep payload = Inr user"
    using p data e evt by (cases "extract_app_user_id rep payload") (auto simp: process_event_def tx_bind_def)
  obtain o1 w1 where ow: "event_owner user w = (o1, w1)" by (cases "event_owner user w")
  then obtain owner where owner: "o1 = Inr owner"
    using p data e evt user by (cases o1) (auto simp: process_event_def tx_bind_def)
  let ?name = "event_name_of rep payload data"
  obtain b1 w2 where rc: "record_event ?name evt owner (JObj payload) e w1 = (b1, w2)"
    by (cases "record_event ?name evt owner (JObj payload) e w1")
  then obtain b where b: "b1 = Inr b"
    using p data e evt user ow owner by (cases b1) (auto simp: process_event_def tx_bind_def Let_def)
  have "\<not> b"
    using sw.settled_forever [OF assms(1,2) envk event_owner_kept ow [unfolded owner],
        of "(?name, evt, owner, JObj payload)" b w2] rc b by simp
  with p data e evt user ow owner rc b show ?thesis
    by (auto simp: process_event_def tx_bind_def Let_def skip_def)
qed


definition ex_replay :: "sw_result res \<times> billing_db world" where
  "ex_replay = ex_run \<lparr>db = db (snd (ex_run (alone ex_db))), env = [Quiet, Interfere (\<lambda>d. d)]\<rparr>"

theorem superwall_replay_witness:
  "sw_status_at (db (snd (ex_run (alone ex_db)))) ''ev1'' = Some Processed \<and>
   (\<exists>r. fst ex_replay = Inr r \<and> \<not> sr_updated r \<and> sr_skipped r = Some ''duplicate'')"
proof -
  let ?d = "db (snd (ex_run (alone ex_db)))"
  let ?w = "\<lparr>db = ?d, env = [Quiet, Interfere (\<lambda>d. d)]\<rparr>"
  have st: "sw_status_at ?d ''ev1'' = Some Processed" by code_simp
  have e: "event_id_of ex_rep ex_payload None = Inr (Some ''ev1'')" by code_simp
  have "(case fst ex_replay of Inr r \<Rightarrow> True | Inl e \<Rightarrow> False)" by code_simp
  then obtain r where r: "fst ex_replay = Inr r" by (cases "fst ex_replay") auto
  have "env_in billing_order ?w" by (simp add: env_in_def bo.R_refl)
  with superwall_replay [OF _ _ this e, of Processed default_settings ex_clock r "snd ex_replay"] st r
  show ?thesis by (cases ex_replay) (auto simp: ex_replay_def ex_run_def)
qed

subsection \<open>Redaction\<close>

text \<open>Some sensitive key, at any depth, carries a value.\<close>

fun exposes :: "json \<Rightarrow> bool" where
  "exposes (JObj d) \<longleftrightarrow> (\<exists>p \<in> set d. (sensitive_key (fst p) \<and> snd p \<noteq> redacted_text) \<or> exposes (snd p))"
| "exposes (JArr xs) \<longleftrightarrow> (\<exists>x \<in> set xs. exposes x)"
| "exposes _ \<longleftrightarrow> False"

lemma not_exposed: "\<not> exposes redacted_text"
  by (simp add: redacted_text_def)

lemma redacted_covers: "\<not> exposes (redacted v)"
  by (induction v rule: redacted.induct)
    (auto simp: not_exposed dest!: in_set_takeD split: if_splits)

lemma redacted_again: "redacted (redacted v) = redacted v"
proof (induction v rule: redacted.induct)
  case (1 d)
  have "redacted redacted_text = redacted_text" by (simp add: redacted_text_def)
  with 1 show ?case by auto
next
  case (2 xs)
  then show ?case by (auto simp: take_map dest: in_set_takeD)
qed simp_all

text \<open>The stored payload of an event exposes no credential: at no depth does a key such as
  \<open>Authorization\<close> or \<open>api-key\<close> keep its value, in any spelling the comparison folds, and redacting the stored
  payload again changes nothing.\<close>

theorem redaction_complete: "\<not> exposes (redacted v) \<and> redacted (redacted v) = redacted v"
  by (simp add: redacted_covers redacted_again)

end
