(* ===== verification/Superwall_Delivery.thy ===== *)
theory Superwall_Delivery
  imports Superwall
begin

section \<open>Deliveries that fail and are repeated\<close>

text \<open>
  A delivery that is due: a known event of a live profile, in the accepted age window, newer than
  the last applied event, with a storable update. The section shows that such a delivery, cut off
  at any statement, leaves the database consistent, and that repeating it completes it.
\<close>

record delivery =
  dl_event :: string
  dl_user :: uuid
  dl_time :: instant
  dl_data :: dict
  dl_expires :: "instant option"

definition readable :: "settings \<Rightarrow> (json \<Rightarrow> string) \<Rightarrow> sw_clock \<Rightarrow> dict \<Rightarrow> string option \<Rightarrow> delivery \<Rightarrow> bool" where
  "readable cfg rep clk payload supplied x \<longleftrightarrow>
     \<not> maintenance_mode cfg \<and>
     payload_data payload = Inr (dl_data x) \<and>
     event_id_of rep payload supplied = Inr (Some (dl_event x)) \<and>
     event_datetime (ck_received clk) payload = Inr (dl_time x) \<and>
     extract_app_user_id rep payload = Inr (Some (dl_user x)) \<and>
     known_event (event_name_of rep payload (dl_data x)) \<and>
     - 300 * second \<le> ck_checked clk - dl_time x \<and>
     ck_checked clk - dl_time x \<le> webhook_max_age_seconds cfg * second \<and>
     expiry_of (dl_data x) = Inr (dl_expires x)"

definition update_of :: "(json \<Rightarrow> string) \<Rightarrow> sw_clock \<Rightarrow> dict \<Rightarrow> delivery \<Rightarrow> billing_db \<Rightarrow> assignment list" where
  "update_of rep clk payload x d =
     profile_update rep (ck_applied clk) (event_name_of rep payload (dl_data x)) (dl_data x) (dl_time x)
       (dl_event x) (dl_expires x) (get_app_defaults (app_settings d))"

definition due :: "delivery \<Rightarrow> profile \<Rightarrow> bool" where
  "due x p \<longleftrightarrow> pf_deleted_at p = None \<and> pf_event_id p \<noteq> Some (dl_event x) \<and>
               event_before (pf_event_at p) (Some (dl_time x))"

definition applied :: "delivery \<Rightarrow> profile \<Rightarrow> bool" where
  "applied x p \<longleftrightarrow> pf_deleted_at p = None \<and> pf_event_id p = Some (dl_event x)"

definition settled :: "delivery \<Rightarrow> billing_db \<Rightarrow> bool" where
  "settled x d \<longleftrightarrow> (\<exists>s. sw_status_at d (dl_event x) = Some s \<and> is_terminal s)"

definition has_applied :: "delivery \<Rightarrow> billing_db \<Rightarrow> bool" where
  "has_applied x d \<longleftrightarrow> (\<exists>q. profiles d (dl_user x) = Some q \<and> applied x q)"

text \<open>The states a due delivery goes through: the settings and the profile of before, or the event
  applied, and the receipt settled only as processed and only after that.\<close>

definition under_way :: "settings_row option \<Rightarrow> profile \<Rightarrow> delivery \<Rightarrow> billing_db \<Rightarrow> bool" where
  "under_way S p x d \<longleftrightarrow> app_settings d = S \<and>
     (profiles d (dl_user x) = Some p \<or> has_applied x d) \<and>
     (\<forall>s. sw_status_at d (dl_event x) = Some s \<longrightarrow> is_terminal s \<longrightarrow> s = Processed \<and> has_applied x d)"

definition finished :: "delivery \<Rightarrow> billing_db \<Rightarrow> bool" where
  "finished x d \<longleftrightarrow> has_applied x d \<and> sw_status_at d (dl_event x) = Some Processed"

subsection \<open>The statements\<close>

lemma has_applied_profiles [simp]:
  "has_applied x (d\<lparr>sw_receipts := R\<rparr>) = has_applied x d"
  by (simp add: has_applied_def)

lemma hoare_fetch_profile:
  "hoare P (fetch_profile u) (\<lambda>r d. P d \<and> (\<forall>y. r = Inr y \<longrightarrow> y = profiles d u))"
  unfolding fetch_profile_def by (rule hoare_atomically) auto

lemma hoare_fetch_defaults:
  "hoare P fetch_defaults (\<lambda>r d. P d \<and> (\<forall>y. r = Inr y \<longrightarrow> y = get_app_defaults (app_settings d)))"
  unfolding fetch_defaults_def by (rule hoare_atomically) auto

lemma hoare_fetch_event:
  "hoare P (fetch_event e) (\<lambda>r d. P d \<and> (\<forall>y. r = Inr y \<longrightarrow> y = sw_status_at d e))"
  unfolding fetch_event_def by (rule hoare_atomically) auto

lemma hoare_event_owner: "hoare P (event_owner user) (\<lambda>r d. P d)"
  unfolding event_owner_def
  by (intro hoare_option hoare_return hoare_bind
      hoare_conseq [OF hoare_fetch_profile [of P]]) (auto split: sum.splits)

lemma insert_event_under_way:
  "under_way S p x d \<Longrightarrow> under_way S p x (snd (insert_event name evt user payload (dl_event x) d))"
  by (auto simp: under_way_def insert_event_def)

lemma hoare_record_event:
  "hoare (under_way S p x) (record_event name evt user payload (dl_event x))
     (\<lambda>r d. under_way S p x d \<and> (r = Inr False \<longrightarrow> finished x d))"
proof -
  let ?I = "under_way S p x"
  have done_iff: "finished x d" if "?I d" "sw_status_at d (dl_event x) = Some s" "is_terminal s" for d s
    using that by (auto simp: under_way_def finished_def)
  have read: "hoare ?I (fetch_event (dl_event x))
     (\<lambda>r d. case r of Inl e \<Rightarrow> ?I d \<and> (Inl e = Inr False \<longrightarrow> finished x d)
                    | Inr y \<Rightarrow> ?I d \<and> y = sw_status_at d (dl_event x))"
    by (rule hoare_conseq [OF hoare_fetch_event [of ?I]]) (auto split: sum.splits)
  show ?thesis
    unfolding record_event_def
    apply (rule hoare_bind [OF read])
    apply (rule hoare_option)
     apply (rule hoare_catch [where I = "\<lambda>e d. ?I d"])
      apply (rule hoare_bind [where I = "\<lambda>y d. ?I d"])
       apply (rule hoare_atomically)
         apply (auto intro!: insert_event_under_way split: sum.splits)[3]
      apply (rule hoare_return, simp)
     apply (rule hoare_if)
      apply (rule hoare_bind [OF read])
      apply (rule hoare_option)
       apply (auto intro!: hoare_raise hoare_return intro: done_iff [OF _ sym])
    done
qed

lemma set_status_under_way:
  "under_way S p x d \<Longrightarrow> (s = Failed \<or> (s = Processed \<and> has_applied x d)) \<Longrightarrow>
   under_way S p x (snd (set_event_status y (dl_event x) s d))"
  by (auto simp: under_way_def set_event_status_def sw_status_at_def split: option.splits)

lemma hoare_mark_failed:
  "hoare (under_way S p x) (mark_event y (dl_event x) Failed) (\<lambda>r. under_way S p x)"
  unfolding mark_event_def
  apply (rule hoare_bind [where I = "\<lambda>y. under_way S p x"])
   apply (rule hoare_atomically)
     apply (auto intro!: set_status_under_way split: sum.splits)[3]
  apply (rule hoare_if, rule hoare_return, assumption)
  apply (rule hoare_bind [OF hoare_conseq [OF hoare_fetch_event [of "under_way S p x"]]])
  by (auto intro!: hoare_option hoare_if hoare_return hoare_raise split: sum.splits)

lemma set_status_processed:
  "under_way S p x d \<Longrightarrow> has_applied x d \<Longrightarrow>
   fst (set_event_status y (dl_event x) Processed d) = Inr True \<Longrightarrow>
   finished x (snd (set_event_status y (dl_event x) Processed d))"
  by (auto simp: finished_def set_event_status_def split: option.splits if_splits)

lemma hoare_mark_processed:
  "hoare (\<lambda>d. under_way S p x d \<and> has_applied x d) (mark_event y (dl_event x) Processed)
     (\<lambda>r d. under_way S p x d \<and> (r = Inr () \<longrightarrow> finished x d))"
proof -
  let ?I = "\<lambda>d. under_way S p x d \<and> has_applied x d"
  have keep: "has_applied x (snd (set_event_status y (dl_event x) Processed d)) = has_applied x d" for d
    by (auto simp: set_event_status_def split: option.splits)
  have fin: "fst (set_event_status y (dl_event x) Processed d) = Inr b \<Longrightarrow> ?I d \<Longrightarrow> b \<Longrightarrow>
     finished x (snd (set_event_status y (dl_event x) Processed d))" for b d
    using set_status_processed [of S p x d y] by auto
  have read: "hoare ?I (fetch_event (dl_event x))
     (\<lambda>r d. case r of Inl e \<Rightarrow> under_way S p x d \<and> (Inl e = Inr () \<longrightarrow> finished x d) | Inr z \<Rightarrow> ?I d \<and> z = sw_status_at d (dl_event x))"
    by (rule hoare_conseq [OF hoare_fetch_event [of ?I]]) (auto split: sum.splits)
  have settled: "finished x d" if "?I d" "Some s = sw_status_at d (dl_event x)" "is_terminal s" for d s
    using that(1,3) that(2) [symmetric] by (auto simp: under_way_def finished_def)
  show ?thesis
    unfolding mark_event_def
    apply (rule hoare_bind [where I = "\<lambda>b d. ?I d \<and> (b \<longrightarrow> finished x d)"])
     apply (rule hoare_atomically)
       apply (auto simp: keep fin intro!: set_status_under_way split: sum.splits)[3]
    apply (rule hoare_if, rule hoare_return, simp)
    apply (rule hoare_conseq [where P = ?I])
      apply (rule hoare_bind [OF read])
      apply (rule hoare_option)
       apply (auto intro!: hoare_raise hoare_return intro: settled)
    done
qed


lemma assign_deleted [simp]: "pf_deleted_at (assign a p) = pf_deleted_at p"
  by (cases a) auto

lemma assign_all_deleted [simp]: "pf_deleted_at (assign_all as p) = pf_deleted_at p"
  by (induction as arbitrary: p) auto

lemma cas_update_under_way:
  assumes "under_way S p x d" "profiles d (dl_user x) = Some q" "pf_deleted_at q = None"
    and u: "\<And>p. pf_event_id (assign_all as p) = Some (dl_event x)"
  shows "under_way S p x (snd (cas_update (dl_user x) (pf_event_at q) (pf_event_id q) as d))"
    and "fst (cas_update (dl_user x) (pf_event_at q) (pf_event_id q) as d) = Inr b \<Longrightarrow>
         b \<and> has_applied x (snd (cas_update (dl_user x) (pf_event_at q) (pf_event_id q) as d))"
  using assms by (auto simp: cas_update_def under_way_def has_applied_def applied_def split: if_splits)

lemma hoare_commit:
  assumes "pf_deleted_at q = None" and u: "\<And>p. pf_event_id (assign_all as p) = Some (dl_event x)"
  shows "hoare (\<lambda>d. under_way S p x d \<and> profiles d (dl_user x) = Some q)
     (commit_event clk (dl_user x) (dl_event x) evt q as r)
     (\<lambda>r d. under_way S p x d \<and> (\<forall>y. r = Inr y \<longrightarrow> finished x d))"
proof -
  let ?I = "\<lambda>d. under_way S p x d \<and> profiles d (dl_user x) = Some q"
  have upd: "hoare ?I (update_profile (dl_user x) (pf_event_at q) (pf_event_id q) as)
    (\<lambda>r d. under_way S p x d \<and> (\<forall>b. r = Inr b \<longrightarrow> b \<and> has_applied x d))"
    unfolding update_profile_def
    by (rule hoare_atomically)
      (simp_all add: assms cas_update_under_way(1), use cas_update_under_way(2) assms in blast)
  have mark: "hoare (\<lambda>d. under_way S p x d \<and> has_applied x d) (mark_event y (dl_event x) Processed)
     (\<lambda>r d. case r of Inl e \<Rightarrow> under_way S p x d | Inr _ \<Rightarrow> under_way S p x d \<and> finished x d)" for y
    by (rule hoare_conseq [OF hoare_mark_processed [of S p]]) (auto split: sum.splits)
  show ?thesis
    unfolding commit_event_def
    apply (rule hoare_bind [where I = "\<lambda>b d. under_way S p x d \<and> b \<and> has_applied x d"])
     apply (rule hoare_conseq [OF upd], simp, auto split: sum.splits)[1]
    apply (rule hoare_if)
     apply (rule hoare_bind [where I = "\<lambda>_ d. under_way S p x d \<and> finished x d"])
      apply (rule hoare_conseq [OF mark], simp, auto split: sum.splits)[1]
     apply (rule hoare_return, simp)
    apply (rule hoare_False, simp)
    done
qed

lemma hoare_apply:
  assumes "due x p" "expiry_of (dl_data x) = Inr (dl_expires x)"
  shows "hoare (under_way S p x)
     (apply_to_profile rep clk (dl_data x) (dl_user x) (dl_event x) name (dl_time x) r)
     (\<lambda>r d. under_way S p x d \<and> (\<forall>y. r = Inr y \<longrightarrow> finished x d))"
proof -
  let ?I = "under_way S p x"
  let ?Q = "\<lambda>r d. ?I d \<and> (\<forall>y. r = Inr y \<longrightarrow> finished x d)"
  have dup: "hoare (\<lambda>d. ?I d \<and> has_applied x d) (duplicate_event clk (dl_event x) r) ?Q"
    unfolding duplicate_event_def
    apply (rule hoare_bind [where I = "\<lambda>_ d. ?I d \<and> finished x d"])
     apply (rule hoare_conseq [OF hoare_mark_processed [of S p]], simp, auto split: sum.splits)[1]
    apply (rule hoare_return, simp)
    done
  have live: "pf_deleted_at c = None"
    "pf_event_id c = Some (dl_event x) \<Longrightarrow> has_applied x d"
    "pf_event_id c \<noteq> Some (dl_event x) \<Longrightarrow> event_before (pf_event_at c) (Some (dl_time x))"
    if "?I d" "profiles d (dl_user x) = Some c" for d c
    using that assms(1) by (auto simp: under_way_def due_def has_applied_def applied_def)
  have some: "profiles d (dl_user x) \<noteq> None" if "?I d" for d
    using that by (auto simp: under_way_def has_applied_def)
  have late: "\<not> (case a of Some t \<Rightarrow> s < t | None \<Rightarrow> False)" if "event_before a (Some s)" for a s
    using that by (auto simp: event_before_def split: option.splits)
  have commit: "hoare (\<lambda>d. ?I d \<and> profiles d (dl_user x) = Some q)
     (tx_bind (tx_lift (expiry_of (dl_data x))) (\<lambda>expires. tx_bind fetch_defaults (\<lambda>defaults.
        commit_event clk (dl_user x) (dl_event x) (dl_time x) q
          (profile_update rep (ck_applied clk) name (dl_data x) (dl_time x) (dl_event x) expires defaults) r))) ?Q"
    if "pf_deleted_at q = None" for q
    apply (rule hoare_bind [where I = "\<lambda>_ d. ?I d \<and> profiles d (dl_user x) = Some q"])
     apply (rule hoare_lift, simp add: assms(2))
    apply (rule hoare_bind [where I = "\<lambda>_ d. ?I d \<and> profiles d (dl_user x) = Some q"])
     apply (rule hoare_conseq [OF hoare_fetch_defaults
           [of "\<lambda>d. ?I d \<and> profiles d (dl_user x) = Some q"]], simp, auto split: sum.splits)[1]
    apply (rule hoare_commit)
     apply (simp_all add: that update_stamps)
    done
  show ?thesis
    unfolding apply_to_profile_def
    apply (rule hoare_bind [where I = "\<lambda>y d. ?I d \<and> y = profiles d (dl_user x)"])
     apply (rule hoare_conseq [OF hoare_fetch_profile [of ?I]], simp, auto split: sum.splits)[1]
    apply (rule hoare_option)
     apply (rule hoare_False, use some in force)
    apply (rule hoare_if)
     apply (rule hoare_False, use live(1) in fastforce)
    apply (rule hoare_if)
     apply (rule hoare_conseq [OF dup], use live(2) in fastforce, simp)
    apply (rule hoare_if)
     apply (rule hoare_False, use live(3) late in fastforce)
    apply (rule hoare_conseq, rule commit, simp_all)
    done
qed


definition initial_result :: "(json \<Rightarrow> string) \<Rightarrow> dict \<Rightarrow> delivery \<Rightarrow> sw_result" where
  "initial_result rep payload x =
     \<lparr>sr_event = event_name_of rep payload (dl_data x), sr_user = Some (dl_user x), sr_updated = False,
      sr_is_pro = None, sr_price = None, sr_skipped = None\<rparr>"

lemma handle_readable:
  assumes "readable cfg rep clk payload supplied x"
  shows "handle_recorded cfg rep clk (dl_data x) (Some (dl_user x)) (dl_event x)
      (event_name_of rep payload (dl_data x)) (dl_time x) r =
    apply_to_profile rep clk (dl_data x) (dl_user x) (dl_event x)
      (event_name_of rep payload (dl_data x)) (dl_time x) r"
proof -
  have "\<not> (ck_checked clk - dl_time x > webhook_max_age_seconds cfg * second \<or>
           ck_checked clk - dl_time x < - 300 * second)"
    using assms by (simp add: readable_def)
  then show ?thesis
    using assms by (simp only: handle_recorded_def Let_def readable_def if_False option.simps not_True_eq_False)
qed

lemma process_readable:
  assumes "readable cfg rep clk payload supplied x"
  shows "process_event cfg rep clk payload supplied =
    tx_bind (event_owner (Some (dl_user x))) (\<lambda>owner.
    tx_bind (record_event (event_name_of rep payload (dl_data x)) (dl_time x) owner (JObj payload) (dl_event x))
      (\<lambda>fresh.
        if fresh then apply_to_profile rep clk (dl_data x) (dl_user x) (dl_event x)
          (event_name_of rep payload (dl_data x)) (dl_time x) (initial_result rep payload x)
        else tx_return (skip (initial_result rep payload x) ''duplicate'')))"
  using assms handle_readable [OF assms]
  by (simp add: readable_def process_event_def initial_result_def Let_def cong: if_cong)

lemma hoare_process:
  assumes "readable cfg rep clk payload supplied x" "due x p"
  shows "hoare (under_way S p x) (process_event cfg rep clk payload supplied)
     (\<lambda>r d. under_way S p x d \<and> (\<forall>y. r = Inr y \<longrightarrow> finished x d))"
proof -
  have e: "expiry_of (dl_data x) = Inr (dl_expires x)" using assms(1) by (simp add: readable_def)
  show ?thesis
    unfolding process_readable [OF assms(1)]
    apply (rule hoare_bind [where I = "\<lambda>_. under_way S p x"])
     apply (rule hoare_conseq [OF hoare_event_owner], assumption, simp split: sum.splits)
    apply (rule hoare_bind [where I = "\<lambda>b d. under_way S p x d \<and> (\<not> b \<longrightarrow> finished x d)"])
     apply (rule hoare_conseq [OF hoare_record_event], assumption, auto split: sum.splits)[1]
    apply (rule hoare_if)
     apply (rule hoare_conseq [OF hoare_apply [OF assms(2) e]], simp, simp)
    apply (rule hoare_return, simp)
    done
qed

lemma hoare_deliver:
  assumes "readable cfg rep clk payload supplied x" "due x p"
  shows "hoare (under_way S p x) (apply_superwall_event cfg rep clk payload supplied)
     (\<lambda>r d. under_way S p x d \<and> (\<forall>y. r = Inr y \<longrightarrow> finished x d))"
proof -
  have m: "\<not> maintenance_mode cfg" and e: "event_id_of rep payload supplied = Inr (Some (dl_event x))"
    using assms(1) by (simp_all add: readable_def)
  have fail: "hoare (under_way S p x) (fail_event rep clk payload supplied)
     (\<lambda>r d. under_way S p x d \<and> (\<forall>y. r = Inr y \<longrightarrow> finished x d))"
    unfolding fail_event_def
    apply (simp add: e)
    apply (rule hoare_bind [where I = "\<lambda>_. under_way S p x"])
     apply (rule hoare_catch [where I = "\<lambda>_. under_way S p x"])
      apply (rule hoare_conseq [OF hoare_mark_failed], assumption, simp split: sum.splits)
     apply (rule hoare_return, simp)
    apply (rule hoare_raise, simp)
    done
  show ?thesis
    unfolding apply_superwall_event_def
    apply (simp add: m)
    apply (rule hoare_catch [where I = "\<lambda>_. under_way S p x"])
     apply (rule hoare_conseq [OF hoare_process [OF assms]], assumption, simp split: sum.splits)
    apply (rule hoare_if)
     apply (rule hoare_raise, simp)
    using fail apply simp
    done
qed

subsection \<open>A delivery that is not disturbed\<close>

lemma record_alone:
  assumes "sw_status_at d e = None \<or> (\<exists>s. sw_status_at d e = Some s \<and> \<not> is_terminal s)"
    and "profiles d u \<noteq> None"
  obtains d' s where "record_event name evt (Some u) payload e (alone d) = (Inr True, alone d')"
    "profiles d' = profiles d" "app_settings d' = app_settings d"
    "sw_status_at d' e = Some s" "\<not> is_terminal s"
  using assms
  by (auto simp: record_event_def fetch_event_def insert_event_def tx_run sw_status_at_def split: option.splits)

lemma record_settled_alone:
  assumes "sw_status_at d e = Some s" "is_terminal s"
  shows "record_event name evt owner payload e (alone d) = (Inr False, alone d)"
  using assms by (simp add: record_event_def fetch_event_def tx_run)

lemma mark_alone:
  assumes "sw_status_at d e = Some s" "\<not> is_terminal s"
  obtains d' where "mark_event y e t (alone d) = (Inr (), alone d')" "profiles d' = profiles d"
    "sw_status_at d' e = Some t"
  using assms
  by (auto simp: mark_event_def set_event_status_def tx_run sw_status_at_def)

lemma owner_alone:
  "profiles d u = Some p \<Longrightarrow> event_owner (Some u) (alone d) = (Inr (Some u), alone d)"
  by (simp add: event_owner_def fetch_profile_def tx_run)

lemma apply_alone_fresh:
  assumes p: "profiles d (dl_user x) = Some p" and due: "due x p"
    and st: "sw_status_at d (dl_event x) = Some s" "\<not> is_terminal s"
    and ex: "expiry_of (dl_data x) = Inr (dl_expires x)"
    and as: "as = profile_update rep (ck_applied clk) name (dl_data x) (dl_time x) (dl_event x)
               (dl_expires x) (get_app_defaults (app_settings d))"
    and ok: "list_all storable as"
  obtains d' where
    "apply_to_profile rep clk (dl_data x) (dl_user x) (dl_event x) name (dl_time x) r (alone d) =
      (Inr (r\<lparr>sr_updated := True, sr_is_pro := new_is_pro as, sr_price := new_price as\<rparr>), alone d')"
    "profiles d' = (profiles d)(dl_user x \<mapsto> assign_all as p)"
    "sw_status_at d' (dl_event x) = Some Processed"
proof -
  let ?d = "d\<lparr>profiles := (profiles d)(dl_user x \<mapsto> assign_all as p)\<rparr>"
  have "sw_status_at ?d (dl_event x) = Some s" using st by simp
  from mark_alone [OF this st(2), of "(None, ck_marked clk)" Processed] obtain d'
    where m: "mark_event (None, ck_marked clk) (dl_event x) Processed (alone ?d) = (Inr (), alone d')"
      "profiles d' = profiles ?d" "sw_status_at d' (dl_event x) = Some Processed" .
  have nl: "\<not> (case pf_event_at p of Some t \<Rightarrow> dl_time x < t | None \<Rightarrow> False)"
    using due by (auto simp: due_def event_before_def split: option.splits)
  have cas: "cas_update (dl_user x) (pf_event_at p) (pf_event_id p) as d = (Inr True, ?d)"
    using p due ok by (simp add: cas_update_def due_def)
  have commit: "commit_event clk (dl_user x) (dl_event x) (dl_time x) p as r (alone d) =
      (Inr (r\<lparr>sr_updated := True, sr_is_pro := new_is_pro as, sr_price := new_price as\<rparr>), alone d')"
    by (simp add: commit_event_def update_profile_def tx_run cas m(1))
  have fetch: "fetch_profile (dl_user x) (alone d) = (Inr (Some p), alone d)"
    using p by (simp add: fetch_profile_def)
  have defaults: "fetch_defaults (alone d) = (Inr (get_app_defaults (app_settings d)), alone d)"
    by (simp add: fetch_defaults_def)
  have "apply_to_profile rep clk (dl_data x) (dl_user x) (dl_event x) name (dl_time x) r (alone d) =
    commit_event clk (dl_user x) (dl_event x) (dl_time x) p as r (alone d)"
    using due nl by (simp add: apply_to_profile_def tx_run fetch defaults ex as due_def)
  with commit m show thesis by (auto intro: that)
qed

lemma apply_alone_again:
  assumes p: "profiles d (dl_user x) = Some p" and a: "applied x p"
    and st: "sw_status_at d (dl_event x) = Some s" "\<not> is_terminal s"
  obtains d' where
    "apply_to_profile rep clk (dl_data x) (dl_user x) (dl_event x) name (dl_time x) r (alone d) =
      (Inr (skip r ''duplicate''), alone d')"
    "profiles d' = profiles d" "sw_status_at d' (dl_event x) = Some Processed"
proof -
  from mark_alone [OF st, of "(None, ck_marked clk)" Processed] obtain d'
    where m: "mark_event (None, ck_marked clk) (dl_event x) Processed (alone d) = (Inr (), alone d')"
      "profiles d' = profiles d" "sw_status_at d' (dl_event x) = Some Processed" .
  have "fetch_profile (dl_user x) (alone d) = (Inr (Some p), alone d)"
    using p by (simp add: fetch_profile_def)
  with a m show thesis
    by (intro that) (auto simp: apply_to_profile_def applied_def duplicate_event_def tx_run)
qed


lemma process_alone:
  assumes ok: "readable cfg rep clk payload supplied x" and i: "under_way S p x d" and due: "due x p"
    and st: "list_all storable (update_of rep clk payload x d)"
  obtains r d' where "process_event cfg rep clk payload supplied (alone d) = (Inr r, alone d')"
    "sr_updated r \<or> sr_skipped r = Some ''duplicate''" "finished x d'"
proof -
  let ?name = "event_name_of rep payload (dl_data x)" and ?r = "initial_result rep payload x"
  obtain q where q: "profiles d (dl_user x) = Some q" "q = p \<or> applied x q"
    using i by (auto simp: under_way_def has_applied_def)
  have ex: "expiry_of (dl_data x) = Inr (dl_expires x)" using ok by (simp add: readable_def)
  note run = process_readable [OF ok] tx_bind_def owner_alone [OF q(1)]
  show thesis
  proof (cases "settled x d")
    case True
    then obtain s where s: "sw_status_at d (dl_event x) = Some s" "is_terminal s"
      by (auto simp: settled_def)
    have "process_event cfg rep clk payload supplied (alone d) = (Inr (skip ?r ''duplicate''), alone d)"
      by (simp add: run record_settled_alone [OF s])
    moreover have "finished x d" using i s by (auto simp: under_way_def finished_def)
    ultimately show thesis by (intro that) (auto simp: skip_def)
  next
    case False
    then have "sw_status_at d (dl_event x) = None \<or>
        (\<exists>s. sw_status_at d (dl_event x) = Some s \<and> \<not> is_terminal s)"
      by (auto simp: settled_def)
    from record_alone [OF this, of "dl_user x" ?name "dl_time x" "JObj payload"] q(1) obtain d1 s
      where rec: "record_event ?name (dl_time x) (Some (dl_user x)) (JObj payload) (dl_event x) (alone d)
          = (Inr True, alone d1)"
        and d1: "profiles d1 = profiles d" "app_settings d1 = app_settings d"
          "sw_status_at d1 (dl_event x) = Some s" "\<not> is_terminal s"
      by blast
    have step: "process_event cfg rep clk payload supplied (alone d) =
        apply_to_profile rep clk (dl_data x) (dl_user x) (dl_event x) ?name (dl_time x) ?r (alone d1)"
      by (simp add: run rec)
    show thesis
    proof (cases "applied x q")
      case True
      from q(1) d1(1) have "profiles d1 (dl_user x) = Some q" by simp
      from apply_alone_again [OF this True d1(3,4), of rep clk ?name ?r] obtain d2 where
        "apply_to_profile rep clk (dl_data x) (dl_user x) (dl_event x) ?name (dl_time x) ?r (alone d1) =
           (Inr (skip ?r ''duplicate''), alone d2)"
        "profiles d2 = profiles d1" "sw_status_at d2 (dl_event x) = Some Processed" .
      with step True q(1) d1(1) show thesis
        by (intro that) (auto simp: skip_def finished_def has_applied_def)
    next
      case False
      with q have p1: "profiles d1 (dl_user x) = Some p" by (simp add: d1(1))
      have st1: "list_all storable (profile_update rep (ck_applied clk) ?name (dl_data x) (dl_time x) (dl_event x)
           (dl_expires x) (get_app_defaults (app_settings d1)))"
        using st by (simp add: update_of_def d1(2))
      let ?as = "profile_update rep (ck_applied clk) ?name (dl_data x) (dl_time x) (dl_event x)
           (dl_expires x) (get_app_defaults (app_settings d1))"
      from apply_alone_fresh [OF p1 due d1(3,4) ex refl st1, of ?r] obtain d2 where
        "apply_to_profile rep clk (dl_data x) (dl_user x) (dl_event x) ?name (dl_time x) ?r (alone d1) =
           (Inr (?r\<lparr>sr_updated := True, sr_is_pro := new_is_pro ?as, sr_price := new_price ?as\<rparr>), alone d2)"
        "profiles d2 = (profiles d1)(dl_user x \<mapsto> assign_all ?as p)"
        "sw_status_at d2 (dl_event x) = Some Processed" .
      with step due show thesis
        by (intro that) (auto simp: finished_def has_applied_def applied_def due_def update_stamps)
    qed
  qed
qed

text \<open>C16: A delivery cut off at any statement is safe. For a due delivery during which any of the
  handler's statements may fail, before or after its commit, the receipt is never settled without the
  event on the profile; the profile is the old one or carries the event; and an answer without an
  exception means that the event is on the profile and the receipt processed.\<close>

theorem superwall_crash_safe:
  assumes "readable cfg rep clk payload supplied x" "profiles (db w) (dl_user x) = Some p" "due x p"
    and "\<not> settled x (db w)" "failures_only w"
    and "apply_superwall_event cfg rep clk payload supplied w = (r, w')"
  shows "(settled x (db w') \<longrightarrow> finished x (db w')) \<and>
         (profiles (db w') (dl_user x) = Some p \<or> has_applied x (db w')) \<and>
         (\<forall>y. r = Inr y \<longrightarrow> finished x (db w'))"
proof -
  have "under_way (app_settings (db w)) p x (db w)"
    using assms(2,4) by (auto simp: under_way_def settled_def)
  from hoareD [OF hoare_deliver [OF assms(1,3)] assms(5) this assms(6)] show ?thesis
    by (auto simp: under_way_def settled_def finished_def)
qed

text \<open>Retrying completes a delivery. Whatever failures cut off the first attempt, repeating the due
  delivery undisturbed succeeds: it answers \<open>updated\<close> or \<open>duplicate\<close>, the event is on the profile and the
  receipt is processed.\<close>

theorem superwall_retry_completes:
  assumes "readable cfg rep clk payload supplied x" "profiles (db w) (dl_user x) = Some p" "due x p"
    and "\<not> settled x (db w)" "failures_only w"
    and "apply_superwall_event cfg rep clk payload supplied w = (r, w')"
    and "readable cfg rep clk' payload' supplied' x"
    and "list_all storable (update_of rep clk' payload' x (db w'))"
  shows "\<exists>y d'. apply_superwall_event cfg rep clk' payload' supplied' (alone (db w')) = (Inr y, alone d') \<and>
           (sr_updated y \<or> sr_skipped y = Some ''duplicate'') \<and> finished x d'"
proof -
  have "under_way (app_settings (db w)) p x (db w)"
    using assms(2,4) by (auto simp: under_way_def settled_def)
  from hoareD [OF hoare_deliver [OF assms(1,3)] assms(5) this assms(6)]
  have i: "under_way (app_settings (db w)) p x (db w')" by blast
  obtain y d' where "process_event cfg rep clk' payload' supplied' (alone (db w')) = (Inr y, alone d')"
    "sr_updated y \<or> sr_skipped y = Some ''duplicate''" "finished x d'"
    using process_alone [OF assms(7) i assms(3,8)] .
  moreover have "\<not> maintenance_mode cfg" using assms(7) by (simp add: readable_def)
  ultimately show ?thesis
    by (auto simp: apply_superwall_event_def tx_catch_ok)
qed


subsection \<open>Examples\<close>

definition ex_delivery :: delivery where
  "ex_delivery = \<lparr>dl_event = ''ev1'', dl_user = ex_user, dl_time = 1700000000 * second, dl_data = ex_data,
     dl_expires = Some (1700604800 * second)\<rparr>"

lemma ex_readable: "readable default_settings ex_rep ex_clock ex_payload None ex_delivery"
  by code_simp

lemma ex_due: "due ex_delivery ex_profile" "profiles ex_db (dl_user ex_delivery) = Some ex_profile"
  "\<not> settled ex_delivery ex_db"
  by (simp_all add: due_def ex_profile_def ex_db_def ex_delivery_def event_before_def settled_def sw_status_at_def)

text \<open>The reply of the profile's update is lost, and so is the connection for the failure mark.\<close>

definition ex_cut :: "billing_db world" where
  "ex_cut = \<lparr>db = ex_db, env = [Quiet, Quiet, Quiet, Quiet, Quiet, LostReply, Outage]\<rparr>"

lemma ex_cut_failures: "failures_only ex_cut" "db ex_cut = ex_db"
  by (simp_all add: failures_only_def ex_cut_def)

theorem superwall_crash_safe_witness:
  "fst (ex_run ex_cut) = Inl (unavailable ''Subscription processing temporarily unavailable'' 1) \<and>
   has_applied ex_delivery (db (snd (ex_run ex_cut)))"
proof -
  have 1: "fst (ex_run ex_cut) = Inl (unavailable ''Subscription processing temporarily unavailable'' 1)"
    by code_simp
  have 2: "map_option pf_is_pro (profiles (db (snd (ex_run ex_cut))) ex_user) = Some True" by code_simp
  have "profiles (db (snd (ex_run ex_cut))) (dl_user ex_delivery) \<noteq> Some ex_profile"
    using 2 by (auto simp: ex_delivery_def ex_profile_def)
  with superwall_crash_safe [OF ex_readable, of ex_cut ex_profile "fst (ex_run ex_cut)" "snd (ex_run ex_cut)"]
    ex_due ex_cut_failures 1 show ?thesis
    by (auto simp: ex_run_def)
qed

theorem superwall_retry_completes_witness:
  "\<exists>y d'. ex_run (alone (db (snd (ex_run ex_cut)))) = (Inr y, alone d') \<and> finished ex_delivery d'"
proof -
  have "list_all storable (update_of ex_rep ex_clock ex_payload ex_delivery (db (snd (ex_run ex_cut))))"
    by code_simp
  with superwall_retry_completes [OF ex_readable _ ex_due(1) _ ex_cut_failures(1) _ ex_readable,
      of "fst (ex_run ex_cut)" "snd (ex_run ex_cut)"] ex_due ex_cut_failures
  show ?thesis by (auto simp: ex_run_def)
qed

end
