(* ===== verification/Apple_Notifications.thy ===== *)
theory Apple_Notifications
  imports Superwall "HOL-Library.Product_Lexorder" "HOL-Library.List_Lexorder" "HOL-Library.Char_ord"
begin

section \<open>Apple notifications and restores (app/apple_notifications.py)\<close>

text \<open>
  Signed server notifications and StoreKit restores: the verification of a JWS and its certificate
  chain, the receipt of a notification, the compare-and-set of the profile. The primitives of the
  \<open>cryptography\<close> package and the JSON decoder are a record of functions; \<open>fault_free\<close> libraries are
  not assumed, each may raise.
\<close>

subsection \<open>Verification of a JWS\<close>

datatype key_kind = RsaKey | EcKey nat | OtherKey

record ('c, 'k) crypto =
  b64_url :: "string \<Rightarrow> string res"          \<comment> \<open>\<open>base64.urlsafe_b64decode\<close>\<close>
  b64_std :: "string \<Rightarrow> string res"
  json_loads :: "string \<Rightarrow> json res"
  load_der :: "string \<Rightarrow> 'c res"
  load_pem :: "string \<Rightarrow> 'c res"
  fingerprint :: "'c \<Rightarrow> string"
  public_key :: "'c \<Rightarrow> 'k"
  kind_of :: "'k \<Rightarrow> key_kind"
  signature_of :: "'c \<Rightarrow> string"
  tbs_of :: "'c \<Rightarrow> string"
  hash_of :: "'c \<Rightarrow> string"
  rsa_verify :: "'k \<Rightarrow> string \<Rightarrow> string \<Rightarrow> string \<Rightarrow> unit res"
  ec_verify :: "'k \<Rightarrow> string \<Rightarrow> string \<Rightarrow> string \<Rightarrow> unit res"
  encode_dss :: "int \<Rightarrow> int \<Rightarrow> string"

definition reciapp_products :: "string list" where
  "reciapp_products = [''reciapp_wk_699'', ''reciapp_wk_999'', ''reciapp_wk_1299'',
     ''reciapp_an_3499_t3'', ''reciapp_an_3499_t7'', ''reciapp_an_4499_t3'', ''reciapp_an_4499_t7'',
     ''reciapp_an_5999_t3'', ''reciapp_an_5999_t7'', ''reciapp_wk'', ''reciapp_an_3trial'']"

definition b64 :: "('c, 'k) crypto \<Rightarrow> string \<Rightarrow> string res" where
  "b64 lib value = b64_url lib (value @ replicate (nat ((- int (length value)) mod 4)) CHR ''='')"

definition big_endian :: "string \<Rightarrow> int" where
  "big_endian s = foldl (\<lambda>n c. n * 256 + of_char c) 0 s"

definition verify_signature :: "('c, 'k) crypto \<Rightarrow> 'k \<Rightarrow> string \<Rightarrow> string \<Rightarrow> string \<Rightarrow> unit res" where
  "verify_signature lib key sig msg alg =
     (case kind_of lib key of
        RsaKey \<Rightarrow> rsa_verify lib key sig msg alg
      | EcKey bits \<Rightarrow>
        let width = (bits + 7) div 8;
            der = (if length sig = 2 * width
                   then encode_dss lib (big_endian (take width sig)) (big_endian (drop width sig)) else sig)
        in ec_verify lib key der msg alg
      | OtherKey \<Rightarrow> Inl (ValueError ''Unsupported Apple certificate key''))"

text \<open>\<open>for value in header["x5c"]\<close>: a list, the characters of a text, or the keys of a dictionary.\<close>

fun x5c_values :: "json \<Rightarrow> json list res" where
  "x5c_values (JArr xs) = Inr xs"
| "x5c_values (JStr s) = Inr (map (\<lambda>c. JStr [c]) s)"
| "x5c_values (JObj d) = Inr (map (\<lambda>p. JStr (fst p)) d)"
| "x5c_values _ = Inl TypeError"

fun load_certificate :: "('c, 'k) crypto \<Rightarrow> json \<Rightarrow> 'c res" where
  "load_certificate lib (JStr s) = res_bind (b64_std lib s) (load_der lib)"
| "load_certificate lib _ = Inl TypeError"

text \<open>\<open>for child, issuer in zip (chain, chain[1:])\<close>.\<close>

fun verify_links :: "('c, 'k) crypto \<Rightarrow> 'c list \<Rightarrow> unit res" where
  "verify_links lib (child # issuer # rest) =
     res_bind (verify_signature lib (public_key lib issuer) (signature_of lib child) (tbs_of lib child)
                 (hash_of lib child))
       (\<lambda>_. verify_links lib (issuer # rest))"
| "verify_links lib _ = Inr ()"

fun unescape_newlines :: "string \<Rightarrow> string" where
  "unescape_newlines (a # b # s) =
     (if a = CHR 0x5C \<and> b = CHR ''n'' then newline # unescape_newlines s else a # unescape_newlines (b # s))"
| "unescape_newlines s = s"

definition sha256_name :: string where "sha256_name = ''SHA256''"

definition verify_chain :: "('c, 'k) crypto \<Rightarrow> 'c \<Rightarrow> 'c list \<Rightarrow> unit res" where
  "verify_chain lib anchor chain =
     res_bind
       (if fingerprint lib (last chain) \<noteq> fingerprint lib anchor
        then verify_signature lib (public_key lib anchor) (signature_of lib (last chain))
               (tbs_of lib (last chain)) (hash_of lib (last chain))
        else Inr ())
       (\<lambda>_. verify_links lib chain)"

definition verify_jws ::
  "('c, 'k) crypto \<Rightarrow> string \<Rightarrow> string \<Rightarrow> json res" where
  "verify_jws lib root_ca jws =
     (let root_pem = strip (unescape_newlines root_ca) in
      if length (split_char CHR ''.'' jws) \<noteq> 3 \<or> root_pem = []
      then Inl (ValueError ''Apple JWS verification is not configured'')
      else let parts = split_char CHR ''.'' jws;
               eh = parts ! 0; ep = parts ! 1; es = parts ! 2 in
        res_bind (res_bind (b64 lib eh) (json_loads lib)) (\<lambda>header.
        res_bind (res_bind (b64 lib ep) (json_loads lib)) (\<lambda>payload.
        res_bind (as_dict header) (\<lambda>h.
          if dget h ''alg'' \<noteq> JStr ''ES256'' \<or> \<not> truthy (dget h ''x5c'')
          then Inl (ValueError ''Unsupported Apple JWS'')
          else res_bind (x5c_values (dget h ''x5c'')) (\<lambda>values.
            res_bind (res_map (load_certificate lib) values) (\<lambda>chain.
            res_bind (load_pem lib root_pem) (\<lambda>anchor.
            res_bind (verify_chain lib anchor chain) (\<lambda>_.
            res_bind (b64 lib es) (\<lambda>sig.
            res_bind (verify_signature lib (public_key lib (hd chain)) sig (eh @ ''.'' @ ep) sha256_name) (\<lambda>_.
              Inr payload))))))))))"

subsection \<open>Receipts\<close>

definition fetch_notification :: "string \<Rightarrow> (billing_db, receipt_status option) tx" where
  "fetch_notification n = atomically (\<lambda>d. (Inr (ap_status_at d n), d))"

record ap_row =
  row_type :: string
  row_sha256 :: string
  row_payload :: json

definition insert_notification :: "ap_row \<Rightarrow> string \<Rightarrow> billing_db \<Rightarrow> unit res \<times> billing_db" where
  "insert_notification row n d =
     (if ap_receipts d n \<noteq> None then (Inl UniqueViolation, d)
      else (Inr (), d\<lparr>ap_receipts := (ap_receipts d)(n \<mapsto>
             \<lparr>ap_type = row_type row, ap_sha256 = row_sha256 row, ap_payload = row_payload row,
              ap_status = Received\<rparr>)\<rparr>))"

definition record_notification :: "ap_row \<Rightarrow> string \<Rightarrow> (billing_db, bool) tx" where
  "record_notification row n =
     tx_bind (fetch_notification n) (\<lambda>existing.
       case existing of
         Some s \<Rightarrow> tx_return (\<not> is_terminal s)
       | None \<Rightarrow>
         tx_catch (tx_bind (atomically (insert_notification row n)) (\<lambda>_. tx_return True))
           (\<lambda>err. if err = UniqueViolation
                  then tx_bind (fetch_notification n) (\<lambda>again.
                         case again of None \<Rightarrow> tx_raise UniqueViolation
                         | Some s \<Rightarrow> tx_return (\<not> is_terminal s))
                  else tx_raise err))"

definition set_notification_status :: "string \<Rightarrow> receipt_status \<Rightarrow> billing_db \<Rightarrow> bool res \<times> billing_db" where
  "set_notification_status n s d =
     (case ap_receipts d n of
        Some r \<Rightarrow>
          if is_terminal (ap_status r) then (Inr False, d)
          else (Inr True, d\<lparr>ap_receipts := (ap_receipts d)(n \<mapsto> r\<lparr>ap_status := s\<rparr>)\<rparr>)
      | None \<Rightarrow> (Inr False, d))"

definition mark_notification :: "string \<Rightarrow> receipt_status \<Rightarrow> (billing_db, unit) tx" where
  "mark_notification n s =
     tx_bind (atomically (set_notification_status n s)) (\<lambda>done.
       if done then tx_return ()
       else tx_bind (fetch_notification n) (\<lambda>current.
         case current of
           Some c \<Rightarrow> if is_terminal c then tx_return ()
                     else tx_raise (RuntimeError ''Apple notification status was not persisted'')
         | None \<Rightarrow> tx_raise (RuntimeError ''Apple notification status was not persisted'')))"

subsection \<open>The profile\<close>

definition not_before :: "instant option \<Rightarrow> instant \<Rightarrow> bool" where
  "not_before a evt \<longleftrightarrow> (case a of Some t \<Rightarrow> evt \<le> t | None \<Rightarrow> False)"

definition apply_notification_to_profile ::
  "uuid \<Rightarrow> string \<Rightarrow> instant \<Rightarrow> assignment list \<Rightarrow> (billing_db, string) tx" where
  "apply_notification_to_profile u e evt update =
     tx_bind (fetch_profile u) (\<lambda>found.
       case found of
         None \<Rightarrow> tx_return ''profile_unavailable''
       | Some current \<Rightarrow>
         if pf_deleted_at current \<noteq> None then tx_return ''profile_unavailable''
         else if pf_event_id current = Some e then tx_return ''duplicate''
         else if not_before (pf_event_at current) evt then tx_return ''out_of_order''
         else tx_bind (update_profile u (pf_event_at current) (pf_event_id current)
                        (update @ [EventAt evt, EventId e])) (\<lambda>res.
           if res then tx_return ''updated''
           else tx_bind (fetch_profile u) (\<lambda>again.
             case again of
               None \<Rightarrow> tx_return ''profile_unavailable''
             | Some latest \<Rightarrow>
               if pf_deleted_at latest \<noteq> None then tx_return ''profile_unavailable''
               else if pf_event_id latest = Some e then tx_return ''duplicate''
               else if not_before (pf_event_at latest) evt then tx_return ''out_of_order''
               else tx_raise (RuntimeError ''Subscription changed concurrently; retry Apple notification''))))"

subsection \<open>Notifications\<close>

definition upper_char :: "char \<Rightarrow> char" where
  "upper_char c = (let n = of_char c :: nat in
     if (97 \<le> n \<and> n \<le> 122) \<or> (224 \<le> n \<and> n \<le> 254 \<and> n \<noteq> 247) then char_of (n - 32) else c)"

definition upper :: "string \<Rightarrow> string" where
  "upper = map upper_char"

fun is_bool :: "json \<Rightarrow> bool" where
  "is_bool (JBool _) = True"
| "is_bool _ = False"

text \<open>A number that is not a bool.\<close>

definition plain_num :: "json \<Rightarrow> rat option" where
  "plain_num v = (if is_bool v then None else num_value v)"

record ap_result =
  ar_event :: "string option"
  ar_updated :: bool
  ar_is_pro :: "bool option"
  ar_skipped :: "string option"

definition signed_instant :: "dict \<Rightarrow> instant res" where
  "signed_instant notification =
     (case plain_num (dget notification ''signedDate'') of
        None \<Rightarrow> Inl (ValueError ''Apple notification signed date required'')
      | Some q \<Rightarrow>
        if q \<le> 0 then Inl (ValueError ''Apple notification signed date required'')
        else (case fromtimestamp (q / 1000) of
                Inr t \<Rightarrow> Inr t
              | Inl _ \<Rightarrow> Inl (ValueError ''Invalid Apple notification signed date'')))"

text \<open>\<open>UUID (str (v))\<close> with the error caught.\<close>

definition account_token :: "(json \<Rightarrow> string) \<Rightarrow> json \<Rightarrow> uuid option" where
  "account_token rep v = (case py_uuid (py_str rep v) of Inr u \<Rightarrow> Some u | Inl _ \<Rightarrow> None)"

definition expiry_instant :: "dict \<Rightarrow> instant option res" where
  "expiry_instant transaction =
     (case num_value (dget transaction ''expiresDate'') of
        Some q \<Rightarrow> res_bind (fromtimestamp (q / 1000)) (\<lambda>t. Inr (Some t))
      | None \<Rightarrow> Inr None)"

definition off_types :: "string list" where
  "off_types = [''EXPIRED'', ''REFUND'', ''REVOKE'']"

text \<open>What a verified notification says: the work of the handler before its first statement.\<close>

record ap_notice =
  an_id :: string
  an_at :: instant
  an_user :: "uuid option"
  an_type :: string
  an_off :: bool
  an_expires :: "instant option"
  an_payload :: json

datatype ap_reading = Skip string | Notice ap_notice

definition read_notification ::
  "settings \<Rightarrow> (json \<Rightarrow> string) \<Rightarrow> (string \<Rightarrow> json res) \<Rightarrow> string \<Rightarrow> ap_reading res" where
  "read_notification cfg rep verify signed_payload =
     res_bind (res_bind (verify signed_payload) as_dict) (\<lambda>notification.
       let n = py_str rep (py_or (dget notification ''notificationUUID'') (JStr [])) in
       if n = [] then Inl (ValueError ''Apple notification id required'')
       else res_bind (as_dict (py_or (dget notification ''data'') (JObj []))) (\<lambda>data.
         if truthy (dget data ''bundleId'') \<and> dget data ''bundleId'' \<noteq> JStr (apple_bundle_id cfg)
         then Inr (Skip ''wrong_bundle'')
         else if truthy (dget data ''environment'') \<and> dget data ''environment'' \<noteq> JStr (apple_environment cfg)
         then Inr (Skip ''wrong_environment'')
         else res_bind (signed_instant notification) (\<lambda>evt.
           res_bind (if truthy (dget data ''signedTransactionInfo'')
                     then (case dget data ''signedTransactionInfo'' of
                             JStr s \<Rightarrow> res_bind (verify s) as_dict | _ \<Rightarrow> Inl AttributeError)
                     else Inr []) (\<lambda>transaction.
           res_bind (expiry_instant transaction) (\<lambda>expires.
             let kind = upper (py_str rep (py_or (dget notification ''notificationType'') (JStr []))) in
             Inr (Notice \<lparr>an_id = n, an_at = evt,
               an_user = account_token rep (dget transaction ''appAccountToken''),
               an_type = kind,
               an_off = (kind \<in> set off_types \<or> truthy (dget transaction ''revocationDate'')),
               an_expires = expires,
               an_payload = JObj [(''notificationType'', JStr kind), (''environment'', dget data ''environment''),
                 (''productId'', dget transaction ''productId'')]\<rparr>))))))"

definition notice_update :: "ap_notice \<Rightarrow> assignment list" where
  "notice_update x = [IsPro (\<not> an_off x), ProExpiresAt (an_expires x)]"

definition apple_event_id :: "string \<Rightarrow> string" where
  "apple_event_id n = ''apple:'' @ n"

definition settle_notice :: "ap_notice \<Rightarrow> (billing_db, string) tx" where
  "settle_notice x =
     tx_bind (case an_user x of
                None \<Rightarrow> tx_return ''no_user_id''
              | Some u \<Rightarrow> apply_notification_to_profile u (apple_event_id (an_id x)) (an_at x) (notice_update x))
       (\<lambda>outcome. tx_bind (mark_notification (an_id x)
            (if outcome = ''updated'' \<or> outcome = ''duplicate'' then Processed else Skipped))
          (\<lambda>_. tx_return outcome))"

definition notice_result :: "ap_notice \<Rightarrow> string \<Rightarrow> ap_result" where
  "notice_result x outcome =
     \<lparr>ar_event = Some (an_id x), ar_updated = (outcome = ''updated''),
      ar_is_pro = (if outcome = ''updated'' then Some (\<not> an_off x) else None),
      ar_skipped = (if outcome = ''updated'' then None else Some outcome)\<rparr>"

definition process_notice :: "string \<Rightarrow> ap_notice \<Rightarrow> (billing_db, ap_result) tx" where
  "process_notice sha x =
     tx_catch
       (tx_bind (record_notification \<lparr>row_type = an_type x, row_sha256 = sha, row_payload = an_payload x\<rparr> (an_id x))
          (\<lambda>fresh.
            if \<not> fresh then tx_return \<lparr>ar_event = Some (an_id x), ar_updated = False, ar_is_pro = None,
                              ar_skipped = Some ''duplicate''\<rparr>
            else tx_bind (settle_notice x) (\<lambda>outcome. tx_return (notice_result x outcome))))
       (\<lambda>_. tx_bind (tx_catch (mark_notification (an_id x) Failed) (\<lambda>_. tx_return ()))
          (\<lambda>_. tx_raise (unavailable ''Apple notification processing temporarily unavailable'' 1)))"

definition process_signed_notification ::
  "settings \<Rightarrow> (json \<Rightarrow> string) \<Rightarrow> (string \<Rightarrow> json res) \<Rightarrow> (string \<Rightarrow> string) \<Rightarrow> string \<Rightarrow>
   (billing_db, ap_result) tx" where
  "process_signed_notification cfg rep verify sha256 signed_payload =
     (if maintenance_mode cfg then tx_raise (unavailable ''Maintenance in progress. Retry.'' 30)
      else tx_bind (tx_lift (read_notification cfg rep verify signed_payload)) (\<lambda>reading.
        case reading of
          Skip why \<Rightarrow> tx_return \<lparr>ar_event = None, ar_updated = False, ar_is_pro = None, ar_skipped = Some why\<rparr>
        | Notice x \<Rightarrow> process_notice (sha256 signed_payload) x))"

subsection \<open>Restores\<close>

definition unicode_digit :: "char \<Rightarrow> bool" where
  "unicode_digit c \<longleftrightarrow> is_num c \<or> (of_char c :: nat) \<in> {178, 179, 185}"

definition digit_text :: "json \<Rightarrow> string option" where
  "digit_text v = (case v of JStr s \<Rightarrow> if s \<noteq> [] \<and> list_all unicode_digit s then Some s else None | _ \<Rightarrow> None)"

definition milliseconds :: "json \<Rightarrow> instant option" where
  "milliseconds v = (case plain_num v of None \<Rightarrow> None
     | Some q \<Rightarrow> (case fromtimestamp (q / 1000) of Inr t \<Rightarrow> Some t | Inl _ \<Rightarrow> None))"

text \<open>One transaction of a restore: an error, a transaction to leave out, or an entitlement.\<close>

definition check_account :: "(json \<Rightarrow> string) \<Rightarrow> uuid \<Rightarrow> json \<Rightarrow> unit res" where
  "check_account rep u token =
     (if \<not> truthy token then Inr ()
      else case account_token rep token of
             None \<Rightarrow> Inl (HTTPException 400 None ''Invalid transaction account token'' None)
           | Some v \<Rightarrow> if v \<noteq> u then Inl (HTTPException 403 None ''Transaction belongs to another account'' None)
                       else Inr ())"

definition read_transaction ::
  "settings \<Rightarrow> (json \<Rightarrow> string) \<Rightarrow> (string \<Rightarrow> json res) \<Rightarrow> uuid \<Rightarrow> instant \<Rightarrow> string \<Rightarrow>
   (instant \<times> string \<times> instant) option res" where
  "read_transaction cfg rep verify u now jws =
     res_bind (res_bind (verify jws) as_dict) (\<lambda>t.
       if dget t ''bundleId'' \<noteq> JStr (apple_bundle_id cfg)
       then Inl (HTTPException 400 None ''Transaction belongs to another application'' None)
       else if dget t ''environment'' \<noteq> JStr (apple_environment cfg)
       then Inl (HTTPException 400 None ''Transaction belongs to another environment'' None)
       else if (case dget t ''productId'' of JStr s \<Rightarrow> s \<notin> set reciapp_products | _ \<Rightarrow> True) then Inr None
       else res_bind (check_account rep u (dget t ''appAccountToken''))
         (\<lambda>_. case (digit_text (dget t ''transactionId''), milliseconds (dget t ''purchaseDate''),
                     milliseconds (dget t ''expiresDate'')) of
                (Some i, Some purchased, Some expires) \<Rightarrow>
                  if expires \<le> now \<or> dget t ''revocationDate'' \<noteq> JNull then Inr None
                  else Inr (Some (purchased, i, expires))
              | _ \<Rightarrow> Inr None))"

definition valid_entitlements :: "'a option list \<Rightarrow> 'a list" where
  "valid_entitlements xs = concat (map (\<lambda>x. case x of None \<Rightarrow> [] | Some y \<Rightarrow> [y]) xs)"

text \<open>\<open>max (valid)\<close>: tuples compare lexicographically.\<close>

definition latest_entitlement :: "(instant \<times> string \<times> instant) list \<Rightarrow> instant \<times> string \<times> instant" where
  "latest_entitlement xs = foldr max (tl xs) (hd xs)"

record restore_result =
  rr_restored :: bool
  rr_is_pro :: bool
  rr_expires_at :: "instant option"

definition restore_outcome :: "instant \<Rightarrow> uuid \<Rightarrow> (billing_db, restore_result) tx" where
  "restore_outcome now u =
     tx_bind (fetch_profile u) (\<lambda>found.
       case found of
         None \<Rightarrow> tx_raise (HTTPException 403 None ''Account unavailable'' None)
       | Some p \<Rightarrow>
         if pf_deleted_at p \<noteq> None then tx_raise (HTTPException 403 None ''Account unavailable'' None)
         else let restored = (pf_is_pro p \<and> (case pf_pro_expires_at p of None \<Rightarrow> True | Some t \<Rightarrow> now < t))
           in tx_return \<lparr>rr_restored = restored, rr_is_pro = restored, rr_expires_at = pf_pro_expires_at p\<rparr>)"

definition reconcile :: "instant \<Rightarrow> uuid \<Rightarrow> (instant \<times> string \<times> instant) list \<Rightarrow> (billing_db, string) tx" where
  "reconcile now u valid =
     (if valid = [] then tx_return []
      else case latest_entitlement valid of (_, i, expires) \<Rightarrow>
        apply_notification_to_profile u (''apple-restore:'' @ i) now [IsPro True, ProExpiresAt (Some expires)])"

definition restore_subscription_for_user ::
  "settings \<Rightarrow> string \<Rightarrow> (json \<Rightarrow> string) \<Rightarrow> (string \<Rightarrow> json res) \<Rightarrow> instant \<Rightarrow> uuid \<Rightarrow> string list \<Rightarrow>
   (billing_db, restore_result) tx" where
  "restore_subscription_for_user cfg root_ca rep verify now u signed =
     (if maintenance_mode cfg then tx_raise (unavailable ''Maintenance in progress. Retry.'' 30)
      else if root_ca = [] then tx_raise (HTTPException 503 None ''Apple transaction verification unavailable'' None)
      else tx_bind (tx_lift (res_map (read_transaction cfg rep verify u now) signed)) (\<lambda>outcomes.
        tx_bind (reconcile now u (valid_entitlements outcomes)) (\<lambda>_. restore_outcome now u)))"

section \<open>Guarantees\<close>

subsection \<open>The chain of a verified JWS\<close>

definition signed_by :: "('c, 'k) crypto \<Rightarrow> 'c \<Rightarrow> 'c \<Rightarrow> bool" where
  "signed_by lib child issuer \<longleftrightarrow>
     verify_signature lib (public_key lib issuer) (signature_of lib child) (tbs_of lib child)
       (hash_of lib child) = Inr ()"

lemma verify_links_iff: "verify_links lib chain = Inr () \<longleftrightarrow> successively (signed_by lib) chain"
  by (induction lib chain rule: verify_links.induct) (auto simp: res_bind_eq_Inr signed_by_def)

definition anchored :: "('c, 'k) crypto \<Rightarrow> 'c \<Rightarrow> 'c list \<Rightarrow> bool" where
  "anchored lib anchor chain \<longleftrightarrow>
     (fingerprint lib (last chain) = fingerprint lib anchor \<or> signed_by lib (last chain) anchor) \<and>
     successively (signed_by lib) chain"

lemma verify_chain_iff: "verify_chain lib anchor chain = Inr () \<longleftrightarrow> anchored lib anchor chain"
  by (auto simp: verify_chain_def anchored_def res_bind_eq_Inr verify_links_iff signed_by_def)

text \<open>C17: A payload is returned only with a chain of signatures to the configured root. The signature of
  the JWS covers header and payload and verifies under the first certificate, every certificate of
  the chain is signed by the next, and the last one is the root or signed by it.\<close>

theorem jws_chain_verified:
  assumes "verify_jws lib root_ca jws = Inr payload"
  shows "\<exists>eh ep es chain anchor sig.
    jws = eh @ ''.'' @ ep @ ''.'' @ es \<and>
    res_bind (b64 lib ep) (json_loads lib) = Inr payload \<and> b64 lib es = Inr sig \<and>
    load_pem lib (strip (unescape_newlines root_ca)) = Inr anchor \<and> anchored lib anchor chain \<and>
    verify_signature lib (public_key lib (hd chain)) sig (eh @ ''.'' @ ep) sha256_name = Inr ()"
proof -
  let ?ps = "split_char CHR ''.'' jws"
  have l: "length ?ps = 3"
    using assms by (auto simp: verify_jws_def Let_def split: if_splits)
  then obtain eh ep es where ps: "?ps = [eh, ep, es]"
    by (auto simp: numeral_3_eq_3 length_Suc_conv)
  have "jws = join ''.'' ?ps" by (rule join_split_char [symmetric])
  then have j: "jws = eh @ ''.'' @ ep @ ''.'' @ es" by (simp add: ps)
  obtain chain anchor sig where f:
    "res_bind (b64 lib ep) (json_loads lib) = Inr payload"
    "b64 lib es = Inr sig" "load_pem lib (strip (unescape_newlines root_ca)) = Inr anchor"
    "verify_chain lib anchor chain = Inr ()"
    "verify_signature lib (public_key lib (hd chain)) sig (eh @ ''.'' @ ep) sha256_name = Inr ()"
    using assms l unfolding verify_jws_def Let_def ps
    apply (simp split: if_splits)
    apply (simp only: res_bind_eq_Inr)
    apply (elim exE conjE)
    apply (simp only: res_bind_eq_Inr split: if_splits)
     apply simp
    apply (elim exE conjE)
    apply (simp add: numeral_2_eq_2)
    done
  note a = f(4) [unfolded verify_chain_iff]
  show ?thesis
    by (rule exI [of _ eh], rule exI [of _ ep], rule exI [of _ es], rule exI [of _ chain],
        rule exI [of _ anchor], rule exI [of _ sig]) (intro conjI j f a)
qed

definition toy_crypto :: "(string, string) crypto" where
  "toy_crypto = \<lparr>b64_url = (\<lambda>s. Inr s), b64_std = (\<lambda>s. Inr s),
     json_loads = (\<lambda>s. if starts_with s ''H'' then Inr (JObj [(''alg'', JStr ''ES256''), (''x5c'', JArr [JStr ''leaf'', JStr ''ca''])])
                       else Inr (JObj [(''k'', JStr s)])),
     load_der = (\<lambda>s. Inr s), load_pem = (\<lambda>s. Inr s), fingerprint = (\<lambda>c. c), public_key = (\<lambda>c. c),
     kind_of = (\<lambda>_. EcKey 256), signature_of = (\<lambda>c. if c = ''leaf'' then ''by ca'' else ''by anchor''),
     tbs_of = (\<lambda>c. c), hash_of = (\<lambda>_. sha256_name),
     rsa_verify = (\<lambda>_ _ _ _. Inl (ValueError [])),
     ec_verify = (\<lambda>k s _ _. if s = ''by '' @ k \<or> s = ''signed=='' then Inr () else Inl (ValueError [])),
     encode_dss = (\<lambda>_ _. [])\<rparr>"

theorem jws_chain_verified_witness:
  "verify_jws toy_crypto ''anchor'' ''Head.body.signed'' = Inr (JObj [(''k'', JStr ''body'')]) \<and>
   (\<exists>anchor chain. load_pem toy_crypto ''anchor'' = Inr anchor \<and> anchored toy_crypto anchor (chain :: string list))"
proof -
  have v: "verify_jws toy_crypto ''anchor'' ''Head.body.signed'' = Inr (JObj [(''k'', JStr ''body'')])"
    by code_simp
  have u: "strip (unescape_newlines ''anchor'') = ''anchor''" by code_simp
  from jws_chain_verified [OF v] obtain chain anchor where
    "load_pem toy_crypto (strip (unescape_newlines ''anchor'')) = Inr anchor" "anchored toy_crypto anchor chain"
    by blast
  with v show ?thesis by (auto simp only: u)
qed

subsection \<open>The receipts keep the contract\<close>

lemma ap_status_at_simps [simp]:
  "ap_status_at (d\<lparr>profiles := P\<rparr>) e = ap_status_at d e"
  "ap_status_at (d\<lparr>sw_receipts := S\<rparr>) e = ap_status_at d e"
  "ap_status_at (d\<lparr>ap_receipts := A\<rparr>) e = map_option ap_status (A e)"
  by (simp_all add: ap_status_at_def)

lemma insert_notification_kept: "receipts_kept ap_status_at d (snd (insert_notification row n d))"
  by (auto simp: insert_notification_def receipts_kept_def ap_status_at_def)

lemma set_notification_status_kept: "receipts_kept ap_status_at d (snd (set_notification_status n s d))"
  by (auto simp: set_notification_status_def receipts_kept_def ap_status_at_def split: option.splits)

lemma fetch_notification_kept: "keeps (receipts_kept ap_status_at) (fetch_notification n)"
  unfolding fetch_notification_def by (rule rk.keeps_atomically) (simp add: rk.R_refl)

lemma record_notification_kept: "keeps (receipts_kept ap_status_at) (record_notification row n)"
  unfolding record_notification_def
  by (intro rk.keeps_rules fetch_notification_kept rk.keeps_atomically insert_notification_kept)

lemma mark_notification_kept: "keeps (receipts_kept ap_status_at) (mark_notification n s)"
  unfolding mark_notification_def
  by (intro rk.keeps_rules fetch_notification_kept rk.keeps_atomically set_notification_status_kept)

lemma fetch_notification_settled:
  assumes "ap_status_at (db w) e = Some s" "is_terminal s" "env_in (receipts_kept ap_status_at) w"
    and "fetch_notification e w = (Inr x, w')"
  shows "x = Some s"
proof -
  have g: "ap_status_at (g (db w)) e = Some s" if "Interfere g \<in> set (env w)" for g
    using assms(1-3) that by (auto simp: env_in_def receipts_kept_def)
  show ?thesis
    using assms(1,4) g
    by (cases "env w") (auto simp: fetch_notification_def atomically_def split: fault.splits)
qed

lemma record_notification_settled:
  assumes "ap_status_at (db w) n = Some s" "is_terminal s" "env_in (receipts_kept ap_status_at) w"
    and r: "record_notification row n w = (Inr b, w')"
  shows "\<not> b"
proof -
  obtain x w1 where f: "fetch_notification n w = (x, w1)" by (cases "fetch_notification n w")
  with r obtain y where "x = Inr y" by (cases x) (auto simp: record_notification_def tx_bind_def)
  with f fetch_notification_settled [OF assms(1-3)] have "x = Inr (Some s)" by auto
  with f r assms(2) show ?thesis by (simp add: record_notification_def tx_bind_def)
qed

interpretation ap: receipt_book ap_status_at record_notification "\<lambda>_. mark_notification"
proof
  fix x and y :: unit and d :: billing_db and e s t
  show "keeps (receipts_kept ap_status_at) (record_notification x e)" by (rule record_notification_kept)
  show "keeps (receipts_kept ap_status_at) (mark_notification e s)" by (rule mark_notification_kept)
  show "\<exists>d' b. record_notification x e (alone d) = (b, alone d') \<and>
         (b = Inr True \<and> ap_status_at d' e = Some Received \<or> b = Inl DbError \<and> d' = d)"
    if "ap_status_at d e = None"
    using that by (auto simp: record_notification_def fetch_notification_def insert_notification_def tx_run
        ap_status_at_def split: option.splits)
  assume "ap_status_at d e = Some s" "\<not> is_terminal s"
  then show "\<exists>d'. mark_notification e t (alone d) = (Inr (), alone d') \<and> ap_status_at d' e = Some t"
    and "record_notification x e (alone d) = (Inr True, alone d)"
    by (auto simp: record_notification_def mark_notification_def fetch_notification_def
        set_notification_status_def tx_run ap_status_at_def)
next
  fix x and w w' e s b
  assume "ap_status_at (db w) e = Some s" "is_terminal s" "env_in (receipts_kept ap_status_at) w"
    "record_notification x e w = (Inr b, w')"
  then show "\<not> b" by (rule record_notification_settled)
qed

subsection \<open>The order of events\<close>

lemma billing_order_ap:
  assumes "profiles d' = profiles d" "sw_receipts d' = sw_receipts d" "receipts_kept ap_status_at d d'"
  shows "billing_order d d'"
  using assms by (simp add: billing_order_def receipts_kept_def sw_status_at_def)

lemma insert_notification_order: "billing_order d (snd (insert_notification row n d))"
  by (rule billing_order_ap) (simp_all add: insert_notification_kept, simp_all add: insert_notification_def)

lemma set_notification_status_order: "billing_order d (snd (set_notification_status n s d))"
  by (rule billing_order_ap)
    (simp_all add: set_notification_status_kept, simp_all add: set_notification_status_def split: option.splits)

lemma fetch_notification_order: "keeps billing_order (fetch_notification n)"
  unfolding fetch_notification_def by (rule bo.keeps_atomically) (simp add: bo.R_refl)

lemma record_notification_order: "keeps billing_order (record_notification row n)"
  unfolding record_notification_def
  by (intro bo.keeps_rules fetch_notification_order bo.keeps_atomically insert_notification_order)

lemma mark_notification_order: "keeps billing_order (mark_notification n s)"
  unfolding mark_notification_def
  by (intro bo.keeps_rules fetch_notification_order bo.keeps_atomically set_notification_status_order)

lemma not_before_order: "\<not> not_before a evt \<Longrightarrow> event_before a (Some evt)"
  by (auto simp: not_before_def event_before_def split: option.splits)

lemma stamped: "stamps evt (update @ [EventAt evt, EventId e])"
  by (simp add: stamps_def)

lemma apply_notification_order: "keeps billing_order (apply_notification_to_profile u e evt update)"
  unfolding apply_notification_to_profile_def
  by (intro bo.keeps_rules fetch_keeps update_profile_order [OF stamped] not_before_order)

lemma process_notice_order: "keeps billing_order (process_notice sha x)"
  unfolding process_notice_def settle_notice_def
  by (intro bo.keeps_rules record_notification_order mark_notification_order apply_notification_order)

lemma process_signed_notification_order:
  "keeps billing_order (process_signed_notification cfg rep verify sha256 signed_payload)"
  unfolding process_signed_notification_def
  by (intro bo.keeps_rules) (auto split: ap_reading.splits intro: process_notice_order bo.keeps_rules)

lemma restore_order:
  "keeps billing_order (restore_subscription_for_user cfg root_ca rep verify now u signed)"
  unfolding restore_subscription_for_user_def reconcile_def restore_outcome_def
  by (intro bo.keeps_rules fetch_keeps apply_notification_order)

subsection \<open>What a notification does\<close>

lemma record_notification_alone:
  assumes "ap_status_at d n = None \<or> (\<exists>s. ap_status_at d n = Some s \<and> \<not> is_terminal s)"
  obtains d' s where "record_notification row n (alone d) = (Inr True, alone d')"
    "profiles d' = profiles d" "ap_status_at d' n = Some s" "\<not> is_terminal s"
  using assms
  by (auto simp: record_notification_def fetch_notification_def insert_notification_def tx_run ap_status_at_def)

lemma mark_notification_alone:
  assumes "ap_status_at d n = Some s" "\<not> is_terminal s"
  obtains d' where "mark_notification n t (alone d) = (Inr (), alone d')" "profiles d' = profiles d"
    "ap_status_at d' n = Some t"
  using assms
  by (auto simp: mark_notification_def set_notification_status_def tx_run ap_status_at_def)

lemma apply_notification_alone:
  assumes "profiles d u = Some p" "pf_deleted_at p = None" "pf_event_id p \<noteq> Some e"
    and "\<not> not_before (pf_event_at p) evt" "list_all storable update"
  shows "apply_notification_to_profile u e evt update (alone d) =
    (Inr ''updated'', alone (d\<lparr>profiles := (profiles d)(u \<mapsto> assign_all (update @ [EventAt evt, EventId e]) p)\<rparr>))"
  using assms
  by (simp add: apply_notification_to_profile_def fetch_profile_def update_profile_def tx_run cas_update_def)


definition lapsed_notice :: ap_notice where
  "lapsed_notice = \<lparr>an_id = ''n1'', an_at = 1700000000 * second, an_user = Some ex_user,
     an_type = ''GRACE_PERIOD_EXPIRED'', an_off = (''GRACE_PERIOD_EXPIRED'' \<in> set off_types),
     an_expires = Some (1690000000 * second), an_payload = JNull\<rparr>"


subsection \<open>What a restore needs\<close>

definition entitles :: "settings \<Rightarrow> (json \<Rightarrow> string) \<Rightarrow> (string \<Rightarrow> json res) \<Rightarrow> uuid \<Rightarrow> instant \<Rightarrow> string \<Rightarrow> bool" where
  "entitles cfg rep verify u now jws \<longleftrightarrow>
     (\<exists>t s expires. verify jws = Inr (JObj t) \<and>
        dget t ''bundleId'' = JStr (apple_bundle_id cfg) \<and> dget t ''environment'' = JStr (apple_environment cfg) \<and>
        dget t ''productId'' = JStr s \<and> s \<in> set reciapp_products \<and>
        (truthy (dget t ''appAccountToken'') \<longrightarrow> account_token rep (dget t ''appAccountToken'') = Some u) \<and>
        milliseconds (dget t ''expiresDate'') = Some expires \<and> now < expires \<and> dget t ''revocationDate'' = JNull)"

lemma as_dict_Inr: "as_dict v = Inr t \<longleftrightarrow> v = JObj t"
  by (cases v) auto

lemma check_account_ok:
  "check_account rep u token = Inr x \<Longrightarrow> truthy token \<longrightarrow> account_token rep token = Some u"
  by (auto simp: check_account_def split: if_splits option.splits)

lemma read_transaction_entitles:
  assumes "read_transaction cfg rep verify u now jws = Inr (Some e)"
  shows "entitles cfg rep verify u now jws"
proof -
  obtain t where t: "verify jws = Inr (JObj t)"
    using assms by (auto simp: read_transaction_def res_bind_eq_Inr as_dict_Inr)
  obtain s where s: "dget t ''productId'' = JStr s" "s \<in> set reciapp_products"
    using assms t by (auto simp: read_transaction_def split: if_splits json.splits)
  have c: "check_account rep u (dget t ''appAccountToken'') = Inr ()"
    using assms t s by (auto simp: read_transaction_def res_bind_eq_Inr split: if_splits)
  show ?thesis
    using assms t s check_account_ok [OF c] c
    by (auto simp: entitles_def read_transaction_def split: if_splits option.splits)
qed

lemma valid_entitlements_None:
  "list_all2 (\<lambda>x y. f x = Inr y) xs ys \<Longrightarrow> valid_entitlements ys \<noteq> [] \<Longrightarrow>
   \<exists>x \<in> set xs. \<exists>e. f x = Inr (Some e)"
proof (induction xs ys rule: list_all2_induct)
  case Nil
  then show ?case by (simp add: valid_entitlements_def)
next
  case (Cons x xs y ys)
  then show ?case by (cases y) (auto simp: valid_entitlements_def)
qed


definition ex_verify :: "string \<Rightarrow> json res" where
  "ex_verify jws = (if jws = ''tx1'' then Inr (JObj [(''bundleId'', JStr (apple_bundle_id default_settings)),
       (''environment'', JStr (apple_environment default_settings)), (''productId'', JStr ''reciapp_wk_999''),
       (''transactionId'', JStr ''42''), (''purchaseDate'', JInt 1699990000000), (''expiresDate'', JInt 1700604800000)])
     else Inl (ValueError []))"

definition ex_restore :: "restore_result res \<times> billing_db world" where
  "ex_restore = restore_subscription_for_user default_settings ''pem'' ex_rep ex_verify (1700000000 * second) ex_user
     [''tx1''] (alone ex_db)"


end
