(* ===== verification/Library_State.thy ===== *)
theory Library_State
  imports Tx
begin

section \<open>The user library (app/library_state.py, app/models.py)\<close>

text \<open>
  One JSON document per user (folders, shopping list, preferences, cooking progress) with a revision.
  A write carries the revision it was made from and is one statement: it succeeds only on that
  revision, and keeps the last three previous versions. The rendering of floats in the size
  check is the argument \<open>rep\<close>.
\<close>

subsection \<open>Snapshots\<close>

text \<open>The length of the UTF-8 encoding of \<open>json.dumps (v, ensure_ascii=False)\<close>.\<close>

definition utf8_size :: "char \<Rightarrow> int" where
  "utf8_size c = (if (of_char c :: nat) < 128 then 1 else 2)"

definition escape_size :: "char \<Rightarrow> int" where
  "escape_size c = (let n = of_char c :: nat in
     if n \<in> {34, 92, 8, 9, 10, 12, 13} then 2 else if n < 32 then 6 else utf8_size c)"

definition text_size :: "string \<Rightarrow> int" where
  "text_size s = 2 + sum_list (map escape_size s)"

fun json_size :: "(json \<Rightarrow> string) \<Rightarrow> json \<Rightarrow> int" where
  "json_size rep JNull = 4"
| "json_size rep (JBool b) = (if b then 4 else 5)"
| "json_size rep (JInt i) = int (length (int_str i))"
| "json_size rep (JStr s) = text_size s"
| "json_size rep (JArr xs) = (if xs = [] then 2 else 2 * int (length xs) + sum_list (map (json_size rep) xs))"
| "json_size rep (JObj d) = (if d = [] then 2 else 4 * int (length d) +
     sum_list (map (\<lambda>(k, v). text_size k + json_size rep v) d))"
| "json_size rep v = int (length (rep v))"

definition setdefault :: "string \<Rightarrow> json \<Rightarrow> dict \<Rightarrow> dict" where
  "setdefault k v d = (if has_key d k then d else d @ [(k, v)])"

fun is_list :: "json \<Rightarrow> bool" where
  "is_list (JArr _) = True"
| "is_list _ = False"

definition snapshot_defaults :: "dict \<Rightarrow> dict" where
  "snapshot_defaults d =
     setdefault ''cooking_progress'' (JObj []) (setdefault ''preferences'' JNull
       (setdefault ''shopping_list'' (JArr []) (setdefault ''folders'' JNull d)))"

definition max_snapshot_bytes :: int where "max_snapshot_bytes = 262144"

definition check_snapshot :: "(json \<Rightarrow> string) \<Rightarrow> dict \<Rightarrow> dict res" where
  "check_snapshot rep s =
     (if dget s ''folders'' \<noteq> JNull \<and> \<not> is_dict (dget s ''folders'')
      then Inl (ValueError ''Invalid library folder state'')
      else if \<not> is_list (dget s ''shopping_list'')
      then Inl (ValueError ''Invalid shopping list state'')
      else if dget s ''preferences'' \<noteq> JNull \<and> \<not> is_dict (dget s ''preferences'')
      then Inl (ValueError ''Invalid library preferences'')
      else if \<not> is_dict (dget s ''cooking_progress'')
      then Inl (ValueError ''Invalid cooking progress state'')
      else if json_size rep (JObj s) > max_snapshot_bytes
      then Inl (ValueError ''Library snapshot is too large'')
      else Inr s)"

definition normalize_snapshot :: "(json \<Rightarrow> string) \<Rightarrow> bool \<Rightarrow> dict \<Rightarrow> dict res" where
  "normalize_snapshot rep allow_legacy_empty value =
     (let snapshot = (if allow_legacy_empty \<and> value = [] then [(''schema_version'', JInt 1)] else value) in
      if dget snapshot ''schema_version'' \<noteq> JInt 1
      then Inl (ValueError ''Unsupported library snapshot version'')
      else check_snapshot rep (snapshot_defaults snapshot))"

definition empty_snapshot :: dict where
  "empty_snapshot = [(''schema_version'', JInt 1), (''folders'', JNull), (''shopping_list'', JArr []),
     (''preferences'', JNull), (''cooking_progress'', JObj [])]"

subsection \<open>The table\<close>

record version =
  v_revision :: int
  v_snapshot :: dict
  v_updated_at :: "instant option"

record lib_row =
  lr_revision :: int
  lr_snapshot :: dict
  lr_history :: "version list"
  lr_updated_at :: "instant option"

record library_db =
  lib_rows :: "uuid \<rightharpoonup> lib_row"
  live :: "uuid \<Rightarrow> bool"  \<comment> \<open>the profile exists and is not deleted\<close>

definition row_version :: "lib_row \<Rightarrow> version" where
  "row_version r = \<lparr>v_revision = lr_revision r, v_snapshot = lr_snapshot r, v_updated_at = lr_updated_at r\<rparr>"

text \<open>The versions with ordinal above \<open>greatest (length - 2, 0)\<close> of the old history and the row.\<close>

definition push_history :: "lib_row \<Rightarrow> version list" where
  "push_history r = drop (length (lr_history r) - 2) (lr_history r @ [row_version r])"

definition fetch_library_state :: "uuid \<Rightarrow> library_db \<Rightarrow> lib_row" where
  "fetch_library_state u d =
     (case lib_rows d u of
        None \<Rightarrow> \<lparr>lr_revision = 0, lr_snapshot = empty_snapshot, lr_history = [], lr_updated_at = None\<rparr>
      | Some r \<Rightarrow> r)"

definition save_library_state ::
  "instant \<Rightarrow> uuid \<Rightarrow> int \<Rightarrow> dict \<Rightarrow> library_db \<Rightarrow> lib_row option \<times> library_db" where
  "save_library_state now u expected_revision snapshot d =
     (if expected_revision = 0 then
        if live d u \<and> lib_rows d u = None then
          let r = \<lparr>lr_revision = 1, lr_snapshot = snapshot, lr_history = [], lr_updated_at = Some now\<rparr>
          in (Some r, d\<lparr>lib_rows := (lib_rows d)(u \<mapsto> r)\<rparr>)
        else (None, d)
      else
        case lib_rows d u of
          Some s \<Rightarrow>
            if live d u \<and> lr_revision s = expected_revision then
              let r = \<lparr>lr_revision = lr_revision s + 1, lr_snapshot = snapshot, lr_history = push_history s,
                       lr_updated_at = Some now\<rparr>
              in (Some r, d\<lparr>lib_rows := (lib_rows d)(u \<mapsto> r)\<rparr>)
            else (None, d)
        | None \<Rightarrow> (None, d))"

subsection \<open>The handlers (app/main.py)\<close>

definition library_unavailable :: exn where
  "library_unavailable = HTTPException 503 None ''Library state temporarily unavailable'' (Some 1)"

definition history_entry :: "(json \<Rightarrow> string) \<Rightarrow> version \<Rightarrow> version list" where
  "history_entry rep v =
     (if v_revision v < 1 then []
      else case normalize_snapshot rep True (v_snapshot v) of
             Inl _ \<Rightarrow> [] | Inr s \<Rightarrow> [v\<lparr>v_snapshot := s\<rparr>])"

definition library_response :: "(json \<Rightarrow> string) \<Rightarrow> lib_row \<Rightarrow> lib_row res" where
  "library_response rep r =
     res_bind (normalize_snapshot rep True (lr_snapshot r)) (\<lambda>s.
       Inr (r\<lparr>lr_snapshot := s, lr_history := concat (map (history_entry rep) (lr_history r))\<rparr>))"

definition get_library_state :: "(json \<Rightarrow> string) \<Rightarrow> uuid \<Rightarrow> (library_db, lib_row) tx" where
  "get_library_state rep u =
     tx_bind (tx_catch (atomically (\<lambda>d. (Inr (fetch_library_state u d), d))) (\<lambda>_. tx_raise library_unavailable))
       (\<lambda>r. tx_lift (library_response rep r))"

definition conflict :: exn where
  "conflict = HTTPException 409 (Some ''LIBRARY_STATE_CONFLICT'')
     ''Library state changed on another device. Refresh before retrying.'' None"

definition save_statement ::
  "instant \<Rightarrow> uuid \<Rightarrow> int \<Rightarrow> dict \<Rightarrow> library_db \<Rightarrow> lib_row option res \<times> library_db" where
  "save_statement now u revision s d =
     (case save_library_state now u revision s d of (r, d') \<Rightarrow> (Inr r, d'))"

definition put_library_state ::
  "(json \<Rightarrow> string) \<Rightarrow> instant \<Rightarrow> uuid \<Rightarrow> int \<Rightarrow> dict \<Rightarrow> (library_db, lib_row) tx" where
  "put_library_state rep now u revision snapshot =
     (if revision < 0 then tx_raise (ValueError ''revision'')
      else tx_bind (tx_lift (normalize_snapshot rep False snapshot)) (\<lambda>s.
        tx_bind (tx_catch (atomically (save_statement now u revision s)) (\<lambda>_. tx_raise library_unavailable))
          (\<lambda>result. case result of
             None \<Rightarrow> tx_raise conflict
           | Some r \<Rightarrow> tx_lift (library_response rep r))))"

section \<open>Lemmas\<close>

subsection \<open>Normalisation\<close>

lemma has_key_append: "has_key (d @ e) k \<longleftrightarrow> has_key d k \<or> has_key e k"
  by (auto simp: has_key_def map_add_def split: option.splits)

lemma has_key_single: "has_key [(k, v)] k' \<longleftrightarrow> k = k'"
  by (simp add: has_key_def)

lemma has_key_setdefault [simp]: "has_key (setdefault k v d) k' \<longleftrightarrow> k = k' \<or> has_key d k'"
  unfolding setdefault_def by (cases "has_key d k") (auto simp: has_key_append has_key_single)

lemma setdefault_id: "has_key d k \<Longrightarrow> setdefault k v d = d"
  by (simp add: setdefault_def)

lemma snapshot_defaults_idem: "snapshot_defaults (snapshot_defaults d) = snapshot_defaults d"
proof -
  have "\<And>k. k \<in> {''folders'', ''shopping_list'', ''preferences'', ''cooking_progress''} \<Longrightarrow>
     has_key (snapshot_defaults d) k"
    unfolding snapshot_defaults_def has_key_setdefault by blast
  then show ?thesis
    unfolding snapshot_defaults_def [of "snapshot_defaults d"]
    by (simp only: setdefault_id insert_iff simp_thms)
qed

lemma dget_setdefault: "k \<noteq> k' \<Longrightarrow> dget (setdefault k v d) k' = dget d k'"
  by (auto simp: setdefault_def dget_def map_add_def split: option.splits)

lemma snapshot_defaults_version: "dget (snapshot_defaults d) ''schema_version'' = dget d ''schema_version''"
  by (simp add: snapshot_defaults_def dget_setdefault)

lemma setdefault_nonempty: "setdefault k v d \<noteq> []"
  by (cases d) (simp_all add: setdefault_def has_key_def)

lemma snapshot_defaults_nonempty: "snapshot_defaults d \<noteq> []"
  unfolding snapshot_defaults_def by (rule setdefault_nonempty)

lemma check_snapshot_id: "check_snapshot rep s = Inr t \<Longrightarrow> t = s"
  by (simp add: check_snapshot_def split: if_splits)

lemma normalize_normal:
  assumes "normalize_snapshot rep b s = Inr t"
  shows "normalize_snapshot rep b' t = Inr t"
proof -
  from assms obtain s0 where v: "dget s0 ''schema_version'' = JInt 1"
    and c: "check_snapshot rep (snapshot_defaults s0) = Inr t"
    unfolding normalize_snapshot_def Let_def by (auto split: if_splits)
  have t: "t = snapshot_defaults s0" by (rule check_snapshot_id [OF c])
  have "t \<noteq> []" by (simp add: t snapshot_defaults_nonempty)
  moreover have "dget t ''schema_version'' = JInt 1" by (simp add: t snapshot_defaults_version v)
  moreover have "check_snapshot rep (snapshot_defaults t) = Inr t"
    using c by (simp add: t snapshot_defaults_idem)
  ultimately show ?thesis unfolding normalize_snapshot_def Let_def by simp
qed

subsection \<open>Writes\<close>

lemma save_cases:
  assumes "save_library_state now u rv s d = (Some r, d')"
  shows "rv = lr_revision (fetch_library_state u d)" "live d u" "lr_revision r = rv + 1" "lr_snapshot r = s"
    "d' = d\<lparr>lib_rows := (lib_rows d)(u \<mapsto> r)\<rparr>"
    "lr_history r = (case lib_rows d u of None \<Rightarrow> [] | Some q \<Rightarrow> push_history q)"
    "rv = 0 \<longleftrightarrow> lib_rows d u = None"
  using assms
  by (auto simp: save_library_state_def fetch_library_state_def Let_def split: if_splits option.splits)

lemma save_None: "save_library_state now u rv s d = (None, d') \<Longrightarrow> d' = d"
  by (auto simp: save_library_state_def Let_def split: if_splits option.splits)

lemma put_ok:
  assumes "put_library_state rep now u rv snapshot (alone d) = (Inr r, w)"
  obtains s q where "normalize_snapshot rep False snapshot = Inr s" "save_library_state now u rv s d = (Some q, db w)"
    "library_response rep q = Inr r" "env w = []"
proof -
  from assms obtain s where s: "normalize_snapshot rep False snapshot = Inr s"
    by (cases "normalize_snapshot rep False snapshot") (auto simp: put_library_state_def split: if_splits)
  obtain x d' where x: "save_library_state now u rv s d = (x, d')" by (cases "save_library_state now u rv s d")
  with assms s obtain q where "x = Some q" "db w = d'" "library_response rep q = Inr r" "env w = []"
    by (cases x) (auto simp: put_library_state_def tx_run save_statement_def split: if_splits)
  with x s show thesis by (intro that) simp_all
qed

lemma put_fails:
  assumes "put_library_state rep now u rv snapshot (alone d) = (Inl e, w)"
    and "normalize_snapshot rep False snapshot = Inr s"
  shows "db w = d \<or> (\<exists>q. save_library_state now u rv s d = (Some q, db w) \<and> library_response rep q = Inl e)"
proof -
  obtain x d' where x: "save_library_state now u rv s d = (x, d')" by (cases "save_library_state now u rv s d")
  with assms save_None [of now u rv s d d'] show ?thesis
    by (auto simp: put_library_state_def tx_run save_statement_def split: if_splits option.splits)
qed

lemma response_ok:
  assumes "normalize_snapshot rep False snapshot = Inr (lr_snapshot q)"
  shows "\<exists>r. library_response rep q = Inr r \<and> lr_snapshot r = lr_snapshot q \<and> lr_revision r = lr_revision q"
  using normalize_normal [OF assms, of True] by (simp add: library_response_def)

text \<open>What a write stores is what the next read returns. A write that succeeds was made from the
  current revision; reading afterwards gives the next revision and exactly the normalised snapshot.\<close>

theorem library_roundtrip:
  assumes "put_library_state rep now u rv snapshot (alone d) = (Inr r, w)"
  shows "rv = lr_revision (fetch_library_state u d) \<and>
         (\<exists>s q. normalize_snapshot rep False snapshot = Inr s \<and>
                get_library_state rep u (alone (db w)) = (Inr q, alone (db w)) \<and>
                lr_snapshot q = s \<and> lr_revision q = rv + 1)"
proof -
  from put_ok [OF assms] obtain s q where sq: "normalize_snapshot rep False snapshot = Inr s"
    "save_library_state now u rv s d = (Some q, db w)" by blast
  note c = save_cases [OF sq(2)]
  from response_ok sq(1) c(4) obtain r' where r': "library_response rep q = Inr r'" "lr_snapshot r' = s"
    "lr_revision r' = rv + 1"
    using c(3) by metis
  have "fetch_library_state u (db w) = q" by (simp add: c(5) fetch_library_state_def)
  then have "get_library_state rep u (alone (db w)) = (Inr r', alone (db w))"
    by (simp add: get_library_state_def tx_run r'(1))
  with sq(1) r' c(1) show ?thesis by blast
qed

definition ex_snapshot :: dict where
  "ex_snapshot = [(''schema_version'', JInt 1), (''shopping_list'', JArr [JStr ''milk''])]"

definition ex_library :: library_db where
  "ex_library = \<lparr>lib_rows = Map.empty, live = (\<lambda>_. True)\<rparr>"

theorem library_roundtrip_witness:
  "\<exists>s q. normalize_snapshot (\<lambda>_. []) False ex_snapshot = Inr s \<and>
     fst (get_library_state (\<lambda>_. []) ''u'' (alone (db (snd (put_library_state (\<lambda>_. []) 5 ''u'' 0 ex_snapshot
       (alone ex_library)))))) = Inr q \<and> lr_snapshot q = s \<and> lr_revision q = 1"
proof -
  let ?p = "put_library_state (\<lambda>_. []) 5 ''u'' 0 ex_snapshot (alone ex_library)"
  have "(case fst ?p of Inr r \<Rightarrow> True | Inl e \<Rightarrow> False)" by code_simp
  then obtain r where "?p = (Inr r, snd ?p)" by (cases ?p) (auto split: sum.splits)
  from library_roundtrip [OF this] show ?thesis by fastforce
qed

subsection \<open>Versions\<close>

text \<open>
  Requests of any users in the order of their statements; the first result lists the snapshots
  accepted for one user.
\<close>

fun run_puts ::
  "(json \<Rightarrow> string) \<Rightarrow> uuid \<Rightarrow> (instant \<times> uuid \<times> int \<times> dict) list \<Rightarrow> library_db \<Rightarrow> dict list \<times> library_db" where
  "run_puts rep u [] d = ([], d)"
| "run_puts rep u ((now, v, rv, snapshot) # ops) d =
     (case put_library_state rep now v rv snapshot (alone d) of (r, w) \<Rightarrow>
        case run_puts rep u ops (db w) of (acc, d') \<Rightarrow>
          (case r of Inr q \<Rightarrow> if v = u then (lr_snapshot q # acc, d') else (acc, d') | Inl _ \<Rightarrow> (acc, d')))"

definition numbered :: "dict list \<Rightarrow> (int \<times> dict) list" where
  "numbered acc = zip (map int [1..<length acc]) acc"

definition versions_ok :: "uuid \<Rightarrow> dict list \<Rightarrow> library_db \<Rightarrow> bool" where
  "versions_ok u acc d \<longleftrightarrow>
     (case lib_rows d u of
        None \<Rightarrow> acc = []
      | Some r \<Rightarrow> acc \<noteq> [] \<and> lr_revision r = int (length acc) \<and> lr_snapshot r = last acc \<and>
          map (\<lambda>v. (v_revision v, v_snapshot v)) (lr_history r) = drop (length acc - 4) (numbered acc))"

lemma length_numbered [simp]: "length (numbered acc) = length acc - 1"
  by (auto simp: numbered_def min_def)

lemma nth_numbered: "i < length acc - 1 \<Longrightarrow> numbered acc ! i = (int (Suc i), acc ! i)"
  by (simp add: numbered_def)

lemma numbered_snoc:
  assumes "acc \<noteq> []"
  shows "numbered (acc @ [s]) = numbered acc @ [(int (length acc), last acc)]"
proof (rule nth_equalityI)
  show "length (numbered (acc @ [s])) = length (numbered acc @ [(int (length acc), last acc)])"
    using assms by (simp add: Suc_leI)
  fix i assume i: "i < length (numbered (acc @ [s]))"
  show "numbered (acc @ [s]) ! i = (numbered acc @ [(int (length acc), last acc)]) ! i"
  proof (cases "i < length acc - 1")
    case True
    then have "i < length acc" by simp
    with True show ?thesis by (simp add: nth_append nth_numbered)
  next
    case False
    with i assms have "i = length acc - 1" by simp
    then show ?thesis using assms by (simp add: nth_append nth_numbered last_conv_nth Suc_leI)
  qed
qed

lemma drop_window:
  assumes "length h = min (length z) 3" "h = drop (length z - 3) z"
  shows "drop (length h - 2) (h @ [x]) = drop (Suc (length z) - 3) (z @ [x])"
proof (cases "length z \<ge> 3")
  case True
  then have "Suc (length z - 3) = length z - 2" by simp
  with True assms show ?thesis by simp
next
  case False
  with assms have "h = z" by simp
  with False show ?thesis by simp
qed

lemma versions_step:
  assumes ok: "versions_ok u acc d" and s: "save_library_state now u rv s d = (Some q, d')"
  shows "versions_ok u (acc @ [s]) d'"
proof -
  note c = save_cases [OF s]
  show ?thesis
  proof (cases "lib_rows d u")
    case None
    with ok c show ?thesis by (auto simp: versions_ok_def numbered_def)
  next
    case (Some p)
    let ?f = "\<lambda>v. (v_revision v, v_snapshot v)" and ?h = "lr_history p"
    have p: "acc \<noteq> []" "lr_revision p = int (length acc)" "lr_snapshot p = last acc"
      "map ?f ?h = drop (length acc - 4) (numbered acc)"
      using ok Some by (auto simp: versions_ok_def)
    let ?z = "numbered acc"
    have h: "map ?f ?h = drop (length ?z - 3) ?z" using p(4) by simp
    then have "length (map ?f ?h) = min (length ?z) 3" by simp
    from drop_window [OF this h, of "?f (row_version p)"]
    have "map ?f (push_history p) = drop (length acc - 3) (?z @ [?f (row_version p)])"
      using p(1) by (simp add: push_history_def drop_map Suc_diff_Suc flip: map_append)
        (cases acc; simp add: drop_map)
    then have "map ?f (lr_history q) = drop (length acc - 3) (numbered (acc @ [s]))"
      using Some c(6) p by (simp add: numbered_snoc row_version_def)
    moreover have "lr_revision q = int (length acc) + 1"
      using c(1,3) Some p(2) by (simp add: fetch_library_state_def)
    ultimately show ?thesis using c(4,5) by (simp add: versions_ok_def)
  qed
qed

lemma put_other:
  assumes "put_library_state rep now v rv snapshot (alone d) = (r, w)" "v \<noteq> u"
  shows "lib_rows (db w) u = lib_rows d u"
proof (cases r)
  case (Inr q)
  with assms(1) put_ok [of rep now v rv snapshot d q w] obtain s q' where
    "save_library_state now v rv s d = (Some q', db w)" by blast
  from save_cases(5) [OF this] assms(2) show ?thesis by simp
next
  case (Inl e)
  show ?thesis
  proof (cases "normalize_snapshot rep False snapshot")
    case (Inr s)
    from put_fails [OF assms(1) [unfolded Inl] Inr] show ?thesis
      using save_cases(5) assms(2) by fastforce
  next
    case (Inl e')
    with assms(1) show ?thesis by (auto simp: put_library_state_def split: if_splits)
  qed
qed

lemma put_own:
  assumes "put_library_state rep now u rv snapshot (alone d) = (r, w)" "versions_ok u acc d"
  shows "versions_ok u (case r of Inr q \<Rightarrow> acc @ [lr_snapshot q] | Inl _ \<Rightarrow> acc) (db w)"
proof (cases "normalize_snapshot rep False snapshot")
  case (Inl e)
  with assms show ?thesis by (auto simp: put_library_state_def split: if_splits)
next
  case (Inr s)
  show ?thesis
  proof (cases r)
    case [simp]: (Inr q)
    from put_ok [OF assms(1) [unfolded Inr]] \<open>normalize_snapshot rep False snapshot = Inr s\<close> obtain q' where
      q': "save_library_state now u rv s d = (Some q', db w)" "library_response rep q' = Inr q" by auto
    with response_ok [of rep snapshot q'] \<open>normalize_snapshot rep False snapshot = Inr s\<close> save_cases(4) [OF q'(1)]
    have "lr_snapshot q = s" by auto
    with versions_step [OF assms(2) q'(1)] show ?thesis by simp
  next
    case [simp]: (Inl e)
    from put_fails [OF assms(1) [unfolded Inl] Inr] show ?thesis
    proof
      assume "\<exists>q. save_library_state now u rv s d = (Some q, db w) \<and> library_response rep q = Inl e"
      then obtain q where q: "save_library_state now u rv s d = (Some q, db w)" "library_response rep q = Inl e"
        by blast
      with response_ok [of rep snapshot q] Inr save_cases(4) [OF q(1)] show ?thesis by auto
    qed (use assms(2) in simp)
  qed
qed

lemma run_puts_versions:
  "run_puts rep u ops d = (acc, d') \<Longrightarrow> versions_ok u pre d \<Longrightarrow> versions_ok u (pre @ acc) d'"
proof (induction ops arbitrary: d acc pre)
  case Nil
  then show ?case by simp
next
  case (Cons op ops)
  obtain now v rv snapshot where op: "op = (now, v, rv, snapshot)" by (cases op)
  obtain r w where put: "put_library_state rep now v rv snapshot (alone d) = (r, w)" by fastforce
  obtain acc1 where rest: "run_puts rep u ops (db w) = (acc1, d')"
    and acc: "acc = (case r of Inr q \<Rightarrow> if v = u then lr_snapshot q # acc1 else acc1 | Inl _ \<Rightarrow> acc1)"
    using Cons.prems(1) op put by (auto split: prod.splits sum.splits if_splits)
  show ?case
  proof (cases "v = u")
    case True
    with put_own put Cons.prems(2)
    have "versions_ok u (case r of Inr q \<Rightarrow> pre @ [lr_snapshot q] | Inl _ \<Rightarrow> pre) (db w)" by blast
    from Cons.IH [OF rest this] acc True show ?thesis by (auto split: sum.splits)
  next
    case False
    with put_other [OF put False] Cons.prems(2) have "versions_ok u pre (db w)" by (simp add: versions_ok_def)
    from Cons.IH [OF rest this] acc False show ?thesis by (auto split: sum.splits)
  qed
qed

text \<open>C20: No accepted version is lost. After any sequence of writes by any devices and users, with whatever
  revisions they carry, the stored revision is the number of accepted writes, the stored snapshot
  is the last accepted one, and the history holds the three accepted before it, in order and with
  their revisions.\<close>

theorem library_versions:
  assumes "lib_rows d u = None" "run_puts rep u ops d = (acc, d')"
  shows "(lib_rows d' u = None \<longleftrightarrow> acc = []) \<and>
         (\<forall>r. lib_rows d' u = Some r \<longrightarrow>
            lr_revision r = int (length acc) \<and> lr_snapshot r = last acc \<and>
            map (\<lambda>v. (v_revision v, v_snapshot v)) (lr_history r) =
              drop (length acc - 4) (zip (map int [1..<length acc]) acc))"
  using run_puts_versions [OF assms(2), of "[]"] assms(1)
  by (auto simp: versions_ok_def numbered_def split: option.splits)

definition ex_puts :: "(instant \<times> uuid \<times> int \<times> dict) list" where
  "ex_puts = [(1, ''u'', 0, ex_snapshot), (2, ''u'', 0, ex_snapshot), (3, ''v'', 0, ex_snapshot),
     (4, ''u'', 1, ex_snapshot)]"

theorem library_versions_witness:
  "map_option lr_revision (lib_rows (snd (run_puts (\<lambda>_. []) ''u'' ex_puts ex_library)) ''u'') = Some 2 \<and>
   length (fst (run_puts (\<lambda>_. []) ''u'' ex_puts ex_library)) = 2"
proof -
  let ?r = "run_puts (\<lambda>_. []) ''u'' ex_puts ex_library"
  have l: "length (fst ?r) = 2" by code_simp
  from library_versions [of ex_library "''u''" "\<lambda>_. []" ex_puts "fst ?r" "snd ?r"]
  have "(lib_rows (snd ?r) ''u'' = None \<longleftrightarrow> fst ?r = []) \<and>
        (\<forall>q. lib_rows (snd ?r) ''u'' = Some q \<longrightarrow> lr_revision q = int (length (fst ?r)))"
    by (simp add: ex_library_def)
  with l show ?thesis by (cases "lib_rows (snd ?r) ''u''") auto
qed

end
