(* ===== verification/Auth_Tokens.thy ===== *)
theory Auth_Tokens
  imports Config
begin

section \<open>Refresh tokens (app/auth_tokens.py)\<close>

text \<open>
  The table of refresh tokens, keyed by the hash of the token, and the operations on it: each is
  one statement or one transaction, so a run of the system is a sequence of them with the times at
  which they commit. The hash (SHA-256), the HMAC that derives the successor of a token from a
  request identifier, and the signing of an access token are arguments.
\<close>

record token =
  tk_user :: uuid
  tk_expires_at :: instant
  tk_revoked_at :: "instant option"
  tk_agent :: "string option"
  tk_ip :: "string option"
  tk_request :: "uuid option"
  tk_retry_until :: "instant option"
  tk_rotated :: "string option"

record account =
  ac_email :: "string option"
  ac_deleted_at :: "instant option"

record auth_db =
  tokens :: "string \<rightharpoonup> token"
  accounts :: "uuid \<rightharpoonup> account"
  push_devices :: "(uuid \<times> string) list"     \<comment> \<open>owner and token hash\<close>
  push_deliveries :: "(uuid \<times> string) list"

definition replay_seconds :: int where "replay_seconds = 900"

record crypto_env =
  hash :: "string \<Rightarrow> string"
  derive :: "string \<Rightarrow> string \<Rightarrow> uuid \<Rightarrow> string"  \<comment> \<open>secret, hash of the token, request\<close>
  jwt_encode :: "dict \<Rightarrow> string \<Rightarrow> string"

definition refresh_token_for_request :: "crypto_env \<Rightarrow> settings \<Rightarrow> string \<Rightarrow> uuid \<Rightarrow> string res" where
  "refresh_token_for_request c cfg raw request_id =
     (if auth_jwt_secret cfg = [] then Inl (RuntimeError ''AUTH_JWT_SECRET is required for refresh rotation'')
      else Inr (derive c (auth_jwt_secret cfg) (hash c raw) request_id))"

definition create_access_token :: "crypto_env \<Rightarrow> settings \<Rightarrow> instant \<Rightarrow> uuid \<Rightarrow> string option \<Rightarrow> string" where
  "create_access_token c cfg now u email =
     jwt_encode c
       [(''sub'', JStr u), (''email'', case email of None \<Rightarrow> JNull | Some e \<Rightarrow> JStr e),
        (''iss'', JStr (auth_jwt_issuer cfg)), (''aud'', JStr (auth_jwt_audience cfg)),
        (''iat'', JInt (now div second)),
        (''exp'', JInt ((now + auth_access_token_ttl_seconds cfg * second) div second))]
       (auth_jwt_secret cfg)"

text \<open>\<open>raw\<close> is the fresh random token of \<open>secrets.token_urlsafe (48)\<close>.\<close>

definition create_refresh_token ::
  "crypto_env \<Rightarrow> settings \<Rightarrow> instant \<Rightarrow> string \<Rightarrow> uuid \<Rightarrow> string option \<Rightarrow> string option \<Rightarrow> auth_db \<Rightarrow>
   string res \<times> auth_db" where
  "create_refresh_token c cfg now raw u agent ip d =
     (if accounts d u = None then (Inl DbError, d)
      else if tokens d (hash c raw) \<noteq> None then (Inl UniqueViolation, d)
      else (Inr raw, d\<lparr>tokens := (tokens d)(hash c raw \<mapsto>
        \<lparr>tk_user = u, tk_expires_at = now + auth_refresh_token_ttl_seconds cfg * second, tk_revoked_at = None,
         tk_agent = (case agent of None \<Rightarrow> None | Some a \<Rightarrow> if take 300 a = [] then None else Some (take 300 a)),
         tk_ip = ip, tk_request = None, tk_retry_until = None, tk_rotated = None\<rparr>)\<rparr>))"

definition open_account :: "auth_db \<Rightarrow> uuid \<Rightarrow> account option" where
  "open_account d u = (case accounts d u of
     Some a \<Rightarrow> if ac_deleted_at a = None then Some a else None | None \<Rightarrow> None)"

text \<open>The rotation statement: revoke the live token and issue its successor.\<close>

definition rotate_statement ::
  "instant \<Rightarrow> instant \<Rightarrow> string \<Rightarrow> uuid option \<Rightarrow> string \<Rightarrow> auth_db \<Rightarrow> (uuid \<times> string option) option res \<times> auth_db" where
  "rotate_statement now expires_at old_hash request_id new_hash d =
     (case tokens d old_hash of
        None \<Rightarrow> (Inr None, d)
      | Some t \<Rightarrow>
        (case open_account d (tk_user t) of
           None \<Rightarrow> (Inr None, d)
         | Some a \<Rightarrow>
           if tk_revoked_at t \<noteq> None \<or> tk_expires_at t \<le> now then (Inr None, d)
           else if tokens d new_hash \<noteq> None then (Inl UniqueViolation, d)
           else
             let old = t\<lparr>tk_revoked_at := Some now, tk_request := request_id,
                   tk_retry_until := (if request_id = None then None else Some (now + replay_seconds * second)),
                   tk_rotated := (if request_id = None then None else Some new_hash)\<rparr>;
                 new = \<lparr>tk_user = tk_user t, tk_expires_at = expires_at, tk_revoked_at = None,
                   tk_agent = tk_agent t, tk_ip = tk_ip t, tk_request = None, tk_retry_until = None,
                   tk_rotated = None\<rparr>
             in (Inr (Some (tk_user t, ac_email a)),
                 d\<lparr>tokens := (tokens d)(old_hash \<mapsto> old, new_hash \<mapsto> new)\<rparr>)))"

text \<open>The replay of a rotation whose reply was lost.\<close>

definition replay_row :: "instant \<Rightarrow> string \<Rightarrow> uuid \<Rightarrow> auth_db \<Rightarrow> (uuid \<times> string option) option" where
  "replay_row now old_hash request_id d =
     (case tokens d old_hash of
        None \<Rightarrow> None
      | Some t \<Rightarrow>
        (case (open_account d (tk_user t), tk_rotated t, tk_retry_until t) of
           (Some a, Some r, Some until) \<Rightarrow>
             (case tokens d r of
                None \<Rightarrow> None
              | Some s \<Rightarrow>
                if tk_revoked_at s = None \<and> now < tk_expires_at s \<and> tk_revoked_at t \<noteq> None \<and>
                   tk_request t = Some request_id \<and> now < until
                then Some (tk_user t, ac_email a) else None)
         | _ \<Rightarrow> None))"

record token_pair =
  access_token :: string
  refresh_token :: string

text \<open>
  \<open>rotate_refresh_token\<close>; \<open>fresh\<close> is the random token that is used without a request identifier. The two
  statements of the replay path are taken at the times \<open>now\<close> and \<open>later\<close>, with the changes \<open>other\<close> of
  other transactions between them.
\<close>

definition rotate_refresh_token ::
  "crypto_env \<Rightarrow> settings \<Rightarrow> instant \<Rightarrow> instant \<Rightarrow> (auth_db \<Rightarrow> auth_db) \<Rightarrow> string \<Rightarrow> string \<Rightarrow> uuid option \<Rightarrow> auth_db \<Rightarrow>
   token_pair option res \<times> auth_db" where
  "rotate_refresh_token c cfg now later other fresh raw request_id d =
     (case (case request_id of None \<Rightarrow> Inr fresh | Some q \<Rightarrow> refresh_token_for_request c cfg raw q) of
        Inl e \<Rightarrow> (Inl e, d)
      | Inr new_refresh \<Rightarrow>
        (case rotate_statement now (now + auth_refresh_token_ttl_seconds cfg * second) (hash c raw) request_id
                (hash c new_refresh) d of
           (Inl e, d1) \<Rightarrow> (Inl e, d1)
         | (Inr (Some (u, email)), d1) \<Rightarrow>
             (Inr (Some \<lparr>access_token = create_access_token c cfg now u email, refresh_token = new_refresh\<rparr>), d1)
         | (Inr None, d1) \<Rightarrow>
             (case request_id of
                None \<Rightarrow> (Inr None, d1)
              | Some q \<Rightarrow>
                let d2 = other d1 in
                (case replay_row later (hash c raw) q d2 of
                   None \<Rightarrow> (Inr None, d2)
                 | Some (u, email) \<Rightarrow>
                   (Inr (Some \<lparr>access_token = create_access_token c cfg later u email,
                               refresh_token = new_refresh\<rparr>), d2)))))"

definition coalesce :: "'a option \<Rightarrow> 'a \<Rightarrow> 'a" where
  "coalesce x y = (case x of None \<Rightarrow> y | Some v \<Rightarrow> v)"

text \<open>The two forms of the revocation statement.\<close>

definition revoke_statement :: "instant \<Rightarrow> string \<Rightarrow> uuid option \<Rightarrow> auth_db \<Rightarrow> auth_db" where
  "revoke_statement now old_hash request_id d =
     (case request_id of
        Some q \<Rightarrow>
          let successor = (case tokens d old_hash of
                 Some t \<Rightarrow> if tk_request t = Some q then tk_rotated t else None | None \<Rightarrow> None)
          in d\<lparr>tokens := (\<lambda>h. if h = old_hash \<or> Some h = successor
                  then map_option (\<lambda>t. t\<lparr>tk_revoked_at := Some (coalesce (tk_revoked_at t) now)\<rparr>) (tokens d h)
                  else tokens d h)\<rparr>
      | None \<Rightarrow>
          d\<lparr>tokens := (\<lambda>h. if h = old_hash
              then map_option (\<lambda>t. if tk_revoked_at t = None then t\<lparr>tk_revoked_at := Some now\<rparr> else t) (tokens d h)
              else tokens d h)\<rparr>)"

text \<open>\<open>unregister_push_device_for_refresh\<close> (migrations/010).\<close>

definition unregister_push_device :: "string \<Rightarrow> string \<Rightarrow> auth_db \<Rightarrow> auth_db" where
  "unregister_push_device refresh_hash device_hash d =
     (case tokens d refresh_hash of
        None \<Rightarrow> d
      | Some t \<Rightarrow> d\<lparr>push_deliveries := [p \<leftarrow> push_deliveries d. p \<noteq> (tk_user t, device_hash)],
                    push_devices := [p \<leftarrow> push_devices d. p \<noteq> (tk_user t, device_hash)]\<rparr>)"

definition revoke_refresh_token ::
  "crypto_env \<Rightarrow> instant \<Rightarrow> string \<Rightarrow> uuid option \<Rightarrow> string option \<Rightarrow> auth_db \<Rightarrow> auth_db" where
  "revoke_refresh_token c now raw request_id push_token d =
     (if raw = [] then d
      else let d1 = revoke_statement now (hash c raw) request_id d in
        case push_token of
          None \<Rightarrow> d1
        | Some p \<Rightarrow> if p = [] then d1 else unregister_push_device (hash c raw) (hash c (lower p)) d1)"

definition revoke_all_refresh_tokens :: "instant \<Rightarrow> uuid \<Rightarrow> auth_db \<Rightarrow> auth_db" where
  "revoke_all_refresh_tokens now u d =
     d\<lparr>tokens := (\<lambda>h. map_option (\<lambda>t. if tk_user t = u \<and> tk_revoked_at t = None
          then t\<lparr>tk_revoked_at := Some now\<rparr> else t) (tokens d h))\<rparr>"

section \<open>Sessions\<close>

definition live_token :: "token \<Rightarrow> bool" where
  "live_token t \<longleftrightarrow> tk_revoked_at t = None"

text \<open>The unrevoked tokens of a user.\<close>

definition sessions :: "uuid \<Rightarrow> auth_db \<Rightarrow> string set" where
  "sessions u d = {h. \<exists>t. tokens d h = Some t \<and> tk_user t = u \<and> live_token t}"

lemma rotate_statement_sessions:
  assumes r: "rotate_statement now ex old_hash q new_hash d = (r, d')"
  shows "d' = d \<or> (\<exists>t. tokens d old_hash = Some t \<and> live_token t \<and> new_hash \<noteq> old_hash \<and> new_hash \<notin> sessions u d \<and>
            sessions u d' = (if tk_user t = u then insert new_hash (sessions u d - {old_hash}) else sessions u d))"
proof (cases "d' = d")
  case False
  then obtain t a where t: "tokens d old_hash = Some t" "open_account d (tk_user t) = Some a"
    "tk_revoked_at t = None" "tokens d new_hash = None"
    and d': "d' = d\<lparr>tokens := (tokens d)(old_hash \<mapsto> t\<lparr>tk_revoked_at := Some now, tk_request := q,
                   tk_retry_until := (if q = None then None else Some (now + replay_seconds * second)),
                   tk_rotated := (if q = None then None else Some new_hash)\<rparr>,
                   new_hash \<mapsto> \<lparr>tk_user = tk_user t, tk_expires_at = ex, tk_revoked_at = None,
                   tk_agent = tk_agent t, tk_ip = tk_ip t, tk_request = None, tk_retry_until = None,
                   tk_rotated = None\<rparr>)\<rparr>"
    using r by (auto simp: rotate_statement_def Let_def split: option.splits if_splits)
  then have n: "new_hash \<noteq> old_hash" by auto
  have "new_hash \<notin> sessions u d" using t by (simp add: sessions_def)
  moreover have "sessions u d' = (if tk_user t = u then insert new_hash (sessions u d - {old_hash}) else sessions u d)"
    using t n by (auto simp: d' sessions_def live_token_def split: if_splits)
  ultimately show ?thesis using t n by (auto simp: live_token_def)
qed simp

text \<open>Requests of any clients, in the order in which their statements commit.\<close>

datatype auth_call =
    Rotate instant string string "uuid option"   \<comment> \<open>time, fresh token, token presented, request\<close>
  | Revoke instant string "uuid option" "string option"
  | RevokeAll instant uuid

fun auth_step :: "crypto_env \<Rightarrow> settings \<Rightarrow> auth_call \<Rightarrow> auth_db \<Rightarrow> auth_db" where
  "auth_step c cfg (Rotate now fresh raw q) d = snd (rotate_refresh_token c cfg now now (\<lambda>d. d) fresh raw q d)"
| "auth_step c cfg (Revoke now raw q push) d = revoke_refresh_token c now raw q push d"
| "auth_step c cfg (RevokeAll now u) d = revoke_all_refresh_tokens now u d"

definition auth_run :: "crypto_env \<Rightarrow> settings \<Rightarrow> auth_call list \<Rightarrow> auth_db \<Rightarrow> auth_db" where
  "auth_run c cfg calls d = fold (auth_step c cfg) calls d"

lemma rotate_db:
  "snd (rotate_refresh_token c cfg now now (\<lambda>d. d) fresh raw q d) = d \<or>
   (\<exists>r ex nh. rotate_statement now ex (hash c raw) q nh d =
      (r, snd (rotate_refresh_token c cfg now now (\<lambda>d. d) fresh raw q d)))"
  by (auto simp: rotate_refresh_token_def Let_def split: sum.splits prod.splits option.splits)

lemma coalesce_simps [simp]: "coalesce (Some y) n = y" "coalesce None n = n"
  by (simp_all add: coalesce_def)

lemma set_revoked_same [simp]: "tk_revoked_at t = Some y \<Longrightarrow> t\<lparr>tk_revoked_at := Some y\<rparr> = t"
  by (cases t) simp

lemma revoke_tokens:
  assumes "tokens (revoke_statement now h q d) k = Some t'"
  shows "\<exists>t. tokens d k = Some t \<and> tk_user t' = tk_user t \<and> tk_request t' = tk_request t \<and>
             tk_rotated t' = tk_rotated t \<and> (tk_revoked_at t \<noteq> None \<longrightarrow> t' = t)"
proof -
  obtain t where t: "tokens d k = Some t"
    using assms by (auto simp: revoke_statement_def Let_def split: option.splits if_splits)
  show ?thesis
    using assms t by (cases "tk_revoked_at t") (auto simp: revoke_statement_def Let_def split: option.splits if_splits)
qed

lemma unregister_tokens [simp]: "tokens (unregister_push_device h k d) = tokens d"
  by (simp add: unregister_push_device_def split: option.splits)

lemma revoke_refresh_tokens:
  "tokens (revoke_refresh_token c now raw q push d) =
     (if raw = [] then tokens d else tokens (revoke_statement now (hash c raw) q d))"
  by (simp add: revoke_refresh_token_def Let_def split: option.splits)

lemma step_sessions:
  assumes "finite (sessions u d)"
  shows "finite (sessions u (auth_step c cfg call d)) \<and> card (sessions u (auth_step c cfg call d)) \<le> card (sessions u d)"
proof -
  have sub: "finite A \<and> card A \<le> card (sessions u d)" if "A \<subseteq> sessions u d" for A
    using that assms by (meson card_mono finite_subset)
  show ?thesis
  proof (cases call)
    case (Rotate now fresh raw q)
    let ?d = "auth_step c cfg call d"
    from rotate_db [of c cfg now fresh raw q d] show ?thesis
    proof
      assume "\<exists>r ex nh. rotate_statement now ex (hash c raw) q nh d =
        (r, snd (rotate_refresh_token c cfg now now (\<lambda>d. d) fresh raw q d))"
      then obtain r ex nh where "rotate_statement now ex (hash c raw) q nh d = (r, ?d)"
        using Rotate by auto
      from rotate_statement_sessions [OF this, of u] show ?thesis
      proof
        assume "\<exists>t. tokens d (hash c raw) = Some t \<and> live_token t \<and> nh \<noteq> hash c raw \<and> nh \<notin> sessions u d \<and>
          sessions u ?d = (if tk_user t = u then insert nh (sessions u d - {hash c raw}) else sessions u d)"
        then obtain t where t: "tokens d (hash c raw) = Some t" "live_token t" "nh \<notin> sessions u d"
          "sessions u ?d = (if tk_user t = u then insert nh (sessions u d - {hash c raw}) else sessions u d)"
          by blast
        show ?thesis
        proof (cases "tk_user t = u")
          case True
          with t(1,2) have "hash c raw \<in> sessions u d" by (auto simp: sessions_def)
          with assms have "Suc (card (sessions u d - {hash c raw})) = card (sessions u d)"
            by (rule card_Suc_Diff1)
          with True t(3,4) assms show ?thesis by simp
        qed (use t(4) assms in simp)
      qed (use assms in simp)
    qed (use Rotate assms in simp)
  next
    case (Revoke now raw q push)
    have "sessions u (auth_step c cfg call d) \<subseteq> sessions u d"
      using revoke_tokens [of now "hash c raw" q d]
      by (fastforce simp: Revoke sessions_def revoke_refresh_tokens live_token_def split: if_splits)
    then show ?thesis by (rule sub)
  next
    case (RevokeAll now v)
    have "sessions u (auth_step c cfg call d) \<subseteq> sessions u d"
      by (auto simp: RevokeAll sessions_def revoke_all_refresh_tokens_def live_token_def split: if_splits)
    then show ?thesis by (rule sub)
  qed
qed

text \<open>C21: Rotation never multiplies sessions. Whatever tokens and request identifiers are presented, in any
  order, by any number of clients, the unrevoked tokens of a user never become more: a user who
  logged in \<open>n\<close> times has at most \<open>n\<close> of them.\<close>

theorem sessions_bounded:
  assumes "finite (sessions u d)"
  shows "card (sessions u (auth_run c cfg calls d)) \<le> card (sessions u d)"
proof -
  have "finite (sessions u (auth_run c cfg calls d)) \<and> card (sessions u (auth_run c cfg calls d)) \<le> card (sessions u d)"
    using assms unfolding auth_run_def
  proof (induction calls arbitrary: d)
    case (Cons call calls)
    from step_sessions [OF Cons.prems, of c cfg call] Cons.IH [of "auth_step c cfg call d"] show ?case
      by (auto intro: le_trans)
  qed simp
  then show ?thesis by blast
qed

subsection \<open>Revocation is final\<close>

text \<open>A revoked row keeps its revocation, its request and its successor.\<close>

definition revoked_kept :: "auth_db \<Rightarrow> auth_db \<Rightarrow> bool" where
  "revoked_kept d d' \<longleftrightarrow> (\<forall>h t. tokens d h = Some t \<longrightarrow> tk_revoked_at t \<noteq> None \<longrightarrow> tokens d' h = Some t)"

lemma revoked_kept_refl [simp]: "revoked_kept d d"
  by (simp add: revoked_kept_def)

lemma revoked_kept_trans: "revoked_kept a b \<Longrightarrow> revoked_kept b e \<Longrightarrow> revoked_kept a e"
  by (auto simp: revoked_kept_def)

lemma rotate_statement_kept: "rotate_statement now ex h q nh d = (r, d') \<Longrightarrow> revoked_kept d d'"
  by (auto simp: rotate_statement_def revoked_kept_def Let_def split: option.splits if_splits)

lemma revoke_statement_kept: "revoked_kept d (revoke_statement now h q d)"
  by (auto simp: revoke_statement_def revoked_kept_def Let_def split: option.splits)

lemma step_kept: "revoked_kept d (auth_step c cfg call d)"
proof (cases call)
  case (Rotate now fresh raw q)
  from rotate_db [of c cfg now fresh raw q d] rotate_statement_kept show ?thesis
    unfolding Rotate auth_step.simps by (metis revoked_kept_refl)
next
  case (Revoke now raw q push)
  then show ?thesis
    using revoke_statement_kept [of d now "hash c raw" q]
    by (simp add: revoked_kept_def revoke_refresh_tokens)
next
  case (RevokeAll now v)
  then show ?thesis by (auto simp: revoked_kept_def revoke_all_refresh_tokens_def)
qed

lemma run_kept: "revoked_kept d (auth_run c cfg calls d)"
  unfolding auth_run_def
proof (induction calls arbitrary: d)
  case (Cons call calls)
  show ?case using revoked_kept_trans [OF step_kept Cons.IH] by simp
qed simp

lemma rotate_dead:
  assumes t: "tokens d (hash c raw) = Some t" "tk_revoked_at t \<noteq> None"
    and s: "\<And>s r. tk_rotated t = Some r \<Longrightarrow> tokens d r = Some s \<Longrightarrow> tk_revoked_at s \<noteq> None"
  shows "fst (rotate_refresh_token c cfg now later (\<lambda>d. d) fresh raw q d) \<noteq> Inr (Some p)"
proof -
  have a: "rotate_statement now ex (hash c raw) q nh d = (Inr None, d)" for ex nh
    using t by (simp add: rotate_statement_def split: option.splits)
  have b: "replay_row later (hash c raw) q' d = None" for q'
    using t by (auto simp: replay_row_def split: option.splits dest: s)
  show ?thesis
    by (auto simp: rotate_refresh_token_def a b Let_def split: sum.splits option.splits)
qed

text \<open>A rotated row is revoked and its successor is stored.\<close>

definition tokens_wf :: "auth_db \<Rightarrow> bool" where
  "tokens_wf d \<longleftrightarrow> (\<forall>h t. tokens d h = Some t \<longrightarrow>
     (tk_revoked_at t = None \<longrightarrow> tk_rotated t = None) \<and> (\<forall>s. tk_rotated t = Some s \<longrightarrow> tokens d s \<noteq> None))"

lemma rotate_statement_wf: "tokens_wf d \<Longrightarrow> rotate_statement now ex h q nh d = (r, d') \<Longrightarrow> tokens_wf d'"
  by (auto simp: rotate_statement_def tokens_wf_def Let_def split: option.splits if_splits)

lemma revoke_statement_wf:
  assumes "tokens_wf d"
  shows "tokens_wf (revoke_statement now h q d)"
proof -
  have stored: "tokens (revoke_statement now h q d) k \<noteq> None" if "tokens d k \<noteq> None" for k
    using that by (auto simp: revoke_statement_def Let_def split: option.splits)
  show ?thesis
    unfolding tokens_wf_def
  proof (intro allI impI)
    fix k t assume k: "tokens (revoke_statement now h q d) k = Some t"
    then obtain t0 where t0: "tokens d k = Some t0" "tk_rotated t = tk_rotated t0"
      "tk_revoked_at t0 \<noteq> None \<longrightarrow> t = t0"
      using revoke_tokens by blast
    show "(tk_revoked_at t = None \<longrightarrow> tk_rotated t = None) \<and>
          (\<forall>s. tk_rotated t = Some s \<longrightarrow> tokens (revoke_statement now h q d) s \<noteq> None)"
      using assms t0 stored unfolding tokens_wf_def by metis
  qed
qed

lemma step_wf: "tokens_wf d \<Longrightarrow> tokens_wf (auth_step c cfg call d)"
proof (cases call)
  case (Rotate now fresh raw q)
  moreover assume "tokens_wf d"
  ultimately show ?thesis
    using rotate_db [of c cfg now fresh raw q d] rotate_statement_wf unfolding Rotate auth_step.simps by metis
next
  case (Revoke now raw q push)
  moreover assume "tokens_wf d"
  ultimately show ?thesis
    using revoke_statement_wf [of d now "hash c raw" q] by (simp add: tokens_wf_def revoke_refresh_tokens)
next
  case (RevokeAll now v)
  moreover assume "tokens_wf d"
  ultimately show ?thesis by (auto simp: tokens_wf_def revoke_all_refresh_tokens_def)
qed

text \<open>Logout is final. After the logout of a token that is unrevoked, or was rotated under the same
  request identifier so that its reply may have been lost, neither it nor its successor is ever
  exchanged again, whatever requests come after.\<close>

theorem logout_final:
  assumes "tokens_wf d" "raw \<noteq> []" "tokens d (hash c raw) = Some t"
    and "tk_revoked_at t = None \<or> tk_request t = Some q"
  shows "fst (rotate_refresh_token c cfg now' later (\<lambda>d. d) fresh raw q'
             (auth_run c cfg calls (revoke_refresh_token c now raw (Some q) push d))) \<noteq> Inr (Some p) \<and>
         (\<forall>s. tk_rotated t = Some s \<longrightarrow>
           s \<notin> sessions u (auth_run c cfg calls (revoke_refresh_token c now raw (Some q) push d)))"
proof -
  let ?d1 = "revoke_refresh_token c now raw (Some q) push d" and ?h = "hash c raw"
  let ?d2 = "auth_run c cfg calls ?d1"
  have tok: "tokens ?d1 = tokens (revoke_statement now ?h (Some q) d)"
    using assms(2) by (simp add: revoke_refresh_tokens)
  obtain t1 where t1: "tokens ?d1 ?h = Some t1" "tk_revoked_at t1 \<noteq> None" "tk_rotated t1 = tk_rotated t"
    using assms(3) by (auto simp: tok revoke_statement_def Let_def)
  with run_kept [of ?d1 c cfg calls] have t2: "tokens ?d2 ?h = Some t1" by (auto simp: revoked_kept_def)
  have succ: "tk_revoked_at s2 \<noteq> None" if r: "tk_rotated t = Some r" and s2: "tokens ?d2 r = Some s2" for r s2
  proof -
    from assms(1,3,4) r obtain s where "tokens d r = Some s" "tk_request t = Some q"
      unfolding tokens_wf_def by fastforce
    with assms(3) r obtain s1 where "tokens ?d1 r = Some s1" "tk_revoked_at s1 \<noteq> None"
      by (auto simp: tok revoke_statement_def Let_def)
    with run_kept [of ?d1 c cfg calls] s2 show ?thesis by (auto simp: revoked_kept_def)
  qed
  have "fst (rotate_refresh_token c cfg now' later (\<lambda>d. d) fresh raw q' ?d2) \<noteq> Inr (Some p)"
    by (rule rotate_dead [OF t2 t1(2)]) (use succ t1(3) in auto)
  moreover have "s \<notin> sessions u ?d2" if "tk_rotated t = Some s" for s
    using succ [OF that] by (auto simp: sessions_def live_token_def)
  ultimately show ?thesis by blast
qed

subsection \<open>A lost reply can be recovered\<close>

text \<open>A rotation can be repeated. After a rotation with a request identifier, the same token and
  identifier give the same refresh token again within 900 seconds, however often, as long as the
  successor is neither used nor revoked and the account is open; another identifier gets nothing.\<close>

theorem rotation_replay:
  assumes first: "rotate_refresh_token c cfg now l o' f raw (Some q) d = (Inr (Some p), d')"
    and live: "tokens d (hash c raw) = Some t" "tk_revoked_at t = None" "now < tk_expires_at t"
    and account: "open_account d (tk_user t) \<noteq> None"
    and kept: "tokens d2 (hash c raw) = tokens d' (hash c raw)"
      "tokens d2 (hash c (refresh_token p)) = tokens d' (hash c (refresh_token p))"
      "accounts d2 (tk_user t) = accounts d' (tk_user t)"
    and times: "later < now + replay_seconds * second" "later < now + auth_refresh_token_ttl_seconds cfg * second"
  shows "(\<exists>p'. rotate_refresh_token c cfg now2 later (\<lambda>d. d) f2 raw (Some q) d2 = (Inr (Some p'), d2) \<and>
               refresh_token p' = refresh_token p) \<and>
         (q' \<noteq> q \<longrightarrow> rotate_refresh_token c cfg now2 later (\<lambda>d. d) f2 raw (Some q') d2 = (Inr None, d2))"
proof -
  let ?h = "hash c raw"
  have secret: "auth_jwt_secret cfg \<noteq> []"
    using first by (auto simp: rotate_refresh_token_def refresh_token_for_request_def)
  let ?new = "derive c (auth_jwt_secret cfg) ?h q"
  let ?r = "rotate_statement now (now + auth_refresh_token_ttl_seconds cfg * second) ?h (Some q) (hash c ?new) d"
  obtain a where a: "open_account d (tk_user t) = Some a" using account by blast
  have fresh: "tokens d (hash c ?new) = None"
    using first live a secret
    by (auto simp: rotate_refresh_token_def refresh_token_for_request_def rotate_statement_def Let_def
        split: if_splits option.splits prod.splits)
  then have ne: "hash c ?new \<noteq> ?h" using live(1) by auto
  have p: "refresh_token p = ?new" and d': "d' = snd ?r"
    using first live a secret fresh
    by (auto simp: rotate_refresh_token_def refresh_token_for_request_def rotate_statement_def Let_def)
  have old: "\<exists>t1. tokens d2 ?h = Some t1 \<and> tk_user t1 = tk_user t \<and> tk_revoked_at t1 = Some now \<and>
      tk_request t1 = Some q \<and> tk_retry_until t1 = Some (now + replay_seconds * second) \<and>
      tk_rotated t1 = Some (hash c ?new)"
    using live a fresh ne by (auto simp: kept(1) d' rotate_statement_def Let_def)
  have new: "\<exists>s. tokens d2 (hash c ?new) = Some s \<and> tk_revoked_at s = None \<and>
      tk_expires_at s = now + auth_refresh_token_ttl_seconds cfg * second"
    using live a fresh by (auto simp: kept(2) [unfolded p] d' rotate_statement_def Let_def)
  have acc: "open_account d2 (tk_user t) = Some a"
    using a live fresh by (simp add: open_account_def kept(3) d' rotate_statement_def Let_def)
  have none: "rotate_statement n ex ?h x nh d2 = (Inr None, d2)" for n ex x nh
    using old by (auto simp: rotate_statement_def split: option.splits)
  have yes: "replay_row later ?h q d2 = Some (tk_user t, ac_email a)"
    using old new acc times by (auto simp: replay_row_def)
  have no: "replay_row later ?h q' d2 = None" if "q' \<noteq> q"
    using old new acc that by (auto simp: replay_row_def)
  show ?thesis
    using secret p yes no
    by (auto simp: rotate_refresh_token_def refresh_token_for_request_def none)
qed

subsection \<open>Examples\<close>

definition toy_env :: crypto_env where
  "toy_env = \<lparr>hash = (\<lambda>s. ''#'' @ s), derive = (\<lambda>_ h q. h @ ''/'' @ q), jwt_encode = (\<lambda>_ _. ''jwt'')\<rparr>"

definition toy_settings :: settings where
  "toy_settings = default_settings\<lparr>auth_jwt_secret := ''secret''\<rparr>"

definition toy_auth :: auth_db where
  "toy_auth = \<lparr>tokens = [''#t0'' \<mapsto> \<lparr>tk_user = ''u'', tk_expires_at = 1000 * second, tk_revoked_at = None,
       tk_agent = None, tk_ip = None, tk_request = None, tk_retry_until = None, tk_rotated = None\<rparr>],
     accounts = [''u'' \<mapsto> \<lparr>ac_email = None, ac_deleted_at = None\<rparr>], push_devices = [], push_deliveries = []\<rparr>"

lemma toy_sessions: "sessions ''u'' toy_auth = {''#t0''}"
  by (auto simp: sessions_def toy_auth_def live_token_def)

theorem sessions_bounded_witness:
  "card (sessions ''u'' (auth_run toy_env toy_settings
      [Rotate 0 ''f1'' ''t0'' (Some ''q1''), Rotate 1 ''f2'' ''t0'' (Some ''q2''), Rotate 2 ''f3'' ''t0'' (Some ''q1'')] toy_auth)) \<le> 1"
  using sessions_bounded [of "''u''" toy_auth toy_env toy_settings] by (simp add: toy_sessions)

definition toy_rotation :: "token_pair option res \<times> auth_db" where
  "toy_rotation = rotate_refresh_token toy_env toy_settings 0 0 (\<lambda>d. d) ''f1'' ''t0'' (Some ''q1'') toy_auth"

definition toy_pair :: token_pair where
  "toy_pair = \<lparr>access_token = ''jwt'', refresh_token = ''#t0/q1''\<rparr>"

lemma toy_rotation_ok: "fst toy_rotation = Inr (Some toy_pair)"
  by code_simp

theorem logout_final_witness:
  "fst (rotate_refresh_token toy_env toy_settings 8 8 (\<lambda>d. d) ''f2'' ''t0'' (Some ''q1'')
      (auth_run toy_env toy_settings [] (revoke_refresh_token toy_env 5 ''t0'' (Some ''q1'') None (snd toy_rotation))))
    \<noteq> Inr (Some toy_pair)"
proof -
  have "tokens_wf toy_auth" by (simp add: tokens_wf_def toy_auth_def)
  then have wf: "tokens_wf (snd toy_rotation)"
    using step_wf [of toy_auth toy_env toy_settings "Rotate 0 ''f1'' ''t0'' (Some ''q1'')"]
    by (simp add: toy_rotation_def)
  have "map_option tk_request (tokens (snd toy_rotation) (hash toy_env ''t0'')) = Some (Some ''q1'')" by code_simp
  then obtain t where "tokens (snd toy_rotation) (hash toy_env ''t0'') = Some t" "tk_request t = Some ''q1''" by auto
  with logout_final [OF wf, of "''t0''" toy_env t "''q1''"] show ?thesis by simp
qed

theorem rotation_replay_witness:
  "\<exists>p'. fst (rotate_refresh_token toy_env toy_settings 100 (100 * second) (\<lambda>d. d) ''f2'' ''t0'' (Some ''q1'')
      (snd toy_rotation)) = Inr (Some p') \<and> refresh_token p' = ''#t0/q1''"
proof -
  let ?t = "the (tokens toy_auth ''#t0'')"
  have r: "rotate_refresh_token toy_env toy_settings 0 0 (\<lambda>d. d) ''f1'' ''t0'' (Some ''q1'') toy_auth
      = (Inr (Some toy_pair), snd toy_rotation)"
    using toy_rotation_ok unfolding toy_rotation_def by (simp add: prod_eq_iff)
  have h: "hash toy_env ''t0'' = ''#t0''" by code_simp
  have tm: "100 * second < (0::int) + replay_seconds * second"
    "100 * second < (0::int) + auth_refresh_token_ttl_seconds toy_settings * second" by code_simp+
  from rotation_replay [OF r, of ?t "snd toy_rotation" "100 * second" 100 "''f2''" "''q2''"]
  show ?thesis
    using tm by (auto simp: h toy_auth_def open_account_def toy_pair_def)
qed

end
