(* ===== verification/Spend.thy ===== *)
theory Spend
  imports Py_Datetime User_Limits
begin

section \<open>The spend ledger (app/spend.py, \<open>reserve_api_spend\<close> and \<open>settle_api_spend\<close>)\<close>

text \<open>
  Before a job may call a paid API its worst-case cost is reserved in a ledger; afterwards the actual
  cost replaces the reservation. Both are database functions, each one transaction; the reservation
  serialises on an advisory lock. The functions are written out from migrations/001 and 002.
\<close>

datatype spend_status = SpendReserved | SpendSettled | SpendFailed

record ledger_row =
  lg_id :: uuid
  lg_user :: "uuid option"
  lg_job :: uuid
  lg_reserved :: rat
  lg_actual :: rat
  lg_status :: spend_status
  lg_created :: instant

record spend_db =
  ledger :: "ledger_row list"
  alerts :: "(instant \<times> string \<times> int) list"

definition charge :: "ledger_row \<Rightarrow> rat" where
  "charge r = (if lg_status r = SpendReserved then lg_reserved r else lg_actual r)"

definition spent_since :: "instant \<Rightarrow> ledger_row list \<Rightarrow> rat" where
  "spent_since start rows = sum_list (map charge [r \<leftarrow> rows. start \<le> lg_created r])"

definition user_spent_since :: "uuid \<Rightarrow> instant \<Rightarrow> ledger_row list \<Rightarrow> rat" where
  "user_spent_since u start rows =
     sum_list (map charge [r \<leftarrow> rows. lg_user r = Some u \<and> start \<le> lg_created r])"

text \<open>Reservations older than two hours are given up.\<close>

definition expire :: "instant \<Rightarrow> ledger_row \<Rightarrow> ledger_row" where
  "expire now r =
     (if lg_status r = SpendReserved \<and> lg_created r < now - 2 * 3600 * second
      then r\<lparr>lg_status := SpendFailed\<rparr> else r)"

definition insert_alert :: "instant \<times> string \<times> int \<Rightarrow> (instant \<times> string \<times> int) list \<Rightarrow> (instant \<times> string \<times> int) list" where
  "insert_alert a as = (if a \<in> set as then as else as @ [a])"

definition alert_thresholds :: "int list" where "alert_thresholds = [50, 75, 90, 100]"

definition raise_alerts ::
  "instant \<Rightarrow> rat \<Rightarrow> rat \<Rightarrow> rat \<Rightarrow> rat \<Rightarrow> (instant \<times> string \<times> int) list \<Rightarrow> (instant \<times> string \<times> int) list" where
  "raise_alerts now daily daily_budget monthly monthly_budget as =
     fold (\<lambda>t as.
       let as1 = (if 0 < daily_budget \<and> daily_budget * of_int t / 100 \<le> daily
                  then insert_alert (day_start now, ''daily'', t) as else as)
       in if 0 < monthly_budget \<and> monthly_budget * of_int t / 100 \<le> monthly
          then insert_alert (month_start now, ''monthly'', t) as1 else as1)
       alert_thresholds as"

record reservation =
  rs_allowed :: bool
  rs_reason :: string
  rs_id :: "uuid option"
  rs_cents :: rat

text \<open>\<open>new_id\<close> is the identifier the database generates for an inserted row.\<close>

definition reserve_api_spend ::
  "instant \<Rightarrow> uuid \<Rightarrow> uuid \<Rightarrow> uuid \<Rightarrow> rat \<Rightarrow> rat \<Rightarrow> rat \<Rightarrow> rat \<Rightarrow> spend_db \<Rightarrow> reservation \<times> spend_db" where
  "reserve_api_spend now new_id u job cents daily_budget monthly_budget user_budget d0 =
     (let d = d0\<lparr>ledger := map (expire now) (ledger d0)\<rparr> in
      if cents \<le> 0 then (\<lparr>rs_allowed = False, rs_reason = ''invalid_reservation'', rs_id = None, rs_cents = 0\<rparr>, d)
      else case find (\<lambda>r. lg_job r = job) (ledger d) of
        Some r \<Rightarrow> (\<lparr>rs_allowed = True, rs_reason = ''already_reserved'', rs_id = Some (lg_id r), rs_cents = cents\<rparr>, d)
      | None \<Rightarrow>
        let daily = spent_since (day_start now) (ledger d);
            monthly = spent_since (month_start now) (ledger d);
            user_monthly = user_spent_since u (month_start now) (ledger d)
        in if daily_budget < daily + cents
           then (\<lparr>rs_allowed = False, rs_reason = ''daily_budget'', rs_id = None, rs_cents = cents\<rparr>, d)
           else if monthly_budget < monthly + cents
           then (\<lparr>rs_allowed = False, rs_reason = ''monthly_budget'', rs_id = None, rs_cents = cents\<rparr>, d)
           else if user_budget < user_monthly + cents
           then (\<lparr>rs_allowed = False, rs_reason = ''user_monthly_budget'', rs_id = None, rs_cents = cents\<rparr>, d)
           else
             (\<lparr>rs_allowed = True, rs_reason = ''reserved'', rs_id = Some new_id, rs_cents = cents\<rparr>,
              d\<lparr>ledger := ledger d @ [\<lparr>lg_id = new_id, lg_user = Some u, lg_job = job, lg_reserved = cents,
                   lg_actual = 0, lg_status = SpendReserved, lg_created = now\<rparr>],
                alerts := raise_alerts now (daily + cents) daily_budget (monthly + cents) monthly_budget (alerts d)\<rparr>))"

definition settle_row :: "uuid \<Rightarrow> rat \<Rightarrow> string \<Rightarrow> ledger_row \<Rightarrow> ledger_row" where
  "settle_row job actual status r =
     (if lg_job r = job \<and> lg_status r = SpendReserved
      then r\<lparr>lg_actual := max actual 0,
             lg_status := (if status = ''settled'' then SpendSettled else SpendFailed)\<rparr>
      else r)"

definition settle_api_spend :: "uuid \<Rightarrow> rat \<Rightarrow> string \<Rightarrow> spend_db \<Rightarrow> spend_db" where
  "settle_api_spend job actual status d = d\<lparr>ledger := map (settle_row job actual status) (ledger d)\<rparr>"

subsection \<open>The Python side\<close>

definition user_monthly_budget :: "settings \<Rightarrow> settings_row option \<Rightarrow> (bool \<times> limit_columns) option \<Rightarrow> rat" where
  "user_monthly_budget cfg row profile =
     (case profile of
        None \<Rightarrow> user_monthly_budget_cents cfg
      | Some (is_pro, p) \<Rightarrow>
        if \<not> is_pro then user_monthly_budget_cents cfg
        else ul_pro_budget_cents (resolve_user_limits row p))"

definition spend_limit :: "string \<Rightarrow> exn" where
  "spend_limit reason = HTTPException 403 (Some ''SPEND_LIMIT'') ''Usage budget reached.'' None"

text \<open>\<open>db_ok\<close>: whether the two database calls of the reservation succeed.\<close>

definition reserve_spend ::
  "settings \<Rightarrow> bool \<Rightarrow> instant \<Rightarrow> uuid \<Rightarrow> settings_row option \<Rightarrow> (bool \<times> limit_columns) option \<Rightarrow> uuid \<Rightarrow> uuid \<Rightarrow>
   spend_db \<Rightarrow> (uuid \<times> rat) res \<times> spend_db" where
  "reserve_spend cfg db_ok now new_id row profile u job d =
     (if \<not> billing_guard_enabled cfg then (Inl (HTTPException 503 None ''Usage protection is disabled'' None), d)
      else if \<not> db_ok then (Inl (HTTPException 503 None ''Usage protection unavailable'' None), d)
      else case reserve_api_spend now new_id u job (max_job_cost_cents cfg) (daily_api_budget_cents cfg)
             (monthly_api_budget_cents cfg) (user_monthly_budget cfg row profile) d of
        (r, d') \<Rightarrow>
          if \<not> rs_allowed r then (Inl (spend_limit (rs_reason r)), d')
          else case rs_id r of
            None \<Rightarrow> (Inl (HTTPException 503 None ''Usage protection unavailable'' None), d')
          | Some i \<Rightarrow> (Inr (i, if rs_cents r = 0 then max_job_cost_cents cfg else rs_cents r), d'))"

definition settle_spend :: "bool \<Rightarrow> uuid \<Rightarrow> rat \<Rightarrow> string \<Rightarrow> spend_db \<Rightarrow> spend_db" where
  "settle_spend db_ok job actual_cents status d =
     (if db_ok then settle_api_spend job (max actual_cents 0) status d else d)"

definition conservative_failure_cost :: "settings \<Rightarrow> bool \<Rightarrow> rat \<Rightarrow> rat" where
  "conservative_failure_cost cfg openai_called estimated =
     (if \<not> openai_called then 0 else max estimated (cost_text_cents_per_extract cfg))"

section \<open>The budgets hold\<close>

datatype spend_call =
    Reserve instant uuid uuid uuid  \<comment> \<open>time, new identifier, user, job\<close>
  | Settle uuid rat string

record budgets =
  bg_job :: rat
  bg_daily :: rat
  bg_monthly :: rat
  bg_user :: "uuid \<Rightarrow> rat"

fun spend_step :: "budgets \<Rightarrow> spend_call \<Rightarrow> spend_db \<Rightarrow> spend_db" where
  "spend_step b (Reserve now i u job) d =
     snd (reserve_api_spend now i u job (bg_job b) (bg_daily b) (bg_monthly b) (bg_user b u) d)"
| "spend_step b (Settle job actual status) d = settle_api_spend job actual status d"

definition spend_run :: "budgets \<Rightarrow> spend_call list \<Rightarrow> spend_db \<Rightarrow> spend_db" where
  "spend_run b calls d = fold (spend_step b) calls d"

text \<open>The times of the reservations do not decrease, and no settlement exceeds the reservation.\<close>

fun in_order :: "instant \<Rightarrow> spend_call list \<Rightarrow> bool" where
  "in_order t [] \<longleftrightarrow> True"
| "in_order t (Reserve now _ _ _ # calls) \<longleftrightarrow> t \<le> now \<and> in_order now calls"
| "in_order t (Settle _ _ _ # calls) \<longleftrightarrow> in_order t calls"

fun last_time :: "instant \<Rightarrow> spend_call list \<Rightarrow> instant" where
  "last_time t [] = t"
| "last_time t (Reserve now _ _ _ # calls) = last_time now calls"
| "last_time t (Settle _ _ _ # calls) = last_time t calls"

definition within_reservation :: "budgets \<Rightarrow> spend_call \<Rightarrow> bool" where
  "within_reservation b c \<longleftrightarrow> (case c of Settle _ actual _ \<Rightarrow> actual \<le> bg_job b | _ \<Rightarrow> True)"

definition rows_ok :: "budgets \<Rightarrow> ledger_row list \<Rightarrow> bool" where
  "rows_ok b rows \<longleftrightarrow> (\<forall>r \<in> set rows. 0 \<le> lg_actual r \<and> lg_actual r \<le> lg_reserved r \<and> lg_reserved r = bg_job b)"

definition within_budgets :: "budgets \<Rightarrow> instant \<Rightarrow> ledger_row list \<Rightarrow> bool" where
  "within_budgets b now rows \<longleftrightarrow>
     spent_since (day_start now) rows \<le> bg_daily b \<and> spent_since (month_start now) rows \<le> bg_monthly b \<and>
     (\<forall>u. user_spent_since u (month_start now) rows \<le> bg_user b u)"

lemma charge_bounds: "rows_ok b rows \<Longrightarrow> r \<in> set rows \<Longrightarrow> 0 \<le> charge r"
  by (fastforce simp: rows_ok_def charge_def)

text \<open>Sums over fewer rows, or over rows that charge less, are smaller.\<close>

lemma sum_filter_mono:
  assumes "\<forall>r \<in> set rows. 0 \<le> charge r" "\<And>r. P r \<Longrightarrow> Q r"
  shows "sum_list (map charge (filter P rows)) \<le> sum_list (map charge (filter Q rows))"
  using assms by (induction rows) (auto intro: add_increasing)

lemma sum_map_mono:
  assumes "\<forall>r \<in> set rows. charge (f r) \<le> charge r" "\<And>r. P (f r) = P r"
  shows "sum_list (map charge (filter P (map f rows))) \<le> sum_list (map charge (filter P rows))"
  using assms by (induction rows) (auto intro: add_mono)

lemma within_budgets_map:
  assumes "\<forall>r \<in> set rows. charge (f r) \<le> charge r" "\<And>r. lg_created (f r) = lg_created r" "\<And>r. lg_user (f r) = lg_user r"
    and "within_budgets b now rows"
  shows "within_budgets b now (map f rows)"
  using assms(4) sum_map_mono [OF assms(1), of "\<lambda>r. day_start now \<le> lg_created r"]
    sum_map_mono [OF assms(1), of "\<lambda>r. month_start now \<le> lg_created r"]
    sum_map_mono [OF assms(1), of "\<lambda>r. lg_user r = Some u \<and> month_start now \<le> lg_created r" for u]
  unfolding within_budgets_def spent_since_def user_spent_since_def
  by (auto simp: assms(2,3) intro: order_trans)

lemma within_budgets_later:
  assumes "rows_ok b rows" "within_budgets b now rows" "now \<le> t"
  shows "within_budgets b t rows"
proof -
  have pos: "\<forall>r \<in> set rows. 0 \<le> charge r" using charge_bounds assms(1) by blast
  have s: "day_start now \<le> day_start t" "month_start now \<le> month_start t"
    using assms(3) day_start_mono month_start_mono by auto
  from sum_filter_mono [OF pos, of "\<lambda>r. day_start t \<le> lg_created r" "\<lambda>r. day_start now \<le> lg_created r"]
    sum_filter_mono [OF pos, of "\<lambda>r. month_start t \<le> lg_created r" "\<lambda>r. month_start now \<le> lg_created r"]
    sum_filter_mono [OF pos, of "\<lambda>r. lg_user r = Some u \<and> month_start t \<le> lg_created r"
        "\<lambda>r. lg_user r = Some u \<and> month_start now \<le> lg_created r" for u] s assms(2)
  show ?thesis
    unfolding within_budgets_def spent_since_def user_spent_since_def by (auto intro: order_trans)
qed

lemma expire_fields [simp]:
  "lg_created (expire now r) = lg_created r" "lg_user (expire now r) = lg_user r" "lg_job (expire now r) = lg_job r"
  "lg_actual (expire now r) = lg_actual r" "lg_reserved (expire now r) = lg_reserved r"
  by (simp_all add: expire_def)

lemma rows_ok_expire: "rows_ok b rows \<Longrightarrow> rows_ok b (map (expire now) rows)"
  by (auto simp: rows_ok_def)

lemma charge_expire: "lg_actual r \<le> lg_reserved r \<Longrightarrow> charge (expire now r) \<le> charge r"
  by (auto simp: charge_def expire_def)

lemma settle_fields [simp]:
  "lg_created (settle_row job a s r) = lg_created r" "lg_user (settle_row job a s r) = lg_user r"
  "lg_reserved (settle_row job a s r) = lg_reserved r"
  by (simp_all add: settle_row_def)

lemma settle_step_ok:
  assumes "rows_ok b rows" "within_budgets b t rows" "actual \<le> bg_job b" "0 \<le> bg_job b"
  shows "rows_ok b (map (settle_row job actual s) rows) \<and> within_budgets b t (map (settle_row job actual s) rows)"
proof
  show "rows_ok b (map (settle_row job actual s) rows)"
    using assms(1,3,4) by (auto simp: rows_ok_def settle_row_def)
  have "charge (settle_row job actual s r) \<le> charge r" if "r \<in> set rows" for r
    using that assms(1,3,4) by (auto simp: rows_ok_def charge_def settle_row_def)
  then show "within_budgets b t (map (settle_row job actual s) rows)"
    by (intro within_budgets_map assms(2)) simp_all
qed

lemma reserve_ledger:
  "ledger (snd (reserve_api_spend now i u job cents db mb ub d)) = map (expire now) (ledger d) \<or>
   (ledger (snd (reserve_api_spend now i u job cents db mb ub d)) = map (expire now) (ledger d) @
      [\<lparr>lg_id = i, lg_user = Some u, lg_job = job, lg_reserved = cents, lg_actual = 0,
        lg_status = SpendReserved, lg_created = now\<rparr>] \<and> 0 < cents \<and>
    spent_since (day_start now) (map (expire now) (ledger d)) + cents \<le> db \<and>
    spent_since (month_start now) (map (expire now) (ledger d)) + cents \<le> mb \<and>
    user_spent_since u (month_start now) (map (expire now) (ledger d)) + cents \<le> ub)"
  unfolding reserve_api_spend_def Let_def by (simp split: option.split)

lemma reserve_step_ok:
  assumes "rows_ok b (ledger d)" "within_budgets b t (ledger d)" "t \<le> now"
  shows "rows_ok b (ledger (spend_step b (Reserve now i u job) d)) \<and>
         within_budgets b now (ledger (spend_step b (Reserve now i u job) d))"
proof -
  let ?rows = "map (expire now) (ledger d)"
  have ok: "rows_ok b ?rows" by (rule rows_ok_expire [OF assms(1)])
  have w: "within_budgets b now ?rows"
    using within_budgets_later [OF assms(1,2,3)] assms(1) charge_expire
    by (intro within_budgets_map) (auto simp: rows_ok_def)
  let ?new = "\<lparr>lg_id = i, lg_user = Some u, lg_job = job, lg_reserved = bg_job b, lg_actual = 0,
      lg_status = SpendReserved, lg_created = now\<rparr>"
  consider "ledger (spend_step b (Reserve now i u job) d) = ?rows"
    | "ledger (spend_step b (Reserve now i u job) d) = ?rows @ [?new]" "0 < bg_job b"
      "spent_since (day_start now) ?rows + bg_job b \<le> bg_daily b"
      "spent_since (month_start now) ?rows + bg_job b \<le> bg_monthly b"
      "user_spent_since u (month_start now) ?rows + bg_job b \<le> bg_user b u"
    using reserve_ledger [of now i u job "bg_job b" "bg_daily b" "bg_monthly b" "bg_user b u" d]
    by (auto simp only: spend_step.simps)
  then show ?thesis
  proof cases
    case 1
    with ok w show ?thesis by simp
  next
    case 2
    have "within_budgets b now (?rows @ [?new])"
      using 2(3-5) w day_start_le [of now] month_start_le [of now]
      by (auto simp: within_budgets_def spent_since_def user_spent_since_def charge_def)
    moreover have "rows_ok b (?rows @ [?new])" using ok 2(2) by (auto simp: rows_ok_def)
    ultimately show ?thesis using 2(1) by simp
  qed
qed


definition ex_budgets :: budgets where
  "ex_budgets = \<lparr>bg_job = 50, bg_daily = 100, bg_monthly = 5000, bg_user = (\<lambda>_. 500)\<rparr>"

definition ex_spend_calls :: "spend_call list" where
  "ex_spend_calls = [Reserve (1700000000 * second) ''l1'' ''u'' ''j1'', Settle ''j1'' 20 ''settled'',
     Reserve (1700000010 * second) ''l2'' ''u'' ''j2'', Reserve (1700000020 * second) ''l3'' ''v'' ''j3'']"

definition empty_ledger :: spend_db where
  "empty_ledger = \<lparr>ledger = [], alerts = []\<rparr>"


subsection \<open>Reservations that expire\<close>

lemma find_map:
  assumes "\<And>r. P (f r) = P r"
  shows "find P (map f xs) = map_option f (find P xs)"
  using assms by (induction xs) auto

lemma find_append: "find P (xs @ ys) = (case find P xs of Some x \<Rightarrow> Some x | None \<Rightarrow> find P ys)"
  by (induction xs) auto

lemma find_reserve:
  assumes "find (\<lambda>r. lg_job r = job) (ledger d) = Some r"
  shows "find (\<lambda>r. lg_job r = job) (ledger (snd (reserve_api_spend now i u other cents db mb ub d))) = Some (expire now r)"
proof -
  have "find (\<lambda>r. lg_job r = job) (map (expire now) (ledger d)) = Some (expire now r)"
    using assms by (subst find_map) simp_all
  with reserve_ledger [of now i u other cents db mb ub d] show ?thesis
    by (auto simp: find_append)
qed

text \<open>A reservation older than two hours is given up, and with it the job's cost. After any later
  reservation, settling the job is ignored, so whatever it spent counts as before (nothing), and a
  new reservation for it is allowed without looking at any budget.\<close>

theorem expired_reservation_escapes:
  assumes "find (\<lambda>r. lg_job r = job) (ledger d) = Some r" "lg_status r = SpendReserved"
    and "lg_created r < now - 2 * 3600 * second" "0 < cents"
    and "d' = settle_api_spend job actual status (snd (reserve_api_spend now i u other c1 db mb ub d))"
  shows "(\<exists>r'. find (\<lambda>r. lg_job r = job) (ledger d') = Some r' \<and> charge r' = lg_actual r) \<and>
         rs_allowed (fst (reserve_api_spend now2 i2 v job cents db2 mb2 ub2 d'))"
proof -
  let ?d1 = "snd (reserve_api_spend now i u other c1 db mb ub d)"
  have j: "lg_job (settle_row job actual status x) = lg_job x" for x by (simp add: settle_row_def)
  have e: "expire now r = r\<lparr>lg_status := SpendFailed\<rparr>" using assms(2,3) by (simp add: expire_def)
  have f: "find (\<lambda>r. lg_job r = job) (ledger d') = Some (expire now r)"
    unfolding assms(5) settle_api_spend_def
    using find_reserve [OF assms(1), of now i u other c1 db mb ub]
    by (simp add: find_map j e settle_row_def)
  then have "find (\<lambda>r. lg_job r = job) (map (expire now2) (ledger d')) = Some (expire now2 (expire now r))"
    by (subst find_map) simp_all
  then have "rs_allowed (fst (reserve_api_spend now2 i2 v job cents db2 mb2 ub2 d'))"
    using assms(4) by (simp add: reserve_api_spend_def Let_def)
  with f show ?thesis by (simp add: e charge_def)
qed

theorem expired_reservation_escapes_witness:
  "\<exists>r'. find (\<lambda>r. lg_job r = ''j1'') (ledger (settle_api_spend ''j1'' 45 ''settled''
      (snd (reserve_api_spend (1700010000 * second) ''l2'' ''v'' ''j2'' 50 100 100 100
        (spend_run ex_budgets [Reserve (1700000000 * second) ''l1'' ''u'' ''j1''] empty_ledger))))) = Some r' \<and> charge r' = 0"
proof -
  let ?d = "spend_run ex_budgets [Reserve (1700000000 * second) ''l1'' ''u'' ''j1''] empty_ledger"
  let ?r = "\<lparr>lg_id = ''l1'', lg_user = Some ''u'', lg_job = ''j1'', lg_reserved = 50, lg_actual = 0,
      lg_status = SpendReserved, lg_created = 1700000000 * second\<rparr>"
  have "ledger ?d = [?r]" by code_simp
  with expired_reservation_escapes [of "''j1''" ?d ?r "1700010000 * second" 50 _ 45 "''settled''" "''l2''" "''v''" "''j2''" 50 100 100 100, OF _ _ _ _ refl]
  show ?thesis by simp
qed

end
