(* ===== verification/Quota.thy ===== *)
theory Quota
  imports Py_Datetime User_Limits "HOL-Library.Multiset"
begin

section \<open>Plan quotas (app/quota.py)\<close>

text \<open>
  What a user has used is read off the usage events: extractions that missed the cache, counted per
  year for free accounts and summed in cents per month for Pro. The check runs when a job is
  requested, the event is recorded when it has finished.
\<close>

definition free_yearly_limit :: int where "free_yearly_limit = 3"

record usage_event =
  us_user :: uuid
  us_kind :: string
  us_cost :: rat
  us_recipe :: "uuid option"
  us_job :: "uuid option"
  us_created :: instant

record quota_status =
  qs_is_pro :: bool
  qs_free_used :: int
  qs_free_limit :: int
  qs_free_remaining :: int
  qs_pro_cost :: rat
  qs_pro_budget :: rat
  qs_pro_remaining :: rat
  qs_pro_price :: int

definition miss_kind :: string where "miss_kind = ''extract_miss''"

definition misses_since :: "uuid \<Rightarrow> instant \<Rightarrow> usage_event list \<Rightarrow> usage_event list" where
  "misses_since u start es = [e \<leftarrow> es. us_user e = u \<and> us_kind e = miss_kind \<and> start \<le> us_created e]"

definition no_columns :: limit_columns where
  "no_columns = \<lparr>lc_free_weekly_limit = None, lc_pro_margin_ratio = None, lc_pro_monthly_price_cents = None\<rparr>"

text \<open>The profile row may be missing (\<open>or {}\<close>); the limits then come from the defaults.\<close>

definition get_quota ::
  "instant \<Rightarrow> settings_row option \<Rightarrow> limit_columns option \<Rightarrow> uuid \<Rightarrow> bool \<Rightarrow> usage_event list \<Rightarrow> quota_status" where
  "get_quota now row profile u is_pro es =
     (let limits = resolve_user_limits row (case profile of None \<Rightarrow> no_columns | Some p \<Rightarrow> p);
          used = int (length (misses_since u (year_start now) es));
          cost = sum_list (map us_cost (misses_since u (month_start now) es))
      in \<lparr>qs_is_pro = is_pro, qs_free_used = used, qs_free_limit = free_yearly_limit,
          qs_free_remaining = max (free_yearly_limit - used) 0, qs_pro_cost = cost,
          qs_pro_budget = ul_pro_budget_cents limits,
          qs_pro_remaining = max (ul_pro_budget_cents limits - cost) 0,
          qs_pro_price = ul_pro_monthly_price_cents limits\<rparr>)"

definition free_denied :: "quota_status \<Rightarrow> exn" where
  "free_denied q = HTTPException 403 (Some ''FREE_YEARLY_LIMIT'')
     (''Free plan: '' @ int_str (qs_free_limit q) @ '' recipe(s) per year. Upgrade to Pro.'') None"

definition pro_denied :: exn where
  "pro_denied = HTTPException 403 (Some ''PRO_FAIR_USE_LIMIT'')
     ''Pro fair-use limit reached this month (keeps margin).'' None"

text \<open>The result and the code of the audit event that is written when the request is known.\<close>

definition assert_can_extract :: "quota_status \<Rightarrow> bool \<Rightarrow> bool \<Rightarrow> unit res \<times> string option" where
  "assert_can_extract q cache_hit with_request =
     (if \<not> qs_is_pro q then
        if qs_free_remaining q \<le> 0
        then (Inl (free_denied q), if with_request then Some ''FREE_YEARLY_LIMIT'' else None)
        else (Inr (), None)
      else if cache_hit then (Inr (), None)
      else if qs_pro_remaining q \<le> 0
      then (Inl pro_denied, if with_request then Some ''PRO_FAIR_USE_LIMIT'' else None)
      else (Inr (), None))"

definition record_usage ::
  "instant \<Rightarrow> uuid \<Rightarrow> string \<Rightarrow> rat \<Rightarrow> uuid option \<Rightarrow> uuid option \<Rightarrow> usage_event list \<Rightarrow> usage_event list" where
  "record_usage now u kind cost recipe job es =
     es @ [\<lparr>us_user = u, us_kind = kind, us_cost = cost, us_recipe = recipe, us_job = job, us_created = now\<rparr>]"

section \<open>How far a user can go\<close>

text \<open>
  Jobs of one user: a request passes the check and starts a job, a job in flight finishes as a miss
  of some cost or without one (a cache hit, a failure). The state is the events and the number of
  jobs in flight.
\<close>

datatype quota_call = Request instant | FinishMiss instant rat | FinishOther

record quota_state =
  q_events :: "usage_event list"
  q_inflight :: nat

definition admitted :: "settings_row option \<Rightarrow> limit_columns option \<Rightarrow> uuid \<Rightarrow> bool \<Rightarrow> instant \<Rightarrow> usage_event list \<Rightarrow> bool" where
  "admitted row profile u is_pro now es \<longleftrightarrow>
     fst (assert_can_extract (get_quota now row profile u is_pro es) False True) = Inr ()"

text \<open>One step, if it is possible with at most \<open>k\<close> jobs in flight: a denied request changes nothing.\<close>

fun quota_step ::
  "settings_row option \<Rightarrow> limit_columns option \<Rightarrow> uuid \<Rightarrow> bool \<Rightarrow> nat \<Rightarrow> quota_call \<Rightarrow> quota_state \<Rightarrow> quota_state option" where
  "quota_step row profile u is_pro k (Request now) s =
     (if admitted row profile u is_pro now (q_events s)
      then if q_inflight s < k then Some (s\<lparr>q_inflight := q_inflight s + 1\<rparr>) else None
      else Some s)"
| "quota_step row profile u is_pro k (FinishMiss now cost) s =
     (if q_inflight s = 0 then None
      else Some (s\<lparr>q_events := record_usage now u miss_kind cost None None (q_events s), q_inflight := q_inflight s - 1\<rparr>))"
| "quota_step row profile u is_pro k FinishOther s =
     (if q_inflight s = 0 then None else Some (s\<lparr>q_inflight := q_inflight s - 1\<rparr>))"

fun quota_run ::
  "settings_row option \<Rightarrow> limit_columns option \<Rightarrow> uuid \<Rightarrow> bool \<Rightarrow> nat \<Rightarrow> quota_call list \<Rightarrow> quota_state \<Rightarrow> quota_state option" where
  "quota_run row profile u is_pro k [] s = Some s"
| "quota_run row profile u is_pro k (c # cs) s =
     (case quota_step row profile u is_pro k c s of None \<Rightarrow> None | Some s' \<Rightarrow> quota_run row profile u is_pro k cs s')"

definition call_within :: "instant \<Rightarrow> instant \<Rightarrow> quota_call \<Rightarrow> bool" where
  "call_within start fin c \<longleftrightarrow>
     (case c of Request t \<Rightarrow> year_start t = start \<and> t < fin | FinishMiss t _ \<Rightarrow> start \<le> t \<and> t < fin | FinishOther \<Rightarrow> True)"

definition free_inv :: "uuid \<Rightarrow> instant \<Rightarrow> nat \<Rightarrow> quota_state \<Rightarrow> bool" where
  "free_inv u start k s \<longleftrightarrow> q_inflight s \<le> k \<and>
     int (length (misses_since u start (q_events s)) + q_inflight s) \<le> free_yearly_limit + int k - 1"

lemma admitted_free:
  "admitted row profile u False now es \<longleftrightarrow> int (length (misses_since u (year_start now) es)) < free_yearly_limit"
  by (auto simp: admitted_def assert_can_extract_def get_quota_def Let_def)

lemma misses_record:
  "misses_since u start (record_usage now u miss_kind cost r j es) =
     misses_since u start es @ (if start \<le> now then
       [\<lparr>us_user = u, us_kind = miss_kind, us_cost = cost, us_recipe = r, us_job = j, us_created = now\<rparr>] else [])"
  by (simp add: misses_since_def record_usage_def)

lemma free_step:
  assumes "free_inv u start k s" "call_within start fin c" "quota_step row profile u False k c s = Some s'" "0 < k"
  shows "free_inv u start k s'"
proof (cases c)
  case (Request now)
  show ?thesis
  proof (cases "admitted row profile u False now (q_events s)")
    case True
    with Request assms(2,3) have s': "s' = s\<lparr>q_inflight := q_inflight s + 1\<rparr>" "q_inflight s < k"
      "int (length (misses_since u start (q_events s))) < free_yearly_limit"
      by (auto simp: admitted_free call_within_def split: if_splits)
    then show ?thesis by (simp add: free_inv_def)
  qed (use Request assms in auto)
next
  case (FinishMiss now cost)
  with assms show ?thesis by (auto simp: free_inv_def misses_record split: if_splits)
next
  case FinishOther
  with assms show ?thesis by (auto simp: free_inv_def split: if_splits)
qed

text \<open>C30: The free allowance is exceeded by at most the jobs in flight. In a year in which a free account
  has at most \<open>k\<close> extractions in flight at a time, it gets at most \<open>3 + k - 1\<close> of them: exactly the
  three of the plan when requests come one at a time.\<close>

theorem free_allowance:
  assumes "quota_run row profile u False k calls \<lparr>q_events = es, q_inflight = 0\<rparr> = Some s" "0 < k"
    and "\<forall>c \<in> set calls. call_within start fin c" "misses_since u start es = []"
  shows "int (length (misses_since u start (q_events s))) \<le> free_yearly_limit + int k - 1"
proof -
  have "free_inv u start k s" if "free_inv u start k s0" "quota_run row profile u False k calls s0 = Some s" for s0
    using that assms(3)
  proof (induction calls arbitrary: s0)
    case (Cons c cs)
    then obtain s1 where s1: "quota_step row profile u False k c s0 = Some s1" "quota_run row profile u False k cs s1 = Some s"
      by (auto split: option.splits)
    from free_step [of u start k s0 fin c row profile s1, OF Cons.prems(1) _ s1(1) assms(2)] Cons.prems(3)
    have "free_inv u start k s1" by simp
    with Cons.IH s1(2) Cons.prems(3) show ?case by simp
  qed simp
  moreover have "free_inv u start k \<lparr>q_events = es, q_inflight = 0\<rparr>"
    using assms(2,4) by (simp add: free_inv_def free_yearly_limit_def)
  ultimately show ?thesis using assms(1) by (fastforce simp: free_inv_def)
qed

definition ex_quota_calls :: "quota_call list" where
  "ex_quota_calls = concat (replicate 5 [Request (1709208000 * second), FinishMiss (1709208000 * second) 1])"

theorem free_allowance_witness:
  "\<exists>s. quota_run None None ''u'' False 1 [Request (1709208000 * second), FinishMiss (1709208001 * second) 1,
         Request (1709208002 * second), FinishMiss (1709208003 * second) 1, Request (1709208004 * second),
         FinishMiss (1709208005 * second) 1, Request (1709208006 * second)] \<lparr>q_events = [], q_inflight = 0\<rparr> = Some s \<and>
     int (length (misses_since ''u'' (1704067200 * second) (q_events s))) \<le> 3"
proof -
  let ?cs = "[Request (1709208000 * second), FinishMiss (1709208001 * second) 1,
         Request (1709208002 * second), FinishMiss (1709208003 * second) 1, Request (1709208004 * second),
         FinishMiss (1709208005 * second) 1, Request (1709208006 * second)]"
  have "quota_run None None ''u'' False 1 ?cs \<lparr>q_events = [], q_inflight = 0\<rparr> \<noteq> None" by code_simp
  then obtain s where s: "quota_run None None ''u'' False 1 ?cs \<lparr>q_events = [], q_inflight = 0\<rparr> = Some s" by auto
  have "\<forall>c \<in> set ?cs. call_within (1704067200 * second) (1709208007 * second) c" by code_simp
  from free_allowance [OF s _ this] s show ?thesis
    by (auto simp: misses_since_def free_yearly_limit_def)
qed

text \<open>Pro extractions stop at the budget. A Pro request that misses the cache passes the check only while
  the month's recorded cost is below the plan's budget, so when jobs come one at a time and none
  costs more than \<open>m\<close>, the recorded cost of the month stays below the budget plus \<open>m\<close>; a cache hit
  always passes.\<close>

theorem pro_budget:
  assumes "cost \<le> m" "month_start later = month_start now" "month_start now \<le> later"
    and "b = ul_pro_budget_cents (resolve_user_limits row (case profile of None \<Rightarrow> no_columns | Some p \<Rightarrow> p))"
  shows "fst (assert_can_extract (get_quota now row profile u True es) True r) = Inr () \<and>
         (admitted row profile u True now es \<longrightarrow>
          sum_list (map us_cost (misses_since u (month_start later)
            (record_usage later u miss_kind cost recipe job es))) < b + m)"
proof
  show "fst (assert_can_extract (get_quota now row profile u True es) True r) = Inr ()"
    by (simp add: assert_can_extract_def get_quota_def Let_def)
  show "admitted row profile u True now es \<longrightarrow>
     sum_list (map us_cost (misses_since u (month_start later)
       (record_usage later u miss_kind cost recipe job es))) < b + m"
  proof
    assume "admitted row profile u True now es"
    then have "sum_list (map us_cost (misses_since u (month_start now) es)) < b"
      unfolding assms(4)
      by (simp add: admitted_def assert_can_extract_def get_quota_def Let_def split: if_splits)
    with assms(1-3) show "sum_list (map us_cost (misses_since u (month_start later)
       (record_usage later u miss_kind cost recipe job es))) < b + m"
      by (simp add: misses_record)
  qed
qed

theorem pro_budget_witness:
  "admitted None None ''u'' True 5 [] \<and>
   sum_list (map us_cost (misses_since ''u'' (month_start 5) (record_usage 5 ''u'' miss_kind 7 None None []))) <
     ul_pro_budget_cents (resolve_user_limits None no_columns) + 7"
proof -
  have a: "admitted None None ''u'' True 5 []" by code_simp
  have b: "ul_pro_budget_cents (resolve_user_limits None no_columns) =
    ul_pro_budget_cents (resolve_user_limits None (case None of None \<Rightarrow> no_columns | Some p \<Rightarrow> p))"
    by (simp only: option.case)
  from pro_budget [OF order_refl refl month_start_le b] a show ?thesis by blast
qed

end
