(* ===== verification/Job_Db.thy ===== *)
theory Job_Db
  imports Spend Tx
begin

section \<open>The job tables\<close>

text \<open>
  The tables \<open>extract_jobs\<close>, \<open>extract_job_access\<close>, \<open>push_devices\<close> and \<open>push_deliveries\<close> with the
  ledger of \<open>Spend\<close>, and the statements the server runs on a job: insert, update, the unique
  indexes and check constraints that can refuse them (migrations/001 and 008), and the two triggers
  (migrations/001 and 010: the update time, and the queueing of completion alerts). A refused
  statement changes nothing. A \<open>stamp\<close> is what a statement takes from the database server: its
  time and the identifiers it generates.
\<close>

datatype job_status = Pending | Processing | Completed | Failed
datatype job_kind = Extract | Translation

record job =
  jid :: uuid
  jowner :: "uuid option"
  jstatus :: job_status
  jraw :: string
  jnorm :: string
  jlang :: string
  jkind :: job_kind
  jrecipe :: "uuid option"
  jhit :: bool
  jcost :: rat
  jerror :: "string option"
  jprogress :: int
  jattempts :: nat
  jlease :: "instant option"
  jdelivery :: "uuid option"
  jcreated :: instant
  jupdated :: instant

datatype environment = Sandbox | Production

record device =
  dev_hash :: string
  dev_user :: uuid
  dev_token :: string
  dev_environment :: environment
  dev_lang :: string

datatype push_status = PushPending | PushProcessing | PushSent | PushFailed

record delivery =
  pd_id :: uuid
  pd_job :: uuid
  pd_user :: uuid
  pd_hash :: string
  pd_token :: "string option"
  pd_environment :: environment
  pd_status :: push_status
  pd_attempts :: nat
  pd_next :: instant
  pd_lease :: "instant option"
  pd_sent :: "instant option"
  pd_error :: "string option"
  pd_created :: instant

record job_db =
  jobs :: "job list"
  shared_access :: "(uuid \<times> uuid) list"   \<comment> \<open>job, user\<close>
  devices :: "device list"
  deliveries :: "delivery list"
  spend :: spend_db
  closed_profiles :: "uuid list"

record stamp =
  st_now :: instant
  st_id :: "string \<Rightarrow> uuid"

subsection \<open>Constraints\<close>

definition active :: "job \<Rightarrow> bool" where
  "active j \<longleftrightarrow> jstatus j = Pending \<or> jstatus j = Processing"

text \<open>The three unique indexes: two rows that no table may hold together.\<close>

definition conflicting :: "job \<Rightarrow> job \<Rightarrow> bool" where
  "conflicting a b \<longleftrightarrow>
     (active a \<and> active b \<and> jkind a = Extract \<and> jkind b = Extract \<and> jnorm a = jnorm b) \<or>
     (active a \<and> active b \<and> jkind a = Translation \<and> jkind b = Translation \<and>
        jrecipe a \<noteq> None \<and> jrecipe a = jrecipe b \<and> jlang a = jlang b) \<or>
     (jdelivery a \<noteq> None \<and> jdelivery a = jdelivery b \<and> jowner a \<noteq> None \<and> jowner a = jowner b)"

definition job_checks :: "job \<Rightarrow> bool" where
  "job_checks j \<longleftrightarrow> 0 \<le> jprogress j \<and> jprogress j \<le> 100 \<and> jattempts j \<le> 5"

subsection \<open>Row-level security\<close>

text \<open>
  Every connection carries the actor and the user of the request (app/db.py), and the policies of
  migrations/002 and 011 decide which rows a statement sees and may write. The session of a
  signed-in request is that of its user; the worker and the pipeline run as the service.
\<close>

record session =
  se_service :: bool
  se_user :: "uuid option"

definition service :: session where
  "service = \<lparr>se_service = True, se_user = None\<rparr>"

definition as_user :: "uuid \<Rightarrow> session" where
  "as_user u = \<lparr>se_service = False, se_user = Some u\<rparr>"

definition visible :: "session \<Rightarrow> job_db \<Rightarrow> job \<Rightarrow> bool" where
  "visible s d j \<longleftrightarrow> se_service s \<or>
     (case se_user s of
        None \<Rightarrow> False
      | Some u \<Rightarrow> jowner j = Some u \<or> (jid j, u) \<in> set (shared_access d))"

definition may_insert :: "session \<Rightarrow> job \<Rightarrow> bool" where
  "may_insert s j \<longleftrightarrow> se_service s \<or> (se_user s \<noteq> None \<and> jowner j = se_user s)"

subsection \<open>The completion trigger\<close>

text \<open>\<open>enqueue_recipe_completion_pushes\<close>: \<open>old\<close> is the row before an update, None on an insert.\<close>

definition completion_fires :: "job option \<Rightarrow> job \<Rightarrow> bool" where
  "completion_fires old new \<longleftrightarrow>
     jstatus new = Completed \<and> \<not> jhit new \<and> jrecipe new \<noteq> None \<and> jowner new \<noteq> None \<and>
     (case old of None \<Rightarrow> True | Some o' \<Rightarrow> jstatus o' \<noteq> Completed)"

definition notified :: "job_db \<Rightarrow> job \<Rightarrow> device \<Rightarrow> bool" where
  "notified d j v \<longleftrightarrow>
     dev_user v \<notin> set (closed_profiles d) \<and>
     (jowner j = Some (dev_user v) \<or> (jid j, dev_user v) \<in> set (shared_access d))"

definition new_delivery :: "stamp \<Rightarrow> job \<Rightarrow> device \<Rightarrow> delivery" where
  "new_delivery st j v = \<lparr>pd_id = st_id st (dev_hash v), pd_job = jid j, pd_user = dev_user v,
     pd_hash = dev_hash v, pd_token = Some (dev_token v), pd_environment = dev_environment v,
     pd_status = PushPending, pd_attempts = 0, pd_next = st_now st, pd_lease = None, pd_sent = None,
     pd_error = None, pd_created = st_now st\<rparr>"

definition enqueue_pushes :: "stamp \<Rightarrow> job option \<Rightarrow> job \<Rightarrow> job_db \<Rightarrow> job_db" where
  "enqueue_pushes st old new d =
     (if completion_fires old new
      then d\<lparr>deliveries := deliveries d @
             map (new_delivery st new) [v \<leftarrow> devices d. notified d new v \<and>
                (\<forall>p \<in> set (deliveries d). \<not> (pd_job p = jid new \<and> pd_hash p = dev_hash v))]\<rparr>
      else d)"

subsection \<open>Statements on \<open>extract_jobs\<close>\<close>

text \<open>The keys and unique indexes hold over all rows, whether the session sees them or not.\<close>

definition insert_job :: "session \<Rightarrow> stamp \<Rightarrow> job \<Rightarrow> job_db \<Rightarrow> job res \<times> job_db" where
  "insert_job s st j d =
     (if \<not> may_insert s j \<or> \<not> job_checks j then (Inl DbError, d)
      else if list_ex (\<lambda>k. jid k = jid j \<or> conflicting j k) (jobs d) then (Inl UniqueViolation, d)
      else (Inr j, enqueue_pushes st None j (d\<lparr>jobs := jobs d @ [j]\<rparr>)))"

definition job_by_id :: "uuid \<Rightarrow> job_db \<Rightarrow> job option" where
  "job_by_id i d = find (\<lambda>j. jid j = i) (jobs d)"

definition replace_job :: "job \<Rightarrow> job list \<Rightarrow> job list" where
  "replace_job j js = map (\<lambda>k. if jid k = jid j then j else k) js"

text \<open>
  \<open>update extract_jobs set \<dots> where id = \<dots> returning *\<close>: the new row has the update time of the
  trigger. A row the session may not see is not updated, and a row it would lose is refused. The
  completion trigger belongs to updates that assign the status.
\<close>

definition update_row :: "session \<Rightarrow> stamp \<Rightarrow> bool \<Rightarrow> (job \<Rightarrow> job) \<Rightarrow> uuid \<Rightarrow> job_db \<Rightarrow> job option res \<times> job_db" where
  "update_row s st assigns_status f i d =
     (case job_by_id i d of
        None \<Rightarrow> (Inr None, d)
      | Some old \<Rightarrow>
          let new = (f old)\<lparr>jupdated := st_now st\<rparr> in
          if \<not> visible s d old then (Inr None, d)
          else if \<not> visible s d new \<or> \<not> job_checks new then (Inl DbError, d)
          else if list_ex (\<lambda>k. jid k \<noteq> i \<and> conflicting new k) (jobs d) then (Inl UniqueViolation, d)
          else (Inr (Some new),
                (if assigns_status then enqueue_pushes st (Some old) new else (\<lambda>x. x))
                  (d\<lparr>jobs := replace_job new (jobs d)\<rparr>)))"

text \<open>\<open>order by created_at limit 1\<close>: the first of the oldest rows.\<close>

fun oldest :: "job list \<Rightarrow> job option" where
  "oldest [] = None"
| "oldest (j # js) =
     (case oldest js of None \<Rightarrow> Some j | Some k \<Rightarrow> Some (if jcreated k < jcreated j then k else j))"

text \<open>\<open>order by created_at desc limit 1\<close>.\<close>

fun newest :: "job list \<Rightarrow> job option" where
  "newest [] = None"
| "newest (j # js) =
     (case newest js of None \<Rightarrow> Some j | Some k \<Rightarrow> Some (if jcreated j < jcreated k then k else j))"


subsection \<open>Well-formed tables\<close>

text \<open>The keys, indexes and checks the database enforces.\<close>

definition no_conflicts :: "job list \<Rightarrow> bool" where
  "no_conflicts js \<longleftrightarrow> (\<forall>a \<in> set js. \<forall>b \<in> set js. jid a \<noteq> jid b \<longrightarrow> \<not> conflicting a b)"

definition jobs_ok :: "job list \<Rightarrow> bool" where
  "jobs_ok js \<longleftrightarrow> distinct (map jid js) \<and> list_all job_checks js \<and> no_conflicts js"

definition pushes_ok :: "job_db \<Rightarrow> bool" where
  "pushes_ok d \<longleftrightarrow> distinct (map dev_hash (devices d)) \<and>
     distinct (map (\<lambda>p. (pd_job p, pd_hash p)) (deliveries d))"

lemma conflicting_sym: "conflicting a b \<Longrightarrow> conflicting b a"
  unfolding conflicting_def by (elim disjE conjE) simp_all

lemma enqueue_frame [simp]:
  "jobs (enqueue_pushes st old new d) = jobs d" "shared_access (enqueue_pushes st old new d) = shared_access d"
  "devices (enqueue_pushes st old new d) = devices d" "spend (enqueue_pushes st old new d) = spend d"
  "closed_profiles (enqueue_pushes st old new d) = closed_profiles d"
  by (simp_all add: enqueue_pushes_def)

lemma pushes_ok_enqueue:
  assumes "pushes_ok d"
  shows "pushes_ok (enqueue_pushes st old new d)"
proof -
  let ?vs = "[v \<leftarrow> devices d. notified d new v \<and>
      (\<forall>p \<in> set (deliveries d). \<not> (pd_job p = jid new \<and> pd_hash p = dev_hash v))]"
  have v: "distinct (map dev_hash ?vs)"
    using assms by (simp add: pushes_ok_def distinct_map_filter)
  have "map (\<lambda>p. (pd_job p, pd_hash p)) (map (new_delivery st new) ?vs) = map (Pair (jid new)) (map dev_hash ?vs)"
    by (simp add: new_delivery_def)
  moreover have "distinct (map (Pair (jid new)) (map dev_hash ?vs))"
    using v by (simp add: distinct_map inj_on_def)
  ultimately have "distinct (map (\<lambda>p. (pd_job p, pd_hash p)) (map (new_delivery st new) ?vs))"
    by (simp only:)
  with assms show ?thesis
    by (auto simp: pushes_ok_def enqueue_pushes_def new_delivery_def)
qed

lemma job_by_idD: "job_by_id i d = Some j \<Longrightarrow> j \<in> set (jobs d) \<and> jid j = i"
  by (auto simp: job_by_id_def find_Some_iff)

lemma find_unique: "distinct (map f xs) \<Longrightarrow> x \<in> set xs \<Longrightarrow> find (\<lambda>y. f y = f x) xs = Some x"
  by (induction xs) force+

lemma job_by_id_unique: "distinct (map jid (jobs d)) \<Longrightarrow> j \<in> set (jobs d) \<Longrightarrow> job_by_id (jid j) d = Some j"
  unfolding job_by_id_def by (rule find_unique)

lemma insert_job_ok:
  assumes "jobs_ok (jobs d)" "pushes_ok d"
  shows "jobs_ok (jobs (snd (insert_job s st j d))) \<and> pushes_ok (snd (insert_job s st j d))"
proof -
  have "jobs_ok (jobs d @ [j])" if "\<not> list_ex (\<lambda>k. jid k = jid j \<or> conflicting j k) (jobs d)" "job_checks j"
    using assms that
    by (auto simp: jobs_ok_def no_conflicts_def list_ex_iff dest: conflicting_sym)
  moreover have "pushes_ok (d\<lparr>jobs := jobs d @ [j]\<rparr>)"
    using assms(2) by (simp add: pushes_ok_def)
  ultimately show ?thesis
    using assms by (auto simp: insert_job_def pushes_ok_enqueue)
qed

lemma set_replace_job: "set (replace_job j js) \<subseteq> insert j {k \<in> set js. jid k \<noteq> jid j}"
  by (auto simp: replace_job_def)

lemma ids_replace_job [simp]: "map jid (replace_job j js) = map jid js"
  by (simp add: replace_job_def)

lemma update_row_ok:
  assumes ok: "jobs_ok (jobs d)" "pushes_ok d" and f: "\<And>j. jid (f j) = jid j"
  shows "jobs_ok (jobs (snd (update_row s st b f i d))) \<and> pushes_ok (snd (update_row s st b f i d))"
proof (cases "job_by_id i d")
  case None
  with ok show ?thesis by (simp add: update_row_def)
next
  case (Some old)
  define new where "new = (f old)\<lparr>jupdated := st_now st\<rparr>"
  have new: "jid new = i" using job_by_idD [OF Some] f by (simp add: new_def)
  have "jobs_ok (replace_job new (jobs d))"
    if "\<not> list_ex (\<lambda>k. jid k \<noteq> i \<and> conflicting new k) (jobs d)" "job_checks new"
  proof -
    have "no_conflicts (replace_job new (jobs d))"
      using ok(1) that(1) set_replace_job [of new "jobs d"] new
      unfolding no_conflicts_def jobs_ok_def list_ex_iff
      by (smt (verit) conflicting_sym insertE mem_Collect_eq subsetD)
    moreover have "list_all job_checks (replace_job new (jobs d))"
      using ok(1) that(2) by (auto simp: jobs_ok_def list_all_iff replace_job_def)
    ultimately show ?thesis using ok(1) by (simp add: jobs_ok_def)
  qed
  moreover have "pushes_ok (d\<lparr>jobs := replace_job new (jobs d)\<rparr>)"
    using ok(2) by (simp add: pushes_ok_def)
  ultimately show ?thesis
    using Some ok by (auto simp: update_row_def Let_def new_def [symmetric] pushes_ok_enqueue)
qed

lemma oldest_mem: "oldest js = Some j \<Longrightarrow> j \<in> set js"
  by (induction js arbitrary: j) (auto split: option.splits if_splits)

lemma oldest_None [simp]: "oldest js = None \<longleftrightarrow> js = []"
  by (cases js) (auto split: option.splits)

lemma oldest_le: "oldest js = Some j \<Longrightarrow> k \<in> set js \<Longrightarrow> jcreated j \<le> jcreated k"
proof (induction js arbitrary: j)
  case (Cons x js)
  then show ?case
    by (cases "oldest js") (fastforce split: if_splits)+
qed simp

lemma newest_mem: "newest js = Some j \<Longrightarrow> j \<in> set js"
  by (induction js arbitrary: j) (auto split: option.splits if_splits)

lemma newest_None [simp]: "newest js = None \<longleftrightarrow> js = []"
  by (cases js) (auto split: option.splits)

end
