(* ===== verification/Localization.thy ===== *)
theory Localization
  imports RA_Prelude
begin

section \<open>Languages and labels\<close>

text \<open>
  app/localization.py: the fifty supported languages, the aliases devices send, the labels the
  server writes itself, and \<open>normalize_language\<close>, which maps whatever a client sends to one of the
  fifty. A label is the list of its Unicode code points (\<open>utext\<close>); \<open>latin\<close> is the text of a
  string of the model. The prompt text of the model call is not modelled.
\<close>

type_synonym utext = "nat list"

definition latin :: "string \<Rightarrow> utext" where
  "latin s = map of_char s"

definition supported_language_codes :: "string list" where
  "supported_language_codes = [
    ''ar'', ''bn'', ''ca'', ''zh-Hans'', ''zh-Hant'', ''hr'', ''cs'', ''da'', ''nl'', ''en-AU'', ''en-CA'',
    ''en-GB'', ''en-US'', ''fi'', ''fr-FR'', ''fr-CA'', ''de'', ''el'', ''gu'', ''he'', ''hi'', ''hu'',
    ''id'', ''it'', ''ja'', ''kn'', ''ko'', ''ms'', ''ml'', ''mr'', ''nb'', ''or'', ''pl'', ''pt-BR'',
    ''pt-PT'', ''pa'', ''ro'', ''ru'', ''sk'', ''sl'', ''es-MX'', ''es-ES'', ''sv'', ''ta'', ''te'', ''th'',
    ''tr'', ''uk'', ''ur'', ''vi'']"

definition language_names :: "(string \<times> utext) list" where
  "language_names = [
    (''ar'', latin ''Arabic''),
    (''bn'', latin ''Bengali''),
    (''ca'', latin ''Catalan''),
    (''zh-Hans'', latin ''Simplified Chinese''),
    (''zh-Hant'', latin ''Traditional Chinese''),
    (''hr'', latin ''Croatian''),
    (''cs'', latin ''Czech''),
    (''da'', latin ''Danish''),
    (''nl'', latin ''Dutch''),
    (''en-AU'', latin ''English (Australia)''),
    (''en-CA'', latin ''English (Canada)''),
    (''en-GB'', latin ''English (United Kingdom)''),
    (''en-US'', latin ''English''),
    (''fi'', latin ''Finnish''),
    (''fr-FR'', latin ''French''),
    (''fr-CA'', latin ''French (Canada)''),
    (''de'', latin ''German''),
    (''el'', latin ''Greek''),
    (''gu'', latin ''Gujarati''),
    (''he'', latin ''Hebrew''),
    (''hi'', latin ''Hindi''),
    (''hu'', latin ''Hungarian''),
    (''id'', latin ''Indonesian''),
    (''it'', latin ''Italian''),
    (''ja'', latin ''Japanese''),
    (''kn'', latin ''Kannada''),
    (''ko'', latin ''Korean''),
    (''ms'', latin ''Malay''),
    (''ml'', latin ''Malayalam''),
    (''mr'', latin ''Marathi''),
    (''nb'', [78, 111, 114, 119, 101, 103, 105, 97, 110, 32, 66, 111, 107, 109, 229, 108]),
    (''or'', latin ''Odia''),
    (''pl'', latin ''Polish''),
    (''pt-BR'', latin ''Portuguese (Brazil)''),
    (''pt-PT'', latin ''Portuguese (Portugal)''),
    (''pa'', latin ''Punjabi''),
    (''ro'', latin ''Romanian''),
    (''ru'', latin ''Russian''),
    (''sk'', latin ''Slovak''),
    (''sl'', latin ''Slovenian''),
    (''es-MX'', latin ''Spanish (Mexico)''),
    (''es-ES'', latin ''Spanish''),
    (''sv'', latin ''Swedish''),
    (''ta'', latin ''Tamil''),
    (''te'', latin ''Telugu''),
    (''th'', latin ''Thai''),
    (''tr'', latin ''Turkish''),
    (''uk'', latin ''Ukrainian''),
    (''ur'', latin ''Urdu''),
    (''vi'', latin ''Vietnamese'')]"

definition untitled_recipe_names :: "(string \<times> utext) list" where
  "untitled_recipe_names = [
    (''ar'', [1608, 1589, 1601, 1577, 32, 1576, 1583, 1608, 1606, 32, 1593, 1606, 1608, 1575, 1606]),
    (''bn'', [2486, 2495, 2480, 2507, 2472, 2494, 2478, 2489, 2496, 2472, 32, 2480, 2503, 2488, 2495, 2474, 2495]),
    (''ca'', [82, 101, 99, 101, 112, 116, 97, 32, 115, 101, 110, 115, 101, 32, 116, 237, 116, 111, 108]),
    (''zh-Hans'', [26410, 21629, 21517, 39135, 35889]),
    (''zh-Hant'', [26410, 21629, 21517, 39135, 35676]),
    (''hr'', latin ''Recept bez naslova''),
    (''cs'', [82, 101, 99, 101, 112, 116, 32, 98, 101, 122, 32, 110, 225, 122, 118, 117]),
    (''da'', latin ''Unavngivet opskrift''),
    (''nl'', latin ''Naamloos recept''),
    (''en-AU'', latin ''Untitled recipe''),
    (''en-CA'', latin ''Untitled recipe''),
    (''en-GB'', latin ''Untitled recipe''),
    (''en-US'', latin ''Untitled recipe''),
    (''fi'', [78, 105, 109, 101, 116, 246, 110, 32, 114, 101, 115, 101, 112, 116, 105]),
    (''fr-FR'', latin ''Recette sans titre''),
    (''fr-CA'', latin ''Recette sans titre''),
    (''de'', latin ''Rezept ohne Titel''),
    (''el'', [931, 965, 957, 964, 945, 947, 942, 32, 967, 969, 961, 943, 962, 32, 964, 943, 964, 955, 959]),
    (''gu'', [2742, 2752, 2736, 2765, 2743, 2709, 32, 2741, 2711, 2736, 2728, 2752, 32, 2736, 2759, 2744, 2752, 2730, 2752]),
    (''he'', [1502, 1514, 1499, 1493, 1503, 32, 1500, 1500, 1488, 32, 1499, 1493, 1514, 1512, 1514]),
    (''hi'', [2348, 2367, 2344, 2366, 32, 2358, 2368, 2352, 2381, 2359, 2325, 32, 2325, 2368, 32, 2352, 2375, 2360, 2367, 2346, 2368]),
    (''hu'', [78, 233, 118, 116, 101, 108, 101, 110, 32, 114, 101, 99, 101, 112, 116]),
    (''id'', latin ''Resep tanpa judul''),
    (''it'', latin ''Ricetta senza titolo''),
    (''ja'', [28961, 38988, 12398, 12524, 12471, 12500]),
    (''kn'', [3254, 3264, 3248, 3277, 3255, 3263, 3221, 3270, 3247, 3263, 3250, 3277, 3250, 3238, 32, 3248, 3270, 3256, 3263, 3242, 3263]),
    (''ko'', [51228, 47785, 32, 50630, 45716, 32, 47112, 49884, 54588]),
    (''ms'', latin ''Resipi tanpa tajuk''),
    (''ml'', [3364, 3378, 3349, 3405, 3349, 3398, 3359, 3405, 3359, 3391, 3378, 3405, 3378, 3390, 3364, 3405, 3364, 32, 3370, 3390, 3354, 3349, 3349, 3405, 3349, 3393, 3377, 3391, 3370, 3405, 3370, 3405]),
    (''mr'', [2358, 2368, 2352, 2381, 2359, 2325, 32, 2344, 2360, 2354, 2375, 2354, 2368, 32, 2352, 2375, 2360, 2367, 2346, 2368]),
    (''nb'', latin ''Oppskrift uten tittel''),
    (''or'', [2870, 2880, 2864, 2893, 2871, 2837, 2873, 2880, 2856, 32, 2864, 2887, 2872, 2879, 2858, 2879]),
    (''pl'', [80, 114, 122, 101, 112, 105, 115, 32, 98, 101, 122, 32, 116, 121, 116, 117, 322, 117]),
    (''pt-BR'', [82, 101, 99, 101, 105, 116, 97, 32, 115, 101, 109, 32, 116, 237, 116, 117, 108, 111]),
    (''pt-PT'', [82, 101, 99, 101, 105, 116, 97, 32, 115, 101, 109, 32, 116, 237, 116, 117, 108, 111]),
    (''pa'', [2604, 2623, 2600, 2622, 2562, 32, 2616, 2623, 2608, 2610, 2631, 2582, 32, 2598, 2624, 32, 2608, 2632, 2616, 2623, 2602, 2624]),
    (''ro'', [82, 101, 539, 101, 116, 259, 32, 102, 259, 114, 259, 32, 116, 105, 116, 108, 117]),
    (''ru'', [1056, 1077, 1094, 1077, 1087, 1090, 32, 1073, 1077, 1079, 32, 1085, 1072, 1079, 1074, 1072, 1085, 1080, 1103]),
    (''sk'', [82, 101, 99, 101, 112, 116, 32, 98, 101, 122, 32, 110, 225, 122, 118, 117]),
    (''sl'', latin ''Recept brez naslova''),
    (''es-MX'', [82, 101, 99, 101, 116, 97, 32, 115, 105, 110, 32, 116, 237, 116, 117, 108, 111]),
    (''es-ES'', [82, 101, 99, 101, 116, 97, 32, 115, 105, 110, 32, 116, 237, 116, 117, 108, 111]),
    (''sv'', [78, 97, 109, 110, 108, 246, 115, 116, 32, 114, 101, 99, 101, 112, 116]),
    (''ta'', [2980, 2994, 3016, 2986, 3021, 2986, 3007, 2994, 3021, 2994, 3006, 2980, 32, 2970, 3014, 2991, 3021, 2990, 3009, 2993, 3016]),
    (''te'', [3126, 3136, 3120, 3149, 3127, 3135, 3093, 32, 3122, 3143, 3112, 3135, 32, 3120, 3142, 3128, 3135, 3114, 3136]),
    (''th'', [3626, 3641, 3605, 3619, 3652, 3617, 3656, 3617, 3637, 3594, 3639, 3656, 3629]),
    (''tr'', [66, 97, 351, 108, 305, 107, 115, 305, 122, 32, 116, 97, 114, 105, 102]),
    (''uk'', [1056, 1077, 1094, 1077, 1087, 1090, 32, 1073, 1077, 1079, 32, 1085, 1072, 1079, 1074, 1080]),
    (''ur'', [1576, 1604, 1575, 32, 1593, 1606, 1608, 1575, 1606, 32, 1578, 1585, 1705, 1740, 1576]),
    (''vi'', [67, 244, 110, 103, 32, 116, 104, 7913, 99, 32, 107, 104, 244, 110, 103, 32, 116, 234, 110])]"

definition ingredient_section_names :: "(string \<times> utext) list" where
  "ingredient_section_names = [
    (''ar'', [1575, 1604, 1605, 1603, 1608, 1606, 1575, 1578]),
    (''bn'', [2441, 2474, 2453, 2480, 2467]),
    (''ca'', latin ''Ingredients''),
    (''zh-Hans'', [39135, 26448]),
    (''zh-Hant'', [39135, 26448]),
    (''hr'', latin ''Sastojci''),
    (''cs'', latin ''Ingredience''),
    (''da'', latin ''Ingredienser''),
    (''nl'', [73, 110, 103, 114, 101, 100, 105, 235, 110, 116, 101, 110]),
    (''en-AU'', latin ''Ingredients''),
    (''en-CA'', latin ''Ingredients''),
    (''en-GB'', latin ''Ingredients''),
    (''en-US'', latin ''Ingredients''),
    (''fi'', latin ''Ainekset''),
    (''fr-FR'', [73, 110, 103, 114, 233, 100, 105, 101, 110, 116, 115]),
    (''fr-CA'', [73, 110, 103, 114, 233, 100, 105, 101, 110, 116, 115]),
    (''de'', latin ''Zutaten''),
    (''el'', [933, 955, 953, 954, 940]),
    (''gu'', [2712, 2719, 2709, 2763]),
    (''he'', [1502, 1512, 1499, 1497, 1489, 1497, 1501]),
    (''hi'', [2360, 2366, 2350, 2327, 2381, 2352, 2368]),
    (''hu'', [72, 111, 122, 122, 225, 118, 97, 108, 243, 107]),
    (''id'', latin ''Bahan''),
    (''it'', latin ''Ingredienti''),
    (''ja'', [26448, 26009]),
    (''kn'', [3242, 3238, 3262, 3248, 3277, 3237, 3223, 3251, 3265]),
    (''ko'', [51116, 47308]),
    (''ms'', latin ''Bahan-bahan''),
    (''ml'', [3354, 3399, 3376, 3393, 3381, 3349, 3454]),
    (''mr'', [2360, 2366, 2361, 2367, 2340, 2381, 2351]),
    (''nb'', latin ''Ingredienser''),
    (''or'', [2825, 2858, 2878, 2854, 2878, 2856]),
    (''pl'', [83, 107, 322, 97, 100, 110, 105, 107, 105]),
    (''pt-BR'', latin ''Ingredientes''),
    (''pt-PT'', latin ''Ingredientes''),
    (''pa'', [2616, 2606, 2673, 2583, 2608, 2624]),
    (''ro'', latin ''Ingrediente''),
    (''ru'', [1048, 1085, 1075, 1088, 1077, 1076, 1080, 1077, 1085, 1090, 1099]),
    (''sk'', latin ''Ingrediencie''),
    (''sl'', latin ''Sestavine''),
    (''es-MX'', latin ''Ingredientes''),
    (''es-ES'', latin ''Ingredientes''),
    (''sv'', latin ''Ingredienser''),
    (''ta'', [2986, 3018, 2992, 3009, 2975, 3021, 2965, 2995, 3021]),
    (''te'', [3114, 3110, 3134, 3120, 3149, 3109, 3134, 3122, 3137]),
    (''th'', [3626, 3656, 3623, 3609, 3612, 3626, 3617]),
    (''tr'', latin ''Malzemeler''),
    (''uk'', [1030, 1085, 1075, 1088, 1077, 1076, 1110, 1108, 1085, 1090, 1080]),
    (''ur'', [1575, 1580, 1586, 1575, 1569]),
    (''vi'', [78, 103, 117, 121, 234, 110, 32, 108, 105, 7879, 117])]"

definition to_taste_quantities :: "(string \<times> utext) list" where
  "to_taste_quantities = [
    (''ar'', [1581, 1587, 1576, 32, 1575, 1604, 1585, 1594, 1576, 1577]),
    (''bn'', [2488, 2509, 2476, 2494, 2470, 2478, 2468, 2507]),
    (''ca'', latin ''al gust''),
    (''zh-Hans'', [36866, 37327]),
    (''zh-Hant'', [36969, 37327]),
    (''hr'', latin ''po ukusu''),
    (''cs'', latin ''dle chuti''),
    (''da'', latin ''efter smag''),
    (''nl'', latin ''naar smaak''),
    (''en-AU'', latin ''to taste''),
    (''en-CA'', latin ''to taste''),
    (''en-GB'', latin ''to taste''),
    (''en-US'', latin ''to taste''),
    (''fi'', latin ''maun mukaan''),
    (''fr-FR'', [115, 101, 108, 111, 110, 32, 108, 101, 32, 103, 111, 251, 116]),
    (''fr-CA'', [97, 117, 32, 103, 111, 251, 116]),
    (''de'', latin ''nach Geschmack''),
    (''el'', [954, 945, 964, 940, 32, 946, 959, 973, 955, 951, 963, 951]),
    (''gu'', [2744, 2765, 2741, 2750, 2726, 32, 2693, 2728, 2753, 2744, 2750, 2736]),
    (''he'', [1500, 1508, 1497, 32, 1492, 1496, 1506, 1501]),
    (''hi'', [2360, 2381, 2357, 2366, 2342, 2366, 2344, 2369, 2360, 2366, 2352]),
    (''hu'', [237, 122, 108, 233, 115, 32, 115, 122, 101, 114, 105, 110, 116]),
    (''id'', latin ''secukupnya''),
    (''it'', latin ''q.b.''),
    (''ja'', [36969, 37327]),
    (''kn'', [3248, 3265, 3226, 3263, 3223, 3270, 32, 3236, 3221, 3277, 3221, 3202, 3236, 3270]),
    (''ko'', [44592, 54840, 50640, 32, 46384, 46972]),
    (''ms'', latin ''secukup rasa''),
    (''ml'', [3376, 3393, 3354, 3391, 3349, 3405, 3349, 3368, 3393, 3384, 3376, 3391, 3354, 3405, 3354, 3405]),
    (''mr'', [2330, 2357, 2368, 2344, 2369, 2360, 2366, 2352]),
    (''nb'', latin ''etter smak''),
    (''or'', [2872, 2893, 2929, 2878, 2854, 32, 2821, 2856, 2881, 2872, 2878, 2864, 2887]),
    (''pl'', latin ''do smaku''),
    (''pt-BR'', latin ''a gosto''),
    (''pt-PT'', latin ''a gosto''),
    (''pa'', [2616, 2613, 2622, 2598, 32, 2565, 2600, 2625, 2616, 2622, 2608]),
    (''ro'', [100, 117, 112, 259, 32, 103, 117, 115, 116]),
    (''ru'', [1087, 1086, 32, 1074, 1082, 1091, 1089, 1091]),
    (''sk'', [112, 111, 100, 318, 97, 32, 99, 104, 117, 116, 105]),
    (''sl'', latin ''po okusu''),
    (''es-MX'', latin ''al gusto''),
    (''es-ES'', latin ''al gusto''),
    (''sv'', latin ''efter smak''),
    (''ta'', [2970, 3009, 2997, 3016, 2965, 3021, 2965, 3015, 2993, 3021, 2986]),
    (''te'', [3120, 3137, 3098, 3135, 3093, 3135, 32, 3108, 3095, 3149, 3095, 3103, 3149, 3103, 3137]),
    (''th'', [3605, 3634, 3617, 3594, 3629, 3610]),
    (''tr'', [100, 97, 109, 97, 107, 32, 116, 97, 100, 305, 110, 97, 32, 103, 246, 114, 101]),
    (''uk'', [1079, 1072, 32, 1089, 1084, 1072, 1082, 1086, 1084]),
    (''ur'', [1584, 1575, 1574, 1602, 1746, 32, 1705, 1746, 32, 1605, 1591, 1575, 1576, 1602]),
    (''vi'', [118, 7915, 97, 32, 259, 110])]"

definition optional_section_names :: "(string \<times> utext) list" where
  "optional_section_names = [
    (''ar'', [1575, 1582, 1578, 1610, 1575, 1585, 1610]),
    (''bn'', [2448, 2458, 2509, 2459, 2495, 2453]),
    (''ca'', latin ''Opcional''),
    (''zh-Hans'', [21487, 36873]),
    (''zh-Hant'', [21487, 36984]),
    (''hr'', latin ''Neobavezno''),
    (''cs'', [86, 111, 108, 105, 116, 101, 108, 110, 233]),
    (''da'', latin ''Valgfrit''),
    (''nl'', latin ''Optioneel''),
    (''en-AU'', latin ''Optional''),
    (''en-CA'', latin ''Optional''),
    (''en-GB'', latin ''Optional''),
    (''en-US'', latin ''Optional''),
    (''fi'', latin ''Valinnainen''),
    (''fr-FR'', latin ''Optionnel''),
    (''fr-CA'', latin ''Facultatif''),
    (''de'', latin ''Optional''),
    (''el'', [928, 961, 959, 945, 953, 961, 949, 964, 953, 954, 972]),
    (''gu'', [2741, 2760, 2709, 2738, 2765, 2730, 2751, 2709]),
    (''he'', [1488, 1493, 1508, 1510, 1497, 1493, 1504, 1500, 1497]),
    (''hi'', [2357, 2376, 2325, 2354, 2381, 2346, 2367, 2325]),
    (''hu'', [79, 112, 99, 105, 111, 110, 225, 108, 105, 115]),
    (''id'', latin ''Opsional''),
    (''it'', latin ''Opzionale''),
    (''ja'', [20219, 24847]),
    (''kn'', [3216, 3226, 3277, 3227, 3263, 3221]),
    (''ko'', [49440, 53469]),
    (''ms'', latin ''Pilihan''),
    (''ml'', [3347, 3370, 3405, 3383, 3363, 3453]),
    (''mr'', [2346, 2352, 2381, 2351, 2366, 2351, 2368]),
    (''nb'', latin ''Valgfritt''),
    (''or'', [2860, 2888, 2837, 2867, 2893, 2858, 2879, 2837]),
    (''pl'', latin ''Opcjonalne''),
    (''pt-BR'', latin ''Opcional''),
    (''pt-PT'', latin ''Opcional''),
    (''pa'', [2613, 2623, 2581, 2610, 2602, 2623, 2581]),
    (''ro'', [79, 112, 539, 105, 111, 110, 97, 108]),
    (''ru'', [1055, 1086, 32, 1078, 1077, 1083, 1072, 1085, 1080, 1102]),
    (''sk'', [86, 111, 108, 105, 116, 101, 318, 110, 233]),
    (''sl'', latin ''Neobvezno''),
    (''es-MX'', latin ''Opcional''),
    (''es-ES'', latin ''Opcional''),
    (''sv'', latin ''Valfritt''),
    (''ta'', [2997, 3007, 2992, 3009, 2986, 3021, 2986, 2980, 3021, 2980, 3015, 2992, 3021, 2997, 3009]),
    (''te'', [3088, 3098, 3149, 3099, 3135, 3093, 3074]),
    (''th'', [3652, 3617, 3656, 3610, 3633, 3591, 3588, 3633, 3610]),
    (''tr'', [304, 115, 116, 101, 287, 101, 32, 98, 97, 287, 108, 305]),
    (''uk'', [1047, 1072, 32, 1073, 1072, 1078, 1072, 1085, 1085, 1103, 1084]),
    (''ur'', [1575, 1582, 1578, 1740, 1575, 1585, 1740]),
    (''vi'', [84, 249, 121, 32, 99, 104, 7885, 110])]"

definition language_aliases :: "(string \<times> string) list" where
  "language_aliases = [
    (''ar-sa'', ''ar''), (''bn-bd'', ''bn''), (''bn-in'', ''bn''), (''zh-cn'', ''zh-Hans''),
    (''zh-sg'', ''zh-Hans''), (''zh-tw'', ''zh-Hant''), (''zh-hk'', ''zh-Hant''),
    (''zh-hans-cn'', ''zh-Hans''), (''zh-hant-tw'', ''zh-Hant''), (''zh-hant-hk'', ''zh-Hant''),
    (''nl-nl'', ''nl''), (''nl-be'', ''nl''), (''de-de'', ''de''), (''de-at'', ''de''), (''de-ch'', ''de''),
    (''gu-in'', ''gu''), (''he-il'', ''he''), (''iw'', ''he''), (''iw-il'', ''he''), (''kn-in'', ''kn''),
    (''ml-in'', ''ml''), (''mr-in'', ''mr''), (''nb-no'', ''nb''), (''nn'', ''nb''), (''nn-no'', ''nb''),
    (''no'', ''nb''), (''no-no'', ''nb''), (''or-in'', ''or''), (''od'', ''or''), (''pa-in'', ''pa''),
    (''pa-pk'', ''pa''), (''sl-si'', ''sl''), (''ta-in'', ''ta''), (''te-in'', ''te''), (''ur-pk'', ''ur''),
    (''ur-in'', ''ur''), (''es-419'', ''es-MX''), (''es-us'', ''es-MX''), (''fr-fr'', ''fr-FR''),
    (''en-us'', ''en-US''), (''en-gb'', ''en-GB''), (''en-au'', ''en-AU''), (''en-ca'', ''en-CA''),
    (''pt-br'', ''pt-BR''), (''pt-pt'', ''pt-PT''), (''es-es'', ''es-ES''), (''es-mx'', ''es-MX''),
    (''fr-ca'', ''fr-CA'')]"

definition base_language_fallback :: "(string \<times> string) list" where
  "base_language_fallback = [
    (''ar'', ''ar''), (''bn'', ''bn''), (''ca'', ''ca''), (''zh'', ''zh-Hans''), (''hr'', ''hr''),
    (''cs'', ''cs''), (''da'', ''da''), (''nl'', ''nl''), (''en'', ''en-US''), (''fi'', ''fi''),
    (''fr'', ''fr-FR''), (''de'', ''de''), (''el'', ''el''), (''gu'', ''gu''), (''he'', ''he''),
    (''hi'', ''hi''), (''hu'', ''hu''), (''id'', ''id''), (''it'', ''it''), (''ja'', ''ja''),
    (''kn'', ''kn''), (''ko'', ''ko''), (''ms'', ''ms''), (''ml'', ''ml''), (''mr'', ''mr''),
    (''nb'', ''nb''), (''or'', ''or''), (''pl'', ''pl''), (''pt'', ''pt-BR''), (''pa'', ''pa''),
    (''ro'', ''ro''), (''ru'', ''ru''), (''sk'', ''sk''), (''sl'', ''sl''), (''es'', ''es-ES''),
    (''sv'', ''sv''), (''ta'', ''ta''), (''te'', ''te''), (''th'', ''th''), (''tr'', ''tr''),
    (''uk'', ''uk''), (''ur'', ''ur''), (''vi'', ''vi'')]"

definition supported_lower :: "(string \<times> string) list" where
  "supported_lower = map (\<lambda>code. (lower code, code)) supported_language_codes"

subsection \<open>Normalisation\<close>

text \<open>
  The progressive strip: the prefixes of the tag, longest first, down to one part.
\<close>

fun strip_subtags :: "string list \<Rightarrow> nat \<Rightarrow> string option" where
  "strip_subtags parts 0 = None"
| "strip_subtags parts (Suc n) =
     (let candidate = join ''-'' (take (Suc n) parts) in
      case map_of supported_lower candidate of
        Some code \<Rightarrow> Some code
      | None \<Rightarrow>
          (case map_of language_aliases candidate of
             Some code \<Rightarrow> Some code
           | None \<Rightarrow> strip_subtags parts n))"

definition normalize_tag :: "string \<Rightarrow> string" where
  "normalize_tag lowered =
     (case map_of supported_lower lowered of
        Some code \<Rightarrow> code
      | None \<Rightarrow>
          (case map_of language_aliases lowered of
             Some code \<Rightarrow> code
           | None \<Rightarrow>
               (let parts = split_char CHR ''-'' lowered in
                case strip_subtags parts (length parts - 1) of
                  Some code \<Rightarrow> code
                | None \<Rightarrow>
                    (case map_of base_language_fallback (hd parts) of
                       Some code \<Rightarrow> code
                     | None \<Rightarrow> ''en-US''))))"

definition normalize_language :: "string option \<Rightarrow> string" where
  "normalize_language value =
     (let raw = replace_char CHR ''_'' CHR ''-'' (strip (case value of None \<Rightarrow> '''' | Some v \<Rightarrow> v)) in
      if raw = [] then ''en-US''
      else if raw \<in> set supported_language_codes then raw
      else normalize_tag (lower raw))"

text \<open>\<open>TABLE[normalize_language (code)]\<close>.\<close>

definition label_of :: "(string \<times> utext) list \<Rightarrow> string option \<Rightarrow> utext res" where
  "label_of table code =
     (case map_of table (normalize_language code) of
        None \<Rightarrow> Inl KeyError
      | Some label \<Rightarrow> Inr label)"

definition language_name :: "string option \<Rightarrow> utext res" where
  "language_name = label_of language_names"

definition untitled_recipe_name :: "string option \<Rightarrow> utext res" where
  "untitled_recipe_name = label_of untitled_recipe_names"

definition ingredient_section_name :: "string option \<Rightarrow> utext res" where
  "ingredient_section_name = label_of ingredient_section_names"

definition optional_section_name :: "string option \<Rightarrow> utext res" where
  "optional_section_name = label_of optional_section_names"

definition to_taste_quantity :: "string option \<Rightarrow> utext res" where
  "to_taste_quantity = label_of to_taste_quantities"

subsection \<open>The normal form\<close>

lemma of_char_lower: "(of_char (lower_char c) :: nat) =
    (let n = of_char c in if (65 \<le> n \<and> n \<le> 90) \<or> (192 \<le> n \<and> n \<le> 222 \<and> n \<noteq> 215) then n + 32 else n)"
proof -
  define n where "n = (of_char c :: nat)"
  have "of_char (char_of (n + 32) :: char) = (n + 32) mod (256::nat)" by simp
  then show ?thesis by (auto simp: lower_char_def Let_def n_def [symmetric])
qed

lemma is_space_lower: "is_space (lower_char c) = is_space c"
  unfolding is_space_def Let_def of_char_lower by auto

lemma lower_char_dash: "lower_char CHR ''-'' = CHR ''-''"
  by code_simp

lemma lower_char_underscore: "lower_char c = CHR ''_'' \<longleftrightarrow> c = CHR ''_''"
proof -
  have "(of_char (lower_char c) :: nat) = of_char CHR ''_'' \<longleftrightarrow> (of_char c :: nat) = of_char CHR ''_''"
    unfolding of_char_lower Let_def by auto
  then show ?thesis by (simp only: of_char_eq_iff)
qed

lemma replace_dash_lower: "replace_char CHR ''_'' CHR ''-'' (lower s) = lower (replace_char CHR ''_'' CHR ''-'' s)"
  by (simp add: replace_char_def lower_def lower_char_dash lower_char_underscore)

lemma dropWhile_space_lower: "dropWhile is_space (lower s) = lower (dropWhile is_space s)"
  by (induction s) (auto simp: lower_def is_space_lower)

lemma strip_lower: "strip (lower s) = lower (strip s)"
proof -
  have r: "rev (lower t) = lower (rev t)" for t by (simp add: lower_def rev_map)
  show ?thesis by (simp add: strip_def rstrip_def lstrip_def dropWhile_space_lower r)
qed

lemma lower_targets: "list_all (\<lambda>(k, v). v \<in> set supported_language_codes) supported_lower"
  and alias_targets: "list_all (\<lambda>(k, v). v \<in> set supported_language_codes) language_aliases"
  and base_targets: "list_all (\<lambda>(k, v). v \<in> set supported_language_codes) base_language_fallback"
  by code_simp+

lemma supported_lower_fixed: "list_all (\<lambda>c. map_of supported_lower (lower c) = Some c) supported_language_codes"
  by code_simp
lemma supported_lower_lookup: "c \<in> set supported_language_codes \<Longrightarrow> map_of supported_lower (lower c) = Some c"
  using supported_lower_fixed by (simp add: list_all_iff)

text \<open>A supported code is its own lower-case entry: the test for the exact code changes nothing.\<close>

lemma normalize_language_alt:
  "normalize_language (Some v) =
     (let raw = lower (replace_char CHR ''_'' CHR ''-'' (strip v)) in
      if raw = [] then ''en-US'' else normalize_tag raw)"
proof -
  have "normalize_tag (lower c) = c" if "c \<in> set supported_language_codes" for c
    using supported_lower_lookup [OF that] by (simp add: normalize_tag_def)
  then show ?thesis
    by (simp add: normalize_language_def Let_def lower_def)
qed
lemma language_case_insensitive: "normalize_language (Some (lower v)) = normalize_language (Some v)"
  unfolding normalize_language_alt strip_lower replace_dash_lower lower_idem ..

lemma language_underscore: "normalize_language (Some (replace_char CHR ''_'' CHR ''-'' v)) = normalize_language (Some v)"
proof -
  have d: "is_space CHR ''-'' = False" "is_space CHR ''_'' = False" by code_simp+
  have w: "dropWhile is_space (replace_char CHR ''_'' CHR ''-'' s) =
     replace_char CHR ''_'' CHR ''-'' (dropWhile is_space s)" for s
    by (induction s) (auto simp: replace_char_def d)
  have r: "rev (replace_char CHR ''_'' CHR ''-'' t) = replace_char CHR ''_'' CHR ''-'' (rev t)" for t
    by (simp add: replace_char_def rev_map)
  have i: "replace_char CHR ''_'' CHR ''-'' (replace_char CHR ''_'' CHR ''-'' t) = replace_char CHR ''_'' CHR ''-'' t" for t
    by (simp add: replace_char_def)
  show ?thesis
    unfolding normalize_language_alt by (simp add: strip_def rstrip_def lstrip_def w r i)
qed
lemma label_tables:
  "list_all (\<lambda>t. map fst t = supported_language_codes)
     [language_names, untitled_recipe_names, ingredient_section_names, to_taste_quantities, optional_section_names]"
  by (simp add: supported_language_codes_def language_names_def untitled_recipe_names_def
     ingredient_section_names_def to_taste_quantities_def optional_section_names_def)

lemma targets:
  "map_of supported_lower k = Some v \<Longrightarrow> v \<in> set supported_language_codes"
  "map_of language_aliases k = Some v \<Longrightarrow> v \<in> set supported_language_codes"
  "map_of base_language_fallback k = Some v \<Longrightarrow> v \<in> set supported_language_codes"
  using lower_targets alias_targets base_targets by (auto simp: list_all_iff dest!: map_of_SomeD)

lemma default_supported: "''en-US'' \<in> set supported_language_codes"
  by code_simp

lemma strip_subtags_supported: "strip_subtags parts n = Some code \<Longrightarrow> code \<in> set supported_language_codes"
  by (induction n) (auto simp: Let_def targets split: option.splits)

lemma normalize_tag_supported: "normalize_tag t \<in> set supported_language_codes"
  by (auto simp: normalize_tag_def Let_def targets strip_subtags_supported default_supported split: option.splits)

lemma normalize_language_supported: "normalize_language value \<in> set supported_language_codes"
  by (simp add: normalize_language_def Let_def normalize_tag_supported default_supported)

lemma supported_fixed: "list_all (\<lambda>c. normalize_language (Some c) = c) supported_language_codes"
  by code_simp

lemma label_of_table:
  assumes "map fst table = supported_language_codes"
  shows "\<exists>label. label_of table code = Inr label \<and> (normalize_language code, label) \<in> set table"
proof -
  have "normalize_language code \<in> fst ` set table"
    using normalize_language_supported [of code] by (simp only: assms [symmetric] set_map)
  then obtain label where "map_of table (normalize_language code) = Some label"
    by (metis domD dom_map_of_conv_image_fst)
  then show ?thesis by (auto simp: label_of_def dest: map_of_SomeD)
qed


end
