(* ===== verification/Job_Messages.thy ===== *)
theory Job_Messages
  imports Localization
begin

section \<open>Job errors: the messages\<close>

text \<open>
  The tables of app/job_errors.py: the thirteen canonical English messages a job can store, their
  stable codes and their translations, one table per message. \<open>Job_Errors\<close> holds the functions
  over them.
\<close>

definition recipe_undetermined :: string where
  "recipe_undetermined = ''Could not determine a recipe from this video.''"

definition recipe_incomplete :: string where
  "recipe_incomplete = ''Could not extract a complete recipe from this video.''"

definition recipe_no_ingredients :: string where
  "recipe_no_ingredients = ''This video is missing a clear ingredient list.''"

definition recipe_no_method :: string where
  "recipe_no_method = ''This video is missing clear cooking steps.''"

definition link_in_bio :: string where
  "link_in_bio = ''Recipe link in bio. Open the creator profile bio for the full recipe.''"

definition unsupported_url :: string where
  "unsupported_url = ''Unsupported URL. Use TikTok, YouTube, Instagram or Facebook.''"

definition video_too_long :: string where
  "video_too_long = ''This video is too long to extract a recipe.''"

definition incomplete_carousel :: string where
  "incomplete_carousel = ''This TikTok carousel is incomplete. Try another link or a full recipe video.''"

definition extraction_retryable :: string where
  "extraction_retryable = ''Extraction temporarily failed. Retry the import.''"

definition no_recipe_text :: string where
  "no_recipe_text = ''No usable recipe text found in this video.''"

definition source_bound :: string where
  "source_bound = ''This recipe source is too large to process.''"

definition stale_job :: string where
  "stale_job = ''Job expired before completion. Retry the import.''"

definition translation_missing :: string where
  "translation_missing = ''Recipe not found for translation.''"

definition error_codes :: "(string \<times> string) list" where
  "error_codes = [
    (recipe_undetermined, ''recipe_undetermined''),
    (recipe_incomplete, ''recipe_incomplete''),
    (recipe_no_ingredients, ''recipe_no_ingredients''),
    (recipe_no_method, ''recipe_no_method''),
    (link_in_bio, ''link_in_bio''),
    (unsupported_url, ''unsupported_url''),
    (video_too_long, ''video_too_long''),
    (incomplete_carousel, ''incomplete_carousel''),
    (extraction_retryable, ''extraction_retryable''),
    (no_recipe_text, ''no_recipe_text''),
    (source_bound, ''source_bound''),
    (stale_job, ''stale_job''),
    (translation_missing, ''translation_missing'')]"

definition recipe_undetermined_texts :: "(string \<times> utext) list" where
  "recipe_undetermined_texts = [
    (''ar'', [1578, 1593, 1584, 1585, 32, 1575, 1604, 1578, 1593, 1585, 1601, 32, 1593, 1604, 1609, 32, 1608, 1589, 1601, 1577, 32, 1605, 1606, 32, 1607, 1584, 1575, 32, 1575, 1604, 1601, 1610, 1583, 1610, 1608, 46]),
    (''bn'', [2447, 2439, 32, 2477, 2495, 2465, 2495, 2451, 32, 2469, 2503, 2453, 2503, 32, 2480, 2503, 2488, 2495, 2474, 2495, 32, 2472, 2495, 2480, 2509, 2471, 2494, 2480, 2467, 32, 2453, 2480, 2494, 32, 2479, 2494, 2479, 2492, 2472, 2495, 2404]),
    (''ca'', [78, 111, 32, 115, 39, 104, 97, 32, 112, 111, 103, 117, 116, 32, 100, 101, 116, 101, 114, 109, 105, 110, 97, 114, 32, 117, 110, 97, 32, 114, 101, 99, 101, 112, 116, 97, 32, 100, 39, 97, 113, 117, 101, 115, 116, 32, 118, 237, 100, 101, 111, 46]),
    (''zh-Hans'', [26080, 27861, 20174, 27492, 35270, 39057, 35782, 21035, 20986, 39135, 35889, 12290]),
    (''zh-Hant'', [28961, 27861, 24478, 27492, 24433, 29255, 35672, 21029, 20986, 39135, 35676, 12290]),
    (''hr'', [78, 105, 106, 101, 32, 109, 111, 103, 117, 263, 101, 32, 111, 100, 114, 101, 100, 105, 116, 105, 32, 114, 101, 99, 101, 112, 116, 32, 105, 122, 32, 111, 118, 111, 103, 32, 118, 105, 100, 101, 97, 46]),
    (''cs'', [90, 32, 116, 111, 104, 111, 116, 111, 32, 118, 105, 100, 101, 97, 32, 115, 101, 32, 110, 101, 112, 111, 100, 97, 345, 105, 108, 111, 32, 117, 114, 269, 105, 116, 32, 114, 101, 99, 101, 112, 116, 46]),
    (''da'', latin ''Kunne ikke finde en opskrift i denne video.''),
    (''nl'', latin ''Kon geen recept uit deze video bepalen.''),
    (''en-AU'', latin recipe_undetermined),
    (''en-CA'', latin recipe_undetermined),
    (''en-GB'', latin recipe_undetermined),
    (''en-US'', latin recipe_undetermined),
    (''fi'', [84, 228, 115, 116, 228, 32, 118, 105, 100, 101, 111, 115, 116, 97, 32, 101, 105, 32, 118, 111, 105, 116, 117, 32, 116, 117, 110, 110, 105, 115, 116, 97, 97, 32, 114, 101, 115, 101, 112, 116, 105, 228, 46]),
    (''fr-FR'', [73, 109, 112, 111, 115, 115, 105, 98, 108, 101, 32, 100, 101, 32, 114, 101, 99, 111, 110, 110, 97, 238, 116, 114, 101, 32, 117, 110, 101, 32, 114, 101, 99, 101, 116, 116, 101, 32, 100, 97, 110, 115, 32, 99, 101, 116, 116, 101, 32, 118, 105, 100, 233, 111, 46]),
    (''fr-CA'', [73, 109, 112, 111, 115, 115, 105, 98, 108, 101, 32, 100, 101, 32, 114, 101, 99, 111, 110, 110, 97, 238, 116, 114, 101, 32, 117, 110, 101, 32, 114, 101, 99, 101, 116, 116, 101, 32, 100, 97, 110, 115, 32, 99, 101, 116, 116, 101, 32, 118, 105, 100, 233, 111, 46]),
    (''de'', latin ''Aus diesem Video konnte kein Rezept erkannt werden.''),
    (''el'', [916, 949, 957, 32, 942, 964, 945, 957, 32, 948, 965, 957, 945, 964, 972, 962, 32, 959, 32, 949, 957, 964, 959, 960, 953, 963, 956, 972, 962, 32, 963, 965, 957, 964, 945, 947, 942, 962, 32, 963, 949, 32, 945, 965, 964, 972, 32, 964, 959, 32, 946, 943, 957, 964, 949, 959, 46]),
    (''gu'', [2694, 32, 2741, 2752, 2721, 2751, 2735, 2750, 2734, 2750, 2690, 2725, 2752, 32, 2736, 2759, 2744, 2752, 2730, 2752, 32, 2728, 2709, 2765, 2709, 2752, 32, 2709, 2736, 2752, 32, 2742, 2709, 2750, 2696, 32, 2728, 2725, 2752, 46]),
    (''he'', [1500, 1488, 32, 1504, 1497, 1514, 1503, 32, 1492, 1497, 1492, 32, 1500, 1494, 1492, 1493, 1514, 32, 1502, 1514, 1499, 1493, 1503, 32, 1502, 1492, 1505, 1512, 1496, 1493, 1503, 32, 1492, 1494, 1492, 46]),
    (''hi'', [2311, 2360, 32, 2357, 2368, 2337, 2367, 2351, 2379, 32, 2360, 2375, 32, 2352, 2375, 2360, 2367, 2346, 2368, 32, 2346, 2361, 2330, 2366, 2344, 2368, 32, 2344, 2361, 2368, 2306, 32, 2332, 2366, 32, 2360, 2325, 2368, 2404]),
    (''hu'', [78, 101, 109, 32, 115, 105, 107, 101, 114, 252, 108, 116, 32, 114, 101, 99, 101, 112, 116, 101, 116, 32, 102, 101, 108, 105, 115, 109, 101, 114, 110, 105, 32, 101, 98, 98, 337, 108, 32, 97, 32, 118, 105, 100, 101, 243, 98, 243, 108, 46]),
    (''id'', latin ''Tidak dapat menentukan resep dari video ini.''),
    (''it'', latin ''Impossibile riconoscere una ricetta in questo video.''),
    (''ja'', [12371, 12398, 21205, 30011, 12363, 12425, 12524, 12471, 12500, 12434, 29305, 23450, 12391, 12365, 12414, 12379, 12435, 12391, 12375, 12383, 12290]),
    (''kn'', [3208, 32, 3253, 3264, 3233, 3263, 3247, 3274, 3238, 3263, 3202, 3238, 32, 3248, 3270, 3256, 3263, 3242, 3263, 32, 3240, 3263, 3248, 3277, 3239, 3248, 3263, 3256, 3250, 3262, 3223, 3250, 3263, 3250, 3277, 3250, 46]),
    (''ko'', [51060, 32, 50689, 49345, 50640, 49436, 32, 47112, 49884, 54588, 47484, 32, 54869, 51064, 54624, 32, 49688, 32, 50630, 49845, 45768, 45796, 46]),
    (''ms'', latin ''Tidak dapat menentukan resipi daripada video ini.''),
    (''ml'', [3336, 32, 3381, 3392, 3361, 3391, 3375, 3403, 3375, 3391, 3453, 32, 3368, 3391, 3368, 3405, 3368, 3405, 32, 3370, 3390, 3354, 3349, 3349, 3405, 3349, 3393, 3377, 3391, 3370, 3405, 3370, 3405, 32, 3349, 3363, 3405, 3359, 3398, 3364, 3405, 3364, 3390, 3368, 3390, 3375, 3391, 3378, 3405, 3378, 46]),
    (''mr'', [2351, 2366, 32, 2357, 2381, 2361, 2367, 2337, 2367, 2323, 2340, 2370, 2344, 32, 2352, 2375, 2360, 2367, 2346, 2368, 32, 2323, 2355, 2326, 2340, 2366, 32, 2310, 2354, 2368, 32, 2344, 2366, 2361, 2368, 46]),
    (''nb'', latin ''Kunne ikke finne en oppskrift i denne videoen.''),
    (''or'', [2831, 2873, 2879, 32, 2861, 2879, 2849, 2879, 2835, 2864, 2881, 32, 2864, 2887, 2872, 2879, 2858, 2879, 32, 2856, 2879, 2864, 2893, 2851, 2893, 2851, 2911, 32, 2837, 2864, 2878, 2863, 2878, 2823, 2858, 2878, 2864, 2879, 2866, 2878, 32, 2856, 2878, 2873, 2879, 2817, 2404]),
    (''pl'', [78, 105, 101, 32, 117, 100, 97, 322, 111, 32, 115, 105, 281, 32, 114, 111, 122, 112, 111, 122, 110, 97, 263, 32, 112, 114, 122, 101, 112, 105, 115, 117, 32, 119, 32, 116, 121, 109, 32, 102, 105, 108, 109, 105, 101, 46]),
    (''pt-BR'', [78, 227, 111, 32, 102, 111, 105, 32, 112, 111, 115, 115, 237, 118, 101, 108, 32, 114, 101, 99, 111, 110, 104, 101, 99, 101, 114, 32, 117, 109, 97, 32, 114, 101, 99, 101, 105, 116, 97, 32, 110, 101, 115, 116, 101, 32, 118, 237, 100, 101, 111, 46]),
    (''pt-PT'', [78, 227, 111, 32, 102, 111, 105, 32, 112, 111, 115, 115, 237, 118, 101, 108, 32, 114, 101, 99, 111, 110, 104, 101, 99, 101, 114, 32, 117, 109, 97, 32, 114, 101, 99, 101, 105, 116, 97, 32, 110, 101, 115, 116, 101, 32, 118, 237, 100, 101, 111, 46]),
    (''pa'', [2567, 2616, 32, 2613, 2624, 2593, 2624, 2579, 32, 2596, 2635, 2562, 32, 2608, 2632, 2616, 2623, 2602, 2624, 32, 2602, 2587, 2622, 2595, 2624, 32, 2600, 2617, 2624, 2562, 32, 2588, 2622, 32, 2616, 2581, 2624, 2404]),
    (''ro'', [78, 117, 32, 115, 45, 97, 32, 112, 117, 116, 117, 116, 32, 100, 101, 116, 101, 114, 109, 105, 110, 97, 32, 111, 32, 114, 101, 539, 101, 116, 259, 32, 100, 105, 110, 32, 97, 99, 101, 115, 116, 32, 118, 105, 100, 101, 111, 46]),
    (''ru'', [1053, 1077, 32, 1091, 1076, 1072, 1083, 1086, 1089, 1100, 32, 1086, 1087, 1088, 1077, 1076, 1077, 1083, 1080, 1090, 1100, 32, 1088, 1077, 1094, 1077, 1087, 1090, 32, 1074, 32, 1101, 1090, 1086, 1084, 32, 1074, 1080, 1076, 1077, 1086, 46]),
    (''sk'', [90, 32, 116, 111, 104, 116, 111, 32, 118, 105, 100, 101, 97, 32, 115, 97, 32, 110, 101, 112, 111, 100, 97, 114, 105, 108, 111, 32, 117, 114, 269, 105, 357, 32, 114, 101, 99, 101, 112, 116, 46]),
    (''sl'', [73, 122, 32, 116, 101, 103, 97, 32, 118, 105, 100, 101, 111, 112, 111, 115, 110, 101, 116, 107, 97, 32, 110, 105, 32, 98, 105, 108, 111, 32, 109, 111, 103, 111, 269, 101, 32, 100, 111, 108, 111, 269, 105, 116, 105, 32, 114, 101, 99, 101, 112, 116, 97, 46]),
    (''es-MX'', latin ''No se pudo reconocer una receta en este video.''),
    (''es-ES'', [78, 111, 32, 115, 101, 32, 112, 117, 100, 111, 32, 114, 101, 99, 111, 110, 111, 99, 101, 114, 32, 117, 110, 97, 32, 114, 101, 99, 101, 116, 97, 32, 101, 110, 32, 101, 115, 116, 101, 32, 118, 237, 100, 101, 111, 46]),
    (''sv'', [75, 117, 110, 100, 101, 32, 105, 110, 116, 101, 32, 97, 118, 103, 246, 114, 97, 32, 101, 116, 116, 32, 114, 101, 99, 101, 112, 116, 32, 102, 114, 229, 110, 32, 100, 101, 110, 32, 104, 228, 114, 32, 118, 105, 100, 101, 111, 110, 46]),
    (''ta'', [2951, 2984, 3021, 2980, 32, 2997, 3008, 2975, 3007, 2991, 3019, 2997, 3007, 2994, 3007, 2992, 3009, 2984, 3021, 2980, 3009, 32, 2970, 3014, 2991, 3021, 2990, 3009, 2993, 3016, 2991, 3016, 32, 2949, 2993, 3007, 2991, 32, 2990, 3009, 2975, 3007, 2991, 2997, 3007, 2994, 3021, 2994, 3016, 46]),
    (''te'', [3080, 32, 3125, 3136, 3105, 3135, 3119, 3147, 32, 3112, 3137, 3074, 3105, 3135, 32, 3120, 3142, 3128, 3135, 3114, 3136, 3112, 3135, 32, 3095, 3137, 3120, 3149, 3108, 3135, 3074, 3098, 3122, 3143, 3093, 3114, 3147, 3119, 3134, 3074, 46]),
    (''th'', [3652, 3617, 3656, 3626, 3634, 3617, 3634, 3619, 3606, 3619, 3632, 3610, 3640, 3626, 3641, 3605, 3619, 3592, 3634, 3585, 3623, 3636, 3604, 3637, 3650, 3629, 3609, 3637, 3657, 3652, 3604, 3657]),
    (''tr'', latin ''Bu videodan bir tarif belirlenemedi.''),
    (''uk'', [1053, 1077, 32, 1074, 1076, 1072, 1083, 1086, 1089, 1103, 32, 1074, 1080, 1079, 1085, 1072, 1095, 1080, 1090, 1080, 32, 1088, 1077, 1094, 1077, 1087, 1090, 32, 1110, 1079, 32, 1094, 1100, 1086, 1075, 1086, 32, 1074, 1110, 1076, 1077, 1086, 46]),
    (''ur'', [1575, 1587, 32, 1608, 1740, 1672, 1740, 1608, 32, 1587, 1746, 32, 1578, 1585, 1705, 1740, 1576, 32, 1605, 1593, 1604, 1608, 1605, 32, 1606, 1729, 1740, 1722, 32, 1729, 1608, 32, 1587, 1705, 1740, 1748]),
    (''vi'', [75, 104, 244, 110, 103, 32, 116, 104, 7875, 32, 120, 225, 99, 32, 273, 7883, 110, 104, 32, 99, 244, 110, 103, 32, 116, 104, 7913, 99, 32, 116, 7915, 32, 118, 105, 100, 101, 111, 32, 110, 224, 121, 46])]"

definition recipe_incomplete_texts :: "(string \<times> utext) list" where
  "recipe_incomplete_texts = [
    (''ar'', [1578, 1593, 1584, 1585, 32, 1575, 1587, 1578, 1582, 1585, 1575, 1580, 32, 1608, 1589, 1601, 1577, 32, 1603, 1575, 1605, 1604, 1577, 32, 1605, 1606, 32, 1607, 1584, 1575, 32, 1575, 1604, 1601, 1610, 1583, 1610, 1608, 46]),
    (''bn'', [2447, 2439, 32, 2477, 2495, 2465, 2495, 2451, 32, 2469, 2503, 2453, 2503, 32, 2488, 2478, 2509, 2474, 2498, 2480, 2509, 2467, 32, 2480, 2503, 2488, 2495, 2474, 2495, 32, 2476, 2503, 2480, 32, 2453, 2480, 2494, 32, 2479, 2494, 2479, 2492, 2472, 2495, 2404]),
    (''ca'', [78, 111, 32, 115, 39, 104, 97, 32, 112, 111, 103, 117, 116, 32, 101, 120, 116, 114, 101, 117, 114, 101, 32, 117, 110, 97, 32, 114, 101, 99, 101, 112, 116, 97, 32, 99, 111, 109, 112, 108, 101, 116, 97, 32, 100, 39, 97, 113, 117, 101, 115, 116, 32, 118, 237, 100, 101, 111, 46]),
    (''zh-Hans'', [26080, 27861, 20174, 27492, 35270, 39057, 25552, 21462, 23436, 25972, 39135, 35889, 12290]),
    (''zh-Hant'', [28961, 27861, 24478, 27492, 24433, 29255, 25847, 21462, 23436, 25972, 39135, 35676, 12290]),
    (''hr'', [78, 105, 106, 101, 32, 109, 111, 103, 117, 263, 101, 32, 105, 122, 118, 117, 263, 105, 32, 112, 111, 116, 112, 117, 110, 105, 32, 114, 101, 99, 101, 112, 116, 32, 105, 122, 32, 111, 118, 111, 103, 32, 118, 105, 100, 101, 97, 46]),
    (''cs'', [90, 32, 116, 111, 104, 111, 116, 111, 32, 118, 105, 100, 101, 97, 32, 115, 101, 32, 110, 101, 112, 111, 100, 97, 345, 105, 108, 111, 32, 122, 237, 115, 107, 97, 116, 32, 107, 111, 109, 112, 108, 101, 116, 110, 237, 32, 114, 101, 99, 101, 112, 116, 46]),
    (''da'', latin ''Kunne ikke hente en komplet opskrift fra denne video.''),
    (''nl'', latin ''Kon geen volledig recept uit deze video halen.''),
    (''en-AU'', latin recipe_incomplete),
    (''en-CA'', latin recipe_incomplete),
    (''en-GB'', latin recipe_incomplete),
    (''en-US'', latin recipe_incomplete),
    (''fi'', [84, 228, 115, 116, 228, 32, 118, 105, 100, 101, 111, 115, 116, 97, 32, 101, 105, 32, 118, 111, 105, 116, 117, 32, 112, 111, 105, 109, 105, 97, 32, 116, 228, 121, 100, 101, 108, 108, 105, 115, 116, 228, 32, 114, 101, 115, 101, 112, 116, 105, 228, 46]),
    (''fr-FR'', [73, 109, 112, 111, 115, 115, 105, 98, 108, 101, 32, 100, 39, 101, 120, 116, 114, 97, 105, 114, 101, 32, 117, 110, 101, 32, 114, 101, 99, 101, 116, 116, 101, 32, 99, 111, 109, 112, 108, 232, 116, 101, 32, 100, 101, 32, 99, 101, 116, 116, 101, 32, 118, 105, 100, 233, 111, 46]),
    (''fr-CA'', [73, 109, 112, 111, 115, 115, 105, 98, 108, 101, 32, 100, 39, 101, 120, 116, 114, 97, 105, 114, 101, 32, 117, 110, 101, 32, 114, 101, 99, 101, 116, 116, 101, 32, 99, 111, 109, 112, 108, 232, 116, 101, 32, 100, 101, 32, 99, 101, 116, 116, 101, 32, 118, 105, 100, 233, 111, 46]),
    (''de'', [65, 117, 115, 32, 100, 105, 101, 115, 101, 109, 32, 86, 105, 100, 101, 111, 32, 107, 111, 110, 110, 116, 101, 32, 107, 101, 105, 110, 32, 118, 111, 108, 108, 115, 116, 228, 110, 100, 105, 103, 101, 115, 32, 82, 101, 122, 101, 112, 116, 32, 101, 120, 116, 114, 97, 104, 105, 101, 114, 116, 32, 119, 101, 114, 100, 101, 110, 46]),
    (''el'', [916, 949, 957, 32, 942, 964, 945, 957, 32, 948, 965, 957, 945, 964, 942, 32, 951, 32, 949, 958, 945, 947, 969, 947, 942, 32, 960, 955, 942, 961, 959, 965, 962, 32, 963, 965, 957, 964, 945, 947, 942, 962, 32, 945, 960, 972, 32, 945, 965, 964, 972, 32, 964, 959, 32, 946, 943, 957, 964, 949, 959, 46]),
    (''gu'', [2694, 32, 2741, 2752, 2721, 2751, 2735, 2750, 2734, 2750, 2690, 2725, 2752, 32, 2744, 2690, 2730, 2754, 2736, 2765, 2723, 32, 2736, 2759, 2744, 2752, 2730, 2752, 32, 2709, 2750, 2722, 2752, 32, 2742, 2709, 2750, 2696, 32, 2728, 2725, 2752, 46]),
    (''he'', [1500, 1488, 32, 1504, 1497, 1514, 1503, 32, 1492, 1497, 1492, 32, 1500, 1495, 1500, 1509, 32, 1502, 1514, 1499, 1493, 1503, 32, 1502, 1500, 1488, 32, 1502, 1492, 1505, 1512, 1496, 1493, 1503, 32, 1492, 1494, 1492, 46]),
    (''hi'', [2311, 2360, 32, 2357, 2368, 2337, 2367, 2351, 2379, 32, 2360, 2375, 32, 2346, 2370, 2352, 2368, 32, 2352, 2375, 2360, 2367, 2346, 2368, 32, 2344, 2367, 2325, 2366, 2354, 32, 2344, 2361, 2368, 2306, 32, 2346, 2366, 2319, 2404]),
    (''hu'', [78, 101, 109, 32, 115, 105, 107, 101, 114, 252, 108, 116, 32, 116, 101, 108, 106, 101, 115, 32, 114, 101, 99, 101, 112, 116, 101, 116, 32, 107, 105, 110, 121, 101, 114, 110, 105, 32, 101, 98, 98, 337, 108, 32, 97, 32, 118, 105, 100, 101, 243, 98, 243, 108, 46]),
    (''id'', latin ''Tidak dapat mengekstrak resep lengkap dari video ini.''),
    (''it'', latin ''Impossibile estrarre una ricetta completa da questo video.''),
    (''ja'', [12371, 12398, 21205, 30011, 12363, 12425, 23436, 20840, 12394, 12524, 12471, 12500, 12434, 25277, 20986, 12391, 12365, 12414, 12379, 12435, 12391, 12375, 12383, 12290]),
    (''kn'', [3208, 32, 3253, 3264, 3233, 3263, 3247, 3274, 3238, 3263, 3202, 3238, 32, 3256, 3202, 3242, 3266, 3248, 3277, 3235, 32, 3248, 3270, 3256, 3263, 3242, 3263, 32, 3257, 3274, 3248, 3236, 3270, 3223, 3270, 3247, 3250, 3262, 3223, 3250, 3263, 3250, 3277, 3250, 46]),
    (''ko'', [51060, 32, 50689, 49345, 50640, 49436, 32, 50756, 51204, 54620, 32, 47112, 49884, 54588, 47484, 32, 52628, 52636, 54624, 32, 49688, 32, 50630, 49845, 45768, 45796, 46]),
    (''ms'', latin ''Tidak dapat mengekstrak resipi lengkap daripada video ini.''),
    (''ml'', [3336, 32, 3381, 3392, 3361, 3391, 3375, 3403, 3375, 3391, 3453, 32, 3368, 3391, 3368, 3405, 3368, 3405, 32, 3370, 3394, 3452, 3363, 3405, 3363, 3374, 3390, 3375, 32, 3370, 3390, 3354, 3349, 3349, 3405, 3349, 3393, 3377, 3391, 3370, 3405, 3370, 3405, 32, 3342, 3359, 3393, 3349, 3405, 3349, 3390, 3368, 3390, 3375, 3391, 3378, 3405, 3378, 46]),
    (''mr'', [2351, 2366, 32, 2357, 2381, 2361, 2367, 2337, 2367, 2323, 2340, 2370, 2344, 32, 2346, 2370, 2352, 2381, 2339, 32, 2352, 2375, 2360, 2367, 2346, 2368, 32, 2325, 2366, 2338, 2340, 2366, 32, 2310, 2354, 2368, 32, 2344, 2366, 2361, 2368, 46]),
    (''nb'', latin ''Kunne ikke hente en komplett oppskrift fra denne videoen.''),
    (''or'', [2831, 2873, 2879, 32, 2861, 2879, 2849, 2879, 2835, 2864, 2881, 32, 2872, 2862, 2893, 2858, 2882, 2864, 2893, 2851, 2893, 2851, 32, 2864, 2887, 2872, 2879, 2858, 2879, 32, 2860, 2878, 2873, 2878, 2864, 32, 2837, 2864, 2878, 2863, 2878, 2823, 2858, 2878, 2864, 2879, 2866, 2878, 32, 2856, 2878, 2873, 2879, 2817, 2404]),
    (''pl'', [78, 105, 101, 32, 117, 100, 97, 322, 111, 32, 115, 105, 281, 32, 119, 121, 111, 100, 114, 281, 98, 110, 105, 263, 32, 112, 101, 322, 110, 101, 103, 111, 32, 112, 114, 122, 101, 112, 105, 115, 117, 32, 122, 32, 116, 101, 103, 111, 32, 102, 105, 108, 109, 117, 46]),
    (''pt-BR'', [78, 227, 111, 32, 102, 111, 105, 32, 112, 111, 115, 115, 237, 118, 101, 108, 32, 101, 120, 116, 114, 97, 105, 114, 32, 117, 109, 97, 32, 114, 101, 99, 101, 105, 116, 97, 32, 99, 111, 109, 112, 108, 101, 116, 97, 32, 100, 101, 115, 116, 101, 32, 118, 237, 100, 101, 111, 46]),
    (''pt-PT'', [78, 227, 111, 32, 102, 111, 105, 32, 112, 111, 115, 115, 237, 118, 101, 108, 32, 101, 120, 116, 114, 97, 105, 114, 32, 117, 109, 97, 32, 114, 101, 99, 101, 105, 116, 97, 32, 99, 111, 109, 112, 108, 101, 116, 97, 32, 100, 101, 115, 116, 101, 32, 118, 237, 100, 101, 111, 46]),
    (''pa'', [2567, 2616, 32, 2613, 2624, 2593, 2624, 2579, 32, 2596, 2635, 2562, 32, 2602, 2626, 2608, 2624, 32, 2608, 2632, 2616, 2623, 2602, 2624, 32, 2581, 2673, 2594, 32, 2600, 2617, 2624, 2562, 32, 2616, 2581, 2631, 2404]),
    (''ro'', [78, 117, 32, 115, 45, 97, 32, 112, 117, 116, 117, 116, 32, 101, 120, 116, 114, 97, 103, 101, 32, 111, 32, 114, 101, 539, 101, 116, 259, 32, 99, 111, 109, 112, 108, 101, 116, 259, 32, 100, 105, 110, 32, 97, 99, 101, 115, 116, 32, 118, 105, 100, 101, 111, 46]),
    (''ru'', [1053, 1077, 32, 1091, 1076, 1072, 1083, 1086, 1089, 1100, 32, 1080, 1079, 1074, 1083, 1077, 1095, 1100, 32, 1087, 1086, 1083, 1085, 1099, 1081, 32, 1088, 1077, 1094, 1077, 1087, 1090, 32, 1080, 1079, 32, 1101, 1090, 1086, 1075, 1086, 32, 1074, 1080, 1076, 1077, 1086, 46]),
    (''sk'', [90, 32, 116, 111, 104, 116, 111, 32, 118, 105, 100, 101, 97, 32, 115, 97, 32, 110, 101, 112, 111, 100, 97, 114, 105, 108, 111, 32, 122, 237, 115, 107, 97, 357, 32, 107, 111, 109, 112, 108, 101, 116, 110, 253, 32, 114, 101, 99, 101, 112, 116, 46]),
    (''sl'', [73, 122, 32, 116, 101, 103, 97, 32, 118, 105, 100, 101, 111, 112, 111, 115, 110, 101, 116, 107, 97, 32, 110, 105, 32, 98, 105, 108, 111, 32, 109, 111, 103, 111, 269, 101, 32, 105, 122, 108, 117, 353, 269, 105, 116, 105, 32, 99, 101, 108, 111, 116, 110, 101, 103, 97, 32, 114, 101, 99, 101, 112, 116, 97, 46]),
    (''es-MX'', latin ''No se pudo extraer una receta completa de este video.''),
    (''es-ES'', [78, 111, 32, 115, 101, 32, 112, 117, 100, 111, 32, 101, 120, 116, 114, 97, 101, 114, 32, 117, 110, 97, 32, 114, 101, 99, 101, 116, 97, 32, 99, 111, 109, 112, 108, 101, 116, 97, 32, 100, 101, 32, 101, 115, 116, 101, 32, 118, 237, 100, 101, 111, 46]),
    (''sv'', [75, 117, 110, 100, 101, 32, 105, 110, 116, 101, 32, 104, 228, 109, 116, 97, 32, 101, 116, 116, 32, 107, 111, 109, 112, 108, 101, 116, 116, 32, 114, 101, 99, 101, 112, 116, 32, 102, 114, 229, 110, 32, 100, 101, 110, 32, 104, 228, 114, 32, 118, 105, 100, 101, 111, 110, 46]),
    (''ta'', [2951, 2984, 3021, 2980, 32, 2997, 3008, 2975, 3007, 2991, 3019, 2997, 3007, 2994, 3007, 2992, 3009, 2984, 3021, 2980, 3009, 32, 2990, 3009, 2996, 3009, 32, 2970, 3014, 2991, 3021, 2990, 3009, 2993, 3016, 2991, 3016, 32, 2958, 2975, 3009, 2965, 3021, 2965, 32, 2990, 3009, 2975, 3007, 2991, 2997, 3007, 2994, 3021, 2994, 3016, 46]),
    (''te'', [3080, 32, 3125, 3136, 3105, 3135, 3119, 3147, 32, 3112, 3137, 3074, 3105, 3135, 32, 3114, 3138, 3120, 3149, 3108, 3135, 32, 3120, 3142, 3128, 3135, 3114, 3136, 3112, 3135, 32, 3108, 3136, 3119, 3122, 3143, 3093, 3114, 3147, 3119, 3134, 3074, 46]),
    (''th'', [3652, 3617, 3656, 3626, 3634, 3617, 3634, 3619, 3606, 3604, 3638, 3591, 3626, 3641, 3605, 3619, 3588, 3619, 3610, 3606, 3657, 3623, 3609, 3592, 3634, 3585, 3623, 3636, 3604, 3637, 3650, 3629, 3609, 3637, 3657, 3652, 3604, 3657]),
    (''tr'', [66, 117, 32, 118, 105, 100, 101, 111, 100, 97, 110, 32, 101, 107, 115, 105, 107, 115, 105, 122, 32, 98, 105, 114, 32, 116, 97, 114, 105, 102, 32, 231, 305, 107, 97, 114, 305, 108, 97, 109, 97, 100, 305, 46]),
    (''uk'', [1053, 1077, 32, 1074, 1076, 1072, 1083, 1086, 1089, 1103, 32, 1074, 1080, 1090, 1103, 1075, 1090, 1080, 32, 1087, 1086, 1074, 1085, 1080, 1081, 32, 1088, 1077, 1094, 1077, 1087, 1090, 32, 1110, 1079, 32, 1094, 1100, 1086, 1075, 1086, 32, 1074, 1110, 1076, 1077, 1086, 46]),
    (''ur'', [1575, 1587, 32, 1608, 1740, 1672, 1740, 1608, 32, 1587, 1746, 32, 1605, 1705, 1605, 1604, 32, 1578, 1585, 1705, 1740, 1576, 32, 1606, 1729, 1740, 1722, 32, 1606, 1705, 1575, 1604, 32, 1587, 1705, 1578, 1746, 1748]),
    (''vi'', [75, 104, 244, 110, 103, 32, 116, 104, 7875, 32, 116, 114, 237, 99, 104, 32, 120, 117, 7845, 116, 32, 99, 244, 110, 103, 32, 116, 104, 7913, 99, 32, 273, 7847, 121, 32, 273, 7911, 32, 116, 7915, 32, 118, 105, 100, 101, 111, 32, 110, 224, 121, 46])]"

definition recipe_no_ingredients_texts :: "(string \<times> utext) list" where
  "recipe_no_ingredients_texts = [
    (''ar'', [1607, 1584, 1575, 32, 1575, 1604, 1601, 1610, 1583, 1610, 1608, 32, 1604, 1575, 32, 1610, 1578, 1590, 1605, 1606, 32, 1602, 1575, 1574, 1605, 1577, 32, 1605, 1603, 1608, 1606, 1575, 1578, 32, 1608, 1575, 1590, 1581, 1577, 46]),
    (''bn'', [2447, 2439, 32, 2477, 2495, 2465, 2495, 2451, 2468, 2503, 32, 2488, 2509, 2474, 2487, 2509, 2463, 32, 2441, 2474, 2453, 2480, 2467, 2503, 2480, 32, 2468, 2494, 2482, 2495, 2453, 2494, 32, 2472, 2503, 2439, 2404]),
    (''ca'', [65, 113, 117, 101, 115, 116, 32, 118, 237, 100, 101, 111, 32, 110, 111, 32, 105, 110, 99, 108, 111, 117, 32, 117, 110, 97, 32, 108, 108, 105, 115, 116, 97, 32, 99, 108, 97, 114, 97, 32, 100, 39, 105, 110, 103, 114, 101, 100, 105, 101, 110, 116, 115, 46]),
    (''zh-Hans'', [36825, 20010, 35270, 39057, 27809, 26377, 28165, 26224, 30340, 39135, 26448, 28165, 21333, 12290]),
    (''zh-Hant'', [36889, 20491, 24433, 29255, 27794, 26377, 28165, 26970, 30340, 39135, 26448, 28165, 21934, 12290]),
    (''hr'', latin ''Ovaj video nema jasan popis sastojaka.''),
    (''cs'', [84, 111, 116, 111, 32, 118, 105, 100, 101, 111, 32, 110, 101, 111, 98, 115, 97, 104, 117, 106, 101, 32, 106, 97, 115, 110, 253, 32, 115, 101, 122, 110, 97, 109, 32, 115, 117, 114, 111, 118, 105, 110, 46]),
    (''da'', latin ''Denne video mangler en tydelig ingrediensliste.''),
    (''nl'', [68, 101, 122, 101, 32, 118, 105, 100, 101, 111, 32, 109, 105, 115, 116, 32, 101, 101, 110, 32, 100, 117, 105, 100, 101, 108, 105, 106, 107, 101, 32, 105, 110, 103, 114, 101, 100, 105, 235, 110, 116, 101, 110, 108, 105, 106, 115, 116, 46]),
    (''en-AU'', latin recipe_no_ingredients),
    (''en-CA'', latin recipe_no_ingredients),
    (''en-GB'', latin recipe_no_ingredients),
    (''en-US'', latin recipe_no_ingredients),
    (''fi'', [84, 228, 115, 116, 228, 32, 118, 105, 100, 101, 111, 115, 116, 97, 32, 112, 117, 117, 116, 116, 117, 117, 32, 115, 101, 108, 107, 101, 228, 32, 97, 105, 110, 101, 115, 108, 117, 101, 116, 116, 101, 108, 111, 46]),
    (''fr-FR'', [67, 101, 116, 116, 101, 32, 118, 105, 100, 233, 111, 32, 110, 39, 105, 110, 99, 108, 117, 116, 32, 112, 97, 115, 32, 100, 101, 32, 108, 105, 115, 116, 101, 32, 100, 39, 105, 110, 103, 114, 233, 100, 105, 101, 110, 116, 115, 32, 99, 108, 97, 105, 114, 101, 46]),
    (''fr-CA'', [67, 101, 116, 116, 101, 32, 118, 105, 100, 233, 111, 32, 110, 39, 105, 110, 99, 108, 117, 116, 32, 112, 97, 115, 32, 100, 101, 32, 108, 105, 115, 116, 101, 32, 100, 39, 105, 110, 103, 114, 233, 100, 105, 101, 110, 116, 115, 32, 99, 108, 97, 105, 114, 101, 46]),
    (''de'', latin ''In diesem Video fehlt eine klare Zutatenliste.''),
    (''el'', [913, 965, 964, 972, 32, 964, 959, 32, 946, 943, 957, 964, 949, 959, 32, 948, 949, 957, 32, 960, 949, 961, 953, 955, 945, 956, 946, 940, 957, 949, 953, 32, 963, 945, 966, 942, 32, 955, 943, 963, 964, 945, 32, 965, 955, 953, 954, 974, 957, 46]),
    (''gu'', [2694, 32, 2741, 2752, 2721, 2751, 2735, 2750, 2734, 2750, 2690, 32, 2744, 2765, 2730, 2743, 2765, 2719, 32, 2712, 2719, 2709, 2763, 2728, 2752, 32, 2735, 2750, 2726, 2752, 32, 2728, 2725, 2752, 46]),
    (''he'', [1489, 1505, 1512, 1496, 1493, 1503, 32, 1492, 1494, 1492, 32, 1488, 1497, 1503, 32, 1512, 1513, 1497, 1502, 1514, 32, 1502, 1512, 1499, 1497, 1489, 1497, 1501, 32, 1489, 1512, 1493, 1512, 1492, 46]),
    (''hi'', [2311, 2360, 32, 2357, 2368, 2337, 2367, 2351, 2379, 32, 2350, 2375, 2306, 32, 2360, 2366, 2350, 2327, 2381, 2352, 2368, 32, 2325, 2368, 32, 2360, 2381, 2346, 2359, 2381, 2335, 32, 2360, 2370, 2330, 2368, 32, 2344, 2361, 2368, 2306, 32, 2361, 2376, 2404]),
    (''hu'', [69, 98, 98, 101, 110, 32, 97, 32, 118, 105, 100, 101, 243, 98, 97, 110, 32, 110, 105, 110, 99, 115, 32, 101, 103, 121, 233, 114, 116, 101, 108, 109, 369, 32, 104, 111, 122, 122, 225, 118, 97, 108, 243, 108, 105, 115, 116, 97, 46]),
    (''id'', latin ''Video ini tidak memiliki daftar bahan yang jelas.''),
    (''it'', latin ''Questo video non include un elenco chiaro di ingredienti.''),
    (''ja'', [12371, 12398, 21205, 30011, 12395, 12399, 26126, 30906, 12394, 26448, 26009, 12522, 12473, 12488, 12364, 12354, 12426, 12414, 12379, 12435, 12290]),
    (''kn'', [3208, 32, 3253, 3264, 3233, 3263, 3247, 3274, 3238, 3250, 3277, 3250, 3263, 32, 3256, 3277, 3242, 3255, 3277, 3231, 32, 3242, 3238, 3262, 3248, 3277, 3237, 3223, 3251, 32, 3242, 3231, 3277, 3231, 3263, 32, 3207, 3250, 3277, 3250, 46]),
    (''ko'', [51060, 32, 50689, 49345, 50640, 45716, 32, 47749, 54869, 54620, 32, 51116, 47308, 32, 47785, 47197, 51060, 32, 50630, 49845, 45768, 45796, 46]),
    (''ms'', latin ''Video ini tiada senarai bahan yang jelas.''),
    (''ml'', [3336, 32, 3381, 3392, 3361, 3391, 3375, 3403, 3375, 3391, 3453, 32, 3381, 3405, 3375, 3349, 3405, 3364, 3374, 3390, 3375, 32, 3354, 3399, 3376, 3393, 3381, 3349, 3379, 3393, 3359, 3398, 32, 3370, 3359, 3405, 3359, 3391, 3349, 3375, 3391, 3378, 3405, 3378, 46]),
    (''mr'', [2351, 2366, 32, 2357, 2381, 2361, 2367, 2337, 2367, 2323, 2350, 2343, 2381, 2351, 2375, 32, 2360, 2381, 2346, 2359, 2381, 2335, 32, 2360, 2366, 2361, 2367, 2340, 2381, 2351, 32, 2351, 2366, 2342, 2368, 32, 2344, 2366, 2361, 2368, 46]),
    (''nb'', latin ''Denne videoen mangler en tydelig ingrediensliste.''),
    (''or'', [2831, 2873, 2879, 32, 2861, 2879, 2849, 2879, 2835, 2864, 2887, 32, 2872, 2893, 2858, 2871, 2893, 2847, 32, 2825, 2858, 2878, 2854, 2878, 2856, 32, 2852, 2878, 2866, 2879, 2837, 2878, 32, 2856, 2878, 2873, 2879, 2817, 2404]),
    (''pl'', [87, 32, 116, 121, 109, 32, 102, 105, 108, 109, 105, 101, 32, 98, 114, 97, 107, 117, 106, 101, 32, 119, 121, 114, 97, 378, 110, 101, 106, 32, 108, 105, 115, 116, 121, 32, 115, 107, 322, 97, 100, 110, 105, 107, 243, 119, 46]),
    (''pt-BR'', [69, 115, 116, 101, 32, 118, 237, 100, 101, 111, 32, 110, 227, 111, 32, 105, 110, 99, 108, 117, 105, 32, 117, 109, 97, 32, 108, 105, 115, 116, 97, 32, 99, 108, 97, 114, 97, 32, 100, 101, 32, 105, 110, 103, 114, 101, 100, 105, 101, 110, 116, 101, 115, 46]),
    (''pt-PT'', [69, 115, 116, 101, 32, 118, 237, 100, 101, 111, 32, 110, 227, 111, 32, 105, 110, 99, 108, 117, 105, 32, 117, 109, 97, 32, 108, 105, 115, 116, 97, 32, 99, 108, 97, 114, 97, 32, 100, 101, 32, 105, 110, 103, 114, 101, 100, 105, 101, 110, 116, 101, 115, 46]),
    (''pa'', [2567, 2616, 32, 2613, 2624, 2593, 2624, 2579, 32, 2613, 2623, 2673, 2586, 32, 2616, 2606, 2673, 2583, 2608, 2624, 32, 2598, 2624, 32, 2616, 2602, 2616, 2620, 2591, 32, 2616, 2626, 2586, 2624, 32, 2600, 2617, 2624, 2562, 32, 2617, 2632, 2404]),
    (''ro'', [65, 99, 101, 115, 116, 32, 118, 105, 100, 101, 111, 32, 110, 117, 32, 105, 110, 99, 108, 117, 100, 101, 32, 111, 32, 108, 105, 115, 116, 259, 32, 99, 108, 97, 114, 259, 32, 100, 101, 32, 105, 110, 103, 114, 101, 100, 105, 101, 110, 116, 101, 46]),
    (''ru'', [1042, 32, 1101, 1090, 1086, 1084, 32, 1074, 1080, 1076, 1077, 1086, 32, 1085, 1077, 1090, 32, 1087, 1086, 1085, 1103, 1090, 1085, 1086, 1075, 1086, 32, 1089, 1087, 1080, 1089, 1082, 1072, 32, 1080, 1085, 1075, 1088, 1077, 1076, 1080, 1077, 1085, 1090, 1086, 1074, 46]),
    (''sk'', [84, 111, 116, 111, 32, 118, 105, 100, 101, 111, 32, 110, 101, 111, 98, 115, 97, 104, 117, 106, 101, 32, 106, 97, 115, 110, 253, 32, 122, 111, 122, 110, 97, 109, 32, 115, 117, 114, 111, 118, 237, 110, 46]),
    (''sl'', latin ''Ta videoposnetek nima jasnega seznama sestavin.''),
    (''es-MX'', latin ''Este video no incluye una lista clara de ingredientes.''),
    (''es-ES'', [69, 115, 116, 101, 32, 118, 237, 100, 101, 111, 32, 110, 111, 32, 105, 110, 99, 108, 117, 121, 101, 32, 117, 110, 97, 32, 108, 105, 115, 116, 97, 32, 99, 108, 97, 114, 97, 32, 100, 101, 32, 105, 110, 103, 114, 101, 100, 105, 101, 110, 116, 101, 115, 46]),
    (''sv'', [68, 101, 110, 32, 104, 228, 114, 32, 118, 105, 100, 101, 111, 110, 32, 115, 97, 107, 110, 97, 114, 32, 101, 110, 32, 116, 121, 100, 108, 105, 103, 32, 105, 110, 103, 114, 101, 100, 105, 101, 110, 115, 108, 105, 115, 116, 97, 46]),
    (''ta'', [2951, 2984, 3021, 2980, 32, 2997, 3008, 2975, 3007, 2991, 3019, 2997, 3007, 2994, 3021, 32, 2980, 3014, 2995, 3007, 2997, 3006, 2985, 32, 2986, 3018, 2992, 3009, 2975, 3021, 2965, 2995, 3021, 32, 2986, 2975, 3021, 2975, 3007, 2991, 2994, 3021, 32, 2951, 2994, 3021, 2994, 3016, 46]),
    (''te'', [3080, 32, 3125, 3136, 3105, 3135, 3119, 3147, 3122, 3147, 32, 3128, 3149, 3114, 3127, 3149, 3103, 3118, 3144, 3112, 32, 3114, 3110, 3134, 3120, 3149, 3109, 3134, 3122, 32, 3100, 3134, 3116, 3135, 3108, 3134, 32, 3122, 3143, 3110, 3137, 46]),
    (''th'', [3623, 3636, 3604, 3637, 3650, 3629, 3609, 3637, 3657, 3652, 3617, 3656, 3617, 3637, 3619, 3634, 3618, 3585, 3634, 3619, 3626, 3656, 3623, 3609, 3612, 3626, 3617, 3607, 3637, 3656, 3594, 3633, 3604, 3648, 3592, 3609]),
    (''tr'', latin ''Bu videoda net bir malzeme listesi yok.''),
    (''uk'', [1059, 32, 1094, 1100, 1086, 1084, 1091, 32, 1074, 1110, 1076, 1077, 1086, 32, 1085, 1077, 1084, 1072, 1108, 32, 1095, 1110, 1090, 1082, 1086, 1075, 1086, 32, 1089, 1087, 1080, 1089, 1082, 1091, 32, 1110, 1085, 1075, 1088, 1077, 1076, 1110, 1108, 1085, 1090, 1110, 1074, 46]),
    (''ur'', [1575, 1587, 32, 1608, 1740, 1672, 1740, 1608, 32, 1605, 1740, 1722, 32, 1575, 1580, 1586, 1575, 1569, 32, 1705, 1740, 32, 1608, 1575, 1590, 1581, 32, 1601, 1729, 1585, 1587, 1578, 32, 1606, 1729, 1740, 1722, 32, 1729, 1746, 1748]),
    (''vi'', [86, 105, 100, 101, 111, 32, 110, 224, 121, 32, 116, 104, 105, 7871, 117, 32, 100, 97, 110, 104, 32, 115, 225, 99, 104, 32, 110, 103, 117, 121, 234, 110, 32, 108, 105, 7879, 117, 32, 114, 245, 32, 114, 224, 110, 103, 46])]"

definition recipe_no_method_texts :: "(string \<times> utext) list" where
  "recipe_no_method_texts = [
    (''ar'', [1607, 1584, 1575, 32, 1575, 1604, 1601, 1610, 1583, 1610, 1608, 32, 1604, 1575, 32, 1610, 1578, 1590, 1605, 1606, 32, 1582, 1591, 1608, 1575, 1578, 32, 1578, 1581, 1590, 1610, 1585, 32, 1608, 1575, 1590, 1581, 1577, 46]),
    (''bn'', [2447, 2439, 32, 2477, 2495, 2465, 2495, 2451, 2468, 2503, 32, 2480, 2494, 2472, 2509, 2472, 2494, 2480, 32, 2488, 2509, 2474, 2487, 2509, 2463, 32, 2471, 2494, 2474, 32, 2472, 2503, 2439, 2404]),
    (''ca'', [65, 113, 117, 101, 115, 116, 32, 118, 237, 100, 101, 111, 32, 110, 111, 32, 105, 110, 99, 108, 111, 117, 32, 112, 97, 115, 115, 111, 115, 32, 100, 101, 32, 99, 111, 99, 99, 105, 243, 32, 99, 108, 97, 114, 115, 46]),
    (''zh-Hans'', [36825, 20010, 35270, 39057, 27809, 26377, 28165, 26224, 30340, 28921, 39274, 27493, 39588, 12290]),
    (''zh-Hant'', [36889, 20491, 24433, 29255, 27794, 26377, 28165, 26970, 30340, 28921, 39146, 27493, 39519, 12290]),
    (''hr'', latin ''Ovaj video nema jasne korake pripreme.''),
    (''cs'', [84, 111, 116, 111, 32, 118, 105, 100, 101, 111, 32, 110, 101, 111, 98, 115, 97, 104, 117, 106, 101, 32, 106, 97, 115, 110, 233, 32, 112, 111, 115, 116, 117, 112, 121, 32, 112, 345, 237, 112, 114, 97, 118, 121, 46]),
    (''da'', latin ''Denne video mangler tydelige tilberedningstrin.''),
    (''nl'', latin ''Deze video mist duidelijke bereidingsstappen.''),
    (''en-AU'', latin recipe_no_method),
    (''en-CA'', latin recipe_no_method),
    (''en-GB'', latin recipe_no_method),
    (''en-US'', latin recipe_no_method),
    (''fi'', [84, 228, 115, 116, 228, 32, 118, 105, 100, 101, 111, 115, 116, 97, 32, 112, 117, 117, 116, 116, 117, 118, 97, 116, 32, 115, 101, 108, 107, 101, 228, 116, 32, 118, 97, 108, 109, 105, 115, 116, 117, 115, 111, 104, 106, 101, 101, 116, 46]),
    (''fr-FR'', [67, 101, 116, 116, 101, 32, 118, 105, 100, 233, 111, 32, 110, 39, 105, 110, 99, 108, 117, 116, 32, 112, 97, 115, 32, 100, 39, 233, 116, 97, 112, 101, 115, 32, 100, 101, 32, 112, 114, 233, 112, 97, 114, 97, 116, 105, 111, 110, 32, 99, 108, 97, 105, 114, 101, 115, 46]),
    (''fr-CA'', [67, 101, 116, 116, 101, 32, 118, 105, 100, 233, 111, 32, 110, 39, 105, 110, 99, 108, 117, 116, 32, 112, 97, 115, 32, 100, 39, 233, 116, 97, 112, 101, 115, 32, 100, 101, 32, 112, 114, 233, 112, 97, 114, 97, 116, 105, 111, 110, 32, 99, 108, 97, 105, 114, 101, 115, 46]),
    (''de'', latin ''In diesem Video fehlen klare Zubereitungsschritte.''),
    (''el'', [913, 965, 964, 972, 32, 964, 959, 32, 946, 943, 957, 964, 949, 959, 32, 948, 949, 957, 32, 960, 949, 961, 953, 955, 945, 956, 946, 940, 957, 949, 953, 32, 963, 945, 966, 942, 32, 946, 942, 956, 945, 964, 945, 32, 956, 945, 947, 949, 953, 961, 941, 956, 945, 964, 959, 962, 46]),
    (''gu'', [2694, 32, 2741, 2752, 2721, 2751, 2735, 2750, 2734, 2750, 2690, 32, 2736, 2744, 2763, 2696, 2728, 2750, 32, 2744, 2765, 2730, 2743, 2765, 2719, 32, 2730, 2711, 2738, 2750, 2690, 32, 2728, 2725, 2752, 46]),
    (''he'', [1489, 1505, 1512, 1496, 1493, 1503, 32, 1492, 1494, 1492, 32, 1488, 1497, 1503, 32, 1513, 1500, 1489, 1497, 32, 1492, 1499, 1504, 1492, 32, 1489, 1512, 1493, 1512, 1497, 1501, 46]),
    (''hi'', [2311, 2360, 32, 2357, 2368, 2337, 2367, 2351, 2379, 32, 2350, 2375, 2306, 32, 2346, 2325, 2366, 2344, 2375, 32, 2325, 2375, 32, 2360, 2381, 2346, 2359, 2381, 2335, 32, 2330, 2352, 2339, 32, 2344, 2361, 2368, 2306, 32, 2361, 2376, 2306, 2404]),
    (''hu'', [69, 98, 98, 101, 110, 32, 97, 32, 118, 105, 100, 101, 243, 98, 97, 110, 32, 110, 105, 110, 99, 115, 101, 110, 101, 107, 32, 101, 103, 121, 233, 114, 116, 101, 108, 109, 369, 32, 101, 108, 107, 233, 115, 122, 237, 116, 233, 115, 105, 32, 108, 233, 112, 233, 115, 101, 107, 46]),
    (''id'', latin ''Video ini tidak memiliki langkah memasak yang jelas.''),
    (''it'', latin ''Questo video non include passaggi di cottura chiari.''),
    (''ja'', [12371, 12398, 21205, 30011, 12395, 12399, 26126, 30906, 12394, 20316, 12426, 26041, 12398, 25163, 38918, 12364, 12354, 12426, 12414, 12379, 12435, 12290]),
    (''kn'', [3208, 32, 3253, 3264, 3233, 3263, 3247, 3274, 3238, 3250, 3277, 3250, 3263, 32, 3256, 3277, 3242, 3255, 3277, 3231, 32, 3205, 3233, 3265, 3223, 3270, 32, 3257, 3202, 3236, 3223, 3251, 3263, 3250, 3277, 3250, 46]),
    (''ko'', [51060, 32, 50689, 49345, 50640, 45716, 32, 47749, 54869, 54620, 32, 51312, 47532, 32, 45800, 44228, 44032, 32, 50630, 49845, 45768, 45796, 46]),
    (''ms'', latin ''Video ini tiada langkah memasak yang jelas.''),
    (''ml'', [3336, 32, 3381, 3392, 3361, 3391, 3375, 3403, 3375, 3391, 3453, 32, 3381, 3405, 3375, 3349, 3405, 3364, 3374, 3390, 3375, 32, 3370, 3390, 3354, 3349, 32, 3352, 3359, 3405, 3359, 3353, 3405, 3353, 3379, 3391, 3378, 3405, 3378, 46]),
    (''mr'', [2351, 2366, 32, 2357, 2381, 2361, 2367, 2337, 2367, 2323, 2350, 2343, 2381, 2351, 2375, 32, 2360, 2381, 2357, 2351, 2306, 2346, 2366, 2325, 2366, 2330, 2375, 32, 2360, 2381, 2346, 2359, 2381, 2335, 32, 2335, 2346, 2381, 2346, 2375, 32, 2344, 2366, 2361, 2368, 2340, 46]),
    (''nb'', latin ''Denne videoen mangler tydelige tilberedningstrinn.''),
    (''or'', [2831, 2873, 2879, 32, 2861, 2879, 2849, 2879, 2835, 2864, 2887, 32, 2864, 2891, 2871, 2887, 2823, 2864, 32, 2872, 2893, 2858, 2871, 2893, 2847, 32, 2858, 2854, 2837, 2893, 2871, 2887, 2858, 32, 2856, 2878, 2873, 2879, 2817, 2404]),
    (''pl'', [87, 32, 116, 121, 109, 32, 102, 105, 108, 109, 105, 101, 32, 98, 114, 97, 107, 117, 106, 101, 32, 119, 121, 114, 97, 378, 110, 121, 99, 104, 32, 107, 114, 111, 107, 243, 119, 32, 112, 114, 122, 121, 103, 111, 116, 111, 119, 97, 110, 105, 97, 46]),
    (''pt-BR'', [69, 115, 116, 101, 32, 118, 237, 100, 101, 111, 32, 110, 227, 111, 32, 105, 110, 99, 108, 117, 105, 32, 101, 116, 97, 112, 97, 115, 32, 100, 101, 32, 112, 114, 101, 112, 97, 114, 111, 32, 99, 108, 97, 114, 97, 115, 46]),
    (''pt-PT'', [69, 115, 116, 101, 32, 118, 237, 100, 101, 111, 32, 110, 227, 111, 32, 105, 110, 99, 108, 117, 105, 32, 112, 97, 115, 115, 111, 115, 32, 100, 101, 32, 112, 114, 101, 112, 97, 114, 97, 231, 227, 111, 32, 99, 108, 97, 114, 111, 115, 46]),
    (''pa'', [2567, 2616, 32, 2613, 2624, 2593, 2624, 2579, 32, 2613, 2623, 2673, 2586, 32, 2602, 2581, 2622, 2569, 2595, 32, 2598, 2631, 32, 2616, 2602, 2616, 2620, 2591, 32, 2581, 2598, 2606, 32, 2600, 2617, 2624, 2562, 32, 2617, 2600, 2404]),
    (''ro'', [65, 99, 101, 115, 116, 32, 118, 105, 100, 101, 111, 32, 110, 117, 32, 105, 110, 99, 108, 117, 100, 101, 32, 112, 97, 537, 105, 32, 99, 108, 97, 114, 105, 32, 100, 101, 32, 112, 114, 101, 112, 97, 114, 97, 114, 101, 46]),
    (''ru'', [1042, 32, 1101, 1090, 1086, 1084, 32, 1074, 1080, 1076, 1077, 1086, 32, 1085, 1077, 1090, 32, 1087, 1086, 1085, 1103, 1090, 1085, 1099, 1093, 32, 1096, 1072, 1075, 1086, 1074, 32, 1087, 1088, 1080, 1075, 1086, 1090, 1086, 1074, 1083, 1077, 1085, 1080, 1103, 46]),
    (''sk'', [84, 111, 116, 111, 32, 118, 105, 100, 101, 111, 32, 110, 101, 111, 98, 115, 97, 104, 117, 106, 101, 32, 106, 97, 115, 110, 233, 32, 107, 114, 111, 107, 121, 32, 112, 114, 237, 112, 114, 97, 118, 121, 46]),
    (''sl'', latin ''Ta videoposnetek nima jasnih korakov priprave.''),
    (''es-MX'', [69, 115, 116, 101, 32, 118, 105, 100, 101, 111, 32, 110, 111, 32, 105, 110, 99, 108, 117, 121, 101, 32, 112, 97, 115, 111, 115, 32, 100, 101, 32, 99, 111, 99, 99, 105, 243, 110, 32, 99, 108, 97, 114, 111, 115, 46]),
    (''es-ES'', [69, 115, 116, 101, 32, 118, 237, 100, 101, 111, 32, 110, 111, 32, 105, 110, 99, 108, 117, 121, 101, 32, 112, 97, 115, 111, 115, 32, 100, 101, 32, 99, 111, 99, 99, 105, 243, 110, 32, 99, 108, 97, 114, 111, 115, 46]),
    (''sv'', [68, 101, 110, 32, 104, 228, 114, 32, 118, 105, 100, 101, 111, 110, 32, 115, 97, 107, 110, 97, 114, 32, 116, 121, 100, 108, 105, 103, 97, 32, 116, 105, 108, 108, 97, 103, 110, 105, 110, 103, 115, 115, 116, 101, 103, 46]),
    (''ta'', [2951, 2984, 3021, 2980, 32, 2997, 3008, 2975, 3007, 2991, 3019, 2997, 3007, 2994, 3021, 32, 2980, 3014, 2995, 3007, 2997, 3006, 2985, 32, 2970, 2990, 3016, 2991, 2994, 3021, 32, 2986, 2975, 3007, 2965, 2995, 3021, 32, 2951, 2994, 3021, 2994, 3016, 46]),
    (''te'', [3080, 32, 3125, 3136, 3105, 3135, 3119, 3147, 3122, 3147, 32, 3128, 3149, 3114, 3127, 3149, 3103, 3118, 3144, 3112, 32, 3125, 3074, 3103, 32, 3110, 3126, 3122, 3137, 32, 3122, 3143, 3125, 3137, 46]),
    (''th'', [3623, 3636, 3604, 3637, 3650, 3629, 3609, 3637, 3657, 3652, 3617, 3656, 3617, 3637, 3586, 3633, 3657, 3609, 3605, 3629, 3609, 3585, 3634, 3619, 3607, 3635, 3629, 3634, 3627, 3634, 3619, 3607, 3637, 3656, 3594, 3633, 3604, 3648, 3592, 3609]),
    (''tr'', [66, 117, 32, 118, 105, 100, 101, 111, 100, 97, 32, 110, 101, 116, 32, 112, 105, 351, 105, 114, 109, 101, 32, 97, 100, 305, 109, 108, 97, 114, 305, 32, 121, 111, 107, 46]),
    (''uk'', [1059, 32, 1094, 1100, 1086, 1084, 1091, 32, 1074, 1110, 1076, 1077, 1086, 32, 1085, 1077, 1084, 1072, 1108, 32, 1095, 1110, 1090, 1082, 1080, 1093, 32, 1082, 1088, 1086, 1082, 1110, 1074, 32, 1087, 1088, 1080, 1075, 1086, 1090, 1091, 1074, 1072, 1085, 1085, 1103, 46]),
    (''ur'', [1575, 1587, 32, 1608, 1740, 1672, 1740, 1608, 32, 1605, 1740, 1722, 32, 1662, 1705, 1575, 1606, 1746, 32, 1705, 1746, 32, 1608, 1575, 1590, 1581, 32, 1605, 1585, 1575, 1581, 1604, 32, 1606, 1729, 1740, 1722, 32, 1729, 1740, 1722, 1748]),
    (''vi'', [86, 105, 100, 101, 111, 32, 110, 224, 121, 32, 116, 104, 105, 7871, 117, 32, 99, 225, 99, 32, 98, 432, 7899, 99, 32, 110, 7845, 117, 32, 114, 245, 32, 114, 224, 110, 103, 46])]"

definition link_in_bio_texts :: "(string \<times> utext) list" where
  "link_in_bio_texts = [
    (''ar'', [1585, 1575, 1576, 1591, 32, 1575, 1604, 1608, 1589, 1601, 1577, 32, 1601, 1610, 32, 1575, 1604, 1576, 1575, 1610, 1608, 46, 32, 1575, 1601, 1578, 1581, 32, 1605, 1604, 1601, 32, 1575, 1604, 1605, 1606, 1588, 1574, 32, 1604, 1604, 1575, 1591, 1604, 1575, 1593, 32, 1593, 1604, 1609, 32, 1575, 1604, 1608, 1589, 1601, 1577, 32, 1575, 1604, 1603, 1575, 1605, 1604, 1577, 46]),
    (''bn'', [2480, 2503, 2488, 2495, 2474, 2495, 2480, 32, 2482, 2495, 2434, 2453, 32, 2476, 2494, 2479, 2492, 2507, 2468, 2503, 32, 2438, 2459, 2503, 2404, 32, 2488, 2478, 2509, 2474, 2498, 2480, 2509, 2467, 32, 2480, 2503, 2488, 2495, 2474, 2495, 2480, 32, 2460, 2472, 2509, 2479, 32, 2453, 2509, 2480, 2495, 2479, 2492, 2503, 2463, 2480, 2503, 2480, 32, 2474, 2509, 2480, 2507, 2475, 2494, 2439, 2482, 32, 2470, 2503, 2454, 2497, 2472, 2404]),
    (''ca'', [76, 39, 101, 110, 108, 108, 97, 231, 32, 100, 101, 32, 108, 97, 32, 114, 101, 99, 101, 112, 116, 97, 32, 233, 115, 32, 97, 108, 32, 98, 105, 111, 46, 32, 79, 98, 114, 101, 32, 101, 108, 32, 112, 101, 114, 102, 105, 108, 32, 100, 101, 108, 32, 99, 114, 101, 97, 100, 111, 114, 32, 112, 101, 114, 32, 97, 32, 108, 97, 32, 114, 101, 99, 101, 112, 116, 97, 32, 99, 111, 109, 112, 108, 101, 116, 97, 46]),
    (''zh-Hans'', [23436, 25972, 39135, 35889, 22312, 31616, 20171, 38142, 25509, 20013, 12290, 35831, 25171, 24320, 21019, 20316, 32773, 20027, 39029, 26597, 30475, 12290]),
    (''zh-Hant'', [23436, 25972, 39135, 35676, 22312, 31777, 20171, 36899, 32080, 20013, 12290, 35531, 25171, 38283, 21109, 20316, 32773, 20027, 38913, 26597, 30475, 12290]),
    (''hr'', latin ''Link recepta je u bio. Otvori profil kreatora za cijeli recept.''),
    (''cs'', [79, 100, 107, 97, 122, 32, 110, 97, 32, 114, 101, 99, 101, 112, 116, 32, 106, 101, 32, 118, 32, 98, 105, 111, 46, 32, 79, 116, 101, 118, 345, 101, 116, 101, 32, 112, 114, 111, 102, 105, 108, 32, 116, 118, 367, 114, 99, 101, 32, 112, 114, 111, 32, 99, 101, 108, 253, 32, 114, 101, 99, 101, 112, 116, 46]),
    (''da'', [79, 112, 115, 107, 114, 105, 102, 116, 115, 108, 105, 110, 107, 101, 116, 32, 101, 114, 32, 105, 32, 98, 105, 111, 46, 32, 197, 98, 110, 32, 115, 107, 97, 98, 101, 114, 101, 110, 115, 32, 112, 114, 111, 102, 105, 108, 32, 102, 111, 114, 32, 100, 101, 110, 32, 102, 117, 108, 100, 101, 32, 111, 112, 115, 107, 114, 105, 102, 116, 46]),
    (''nl'', latin ''Receptlink staat in de bio. Open het profiel van de maker voor het volledige recept.''),
    (''en-AU'', latin link_in_bio),
    (''en-CA'', latin link_in_bio),
    (''en-GB'', latin link_in_bio),
    (''en-US'', latin link_in_bio),
    (''fi'', [82, 101, 115, 101, 112, 116, 105, 108, 105, 110, 107, 107, 105, 32, 111, 110, 32, 98, 105, 111, 115, 115, 97, 46, 32, 65, 118, 97, 97, 32, 116, 101, 107, 105, 106, 228, 110, 32, 112, 114, 111, 102, 105, 105, 108, 105, 32, 115, 97, 97, 100, 97, 107, 115, 101, 115, 105, 32, 107, 111, 107, 111, 32, 114, 101, 115, 101, 112, 116, 105, 110, 46]),
    (''fr-FR'', [76, 101, 32, 108, 105, 101, 110, 32, 100, 101, 32, 108, 97, 32, 114, 101, 99, 101, 116, 116, 101, 32, 101, 115, 116, 32, 100, 97, 110, 115, 32, 108, 97, 32, 98, 105, 111, 46, 32, 79, 117, 118, 114, 101, 122, 32, 108, 101, 32, 112, 114, 111, 102, 105, 108, 32, 100, 117, 32, 99, 114, 233, 97, 116, 101, 117, 114, 32, 112, 111, 117, 114, 32, 108, 97, 32, 114, 101, 99, 101, 116, 116, 101, 32, 99, 111, 109, 112, 108, 232, 116, 101, 46]),
    (''fr-CA'', [76, 101, 32, 108, 105, 101, 110, 32, 100, 101, 32, 108, 97, 32, 114, 101, 99, 101, 116, 116, 101, 32, 101, 115, 116, 32, 100, 97, 110, 115, 32, 108, 97, 32, 98, 105, 111, 46, 32, 79, 117, 118, 114, 101, 122, 32, 108, 101, 32, 112, 114, 111, 102, 105, 108, 32, 100, 117, 32, 99, 114, 233, 97, 116, 101, 117, 114, 32, 112, 111, 117, 114, 32, 108, 97, 32, 114, 101, 99, 101, 116, 116, 101, 32, 99, 111, 109, 112, 108, 232, 116, 101, 46]),
    (''de'', [82, 101, 122, 101, 112, 116, 108, 105, 110, 107, 32, 105, 110, 32, 100, 101, 114, 32, 66, 105, 111, 46, 32, 214, 102, 102, 110, 101, 32, 100, 97, 115, 32, 67, 114, 101, 97, 116, 111, 114, 45, 80, 114, 111, 102, 105, 108, 32, 102, 252, 114, 32, 100, 97, 115, 32, 118, 111, 108, 108, 115, 116, 228, 110, 100, 105, 103, 101, 32, 82, 101, 122, 101, 112, 116, 46]),
    (''el'', [927, 32, 963, 973, 957, 948, 949, 963, 956, 959, 962, 32, 964, 951, 962, 32, 963, 965, 957, 964, 945, 947, 942, 962, 32, 949, 943, 957, 945, 953, 32, 963, 964, 959, 32, 98, 105, 111, 46, 32, 902, 957, 959, 953, 958, 949, 32, 964, 959, 32, 960, 961, 959, 966, 943, 955, 32, 964, 959, 965, 32, 948, 951, 956, 953, 959, 965, 961, 947, 959, 973, 32, 947, 953, 945, 32, 964, 951, 957, 32, 960, 955, 942, 961, 951, 32, 963, 965, 957, 964, 945, 947, 942, 46]),
    (''gu'', [2736, 2759, 2744, 2752, 2730, 2752, 2728, 2752, 32, 2738, 2751, 2690, 2709, 32, 2732, 2750, 2735, 2763, 2734, 2750, 2690, 32, 2715, 2759, 46, 32, 2744, 2690, 2730, 2754, 2736, 2765, 2723, 32, 2736, 2759, 2744, 2752, 2730, 2752, 32, 2734, 2750, 2719, 2759, 32, 2709, 2765, 2736, 2751, 2703, 2719, 2736, 2728, 2752, 32, 2730, 2765, 2736, 2763, 2731, 2750, 2695, 2738, 32, 2710, 2763, 2738, 2763, 46]),
    (''he'', [1511, 1497, 1513, 1493, 1512, 32, 1500, 1502, 1514, 1499, 1493, 1503, 32, 1504, 1502, 1510, 1488, 32, 1489, 1489, 1497, 1493, 46, 32, 1508, 1514, 1495, 32, 1488, 1514, 32, 1508, 1512, 1493, 1508, 1497, 1500, 32, 1492, 1497, 1493, 1510, 1512, 32, 1500, 1502, 1514, 1499, 1493, 1503, 32, 1492, 1502, 1500, 1488, 46]),
    (''hi'', [2352, 2375, 2360, 2367, 2346, 2368, 32, 2325, 2366, 32, 2354, 2367, 2306, 2325, 32, 2348, 2366, 2351, 2379, 32, 2350, 2375, 2306, 32, 2361, 2376, 2404, 32, 2346, 2370, 2352, 2368, 32, 2352, 2375, 2360, 2367, 2346, 2368, 32, 2325, 2375, 32, 2354, 2367, 2319, 32, 2325, 2381, 2352, 2367, 2319, 2335, 2352, 32, 2325, 2368, 32, 2346, 2381, 2352, 2379, 2347, 2364, 2366, 2311, 2354, 32, 2326, 2379, 2354, 2375, 2306, 2404]),
    (''hu'', [65, 32, 114, 101, 99, 101, 112, 116, 32, 108, 105, 110, 107, 106, 101, 32, 97, 32, 98, 105, 243, 98, 97, 110, 32, 118, 97, 110, 46, 32, 78, 121, 105, 115, 100, 32, 109, 101, 103, 32, 97, 122, 32, 97, 108, 107, 111, 116, 243, 32, 112, 114, 111, 102, 105, 108, 106, 225, 116, 32, 97, 32, 116, 101, 108, 106, 101, 115, 32, 114, 101, 99, 101, 112, 116, 233, 114, 116, 46]),
    (''id'', latin ''Tautan resep ada di bio. Buka profil kreator untuk resep lengkap.''),
    (''it'', [73, 108, 32, 108, 105, 110, 107, 32, 100, 101, 108, 108, 97, 32, 114, 105, 99, 101, 116, 116, 97, 32, 232, 32, 105, 110, 32, 98, 105, 111, 46, 32, 65, 112, 114, 105, 32, 105, 108, 32, 112, 114, 111, 102, 105, 108, 111, 32, 100, 101, 108, 32, 99, 114, 101, 97, 116, 111, 114, 32, 112, 101, 114, 32, 108, 97, 32, 114, 105, 99, 101, 116, 116, 97, 32, 99, 111, 109, 112, 108, 101, 116, 97, 46]),
    (''ja'', [12524, 12471, 12500, 12398, 12522, 12531, 12463, 12399, 12503, 12525, 12501, 12451, 12540, 12523, 12395, 12354, 12426, 12414, 12377, 12290, 20316, 25104, 32773, 12398, 12503, 12525, 12501, 12451, 12540, 12523, 12434, 38283, 12356, 12390, 12367, 12384, 12373, 12356, 12290]),
    (''kn'', [3248, 3270, 3256, 3263, 3242, 3263, 32, 3250, 3263, 3202, 3221, 3277, 32, 3244, 3247, 3275, 3238, 3250, 3277, 3250, 3263, 3238, 3270, 46, 32, 3242, 3266, 3248, 3277, 3235, 32, 3248, 3270, 3256, 3263, 3242, 3263, 3223, 3262, 3223, 3263, 32, 3221, 3277, 3248, 3263, 3247, 3271, 3231, 3248, 3277, 32, 3242, 3277, 3248, 3274, 3243, 3272, 3250, 3277, 32, 3236, 3270, 3248, 3270, 3247, 3263, 3248, 3263, 46]),
    (''ko'', [47112, 49884, 54588, 32, 47553, 53356, 44032, 32, 49548, 44060, 50640, 32, 51080, 49845, 45768, 45796, 46, 32, 51204, 52404, 32, 47112, 49884, 54588, 45716, 32, 53356, 47532, 50640, 51060, 53552, 32, 54532, 47196, 54596, 50640, 49436, 32, 54869, 51064, 54616, 49464, 50836, 46]),
    (''ms'', latin ''Pautan resipi ada dalam bio. Buka profil pencipta untuk resipi penuh.''),
    (''ml'', [3370, 3390, 3354, 3349, 3349, 3405, 3349, 3393, 3377, 3391, 3370, 3405, 3370, 3405, 32, 3378, 3391, 3353, 3405, 3349, 3405, 32, 3372, 3375, 3403, 3375, 3391, 3378, 3393, 3363, 3405, 3359, 3405, 46, 32, 3370, 3394, 3452, 3363, 3405, 3363, 32, 3370, 3390, 3354, 3349, 3349, 3405, 3349, 3393, 3377, 3391, 3370, 3405, 3370, 3391, 3368, 3405, 32, 3349, 3405, 3376, 3391, 3375, 3399, 3377, 3405, 3377, 3452, 32, 3370, 3405, 3376, 3402, 3371, 3400, 3453, 32, 3364, 3393, 3377, 3349, 3405, 3349, 3393, 3349, 46]),
    (''mr'', [2352, 2375, 2360, 2367, 2346, 2368, 2330, 2368, 32, 2354, 2367, 2306, 2325, 32, 2348, 2366, 2351, 2379, 2350, 2343, 2381, 2351, 2375, 32, 2310, 2361, 2375, 46, 32, 2346, 2370, 2352, 2381, 2339, 32, 2352, 2375, 2360, 2367, 2346, 2368, 2360, 2366, 2336, 2368, 32, 2325, 2381, 2352, 2367, 2319, 2335, 2352, 32, 2346, 2381, 2352, 2379, 2347, 2366, 2311, 2354, 32, 2313, 2328, 2337, 2366, 46]),
    (''nb'', [79, 112, 112, 115, 107, 114, 105, 102, 116, 115, 108, 101, 110, 107, 101, 110, 32, 101, 114, 32, 105, 32, 98, 105, 111, 46, 32, 197, 112, 110, 101, 32, 115, 107, 97, 112, 101, 114, 101, 110, 115, 32, 112, 114, 111, 102, 105, 108, 32, 102, 111, 114, 32, 104, 101, 108, 101, 32, 111, 112, 112, 115, 107, 114, 105, 102, 116, 101, 110, 46]),
    (''or'', [2864, 2887, 2872, 2879, 2858, 2879, 32, 2866, 2879, 2841, 2893, 2837, 2893, 32, 2860, 2878, 2911, 2891, 2864, 2887, 32, 2821, 2843, 2879, 2404, 32, 2872, 2862, 2893, 2858, 2882, 2864, 2893, 2851, 2893, 2851, 32, 2864, 2887, 2872, 2879, 2858, 2879, 32, 2858, 2878, 2823, 2817, 32, 2837, 2893, 2864, 2879, 2831, 2847, 2864, 32, 2858, 2893, 2864, 2891, 2859, 2878, 2823, 2866, 2893, 32, 2838, 2891, 2866, 2856, 2893, 2852, 2881, 2404]),
    (''pl'', [76, 105, 110, 107, 32, 100, 111, 32, 112, 114, 122, 101, 112, 105, 115, 117, 32, 106, 101, 115, 116, 32, 119, 32, 98, 105, 111, 46, 32, 79, 116, 119, 243, 114, 122, 32, 112, 114, 111, 102, 105, 108, 32, 116, 119, 243, 114, 99, 121, 44, 32, 97, 98, 121, 32, 122, 111, 98, 97, 99, 122, 121, 263, 32, 99, 97, 322, 121, 32, 112, 114, 122, 101, 112, 105, 115, 46]),
    (''pt-BR'', [79, 32, 108, 105, 110, 107, 32, 100, 97, 32, 114, 101, 99, 101, 105, 116, 97, 32, 101, 115, 116, 225, 32, 110, 97, 32, 98, 105, 111, 46, 32, 65, 98, 114, 97, 32, 111, 32, 112, 101, 114, 102, 105, 108, 32, 100, 111, 32, 99, 114, 105, 97, 100, 111, 114, 32, 112, 97, 114, 97, 32, 97, 32, 114, 101, 99, 101, 105, 116, 97, 32, 99, 111, 109, 112, 108, 101, 116, 97, 46]),
    (''pt-PT'', [65, 32, 108, 105, 103, 97, 231, 227, 111, 32, 100, 97, 32, 114, 101, 99, 101, 105, 116, 97, 32, 101, 115, 116, 225, 32, 110, 97, 32, 98, 105, 111, 46, 32, 65, 98, 114, 97, 32, 111, 32, 112, 101, 114, 102, 105, 108, 32, 100, 111, 32, 99, 114, 105, 97, 100, 111, 114, 32, 112, 97, 114, 97, 32, 97, 32, 114, 101, 99, 101, 105, 116, 97, 32, 99, 111, 109, 112, 108, 101, 116, 97, 46]),
    (''pa'', [2608, 2632, 2616, 2623, 2602, 2624, 32, 2610, 2623, 2672, 2581, 32, 2604, 2622, 2567, 2579, 32, 2613, 2623, 2673, 2586, 32, 2617, 2632, 2404, 32, 2602, 2626, 2608, 2624, 32, 2608, 2632, 2616, 2623, 2602, 2624, 32, 2610, 2568, 32, 2581, 2637, 2608, 2624, 2575, 2591, 2608, 32, 2602, 2637, 2608, 2635, 2603, 2622, 2568, 2610, 32, 2582, 2635, 2610, 2637, 2617, 2635, 2404]),
    (''ro'', [76, 105, 110, 107, 117, 108, 32, 114, 101, 539, 101, 116, 101, 105, 32, 101, 115, 116, 101, 32, 238, 110, 32, 98, 105, 111, 46, 32, 68, 101, 115, 99, 104, 105, 100, 101, 32, 112, 114, 111, 102, 105, 108, 117, 108, 32, 99, 114, 101, 97, 116, 111, 114, 117, 108, 117, 105, 32, 112, 101, 110, 116, 114, 117, 32, 114, 101, 539, 101, 116, 97, 32, 99, 111, 109, 112, 108, 101, 116, 259, 46]),
    (''ru'', [1057, 1089, 1099, 1083, 1082, 1072, 32, 1085, 1072, 32, 1088, 1077, 1094, 1077, 1087, 1090, 32, 1074, 32, 1073, 1080, 1086, 46, 32, 1054, 1090, 1082, 1088, 1086, 1081, 1090, 1077, 32, 1087, 1088, 1086, 1092, 1080, 1083, 1100, 32, 1072, 1074, 1090, 1086, 1088, 1072, 44, 32, 1095, 1090, 1086, 1073, 1099, 32, 1091, 1074, 1080, 1076, 1077, 1090, 1100, 32, 1087, 1086, 1083, 1085, 1099, 1081, 32, 1088, 1077, 1094, 1077, 1087, 1090, 46]),
    (''sk'', [79, 100, 107, 97, 122, 32, 110, 97, 32, 114, 101, 99, 101, 112, 116, 32, 106, 101, 32, 118, 32, 98, 105, 111, 46, 32, 79, 116, 118, 111, 114, 116, 101, 32, 112, 114, 111, 102, 105, 108, 32, 116, 118, 111, 114, 99, 117, 32, 112, 114, 101, 32, 99, 101, 108, 253, 32, 114, 101, 99, 101, 112, 116, 46]),
    (''sl'', latin ''Povezava do recepta je v bio. Odprite profil ustvarjalca za celoten recept.''),
    (''es-MX'', [69, 108, 32, 101, 110, 108, 97, 99, 101, 32, 100, 101, 32, 108, 97, 32, 114, 101, 99, 101, 116, 97, 32, 101, 115, 116, 225, 32, 101, 110, 32, 101, 108, 32, 98, 105, 111, 46, 32, 65, 98, 114, 101, 32, 101, 108, 32, 112, 101, 114, 102, 105, 108, 32, 100, 101, 108, 32, 99, 114, 101, 97, 100, 111, 114, 32, 112, 97, 114, 97, 32, 118, 101, 114, 108, 97, 32, 99, 111, 109, 112, 108, 101, 116, 97, 46]),
    (''es-ES'', [69, 108, 32, 101, 110, 108, 97, 99, 101, 32, 100, 101, 32, 108, 97, 32, 114, 101, 99, 101, 116, 97, 32, 101, 115, 116, 225, 32, 101, 110, 32, 101, 108, 32, 98, 105, 111, 46, 32, 65, 98, 114, 101, 32, 101, 108, 32, 112, 101, 114, 102, 105, 108, 32, 100, 101, 108, 32, 99, 114, 101, 97, 100, 111, 114, 32, 112, 97, 114, 97, 32, 118, 101, 114, 108, 97, 32, 99, 111, 109, 112, 108, 101, 116, 97, 46]),
    (''sv'', [82, 101, 99, 101, 112, 116, 108, 228, 110, 107, 101, 110, 32, 102, 105, 110, 110, 115, 32, 105, 32, 98, 105, 111, 46, 32, 214, 112, 112, 110, 97, 32, 115, 107, 97, 112, 97, 114, 101, 110, 115, 32, 112, 114, 111, 102, 105, 108, 32, 102, 246, 114, 32, 104, 101, 108, 97, 32, 114, 101, 99, 101, 112, 116, 101, 116, 46]),
    (''ta'', [2970, 3014, 2991, 3021, 2990, 3009, 2993, 3016, 32, 2951, 2979, 3016, 2986, 3021, 2986, 3009, 32, 2986, 2991, 3019, 2997, 3007, 2994, 3021, 32, 2953, 2995, 3021, 2995, 2980, 3009, 46, 32, 2990, 3009, 2996, 3009, 32, 2970, 3014, 2991, 3021, 2990, 3009, 2993, 3016, 2965, 3021, 2965, 3009, 32, 2953, 2992, 3009, 2997, 3006, 2965, 3021, 2965, 3009, 2984, 2992, 3021, 32, 2970, 3009, 2991, 2997, 3007, 2997, 2992, 2980, 3021, 2980, 3016, 2980, 3021, 32, 2980, 3007, 2993, 2965, 3021, 2965, 2997, 3009, 2990, 3021, 46]),
    (''te'', [3120, 3142, 3128, 3135, 3114, 3136, 32, 3122, 3135, 3074, 3093, 3149, 32, 3116, 3119, 3147, 3122, 3147, 32, 3081, 3074, 3110, 3135, 46, 32, 3114, 3138, 3120, 3149, 3108, 3135, 32, 3120, 3142, 3128, 3135, 3114, 3136, 3093, 3135, 32, 3093, 3149, 3120, 3135, 3119, 3143, 3103, 3120, 3149, 32, 3114, 3149, 3120, 3146, 3115, 3144, 3122, 3149, 32, 3108, 3142, 3120, 3125, 3074, 3105, 3135, 46]),
    (''th'', [3621, 3636, 3591, 3585, 3660, 3626, 3641, 3605, 3619, 3629, 3618, 3641, 3656, 3651, 3609, 3652, 3610, 3650, 3629, 32, 3648, 3611, 3636, 3604, 3650, 3611, 3619, 3652, 3615, 3621, 3660, 3588, 3619, 3637, 3648, 3629, 3648, 3605, 3629, 3619, 3660, 3648, 3614, 3639, 3656, 3629, 3604, 3641, 3626, 3641, 3605, 3619, 3648, 3605, 3655, 3617]),
    (''tr'', [84, 97, 114, 105, 102, 32, 98, 97, 287, 108, 97, 110, 116, 305, 115, 305, 32, 98, 105, 121, 111, 100, 97, 46, 32, 84, 97, 109, 32, 116, 97, 114, 105, 102, 32, 105, 231, 105, 110, 32, 105, 231, 101, 114, 105, 107, 32, 252, 114, 101, 116, 105, 99, 105, 115, 105, 110, 105, 110, 32, 112, 114, 111, 102, 105, 108, 105, 110, 105, 32, 97, 231, 305, 110, 46]),
    (''uk'', [1055, 1086, 1089, 1080, 1083, 1072, 1085, 1085, 1103, 32, 1085, 1072, 32, 1088, 1077, 1094, 1077, 1087, 1090, 32, 1091, 32, 1073, 1110, 1086, 46, 32, 1042, 1110, 1076, 1082, 1088, 1080, 1081, 1090, 1077, 32, 1087, 1088, 1086, 1092, 1110, 1083, 1100, 32, 1072, 1074, 1090, 1086, 1088, 1072, 44, 32, 1097, 1086, 1073, 32, 1087, 1086, 1073, 1072, 1095, 1080, 1090, 1080, 32, 1087, 1086, 1074, 1085, 1080, 1081, 32, 1088, 1077, 1094, 1077, 1087, 1090, 46]),
    (''ur'', [1578, 1585, 1705, 1740, 1576, 32, 1705, 1575, 32, 1604, 1606, 1705, 32, 1576, 1575, 1574, 1740, 1608, 32, 1605, 1740, 1722, 32, 1729, 1746, 1748, 32, 1605, 1705, 1605, 1604, 32, 1578, 1585, 1705, 1740, 1576, 32, 1705, 1746, 32, 1604, 1740, 1746, 32, 1705, 1585, 1740, 1574, 1740, 1657, 1585, 32, 1662, 1585, 1608, 1601, 1575, 1574, 1604, 32, 1705, 1726, 1608, 1604, 1740, 1722, 1748]),
    (''vi'', [76, 105, 234, 110, 32, 107, 7871, 116, 32, 99, 244, 110, 103, 32, 116, 104, 7913, 99, 32, 110, 7857, 109, 32, 116, 114, 111, 110, 103, 32, 98, 105, 111, 46, 32, 77, 7903, 32, 104, 7891, 32, 115, 417, 32, 110, 103, 432, 7901, 105, 32, 116, 7841, 111, 32, 273, 7875, 32, 120, 101, 109, 32, 99, 244, 110, 103, 32, 116, 104, 7913, 99, 32, 273, 7847, 121, 32, 273, 7911, 46])]"

definition unsupported_url_texts :: "(string \<times> utext) list" where
  "unsupported_url_texts = [
    (''ar'', [1585, 1575, 1576, 1591, 32, 1594, 1610, 1585, 32, 1605, 1583, 1593, 1608, 1605, 46, 32, 1575, 1587, 1578, 1582, 1583, 1605, 32, 84, 105, 107, 84, 111, 107, 32, 1571, 1608, 32, 89, 111, 117, 84, 117, 98, 101, 32, 1571, 1608, 32, 73, 110, 115, 116, 97, 103, 114, 97, 109, 32, 1571, 1608, 32, 70, 97, 99, 101, 98, 111, 111, 107, 46]),
    (''bn'', [2437, 2488, 2478, 2480, 2509, 2469, 2495, 2468, 32, 85, 82, 76, 2404, 32, 84, 105, 107, 84, 111, 107, 44, 32, 89, 111, 117, 84, 117, 98, 101, 44, 32, 73, 110, 115, 116, 97, 103, 114, 97, 109, 32, 2476, 2494, 32, 70, 97, 99, 101, 98, 111, 111, 107, 32, 2476, 2509, 2479, 2476, 2489, 2494, 2480, 32, 2453, 2480, 2497, 2472, 2404]),
    (''ca'', latin ''URL no compatible. Fes servir TikTok, YouTube, Instagram o Facebook.''),
    (''zh-Hans'', [19981, 25903, 25345, 30340, 38142, 25509, 12290, 35831, 20351, 29992, 32, 84, 105, 107, 84, 111, 107, 12289, 89, 111, 117, 84, 117, 98, 101, 12289, 73, 110, 115, 116, 97, 103, 114, 97, 109, 32, 25110, 32, 70, 97, 99, 101, 98, 111, 111, 107, 12290]),
    (''zh-Hant'', [19981, 25903, 25588, 30340, 36899, 32080, 12290, 35531, 20351, 29992, 32, 84, 105, 107, 84, 111, 107, 12289, 89, 111, 117, 84, 117, 98, 101, 12289, 73, 110, 115, 116, 97, 103, 114, 97, 109, 32, 25110, 32, 70, 97, 99, 101, 98, 111, 111, 107, 12290]),
    (''hr'', [78, 101, 112, 111, 100, 114, 382, 97, 110, 105, 32, 85, 82, 76, 46, 32, 75, 111, 114, 105, 115, 116, 105, 32, 84, 105, 107, 84, 111, 107, 44, 32, 89, 111, 117, 84, 117, 98, 101, 44, 32, 73, 110, 115, 116, 97, 103, 114, 97, 109, 32, 105, 108, 105, 32, 70, 97, 99, 101, 98, 111, 111, 107, 46]),
    (''cs'', [78, 101, 112, 111, 100, 112, 111, 114, 111, 118, 97, 110, 225, 32, 85, 82, 76, 46, 32, 80, 111, 117, 382, 105, 106, 116, 101, 32, 84, 105, 107, 84, 111, 107, 44, 32, 89, 111, 117, 84, 117, 98, 101, 44, 32, 73, 110, 115, 116, 97, 103, 114, 97, 109, 32, 110, 101, 98, 111, 32, 70, 97, 99, 101, 98, 111, 111, 107, 46]),
    (''da'', [73, 107, 107, 101, 45, 117, 110, 100, 101, 114, 115, 116, 248, 116, 116, 101, 116, 32, 85, 82, 76, 46, 32, 66, 114, 117, 103, 32, 84, 105, 107, 84, 111, 107, 44, 32, 89, 111, 117, 84, 117, 98, 101, 44, 32, 73, 110, 115, 116, 97, 103, 114, 97, 109, 32, 101, 108, 108, 101, 114, 32, 70, 97, 99, 101, 98, 111, 111, 107, 46]),
    (''nl'', latin ''Niet-ondersteunde URL. Gebruik TikTok, YouTube, Instagram of Facebook.''),
    (''en-AU'', latin unsupported_url),
    (''en-CA'', latin unsupported_url),
    (''en-GB'', latin unsupported_url),
    (''en-US'', latin unsupported_url),
    (''fi'', [85, 82, 76, 45, 111, 115, 111, 105, 116, 101, 116, 116, 97, 32, 101, 105, 32, 116, 117, 101, 116, 97, 46, 32, 75, 228, 121, 116, 228, 32, 84, 105, 107, 84, 111, 107, 105, 97, 44, 32, 89, 111, 117, 84, 117, 98, 101, 97, 44, 32, 73, 110, 115, 116, 97, 103, 114, 97, 109, 105, 97, 32, 116, 97, 105, 32, 70, 97, 99, 101, 98, 111, 111, 107, 105, 97, 46]),
    (''fr-FR'', latin ''URL non prise en charge. Utilisez TikTok, YouTube, Instagram ou Facebook.''),
    (''fr-CA'', latin ''URL non prise en charge. Utilisez TikTok, YouTube, Instagram ou Facebook.''),
    (''de'', [78, 105, 99, 104, 116, 32, 117, 110, 116, 101, 114, 115, 116, 252, 116, 122, 116, 101, 32, 85, 82, 76, 46, 32, 78, 117, 116, 122, 101, 32, 84, 105, 107, 84, 111, 107, 44, 32, 89, 111, 117, 84, 117, 98, 101, 44, 32, 73, 110, 115, 116, 97, 103, 114, 97, 109, 32, 111, 100, 101, 114, 32, 70, 97, 99, 101, 98, 111, 111, 107, 46]),
    (''el'', [924, 951, 32, 965, 960, 959, 963, 964, 951, 961, 953, 950, 972, 956, 949, 957, 959, 32, 85, 82, 76, 46, 32, 935, 961, 951, 963, 953, 956, 959, 960, 959, 943, 951, 963, 949, 32, 84, 105, 107, 84, 111, 107, 44, 32, 89, 111, 117, 84, 117, 98, 101, 44, 32, 73, 110, 115, 116, 97, 103, 114, 97, 109, 32, 942, 32, 70, 97, 99, 101, 98, 111, 111, 107, 46]),
    (''gu'', [2693, 2744, 2734, 2736, 2765, 2725, 2751, 2724, 32, 85, 82, 76, 46, 32, 84, 105, 107, 84, 111, 107, 44, 32, 89, 111, 117, 84, 117, 98, 101, 44, 32, 73, 110, 115, 116, 97, 103, 114, 97, 109, 32, 2693, 2725, 2741, 2750, 32, 70, 97, 99, 101, 98, 111, 111, 107, 32, 2741, 2750, 2730, 2736, 2763, 46]),
    (''he'', [1499, 1514, 1493, 1489, 1514, 32, 1500, 1488, 32, 1504, 1514, 1502, 1499, 1514, 46, 32, 1492, 1513, 1514, 1502, 1513, 32, 1489, 45, 84, 105, 107, 84, 111, 107, 44, 32, 89, 111, 117, 84, 117, 98, 101, 44, 32, 73, 110, 115, 116, 97, 103, 114, 97, 109, 32, 1488, 1493, 32, 70, 97, 99, 101, 98, 111, 111, 107, 46]),
    (''hi'', [2309, 2360, 2350, 2352, 2381, 2341, 2367, 2340, 32, 85, 82, 76, 2404, 32, 84, 105, 107, 84, 111, 107, 44, 32, 89, 111, 117, 84, 117, 98, 101, 44, 32, 73, 110, 115, 116, 97, 103, 114, 97, 109, 32, 2351, 2366, 32, 70, 97, 99, 101, 98, 111, 111, 107, 32, 2313, 2346, 2351, 2379, 2327, 32, 2325, 2352, 2375, 2306, 2404]),
    (''hu'', [78, 101, 109, 32, 116, 225, 109, 111, 103, 97, 116, 111, 116, 116, 32, 85, 82, 76, 46, 32, 72, 97, 115, 122, 110, 225, 108, 106, 32, 84, 105, 107, 84, 111, 107, 111, 116, 44, 32, 89, 111, 117, 84, 117, 98, 101, 45, 111, 116, 44, 32, 73, 110, 115, 116, 97, 103, 114, 97, 109, 111, 116, 32, 118, 97, 103, 121, 32, 70, 97, 99, 101, 98, 111, 111, 107, 111, 116, 46]),
    (''id'', latin ''URL tidak didukung. Gunakan TikTok, YouTube, Instagram, atau Facebook.''),
    (''it'', latin ''URL non supportato. Usa TikTok, YouTube, Instagram o Facebook.''),
    (''ja'', [23550, 24540, 12375, 12390, 12356, 12394, 12356, 85, 82, 76, 12391, 12377, 12290, 84, 105, 107, 84, 111, 107, 12289, 89, 111, 117, 84, 117, 98, 101, 12289, 73, 110, 115, 116, 97, 103, 114, 97, 109, 12289, 70, 97, 99, 101, 98, 111, 111, 107, 12434, 20351, 12387, 12390, 12367, 12384, 12373, 12356, 12290]),
    (''kn'', [3244, 3270, 3202, 3244, 3250, 3263, 3256, 3238, 32, 85, 82, 76, 46, 32, 84, 105, 107, 84, 111, 107, 44, 32, 89, 111, 117, 84, 117, 98, 101, 44, 32, 73, 110, 115, 116, 97, 103, 114, 97, 109, 32, 3205, 3237, 3253, 3262, 32, 70, 97, 99, 101, 98, 111, 111, 107, 32, 3244, 3251, 3256, 3263, 46]),
    (''ko'', [51648, 50896, 54616, 51648, 32, 50506, 45716, 32, 85, 82, 76, 51077, 45768, 45796, 46, 32, 84, 105, 107, 84, 111, 107, 44, 32, 89, 111, 117, 84, 117, 98, 101, 44, 32, 73, 110, 115, 116, 97, 103, 114, 97, 109, 32, 46608, 45716, 32, 70, 97, 99, 101, 98, 111, 111, 107, 51012, 32, 49324, 50857, 54616, 49464, 50836, 46]),
    (''ms'', latin ''URL tidak disokong. Gunakan TikTok, YouTube, Instagram atau Facebook.''),
    (''ml'', [3370, 3391, 3368, 3405, 3364, 3393, 3363, 3375, 3391, 3378, 3405, 3378, 3390, 3364, 3405, 3364, 32, 85, 82, 76, 46, 32, 84, 105, 107, 84, 111, 107, 44, 32, 89, 111, 117, 84, 117, 98, 101, 44, 32, 73, 110, 115, 116, 97, 103, 114, 97, 109, 32, 3333, 3378, 3405, 3378, 3398, 3353, 3405, 3349, 3391, 3453, 32, 70, 97, 99, 101, 98, 111, 111, 107, 32, 3337, 3370, 3375, 3403, 3351, 3391, 3349, 3405, 3349, 3393, 3349, 46]),
    (''mr'', [2309, 2360, 2350, 2352, 2381, 2341, 2367, 2340, 32, 85, 82, 76, 46, 32, 84, 105, 107, 84, 111, 107, 44, 32, 89, 111, 117, 84, 117, 98, 101, 44, 32, 73, 110, 115, 116, 97, 103, 114, 97, 109, 32, 2325, 2367, 2306, 2357, 2366, 32, 70, 97, 99, 101, 98, 111, 111, 107, 32, 2357, 2366, 2346, 2352, 2366, 46]),
    (''nb'', [85, 82, 76, 32, 115, 116, 248, 116, 116, 101, 115, 32, 105, 107, 107, 101, 46, 32, 66, 114, 117, 107, 32, 84, 105, 107, 84, 111, 107, 44, 32, 89, 111, 117, 84, 117, 98, 101, 44, 32, 73, 110, 115, 116, 97, 103, 114, 97, 109, 32, 101, 108, 108, 101, 114, 32, 70, 97, 99, 101, 98, 111, 111, 107, 46]),
    (''or'', [2821, 2872, 2862, 2864, 2893, 2853, 2879, 2852, 32, 85, 82, 76, 2404, 32, 84, 105, 107, 84, 111, 107, 44, 32, 89, 111, 117, 84, 117, 98, 101, 44, 32, 73, 110, 115, 116, 97, 103, 114, 97, 109, 32, 2837, 2879, 2862, 2893, 2860, 2878, 32, 70, 97, 99, 101, 98, 111, 111, 107, 32, 2860, 2893, 2911, 2860, 2873, 2878, 2864, 32, 2837, 2864, 2856, 2893, 2852, 2881, 2404]),
    (''pl'', [78, 105, 101, 111, 98, 115, 322, 117, 103, 105, 119, 97, 110, 121, 32, 97, 100, 114, 101, 115, 32, 85, 82, 76, 46, 32, 85, 380, 121, 106, 32, 84, 105, 107, 84, 111, 107, 97, 44, 32, 89, 111, 117, 84, 117, 98, 101, 39, 97, 44, 32, 73, 110, 115, 116, 97, 103, 114, 97, 109, 97, 32, 108, 117, 98, 32, 70, 97, 99, 101, 98, 111, 111, 107, 97, 46]),
    (''pt-BR'', [85, 82, 76, 32, 110, 227, 111, 32, 115, 117, 112, 111, 114, 116, 97, 100, 97, 46, 32, 85, 115, 101, 32, 84, 105, 107, 84, 111, 107, 44, 32, 89, 111, 117, 84, 117, 98, 101, 44, 32, 73, 110, 115, 116, 97, 103, 114, 97, 109, 32, 111, 117, 32, 70, 97, 99, 101, 98, 111, 111, 107, 46]),
    (''pt-PT'', [85, 82, 76, 32, 110, 227, 111, 32, 115, 117, 112, 111, 114, 116, 97, 100, 111, 46, 32, 85, 116, 105, 108, 105, 122, 101, 32, 84, 105, 107, 84, 111, 107, 44, 32, 89, 111, 117, 84, 117, 98, 101, 44, 32, 73, 110, 115, 116, 97, 103, 114, 97, 109, 32, 111, 117, 32, 70, 97, 99, 101, 98, 111, 111, 107, 46]),
    (''pa'', [2565, 2616, 2606, 2608, 2597, 2623, 2596, 32, 85, 82, 76, 2404, 32, 84, 105, 107, 84, 111, 107, 44, 32, 89, 111, 117, 84, 117, 98, 101, 44, 32, 73, 110, 115, 116, 97, 103, 114, 97, 109, 32, 2588, 2622, 2562, 32, 70, 97, 99, 101, 98, 111, 111, 107, 32, 2613, 2608, 2596, 2635, 2404]),
    (''ro'', [85, 82, 76, 32, 110, 101, 97, 99, 99, 101, 112, 116, 97, 116, 46, 32, 70, 111, 108, 111, 115, 101, 537, 116, 101, 32, 84, 105, 107, 84, 111, 107, 44, 32, 89, 111, 117, 84, 117, 98, 101, 44, 32, 73, 110, 115, 116, 97, 103, 114, 97, 109, 32, 115, 97, 117, 32, 70, 97, 99, 101, 98, 111, 111, 107, 46]),
    (''ru'', [1053, 1077, 1087, 1086, 1076, 1076, 1077, 1088, 1078, 1080, 1074, 1072, 1077, 1084, 1072, 1103, 32, 1089, 1089, 1099, 1083, 1082, 1072, 46, 32, 1048, 1089, 1087, 1086, 1083, 1100, 1079, 1091, 1081, 1090, 1077, 32, 84, 105, 107, 84, 111, 107, 44, 32, 89, 111, 117, 84, 117, 98, 101, 44, 32, 73, 110, 115, 116, 97, 103, 114, 97, 109, 32, 1080, 1083, 1080, 32, 70, 97, 99, 101, 98, 111, 111, 107, 46]),
    (''sk'', [78, 101, 112, 111, 100, 112, 111, 114, 111, 118, 97, 110, 225, 32, 85, 82, 76, 46, 32, 80, 111, 117, 382, 105, 116, 101, 32, 84, 105, 107, 84, 111, 107, 44, 32, 89, 111, 117, 84, 117, 98, 101, 44, 32, 73, 110, 115, 116, 97, 103, 114, 97, 109, 32, 97, 108, 101, 98, 111, 32, 70, 97, 99, 101, 98, 111, 111, 107, 46]),
    (''sl'', latin ''Nepodprt URL. Uporabite TikTok, YouTube, Instagram ali Facebook.''),
    (''es-MX'', latin ''URL no compatible. Usa TikTok, YouTube, Instagram o Facebook.''),
    (''es-ES'', latin ''URL no compatible. Usa TikTok, YouTube, Instagram o Facebook.''),
    (''sv'', [85, 82, 76, 32, 115, 116, 246, 100, 115, 32, 105, 110, 116, 101, 46, 32, 65, 110, 118, 228, 110, 100, 32, 84, 105, 107, 84, 111, 107, 44, 32, 89, 111, 117, 84, 117, 98, 101, 44, 32, 73, 110, 115, 116, 97, 103, 114, 97, 109, 32, 101, 108, 108, 101, 114, 32, 70, 97, 99, 101, 98, 111, 111, 107, 46]),
    (''ta'', [2950, 2980, 2992, 3007, 2965, 3021, 2965, 2986, 3021, 2986, 2975, 3006, 2980, 32, 85, 82, 76, 46, 32, 84, 105, 107, 84, 111, 107, 44, 32, 89, 111, 117, 84, 117, 98, 101, 44, 32, 73, 110, 115, 116, 97, 103, 114, 97, 109, 32, 2949, 2994, 3021, 2994, 2980, 3009, 32, 70, 97, 99, 101, 98, 111, 111, 107, 32, 2986, 2991, 2985, 3021, 2986, 2975, 3009, 2980, 3021, 2980, 2997, 3009, 2990, 3021, 46]),
    (''te'', [3118, 3110, 3149, 3110, 3108, 3137, 32, 3122, 3143, 3112, 3135, 32, 85, 82, 76, 46, 32, 84, 105, 107, 84, 111, 107, 44, 32, 89, 111, 117, 84, 117, 98, 101, 44, 32, 73, 110, 115, 116, 97, 103, 114, 97, 109, 32, 3122, 3143, 3110, 3134, 32, 70, 97, 99, 101, 98, 111, 111, 107, 32, 3081, 3114, 3119, 3147, 3095, 3135, 3074, 3098, 3074, 3105, 3135, 46]),
    (''th'', [85, 82, 76, 32, 3607, 3637, 3656, 3652, 3617, 3656, 3619, 3629, 3591, 3619, 3633, 3610, 32, 3651, 3594, 3657, 32, 84, 105, 107, 84, 111, 107, 44, 32, 89, 111, 117, 84, 117, 98, 101, 44, 32, 73, 110, 115, 116, 97, 103, 114, 97, 109, 32, 3627, 3619, 3639, 3629, 32, 70, 97, 99, 101, 98, 111, 111, 107]),
    (''tr'', [68, 101, 115, 116, 101, 107, 108, 101, 110, 109, 101, 121, 101, 110, 32, 85, 82, 76, 46, 32, 84, 105, 107, 84, 111, 107, 44, 32, 89, 111, 117, 84, 117, 98, 101, 44, 32, 73, 110, 115, 116, 97, 103, 114, 97, 109, 32, 118, 101, 121, 97, 32, 70, 97, 99, 101, 98, 111, 111, 107, 32, 107, 117, 108, 108, 97, 110, 305, 110, 46]),
    (''uk'', [1053, 1077, 1087, 1110, 1076, 1090, 1088, 1080, 1084, 1091, 1074, 1072, 1085, 1077, 32, 1087, 1086, 1089, 1080, 1083, 1072, 1085, 1085, 1103, 46, 32, 1042, 1080, 1082, 1086, 1088, 1080, 1089, 1090, 1086, 1074, 1091, 1081, 1090, 1077, 32, 84, 105, 107, 84, 111, 107, 44, 32, 89, 111, 117, 84, 117, 98, 101, 44, 32, 73, 110, 115, 116, 97, 103, 114, 97, 109, 32, 1072, 1073, 1086, 32, 70, 97, 99, 101, 98, 111, 111, 107, 46]),
    (''ur'', [1594, 1740, 1585, 32, 1605, 1593, 1575, 1608, 1606, 32, 85, 82, 76, 1748, 32, 84, 105, 107, 84, 111, 107, 1548, 32, 89, 111, 117, 84, 117, 98, 101, 1548, 32, 73, 110, 115, 116, 97, 103, 114, 97, 109, 32, 1740, 1575, 32, 70, 97, 99, 101, 98, 111, 111, 107, 32, 1575, 1587, 1578, 1593, 1605, 1575, 1604, 32, 1705, 1585, 1740, 1722, 1748]),
    (''vi'', [85, 82, 76, 32, 107, 104, 244, 110, 103, 32, 273, 432, 7907, 99, 32, 104, 7895, 32, 116, 114, 7907, 46, 32, 68, 249, 110, 103, 32, 84, 105, 107, 84, 111, 107, 44, 32, 89, 111, 117, 84, 117, 98, 101, 44, 32, 73, 110, 115, 116, 97, 103, 114, 97, 109, 32, 104, 111, 7863, 99, 32, 70, 97, 99, 101, 98, 111, 111, 107, 46])]"

definition video_too_long_texts :: "(string \<times> utext) list" where
  "video_too_long_texts = [
    (''ar'', [1607, 1584, 1575, 32, 1575, 1604, 1601, 1610, 1583, 1610, 1608, 32, 1591, 1608, 1610, 1604, 32, 1580, 1583, 1611, 1575, 32, 1604, 1575, 1587, 1578, 1582, 1585, 1575, 1580, 32, 1608, 1589, 1601, 1577, 46]),
    (''bn'', [2480, 2503, 2488, 2495, 2474, 2495, 32, 2476, 2503, 2480, 32, 2453, 2480, 2494, 2480, 32, 2460, 2472, 2509, 2479, 32, 2447, 2439, 32, 2477, 2495, 2465, 2495, 2451, 2463, 2495, 32, 2454, 2497, 2476, 32, 2470, 2496, 2480, 2509, 2456, 2404]),
    (''ca'', [65, 113, 117, 101, 115, 116, 32, 118, 237, 100, 101, 111, 32, 233, 115, 32, 109, 97, 115, 115, 97, 32, 108, 108, 97, 114, 103, 32, 112, 101, 114, 32, 101, 120, 116, 114, 101, 117, 114, 101, 32, 117, 110, 97, 32, 114, 101, 99, 101, 112, 116, 97, 46]),
    (''zh-Hans'', [36825, 20010, 35270, 39057, 22826, 38271, 65292, 26080, 27861, 25552, 21462, 39135, 35889, 12290]),
    (''zh-Hant'', [36889, 20491, 24433, 29255, 22826, 38263, 65292, 28961, 27861, 25847, 21462, 39135, 35676, 12290]),
    (''hr'', [79, 118, 97, 106, 32, 106, 101, 32, 118, 105, 100, 101, 111, 32, 112, 114, 101, 100, 117, 103, 97, 269, 97, 107, 32, 122, 97, 32, 105, 122, 100, 118, 97, 106, 97, 110, 106, 101, 32, 114, 101, 99, 101, 112, 116, 97, 46]),
    (''cs'', [84, 111, 116, 111, 32, 118, 105, 100, 101, 111, 32, 106, 101, 32, 112, 345, 237, 108, 105, 353, 32, 100, 108, 111, 117, 104, 233, 32, 110, 97, 32, 101, 120, 116, 114, 97, 107, 99, 105, 32, 114, 101, 99, 101, 112, 116, 117, 46]),
    (''da'', latin ''Denne video er for lang til at hente en opskrift.''),
    (''nl'', latin ''Deze video is te lang om een recept te extraheren.''),
    (''en-AU'', latin video_too_long),
    (''en-CA'', latin video_too_long),
    (''en-GB'', latin video_too_long),
    (''en-US'', latin video_too_long),
    (''fi'', [84, 228, 109, 228, 32, 118, 105, 100, 101, 111, 32, 111, 110, 32, 108, 105, 105, 97, 110, 32, 112, 105, 116, 107, 228, 32, 114, 101, 115, 101, 112, 116, 105, 110, 32, 112, 111, 105, 109, 105, 110, 116, 97, 97, 110, 46]),
    (''fr-FR'', [67, 101, 116, 116, 101, 32, 118, 105, 100, 233, 111, 32, 101, 115, 116, 32, 116, 114, 111, 112, 32, 108, 111, 110, 103, 117, 101, 32, 112, 111, 117, 114, 32, 101, 110, 32, 101, 120, 116, 114, 97, 105, 114, 101, 32, 117, 110, 101, 32, 114, 101, 99, 101, 116, 116, 101, 46]),
    (''fr-CA'', [67, 101, 116, 116, 101, 32, 118, 105, 100, 233, 111, 32, 101, 115, 116, 32, 116, 114, 111, 112, 32, 108, 111, 110, 103, 117, 101, 32, 112, 111, 117, 114, 32, 101, 110, 32, 101, 120, 116, 114, 97, 105, 114, 101, 32, 117, 110, 101, 32, 114, 101, 99, 101, 116, 116, 101, 46]),
    (''de'', latin ''Dieses Video ist zu lang, um ein Rezept zu extrahieren.''),
    (''el'', [913, 965, 964, 972, 32, 964, 959, 32, 946, 943, 957, 964, 949, 959, 32, 949, 943, 957, 945, 953, 32, 960, 959, 955, 973, 32, 956, 949, 947, 940, 955, 959, 32, 947, 953, 945, 32, 949, 958, 945, 947, 969, 947, 942, 32, 963, 965, 957, 964, 945, 947, 942, 962, 46]),
    (''gu'', [2736, 2759, 2744, 2752, 2730, 2752, 32, 2709, 2750, 2722, 2741, 2750, 32, 2734, 2750, 2719, 2759, 32, 2694, 32, 2741, 2752, 2721, 2751, 2735, 2763, 32, 2710, 2754, 2732, 32, 2738, 2750, 2690, 2732, 2763, 32, 2715, 2759, 46]),
    (''he'', [1492, 1505, 1512, 1496, 1493, 1503, 32, 1492, 1494, 1492, 32, 1488, 1512, 1493, 1498, 32, 1502, 1491, 1497, 32, 1500, 1495, 1497, 1500, 1493, 1509, 32, 1502, 1514, 1499, 1493, 1503, 46]),
    (''hi'', [2352, 2375, 2360, 2367, 2346, 2368, 32, 2344, 2367, 2325, 2366, 2354, 2344, 2375, 32, 2325, 2375, 32, 2354, 2367, 2319, 32, 2351, 2361, 32, 2357, 2368, 2337, 2367, 2351, 2379, 32, 2348, 2361, 2369, 2340, 32, 2354, 2306, 2348, 2366, 32, 2361, 2376, 2404]),
    (''hu'', [69, 122, 32, 97, 32, 118, 105, 100, 101, 243, 32, 116, 250, 108, 32, 104, 111, 115, 115, 122, 250, 32, 97, 32, 114, 101, 99, 101, 112, 116, 32, 107, 105, 110, 121, 101, 114, 233, 115, 233, 104, 101, 122, 46]),
    (''id'', latin ''Video ini terlalu panjang untuk mengekstrak resep.''),
    (''it'', [81, 117, 101, 115, 116, 111, 32, 118, 105, 100, 101, 111, 32, 232, 32, 116, 114, 111, 112, 112, 111, 32, 108, 117, 110, 103, 111, 32, 112, 101, 114, 32, 101, 115, 116, 114, 97, 114, 114, 101, 32, 117, 110, 97, 32, 114, 105, 99, 101, 116, 116, 97, 46]),
    (''ja'', [12371, 12398, 21205, 30011, 12399, 38263, 12377, 12366, 12390, 12524, 12471, 12500, 12434, 25277, 20986, 12391, 12365, 12414, 12379, 12435, 12290]),
    (''kn'', [3248, 3270, 3256, 3263, 3242, 3263, 32, 3257, 3274, 3248, 3236, 3270, 3223, 3270, 3247, 3250, 3265, 32, 3208, 32, 3253, 3264, 3233, 3263, 3247, 3274, 32, 3236, 3265, 3202, 3244, 3262, 32, 3209, 3238, 3277, 3238, 3253, 3262, 3223, 3263, 3238, 3270, 46]),
    (''ko'', [51060, 32, 50689, 49345, 51008, 32, 47112, 49884, 54588, 47484, 32, 52628, 52636, 54616, 44592, 50640, 32, 45320, 47924, 32, 44609, 45768, 45796, 46]),
    (''ms'', latin ''Video ini terlalu panjang untuk mengekstrak resipi.''),
    (''ml'', [3370, 3390, 3354, 3349, 3349, 3405, 3349, 3393, 3377, 3391, 3370, 3405, 3370, 3405, 32, 3342, 3359, 3393, 3349, 3405, 3349, 3390, 3451, 32, 3336, 32, 3381, 3392, 3361, 3391, 3375, 3403, 32, 3381, 3379, 3376, 3398, 32, 3368, 3392, 3379, 3374, 3393, 3379, 3405, 3379, 3364, 3390, 3363, 3405, 46]),
    (''mr'', [2352, 2375, 2360, 2367, 2346, 2368, 32, 2325, 2366, 2338, 2339, 2381, 2351, 2366, 2360, 2366, 2336, 2368, 32, 2361, 2366, 32, 2357, 2381, 2361, 2367, 2337, 2367, 2323, 32, 2326, 2370, 2346, 32, 2354, 2366, 2306, 2348, 32, 2310, 2361, 2375, 46]),
    (''nb'', [68, 101, 110, 110, 101, 32, 118, 105, 100, 101, 111, 101, 110, 32, 101, 114, 32, 102, 111, 114, 32, 108, 97, 110, 103, 32, 116, 105, 108, 32, 229, 32, 104, 101, 110, 116, 101, 32, 101, 110, 32, 111, 112, 112, 115, 107, 114, 105, 102, 116, 46]),
    (''or'', [2864, 2887, 2872, 2879, 2858, 2879, 32, 2860, 2878, 2873, 2878, 2864, 32, 2837, 2864, 2879, 2860, 2878, 32, 2858, 2878, 2823, 2817, 32, 2831, 2873, 2879, 32, 2861, 2879, 2849, 2879, 2835, 32, 2821, 2852, 2879, 32, 2866, 2862, 2893, 2860, 2878, 2404]),
    (''pl'', [84, 101, 110, 32, 102, 105, 108, 109, 32, 106, 101, 115, 116, 32, 122, 97, 32, 100, 322, 117, 103, 105, 44, 32, 98, 121, 32, 119, 121, 111, 100, 114, 281, 98, 110, 105, 263, 32, 112, 114, 122, 101, 112, 105, 115, 46]),
    (''pt-BR'', [69, 115, 116, 101, 32, 118, 237, 100, 101, 111, 32, 233, 32, 108, 111, 110, 103, 111, 32, 100, 101, 109, 97, 105, 115, 32, 112, 97, 114, 97, 32, 101, 120, 116, 114, 97, 105, 114, 32, 117, 109, 97, 32, 114, 101, 99, 101, 105, 116, 97, 46]),
    (''pt-PT'', [69, 115, 116, 101, 32, 118, 237, 100, 101, 111, 32, 233, 32, 100, 101, 109, 97, 115, 105, 97, 100, 111, 32, 108, 111, 110, 103, 111, 32, 112, 97, 114, 97, 32, 101, 120, 116, 114, 97, 105, 114, 32, 117, 109, 97, 32, 114, 101, 99, 101, 105, 116, 97, 46]),
    (''pa'', [2608, 2632, 2616, 2623, 2602, 2624, 32, 2581, 2673, 2594, 2595, 32, 2610, 2568, 32, 2567, 2617, 32, 2613, 2624, 2593, 2624, 2579, 32, 2604, 2617, 2625, 2596, 32, 2610, 2672, 2604, 2624, 32, 2617, 2632, 2404]),
    (''ro'', [65, 99, 101, 115, 116, 32, 118, 105, 100, 101, 111, 32, 101, 115, 116, 101, 32, 112, 114, 101, 97, 32, 108, 117, 110, 103, 32, 112, 101, 110, 116, 114, 117, 32, 97, 32, 101, 120, 116, 114, 97, 103, 101, 32, 111, 32, 114, 101, 539, 101, 116, 259, 46]),
    (''ru'', [1069, 1090, 1086, 32, 1074, 1080, 1076, 1077, 1086, 32, 1089, 1083, 1080, 1096, 1082, 1086, 1084, 32, 1076, 1083, 1080, 1085, 1085, 1086, 1077, 44, 32, 1095, 1090, 1086, 1073, 1099, 32, 1080, 1079, 1074, 1083, 1077, 1095, 1100, 32, 1088, 1077, 1094, 1077, 1087, 1090, 46]),
    (''sk'', [84, 111, 116, 111, 32, 118, 105, 100, 101, 111, 32, 106, 101, 32, 112, 114, 237, 108, 105, 353, 32, 100, 108, 104, 233, 32, 110, 97, 32, 101, 120, 116, 114, 97, 107, 99, 105, 117, 32, 114, 101, 99, 101, 112, 116, 117, 46]),
    (''sl'', [84, 97, 32, 118, 105, 100, 101, 111, 112, 111, 115, 110, 101, 116, 101, 107, 32, 106, 101, 32, 112, 114, 101, 100, 111, 108, 103, 32, 122, 97, 32, 105, 122, 108, 117, 353, 269, 101, 110, 106, 101, 32, 114, 101, 99, 101, 112, 116, 97, 46]),
    (''es-MX'', latin ''Este video es demasiado largo para extraer una receta.''),
    (''es-ES'', [69, 115, 116, 101, 32, 118, 237, 100, 101, 111, 32, 101, 115, 32, 100, 101, 109, 97, 115, 105, 97, 100, 111, 32, 108, 97, 114, 103, 111, 32, 112, 97, 114, 97, 32, 101, 120, 116, 114, 97, 101, 114, 32, 117, 110, 97, 32, 114, 101, 99, 101, 116, 97, 46]),
    (''sv'', [68, 101, 110, 32, 104, 228, 114, 32, 118, 105, 100, 101, 111, 110, 32, 228, 114, 32, 102, 246, 114, 32, 108, 229, 110, 103, 32, 102, 246, 114, 32, 97, 116, 116, 32, 104, 228, 109, 116, 97, 32, 101, 116, 116, 32, 114, 101, 99, 101, 112, 116, 46]),
    (''ta'', [2970, 3014, 2991, 3021, 2990, 3009, 2993, 3016, 32, 2958, 2975, 3009, 2965, 3021, 2965, 32, 2951, 2984, 3021, 2980, 32, 2997, 3008, 2975, 3007, 2991, 3019, 32, 2990, 3007, 2965, 32, 2984, 3008, 2995, 2990, 3006, 2985, 2980, 3009, 46]),
    (''te'', [3120, 3142, 3128, 3135, 3114, 3136, 32, 3108, 3136, 3119, 3105, 3134, 3112, 3135, 3093, 3135, 32, 3080, 32, 3125, 3136, 3105, 3135, 3119, 3147, 32, 3098, 3134, 3122, 3134, 32, 3114, 3146, 3105, 3125, 3137, 3095, 3134, 32, 3081, 3074, 3110, 3135, 46]),
    (''th'', [3623, 3636, 3604, 3637, 3650, 3629, 3609, 3637, 3657, 3618, 3634, 3623, 3648, 3585, 3636, 3609, 3652, 3611, 3607, 3637, 3656, 3592, 3632, 3604, 3638, 3591, 3626, 3641, 3605, 3619]),
    (''tr'', [66, 117, 32, 118, 105, 100, 101, 111, 32, 116, 97, 114, 105, 102, 32, 231, 305, 107, 97, 114, 109, 97, 107, 32, 105, 231, 105, 110, 32, 231, 111, 107, 32, 117, 122, 117, 110, 46]),
    (''uk'', [1062, 1077, 32, 1074, 1110, 1076, 1077, 1086, 32, 1085, 1072, 1076, 1090, 1086, 32, 1076, 1086, 1074, 1075, 1077, 44, 32, 1097, 1086, 1073, 32, 1074, 1080, 1090, 1103, 1075, 1090, 1080, 32, 1088, 1077, 1094, 1077, 1087, 1090, 46]),
    (''ur'', [1578, 1585, 1705, 1740, 1576, 32, 1606, 1705, 1575, 1604, 1606, 1746, 32, 1705, 1746, 32, 1604, 1740, 1746, 32, 1740, 1729, 32, 1608, 1740, 1672, 1740, 1608, 32, 1576, 1729, 1578, 32, 1604, 1605, 1576, 1740, 32, 1729, 1746, 1748]),
    (''vi'', [86, 105, 100, 101, 111, 32, 110, 224, 121, 32, 113, 117, 225, 32, 100, 224, 105, 32, 273, 7875, 32, 116, 114, 237, 99, 104, 32, 120, 117, 7845, 116, 32, 99, 244, 110, 103, 32, 116, 104, 7913, 99, 46])]"

definition incomplete_carousel_texts :: "(string \<times> utext) list" where
  "incomplete_carousel_texts = [
    (''ar'', [1593, 1585, 1590, 32, 1588, 1585, 1575, 1574, 1581, 32, 84, 105, 107, 84, 111, 107, 32, 1607, 1584, 1575, 32, 1594, 1610, 1585, 32, 1605, 1603, 1578, 1605, 1604, 46, 32, 1580, 1585, 1617, 1576, 32, 1585, 1575, 1576, 1591, 1611, 1575, 32, 1570, 1582, 1585, 32, 1571, 1608, 32, 1601, 1610, 1583, 1610, 1608, 32, 1608, 1589, 1601, 1577, 32, 1603, 1575, 1605, 1604, 46]),
    (''bn'', [2447, 2439, 32, 84, 105, 107, 84, 111, 107, 32, 2453, 2509, 2479, 2494, 2480, 2494, 2441, 2460, 2503, 2482, 32, 2437, 2488, 2478, 2509, 2474, 2498, 2480, 2509, 2467, 2404, 32, 2437, 2472, 2509, 2479, 32, 2482, 2495, 2434, 2453, 32, 2476, 2494, 32, 2474, 2498, 2480, 2509, 2467, 32, 2480, 2503, 2488, 2495, 2474, 2495, 32, 2477, 2495, 2465, 2495, 2451, 32, 2458, 2503, 2487, 2509, 2463, 2494, 32, 2453, 2480, 2497, 2472, 2404]),
    (''ca'', [65, 113, 117, 101, 115, 116, 32, 99, 97, 114, 114, 117, 115, 101, 108, 32, 100, 101, 32, 84, 105, 107, 84, 111, 107, 32, 101, 115, 116, 224, 32, 105, 110, 99, 111, 109, 112, 108, 101, 116, 46, 32, 80, 114, 111, 118, 97, 32, 117, 110, 32, 97, 108, 116, 114, 101, 32, 101, 110, 108, 108, 97, 231, 32, 111, 32, 117, 110, 32, 118, 237, 100, 101, 111, 32, 100, 101, 32, 114, 101, 99, 101, 112, 116, 97, 32, 99, 111, 109, 112, 108, 101, 116, 46]),
    (''zh-Hans'', [36825, 20010, 32, 84, 105, 107, 84, 111, 107, 32, 36718, 25773, 19981, 23436, 25972, 12290, 35831, 23581, 35797, 20854, 20182, 38142, 25509, 25110, 23436, 25972, 39135, 35889, 35270, 39057, 12290]),
    (''zh-Hant'', [36889, 20491, 32, 84, 105, 107, 84, 111, 107, 32, 36650, 25773, 19981, 23436, 25972, 12290, 35531, 22039, 35430, 20854, 20182, 36899, 32080, 25110, 23436, 25972, 39135, 35676, 24433, 29255, 12290]),
    (''hr'', [79, 118, 97, 106, 32, 84, 105, 107, 84, 111, 107, 32, 99, 97, 114, 111, 117, 115, 101, 108, 32, 110, 105, 106, 101, 32, 112, 111, 116, 112, 117, 110, 46, 32, 80, 111, 107, 117, 353, 97, 106, 32, 100, 114, 117, 103, 105, 32, 108, 105, 110, 107, 32, 105, 108, 105, 32, 99, 105, 106, 101, 108, 105, 32, 118, 105, 100, 101, 111, 32, 114, 101, 99, 101, 112, 116, 97, 46]),
    (''cs'', [84, 101, 110, 116, 111, 32, 84, 105, 107, 84, 111, 107, 32, 107, 97, 114, 117, 115, 101, 108, 32, 106, 101, 32, 110, 101, 250, 112, 108, 110, 253, 46, 32, 90, 107, 117, 115, 116, 101, 32, 106, 105, 110, 253, 32, 111, 100, 107, 97, 122, 32, 110, 101, 98, 111, 32, 99, 101, 108, 233, 32, 118, 105, 100, 101, 111, 32, 114, 101, 99, 101, 112, 116, 117, 46]),
    (''da'', [68, 101, 110, 110, 101, 32, 84, 105, 107, 84, 111, 107, 45, 107, 97, 114, 114, 117, 115, 101, 108, 32, 101, 114, 32, 117, 102, 117, 108, 100, 115, 116, 230, 110, 100, 105, 103, 46, 32, 80, 114, 248, 118, 32, 101, 116, 32, 97, 110, 100, 101, 116, 32, 108, 105, 110, 107, 32, 101, 108, 108, 101, 114, 32, 101, 110, 32, 102, 117, 108, 100, 32, 111, 112, 115, 107, 114, 105, 102, 116, 115, 118, 105, 100, 101, 111, 46]),
    (''nl'', latin ''Deze TikTok-carrousel is incompleet. Probeer een andere link of een volledige receptvideo.''),
    (''en-AU'', latin incomplete_carousel),
    (''en-CA'', latin incomplete_carousel),
    (''en-GB'', latin incomplete_carousel),
    (''en-US'', latin incomplete_carousel),
    (''fi'', [84, 228, 109, 228, 32, 84, 105, 107, 84, 111, 107, 45, 107, 97, 114, 117, 115, 101, 108, 108, 105, 32, 111, 110, 32, 101, 112, 228, 116, 228, 121, 100, 101, 108, 108, 105, 110, 101, 110, 46, 32, 75, 111, 107, 101, 105, 108, 101, 32, 116, 111, 105, 115, 116, 97, 32, 108, 105, 110, 107, 107, 105, 228, 32, 116, 97, 105, 32, 116, 228, 121, 116, 116, 228, 32, 114, 101, 115, 101, 112, 116, 105, 118, 105, 100, 101, 111, 116, 97, 46]),
    (''fr-FR'', [67, 101, 32, 99, 97, 114, 114, 111, 117, 115, 101, 108, 32, 84, 105, 107, 84, 111, 107, 32, 101, 115, 116, 32, 105, 110, 99, 111, 109, 112, 108, 101, 116, 46, 32, 69, 115, 115, 97, 121, 101, 122, 32, 117, 110, 32, 97, 117, 116, 114, 101, 32, 108, 105, 101, 110, 32, 111, 117, 32, 117, 110, 101, 32, 118, 105, 100, 233, 111, 32, 100, 101, 32, 114, 101, 99, 101, 116, 116, 101, 32, 99, 111, 109, 112, 108, 232, 116, 101, 46]),
    (''fr-CA'', [67, 101, 32, 99, 97, 114, 114, 111, 117, 115, 101, 108, 32, 84, 105, 107, 84, 111, 107, 32, 101, 115, 116, 32, 105, 110, 99, 111, 109, 112, 108, 101, 116, 46, 32, 69, 115, 115, 97, 121, 101, 122, 32, 117, 110, 32, 97, 117, 116, 114, 101, 32, 108, 105, 101, 110, 32, 111, 117, 32, 117, 110, 101, 32, 118, 105, 100, 233, 111, 32, 100, 101, 32, 114, 101, 99, 101, 116, 116, 101, 32, 99, 111, 109, 112, 108, 232, 116, 101, 46]),
    (''de'', [68, 105, 101, 115, 101, 115, 32, 84, 105, 107, 84, 111, 107, 45, 75, 97, 114, 117, 115, 115, 101, 108, 108, 32, 105, 115, 116, 32, 117, 110, 118, 111, 108, 108, 115, 116, 228, 110, 100, 105, 103, 46, 32, 86, 101, 114, 115, 117, 99, 104, 101, 32, 101, 105, 110, 101, 110, 32, 97, 110, 100, 101, 114, 101, 110, 32, 76, 105, 110, 107, 32, 111, 100, 101, 114, 32, 101, 105, 110, 32, 118, 111, 108, 108, 115, 116, 228, 110, 100, 105, 103, 101, 115, 32, 82, 101, 122, 101, 112, 116, 118, 105, 100, 101, 111, 46]),
    (''el'', [913, 965, 964, 972, 32, 964, 959, 32, 954, 945, 961, 959, 965, 950, 941, 955, 32, 84, 105, 107, 84, 111, 107, 32, 949, 943, 957, 945, 953, 32, 951, 956, 953, 964, 949, 955, 941, 962, 46, 32, 916, 959, 954, 943, 956, 945, 963, 949, 32, 940, 955, 955, 959, 32, 963, 973, 957, 948, 949, 963, 956, 959, 32, 942, 32, 960, 955, 942, 961, 949, 962, 32, 946, 943, 957, 964, 949, 959, 32, 963, 965, 957, 964, 945, 947, 942, 962, 46]),
    (''gu'', [2694, 32, 84, 105, 107, 84, 111, 107, 32, 2709, 2759, 2736, 2763, 2717, 2738, 32, 2693, 2730, 2754, 2736, 2765, 2723, 32, 2715, 2759, 46, 32, 2732, 2752, 2716, 2752, 32, 2738, 2751, 2690, 2709, 32, 2693, 2725, 2741, 2750, 32, 2744, 2690, 2730, 2754, 2736, 2765, 2723, 32, 2736, 2759, 2744, 2752, 2730, 2752, 32, 2741, 2752, 2721, 2751, 2735, 2763, 32, 2693, 2716, 2734, 2750, 2741, 2763, 46]),
    (''he'', [1511, 1512, 1493, 1505, 1500, 1514, 32, 84, 105, 107, 84, 111, 107, 32, 1494, 1493, 32, 1488, 1497, 1504, 1492, 32, 1513, 1500, 1502, 1492, 46, 32, 1504, 1505, 1492, 32, 1511, 1497, 1513, 1493, 1512, 32, 1488, 1495, 1512, 32, 1488, 1493, 32, 1505, 1512, 1496, 1493, 1503, 32, 1502, 1514, 1499, 1493, 1503, 32, 1502, 1500, 1488, 46]),
    (''hi'', [2351, 2361, 32, 84, 105, 107, 84, 111, 107, 32, 2325, 2376, 2352, 2379, 2360, 2375, 2354, 32, 2309, 2343, 2370, 2352, 2366, 32, 2361, 2376, 2404, 32, 2325, 2379, 2312, 32, 2309, 2344, 2381, 2351, 32, 2354, 2367, 2306, 2325, 32, 2351, 2366, 32, 2346, 2370, 2352, 2368, 32, 2352, 2375, 2360, 2367, 2346, 2368, 32, 2357, 2368, 2337, 2367, 2351, 2379, 32, 2310, 2332, 2364, 2350, 2366, 2319, 2305, 2404]),
    (''hu'', [69, 122, 32, 97, 32, 84, 105, 107, 84, 111, 107, 45, 107, 246, 114, 107, 233, 112, 32, 104, 105, 225, 110, 121, 111, 115, 46, 32, 80, 114, 243, 98, 225, 108, 106, 32, 109, 225, 115, 105, 107, 32, 108, 105, 110, 107, 101, 116, 32, 118, 97, 103, 121, 32, 101, 103, 121, 32, 116, 101, 108, 106, 101, 115, 32, 114, 101, 99, 101, 112, 116, 118, 105, 100, 101, 243, 116, 46]),
    (''id'', latin ''Karousel TikTok ini tidak lengkap. Coba tautan lain atau video resep lengkap.''),
    (''it'', [81, 117, 101, 115, 116, 111, 32, 99, 97, 114, 111, 115, 101, 108, 108, 111, 32, 84, 105, 107, 84, 111, 107, 32, 232, 32, 105, 110, 99, 111, 109, 112, 108, 101, 116, 111, 46, 32, 80, 114, 111, 118, 97, 32, 117, 110, 32, 97, 108, 116, 114, 111, 32, 108, 105, 110, 107, 32, 111, 32, 117, 110, 32, 118, 105, 100, 101, 111, 32, 114, 105, 99, 101, 116, 116, 97, 32, 99, 111, 109, 112, 108, 101, 116, 111, 46]),
    (''ja'', [12371, 12398, 84, 105, 107, 84, 111, 107, 12459, 12523, 12540, 12475, 12523, 12399, 19981, 23436, 20840, 12391, 12377, 12290, 21029, 12398, 12522, 12531, 12463, 12363, 23436, 20840, 12394, 12524, 12471, 12500, 21205, 30011, 12434, 35430, 12375, 12390, 12367, 12384, 12373, 12356, 12290]),
    (''kn'', [3208, 32, 84, 105, 107, 84, 111, 107, 32, 3221, 3248, 3276, 3256, 3270, 3250, 3277, 32, 3205, 3242, 3266, 3248, 3277, 3235, 3253, 3262, 3223, 3263, 3238, 3270, 46, 32, 3244, 3271, 3248, 3270, 32, 3250, 3263, 3202, 3221, 3277, 32, 3205, 3237, 3253, 3262, 32, 3242, 3266, 3248, 3277, 3235, 32, 3248, 3270, 3256, 3263, 3242, 3263, 32, 3253, 3264, 3233, 3263, 3247, 3274, 32, 3242, 3277, 3248, 3247, 3236, 3277, 3240, 3263, 3256, 3263, 46]),
    (''ko'', [51060, 32, 84, 105, 107, 84, 111, 107, 32, 52880, 47084, 49472, 51060, 32, 48520, 50756, 51204, 54633, 45768, 45796, 46, 32, 45796, 47480, 32, 47553, 53356, 45208, 32, 51204, 52404, 32, 47112, 49884, 54588, 32, 50689, 49345, 51012, 32, 49884, 46020, 54616, 49464, 50836, 46]),
    (''ms'', latin ''Karusel TikTok ini tidak lengkap. Cuba pautan lain atau video resipi penuh.''),
    (''ml'', [3336, 32, 84, 105, 107, 84, 111, 107, 32, 3349, 3377, 3415, 3384, 3453, 32, 3333, 3370, 3394, 3452, 3363, 3405, 3363, 3374, 3390, 3363, 3405, 46, 32, 3374, 3377, 3405, 3377, 3402, 3376, 3393, 32, 3378, 3391, 3353, 3405, 3349, 3403, 32, 3370, 3394, 3452, 3363, 3405, 3363, 32, 3370, 3390, 3354, 3349, 32, 3381, 3392, 3361, 3391, 3375, 3403, 3375, 3403, 32, 3382, 3405, 3376, 3374, 3391, 3349, 3405, 3349, 3393, 3349, 46]),
    (''mr'', [2361, 2366, 32, 84, 105, 107, 84, 111, 107, 32, 2325, 2373, 2352, 2379, 2360, 2375, 2354, 32, 2309, 2346, 2370, 2352, 2381, 2339, 32, 2310, 2361, 2375, 46, 32, 2342, 2369, 2360, 2352, 2368, 32, 2354, 2367, 2306, 2325, 32, 2325, 2367, 2306, 2357, 2366, 32, 2346, 2370, 2352, 2381, 2339, 32, 2352, 2375, 2360, 2367, 2346, 2368, 32, 2357, 2381, 2361, 2367, 2337, 2367, 2323, 32, 2357, 2366, 2346, 2352, 2370, 2344, 32, 2346, 2361, 2366, 46]),
    (''nb'', [68, 101, 110, 110, 101, 32, 84, 105, 107, 84, 111, 107, 45, 107, 97, 114, 117, 115, 101, 108, 108, 101, 110, 32, 101, 114, 32, 117, 102, 117, 108, 108, 115, 116, 101, 110, 100, 105, 103, 46, 32, 80, 114, 248, 118, 32, 101, 110, 32, 97, 110, 110, 101, 110, 32, 108, 101, 110, 107, 101, 32, 101, 108, 108, 101, 114, 32, 101, 110, 32, 102, 117, 108, 108, 32, 111, 112, 112, 115, 107, 114, 105, 102, 116, 115, 118, 105, 100, 101, 111, 46]),
    (''or'', [2831, 2873, 2879, 32, 84, 105, 107, 84, 111, 107, 32, 2837, 2893, 2911, 2878, 2864, 2891, 2844, 2887, 2866, 2893, 32, 2821, 2872, 2862, 2893, 2858, 2882, 2864, 2893, 2851, 2893, 2851, 2404, 32, 2821, 2856, 2893, 2911, 32, 2866, 2879, 2841, 2893, 2837, 2893, 32, 2837, 2879, 2862, 2893, 2860, 2878, 32, 2858, 2882, 2864, 2878, 32, 2864, 2887, 2872, 2879, 2858, 2879, 32, 2861, 2879, 2849, 2879, 2835, 32, 2842, 2887, 2871, 2893, 2847, 2878, 32, 2837, 2864, 2856, 2893, 2852, 2881, 2404]),
    (''pl'', [84, 101, 110, 32, 107, 97, 114, 117, 122, 101, 108, 97, 32, 84, 105, 107, 84, 111, 107, 32, 106, 101, 115, 116, 32, 110, 105, 101, 107, 111, 109, 112, 108, 101, 116, 110, 97, 46, 32, 83, 112, 114, 243, 98, 117, 106, 32, 105, 110, 110, 101, 103, 111, 32, 108, 105, 110, 107, 117, 32, 108, 117, 98, 32, 112, 101, 322, 110, 101, 103, 111, 32, 102, 105, 108, 109, 117, 32, 122, 32, 112, 114, 122, 101, 112, 105, 115, 101, 109, 46]),
    (''pt-BR'', [69, 115, 116, 101, 32, 99, 97, 114, 114, 111, 115, 115, 101, 108, 32, 100, 111, 32, 84, 105, 107, 84, 111, 107, 32, 101, 115, 116, 225, 32, 105, 110, 99, 111, 109, 112, 108, 101, 116, 111, 46, 32, 84, 101, 110, 116, 101, 32, 111, 117, 116, 114, 111, 32, 108, 105, 110, 107, 32, 111, 117, 32, 117, 109, 32, 118, 237, 100, 101, 111, 32, 100, 101, 32, 114, 101, 99, 101, 105, 116, 97, 32, 99, 111, 109, 112, 108, 101, 116, 111, 46]),
    (''pt-PT'', [69, 115, 116, 101, 32, 99, 97, 114, 114, 111, 115, 115, 101, 108, 32, 100, 111, 32, 84, 105, 107, 84, 111, 107, 32, 101, 115, 116, 225, 32, 105, 110, 99, 111, 109, 112, 108, 101, 116, 111, 46, 32, 84, 101, 110, 116, 101, 32, 111, 117, 116, 114, 97, 32, 108, 105, 103, 97, 231, 227, 111, 32, 111, 117, 32, 117, 109, 32, 118, 237, 100, 101, 111, 32, 100, 101, 32, 114, 101, 99, 101, 105, 116, 97, 32, 99, 111, 109, 112, 108, 101, 116, 111, 46]),
    (''pa'', [2567, 2617, 32, 84, 105, 107, 84, 111, 107, 32, 2581, 2632, 2608, 2635, 2616, 2632, 2610, 32, 2565, 2599, 2626, 2608, 2622, 32, 2617, 2632, 2404, 32, 2581, 2635, 2568, 32, 2617, 2635, 2608, 32, 2610, 2623, 2672, 2581, 32, 2588, 2622, 2562, 32, 2602, 2626, 2608, 2624, 32, 2608, 2632, 2616, 2623, 2602, 2624, 32, 2613, 2624, 2593, 2624, 2579, 32, 2565, 2588, 2620, 2606, 2622, 2579, 2404]),
    (''ro'', [65, 99, 101, 115, 116, 32, 99, 97, 114, 117, 115, 101, 108, 32, 84, 105, 107, 84, 111, 107, 32, 101, 115, 116, 101, 32, 105, 110, 99, 111, 109, 112, 108, 101, 116, 46, 32, 206, 110, 99, 101, 97, 114, 99, 259, 32, 97, 108, 116, 32, 108, 105, 110, 107, 32, 115, 97, 117, 32, 117, 110, 32, 118, 105, 100, 101, 111, 32, 99, 111, 109, 112, 108, 101, 116, 32, 99, 117, 32, 114, 101, 539, 101, 116, 97, 46]),
    (''ru'', [1069, 1090, 1072, 32, 1082, 1072, 1088, 1091, 1089, 1077, 1083, 1100, 32, 84, 105, 107, 84, 111, 107, 32, 1085, 1077, 1087, 1086, 1083, 1085, 1072, 1103, 46, 32, 1055, 1086, 1087, 1088, 1086, 1073, 1091, 1081, 1090, 1077, 32, 1076, 1088, 1091, 1075, 1091, 1102, 32, 1089, 1089, 1099, 1083, 1082, 1091, 32, 1080, 1083, 1080, 32, 1087, 1086, 1083, 1085, 1086, 1077, 32, 1074, 1080, 1076, 1077, 1086, 32, 1089, 32, 1088, 1077, 1094, 1077, 1087, 1090, 1086, 1084, 46]),
    (''sk'', [84, 101, 110, 116, 111, 32, 84, 105, 107, 84, 111, 107, 32, 107, 97, 114, 117, 115, 101, 108, 32, 106, 101, 32, 110, 101, 250, 112, 108, 110, 253, 46, 32, 83, 107, 250, 115, 116, 101, 32, 105, 110, 253, 32, 111, 100, 107, 97, 122, 32, 97, 108, 101, 98, 111, 32, 99, 101, 108, 233, 32, 118, 105, 100, 101, 111, 32, 114, 101, 99, 101, 112, 116, 117, 46]),
    (''sl'', latin ''Ta TikTok vrtiljak je nepopoln. Poskusite drugo povezavo ali celoten video recepta.''),
    (''es-MX'', [69, 115, 116, 101, 32, 99, 97, 114, 114, 117, 115, 101, 108, 32, 100, 101, 32, 84, 105, 107, 84, 111, 107, 32, 101, 115, 116, 225, 32, 105, 110, 99, 111, 109, 112, 108, 101, 116, 111, 46, 32, 80, 114, 117, 101, 98, 97, 32, 111, 116, 114, 111, 32, 101, 110, 108, 97, 99, 101, 32, 111, 32, 117, 110, 32, 118, 105, 100, 101, 111, 32, 100, 101, 32, 114, 101, 99, 101, 116, 97, 32, 99, 111, 109, 112, 108, 101, 116, 111, 46]),
    (''es-ES'', [69, 115, 116, 101, 32, 99, 97, 114, 114, 117, 115, 101, 108, 32, 100, 101, 32, 84, 105, 107, 84, 111, 107, 32, 101, 115, 116, 225, 32, 105, 110, 99, 111, 109, 112, 108, 101, 116, 111, 46, 32, 80, 114, 117, 101, 98, 97, 32, 111, 116, 114, 111, 32, 101, 110, 108, 97, 99, 101, 32, 111, 32, 117, 110, 32, 118, 237, 100, 101, 111, 32, 100, 101, 32, 114, 101, 99, 101, 116, 97, 32, 99, 111, 109, 112, 108, 101, 116, 111, 46]),
    (''sv'', [68, 101, 110, 32, 104, 228, 114, 32, 84, 105, 107, 84, 111, 107, 45, 107, 97, 114, 117, 115, 101, 108, 108, 101, 110, 32, 228, 114, 32, 111, 102, 117, 108, 108, 115, 116, 228, 110, 100, 105, 103, 46, 32, 80, 114, 111, 118, 97, 32, 101, 110, 32, 97, 110, 110, 97, 110, 32, 108, 228, 110, 107, 32, 101, 108, 108, 101, 114, 32, 101, 110, 32, 107, 111, 109, 112, 108, 101, 116, 116, 32, 114, 101, 99, 101, 112, 116, 118, 105, 100, 101, 111, 46]),
    (''ta'', [2951, 2984, 3021, 2980, 32, 84, 105, 107, 84, 111, 107, 32, 2965, 2992, 3019, 2970, 2994, 3021, 32, 2990, 3009, 2996, 3009, 2990, 3016, 2991, 2993, 3021, 2993, 2980, 3009, 46, 32, 2997, 3015, 2993, 3009, 32, 2951, 2979, 3016, 2986, 3021, 2986, 3009, 32, 2949, 2994, 3021, 2994, 2980, 3009, 32, 2990, 3009, 2996, 3009, 32, 2970, 3014, 2991, 3021, 2990, 3009, 2993, 3016, 32, 2997, 3008, 2975, 3007, 2991, 3019, 2997, 3016, 32, 2990, 3009, 2991, 2993, 3021, 2970, 3007, 2965, 3021, 2965, 2997, 3009, 2990, 3021, 46]),
    (''te'', [3080, 32, 84, 105, 107, 84, 111, 107, 32, 3093, 3120, 3148, 3100, 3142, 3122, 3149, 32, 3077, 3128, 3074, 3114, 3138, 3120, 3149, 3107, 3074, 46, 32, 3118, 3120, 3147, 32, 3122, 3135, 3074, 3093, 3149, 32, 3122, 3143, 3110, 3134, 32, 3114, 3138, 3120, 3149, 3108, 3135, 32, 3120, 3142, 3128, 3135, 3114, 3136, 32, 3125, 3136, 3105, 3135, 3119, 3147, 32, 3114, 3149, 3120, 3119, 3108, 3149, 3112, 3135, 3074, 3098, 3074, 3105, 3135, 46]),
    (''th'', [3649, 3588, 3650, 3619, 3648, 3595, 3621, 32, 84, 105, 107, 84, 111, 107, 32, 3609, 3637, 3657, 3652, 3617, 3656, 3626, 3617, 3610, 3641, 3619, 3603, 3660, 32, 3621, 3629, 3591, 3621, 3636, 3591, 3585, 3660, 3629, 3639, 3656, 3609, 3627, 3619, 3639, 3629, 3623, 3636, 3604, 3637, 3650, 3629, 3626, 3641, 3605, 3619, 3648, 3605, 3655, 3617]),
    (''tr'', [66, 117, 32, 84, 105, 107, 84, 111, 107, 32, 107, 97, 114, 117, 115, 101, 108, 105, 32, 101, 107, 115, 105, 107, 46, 32, 66, 97, 351, 107, 97, 32, 98, 105, 114, 32, 98, 97, 287, 108, 97, 110, 116, 305, 32, 118, 101, 121, 97, 32, 116, 97, 109, 32, 116, 97, 114, 105, 102, 32, 118, 105, 100, 101, 111, 115, 117, 32, 100, 101, 110, 101, 121, 105, 110, 46]),
    (''uk'', [1062, 1103, 32, 1082, 1072, 1088, 1091, 1089, 1077, 1083, 1100, 32, 84, 105, 107, 84, 111, 107, 32, 1085, 1077, 1087, 1086, 1074, 1085, 1072, 46, 32, 1057, 1087, 1088, 1086, 1073, 1091, 1081, 1090, 1077, 32, 1110, 1085, 1096, 1077, 32, 1087, 1086, 1089, 1080, 1083, 1072, 1085, 1085, 1103, 32, 1072, 1073, 1086, 32, 1087, 1086, 1074, 1085, 1077, 32, 1074, 1110, 1076, 1077, 1086, 32, 1079, 32, 1088, 1077, 1094, 1077, 1087, 1090, 1086, 1084, 46]),
    (''ur'', [1740, 1729, 32, 84, 105, 107, 84, 111, 107, 32, 1705, 1740, 1585, 1608, 1587, 1604, 32, 1606, 1575, 1605, 1705, 1605, 1604, 32, 1729, 1746, 1748, 32, 1583, 1608, 1587, 1585, 1575, 32, 1604, 1606, 1705, 32, 1740, 1575, 32, 1605, 1705, 1605, 1604, 32, 1578, 1585, 1705, 1740, 1576, 32, 1608, 1575, 1604, 1740, 32, 1608, 1740, 1672, 1740, 1608, 32, 1570, 1586, 1605, 1575, 1574, 1740, 1722, 1748]),
    (''vi'', [66, 259, 110, 103, 32, 99, 104, 117, 121, 7873, 110, 32, 84, 105, 107, 84, 111, 107, 32, 110, 224, 121, 32, 99, 104, 432, 97, 32, 273, 7847, 121, 32, 273, 7911, 46, 32, 84, 104, 7917, 32, 108, 105, 234, 110, 32, 107, 7871, 116, 32, 107, 104, 225, 99, 32, 104, 111, 7863, 99, 32, 118, 105, 100, 101, 111, 32, 99, 244, 110, 103, 32, 116, 104, 7913, 99, 32, 273, 7847, 121, 32, 273, 7911, 46])]"

definition extraction_retryable_texts :: "(string \<times> utext) list" where
  "extraction_retryable_texts = [
    (''ar'', [1601, 1588, 1604, 1578, 32, 1593, 1605, 1604, 1610, 1577, 32, 1575, 1604, 1575, 1587, 1578, 1582, 1585, 1575, 1580, 32, 1605, 1572, 1602, 1578, 1611, 1575, 46, 32, 1571, 1593, 1583, 32, 1605, 1581, 1575, 1608, 1604, 1577, 32, 1575, 1604, 1575, 1587, 1578, 1610, 1585, 1575, 1583, 46]),
    (''bn'', [2447, 2453, 2509, 2488, 2463, 2509, 2480, 2509, 2479, 2494, 2453, 2486, 2472, 32, 2488, 2494, 2478, 2479, 2492, 2495, 2453, 2477, 2494, 2476, 2503, 32, 2476, 2509, 2479, 2480, 2509, 2469, 32, 2489, 2479, 2492, 2503, 2459, 2503, 2404, 32, 2438, 2476, 2494, 2480, 32, 2439, 2478, 2474, 2507, 2480, 2509, 2463, 32, 2453, 2480, 2497, 2472, 2404]),
    (''ca'', [76, 39, 101, 120, 116, 114, 97, 99, 99, 105, 243, 32, 104, 97, 32, 102, 97, 108, 108, 97, 116, 32, 116, 101, 109, 112, 111, 114, 97, 108, 109, 101, 110, 116, 46, 32, 84, 111, 114, 110, 97, 32, 97, 32, 112, 114, 111, 118, 97, 114, 32, 108, 97, 32, 105, 109, 112, 111, 114, 116, 97, 99, 105, 243, 46]),
    (''zh-Hans'', [25552, 21462, 26242, 26102, 22833, 36133, 12290, 35831, 37325, 35797, 23548, 20837, 12290]),
    (''zh-Hant'', [25847, 21462, 26283, 26178, 22833, 25943, 12290, 35531, 37325, 35430, 21295, 20837, 12290]),
    (''hr'', [73, 122, 100, 118, 97, 106, 97, 110, 106, 101, 32, 106, 101, 32, 112, 114, 105, 118, 114, 101, 109, 101, 110, 111, 32, 110, 101, 117, 115, 112, 106, 101, 108, 111, 46, 32, 80, 111, 107, 117, 353, 97, 106, 32, 112, 111, 110, 111, 118, 110, 111, 32, 117, 118, 101, 115, 116, 105, 46]),
    (''cs'', [69, 120, 116, 114, 97, 107, 99, 101, 32, 100, 111, 269, 97, 115, 110, 283, 32, 115, 101, 108, 104, 97, 108, 97, 46, 32, 90, 107, 117, 115, 116, 101, 32, 105, 109, 112, 111, 114, 116, 32, 122, 110, 111, 118, 117, 46]),
    (''da'', [85, 100, 116, 114, 230, 107, 110, 105, 110, 103, 101, 110, 32, 109, 105, 115, 108, 121, 107, 107, 101, 100, 101, 115, 32, 109, 105, 100, 108, 101, 114, 116, 105, 100, 105, 103, 116, 46, 32, 80, 114, 248, 118, 32, 105, 109, 112, 111, 114, 116, 101, 110, 32, 105, 103, 101, 110, 46]),
    (''nl'', latin ''Extractie is tijdelijk mislukt. Probeer de import opnieuw.''),
    (''en-AU'', latin extraction_retryable),
    (''en-CA'', latin extraction_retryable),
    (''en-GB'', latin extraction_retryable),
    (''en-US'', latin extraction_retryable),
    (''fi'', [80, 111, 105, 109, 105, 110, 116, 97, 32, 101, 112, 228, 111, 110, 110, 105, 115, 116, 117, 105, 32, 116, 105, 108, 97, 112, 228, 105, 115, 101, 115, 116, 105, 46, 32, 89, 114, 105, 116, 228, 32, 116, 117, 111, 110, 116, 105, 97, 32, 117, 117, 100, 101, 108, 108, 101, 101, 110, 46]),
    (''fr-FR'', [76, 39, 101, 120, 116, 114, 97, 99, 116, 105, 111, 110, 32, 97, 32, 116, 101, 109, 112, 111, 114, 97, 105, 114, 101, 109, 101, 110, 116, 32, 233, 99, 104, 111, 117, 233, 46, 32, 82, 233, 101, 115, 115, 97, 121, 101, 122, 32, 108, 39, 105, 109, 112, 111, 114, 116, 46]),
    (''fr-CA'', [76, 39, 101, 120, 116, 114, 97, 99, 116, 105, 111, 110, 32, 97, 32, 116, 101, 109, 112, 111, 114, 97, 105, 114, 101, 109, 101, 110, 116, 32, 233, 99, 104, 111, 117, 233, 46, 32, 82, 233, 101, 115, 115, 97, 121, 101, 122, 32, 108, 39, 105, 109, 112, 111, 114, 116, 97, 116, 105, 111, 110, 46]),
    (''de'', [68, 105, 101, 32, 69, 120, 116, 114, 97, 107, 116, 105, 111, 110, 32, 105, 115, 116, 32, 118, 111, 114, 252, 98, 101, 114, 103, 101, 104, 101, 110, 100, 32, 102, 101, 104, 108, 103, 101, 115, 99, 104, 108, 97, 103, 101, 110, 46, 32, 73, 109, 112, 111, 114, 116, 32, 101, 114, 110, 101, 117, 116, 32, 118, 101, 114, 115, 117, 99, 104, 101, 110, 46]),
    (''el'', [919, 32, 949, 958, 945, 947, 969, 947, 942, 32, 945, 960, 941, 964, 965, 967, 949, 32, 960, 961, 959, 963, 969, 961, 953, 957, 940, 46, 32, 916, 959, 954, 943, 956, 945, 963, 949, 32, 958, 945, 957, 940, 32, 964, 951, 957, 32, 949, 953, 963, 945, 947, 969, 947, 942, 46]),
    (''gu'', [2703, 2709, 2765, 2744, 2719, 2765, 2736, 2759, 2709, 2765, 2742, 2728, 32, 2693, 2744, 2765, 2725, 2750, 2735, 2752, 32, 2736, 2754, 2730, 2759, 32, 2728, 2751, 2743, 2765, 2731, 2739, 32, 2725, 2735, 2753, 2690, 46, 32, 2694, 2735, 2750, 2724, 32, 2731, 2736, 2752, 32, 2730, 2765, 2736, 2735, 2750, 2744, 32, 2709, 2736, 2763, 46]),
    (''he'', [1492, 1495, 1497, 1500, 1493, 1509, 32, 1504, 1499, 1513, 1500, 32, 1494, 1502, 1504, 1497, 1514, 46, 32, 1504, 1505, 1492, 32, 1500, 1497, 1497, 1489, 1488, 32, 1513, 1493, 1489, 46]),
    (''hi'', [2319, 2325, 2381, 2360, 2335, 2381, 2352, 2376, 2325, 2381, 2358, 2344, 32, 2309, 2360, 2381, 2341, 2366, 2351, 2368, 32, 2352, 2370, 2346, 32, 2360, 2375, 32, 2357, 2367, 2347, 2354, 32, 2352, 2361, 2366, 2404, 32, 2310, 2351, 2366, 2340, 32, 2347, 2367, 2352, 32, 2360, 2375, 32, 2310, 2332, 2364, 2350, 2366, 2319, 2305, 2404]),
    (''hu'', [65, 32, 107, 105, 110, 121, 101, 114, 233, 115, 32, 225, 116, 109, 101, 110, 101, 116, 105, 108, 101, 103, 32, 115, 105, 107, 101, 114, 116, 101, 108, 101, 110, 46, 32, 80, 114, 243, 98, 225, 108, 100, 32, 250, 106, 114, 97, 32, 97, 122, 32, 105, 109, 112, 111, 114, 116, 111, 116, 46]),
    (''id'', latin ''Ekstraksi sementara gagal. Coba impor lagi.''),
    (''it'', latin ''Estrazione temporaneamente non riuscita. Riprova l'importazione.''),
    (''ja'', [25277, 20986, 12364, 19968, 26178, 30340, 12395, 22833, 25943, 12375, 12414, 12375, 12383, 12290, 12418, 12358, 19968, 24230, 12452, 12531, 12509, 12540, 12488, 12375, 12390, 12367, 12384, 12373, 12356, 12290]),
    (''kn'', [3257, 3274, 3248, 3236, 3270, 3223, 3270, 3247, 3265, 3253, 3263, 3221, 3270, 32, 3236, 3262, 3236, 3277, 3221, 3262, 3250, 3263, 3221, 3253, 3262, 3223, 3263, 32, 3253, 3263, 3243, 3250, 3253, 3262, 3247, 3263, 3236, 3265, 46, 32, 3206, 3246, 3238, 3240, 3277, 3240, 3265, 32, 3246, 3236, 3277, 3236, 3270, 32, 3242, 3277, 3248, 3247, 3236, 3277, 3240, 3263, 3256, 3263, 46]),
    (''ko'', [52628, 52636, 51060, 32, 51068, 49884, 51201, 51004, 47196, 32, 49892, 54056, 54664, 49845, 45768, 45796, 46, 32, 44032, 51256, 50724, 44592, 47484, 32, 45796, 49884, 32, 49884, 46020, 54616, 49464, 50836, 46]),
    (''ms'', latin ''Pengekstrakan gagal buat sementara. Cuba import semula.''),
    (''ml'', [3342, 3349, 3405, 3384, 3405, 3359, 3405, 3376, 3390, 3349, 3405, 3383, 3451, 32, 3364, 3390, 3453, 3349, 3405, 3349, 3390, 3378, 3391, 3349, 3374, 3390, 3375, 3391, 32, 3370, 3376, 3390, 3356, 3375, 3370, 3405, 3370, 3398, 3359, 3405, 3359, 3393, 46, 32, 3335, 3374, 3405, 3370, 3403, 3452, 3359, 3405, 3359, 3405, 32, 3381, 3392, 3363, 3405, 3359, 3393, 3330, 32, 3382, 3405, 3376, 3374, 3391, 3349, 3405, 3349, 3393, 3349, 46]),
    (''mr'', [2319, 2325, 2381, 2360, 2335, 2381, 2352, 2373, 2325, 2381, 2358, 2344, 32, 2340, 2366, 2340, 2381, 2346, 2369, 2352, 2340, 2375, 32, 2309, 2351, 2358, 2360, 2381, 2357, 2368, 32, 2333, 2366, 2354, 2375, 46, 32, 2310, 2351, 2366, 2340, 32, 2346, 2369, 2344, 2381, 2361, 2366, 32, 2325, 2352, 2366, 46]),
    (''nb'', [85, 116, 104, 101, 110, 116, 105, 110, 103, 32, 109, 105, 100, 108, 101, 114, 116, 105, 100, 105, 103, 32, 109, 105, 115, 108, 121, 107, 116, 101, 115, 46, 32, 80, 114, 248, 118, 32, 105, 109, 112, 111, 114, 116, 101, 110, 32, 112, 229, 32, 110, 121, 116, 116, 46]),
    (''or'', [2831, 2837, 2893, 2872, 2847, 2893, 2864, 2878, 2837, 2893, 2872, 2856, 2893, 32, 2872, 2878, 2862, 2911, 2879, 2837, 32, 2861, 2878, 2860, 2887, 32, 2860, 2879, 2859, 2867, 2404, 32, 2823, 2862, 2893, 2858, 2891, 2864, 2893, 2847, 32, 2858, 2881, 2856, 2819, 2842, 2887, 2871, 2893, 2847, 2878, 32, 2837, 2864, 2856, 2893, 2852, 2881, 2404]),
    (''pl'', [87, 121, 111, 100, 114, 281, 98, 110, 105, 97, 110, 105, 101, 32, 116, 121, 109, 99, 122, 97, 115, 111, 119, 111, 32, 110, 105, 101, 32, 112, 111, 119, 105, 111, 100, 322, 111, 32, 115, 105, 281, 46, 32, 83, 112, 114, 243, 98, 117, 106, 32, 112, 111, 110, 111, 119, 110, 105, 101, 32, 122, 97, 105, 109, 112, 111, 114, 116, 111, 119, 97, 263, 46]),
    (''pt-BR'', [65, 32, 101, 120, 116, 114, 97, 231, 227, 111, 32, 102, 97, 108, 104, 111, 117, 32, 116, 101, 109, 112, 111, 114, 97, 114, 105, 97, 109, 101, 110, 116, 101, 46, 32, 84, 101, 110, 116, 101, 32, 105, 109, 112, 111, 114, 116, 97, 114, 32, 100, 101, 32, 110, 111, 118, 111, 46]),
    (''pt-PT'', [65, 32, 101, 120, 116, 114, 97, 231, 227, 111, 32, 102, 97, 108, 104, 111, 117, 32, 116, 101, 109, 112, 111, 114, 97, 114, 105, 97, 109, 101, 110, 116, 101, 46, 32, 84, 101, 110, 116, 101, 32, 105, 109, 112, 111, 114, 116, 97, 114, 32, 110, 111, 118, 97, 109, 101, 110, 116, 101, 46]),
    (''pa'', [2576, 2581, 2616, 2591, 2637, 2608, 2632, 2581, 2616, 2620, 2600, 32, 2565, 2616, 2597, 2622, 2568, 32, 2596, 2636, 2608, 32, 8217, 2596, 2631, 32, 2603, 2631, 2610, 2637, 2617, 32, 2617, 2635, 2568, 2404, 32, 2566, 2607, 2622, 2596, 32, 2606, 2625, 2652, 32, 2581, 2635, 2616, 2620, 2623, 2616, 2620, 32, 2581, 2608, 2635, 2404]),
    (''ro'', [69, 120, 116, 114, 97, 99, 539, 105, 97, 32, 97, 32, 101, 537, 117, 97, 116, 32, 116, 101, 109, 112, 111, 114, 97, 114, 46, 32, 82, 101, 238, 110, 99, 101, 97, 114, 99, 259, 32, 105, 109, 112, 111, 114, 116, 117, 108, 46]),
    (''ru'', [1048, 1079, 1074, 1083, 1077, 1095, 1077, 1085, 1080, 1077, 32, 1074, 1088, 1077, 1084, 1077, 1085, 1085, 1086, 32, 1085, 1077, 32, 1091, 1076, 1072, 1083, 1086, 1089, 1100, 46, 32, 1055, 1086, 1074, 1090, 1086, 1088, 1080, 1090, 1077, 32, 1080, 1084, 1087, 1086, 1088, 1090, 46]),
    (''sk'', [69, 120, 116, 114, 97, 107, 99, 105, 97, 32, 100, 111, 269, 97, 115, 110, 101, 32, 122, 108, 121, 104, 97, 108, 97, 46, 32, 83, 107, 250, 115, 116, 101, 32, 105, 109, 112, 111, 114, 116, 32, 122, 110, 111, 118, 97, 46]),
    (''sl'', [73, 122, 108, 117, 353, 269, 101, 110, 106, 101, 32, 106, 101, 32, 122, 97, 269, 97, 115, 110, 111, 32, 115, 112, 111, 100, 108, 101, 116, 101, 108, 111, 46, 32, 80, 111, 115, 107, 117, 115, 105, 116, 101, 32, 117, 118, 111, 122, 32, 122, 110, 111, 118, 97, 46]),
    (''es-MX'', [76, 97, 32, 101, 120, 116, 114, 97, 99, 99, 105, 243, 110, 32, 102, 97, 108, 108, 243, 32, 116, 101, 109, 112, 111, 114, 97, 108, 109, 101, 110, 116, 101, 46, 32, 86, 117, 101, 108, 118, 101, 32, 97, 32, 105, 110, 116, 101, 110, 116, 97, 114, 32, 108, 97, 32, 105, 109, 112, 111, 114, 116, 97, 99, 105, 243, 110, 46]),
    (''es-ES'', [76, 97, 32, 101, 120, 116, 114, 97, 99, 99, 105, 243, 110, 32, 102, 97, 108, 108, 243, 32, 116, 101, 109, 112, 111, 114, 97, 108, 109, 101, 110, 116, 101, 46, 32, 86, 117, 101, 108, 118, 101, 32, 97, 32, 105, 110, 116, 101, 110, 116, 97, 114, 32, 108, 97, 32, 105, 109, 112, 111, 114, 116, 97, 99, 105, 243, 110, 46]),
    (''sv'', [72, 228, 109, 116, 110, 105, 110, 103, 101, 110, 32, 109, 105, 115, 115, 108, 121, 99, 107, 97, 100, 101, 115, 32, 116, 105, 108, 108, 102, 228, 108, 108, 105, 103, 116, 46, 32, 70, 246, 114, 115, 246, 107, 32, 105, 109, 112, 111, 114, 116, 101, 114, 97, 32, 105, 103, 101, 110, 46]),
    (''ta'', [2986, 3007, 2992, 3007, 2980, 3021, 2980, 3014, 2975, 3009, 2986, 3021, 2986, 3009, 32, 2980, 2993, 3021, 2965, 3006, 2994, 3007, 2965, 2990, 3006, 2965, 32, 2980, 3019, 2994, 3021, 2997, 3007, 2991, 2975, 3016, 2984, 3021, 2980, 2980, 3009, 46, 32, 2951, 2993, 2965, 3021, 2965, 3009, 2990, 2980, 3007, 2991, 3016, 32, 2990, 3008, 2979, 3021, 2975, 3009, 2990, 3021, 32, 2990, 3009, 2991, 2993, 3021, 2970, 3007, 2965, 3021, 2965, 2997, 3009, 2990, 3021, 46]),
    (''te'', [3125, 3142, 3122, 3135, 3093, 3135, 3108, 3136, 3108, 32, 3108, 3134, 3108, 3149, 3093, 3134, 3122, 3135, 3093, 3074, 3095, 3134, 32, 3125, 3135, 3115, 3122, 3118, 3144, 3074, 3110, 3135, 46, 32, 3110, 3135, 3095, 3137, 3118, 3108, 3135, 3112, 3135, 32, 3118, 3123, 3149, 3122, 3136, 32, 3114, 3149, 3120, 3119, 3108, 3149, 3112, 3135, 3074, 3098, 3074, 3105, 3135, 46]),
    (''th'', [3585, 3634, 3619, 3604, 3638, 3591, 3586, 3657, 3629, 3617, 3641, 3621, 3621, 3657, 3617, 3648, 3627, 3621, 3623, 3594, 3633, 3656, 3623, 3588, 3619, 3634, 3623, 32, 3621, 3629, 3591, 3609, 3635, 3648, 3586, 3657, 3634, 3629, 3637, 3585, 3588, 3619, 3633, 3657, 3591]),
    (''tr'', [199, 305, 107, 97, 114, 109, 97, 32, 103, 101, 231, 105, 99, 105, 32, 111, 108, 97, 114, 97, 107, 32, 98, 97, 351, 97, 114, 305, 115, 305, 122, 32, 111, 108, 100, 117, 46, 32, 304, 231, 101, 32, 97, 107, 116, 97, 114, 109, 97, 121, 305, 32, 121, 101, 110, 105, 100, 101, 110, 32, 100, 101, 110, 101, 121, 105, 110, 46]),
    (''uk'', [1042, 1080, 1090, 1103, 1075, 32, 1090, 1080, 1084, 1095, 1072, 1089, 1086, 1074, 1086, 32, 1085, 1077, 32, 1074, 1076, 1072, 1074, 1089, 1103, 46, 32, 1055, 1086, 1074, 1090, 1086, 1088, 1110, 1090, 1100, 32, 1110, 1084, 1087, 1086, 1088, 1090, 46]),
    (''ur'', [1606, 1705, 1575, 1604, 1606, 1575, 32, 1593, 1575, 1585, 1590, 1740, 32, 1591, 1608, 1585, 32, 1662, 1585, 32, 1606, 1575, 1705, 1575, 1605, 32, 1585, 1729, 1575, 1748, 32, 1583, 1585, 1570, 1605, 1583, 32, 1583, 1608, 1576, 1575, 1585, 1729, 32, 1570, 1586, 1605, 1575, 1574, 1740, 1722, 1748]),
    (''vi'', [84, 114, 237, 99, 104, 32, 120, 117, 7845, 116, 32, 116, 7841, 109, 32, 116, 104, 7901, 105, 32, 116, 104, 7845, 116, 32, 98, 7841, 105, 46, 32, 84, 104, 7917, 32, 110, 104, 7853, 112, 32, 108, 7841, 105, 46])]"

definition no_recipe_text_texts :: "(string \<times> utext) list" where
  "no_recipe_text_texts = [
    (''ar'', [1604, 1605, 32, 1610, 1615, 1593, 1579, 1585, 32, 1593, 1604, 1609, 32, 1606, 1589, 32, 1608, 1589, 1601, 1577, 32, 1589, 1575, 1604, 1581, 32, 1601, 1610, 32, 1607, 1584, 1575, 32, 1575, 1604, 1601, 1610, 1583, 1610, 1608, 46]),
    (''bn'', [2447, 2439, 32, 2477, 2495, 2465, 2495, 2451, 2468, 2503, 32, 2476, 2509, 2479, 2476, 2489, 2494, 2480, 2479, 2507, 2455, 2509, 2479, 32, 2480, 2503, 2488, 2495, 2474, 2495, 32, 2482, 2503, 2454, 2494, 32, 2474, 2494, 2451, 2479, 2492, 2494, 32, 2479, 2494, 2479, 2492, 2472, 2495, 2404]),
    (''ca'', [78, 111, 32, 115, 39, 104, 97, 32, 116, 114, 111, 98, 97, 116, 32, 116, 101, 120, 116, 32, 100, 101, 32, 114, 101, 99, 101, 112, 116, 97, 32, 250, 116, 105, 108, 32, 101, 110, 32, 97, 113, 117, 101, 115, 116, 32, 118, 237, 100, 101, 111, 46]),
    (''zh-Hans'', [22312, 36825, 20010, 35270, 39057, 20013, 26410, 25214, 21040, 21487, 29992, 30340, 39135, 35889, 25991, 26412, 12290]),
    (''zh-Hant'', [22312, 36889, 20491, 24433, 29255, 20013, 25214, 19981, 21040, 21487, 29992, 30340, 39135, 35676, 25991, 23383, 12290]),
    (''hr'', [85, 32, 111, 118, 111, 109, 32, 118, 105, 100, 101, 117, 32, 110, 105, 106, 101, 32, 112, 114, 111, 110, 97, 273, 101, 110, 32, 117, 112, 111, 116, 114, 101, 98, 108, 106, 105, 118, 32, 116, 101, 107, 115, 116, 32, 114, 101, 99, 101, 112, 116, 97, 46]),
    (''cs'', [86, 32, 116, 111, 109, 116, 111, 32, 118, 105, 100, 101, 117, 32, 110, 101, 98, 121, 108, 32, 110, 97, 108, 101, 122, 101, 110, 32, 112, 111, 117, 382, 105, 116, 101, 108, 110, 253, 32, 116, 101, 120, 116, 32, 114, 101, 99, 101, 112, 116, 117, 46]),
    (''da'', latin ''Ingen brugbar opskriftstekst fundet i denne video.''),
    (''nl'', latin ''Geen bruikbare recepttekst gevonden in deze video.''),
    (''en-AU'', latin no_recipe_text),
    (''en-CA'', latin no_recipe_text),
    (''en-GB'', latin no_recipe_text),
    (''en-US'', latin no_recipe_text),
    (''fi'', [84, 228, 115, 116, 228, 32, 118, 105, 100, 101, 111, 115, 116, 97, 32, 101, 105, 32, 108, 246, 121, 116, 121, 110, 121, 116, 32, 107, 228, 121, 116, 116, 246, 107, 101, 108, 112, 111, 105, 115, 116, 97, 32, 114, 101, 115, 101, 112, 116, 105, 116, 101, 107, 115, 116, 105, 228, 46]),
    (''fr-FR'', [65, 117, 99, 117, 110, 32, 116, 101, 120, 116, 101, 32, 100, 101, 32, 114, 101, 99, 101, 116, 116, 101, 32, 101, 120, 112, 108, 111, 105, 116, 97, 98, 108, 101, 32, 116, 114, 111, 117, 118, 233, 32, 100, 97, 110, 115, 32, 99, 101, 116, 116, 101, 32, 118, 105, 100, 233, 111, 46]),
    (''fr-CA'', [65, 117, 99, 117, 110, 32, 116, 101, 120, 116, 101, 32, 100, 101, 32, 114, 101, 99, 101, 116, 116, 101, 32, 101, 120, 112, 108, 111, 105, 116, 97, 98, 108, 101, 32, 116, 114, 111, 117, 118, 233, 32, 100, 97, 110, 115, 32, 99, 101, 116, 116, 101, 32, 118, 105, 100, 233, 111, 46]),
    (''de'', latin ''In diesem Video wurde kein brauchbarer Rezepttext gefunden.''),
    (''el'', [916, 949, 957, 32, 946, 961, 941, 952, 951, 954, 949, 32, 967, 961, 942, 963, 953, 956, 959, 32, 954, 949, 943, 956, 949, 957, 959, 32, 963, 965, 957, 964, 945, 947, 942, 962, 32, 963, 949, 32, 945, 965, 964, 972, 32, 964, 959, 32, 946, 943, 957, 964, 949, 959, 46]),
    (''gu'', [2694, 32, 2741, 2752, 2721, 2751, 2735, 2750, 2734, 2750, 2690, 32, 2697, 2730, 2735, 2763, 2711, 2752, 32, 2736, 2759, 2744, 2752, 2730, 2752, 32, 2738, 2710, 2750, 2723, 32, 2734, 2739, 2765, 2735, 2753, 2690, 32, 2728, 2725, 2752, 46]),
    (''he'', [1500, 1488, 32, 1504, 1502, 1510, 1488, 32, 1496, 1511, 1505, 1496, 32, 1502, 1514, 1499, 1493, 1503, 32, 1513, 1502, 1497, 1513, 32, 1489, 1505, 1512, 1496, 1493, 1503, 32, 1492, 1494, 1492, 46]),
    (''hi'', [2311, 2360, 32, 2357, 2368, 2337, 2367, 2351, 2379, 32, 2350, 2375, 2306, 32, 2313, 2346, 2351, 2379, 2327, 2368, 32, 2352, 2375, 2360, 2367, 2346, 2368, 32, 2346, 2366, 2336, 32, 2344, 2361, 2368, 2306, 32, 2350, 2367, 2354, 2366, 2404]),
    (''hu'', [69, 98, 98, 101, 110, 32, 97, 32, 118, 105, 100, 101, 243, 98, 97, 110, 32, 110, 101, 109, 32, 116, 97, 108, 225, 108, 104, 97, 116, 243, 32, 104, 97, 115, 122, 110, 225, 108, 104, 97, 116, 243, 32, 114, 101, 99, 101, 112, 116, 115, 122, 246, 118, 101, 103, 46]),
    (''id'', latin ''Tidak ditemukan teks resep yang dapat digunakan di video ini.''),
    (''it'', latin ''Nessun testo di ricetta utilizzabile trovato in questo video.''),
    (''ja'', [12371, 12398, 21205, 30011, 12395, 20351, 12360, 12427, 12524, 12471, 12500, 12486, 12461, 12473, 12488, 12364, 35211, 12388, 12363, 12426, 12414, 12379, 12435, 12391, 12375, 12383, 12290]),
    (''kn'', [3208, 32, 3253, 3264, 3233, 3263, 3247, 3274, 3238, 3250, 3277, 3250, 3263, 32, 3244, 3251, 3256, 3244, 3257, 3265, 3238, 3262, 3238, 32, 3248, 3270, 3256, 3263, 3242, 3263, 32, 3242, 3232, 3277, 3247, 32, 3221, 3202, 3233, 3265, 3244, 3202, 3238, 3263, 3250, 3277, 3250, 46]),
    (''ko'', [51060, 32, 50689, 49345, 50640, 49436, 32, 49324, 50857, 54624, 32, 49688, 32, 51080, 45716, 32, 47112, 49884, 54588, 32, 53581, 49828, 53944, 47484, 32, 52286, 51648, 32, 47803, 54664, 49845, 45768, 45796, 46]),
    (''ms'', latin ''Tiada teks resipi yang berguna ditemui dalam video ini.''),
    (''ml'', [3336, 32, 3381, 3392, 3361, 3391, 3375, 3403, 3375, 3391, 3453, 32, 3337, 3370, 3375, 3403, 3351, 3375, 3403, 3351, 3405, 3375, 3374, 3390, 3375, 32, 3370, 3390, 3354, 3349, 32, 3381, 3390, 3354, 3349, 3330, 32, 3349, 3363, 3405, 3359, 3398, 3364, 3405, 3364, 3391, 3375, 3391, 3378, 3405, 3378, 46]),
    (''mr'', [2351, 2366, 32, 2357, 2381, 2361, 2367, 2337, 2367, 2323, 2350, 2343, 2381, 2351, 2375, 32, 2357, 2366, 2346, 2352, 2339, 2381, 2351, 2366, 2351, 2379, 2327, 2381, 2351, 32, 2352, 2375, 2360, 2367, 2346, 2368, 32, 2350, 2332, 2325, 2370, 2352, 32, 2360, 2366, 2346, 2337, 2354, 2366, 32, 2344, 2366, 2361, 2368, 46]),
    (''nb'', latin ''Ingen brukbar oppskriftstekst funnet i denne videoen.''),
    (''or'', [2831, 2873, 2879, 32, 2861, 2879, 2849, 2879, 2835, 2864, 2887, 32, 2860, 2893, 2911, 2860, 2873, 2878, 2864, 2863, 2891, 2839, 2893, 2911, 32, 2864, 2887, 2872, 2879, 2858, 2879, 32, 2858, 2878, 2848, 32, 2862, 2879, 2867, 2879, 2866, 2878, 32, 2856, 2878, 2873, 2879, 2817, 2404]),
    (''pl'', [87, 32, 116, 121, 109, 32, 102, 105, 108, 109, 105, 101, 32, 110, 105, 101, 32, 122, 110, 97, 108, 101, 122, 105, 111, 110, 111, 32, 117, 380, 121, 116, 101, 99, 122, 110, 101, 103, 111, 32, 116, 101, 107, 115, 116, 117, 32, 112, 114, 122, 101, 112, 105, 115, 117, 46]),
    (''pt-BR'', [78, 101, 110, 104, 117, 109, 32, 116, 101, 120, 116, 111, 32, 100, 101, 32, 114, 101, 99, 101, 105, 116, 97, 32, 117, 116, 105, 108, 105, 122, 225, 118, 101, 108, 32, 101, 110, 99, 111, 110, 116, 114, 97, 100, 111, 32, 110, 101, 115, 116, 101, 32, 118, 237, 100, 101, 111, 46]),
    (''pt-PT'', [78, 101, 110, 104, 117, 109, 32, 116, 101, 120, 116, 111, 32, 100, 101, 32, 114, 101, 99, 101, 105, 116, 97, 32, 117, 116, 105, 108, 105, 122, 225, 118, 101, 108, 32, 101, 110, 99, 111, 110, 116, 114, 97, 100, 111, 32, 110, 101, 115, 116, 101, 32, 118, 237, 100, 101, 111, 46]),
    (''pa'', [2567, 2616, 32, 2613, 2624, 2593, 2624, 2579, 32, 2613, 2623, 2673, 2586, 32, 2613, 2608, 2596, 2635, 2562, 2607, 2635, 2583, 32, 2608, 2632, 2616, 2623, 2602, 2624, 32, 2610, 2623, 2582, 2596, 32, 2600, 2617, 2624, 2562, 32, 2606, 2623, 2610, 2624, 2404]),
    (''ro'', [78, 117, 32, 115, 45, 97, 32, 103, 259, 115, 105, 116, 32, 116, 101, 120, 116, 32, 100, 101, 32, 114, 101, 539, 101, 116, 259, 32, 117, 116, 105, 108, 32, 238, 110, 32, 97, 99, 101, 115, 116, 32, 118, 105, 100, 101, 111, 46]),
    (''ru'', [1042, 32, 1101, 1090, 1086, 1084, 32, 1074, 1080, 1076, 1077, 1086, 32, 1085, 1077, 32, 1085, 1072, 1081, 1076, 1077, 1085, 32, 1087, 1088, 1080, 1075, 1086, 1076, 1085, 1099, 1081, 32, 1090, 1077, 1082, 1089, 1090, 32, 1088, 1077, 1094, 1077, 1087, 1090, 1072, 46]),
    (''sk'', [86, 32, 116, 111, 109, 116, 111, 32, 118, 105, 100, 101, 117, 32, 115, 97, 32, 110, 101, 110, 97, 353, 105, 101, 108, 32, 112, 111, 117, 382, 105, 116, 101, 318, 110, 253, 32, 116, 101, 120, 116, 32, 114, 101, 99, 101, 112, 116, 117, 46]),
    (''sl'', latin ''V tem videoposnetku ni bilo najdenega uporabnega besedila recepta.''),
    (''es-MX'', [78, 111, 32, 115, 101, 32, 101, 110, 99, 111, 110, 116, 114, 243, 32, 116, 101, 120, 116, 111, 32, 100, 101, 32, 114, 101, 99, 101, 116, 97, 32, 250, 116, 105, 108, 32, 101, 110, 32, 101, 115, 116, 101, 32, 118, 105, 100, 101, 111, 46]),
    (''es-ES'', [78, 111, 32, 115, 101, 32, 101, 110, 99, 111, 110, 116, 114, 243, 32, 116, 101, 120, 116, 111, 32, 100, 101, 32, 114, 101, 99, 101, 116, 97, 32, 250, 116, 105, 108, 32, 101, 110, 32, 101, 115, 116, 101, 32, 118, 237, 100, 101, 111, 46]),
    (''sv'', [73, 110, 103, 101, 110, 32, 97, 110, 118, 228, 110, 100, 98, 97, 114, 32, 114, 101, 99, 101, 112, 116, 116, 101, 120, 116, 32, 104, 105, 116, 116, 97, 100, 101, 115, 32, 105, 32, 100, 101, 110, 32, 104, 228, 114, 32, 118, 105, 100, 101, 111, 110, 46]),
    (''ta'', [2951, 2984, 3021, 2980, 32, 2997, 3008, 2975, 3007, 2991, 3019, 2997, 3007, 2994, 3021, 32, 2986, 2991, 2985, 3009, 2995, 3021, 2995, 32, 2970, 3014, 2991, 3021, 2990, 3009, 2993, 3016, 32, 2953, 2992, 3016, 32, 2965, 3007, 2975, 3016, 2965, 3021, 2965, 2997, 3007, 2994, 3021, 2994, 3016, 46]),
    (''te'', [3080, 32, 3125, 3136, 3105, 3135, 3119, 3147, 3122, 3147, 32, 3081, 3114, 3119, 3147, 3095, 3114, 3105, 3143, 32, 3120, 3142, 3128, 3135, 3114, 3136, 32, 3103, 3142, 3093, 3149, 3128, 3149, 3103, 3149, 32, 3093, 3112, 3116, 3105, 3122, 3143, 3110, 3137, 46]),
    (''th'', [3652, 3617, 3656, 3614, 3610, 3586, 3657, 3629, 3588, 3623, 3634, 3617, 3626, 3641, 3605, 3619, 3607, 3637, 3656, 3651, 3594, 3657, 3652, 3604, 3657, 3651, 3609, 3623, 3636, 3604, 3637, 3650, 3629, 3609, 3637, 3657]),
    (''tr'', [66, 117, 32, 118, 105, 100, 101, 111, 100, 97, 32, 107, 117, 108, 108, 97, 110, 305, 108, 97, 98, 105, 108, 105, 114, 32, 98, 105, 114, 32, 116, 97, 114, 105, 102, 32, 109, 101, 116, 110, 105, 32, 98, 117, 108, 117, 110, 97, 109, 97, 100, 305, 46]),
    (''uk'', [1059, 32, 1094, 1100, 1086, 1084, 1091, 32, 1074, 1110, 1076, 1077, 1086, 32, 1085, 1077, 32, 1079, 1085, 1072, 1081, 1076, 1077, 1085, 1086, 32, 1087, 1088, 1080, 1076, 1072, 1090, 1085, 1086, 1075, 1086, 32, 1090, 1077, 1082, 1089, 1090, 1091, 32, 1088, 1077, 1094, 1077, 1087, 1090, 1072, 46]),
    (''ur'', [1575, 1587, 32, 1608, 1740, 1672, 1740, 1608, 32, 1605, 1740, 1722, 32, 1602, 1575, 1576, 1604, 1616, 32, 1575, 1587, 1578, 1593, 1605, 1575, 1604, 32, 1578, 1585, 1705, 1740, 1576, 32, 1705, 1575, 32, 1605, 1578, 1606, 32, 1606, 1729, 1740, 1722, 32, 1605, 1604, 1575, 1748]),
    (''vi'', [75, 104, 244, 110, 103, 32, 116, 236, 109, 32, 116, 104, 7845, 121, 32, 118, 259, 110, 32, 98, 7843, 110, 32, 99, 244, 110, 103, 32, 116, 104, 7913, 99, 32, 100, 249, 110, 103, 32, 273, 432, 7907, 99, 32, 116, 114, 111, 110, 103, 32, 118, 105, 100, 101, 111, 32, 110, 224, 121, 46])]"

definition source_bound_texts :: "(string \<times> utext) list" where
  "source_bound_texts = [
    (''ar'', [1605, 1589, 1583, 1585, 32, 1607, 1584, 1607, 32, 1575, 1604, 1608, 1589, 1601, 1577, 32, 1603, 1576, 1610, 1585, 32, 1580, 1583, 1611, 1575, 32, 1604, 1604, 1605, 1593, 1575, 1604, 1580, 1577, 46]),
    (''bn'', [2447, 2439, 32, 2480, 2503, 2488, 2495, 2474, 2495, 2480, 32, 2441, 2510, 2488, 32, 2474, 2509, 2480, 2453, 2509, 2480, 2495, 2479, 2492, 2494, 32, 2453, 2480, 2494, 2480, 32, 2460, 2472, 2509, 2479, 32, 2454, 2497, 2476, 32, 2476, 2465, 2492, 2404]),
    (''ca'', [65, 113, 117, 101, 115, 116, 97, 32, 102, 111, 110, 116, 32, 100, 101, 32, 114, 101, 99, 101, 112, 116, 97, 32, 233, 115, 32, 109, 97, 115, 115, 97, 32, 103, 114, 97, 110, 32, 112, 101, 114, 32, 112, 114, 111, 99, 101, 115, 115, 97, 114, 45, 108, 97, 46]),
    (''zh-Hans'', [27492, 39135, 35889, 26469, 28304, 36807, 22823, 65292, 26080, 27861, 22788, 29702, 12290]),
    (''zh-Hant'', [27492, 39135, 35676, 20358, 28304, 36942, 22823, 65292, 28961, 27861, 34389, 29702, 12290]),
    (''hr'', latin ''Izvor ovog recepta je prevelik za obradu.''),
    (''cs'', [84, 101, 110, 116, 111, 32, 122, 100, 114, 111, 106, 32, 114, 101, 99, 101, 112, 116, 117, 32, 106, 101, 32, 112, 345, 237, 108, 105, 353, 32, 118, 101, 108, 107, 253, 32, 107, 101, 32, 122, 112, 114, 97, 99, 111, 118, 225, 110, 237, 46]),
    (''da'', latin ''Denne opskriftskilde er for stor til at behandle.''),
    (''nl'', latin ''Deze receptbron is te groot om te verwerken.''),
    (''en-AU'', latin source_bound),
    (''en-CA'', latin source_bound),
    (''en-GB'', latin source_bound),
    (''en-US'', latin source_bound),
    (''fi'', [84, 228, 109, 228, 32, 114, 101, 115, 101, 112, 116, 105, 108, 228, 104, 100, 101, 32, 111, 110, 32, 108, 105, 105, 97, 110, 32, 115, 117, 117, 114, 105, 32, 107, 228, 115, 105, 116, 101, 108, 116, 228, 118, 228, 107, 115, 105, 46]),
    (''fr-FR'', [67, 101, 116, 116, 101, 32, 115, 111, 117, 114, 99, 101, 32, 100, 101, 32, 114, 101, 99, 101, 116, 116, 101, 32, 101, 115, 116, 32, 116, 114, 111, 112, 32, 118, 111, 108, 117, 109, 105, 110, 101, 117, 115, 101, 32, 224, 32, 116, 114, 97, 105, 116, 101, 114, 46]),
    (''fr-CA'', [67, 101, 116, 116, 101, 32, 115, 111, 117, 114, 99, 101, 32, 100, 101, 32, 114, 101, 99, 101, 116, 116, 101, 32, 101, 115, 116, 32, 116, 114, 111, 112, 32, 118, 111, 108, 117, 109, 105, 110, 101, 117, 115, 101, 32, 224, 32, 116, 114, 97, 105, 116, 101, 114, 46]),
    (''de'', [68, 105, 101, 115, 101, 32, 82, 101, 122, 101, 112, 116, 113, 117, 101, 108, 108, 101, 32, 105, 115, 116, 32, 122, 117, 32, 103, 114, 111, 223, 32, 102, 252, 114, 32, 100, 105, 101, 32, 86, 101, 114, 97, 114, 98, 101, 105, 116, 117, 110, 103, 46]),
    (''el'', [913, 965, 964, 942, 32, 951, 32, 960, 951, 947, 942, 32, 963, 965, 957, 964, 945, 947, 942, 962, 32, 949, 943, 957, 945, 953, 32, 960, 959, 955, 973, 32, 956, 949, 947, 940, 955, 951, 32, 947, 953, 945, 32, 949, 960, 949, 958, 949, 961, 947, 945, 963, 943, 945, 46]),
    (''gu'', [2694, 32, 2736, 2759, 2744, 2752, 2730, 2752, 32, 2744, 2765, 2724, 2765, 2736, 2763, 2724, 32, 2730, 2765, 2736, 2709, 2765, 2736, 2751, 2735, 2750, 32, 2709, 2736, 2741, 2750, 32, 2734, 2750, 2719, 2759, 32, 2710, 2754, 2732, 32, 2734, 2763, 2719, 2763, 32, 2715, 2759, 46]),
    (''he'', [1502, 1511, 1493, 1512, 32, 1492, 1502, 1514, 1499, 1493, 1503, 32, 1492, 1494, 1492, 32, 1490, 1491, 1493, 1500, 32, 1502, 1491, 1497, 32, 1500, 1506, 1497, 1489, 1493, 1491, 46]),
    (''hi'', [2351, 2361, 32, 2352, 2375, 2360, 2367, 2346, 2368, 32, 2360, 2381, 2352, 2379, 2340, 32, 2346, 2381, 2352, 2379, 2360, 2375, 2360, 32, 2325, 2352, 2344, 2375, 32, 2325, 2375, 32, 2354, 2367, 2319, 32, 2348, 2361, 2369, 2340, 32, 2348, 2337, 2364, 2366, 32, 2361, 2376, 2404]),
    (''hu'', [69, 122, 32, 97, 32, 114, 101, 99, 101, 112, 116, 102, 111, 114, 114, 225, 115, 32, 116, 250, 108, 32, 110, 97, 103, 121, 32, 97, 32, 102, 101, 108, 100, 111, 108, 103, 111, 122, 225, 115, 104, 111, 122, 46]),
    (''id'', latin ''Sumber resep ini terlalu besar untuk diproses.''),
    (''it'', [81, 117, 101, 115, 116, 97, 32, 102, 111, 110, 116, 101, 32, 100, 105, 32, 114, 105, 99, 101, 116, 116, 97, 32, 232, 32, 116, 114, 111, 112, 112, 111, 32, 103, 114, 97, 110, 100, 101, 32, 100, 97, 32, 101, 108, 97, 98, 111, 114, 97, 114, 101, 46]),
    (''ja'', [12371, 12398, 12524, 12471, 12500, 12398, 24773, 22577, 12364, 22823, 12365, 12377, 12366, 12390, 20966, 29702, 12391, 12365, 12414, 12379, 12435, 12290]),
    (''kn'', [3208, 32, 3248, 3270, 3256, 3263, 3242, 3263, 32, 3246, 3266, 3250, 3253, 3240, 3277, 3240, 3265, 32, 3242, 3277, 3248, 3221, 3277, 3248, 3263, 3247, 3270, 3223, 3274, 3251, 3263, 3256, 3250, 3265, 32, 3236, 3265, 3202, 3244, 3262, 32, 3238, 3274, 3233, 3277, 3233, 3238, 3262, 3223, 3263, 3238, 3270, 46]),
    (''ko'', [51060, 32, 47112, 49884, 54588, 32, 49548, 49828, 44032, 32, 45320, 47924, 32, 52964, 49436, 32, 52376, 47532, 54624, 32, 49688, 32, 50630, 49845, 45768, 45796, 46]),
    (''ms'', latin ''Sumber resipi ini terlalu besar untuk diproses.''),
    (''ml'', [3336, 32, 3370, 3390, 3354, 3349, 32, 3337, 3377, 3381, 3391, 3359, 3330, 32, 3370, 3405, 3376, 3403, 3384, 3384, 3405, 32, 3354, 3398, 3375, 3405, 3375, 3390, 3451, 32, 3381, 3379, 3376, 3398, 32, 3381, 3378, 3393, 3364, 3390, 3363, 3405, 46]),
    (''mr'', [2361, 2366, 32, 2352, 2375, 2360, 2367, 2346, 2368, 32, 2360, 2381, 2352, 2379, 2340, 32, 2346, 2381, 2352, 2325, 2381, 2352, 2367, 2351, 2366, 32, 2325, 2352, 2339, 2381, 2351, 2366, 2360, 2366, 2336, 2368, 32, 2326, 2370, 2346, 32, 2350, 2379, 2336, 2366, 32, 2310, 2361, 2375, 46]),
    (''nb'', [68, 101, 110, 110, 101, 32, 111, 112, 112, 115, 107, 114, 105, 102, 116, 115, 107, 105, 108, 100, 101, 110, 32, 101, 114, 32, 102, 111, 114, 32, 115, 116, 111, 114, 32, 116, 105, 108, 32, 229, 32, 98, 101, 104, 97, 110, 100, 108, 101, 46]),
    (''or'', [2831, 2873, 2879, 32, 2864, 2887, 2872, 2879, 2858, 2879, 32, 2825, 2852, 2893, 2872, 32, 2858, 2893, 2864, 2837, 2893, 2864, 2879, 2911, 2878, 32, 2858, 2878, 2823, 2817, 32, 2821, 2852, 2879, 32, 2860, 2849, 2876, 2404]),
    (''pl'', [84, 111, 32, 378, 114, 243, 100, 322, 111, 32, 112, 114, 122, 101, 112, 105, 115, 117, 32, 106, 101, 115, 116, 32, 122, 98, 121, 116, 32, 100, 117, 380, 101, 32, 100, 111, 32, 112, 114, 122, 101, 116, 119, 111, 114, 122, 101, 110, 105, 97, 46]),
    (''pt-BR'', [69, 115, 116, 97, 32, 102, 111, 110, 116, 101, 32, 100, 101, 32, 114, 101, 99, 101, 105, 116, 97, 32, 233, 32, 103, 114, 97, 110, 100, 101, 32, 100, 101, 109, 97, 105, 115, 32, 112, 97, 114, 97, 32, 112, 114, 111, 99, 101, 115, 115, 97, 114, 46]),
    (''pt-PT'', [69, 115, 116, 97, 32, 102, 111, 110, 116, 101, 32, 100, 101, 32, 114, 101, 99, 101, 105, 116, 97, 32, 233, 32, 100, 101, 109, 97, 115, 105, 97, 100, 111, 32, 103, 114, 97, 110, 100, 101, 32, 112, 97, 114, 97, 32, 112, 114, 111, 99, 101, 115, 115, 97, 114, 46]),
    (''pa'', [2567, 2617, 32, 2608, 2632, 2616, 2623, 2602, 2624, 32, 2616, 2608, 2635, 2596, 32, 2602, 2637, 2608, 2635, 2616, 2632, 2616, 32, 2581, 2608, 2600, 32, 2610, 2568, 32, 2604, 2617, 2625, 2596, 32, 2613, 2673, 2593, 2622, 32, 2617, 2632, 2404]),
    (''ro'', [65, 99, 101, 97, 115, 116, 259, 32, 115, 117, 114, 115, 259, 32, 100, 101, 32, 114, 101, 539, 101, 116, 259, 32, 101, 115, 116, 101, 32, 112, 114, 101, 97, 32, 109, 97, 114, 101, 32, 112, 101, 110, 116, 114, 117, 32, 97, 32, 102, 105, 32, 112, 114, 111, 99, 101, 115, 97, 116, 259, 46]),
    (''ru'', [1069, 1090, 1086, 1090, 32, 1080, 1089, 1090, 1086, 1095, 1085, 1080, 1082, 32, 1088, 1077, 1094, 1077, 1087, 1090, 1072, 32, 1089, 1083, 1080, 1096, 1082, 1086, 1084, 32, 1073, 1086, 1083, 1100, 1096, 1086, 1081, 32, 1076, 1083, 1103, 32, 1086, 1073, 1088, 1072, 1073, 1086, 1090, 1082, 1080, 46]),
    (''sk'', [84, 101, 110, 116, 111, 32, 122, 100, 114, 111, 106, 32, 114, 101, 99, 101, 112, 116, 117, 32, 106, 101, 32, 112, 114, 237, 108, 105, 353, 32, 118, 101, 318, 107, 253, 32, 110, 97, 32, 115, 112, 114, 97, 99, 111, 118, 97, 110, 105, 101, 46]),
    (''sl'', latin ''Ta vir recepta je prevelik za obdelavo.''),
    (''es-MX'', latin ''Esta fuente de receta es demasiado grande para procesarla.''),
    (''es-ES'', latin ''Esta fuente de receta es demasiado grande para procesarla.''),
    (''sv'', [68, 101, 110, 32, 104, 228, 114, 32, 114, 101, 99, 101, 112, 116, 107, 228, 108, 108, 97, 110, 32, 228, 114, 32, 102, 246, 114, 32, 115, 116, 111, 114, 32, 97, 116, 116, 32, 98, 101, 97, 114, 98, 101, 116, 97, 46]),
    (''ta'', [2951, 2984, 3021, 2980, 32, 2970, 3014, 2991, 3021, 2990, 3009, 2993, 3016, 32, 2990, 3010, 2994, 2990, 3021, 32, 2970, 3014, 2991, 2994, 3006, 2965, 3021, 2965, 32, 2990, 3007, 2965, 2986, 3021, 32, 2986, 3014, 2992, 3007, 2991, 2980, 3009, 46]),
    (''te'', [3080, 32, 3120, 3142, 3128, 3135, 3114, 3136, 32, 3118, 3138, 3122, 3074, 32, 3114, 3149, 3120, 3134, 3128, 3142, 3128, 3149, 32, 3098, 3143, 3119, 3105, 3134, 3112, 3135, 3093, 3135, 32, 3098, 3134, 3122, 3134, 32, 3114, 3142, 3110, 3149, 3110, 3110, 3135, 46]),
    (''th'', [3649, 3627, 3621, 3656, 3591, 3626, 3641, 3605, 3619, 3609, 3637, 3657, 3651, 3627, 3597, 3656, 3648, 3585, 3636, 3609, 3652, 3611, 3607, 3637, 3656, 3592, 3632, 3611, 3619, 3632, 3617, 3623, 3621, 3612, 3621]),
    (''tr'', [66, 117, 32, 116, 97, 114, 105, 102, 32, 107, 97, 121, 110, 97, 287, 305, 32, 105, 351, 108, 101, 110, 101, 109, 101, 121, 101, 99, 101, 107, 32, 107, 97, 100, 97, 114, 32, 98, 252, 121, 252, 107, 46]),
    (''uk'', [1062, 1077, 32, 1076, 1078, 1077, 1088, 1077, 1083, 1086, 32, 1088, 1077, 1094, 1077, 1087, 1090, 1072, 32, 1085, 1072, 1076, 1090, 1086, 32, 1074, 1077, 1083, 1080, 1082, 1077, 32, 1076, 1083, 1103, 32, 1086, 1073, 1088, 1086, 1073, 1082, 1080, 46]),
    (''ur'', [1575, 1587, 32, 1578, 1585, 1705, 1740, 1576, 32, 1705, 1575, 32, 1605, 1575, 1582, 1584, 32, 1662, 1585, 1608, 1587, 1740, 1587, 32, 1705, 1585, 1606, 1746, 32, 1705, 1746, 32, 1604, 1740, 1746, 32, 1576, 1729, 1578, 32, 1576, 1681, 1575, 32, 1729, 1746, 1748]),
    (''vi'', [78, 103, 117, 7891, 110, 32, 99, 244, 110, 103, 32, 116, 104, 7913, 99, 32, 110, 224, 121, 32, 113, 117, 225, 32, 108, 7899, 110, 32, 273, 7875, 32, 120, 7917, 32, 108, 253, 46])]"

definition stale_job_texts :: "(string \<times> utext) list" where
  "stale_job_texts = [
    (''ar'', [1575, 1606, 1578, 1607, 1578, 32, 1589, 1604, 1575, 1581, 1610, 1577, 32, 1575, 1604, 1605, 1607, 1605, 1577, 32, 1602, 1576, 1604, 32, 1575, 1604, 1573, 1603, 1605, 1575, 1604, 46, 32, 1571, 1593, 1583, 32, 1605, 1581, 1575, 1608, 1604, 1577, 32, 1575, 1604, 1575, 1587, 1578, 1610, 1585, 1575, 1583, 46]),
    (''bn'', [2488, 2478, 2509, 2474, 2498, 2480, 2509, 2467, 32, 2489, 2451, 2479, 2492, 2494, 2480, 32, 2438, 2455, 2503, 32, 2453, 2494, 2460, 2503, 2480, 32, 2478, 2503, 2479, 2492, 2494, 2470, 32, 2486, 2503, 2487, 2404, 32, 2438, 2476, 2494, 2480, 32, 2439, 2478, 2474, 2507, 2480, 2509, 2463, 32, 2453, 2480, 2497, 2472, 2404]),
    (''ca'', [76, 97, 32, 116, 97, 115, 99, 97, 32, 104, 97, 32, 99, 97, 100, 117, 99, 97, 116, 32, 97, 98, 97, 110, 115, 32, 100, 101, 32, 99, 111, 109, 112, 108, 101, 116, 97, 114, 45, 115, 101, 46, 32, 84, 111, 114, 110, 97, 32, 97, 32, 112, 114, 111, 118, 97, 114, 32, 108, 97, 32, 105, 109, 112, 111, 114, 116, 97, 99, 105, 243, 46]),
    (''zh-Hans'', [20219, 21153, 22312, 23436, 25104, 21069, 24050, 36807, 26399, 12290, 35831, 37325, 35797, 23548, 20837, 12290]),
    (''zh-Hant'', [24037, 20316, 22312, 23436, 25104, 21069, 24050, 36942, 26399, 12290, 35531, 37325, 35430, 21295, 20837, 12290]),
    (''hr'', [90, 97, 100, 97, 116, 97, 107, 32, 106, 101, 32, 105, 115, 116, 101, 107, 97, 111, 32, 112, 114, 105, 106, 101, 32, 100, 111, 118, 114, 353, 101, 116, 107, 97, 46, 32, 80, 111, 107, 117, 353, 97, 106, 32, 112, 111, 110, 111, 118, 110, 111, 32, 117, 118, 101, 115, 116, 105, 46]),
    (''cs'', [218, 108, 111, 104, 97, 32, 118, 121, 112, 114, 353, 101, 108, 97, 32, 112, 345, 101, 100, 32, 100, 111, 107, 111, 110, 269, 101, 110, 237, 109, 46, 32, 90, 107, 117, 115, 116, 101, 32, 105, 109, 112, 111, 114, 116, 32, 122, 110, 111, 118, 117, 46]),
    (''da'', [74, 111, 98, 98, 101, 116, 32, 117, 100, 108, 248, 98, 32, 102, 248, 114, 32, 102, 230, 114, 100, 105, 103, 103, 248, 114, 101, 108, 115, 101, 46, 32, 80, 114, 248, 118, 32, 105, 109, 112, 111, 114, 116, 101, 110, 32, 105, 103, 101, 110, 46]),
    (''nl'', [84, 97, 97, 107, 32, 118, 101, 114, 108, 111, 112, 101, 110, 32, 118, 243, 243, 114, 32, 97, 102, 114, 111, 110, 100, 105, 110, 103, 46, 32, 80, 114, 111, 98, 101, 101, 114, 32, 100, 101, 32, 105, 109, 112, 111, 114, 116, 32, 111, 112, 110, 105, 101, 117, 119, 46]),
    (''en-AU'', latin stale_job),
    (''en-CA'', latin stale_job),
    (''en-GB'', latin stale_job),
    (''en-US'', latin stale_job),
    (''fi'', [84, 121, 246, 32, 118, 97, 110, 104, 101, 110, 116, 117, 105, 32, 101, 110, 110, 101, 110, 32, 118, 97, 108, 109, 105, 115, 116, 117, 109, 105, 115, 116, 97, 46, 32, 89, 114, 105, 116, 228, 32, 116, 117, 111, 110, 116, 105, 97, 32, 117, 117, 100, 101, 108, 108, 101, 101, 110, 46]),
    (''fr-FR'', [76, 97, 32, 116, 226, 99, 104, 101, 32, 97, 32, 101, 120, 112, 105, 114, 233, 32, 97, 118, 97, 110, 116, 32, 100, 39, 234, 116, 114, 101, 32, 116, 101, 114, 109, 105, 110, 233, 101, 46, 32, 82, 233, 101, 115, 115, 97, 121, 101, 122, 32, 108, 39, 105, 109, 112, 111, 114, 116, 46]),
    (''fr-CA'', [76, 97, 32, 116, 226, 99, 104, 101, 32, 97, 32, 101, 120, 112, 105, 114, 233, 32, 97, 118, 97, 110, 116, 32, 100, 39, 234, 116, 114, 101, 32, 116, 101, 114, 109, 105, 110, 233, 101, 46, 32, 82, 233, 101, 115, 115, 97, 121, 101, 122, 32, 108, 39, 105, 109, 112, 111, 114, 116, 97, 116, 105, 111, 110, 46]),
    (''de'', latin ''Auftrag vor Abschluss abgelaufen. Import erneut versuchen.''),
    (''el'', [919, 32, 949, 961, 947, 945, 963, 943, 945, 32, 941, 955, 951, 958, 949, 32, 960, 961, 953, 957, 32, 959, 955, 959, 954, 955, 951, 961, 969, 952, 949, 943, 46, 32, 916, 959, 954, 943, 956, 945, 963, 949, 32, 958, 945, 957, 940, 32, 964, 951, 957, 32, 949, 953, 963, 945, 947, 969, 947, 942, 46]),
    (''gu'', [2730, 2754, 2736, 2765, 2723, 32, 2725, 2750, 2735, 32, 2724, 2759, 32, 2730, 2745, 2759, 2738, 2750, 2690, 32, 2716, 2763, 2732, 32, 2744, 2734, 2750, 2730, 2765, 2724, 32, 2725, 2696, 46, 32, 2694, 2735, 2750, 2724, 32, 2731, 2736, 2752, 32, 2730, 2765, 2736, 2735, 2750, 2744, 32, 2709, 2736, 2763, 46]),
    (''he'', [1492, 1502, 1513, 1497, 1502, 1492, 32, 1508, 1490, 1492, 32, 1500, 1508, 1504, 1497, 32, 1513, 1492, 1493, 1513, 1500, 1502, 1492, 46, 32, 1504, 1505, 1492, 32, 1500, 1497, 1497, 1489, 1488, 32, 1513, 1493, 1489, 46]),
    (''hi'', [2346, 2370, 2352, 2366, 32, 2361, 2379, 2344, 2375, 32, 2360, 2375, 32, 2346, 2361, 2354, 2375, 32, 2332, 2377, 2348, 32, 2360, 2350, 2366, 2346, 2381, 2340, 32, 2361, 2379, 32, 2327, 2312, 2404, 32, 2310, 2351, 2366, 2340, 32, 2347, 2367, 2352, 32, 2360, 2375, 32, 2310, 2332, 2364, 2350, 2366, 2319, 2305, 2404]),
    (''hu'', [65, 32, 102, 101, 108, 97, 100, 97, 116, 32, 108, 101, 106, 225, 114, 116, 32, 97, 32, 98, 101, 102, 101, 106, 101, 122, 233, 115, 32, 101, 108, 337, 116, 116, 46, 32, 80, 114, 243, 98, 225, 108, 100, 32, 250, 106, 114, 97, 32, 97, 122, 32, 105, 109, 112, 111, 114, 116, 111, 116, 46]),
    (''id'', latin ''Pekerjaan kedaluwarsa sebelum selesai. Coba impor lagi.''),
    (''it'', latin ''Processo scaduto prima del completamento. Riprova l'importazione.''),
    (''ja'', [23436, 20102, 21069, 12395, 12472, 12519, 12502, 12398, 26399, 38480, 12364, 20999, 12428, 12414, 12375, 12383, 12290, 12418, 12358, 19968, 24230, 12452, 12531, 12509, 12540, 12488, 12375, 12390, 12367, 12384, 12373, 12356, 12290]),
    (''kn'', [3242, 3266, 3248, 3277, 3235, 3223, 3274, 3251, 3277, 3251, 3265, 3253, 32, 3246, 3274, 3238, 3250, 3265, 32, 3228, 3262, 3244, 3277, 32, 3205, 3253, 3239, 3263, 32, 3246, 3265, 3223, 3263, 3247, 3263, 3236, 3265, 46, 32, 3206, 3246, 3238, 3240, 3277, 3240, 3265, 32, 3246, 3236, 3277, 3236, 3270, 32, 3242, 3277, 3248, 3247, 3236, 3277, 3240, 3263, 3256, 3263, 46]),
    (''ko'', [50756, 47308, 32, 51204, 50640, 32, 51089, 50629, 51060, 32, 47564, 47308, 46104, 50632, 49845, 45768, 45796, 46, 32, 44032, 51256, 50724, 44592, 47484, 32, 45796, 49884, 32, 49884, 46020, 54616, 49464, 50836, 46]),
    (''ms'', latin ''Tugas tamat tempoh sebelum selesai. Cuba import semula.''),
    (''ml'', [3370, 3394, 3452, 3364, 3405, 3364, 3391, 3375, 3390, 3349, 3393, 3368, 3405, 3368, 3364, 3391, 3368, 3405, 32, 3374, 3393, 3374, 3405, 3370, 3405, 32, 3356, 3403, 3372, 3405, 32, 3349, 3390, 3378, 3385, 3376, 3363, 3370, 3405, 3370, 3398, 3359, 3405, 3359, 3393, 46, 32, 3335, 3374, 3405, 3370, 3403, 3452, 3359, 3405, 3359, 3405, 32, 3381, 3392, 3363, 3405, 3359, 3393, 3330, 32, 3382, 3405, 3376, 3374, 3391, 3349, 3405, 3349, 3393, 3349, 46]),
    (''mr'', [2346, 2370, 2352, 2381, 2339, 32, 2361, 2379, 2339, 2381, 2351, 2366, 2346, 2370, 2352, 2381, 2357, 2368, 32, 2332, 2377, 2348, 32, 2325, 2366, 2354, 2348, 2366, 2361, 2381, 2351, 32, 2333, 2366, 2354, 2368, 46, 32, 2310, 2351, 2366, 2340, 32, 2346, 2369, 2344, 2381, 2361, 2366, 32, 2325, 2352, 2366, 46]),
    (''nb'', [74, 111, 98, 98, 101, 110, 32, 117, 116, 108, 248, 112, 32, 102, 248, 114, 32, 100, 101, 110, 32, 98, 108, 101, 32, 102, 117, 108, 108, 102, 248, 114, 116, 46, 32, 80, 114, 248, 118, 32, 105, 109, 112, 111, 114, 116, 101, 110, 32, 112, 229, 32, 110, 121, 116, 116, 46]),
    (''or'', [2872, 2862, 2893, 2858, 2882, 2864, 2893, 2851, 2893, 2851, 32, 2873, 2887, 2860, 2878, 32, 2858, 2882, 2864, 2893, 2860, 2864, 2881, 32, 2844, 2860, 2893, 32, 2872, 2862, 2878, 2858, 2893, 2852, 2404, 32, 2823, 2862, 2893, 2858, 2891, 2864, 2893, 2847, 32, 2858, 2881, 2856, 2819, 2842, 2887, 2871, 2893, 2847, 2878, 32, 2837, 2864, 2856, 2893, 2852, 2881, 2404]),
    (''pl'', [90, 97, 100, 97, 110, 105, 101, 32, 119, 121, 103, 97, 115, 322, 111, 32, 112, 114, 122, 101, 100, 32, 117, 107, 111, 324, 99, 122, 101, 110, 105, 101, 109, 46, 32, 83, 112, 114, 243, 98, 117, 106, 32, 112, 111, 110, 111, 119, 110, 105, 101, 32, 122, 97, 105, 109, 112, 111, 114, 116, 111, 119, 97, 263, 46]),
    (''pt-BR'', latin ''A tarefa expirou antes de concluir. Tente importar de novo.''),
    (''pt-PT'', latin ''A tarefa expirou antes de concluir. Tente importar novamente.''),
    (''pa'', [2602, 2626, 2608, 2622, 32, 2617, 2635, 2595, 32, 2596, 2635, 2562, 32, 2602, 2617, 2623, 2610, 2622, 2562, 32, 2588, 2636, 2604, 32, 2582, 2596, 2606, 32, 2617, 2635, 32, 2583, 2568, 2404, 32, 2566, 2607, 2622, 2596, 32, 2606, 2625, 2652, 32, 2581, 2635, 2616, 2620, 2623, 2616, 2620, 32, 2581, 2608, 2635, 2404]),
    (''ro'', [83, 97, 114, 99, 105, 110, 97, 32, 97, 32, 101, 120, 112, 105, 114, 97, 116, 32, 238, 110, 97, 105, 110, 116, 101, 32, 100, 101, 32, 102, 105, 110, 97, 108, 105, 122, 97, 114, 101, 46, 32, 82, 101, 238, 110, 99, 101, 97, 114, 99, 259, 32, 105, 109, 112, 111, 114, 116, 117, 108, 46]),
    (''ru'', [1047, 1072, 1076, 1072, 1095, 1072, 32, 1080, 1089, 1090, 1077, 1082, 1083, 1072, 32, 1076, 1086, 32, 1079, 1072, 1074, 1077, 1088, 1096, 1077, 1085, 1080, 1103, 46, 32, 1055, 1086, 1074, 1090, 1086, 1088, 1080, 1090, 1077, 32, 1080, 1084, 1087, 1086, 1088, 1090, 46]),
    (''sk'', [218, 108, 111, 104, 97, 32, 118, 121, 112, 114, 353, 97, 108, 97, 32, 112, 114, 101, 100, 32, 100, 111, 107, 111, 110, 269, 101, 110, 237, 109, 46, 32, 83, 107, 250, 115, 116, 101, 32, 105, 109, 112, 111, 114, 116, 32, 122, 110, 111, 118, 97, 46]),
    (''sl'', [78, 97, 108, 111, 103, 97, 32, 106, 101, 32, 112, 111, 116, 101, 107, 108, 97, 32, 112, 114, 101, 100, 32, 100, 111, 107, 111, 110, 269, 97, 110, 106, 101, 109, 46, 32, 80, 111, 115, 107, 117, 115, 105, 116, 101, 32, 117, 118, 111, 122, 32, 122, 110, 111, 118, 97, 46]),
    (''es-MX'', [69, 108, 32, 116, 114, 97, 98, 97, 106, 111, 32, 99, 97, 100, 117, 99, 243, 32, 97, 110, 116, 101, 115, 32, 100, 101, 32, 99, 111, 109, 112, 108, 101, 116, 97, 114, 115, 101, 46, 32, 86, 117, 101, 108, 118, 101, 32, 97, 32, 105, 110, 116, 101, 110, 116, 97, 114, 32, 108, 97, 32, 105, 109, 112, 111, 114, 116, 97, 99, 105, 243, 110, 46]),
    (''es-ES'', [69, 108, 32, 116, 114, 97, 98, 97, 106, 111, 32, 99, 97, 100, 117, 99, 243, 32, 97, 110, 116, 101, 115, 32, 100, 101, 32, 99, 111, 109, 112, 108, 101, 116, 97, 114, 115, 101, 46, 32, 86, 117, 101, 108, 118, 101, 32, 97, 32, 105, 110, 116, 101, 110, 116, 97, 114, 32, 108, 97, 32, 105, 109, 112, 111, 114, 116, 97, 99, 105, 243, 110, 46]),
    (''sv'', [74, 111, 98, 98, 101, 116, 32, 103, 105, 99, 107, 32, 117, 116, 32, 105, 110, 110, 97, 110, 32, 100, 101, 116, 32, 115, 108, 117, 116, 102, 246, 114, 100, 101, 115, 46, 32, 70, 246, 114, 115, 246, 107, 32, 105, 109, 112, 111, 114, 116, 101, 114, 97, 32, 105, 103, 101, 110, 46]),
    (''ta'', [2990, 3009, 2975, 3007, 2997, 2980, 2993, 3021, 2965, 3009, 32, 2990, 3009, 2985, 3021, 32, 2986, 2979, 3007, 32, 2965, 3006, 2994, 3006, 2997, 2980, 3007, 2991, 3006, 2985, 2980, 3009, 46, 32, 2951, 2993, 2965, 3021, 2965, 3009, 2990, 2980, 3007, 2991, 3016, 32, 2990, 3008, 2979, 3021, 2975, 3009, 2990, 3021, 32, 2990, 3009, 2991, 2993, 3021, 2970, 3007, 2965, 3021, 2965, 2997, 3009, 2990, 3021, 46]),
    (''te'', [3114, 3138, 3120, 3149, 3108, 3119, 3149, 3119, 3143, 3122, 3147, 3114, 3137, 32, 3100, 3134, 3116, 3149, 32, 3095, 3105, 3137, 3125, 3137, 32, 3118, 3137, 3095, 3135, 3128, 3135, 3074, 3110, 3135, 46, 32, 3110, 3135, 3095, 3137, 3118, 3108, 3135, 3112, 3135, 32, 3118, 3123, 3149, 3122, 3136, 32, 3114, 3149, 3120, 3119, 3108, 3149, 3112, 3135, 3074, 3098, 3074, 3105, 3135, 46]),
    (''th'', [3591, 3634, 3609, 3627, 3617, 3604, 3629, 3634, 3618, 3640, 3585, 3656, 3629, 3609, 3648, 3626, 3619, 3655, 3592, 32, 3621, 3629, 3591, 3609, 3635, 3648, 3586, 3657, 3634, 3629, 3637, 3585, 3588, 3619, 3633, 3657, 3591]),
    (''tr'', [304, 351, 32, 116, 97, 109, 97, 109, 108, 97, 110, 109, 97, 100, 97, 110, 32, 115, 252, 114, 101, 115, 105, 32, 100, 111, 108, 100, 117, 46, 32, 304, 231, 101, 32, 97, 107, 116, 97, 114, 109, 97, 121, 305, 32, 121, 101, 110, 105, 100, 101, 110, 32, 100, 101, 110, 101, 121, 105, 110, 46]),
    (''uk'', [1047, 1072, 1074, 1076, 1072, 1085, 1085, 1103, 32, 1079, 1072, 1082, 1110, 1085, 1095, 1080, 1083, 1086, 1089, 1103, 32, 1076, 1086, 32, 1079, 1072, 1074, 1077, 1088, 1096, 1077, 1085, 1085, 1103, 46, 32, 1055, 1086, 1074, 1090, 1086, 1088, 1110, 1090, 1100, 32, 1110, 1084, 1087, 1086, 1088, 1090, 46]),
    (''ur'', [1605, 1705, 1605, 1604, 32, 1729, 1608, 1606, 1746, 32, 1587, 1746, 32, 1662, 1729, 1604, 1746, 32, 1580, 1575, 1576, 32, 1582, 1578, 1605, 32, 1729, 1608, 32, 1711, 1574, 1740, 1748, 32, 1583, 1585, 1570, 1605, 1583, 32, 1583, 1608, 1576, 1575, 1585, 1729, 32, 1570, 1586, 1605, 1575, 1574, 1740, 1722, 1748]),
    (''vi'', [67, 244, 110, 103, 32, 118, 105, 7879, 99, 32, 104, 7871, 116, 32, 104, 7841, 110, 32, 116, 114, 432, 7899, 99, 32, 107, 104, 105, 32, 104, 111, 224, 110, 32, 116, 7845, 116, 46, 32, 84, 104, 7917, 32, 110, 104, 7853, 112, 32, 108, 7841, 105, 46])]"

definition translation_missing_texts :: "(string \<times> utext) list" where
  "translation_missing_texts = [
    (''ar'', [1604, 1605, 32, 1610, 1578, 1605, 32, 1575, 1604, 1593, 1579, 1608, 1585, 32, 1593, 1604, 1609, 32, 1575, 1604, 1608, 1589, 1601, 1577, 32, 1604, 1604, 1578, 1585, 1580, 1605, 1577, 46]),
    (''bn'', [2437, 2472, 2497, 2476, 2494, 2470, 2503, 2480, 32, 2460, 2472, 2509, 2479, 32, 2480, 2503, 2488, 2495, 2474, 2495, 32, 2474, 2494, 2451, 2479, 2492, 2494, 32, 2479, 2494, 2479, 2492, 2472, 2495, 2404]),
    (''ca'', latin ''No s'ha trobat la recepta per traduir.''),
    (''zh-Hans'', [26410, 25214, 21040, 35201, 32763, 35793, 30340, 39135, 35889, 12290]),
    (''zh-Hant'', [25214, 19981, 21040, 35201, 32763, 35695, 30340, 39135, 35676, 12290]),
    (''hr'', [82, 101, 99, 101, 112, 116, 32, 122, 97, 32, 112, 114, 105, 106, 101, 118, 111, 100, 32, 110, 105, 106, 101, 32, 112, 114, 111, 110, 97, 273, 101, 110, 46]),
    (''cs'', [82, 101, 99, 101, 112, 116, 32, 107, 32, 112, 345, 101, 107, 108, 97, 100, 117, 32, 110, 101, 98, 121, 108, 32, 110, 97, 108, 101, 122, 101, 110, 46]),
    (''da'', [79, 112, 115, 107, 114, 105, 102, 116, 32, 116, 105, 108, 32, 111, 118, 101, 114, 115, 230, 116, 116, 101, 108, 115, 101, 32, 98, 108, 101, 118, 32, 105, 107, 107, 101, 32, 102, 117, 110, 100, 101, 116, 46]),
    (''nl'', latin ''Recept voor vertaling niet gevonden.''),
    (''en-AU'', latin translation_missing),
    (''en-CA'', latin translation_missing),
    (''en-GB'', latin translation_missing),
    (''en-US'', latin translation_missing),
    (''fi'', [75, 228, 228, 110, 110, 101, 116, 116, 228, 118, 228, 228, 32, 114, 101, 115, 101, 112, 116, 105, 228, 32, 101, 105, 32, 108, 246, 121, 116, 121, 110, 121, 116, 46]),
    (''fr-FR'', latin ''Recette introuvable pour la traduction.''),
    (''fr-CA'', latin ''Recette introuvable pour la traduction.''),
    (''de'', [82, 101, 122, 101, 112, 116, 32, 102, 252, 114, 32, 100, 105, 101, 32, 220, 98, 101, 114, 115, 101, 116, 122, 117, 110, 103, 32, 110, 105, 99, 104, 116, 32, 103, 101, 102, 117, 110, 100, 101, 110, 46]),
    (''el'', [919, 32, 963, 965, 957, 964, 945, 947, 942, 32, 947, 953, 945, 32, 956, 949, 964, 940, 966, 961, 945, 963, 951, 32, 948, 949, 957, 32, 946, 961, 941, 952, 951, 954, 949, 46]),
    (''gu'', [2693, 2728, 2753, 2741, 2750, 2726, 32, 2734, 2750, 2719, 2759, 32, 2736, 2759, 2744, 2752, 2730, 2752, 32, 2734, 2739, 2752, 32, 2728, 2725, 2752, 46]),
    (''he'', [1492, 1502, 1514, 1499, 1493, 1503, 32, 1500, 1514, 1512, 1490, 1493, 1501, 32, 1500, 1488, 32, 1504, 1502, 1510, 1488, 46]),
    (''hi'', [2309, 2344, 2369, 2357, 2366, 2342, 32, 2325, 2375, 32, 2354, 2367, 2319, 32, 2352, 2375, 2360, 2367, 2346, 2368, 32, 2344, 2361, 2368, 2306, 32, 2350, 2367, 2354, 2368, 2404]),
    (''hu'', [65, 32, 102, 111, 114, 100, 237, 116, 97, 110, 100, 243, 32, 114, 101, 99, 101, 112, 116, 32, 110, 101, 109, 32, 116, 97, 108, 225, 108, 104, 97, 116, 243, 46]),
    (''id'', latin ''Resep untuk terjemahan tidak ditemukan.''),
    (''it'', latin ''Ricetta non trovata per la traduzione.''),
    (''ja'', [32763, 35379, 12377, 12427, 12524, 12471, 12500, 12364, 35211, 12388, 12363, 12426, 12414, 12379, 12435, 12391, 12375, 12383, 12290]),
    (''kn'', [3205, 3240, 3265, 3253, 3262, 3238, 3221, 3277, 3221, 3270, 32, 3248, 3270, 3256, 3263, 3242, 3263, 32, 3221, 3202, 3233, 3265, 3244, 3202, 3238, 3263, 3250, 3277, 3250, 46]),
    (''ko'', [48264, 50669, 54624, 32, 47112, 49884, 54588, 47484, 32, 52286, 51648, 32, 47803, 54664, 49845, 45768, 45796, 46]),
    (''ms'', latin ''Resipi untuk terjemahan tidak ditemui.''),
    (''ml'', [3381, 3391, 3381, 3452, 3364, 3405, 3364, 3368, 3364, 3405, 3364, 3391, 3368, 3393, 3379, 3405, 3379, 32, 3370, 3390, 3354, 3349, 3349, 3405, 3349, 3393, 3377, 3391, 3370, 3405, 3370, 3405, 32, 3349, 3363, 3405, 3359, 3398, 3364, 3405, 3364, 3391, 3375, 3391, 3378, 3405, 3378, 46]),
    (''mr'', [2349, 2366, 2359, 2366, 2306, 2340, 2352, 2366, 2360, 2366, 2336, 2368, 32, 2352, 2375, 2360, 2367, 2346, 2368, 32, 2360, 2366, 2346, 2337, 2354, 2368, 32, 2344, 2366, 2361, 2368, 46]),
    (''nb'', latin ''Oppskrift for oversettelse ble ikke funnet.''),
    (''or'', [2821, 2856, 2881, 2860, 2878, 2854, 32, 2858, 2878, 2823, 2817, 32, 2864, 2887, 2872, 2879, 2858, 2879, 32, 2862, 2879, 2867, 2879, 2866, 2878, 32, 2856, 2878, 2873, 2879, 2817, 2404]),
    (''pl'', [78, 105, 101, 32, 122, 110, 97, 108, 101, 122, 105, 111, 110, 111, 32, 112, 114, 122, 101, 112, 105, 115, 117, 32, 100, 111, 32, 116, 322, 117, 109, 97, 99, 122, 101, 110, 105, 97, 46]),
    (''pt-BR'', [82, 101, 99, 101, 105, 116, 97, 32, 110, 227, 111, 32, 101, 110, 99, 111, 110, 116, 114, 97, 100, 97, 32, 112, 97, 114, 97, 32, 116, 114, 97, 100, 117, 231, 227, 111, 46]),
    (''pt-PT'', [82, 101, 99, 101, 105, 116, 97, 32, 110, 227, 111, 32, 101, 110, 99, 111, 110, 116, 114, 97, 100, 97, 32, 112, 97, 114, 97, 32, 116, 114, 97, 100, 117, 231, 227, 111, 46]),
    (''pa'', [2565, 2600, 2625, 2613, 2622, 2598, 32, 2610, 2568, 32, 2608, 2632, 2616, 2623, 2602, 2624, 32, 2600, 2617, 2624, 2562, 32, 2606, 2623, 2610, 2624, 2404]),
    (''ro'', [82, 101, 539, 101, 116, 97, 32, 112, 101, 110, 116, 114, 117, 32, 116, 114, 97, 100, 117, 99, 101, 114, 101, 32, 110, 117, 32, 97, 32, 102, 111, 115, 116, 32, 103, 259, 115, 105, 116, 259, 46]),
    (''ru'', [1056, 1077, 1094, 1077, 1087, 1090, 32, 1076, 1083, 1103, 32, 1087, 1077, 1088, 1077, 1074, 1086, 1076, 1072, 32, 1085, 1077, 32, 1085, 1072, 1081, 1076, 1077, 1085, 46]),
    (''sk'', [82, 101, 99, 101, 112, 116, 32, 110, 97, 32, 112, 114, 101, 107, 108, 97, 100, 32, 115, 97, 32, 110, 101, 110, 97, 353, 105, 101, 108, 46]),
    (''sl'', [82, 101, 99, 101, 112, 116, 97, 32, 122, 97, 32, 112, 114, 101, 118, 111, 100, 32, 110, 105, 32, 98, 105, 108, 111, 32, 109, 111, 103, 111, 269, 101, 32, 110, 97, 106, 116, 105, 46]),
    (''es-MX'', [78, 111, 32, 115, 101, 32, 101, 110, 99, 111, 110, 116, 114, 243, 32, 108, 97, 32, 114, 101, 99, 101, 116, 97, 32, 112, 97, 114, 97, 32, 116, 114, 97, 100, 117, 99, 105, 114, 46]),
    (''es-ES'', [78, 111, 32, 115, 101, 32, 101, 110, 99, 111, 110, 116, 114, 243, 32, 108, 97, 32, 114, 101, 99, 101, 116, 97, 32, 112, 97, 114, 97, 32, 116, 114, 97, 100, 117, 99, 105, 114, 46]),
    (''sv'', [82, 101, 99, 101, 112, 116, 101, 116, 32, 102, 246, 114, 32, 246, 118, 101, 114, 115, 228, 116, 116, 110, 105, 110, 103, 32, 104, 105, 116, 116, 97, 100, 101, 115, 32, 105, 110, 116, 101, 46]),
    (''ta'', [2990, 3018, 2996, 3007, 2986, 3014, 2991, 2992, 3021, 2986, 3021, 2986, 3009, 2965, 3021, 2965, 3006, 2985, 32, 2970, 3014, 2991, 3021, 2990, 3009, 2993, 3016, 32, 2965, 3007, 2975, 3016, 2965, 3021, 2965, 2997, 3007, 2994, 3021, 2994, 3016, 46]),
    (''te'', [3077, 3112, 3137, 3125, 3134, 3110, 3074, 32, 3093, 3147, 3128, 3074, 32, 3120, 3142, 3128, 3135, 3114, 3136, 32, 3093, 3112, 3116, 3105, 3122, 3143, 3110, 3137, 46]),
    (''th'', [3652, 3617, 3656, 3614, 3610, 3626, 3641, 3605, 3619, 3626, 3635, 3627, 3619, 3633, 3610, 3649, 3611, 3621]),
    (''tr'', [199, 101, 118, 105, 114, 105, 32, 105, 231, 105, 110, 32, 116, 97, 114, 105, 102, 32, 98, 117, 108, 117, 110, 97, 109, 97, 100, 305, 46]),
    (''uk'', [1056, 1077, 1094, 1077, 1087, 1090, 32, 1076, 1083, 1103, 32, 1087, 1077, 1088, 1077, 1082, 1083, 1072, 1076, 1091, 32, 1085, 1077, 32, 1079, 1085, 1072, 1081, 1076, 1077, 1085, 1086, 46]),
    (''ur'', [1578, 1585, 1580, 1605, 1746, 32, 1705, 1746, 32, 1604, 1740, 1746, 32, 1578, 1585, 1705, 1740, 1576, 32, 1606, 1729, 1740, 1722, 32, 1605, 1604, 1740, 1748]),
    (''vi'', [75, 104, 244, 110, 103, 32, 116, 236, 109, 32, 116, 104, 7845, 121, 32, 99, 244, 110, 103, 32, 116, 104, 7913, 99, 32, 273, 7875, 32, 100, 7883, 99, 104, 46])]"

definition messages :: "(string \<times> (string \<times> utext) list) list" where
  "messages = [
    (recipe_undetermined, recipe_undetermined_texts),
    (recipe_incomplete, recipe_incomplete_texts),
    (recipe_no_ingredients, recipe_no_ingredients_texts),
    (recipe_no_method, recipe_no_method_texts),
    (link_in_bio, link_in_bio_texts),
    (unsupported_url, unsupported_url_texts),
    (video_too_long, video_too_long_texts),
    (incomplete_carousel, incomplete_carousel_texts),
    (extraction_retryable, extraction_retryable_texts),
    (no_recipe_text, no_recipe_text_texts),
    (source_bound, source_bound_texts),
    (stale_job, stale_job_texts),
    (translation_missing, translation_missing_texts)]"

lemmas canonical_defs = recipe_undetermined_def recipe_incomplete_def recipe_no_ingredients_def recipe_no_method_def link_in_bio_def unsupported_url_def video_too_long_def incomplete_carousel_def extraction_retryable_def no_recipe_text_def source_bound_def stale_job_def translation_missing_def

lemmas table_defs = recipe_undetermined_texts_def recipe_incomplete_texts_def recipe_no_ingredients_texts_def recipe_no_method_texts_def link_in_bio_texts_def unsupported_url_texts_def video_too_long_texts_def incomplete_carousel_texts_def extraction_retryable_texts_def no_recipe_text_texts_def source_bound_texts_def stale_job_texts_def translation_missing_texts_def

end
