(* ===== verification/Job_Errors.thy ===== *)
theory Job_Errors
  imports Job_Messages
begin

section \<open>Job errors: what a user may read\<close>

text \<open>
  The functions of app/job_errors.py over the tables of \<open>Job_Messages\<close>, and
  \<open>_safe_job_error\<close> of app/pipeline.py, through which every failure text of a job passes before
  it is stored. The properties: whatever a provider, a library or an old row says, what is stored
  and shown is one of thirteen messages, in a supported language, with its own code.
\<close>

subsection \<open>Canonical messages\<close>

definition legacy_messages :: "(string \<times> string) list" where
  "legacy_messages = [
    (''Could not determine a recipe from this video.'', recipe_undetermined),
    (''Could not extract a complete recipe from this video.'', recipe_incomplete),
    (''Recipe link in bio. Open the creator profile bio for the full recipe.'', link_in_bio),
    (''Extraction temporarily failed. Retry the import.'', extraction_retryable),
    (''Unsupported URL. Use TikTok, YouTube, Instagram or Facebook.'', unsupported_url)]"

definition canonicalize_job_error :: "string \<Rightarrow> string" where
  "canonicalize_job_error message =
     (let t = strip message in
      if t = [] then extraction_retryable
      else if map_of messages t \<noteq> None then t
      else if starts_with t ''Video too long ('' then video_too_long
      else if starts_with t ''Incomplete TikTok carousel:'' \<or> starts_with t ''TikTok video evidence incomplete:''
        then incomplete_carousel
      else if starts_with t ''No usable recipe text found'' then no_recipe_text
      else if starts_with t ''Recipe source text exceeds supported bound'' then source_bound
      else if starts_with t ''Unsupported URL.'' then unsupported_url
      else if starts_with t ''Recipe not found for translation'' then translation_missing
      else if starts_with t ''Recipe model refused'' \<or> starts_with t ''Recipe model returned''
        then extraction_retryable
      else if starts_with t ''Recipe output failed validation''
          \<or> starts_with t ''Translated recipe output failed validation''
        then extraction_retryable
      else if t = ''Job expired before completion. Retry the import.'' then stale_job
      else (case map_of legacy_messages t of Some m \<Rightarrow> m | None \<Rightarrow> extraction_retryable))"

definition localize_job_error :: "string option \<Rightarrow> string option \<Rightarrow> utext option res" where
  "localize_job_error message language_code =
     (case message of
        None \<Rightarrow> Inr None
      | Some m \<Rightarrow>
          (case map_of messages (canonicalize_job_error m) of
             None \<Rightarrow> Inl KeyError
           | Some texts \<Rightarrow>
               (case map_of texts (normalize_language language_code) of
                  None \<Rightarrow> Inl KeyError
                | Some t \<Rightarrow> Inr (Some t))))"

definition job_error_code :: "string option \<Rightarrow> string option" where
  "job_error_code message =
     (case message of
        None \<Rightarrow> None
      | Some m \<Rightarrow> if m = [] then None else map_of error_codes (canonicalize_job_error m))"

text \<open>The check at import: every message has every supported language.\<close>

definition assert_complete :: "unit res" where
  "assert_complete =
     (if list_all (\<lambda>(m, texts). set supported_language_codes \<subseteq> fst ` set texts) messages
      then Inr () else Inl (RuntimeError ''job error missing locales''))"

subsection \<open>What a failing job may store\<close>

definition safe_prefixes :: "string list" where
  "safe_prefixes = [
    ''Unsupported URL.'',
    ''Video too long ('',
    ''No usable recipe text found in source'',
    recipe_undetermined,
    recipe_incomplete,
    link_in_bio,
    ''Incomplete TikTok carousel:'',
    ''TikTok video evidence incomplete:'',
    ''Recipe source text exceeds supported bound'',
    ''OPENAI_API_KEY is not configured'',
    ''Recipe model refused'',
    ''Recipe model returned'',
    ''Recipe output failed validation'',
    ''Translated recipe output failed validation'',
    ''Recipe not found for translation'',
    recipe_no_ingredients,
    recipe_no_method]"

definition safe_messages :: "string list" where
  "safe_messages = [
    recipe_undetermined, recipe_incomplete, link_in_bio, recipe_no_ingredients, recipe_no_method,
    unsupported_url, video_too_long, incomplete_carousel, no_recipe_text, source_bound,
    extraction_retryable]"

text \<open>The argument is \<open>str(error)\<close>.\<close>

definition safe_job_error :: "string \<Rightarrow> string" where
  "safe_job_error error =
     (let message = strip error in
      if list_ex (starts_with message) safe_prefixes \<or> message \<in> set safe_messages
      then take 300 (canonicalize_job_error message)
      else extraction_retryable)"

subsection \<open>Facts about the tables\<close>

lemma messages_keys: "map fst messages = map fst error_codes"
  by (simp add: messages_def error_codes_def)

lemma error_codes_distinct: "distinct (map fst error_codes)" "distinct (map snd error_codes)"
  by (simp_all add: error_codes_def canonical_defs)

lemma legacy_known: "map_of legacy_messages t = Some m \<Longrightarrow> m \<in> fst ` set messages"
  by (drule map_of_SomeD) (auto simp: legacy_messages_def messages_def)

lemma known_messages [simp]:
  "extraction_retryable \<in> fst ` set messages" "video_too_long \<in> fst ` set messages"
  "incomplete_carousel \<in> fst ` set messages" "no_recipe_text \<in> fst ` set messages"
  "source_bound \<in> fst ` set messages" "unsupported_url \<in> fst ` set messages"
  "translation_missing \<in> fst ` set messages" "stale_job \<in> fst ` set messages"
  by (simp_all add: messages_def)

lemma if_mem: "(b \<Longrightarrow> x \<in> A) \<Longrightarrow> (\<not> b \<Longrightarrow> y \<in> A) \<Longrightarrow> (if b then x else y) \<in> A"
  by simp

lemma option_mem: "(\<And>x. m = Some x \<Longrightarrow> x \<in> A) \<Longrightarrow> y \<in> A \<Longrightarrow> (case m of Some x \<Rightarrow> x | None \<Rightarrow> y) \<in> A"
  by (cases m) auto

lemma canonical_known: "canonicalize_job_error m \<in> fst ` set messages"
proof -
  have "t \<in> fst ` set messages" if "map_of messages t \<noteq> None" for t
    using that by (simp add: map_of_eq_None_iff)
  then show ?thesis
    unfolding canonicalize_job_error_def Let_def
    by (intro if_mem option_mem known_messages) (assumption | erule legacy_known)+
qed

lemma canonical_list:
  "map fst messages = [recipe_undetermined, recipe_incomplete, recipe_no_ingredients, recipe_no_method,
     link_in_bio, unsupported_url, video_too_long, incomplete_carousel, extraction_retryable,
     no_recipe_text, source_bound, stale_job, translation_missing]"
  by (simp add: messages_def)

lemma canonical_shape:
  "list_all (\<lambda>m. strip m = m \<and> m \<noteq> [] \<and> length m \<le> 300)
     [recipe_undetermined, recipe_incomplete, recipe_no_ingredients, recipe_no_method,
      link_in_bio, unsupported_url, video_too_long, incomplete_carousel, extraction_retryable,
      no_recipe_text, source_bound, stale_job, translation_missing]"
  by code_simp

lemma message_shape:
  assumes "m \<in> fst ` set messages"
  shows "strip m = m" "m \<noteq> []" "length m \<le> 300"
proof -
  have "m \<in> set (map fst messages)" using assms by simp
  with canonical_shape have "strip m = m \<and> m \<noteq> [] \<and> length m \<le> 300"
    unfolding canonical_list list_all_iff by blast
  then show "strip m = m" "m \<noteq> []" "length m \<le> 300" by blast+
qed

lemma canonical_fixed: "m \<in> fst ` set messages \<Longrightarrow> canonicalize_job_error m = m"
  using message_shape [of m] by (simp add: canonicalize_job_error_def map_of_eq_None_iff)

lemma texts_languages: "(m, texts) \<in> set messages \<Longrightarrow> map fst texts = supported_language_codes"
proof -
  have "list_all (\<lambda>texts. map fst texts = supported_language_codes)
      [recipe_undetermined_texts, recipe_incomplete_texts, recipe_no_ingredients_texts,
       recipe_no_method_texts, link_in_bio_texts, unsupported_url_texts, video_too_long_texts,
       incomplete_carousel_texts, extraction_retryable_texts, no_recipe_text_texts,
       source_bound_texts, stale_job_texts, translation_missing_texts]"
    by (simp add: table_defs supported_language_codes_def)
  then show "(m, texts) \<in> set messages \<Longrightarrow> map fst texts = supported_language_codes"
    by (auto simp: messages_def)
qed

subsection \<open>The properties\<close>

text \<open>A failing job never stores a text that a provider or a library chose: whatever the exception says,
  \<open>_safe_job_error\<close> answers one of the thirteen canonical messages, whole (the cut at 300 never shortens one),
  and canonicalising what is stored changes nothing.\<close>

theorem safe_job_error_canonical:
  "safe_job_error e \<in> fst ` set messages \<and>
   canonicalize_job_error (safe_job_error e) = safe_job_error e \<and>
   canonicalize_job_error (canonicalize_job_error m) = canonicalize_job_error m"
proof (intro conjI)
  have "take 300 (canonicalize_job_error m) = canonicalize_job_error m" for m
    using message_shape [OF canonical_known [of m]] by simp
  then show 1: "safe_job_error e \<in> fst ` set messages"
    by (simp add: safe_job_error_def Let_def canonical_known)
  show "canonicalize_job_error (safe_job_error e) = safe_job_error e"
    by (rule canonical_fixed [OF 1])
  show "canonicalize_job_error (canonicalize_job_error m) = canonicalize_job_error m"
    by (rule canonical_fixed [OF canonical_known])
qed

lemma localized:
  "\<exists>texts t. (canonicalize_job_error m, texts) \<in> set messages \<and>
     (normalize_language code, t) \<in> set texts \<and> localize_job_error (Some m) code = Inr (Some t)"
proof -
  obtain texts where texts: "map_of messages (canonicalize_job_error m) = Some texts"
    using canonical_known [of m] by (metis domD dom_map_of_conv_image_fst)
  then have in_table: "(canonicalize_job_error m, texts) \<in> set messages" by (rule map_of_SomeD)
  obtain t where t: "label_of texts code = Inr t" "(normalize_language code, t) \<in> set texts"
    using label_of_table [OF texts_languages [OF in_table], of code] by blast
  then have "map_of texts (normalize_language code) = Some t"
    by (simp add: label_of_def split: option.splits)
  with texts have "localize_job_error (Some m) code = Inr (Some t)"
    by (simp add: localize_job_error_def)
  with in_table t(2) show ?thesis by blast
qed

lemma coded: "m \<noteq> [] \<Longrightarrow> \<exists>c. job_error_code (Some m) = Some c \<and> (canonicalize_job_error m, c) \<in> set error_codes"
proof -
  assume m: "m \<noteq> []"
  have "canonicalize_job_error m \<in> set (map fst error_codes)"
    using canonical_known [of m] by (simp only: messages_keys [symmetric] set_map)
  then obtain c where "map_of error_codes (canonicalize_job_error m) = Some c"
    by (metis domD dom_map_of_conv_image_fst list.set_map)
  with m show ?thesis by (auto simp: job_error_code_def dest: map_of_SomeD)
qed

text \<open>Every stored error can be shown: for any text and any language tag the lookup succeeds (the check at
  import accepts the tables and no \<open>KeyError\<close> is possible) with a text of the tables, every label of the
  server exists in every language, every non-empty error has a code, and two errors with the same
  code have the same canonical message, so a client may branch on the code alone.\<close>

theorem every_error_localized:
  "assert_complete = Inr () \<and>
   (\<exists>t. localize_job_error (Some m) code = Inr (Some t) \<and>
     (\<exists>texts. (canonicalize_job_error m, texts) \<in> set messages \<and> (normalize_language code, t) \<in> set texts)) \<and>
   (\<exists>a b c d e. language_name code = Inr a \<and> untitled_recipe_name code = Inr b \<and>
     ingredient_section_name code = Inr c \<and> optional_section_name code = Inr d \<and> to_taste_quantity code = Inr e) \<and>
   (\<exists>c. job_error_code (Some (x # xs)) = Some c) \<and>
   (job_error_code (Some (x # xs)) = job_error_code (Some (y # ys)) \<longleftrightarrow>
     canonicalize_job_error (x # xs) = canonicalize_job_error (y # ys))"
proof (intro conjI)
  have "fst ` set texts = set supported_language_codes" if "(m, texts) \<in> set messages" for m texts
    using texts_languages [OF that] by (metis list.set_map)
  then show "assert_complete = Inr ()"
    by (auto simp: assert_complete_def list_all_iff)
  show "\<exists>t. localize_job_error (Some m) code = Inr (Some t) \<and>
     (\<exists>texts. (canonicalize_job_error m, texts) \<in> set messages \<and> (normalize_language code, t) \<in> set texts)"
    using localized [of m code] by blast
  have tables: "map fst language_names = supported_language_codes"
    "map fst untitled_recipe_names = supported_language_codes"
    "map fst ingredient_section_names = supported_language_codes"
    "map fst to_taste_quantities = supported_language_codes"
    "map fst optional_section_names = supported_language_codes"
    using label_tables by simp_all
  show "\<exists>a b c d e. language_name code = Inr a \<and> untitled_recipe_name code = Inr b \<and>
     ingredient_section_name code = Inr c \<and> optional_section_name code = Inr d \<and> to_taste_quantity code = Inr e"
    unfolding language_name_def untitled_recipe_name_def ingredient_section_name_def
      optional_section_name_def to_taste_quantity_def
    using tables [THEN label_of_table [where code = code]] by blast
  show "\<exists>c. job_error_code (Some (x # xs)) = Some c"
    using coded [of "x # xs"] by blast
  obtain c d where c: "job_error_code (Some (x # xs)) = Some c" "(canonicalize_job_error (x # xs), c) \<in> set error_codes"
    and d: "job_error_code (Some (y # ys)) = Some d" "(canonicalize_job_error (y # ys), d) \<in> set error_codes"
    using coded [of "x # xs"] coded [of "y # ys"] by blast
  have inj: "inj_on snd (set error_codes)" "inj_on fst (set error_codes)"
    using error_codes_distinct by (simp_all add: distinct_map)
  have "c = d \<longleftrightarrow> canonicalize_job_error (x # xs) = canonicalize_job_error (y # ys)"
    using inj_onD [OF inj(1) _ c(2) d(2)] inj_onD [OF inj(2) _ c(2) d(2)] by auto
  with c(1) d(1) show "job_error_code (Some (x # xs)) = job_error_code (Some (y # ys)) \<longleftrightarrow>
     canonicalize_job_error (x # xs) = canonicalize_job_error (y # ys)" by simp
qed

end
