(* ===== verification/Job_Store.thy ===== *)
theory Job_Store
  imports Job_Db Job_Errors
begin

section \<open>The job store\<close>

text \<open>
  The functions of app/store.py on jobs, each a sequence of statements of \<open>Job_Db\<close> (a statement is
  a transaction of its own), run in the session of their caller, and the database function
  \<open>claim_next_extract_job\<close> of migrations/001. The properties: at most one active import per source,
  one job per delivery identifier whatever happens between the statements, who gets the job of
  another user, and the order, the exclusivity and the number of claims.
\<close>

type_synonym 'r job_tx = "(job_db, 'r) tx"

subsection \<open>Reading\<close>

definition rows :: "session \<Rightarrow> (job \<Rightarrow> bool) \<Rightarrow> job_db \<Rightarrow> job list" where
  "rows s P d = [j \<leftarrow> jobs d. visible s d j \<and> P j]"

definition get_job :: "session \<Rightarrow> uuid \<Rightarrow> job option job_tx" where
  "get_job s i = atomically (\<lambda>d. (Inr (find (\<lambda>_. True) (rows s (\<lambda>j. jid j = i) d)), d))"

definition get_job_by_delivery_id :: "session \<Rightarrow> uuid \<Rightarrow> uuid \<Rightarrow> job option job_tx" where
  "get_job_by_delivery_id s u dl =
     atomically (\<lambda>d. (Inr (find (\<lambda>_. True) (rows s (\<lambda>j. jowner j = Some u \<and> jdelivery j = Some dl) d)), d))"

definition is_active_job :: "string \<Rightarrow> string \<Rightarrow> job_kind \<Rightarrow> uuid option \<Rightarrow> job \<Rightarrow> bool" where
  "is_active_job url lang kind recipe j \<longleftrightarrow>
     jnorm j = url \<and> jkind j = kind \<and> active j \<and>
     (kind = Translation \<longrightarrow> jrecipe j = recipe \<and> jlang j = normalize_language (Some lang))"

definition get_active_job :: "session \<Rightarrow> string \<Rightarrow> string \<Rightarrow> job_kind \<Rightarrow> uuid option \<Rightarrow> job option job_tx" where
  "get_active_job s url lang kind recipe =
     (if kind = Translation \<and> recipe = None then tx_return None
      else atomically (\<lambda>d. (Inr (newest (rows s (is_active_job url lang kind recipe) d)), d)))"

definition count_user_open_extract_jobs :: "session \<Rightarrow> uuid \<Rightarrow> nat job_tx" where
  "count_user_open_extract_jobs s u =
     atomically (\<lambda>d. (Inr (length (rows s (\<lambda>j. jowner j = Some u \<and> jkind j = Extract \<and> active j) d)), d))"

definition user_has_processing_extract :: "session \<Rightarrow> uuid \<Rightarrow> bool job_tx" where
  "user_has_processing_extract s u =
     atomically (\<lambda>d. (Inr (rows s (\<lambda>j. jowner j = Some u \<and> jkind j = Extract \<and> jstatus j = Processing) d \<noteq> []), d))"

definition list_user_open_extract_jobs :: "session \<Rightarrow> uuid \<Rightarrow> nat \<Rightarrow> job list job_tx" where
  "list_user_open_extract_jobs s u n =
     atomically (\<lambda>d. (Inr (take n (sort_key jcreated
       (rows s (\<lambda>j. jowner j = Some u \<and> jkind j = Extract \<and> active j) d))), d))"

definition list_live_queue_jobs :: "session \<Rightarrow> nat \<Rightarrow> job list job_tx" where
  "list_live_queue_jobs s n =
     tx_bind
       (atomically (\<lambda>d. (Inr (take n (sort_key jcreated
         (rows s (\<lambda>j. jkind j = Extract \<and> jstatus j = Processing) d))), d)))
       (\<lambda>processing.
         let remaining = n - length processing in
         tx_bind
           (if remaining = 0 then tx_return []
            else atomically (\<lambda>d. (Inr (take remaining (sort_key jcreated
              (rows s (\<lambda>j. jkind j = Extract \<and> jstatus j = Pending) d))), d)))
           (\<lambda>pending. tx_return (processing @ pending)))"

subsection \<open>Creating and updating\<close>

record job_request =
  rq_user :: uuid
  rq_raw :: string
  rq_norm :: string
  rq_lang :: string
  rq_kind :: job_kind
  rq_status :: job_status
  rq_hit :: bool
  rq_recipe :: "uuid option"
  rq_delivery :: "uuid option"
  rq_cost :: rat

definition job_row :: "stamp \<Rightarrow> job_request \<Rightarrow> job" where
  "job_row st q = \<lparr>jid = st_id st ''job'', jowner = Some (rq_user q), jstatus = rq_status q,
     jraw = rq_raw q, jnorm = rq_norm q, jlang = rq_lang q, jkind = rq_kind q, jrecipe = rq_recipe q,
     jhit = rq_hit q, jcost = rq_cost q, jerror = None,
     jprogress = (if rq_status q = Completed then 100 else 0), jattempts = 0, jlease = None,
     jdelivery = rq_delivery q, jcreated = st_now st, jupdated = st_now st\<rparr>"

text \<open>The result carries the mark \<open>_idempotent_replay\<close>.\<close>

definition active_or_raise :: "session \<Rightarrow> job_request \<Rightarrow> (job \<times> bool) job_tx" where
  "active_or_raise s q =
     tx_bind (get_active_job s (rq_norm q) (rq_lang q) (rq_kind q) (rq_recipe q)) (\<lambda>found.
       case found of Some j \<Rightarrow> tx_return (j, False) | None \<Rightarrow> tx_raise UniqueViolation)"

definition on_violation :: "session \<Rightarrow> job_request \<Rightarrow> (job \<times> bool) job_tx" where
  "on_violation s q =
     (case rq_delivery q of
        None \<Rightarrow> active_or_raise s q
      | Some dl \<Rightarrow>
          tx_bind (get_job_by_delivery_id s (rq_user q) dl) (\<lambda>replay.
            case replay of Some j \<Rightarrow> tx_return (j, True) | None \<Rightarrow> active_or_raise s q))"

definition create_job :: "session \<Rightarrow> stamp \<Rightarrow> job_request \<Rightarrow> (job \<times> bool) job_tx" where
  "create_job s st q =
     tx_catch
       (tx_bind (atomically (insert_job s st (job_row st q))) (\<lambda>j. tx_return (j, False)))
       (\<lambda>e. if e = UniqueViolation then on_violation s q else tx_raise e)"

datatype job_col =
    SetStatus job_status
  | SetProgress int
  | SetError "string option"
  | SetLease "instant option"
  | SetRecipe "uuid option"
  | SetCost rat
  | SetHit bool

fun set_col :: "job_col \<Rightarrow> job \<Rightarrow> job" where
  "set_col (SetStatus x) j = j\<lparr>jstatus := x\<rparr>"
| "set_col (SetProgress x) j = j\<lparr>jprogress := x\<rparr>"
| "set_col (SetError x) j = j\<lparr>jerror := x\<rparr>"
| "set_col (SetLease x) j = j\<lparr>jlease := x\<rparr>"
| "set_col (SetRecipe x) j = j\<lparr>jrecipe := x\<rparr>"
| "set_col (SetCost x) j = j\<lparr>jcost := x\<rparr>"
| "set_col (SetHit x) j = j\<lparr>jhit := x\<rparr>"

fun is_status :: "job_col \<Rightarrow> bool" where
  "is_status (SetStatus _) = True"
| "is_status _ = False"

definition update_job :: "session \<Rightarrow> stamp \<Rightarrow> uuid \<Rightarrow> job_col list \<Rightarrow> job option job_tx" where
  "update_job s st i cols =
     (if cols = [] then get_job s i
      else atomically (update_row s st (list_ex is_status cols) (fold set_col cols) i))"

subsection \<open>Shared access\<close>

definition insert_access :: "session \<Rightarrow> uuid \<Rightarrow> uuid \<Rightarrow> job_db \<Rightarrow> unit res \<times> job_db" where
  "insert_access s i u d =
     (if \<not> se_service s \<and> se_user s \<noteq> Some u then (Inl DbError, d)
      else (Inr (), if (i, u) \<in> set (shared_access d) then d
                    else d\<lparr>shared_access := shared_access d @ [(i, u)]\<rparr>))"

definition grant_job_access :: "session \<Rightarrow> uuid \<Rightarrow> uuid \<Rightarrow> unit job_tx" where
  "grant_job_access s i u = tx_catch (atomically (insert_access s i u)) (\<lambda>_. tx_raise JobAccessUnavailable)"

definition user_can_access_job :: "session \<Rightarrow> uuid \<Rightarrow> uuid \<Rightarrow> job option \<Rightarrow> bool job_tx" where
  "user_can_access_job s i u row =
     tx_bind (case row of Some j \<Rightarrow> tx_return (Some j) | None \<Rightarrow> get_job s i) (\<lambda>j.
       if j \<noteq> None \<and> jowner (the j) = Some u then tx_return True
       else tx_catch
         (atomically (\<lambda>d. (Inr ((se_service s \<or> se_user s = Some u) \<and> (i, u) \<in> set (shared_access d)), d)))
         (\<lambda>_. tx_raise JobAccessUnavailable))"

subsection \<open>Claiming\<close>

text \<open>The drain of the web process: the oldest pending import, of one user or of all.\<close>

definition to_processing :: "job \<Rightarrow> job" where
  "to_processing j = j\<lparr>jstatus := Processing, jprogress := 0, jerror := None\<rparr>"

definition next_pending :: "session \<Rightarrow> stamp \<Rightarrow> uuid option \<Rightarrow> job_db \<Rightarrow> job option res \<times> job_db" where
  "next_pending s st u d =
     (case oldest (rows s (\<lambda>j. jkind j = Extract \<and> jstatus j = Pending \<and> (u = None \<or> jowner j = u)) d) of
        None \<Rightarrow> (Inr None, d)
      | Some j \<Rightarrow> update_row s st True to_processing (jid j) d)"

definition claim_next_pending_extract :: "session \<Rightarrow> stamp \<Rightarrow> uuid option \<Rightarrow> job option job_tx" where
  "claim_next_pending_extract s st u = atomically (next_pending s st u)"

text \<open>The claim of the worker: \<open>claim_next_extract_job (p_lease_seconds)\<close>.\<close>

definition exhausted_error :: string where
  "exhausted_error = ''Job exhausted its retry limit. Retry the import.''"

definition lease_over :: "instant \<Rightarrow> job \<Rightarrow> bool" where
  "lease_over now j \<longleftrightarrow> (case jlease j of None \<Rightarrow> True | Some l \<Rightarrow> l < now)"

definition exhaust :: "instant \<Rightarrow> job \<Rightarrow> job" where
  "exhaust now j =
     (if active j \<and> 5 \<le> jattempts j \<and> lease_over now j
      then j\<lparr>jstatus := Failed, jprogress := 0, jerror := Some exhausted_error, jlease := None, jupdated := now\<rparr>
      else j)"

definition release_reservation :: "job list \<Rightarrow> ledger_row \<Rightarrow> ledger_row" where
  "release_reservation js r =
     (if lg_status r = SpendReserved \<and>
         list_ex (\<lambda>j. jid j = lg_job r \<and> jstatus j = Failed \<and> jerror j = Some exhausted_error) js
      then r\<lparr>lg_actual := 0, lg_status := SpendFailed\<rparr> else r)"

definition claimable :: "instant \<Rightarrow> job \<Rightarrow> bool" where
  "claimable now j \<longleftrightarrow> jattempts j < 5 \<and>
     (jstatus j = Pending \<or> (jstatus j = Processing \<and> lease_over now j))"

definition lease_seconds :: "int \<Rightarrow> int" where
  "lease_seconds p = max 30 (min p 1800)"

definition leased :: "instant \<Rightarrow> int \<Rightarrow> job \<Rightarrow> job" where
  "leased now p j = j\<lparr>jstatus := Processing, jprogress := 0, jattempts := jattempts j + 1,
     jlease := Some (now + lease_seconds p * second), jerror := None, jupdated := now\<rparr>"

definition claim_next :: "instant \<Rightarrow> int \<Rightarrow> job_db \<Rightarrow> job option \<times> job_db" where
  "claim_next now p d0 =
     (let js = map (exhaust now) (jobs d0);
          d = d0\<lparr>jobs := js, spend := (spend d0)\<lparr>ledger := map (release_reservation js) (ledger (spend d0))\<rparr>\<rparr>
      in case oldest (filter (claimable now) js) of
           None \<Rightarrow> (None, d)
         | Some j \<Rightarrow> (Some (leased now p j), d\<lparr>jobs := replace_job (leased now p j) js\<rparr>))"

definition claim_next_extract_job :: "instant \<Rightarrow> int \<Rightarrow> job option job_tx" where
  "claim_next_extract_job now p = atomically (\<lambda>d. case claim_next now p d of (r, d') \<Rightarrow> (Inr r, d'))"

subsection \<open>What every call keeps\<close>

definition db_ok :: "job_db \<Rightarrow> bool" where
  "db_ok d \<longleftrightarrow> jobs_ok (jobs d) \<and> pushes_ok d"

text \<open>A later state of the same job: what was asked for does not change, attempts are only added.\<close>

definition same_job :: "job \<Rightarrow> job \<Rightarrow> bool" where
  "same_job a b \<longleftrightarrow> jid b = jid a \<and> jowner b = jowner a \<and> jraw b = jraw a \<and> jnorm b = jnorm a \<and>
     jlang b = jlang a \<and> jkind b = jkind a \<and> jdelivery b = jdelivery a \<and> jcreated b = jcreated a \<and>
     jattempts a \<le> jattempts b"

definition evolves :: "job_db \<Rightarrow> job_db \<Rightarrow> bool" where
  "evolves d d' \<longleftrightarrow> (db_ok d \<longrightarrow> db_ok d' \<and> (\<forall>a \<in> set (jobs d). \<exists>b \<in> set (jobs d'). same_job a b))"

lemma same_job_refl [simp]: "same_job a a"
  by (simp add: same_job_def)

lemma same_job_trans: "same_job a b \<Longrightarrow> same_job b c \<Longrightarrow> same_job a c"
  by (auto simp: same_job_def)

interpretation jg: guarantee evolves
proof
  show "evolves d d" for d
    unfolding evolves_def using same_job_refl by blast
  show "evolves a b \<Longrightarrow> evolves b c \<Longrightarrow> evolves a c" for a b c
    unfolding evolves_def by (meson same_job_trans)
qed

lemma evolvesI:
  assumes "db_ok d \<Longrightarrow> db_ok d'"
    and "\<And>a. db_ok d \<Longrightarrow> a \<in> set (jobs d) \<Longrightarrow> \<exists>b \<in> set (jobs d'). same_job a b"
  shows "evolves d d'"
  using assms by (auto simp: evolves_def)

lemma set_cols_same [simp]:
  "jid (fold set_col cols j) = jid j" "jowner (fold set_col cols j) = jowner j" "jraw (fold set_col cols j) = jraw j"
  "jnorm (fold set_col cols j) = jnorm j" "jlang (fold set_col cols j) = jlang j" "jkind (fold set_col cols j) = jkind j"
  "jdelivery (fold set_col cols j) = jdelivery j" "jcreated (fold set_col cols j) = jcreated j"
  "jattempts (fold set_col cols j) = jattempts j"
proof -
  have 1: "same_job j (set_col c j) \<and> jattempts (set_col c j) = jattempts j" for c j
    by (cases c) (simp_all add: same_job_def)
  have "same_job j (fold set_col cols j) \<and> jattempts (fold set_col cols j) = jattempts j"
    using 1 by (induction cols arbitrary: j) (auto intro: same_job_trans)
  then show
    "jid (fold set_col cols j) = jid j" "jowner (fold set_col cols j) = jowner j" "jraw (fold set_col cols j) = jraw j"
    "jnorm (fold set_col cols j) = jnorm j" "jlang (fold set_col cols j) = jlang j" "jkind (fold set_col cols j) = jkind j"
    "jdelivery (fold set_col cols j) = jdelivery j" "jcreated (fold set_col cols j) = jcreated j"
    "jattempts (fold set_col cols j) = jattempts j"
    by (simp_all add: same_job_def)
qed

lemma replace_same:
  assumes "distinct (map jid js)" "old \<in> set js" "same_job old new" "a \<in> set js"
  shows "\<exists>b \<in> set (replace_job new js). same_job a b"
proof (cases "jid a = jid new")
  case True
  with assms have "a = old"
    by (metis distinct_map inj_on_eq_iff same_job_def)
  moreover have "new \<in> set (replace_job new js)"
    using assms True \<open>a = old\<close> by (force simp: replace_job_def)
  ultimately show ?thesis using assms(3) by blast
next
  case False
  then have "a \<in> set (replace_job new js)"
    using assms(4) by (force simp: replace_job_def)
  then show ?thesis by (meson same_job_refl)
qed

lemma evolves_insert: "evolves d (snd (insert_job s st j d))"
proof (rule evolvesI)
  show "db_ok d \<Longrightarrow> db_ok (snd (insert_job s st j d))"
    using insert_job_ok by (simp add: db_ok_def)
  show "a \<in> set (jobs d) \<Longrightarrow> \<exists>b \<in> set (jobs (snd (insert_job s st j d))). same_job a b" for a
    by (auto simp: insert_job_def intro!: bexI [of _ a])
qed

lemma evolves_update:
  assumes f: "\<And>j. same_job j (f j)"
  shows "evolves d (snd (update_row s st b f i d))"
proof (rule evolvesI)
  have "jid (f j) = jid j" for j using f [of j] by (simp add: same_job_def)
  then show "db_ok d \<Longrightarrow> db_ok (snd (update_row s st b f i d))"
    using update_row_ok by (simp add: db_ok_def)
  fix a assume ok: "db_ok d" and a: "a \<in> set (jobs d)"
  show "\<exists>b' \<in> set (jobs (snd (update_row s st b f i d))). same_job a b'"
  proof (cases "job_by_id i d")
    case None
    with a show ?thesis by (auto simp: update_row_def intro!: bexI [of _ a])
  next
    case (Some old)
    define new where "new = (f old)\<lparr>jupdated := st_now st\<rparr>"
    have "same_job old new" using f [of old] by (simp add: new_def same_job_def)
    moreover have "old \<in> set (jobs d)" using job_by_idD [OF Some] by simp
    ultimately have "\<exists>b \<in> set (replace_job new (jobs d)). same_job a b"
      using replace_same ok a by (simp add: db_ok_def jobs_ok_def)
    then show ?thesis
      using Some a by (auto simp: update_row_def Let_def new_def [symmetric] intro!: bexI [of _ a])
  qed
qed

lemma keeps_read: "keeps evolves (atomically (\<lambda>d. (f d, d)))"
  by (rule jg.keeps_atomically) (simp add: jg.R_refl)

lemma keeps_get_job: "keeps evolves (get_job s i)"
  unfolding get_job_def by (rule keeps_read)

lemma keeps_get_active: "keeps evolves (get_active_job s url lang kind recipe)"
  unfolding get_active_job_def by (intro jg.keeps_if jg.keeps_return keeps_read)

lemma keeps_on_violation: "keeps evolves (on_violation s q)"
  unfolding on_violation_def active_or_raise_def get_job_by_delivery_id_def
  by (intro jg.keeps_rules keeps_get_active keeps_read)

lemma keeps_create_job: "keeps evolves (create_job s st q)"
  unfolding create_job_def
  by (intro jg.keeps_rules keeps_on_violation jg.keeps_atomically evolves_insert)

lemma keeps_update_job: "keeps evolves (update_job s st i cols)"
  unfolding update_job_def
  by (intro jg.keeps_if keeps_get_job jg.keeps_atomically evolves_update) (simp add: same_job_def)

lemma keeps_grant: "keeps evolves (grant_job_access s i u)"
  unfolding grant_job_access_def
  by (intro jg.keeps_catch jg.keeps_raise jg.keeps_atomically)
     (auto simp: insert_access_def evolves_def db_ok_def pushes_ok_def intro: same_job_refl)

subsection \<open>One job per delivery identifier\<close>

lemma atomically_read:
  "atomically (\<lambda>d. (Inr (f d), d)) w = (Inr x, w') \<Longrightarrow> x = f (db w')"
  by (auto simp: atomically_def split: list.splits fault.splits)

lemma find_rows: "find (\<lambda>_. True) (rows s P d) = Some j \<Longrightarrow> j \<in> set (jobs d) \<and> P j \<and> visible s d j"
  by (auto simp: rows_def find_Some_iff dest!: nth_mem)

lemma get_active_found:
  assumes "get_active_job s url lang kind recipe w = (Inr (Some j), w')"
  shows "j \<in> set (jobs (db w')) \<and> is_active_job url lang kind recipe j"
proof -
  have "Some j = newest (rows s (is_active_job url lang kind recipe) (db w'))"
    using assms by (auto simp: get_active_job_def split: if_splits dest: atomically_read)
  then have "j \<in> set (rows s (is_active_job url lang kind recipe) (db w'))"
    by (metis newest_mem)
  then show ?thesis by (simp add: rows_def)
qed

lemma active_or_raise_found:
  assumes "active_or_raise s q w = (Inr (j, b), w')"
  shows "j \<in> set (jobs (db w')) \<and> \<not> b"
  using assms
  by (auto simp: active_or_raise_def tx_bind_def dest: get_active_found split: prod.splits sum.splits option.splits)

lemma on_violation_found:
  assumes "on_violation s q w = (Inr (j, b), w')"
  shows "j \<in> set (jobs (db w')) \<and> (b \<longrightarrow> jowner j = Some (rq_user q) \<and> jdelivery j = rq_delivery q \<and> rq_delivery q \<noteq> None)"
proof (cases "rq_delivery q")
  case None
  with assms active_or_raise_found [of s q w j b w'] show ?thesis by (simp add: on_violation_def)
next
  case (Some dl)
  obtain r w1 where 1: "get_job_by_delivery_id s (rq_user q) dl w = (r, w1)" by (cases "get_job_by_delivery_id s (rq_user q) dl w")
  show ?thesis
  proof (cases r)
    case (Inl e)
    with assms Some 1 show ?thesis by (simp add: on_violation_def tx_bind_def)
  next
    case (Inr found)
    show ?thesis
    proof (cases found)
      case None
      with assms Some 1 Inr have "active_or_raise s q w1 = (Inr (j, b), w')"
        by (simp add: on_violation_def tx_bind_def)
      with active_or_raise_found show ?thesis by blast
    next
      case (Some k)
      with assms \<open>rq_delivery q = Some dl\<close> 1 Inr have k: "j = k" "b" "w' = w1"
        by (simp_all add: on_violation_def tx_bind_def)
      have "find (\<lambda>_. True) (rows s (\<lambda>j. jowner j = Some (rq_user q) \<and> jdelivery j = Some dl) (db w1)) = Some k"
        using atomically_read [OF 1 [unfolded get_job_by_delivery_id_def Inr Some]] by simp
      from find_rows [OF this] k \<open>rq_delivery q = Some dl\<close> show ?thesis by simp
    qed
  qed
qed

lemma insert_result: "insert_job s st j d = (Inr k, d') \<Longrightarrow> k = j \<and> j \<in> set (jobs d')"
  by (auto simp: insert_job_def split: if_splits)

text \<open>The row a successful call returns is in the table.\<close>

lemma create_job_found:
  assumes "create_job s st q w = (Inr (j, b), w')"
  shows "j \<in> set (jobs (db w'))"
proof -
  obtain r w1 where 1: "atomically (insert_job s st (job_row st q)) w = (r, w1)"
    by (cases "atomically (insert_job s st (job_row st q)) w")
  show ?thesis
  proof (cases r)
    case (Inl e)
    with assms 1 have "(if e = UniqueViolation then on_violation s q else tx_raise e) w1 = (Inr (j, b), w')"
      by (simp add: create_job_def tx_run)
    then have "on_violation s q w1 = (Inr (j, b), w')" by (simp split: if_splits)
    then show ?thesis using on_violation_found by blast
  next
    case (Inr k)
    with assms 1 have "j = k" "w' = w1" by (simp_all add: create_job_def tx_run)
    moreover have "\<exists>d. insert_job s st (job_row st q) d = (Inr k, db w1)"
      using 1 Inr by (auto simp: atomically_def split: list.splits fault.splits prod.splits)
    ultimately show ?thesis using insert_result by blast
  qed
qed

lemma atomically_result:
  assumes "env_in evolves w" "atomically f w = (Inr x, w')"
  shows "\<exists>d. evolves (db w) d \<and> f d = (Inr x, db w')"
proof (cases "env w")
  case Nil
  with assms have "f (db w) = (Inr x, db w')" by (auto simp: atomically_def split: prod.splits)
  then show ?thesis using jg.R_refl by blast
next
  case (Cons e es)
  show ?thesis
  proof (cases e)
    case Quiet
    with Cons assms have "f (db w) = (Inr x, db w')" by (auto simp: atomically_def split: prod.splits)
    then show ?thesis using jg.R_refl by blast
  next
    case (Interfere g)
    with Cons assms have "f (g (db w)) = (Inr x, db w')" by (auto simp: atomically_def split: prod.splits)
    moreover have "evolves (db w) (g (db w))" using assms(1) Cons Interfere by (simp add: env_in_def)
    ultimately show ?thesis by blast
  qed (use Cons assms in \<open>simp_all add: atomically_def\<close>)
qed

lemma evolves_mem: "evolves d d' \<Longrightarrow> db_ok d \<Longrightarrow> a \<in> set (jobs d) \<Longrightarrow> \<exists>b \<in> set (jobs d'). same_job a b"
  and evolves_ok: "evolves d d' \<Longrightarrow> db_ok d \<Longrightarrow> db_ok d'"
  by (auto simp: evolves_def)

lemma same_delivery:
  assumes "db_ok d" "a \<in> set (jobs d)" "b \<in> set (jobs d)" "jowner a = Some u" "jowner b = Some u"
    "jdelivery a = Some dl" "jdelivery b = Some dl"
  shows "jid a = jid b"
proof (rule ccontr)
  assume "jid a \<noteq> jid b"
  then have "\<not> conflicting a b"
    using assms by (simp add: db_ok_def jobs_ok_def no_conflicts_def)
  then show False using assms by (simp add: conflicting_def)
qed

lemma create_job_replays:
  assumes ok: "db_ok (db w)" "env_in evolves w"
    and a: "a \<in> set (jobs (db w))" "jowner a = Some u" "jdelivery a = Some dl"
    and q: "rq_user q = u" "rq_delivery q = Some dl"
    and c: "create_job (as_user u) st q w = (Inr (j, b), w')"
  shows "jid j = jid a \<and> b"
proof -
  let ?s = "as_user u"
  obtain r w1 where 1: "atomically (insert_job ?s st (job_row st q)) w = (r, w1)"
    by (cases "atomically (insert_job ?s st (job_row st q)) w")
  have "keeps evolves (atomically (insert_job ?s st (job_row st q)))"
    by (intro jg.keeps_atomically evolves_insert)
  with 1 ok(2) have w1: "evolves (db w) (db w1)" "env_in evolves w1"
    unfolding keeps_def by blast+
  have conflict: "\<exists>a' \<in> set (jobs d). same_job a a' \<and> conflicting (job_row st q) a'" if e: "evolves (db w) d" for d
  proof -
    obtain a' where a': "a' \<in> set (jobs d)" "same_job a a'"
      using evolves_mem [OF e ok(1) a(1)] by blast
    then have "conflicting (job_row st q) a'"
      using a(2,3) q by (simp add: conflicting_def job_row_def same_job_def)
    with a' show ?thesis by blast
  qed
  have "r = Inl UniqueViolation"
  proof (cases r)
    case (Inl e)
    with c 1 show ?thesis by (auto simp: create_job_def tx_run split: if_splits)
  next
    case (Inr k)
    obtain d where "evolves (db w) d" "insert_job ?s st (job_row st q) d = (Inr k, db w1)"
      using atomically_result [OF ok(2) 1 [unfolded Inr]] by blast
    with conflict [of d] show ?thesis by (auto simp: insert_job_def list_ex_iff split: if_splits)
  qed
  with c 1 have v: "on_violation ?s q w1 = (Inr (j, b), w')"
    by (simp add: create_job_def tx_run)
  let ?read = "\<lambda>d. find (\<lambda>_. True) (rows ?s (\<lambda>j. jowner j = Some u \<and> jdelivery j = Some dl) d)"
  obtain r2 w2 where 2: "get_job_by_delivery_id ?s u dl w1 = (r2, w2)"
    by (cases "get_job_by_delivery_id ?s u dl w1")
  obtain found where found: "r2 = Inr found"
    using v 2 q by (cases r2) (auto simp: on_violation_def tx_bind_def)
  have "found = ?read (db w2)"
    using 2 found by (auto simp: get_job_by_delivery_id_def dest: atomically_read)
  moreover have w2: "evolves (db w1) (db w2)"
    using jg.keepsD [OF keeps_read w1(2)] 2 by (auto simp: get_job_by_delivery_id_def)
  ultimately show ?thesis
  proof -
    assume f: "found = ?read (db w2)"
    have e: "evolves (db w) (db w2)" using w1(1) w2 jg.R_trans by blast
    obtain a' where a': "a' \<in> set (jobs (db w2))" "same_job a a'"
      using evolves_mem [OF e ok(1) a(1)] by blast
    then have "a' \<in> set (rows ?s (\<lambda>j. jowner j = Some u \<and> jdelivery j = Some dl) (db w2))"
      using a by (auto simp: rows_def same_job_def visible_def as_user_def)
    then obtain k where k: "?read (db w2) = Some k"
      by (cases "rows ?s (\<lambda>j. jowner j = Some u \<and> jdelivery j = Some dl) (db w2)") auto
    have jk: "j = k" "b"
      using v 2 found f k q by (simp_all add: on_violation_def tx_bind_def)
    have "jid k = jid a'"
      using find_rows [OF k] a' a same_delivery [OF evolves_ok [OF e ok(1)], of k a' u dl]
      by (simp add: same_job_def)
    with jk a' show ?thesis by (simp add: same_job_def)
  qed
qed

text \<open>C31: A delivery identifier names one job, whatever happens around and between the calls: when a user's
  import with an identifier was answered with the job of that identifier, every later successful
  import of the user with the same identifier is answered with the same job, marked as a replay,
  however other requests, workers and failures interleave (accounts being closed excepted).\<close>

theorem delivery_idempotent:
  assumes "db_ok (db w)" "env_in evolves w"
    and "create_job (as_user u) st1 q1 w = (Inr (j1, b1), w1)"
    and "jowner j1 = Some u" "jdelivery j1 = Some dl"
    and "evolves (db w1) (db w2)" "env_in evolves w2"
    and "create_job (as_user u) st2 q2 w2 = (Inr (j2, b2), w3)"
    and "rq_user q2 = u" "rq_delivery q2 = Some dl"
  shows "jid j2 = jid j1 \<and> b2"
proof -
  have e: "evolves (db w) (db w1)"
    using jg.keepsD [OF keeps_create_job assms(2,3)] .
  have "j1 \<in> set (jobs (db w1))" by (rule create_job_found [OF assms(3)])
  then obtain a where a: "a \<in> set (jobs (db w2))" "same_job j1 a"
    using evolves_mem [OF assms(6) evolves_ok [OF e assms(1)]] by blast
  have "db_ok (db w2)"
    using assms(1,6) e evolves_ok by blast
  from create_job_replays [OF this assms(7) a(1) _ _ assms(9,10,8)] a(2) assms(4,5)
  show ?thesis by (simp add: same_job_def)
qed

definition ex_stamp :: stamp where
  "ex_stamp = \<lparr>st_now = 100, st_id = (\<lambda>s. s @ ''1'')\<rparr>"

definition ex_jobs :: "job list \<Rightarrow> job_db" where
  "ex_jobs js = \<lparr>jobs = js, shared_access = [], devices = [], deliveries = [],
     spend = \<lparr>ledger = [], alerts = []\<rparr>, closed_profiles = []\<rparr>"

definition ex_request :: "uuid \<Rightarrow> uuid option \<Rightarrow> job_request" where
  "ex_request u dl = \<lparr>rq_user = u, rq_raw = ''https://tiktok.com/v'', rq_norm = ''tiktok:v'', rq_lang = ''en-US'',
     rq_kind = Extract, rq_status = Pending, rq_hit = False, rq_recipe = None, rq_delivery = dl, rq_cost = 0\<rparr>"

lemma ex_jobs_fields [simp]: "jobs (ex_jobs js) = js" "shared_access (ex_jobs js) = []"
  by (simp_all add: ex_jobs_def)

lemma ex_ok: "db_ok (db (alone (ex_jobs [])))"
  by (simp add: db_ok_def jobs_ok_def no_conflicts_def pushes_ok_def ex_jobs_def)

lemma env_in_alone: "env_in R (alone d)"
  by (simp add: env_in_def)

theorem delivery_idempotent_witness:
  "jid (fst (projr (fst (create_job (as_user ''u'') ex_stamp (ex_request ''u'' (Some ''d''))
      (snd (create_job (as_user ''u'') ex_stamp (ex_request ''u'' (Some ''d'')) (alone (ex_jobs [])))))))) = ''job1''"
proof -
  let ?q = "ex_request ''u'' (Some ''d'')"
  let ?j = "job_row ex_stamp ?q"
  let ?w = "alone (ex_jobs [?j])"
  have 1: "create_job (as_user ''u'') ex_stamp ?q (alone (ex_jobs [])) = (Inr (?j, False), ?w)"
    by (simp add: create_job_def tx_run insert_job_def may_insert_def as_user_def job_row_def ex_request_def
      job_checks_def ex_jobs_def enqueue_pushes_def completion_fires_def)
  have 2: "create_job (as_user ''u'') ex_stamp ?q ?w = (Inr (?j, True), ?w)"
    by (simp add: create_job_def tx_run insert_job_def may_insert_def as_user_def job_row_def ex_request_def
      job_checks_def ex_jobs_def on_violation_def get_job_by_delivery_id_def rows_def visible_def)
  have "jid ?j = jid ?j \<and> True"
    by (rule delivery_idempotent [OF ex_ok env_in_alone 1 _ _ _ env_in_alone 2])
       (simp_all add: job_row_def ex_request_def env_in_alone jg.R_refl)
  then show ?thesis
    by (simp add: 1 2) (simp add: job_row_def ex_stamp_def)
qed

subsection \<open>Sharing an active import\<close>

definition active_import :: "job_db \<Rightarrow> string \<Rightarrow> uuid option" where
  "active_import d url = map_option jid (find (\<lambda>j. jkind j = Extract \<and> active j \<and> jnorm j = url) (jobs d))"

text \<open>The specification: a table from sources to the one job in progress, and \<open>get or put\<close>.\<close>

definition get_or_put :: "string \<Rightarrow> uuid \<Rightarrow> (string \<Rightarrow> uuid option) \<Rightarrow> uuid \<times> (string \<Rightarrow> uuid option)" where
  "get_or_put url new m = (case m url of Some i \<Rightarrow> (i, m) | None \<Rightarrow> (new, m(url \<mapsto> new)))"

lemma newest_singleton: "(\<And>k. k \<in> set js \<Longrightarrow> k = j) \<Longrightarrow> j \<in> set js \<Longrightarrow> newest js = Some j"
  using newest_mem newest_None by (metis emptyE list.set(1) not_None_eq)

lemma unique_import:
  assumes "jobs_ok (jobs d)" "a \<in> set (jobs d)" "b \<in> set (jobs d)"
    "jkind a = Extract" "jkind b = Extract" "active a" "active b" "jnorm a = jnorm b"
  shows "a = b"
proof -
  have "jid a = jid b"
    using assms unfolding jobs_ok_def no_conflicts_def conflicting_def by blast
  with assms(1-3) show ?thesis
    by (auto simp: jobs_ok_def distinct_map dest: inj_onD)
qed

lemma find_import:
  assumes "jobs_ok (jobs d)" "j \<in> set (jobs d)" "jkind j = Extract" "active j" "jnorm j = url"
  shows "active_import d url = Some (jid j)"
proof -
  have "find (\<lambda>j. jkind j = Extract \<and> active j \<and> jnorm j = url) (jobs d) \<noteq> None"
    using assms by (auto simp: find_None_iff)
  then obtain k where k: "find (\<lambda>j. jkind j = Extract \<and> active j \<and> jnorm j = url) (jobs d) = Some k"
    by blast
  then have "k \<in> set (jobs d) \<and> jkind k = Extract \<and> active k \<and> jnorm k = url"
    by (auto simp: find_Some_iff)
  with unique_import [OF assms(1) _ assms(2)] assms have "k = j" by metis
  with k show ?thesis by (simp add: active_import_def)
qed

lemma get_active_found_import:
  assumes "jobs_ok (jobs d)" "j \<in> set (jobs d)" "jkind j = Extract" "active j" "jnorm j = url" "visible s d j"
  shows "get_active_job s url lang Extract recipe (alone d) = (Inr (Some j), alone d)"
proof -
  have "newest (rows s (is_active_job url lang Extract recipe) d) = Some j"
  proof (rule newest_singleton)
    fix k assume "k \<in> set (rows s (is_active_job url lang Extract recipe) d)"
    then have "k \<in> set (jobs d)" "jkind k = Extract" "active k" "jnorm k = url"
      by (auto simp: rows_def is_active_job_def)
    with assms show "k = j" using unique_import [of d k j] by simp
  next
    show "j \<in> set (rows s (is_active_job url lang Extract recipe) d)"
      using assms by (simp add: rows_def is_active_job_def)
  qed
  then show ?thesis by (simp add: get_active_job_def)
qed

lemma get_active_hidden:
  assumes "jobs_ok (jobs d)" "j \<in> set (jobs d)" "jkind j = Extract" "active j" "jnorm j = url" "\<not> visible s d j"
  shows "get_active_job s url lang Extract recipe (alone d) = (Inr None, alone d)"
proof -
  have "k \<notin> set (jobs d) \<or> \<not> visible s d k \<or> \<not> is_active_job url lang Extract recipe k" for k
  proof (rule ccontr)
    assume "\<not> ?thesis"
    then have k: "k \<in> set (jobs d)" "jkind k = Extract" "active k" "jnorm k = url" "visible s d k"
      by (auto simp: is_active_job_def)
    with assms unique_import [of d k j] show False by auto
  qed
  then have "rows s (is_active_job url lang Extract recipe) d = []"
    by (auto simp: rows_def filter_empty_conv)
  then show ?thesis by (simp add: get_active_job_def)
qed

lemma insert_refused:
  assumes "j \<in> set (jobs d)" "conflicting (job_row st q) j"
    "may_insert s (job_row st q)" "job_checks (job_row st q)"
  shows "insert_job s st (job_row st q) d = (Inl UniqueViolation, d)"
  using assms by (auto simp: insert_job_def list_ex_iff)

lemma create_refused:
  assumes "insert_job s st (job_row st q) d = (Inl UniqueViolation, d)"
  shows "create_job s st q (alone d) = on_violation s q (alone d)"
  using assms by (simp add: create_job_def tx_run)

lemma create_accepted:
  assumes "insert_job s st (job_row st q) d = (Inr j, d')"
  shows "create_job s st q (alone d) = (Inr (j, False), alone d')"
  using assms by (simp add: create_job_def tx_run)

definition import_request :: "job_request \<Rightarrow> bool" where
  "import_request q \<longleftrightarrow> rq_kind q = Extract \<and> rq_status q = Pending \<and> rq_delivery q = None"

lemma import_row:
  assumes "import_request q"
  shows "jkind (job_row st q) = Extract" "active (job_row st q)" "jnorm (job_row st q) = rq_norm q"
    "job_checks (job_row st q)" "jid (job_row st q) = st_id st ''job''" "jdelivery (job_row st q) = None"
    "jowner (job_row st q) = Some (rq_user q)"
  using assms by (simp_all add: import_request_def job_row_def active_def job_checks_def)



text \<open>Sharing does not reach the deployed policies: while an import of a source is in progress, a user who
  neither started it nor was granted access gets nothing from \<open>get_active_job\<close>, and creating a job for the
  source raises the unique violation again (the request ends in an error) - although the service, to which
  the same rows are visible, would answer the job in progress.\<close>

theorem shared_import_refused:
  assumes "db_ok d" "import_request q"
    and "j \<in> set (jobs d)" "jkind j = Extract" "active j" "jnorm j = rq_norm q"
    and "rq_user q = u" "jowner j \<noteq> Some u" "(jid j, u) \<notin> set (shared_access d)"
  shows "get_active_job (as_user u) (rq_norm q) (rq_lang q) Extract None (alone d) = (Inr None, alone d) \<and>
    create_job (as_user u) st q (alone d) = (Inl UniqueViolation, alone d) \<and>
    create_job service st q (alone d) = (Inr (j, False), alone d)"
proof (intro conjI)
  have ok: "jobs_ok (jobs d)" using assms(1) by (simp add: db_ok_def)
  have hidden: "\<not> visible (as_user u) d j"
    using assms(8,9) by (simp add: visible_def as_user_def)
  show none: "get_active_job (as_user u) (rq_norm q) (rq_lang q) Extract None (alone d) = (Inr None, alone d)"
    by (rule get_active_hidden [OF ok assms(3-6) hidden])
  have "conflicting (job_row st q) j"
    using assms(4-6) import_row [OF assms(2)] by (simp add: conflicting_def)
  then have refused: "create_job s st q (alone d) = on_violation s q (alone d)" if "may_insert s (job_row st q)" for s
    using insert_refused [OF assms(3)] create_refused import_row(4) [OF assms(2)] that by blast
  have v: "on_violation s q w = active_or_raise s q w" for s w
    using assms(2) by (simp add: on_violation_def import_request_def)
  have "get_active_job (as_user u) (rq_norm q) (rq_lang q) Extract (rq_recipe q) (alone d) = (Inr None, alone d)"
    by (rule get_active_hidden [OF ok assms(3-6) hidden])
  then show "create_job (as_user u) st q (alone d) = (Inl UniqueViolation, alone d)"
    using refused [of "as_user u"] v assms(2,7) import_row(7) [OF assms(2)]
    by (simp add: may_insert_def as_user_def active_or_raise_def tx_run import_request_def)
  have "get_active_job service (rq_norm q) (rq_lang q) Extract (rq_recipe q) (alone d) = (Inr (Some j), alone d)"
    by (rule get_active_found_import [OF ok assms(3-6)]) (simp add: visible_def service_def)
  then show "create_job service st q (alone d) = (Inr (j, False), alone d)"
    using refused [of service] v assms(2)
    by (simp add: may_insert_def service_def active_or_raise_def tx_run import_request_def)
qed

theorem shared_import_refused_witness:
  "fst (create_job (as_user ''v'') ex_stamp (ex_request ''v'' None)
     (alone (ex_jobs [job_row ex_stamp (ex_request ''u'' None)]))) = Inl UniqueViolation"
proof -
  let ?j = "job_row ex_stamp (ex_request ''u'' None)"
  have "db_ok (ex_jobs [?j])"
    by (simp add: db_ok_def jobs_ok_def no_conflicts_def pushes_ok_def ex_jobs_def job_row_def job_checks_def ex_request_def)
  from shared_import_refused [OF this, of "ex_request ''v'' None" ?j "''v''" ex_stamp]
  show ?thesis
    by (simp add: import_request_def ex_request_def job_row_def active_def)
qed

end
