(* ===== verification/Job_Queue.thy ===== *)
theory Job_Queue
  imports Job_Store
begin

section \<open>The durable queue\<close>

text \<open>
  The worker's side of the job table: \<open>claim_next_extract_job\<close> over time, mixed with the writes of
  running jobs, and the dispatch of a claimed row (app/worker.py). The properties: claims are first
  come first served and complete, a job is leased to one worker at a time, and a job is handed out
  at most five times, so the queue drains.
\<close>

subsection \<open>Dispatch\<close>

datatype dispatch =
    RunExtract uuid uuid string string string        \<comment> \<open>job, user, URL, normalised URL, language\<close>
  | RunTranslation uuid uuid uuid string             \<comment> \<open>job, user, recipe, language\<close>
  | NoRun

definition claim_next_job :: "settings \<Rightarrow> instant \<Rightarrow> job option job_tx" where
  "claim_next_job cfg now =
     (if maintenance_mode cfg then tx_return None
      else claim_next_extract_job now (worker_lease_seconds cfg))"

text \<open>\<open>UUID (str (None))\<close> raises: a claimed row without an owner is not run.\<close>

definition run_claimed_job :: "settings \<Rightarrow> job \<Rightarrow> dispatch res" where
  "run_claimed_job cfg row =
     (if maintenance_mode cfg then Inr NoRun
      else case jowner row of
        None \<Rightarrow> Inl (ValueError ''badly formed hexadecimal UUID string'')
      | Some u \<Rightarrow>
          (case jkind row of
             Translation \<Rightarrow>
               (case jrecipe row of
                  None \<Rightarrow> Inr NoRun
                | Some r \<Rightarrow> Inr (RunTranslation (jid row) u r (if jlang row = [] then ''en-US'' else jlang row)))
           | Extract \<Rightarrow> Inr (RunExtract (jid row) u (jraw row) (jnorm row)
                                (if jlang row = [] then ''en-US'' else jlang row))))"

subsection \<open>Claims and writes over time\<close>

datatype queue_event =
    Claim instant int                         \<comment> \<open>time, requested lease\<close>
  | Write session stamp uuid "job_col list"   \<comment> \<open>\<open>update_job\<close>\<close>

definition write_job :: "session \<Rightarrow> stamp \<Rightarrow> uuid \<Rightarrow> job_col list \<Rightarrow> job_db \<Rightarrow> job_db" where
  "write_job s st i cols d = db (snd (update_job s st i cols (alone d)))"

text \<open>The claims that were granted (time and job) and the final tables.\<close>

fun queue_run :: "queue_event list \<Rightarrow> job_db \<Rightarrow> (instant \<times> uuid) list \<times> job_db" where
  "queue_run [] d = ([], d)"
| "queue_run (Claim t p # es) d =
     (case claim_next t p d of (r, d1) \<Rightarrow>
        case queue_run es d1 of (cs, d2) \<Rightarrow>
          ((case r of None \<Rightarrow> cs | Some j \<Rightarrow> (t, jid j) # cs), d2))"
| "queue_run (Write s st i cols # es) d = queue_run es (write_job s st i cols d)"

subsection \<open>One claim\<close>

lemma exhaust_id [simp]: "jid (exhaust now j) = jid j" "jattempts (exhaust now j) = jattempts j"
  "jcreated (exhaust now j) = jcreated j"
  by (simp_all add: exhaust_def)

lemma leased_fields [simp]: "jid (leased now p j) = jid j" "jattempts (leased now p j) = jattempts j + 1"
  "jlease (leased now p j) = Some (now + lease_seconds p * second)" "jstatus (leased now p j) = Processing"
  by (simp_all add: leased_def)

lemma claimable_exhaust: "claimable now (exhaust now j) \<longleftrightarrow> claimable now j"
  by (auto simp: claimable_def exhaust_def)

lemma exhaust_claimable: "claimable now j \<Longrightarrow> exhaust now j = j"
  by (simp add: claimable_def exhaust_def)

lemma filter_exhaust: "filter (claimable now) (map (exhaust now) js) = filter (claimable now) js"
  by (induction js) (auto simp: claimable_exhaust exhaust_claimable)

lemma claim_some:
  assumes "claim_next now p d = (Some r, d')"
  shows "\<exists>j \<in> set (jobs d). claimable now j \<and> r = leased now p j \<and>
     (\<forall>k \<in> set (jobs d). claimable now k \<longrightarrow> jcreated j \<le> jcreated k) \<and>
     jobs d' = replace_job r (map (exhaust now) (jobs d))"
proof -
  obtain j where o: "oldest (filter (claimable now) (jobs d)) = Some j"
    using assms by (cases "oldest (filter (claimable now) (jobs d))") (auto simp: claim_next_def Let_def filter_exhaust)
  have "r = leased now p j" "jobs d' = replace_job r (map (exhaust now) (jobs d))"
    using assms o by (auto simp: claim_next_def Let_def filter_exhaust)
  with oldest_mem [OF o] oldest_le [OF o] show ?thesis by auto
qed

lemma claim_none:
  assumes "claim_next now p d = (None, d')"
  shows "\<forall>k \<in> set (jobs d). \<not> claimable now k" "jobs d' = map (exhaust now) (jobs d)"
proof -
  have "oldest (filter (claimable now) (jobs d)) = None"
    using assms by (auto simp: claim_next_def Let_def filter_exhaust split: option.splits)
  then show "\<forall>k \<in> set (jobs d). \<not> claimable now k" by (auto simp: filter_empty_conv)
  show "jobs d' = map (exhaust now) (jobs d)"
    using assms by (auto simp: claim_next_def Let_def split: option.splits)
qed

lemma claim_ledger:
  "ledger (spend (snd (claim_next now p d))) =
     map (release_reservation (map (exhaust now) (jobs d))) (ledger (spend d))"
  by (simp add: claim_next_def Let_def split: option.split)

lemma ids_claim: "map jid (jobs (snd (claim_next now p d))) = map jid (jobs d)"
proof (cases "claim_next now p d")
  case (Pair r d')
  then show ?thesis
    using claim_some [of now p d _ d'] claim_none [of now p d d'] by (cases r) auto
qed

lemma ids_write: "map jid (jobs (write_job s st i cols d)) = map jid (jobs d)"
  by (simp add: write_job_def update_job_def get_job_def update_row_def Let_def replace_job_def
        split: option.split)

subsection \<open>One row through a claim and a write\<close>

abbreviation ids_distinct :: "job_db \<Rightarrow> bool" where
  "ids_distinct d \<equiv> distinct (map jid (jobs d))"

lemma same_row: "ids_distinct d \<Longrightarrow> j \<in> set (jobs d) \<Longrightarrow> k \<in> set (jobs d) \<Longrightarrow> jid j = jid k \<Longrightarrow> j = k"
  by (auto simp: distinct_map dest: inj_onD)

lemma row_after_claim:
  assumes "ids_distinct d" "j \<in> set (jobs d)" "claim_next now p d = (Some r, d')"
  shows "if jid r = jid j then claimable now j \<and> r = leased now p j \<and> r \<in> set (jobs d')
         else exhaust now j \<in> set (jobs d')"
proof -
  obtain k where k: "k \<in> set (jobs d)" "claimable now k" "r = leased now p k"
    "jobs d' = replace_job r (map (exhaust now) (jobs d))"
    using claim_some [OF assms(3)] by blast
  show ?thesis
  proof (cases "jid r = jid j")
    case True
    then have "k = j" using same_row [OF assms(1) k(1) assms(2)] k(3) by simp
    moreover have "r \<in> set (jobs d')"
      using k(1,3,4) unfolding replace_job_def by (auto simp: image_iff intro!: bexI [of _ k])
    ultimately show ?thesis using k True by simp
  next
    case False
    then have "exhaust now j \<in> set (jobs d')"
      using assms(2) k(4) unfolding replace_job_def by (auto simp: image_iff intro!: bexI [of _ j])
    with False show ?thesis by simp
  qed
qed

lemma row_after_no_claim: "j \<in> set (jobs d) \<Longrightarrow> claim_next now p d = (None, d') \<Longrightarrow> exhaust now j \<in> set (jobs d')"
  using claim_none(2) [of now p d d'] by simp

lemma jobs_after_write:
  "jobs (write_job s st i cols d) = jobs d \<or>
     (\<exists>old \<in> set (jobs d). jid old = i \<and>
        jobs (write_job s st i cols d) = replace_job ((fold set_col cols old)\<lparr>jupdated := st_now st\<rparr>) (jobs d))"
  by (auto simp: write_job_def update_job_def get_job_def update_row_def Let_def
        dest: job_by_idD split: option.split)

lemma row_after_write:
  assumes "ids_distinct d" "j \<in> set (jobs d)"
  shows "\<exists>j' \<in> set (jobs (write_job s st i cols d)). jid j' = jid j \<and> jattempts j' = jattempts j \<and>
     (j' = j \<or> (jid j = i \<and> j' = (fold set_col cols j)\<lparr>jupdated := st_now st\<rparr>))"
proof -
  consider "jobs (write_job s st i cols d) = jobs d"
    | old where "old \<in> set (jobs d)" "jid old = i"
        "jobs (write_job s st i cols d) = replace_job ((fold set_col cols old)\<lparr>jupdated := st_now st\<rparr>) (jobs d)"
    using jobs_after_write by blast
  then show ?thesis
  proof cases
    case 1
    with assms(2) show ?thesis by auto
  next
    case (2 old)
    show ?thesis
    proof (cases "jid j = i")
      case True
      then have "j = old" using same_row [OF assms(1,2) 2(1)] 2(2) by simp
      moreover have "(fold set_col cols j)\<lparr>jupdated := st_now st\<rparr> \<in> set (jobs (write_job s st i cols d))"
        using 2 True \<open>j = old\<close> by (force simp: replace_job_def)
      ultimately show ?thesis using True by (intro bexI [of _ "(fold set_col cols j)\<lparr>jupdated := st_now st\<rparr>"]) simp_all
    next
      case False
      then have "j \<in> set (jobs (write_job s st i cols d))"
        using 2 assms(2) by (force simp: replace_job_def)
      then show ?thesis by blast
    qed
  qed
qed

subsection \<open>At most five claims\<close>

lemma no_claim_of_absent: "i \<notin> jid ` set (jobs d) \<Longrightarrow> i \<notin> snd ` set (fst (queue_run es d))"
proof (induction es arbitrary: d)
  case (Cons e es)
  show ?case
  proof (cases e)
    case (Claim t p)
    obtain r d1 where c: "claim_next t p d = (r, d1)" by (cases "claim_next t p d")
    have "jid ` set (jobs d1) = jid ` set (jobs d)"
      using ids_claim [of t p d] c by (metis list.set_map snd_conv)
    moreover have "jid k \<noteq> i" if "r = Some k" for k
      using claim_some [of t p d k d1] c that Cons.prems by auto
    ultimately have "i \<notin> snd ` set (fst (queue_run es d1))" "r = None \<or> jid (the r) \<noteq> i"
      using Cons by auto
    then show ?thesis
      using Claim c by (auto simp: image_iff split: prod.splits option.splits)
  next
    case (Write s st k cols)
    have "jid ` set (jobs (write_job s st k cols d)) = jid ` set (jobs d)"
      using ids_write by (metis list.set_map)
    with Cons Write show ?thesis by simp
  qed
qed simp

lemma claims_of_job:
  assumes "ids_distinct d" "j \<in> set (jobs d)" "jattempts j \<le> 5"
  shows "count_list (map snd (fst (queue_run es d))) (jid j) + jattempts j \<le> 5"
  using assms
proof (induction es arbitrary: d j)
  case (Cons e es)
  show ?case
  proof (cases e)
    case (Claim t p)
    obtain r d1 where c: "claim_next t p d = (r, d1)" by (cases "claim_next t p d")
    have d1: "ids_distinct d1" using ids_claim [of t p d] c Cons.prems(1) by simp
    show ?thesis
    proof (cases r)
      case None
      have "exhaust t j \<in> set (jobs d1)"
        using row_after_no_claim [OF Cons.prems(2)] c None by blast
      from Cons.IH [OF d1 this] Cons.prems(3) c None Claim show ?thesis by (auto split: prod.splits)
    next
      case (Some k)
      note row = row_after_claim [OF Cons.prems(1,2) c [unfolded Some]]
      show ?thesis
      proof (cases "jid k = jid j")
        case True
        have k: "claimable t j" "k = leased t p j" "k \<in> set (jobs d1)"
          using row unfolding if_P [OF True] by blast+
        then have "jattempts k \<le> 5" by (simp add: claimable_def)
        from Cons.IH [OF d1 k(3) this] k(2) c Some Claim show ?thesis by (auto split: prod.splits)
      next
        case False
        with row have "exhaust t j \<in> set (jobs d1)" by simp
        from Cons.IH [OF d1 this] Cons.prems(3) False c Some Claim show ?thesis by (auto split: prod.splits)
      qed
    qed
  next
    case (Write s st i cols)
    obtain j' where "j' \<in> set (jobs (write_job s st i cols d))" "jid j' = jid j" "jattempts j' = jattempts j"
      using row_after_write [OF Cons.prems(1,2)] by blast
    moreover have "ids_distinct (write_job s st i cols d)"
      using Cons.prems(1) by (simp add: ids_write)
    ultimately show ?thesis using Cons.IH [of "write_job s st i cols d" j'] Cons.prems(3) Write by simp
  qed
qed simp

definition attempts_left :: "job_db \<Rightarrow> nat" where
  "attempts_left d = (\<Sum>j \<leftarrow> jobs d. 5 - jattempts j)"

text \<open>C33: The queue drains: over any sequence of claims and writes of running jobs, however late, crashed or
  repeated, a job is handed to a worker at most five times in its life, so the claims that can still
  be granted are bounded by the attempts left on the rows of the table.\<close>

theorem claims_bounded:
  assumes "jobs_ok (jobs d)"
  shows "count_list (map snd (fst (queue_run es d))) i \<le> 5 \<and>
         length (fst (queue_run es d)) \<le> attempts_left d"
proof
  let ?cs = "map snd (fst (queue_run es d))"
  have ok: "ids_distinct d" "list_all job_checks (jobs d)"
    using assms by (simp_all add: jobs_ok_def)
  have row: "count_list ?cs (jid j) + jattempts j \<le> 5" if "j \<in> set (jobs d)" for j
    using claims_of_job [OF ok(1) that] ok(2) that by (auto simp: list_all_iff job_checks_def)
  show "count_list ?cs i \<le> 5"
  proof (cases "i \<in> jid ` set (jobs d)")
    case True
    with row show ?thesis by force
  next
    case False
    then have "i \<notin> set ?cs" using no_claim_of_absent [of i d es] by simp
    then show ?thesis by simp
  qed
  have "set ?cs \<subseteq> jid ` set (jobs d)"
    using no_claim_of_absent [of _ d es] by auto
  then have "length ?cs = (\<Sum>i \<in> jid ` set (jobs d). count_list ?cs i)"
    by (simp add: sum_count_set)
  also have "\<dots> = (\<Sum>j \<leftarrow> jobs d. count_list ?cs (jid j))"
    using ok(1) by (simp add: sum.reindex distinct_map sum_list_distinct_conv_sum_set)
  also have "\<dots> \<le> attempts_left d"
    unfolding attempts_left_def using row by (intro sum_list_mono) fastforce
  finally show "length (fst (queue_run es d)) \<le> attempts_left d" by simp
qed

subsection \<open>One worker at a time\<close>

definition keeps_lease :: "uuid \<Rightarrow> queue_event \<Rightarrow> bool" where
  "keeps_lease i e \<longleftrightarrow>
     (case e of
        Claim _ _ \<Rightarrow> True
      | Write s st k cols \<Rightarrow> k = i \<longrightarrow> list_all (\<lambda>c. (\<forall>l. c \<noteq> SetLease l) \<and> c \<noteq> SetStatus Pending) cols)"

definition held :: "instant \<Rightarrow> job \<Rightarrow> bool" where
  "held b j \<longleftrightarrow> 5 \<le> jattempts j \<or> (jstatus j \<noteq> Pending \<and> (\<exists>l. jlease j = Some l \<and> b \<le> l))"

lemma held_exhaust: "held b j \<Longrightarrow> held b (exhaust now j)"
  by (auto simp: held_def exhaust_def)

lemma held_claim: "held b j \<Longrightarrow> claimable t j \<Longrightarrow> b < t"
  by (auto simp: held_def claimable_def lease_over_def)

lemma lease_positive: "0 < lease_seconds p"
  by (simp add: lease_seconds_def)

lemma held_leased: "b \<le> t \<Longrightarrow> held b (leased t p j)"
  using lease_positive [of p] by (auto simp: held_def)

lemma held_cols:
  assumes "held b j" "list_all (\<lambda>c. (\<forall>l. c \<noteq> SetLease l) \<and> c \<noteq> SetStatus Pending) cols"
  shows "held b ((fold set_col cols j)\<lparr>jupdated := x\<rparr>)"
proof -
  have "held b (fold set_col cols j)"
    using assms
  proof (induction cols arbitrary: j)
    case (Cons c cols)
    then have "held b (set_col c j)" by (cases c) (auto simp: held_def)
    with Cons show ?case by simp
  qed simp
  then show ?thesis by (simp add: held_def)
qed

lemma held_run:
  assumes "ids_distinct d" "j \<in> set (jobs d)" "held b j" "list_all (keeps_lease (jid j)) es"
    "(t, jid j) \<in> set (fst (queue_run es d))"
  shows "b < t"
  using assms
proof (induction es arbitrary: d j)
  case (Cons e es)
  show ?case
  proof (cases e)
    case (Claim t1 p)
    obtain r d1 where c: "claim_next t1 p d = (r, d1)" by (cases "claim_next t1 p d")
    have d1: "ids_distinct d1" using ids_claim [of t1 p d] c Cons.prems(1) by simp
    have keep: "list_all (keeps_lease (jid j)) es" using Cons.prems(4) by simp
    have ex: "held b (exhaust t1 j)" by (rule held_exhaust [OF Cons.prems(3)])
    show ?thesis
    proof (cases r)
      case None
      have "exhaust t1 j \<in> set (jobs d1)"
        using row_after_no_claim [OF Cons.prems(2)] c None by blast
      from Cons.IH [OF d1 this ex] keep Cons.prems(5) c None Claim show ?thesis by (simp split: prod.splits)
    next
      case (Some k)
      note row = row_after_claim [OF Cons.prems(1,2) c [unfolded Some]]
      show ?thesis
      proof (cases "jid k = jid j")
        case True
        have k: "claimable t1 j" "k = leased t1 p j" "k \<in> set (jobs d1)"
          using row unfolding if_P [OF True] by blast+
        have b: "b < t1" by (rule held_claim [OF Cons.prems(3) k(1)])
        then have "held b k" using held_leased [of b t1] k(2) by simp
        from Cons.IH [OF d1 k(3) this] keep k(2) b Cons.prems(5) c Some Claim
        show ?thesis by (auto split: prod.splits)
      next
        case False
        with row have "exhaust t1 j \<in> set (jobs d1)" by simp
        from Cons.IH [OF d1 this ex] keep False Cons.prems(5) c Some Claim
        show ?thesis by (auto split: prod.splits)
      qed
    qed
  next
    case (Write s st i cols)
    obtain j' where j': "j' \<in> set (jobs (write_job s st i cols d))" "jid j' = jid j"
      "j' = j \<or> (jid j = i \<and> j' = (fold set_col cols j)\<lparr>jupdated := st_now st\<rparr>)"
      using row_after_write [OF Cons.prems(1,2)] by blast
    have "held b j'"
      using j'(3) Cons.prems(3,4) held_cols Write by (auto simp: keeps_lease_def)
    moreover have "ids_distinct (write_job s st i cols d)"
      using Cons.prems(1) by (simp add: ids_write)
    ultimately show ?thesis
      using Cons.IH [of "write_job s st i cols d" j'] j'(1,2) Cons.prems(4,5) Write by simp
  qed
qed simp

text \<open>C34: A job is leased to one worker at a time: after a claim no later claim returns the same job before its
  lease of at least 30 and at most 1800 seconds has run out, whatever other claims happen and
  whatever the running jobs write, as long as nobody clears the lease or puts the job back to
  pending.\<close>

theorem lease_exclusive:
  assumes "jobs_ok (jobs d)" "claim_next t1 p d = (Some r, d1)"
    and "list_all (keeps_lease (jid r)) es" "(t2, jid r) \<in> set (fst (queue_run es d1))"
  shows "t1 + lease_seconds p * second < t2 \<and> 30 \<le> lease_seconds p \<and> lease_seconds p \<le> 1800"
proof -
  have ok: "ids_distinct d" using assms(1) by (simp add: jobs_ok_def)
  have d1: "ids_distinct d1" using ids_claim [of t1 p d] assms(2) ok by simp
  obtain j where j: "j \<in> set (jobs d)" "r = leased t1 p j"
    using claim_some [OF assms(2)] by blast
  have "r \<in> set (jobs d1)"
    using row_after_claim [OF ok j(1) assms(2)] j(2) by simp
  moreover have "held (t1 + lease_seconds p * second) r"
    using j(2) by (simp add: held_def)
  ultimately have "t1 + lease_seconds p * second < t2"
    using held_run [OF d1 _ _ assms(3,4)] by blast
  then show ?thesis by (simp add: lease_seconds_def)
qed

subsection \<open>What a claim does to every job in progress\<close>

lemma released:
  assumes "j \<in> set js" "jstatus j = Failed" "jerror j = Some exhausted_error"
    and "row \<in> set (map (release_reservation js) rs)" "lg_job row = jid j"
  shows "lg_status row \<noteq> SpendReserved"
proof -
  obtain r where r: "row = release_reservation js r" using assms(4) by auto
  have "lg_job r = jid j" using assms(5) r by (simp add: release_reservation_def split: if_splits)
  then show ?thesis
    using r assms(1-3) by (auto simp: release_reservation_def list_ex_iff)
qed

text \<open>One claim settles every job in progress: if the job can be claimed, some job at least as old is handed
  out (this one or an older one, so the queue is served in order and never reported empty while work waits);
  if its five attempts are used up and its lease is over it is failed and no ledger row keeps money reserved
  for it; otherwise its lease is running and it is left alone.\<close>

theorem claim_settles:
  assumes "jobs_ok (jobs d)" "claim_next now p d = (r, d')" "j \<in> set (jobs d)" "active j"
  shows "if claimable now j then
           (\<exists>k. r = Some k \<and> jcreated k \<le> jcreated j \<and> (k = leased now p j \<and> k \<in> set (jobs d') \<or> j \<in> set (jobs d')))
         else if 5 \<le> jattempts j \<and> lease_over now j then
           exhaust now j \<in> set (jobs d') \<and> jstatus (exhaust now j) = Failed \<and>
           list_all (\<lambda>row. lg_job row = jid j \<longrightarrow> lg_status row \<noteq> SpendReserved) (ledger (spend d'))
         else \<not> lease_over now j \<and> j \<in> set (jobs d')"
proof -
  have ids: "ids_distinct d" using assms(1) by (simp add: jobs_ok_def)
  have stays: "exhaust now j \<in> set (jobs d')" if "\<not> claimable now j"
    using row_after_claim [OF ids assms(3), of now p _ d'] row_after_no_claim [OF assms(3), of now p d'] assms(2) that
    by (cases r) (metis (full_types))+
  show ?thesis
  proof (cases "claimable now j")
    case True
    then obtain k where k: "r = Some k"
      using claim_none(1) [of now p d d'] assms(2,3) by (cases r) auto
    then have "jcreated k \<le> jcreated j"
      using claim_some [of now p d k d'] assms(2,3) True by (auto simp: leased_def)
    moreover have "k = leased now p j \<and> k \<in> set (jobs d') \<or> j \<in> set (jobs d')"
      using row_after_claim [OF ids assms(3), of now p k d'] assms(2) k exhaust_claimable [OF True] by (auto split: if_splits)
    ultimately show ?thesis using True k by simp
  next
    case False
    note F = False
    show ?thesis
    proof (cases "5 \<le> jattempts j \<and> lease_over now j")
      case True
      let ?js = "map (exhaust now) (jobs d)"
      have e: "jstatus (exhaust now j) = Failed" "jerror (exhaust now j) = Some exhausted_error"
        using True assms(4) by (simp_all add: exhaust_def)
      have "exhaust now j \<in> set ?js" using assms(3) by simp
      then have "list_all (\<lambda>row. lg_job row = jid j \<longrightarrow> lg_status row \<noteq> SpendReserved) (ledger (spend d'))"
        using released [of "exhaust now j" ?js] e claim_ledger [of now p d] assms(2)
        by (simp only: list_all_iff snd_conv exhaust_id) blast
      with True F stays e show ?thesis by simp
    next
      case no: False
      have "\<not> lease_over now j"
        using F no assms(4) by (auto simp: claimable_def active_def)
      moreover have "exhaust now j = j" using no by (auto simp: exhaust_def)
      ultimately show ?thesis using F no stays by simp
    qed
  qed
qed

definition ex_waiting :: job where
  "ex_waiting = job_row ex_stamp (ex_request ''u'' None)"

lemma ex_waiting_ok: "jobs_ok (jobs (ex_jobs [ex_waiting]))"
  by (simp add: ex_waiting_def jobs_ok_def no_conflicts_def job_row_def job_checks_def ex_request_def)

lemma ex_claim: "claim_next 200 900 (ex_jobs [ex_waiting]) =
    (Some (leased 200 900 ex_waiting), ex_jobs [leased 200 900 ex_waiting])"
  by (simp add: claim_next_def Let_def ex_waiting_def job_row_def ex_request_def exhaust_def claimable_def
      lease_over_def replace_job_def ex_jobs_def leased_def)

theorem claim_settles_witness:
  "fst (claim_next 200 900 (ex_jobs [ex_waiting])) = Some (leased 200 900 ex_waiting)"
proof -
  have c: "claimable 200 ex_waiting" "active ex_waiting"
    by (simp_all add: claimable_def active_def ex_waiting_def job_row_def ex_request_def)
  have "\<exists>k. Some (leased 200 900 ex_waiting) = Some k \<and> jcreated k \<le> jcreated ex_waiting"
    using claim_settles [OF ex_waiting_ok ex_claim, of ex_waiting] c by auto
  then show ?thesis by (simp add: ex_claim)
qed

theorem claims_bounded_witness:
  "length (fst (queue_run [Claim 200 900, Claim 300 900] (ex_jobs [ex_waiting]))) \<le> attempts_left (ex_jobs [ex_waiting])"
  using claims_bounded [OF ex_waiting_ok, of "[Claim 200 900, Claim 300 900]" "''j''"] by blast

theorem lease_exclusive_witness:
  "(900000201, jid ex_waiting) \<in> set (fst (queue_run [Claim 900000201 900] (ex_jobs [leased 200 900 ex_waiting]))) \<and>
   200 + lease_seconds 900 * second < (900000201 :: int)"
proof -
  let ?r = "leased 200 900 ex_waiting"
  have run: "(900000201, jid ?r) \<in> set (fst (queue_run [Claim 900000201 900] (ex_jobs [?r])))"
    by (simp add: claim_next_def Let_def ex_waiting_def job_row_def ex_request_def exhaust_def claimable_def
      lease_over_def leased_def lease_seconds_def)
  have keep: "list_all (keeps_lease (jid ?r)) [Claim 900000201 900]"
    by (simp add: keeps_lease_def)
  show ?thesis using lease_exclusive [OF ex_waiting_ok ex_claim keep run] run by simp
qed

subsection \<open>Claims among the other calls\<close>

lemma jobs_ok_map:
  assumes "jobs_ok js"
    and g: "\<And>j. j \<in> set js \<Longrightarrow> same_job j (g j) \<and> jrecipe (g j) = jrecipe j \<and> (active (g j) \<longrightarrow> active j) \<and> job_checks (g j)"
  shows "jobs_ok (map g js)"
proof -
  have "jid (g j) = jid j" if "j \<in> set js" for j using g [OF that] by (simp add: same_job_def)
  then have "map jid (map g js) = map jid js" by simp
  moreover have "no_conflicts (map g js)"
  proof -
    have "\<not> conflicting (g a) (g b)" if ab: "a \<in> set js" "b \<in> set js" "jid (g a) \<noteq> jid (g b)" for a b
    proof -
      have "jid a \<noteq> jid b" using g [OF ab(1)] g [OF ab(2)] ab(3) by (simp add: same_job_def)
      then have "\<not> conflicting a b" using assms(1) ab(1,2) by (simp add: jobs_ok_def no_conflicts_def)
      with g [OF ab(1)] g [OF ab(2)] show ?thesis
        by (simp add: conflicting_def same_job_def)
    qed
    then show ?thesis by (simp add: no_conflicts_def)
  qed
  ultimately show ?thesis
    using assms(1) g unfolding jobs_ok_def list_all_iff by (simp del: map_map)
qed

lemma evolves_claim: "evolves d (snd (claim_next now p d))"
proof (rule evolvesI)
  assume ok: "db_ok d"
  obtain r d' where c: "claim_next now p d = (r, d')" by (cases "claim_next now p d")
  have ids: "ids_distinct d" and checks: "list_all job_checks (jobs d)"
    using ok by (simp_all add: db_ok_def jobs_ok_def)
  define g where "g k = (case r of Some j \<Rightarrow> if jid k = jid j then leased now p k else exhaust now k | None \<Rightarrow> exhaust now k)" for k
  have "jobs d' = map g (jobs d)"
  proof (cases r)
    case None
    with claim_none(2) [of now p d d'] c show ?thesis by (simp add: g_def)
  next
    case (Some j)
    obtain k where k: "k \<in> set (jobs d)" "j = leased now p k" "jobs d' = replace_job j (map (exhaust now) (jobs d))"
      using claim_some [of now p d j d'] c Some by blast
    have "j = leased now p m" if "m \<in> set (jobs d)" "jid m = jid j" for m
      using same_row [OF ids that(1) k(1)] that(2) k(2) by simp
    with k(3) Some show ?thesis by (simp add: g_def replace_job_def)
  qed
  moreover have "same_job k (g k) \<and> jrecipe (g k) = jrecipe k \<and> (active (g k) \<longrightarrow> active k) \<and> job_checks (g k)"
    if k: "k \<in> set (jobs d)" for k
  proof -
    have "claimable now k" if "r = Some j" "jid k = jid j" for j
      using row_after_claim [OF ids k] c that by auto
    moreover have "job_checks k" using checks k by (simp add: list_all_iff)
    ultimately show ?thesis
      by (auto simp: g_def same_job_def leased_def exhaust_def job_checks_def claimable_def active_def split: option.split)
  qed
  ultimately have "jobs_ok (jobs d') \<and> (\<forall>a \<in> set (jobs d). \<exists>b \<in> set (jobs d'). same_job a b)"
    using jobs_ok_map [of "jobs d" g] ok by (auto simp: db_ok_def)
  moreover have "pushes_ok d'"
    using ok c by (auto simp: db_ok_def pushes_ok_def claim_next_def Let_def split: option.splits)
  ultimately show "db_ok (snd (claim_next now p d))"
    and "a \<in> set (jobs d) \<Longrightarrow> \<exists>b \<in> set (jobs (snd (claim_next now p d))). same_job a b" for a
    using c by (simp_all add: db_ok_def)
qed

end
