(* ===== verification/Py_Regex.thy ===== *)
theory Py_Regex
  imports RA_Prelude
begin

section \<open>Regular expressions\<close>

text \<open>
  The part of Python's \<open>re\<close> the server uses on free text: a backtracking matcher that gives the
  end positions of a match from a start position in the order the matcher tries them, so that the
  first one is what \<open>match\<close> returns. Letters are compared without case (every expression modelled
  with it has \<open>re.IGNORECASE\<close>).
\<close>

datatype rx =
    Eps
  | Cls "char \<Rightarrow> bool"
  | Cat rx rx
  | Or rx rx
  | Rep bool nat "nat option" rx    \<comment> \<open>greedy, lower bound, upper bound\<close>
  | WordB                           \<comment> \<open>\<open>\b\<close>\<close>
  | AtStart
  | AtEnd                           \<comment> \<open>\<open>$\<close>\<close>

definition is_word :: "char \<Rightarrow> bool" where
  "is_word c = (let n = of_char c :: nat in
     (48 \<le> n \<and> n \<le> 57) \<or> (65 \<le> n \<and> n \<le> 90) \<or> n = 95 \<or> (97 \<le> n \<and> n \<le> 122) \<or> n = 170 \<or> n = 178 \<or> n = 179 \<or>
     n = 181 \<or> n = 185 \<or> n = 186 \<or> (188 \<le> n \<and> n \<le> 190) \<or> (192 \<le> n \<and> n \<le> 255 \<and> n \<noteq> 215 \<and> n \<noteq> 247))"

definition word_at :: "string \<Rightarrow> nat \<Rightarrow> bool" where
  "word_at s i \<longleftrightarrow> i < length s \<and> is_word (s ! i)"

definition word_boundary :: "string \<Rightarrow> nat \<Rightarrow> bool" where
  "word_boundary s i \<longleftrightarrow> (0 < i \<and> word_at s (i - 1)) \<noteq> word_at s i"

text \<open>\<open>$\<close> matches at the end and before a newline at the end.\<close>

definition at_end :: "string \<Rightarrow> nat \<Rightarrow> bool" where
  "at_end s i \<longleftrightarrow> i = length s \<or> (i + 1 = length s \<and> s ! i = char_of (10 :: nat))"

fun repeat :: "bool \<Rightarrow> nat \<Rightarrow> nat \<Rightarrow> (nat \<Rightarrow> nat list) \<Rightarrow> nat \<Rightarrow> nat list" where
  "repeat g (Suc lo) hi f i = concat (map (repeat g lo (hi - 1) f) (f i))"
| "repeat g 0 0 f i = [i]"
| "repeat g 0 (Suc hi) f i =
     (let further = concat (map (repeat g 0 hi f) (f i)) in if g then further @ [i] else i # further)"

primrec ends :: "rx \<Rightarrow> string \<Rightarrow> nat \<Rightarrow> nat list" where
  "ends Eps s i = [i]"
| "ends (Cls P) s i = (if i < length s \<and> P (s ! i) then [i + 1] else [])"
| "ends (Cat a b) s i = concat (map (ends b s) (ends a s i))"
| "ends (Or a b) s i = ends a s i @ ends b s i"
| "ends (Rep g lo hi r) s i =
     repeat g lo (case hi of None \<Rightarrow> lo + length s | Some h \<Rightarrow> h) (ends r s) i"
| "ends WordB s i = (if word_boundary s i then [i] else [])"
| "ends AtStart s i = (if i = 0 then [i] else [])"
| "ends AtEnd s i = (if at_end s i then [i] else [])"

definition rx_match :: "rx \<Rightarrow> string \<Rightarrow> bool" where
  "rx_match r s \<longleftrightarrow> ends r s 0 \<noteq> []"

definition rx_search :: "rx \<Rightarrow> string \<Rightarrow> bool" where
  "rx_search r s \<longleftrightarrow> list_ex (\<lambda>i. ends r s i \<noteq> []) [0..<length s + 1]"

text \<open>The leftmost match: its start and its end.\<close>

definition rx_find :: "rx \<Rightarrow> string \<Rightarrow> (nat \<times> nat) option" where
  "rx_find r s =
     (case find (\<lambda>i. ends r s i \<noteq> []) [0..<length s + 1] of
        None \<Rightarrow> None
      | Some i \<Rightarrow> Some (i, hd (ends r s i)))"

text \<open>Removal of the leftmost match: \<open>sub ('''', s)\<close> of an expression that can match only once.\<close>

definition rx_cut :: "rx \<Rightarrow> string \<Rightarrow> string" where
  "rx_cut r s = (case rx_find r s of None \<Rightarrow> s | Some (i, j) \<Rightarrow> take i s @ drop j s)"

subsection \<open>Abbreviations\<close>

definition one_of :: "string \<Rightarrow> rx" where
  "one_of cs = Cls (\<lambda>c. lower_char c \<in> lower_char ` set cs)"

fun lit :: "string \<Rightarrow> rx" where
  "lit [] = Eps"
| "lit (c # s) = Cat (one_of [c]) (lit s)"

fun cat :: "rx list \<Rightarrow> rx" where
  "cat [] = Eps"
| "cat [r] = r"
| "cat (r # rs) = Cat r (cat rs)"

fun alts :: "rx list \<Rightarrow> rx" where
  "alts [] = Cls (\<lambda>_. False)"
| "alts [r] = r"
| "alts (r # rs) = Or r (alts rs)"

abbreviation words :: "string list \<Rightarrow> rx" where
  "words ws \<equiv> alts (map lit ws)"

definition maybe :: "rx \<Rightarrow> rx" where
  "maybe r = Rep True 0 (Some 1) r"

definition many :: "rx \<Rightarrow> rx" where
  "many r = Rep True 0 None r"

definition many1 :: "rx \<Rightarrow> rx" where
  "many1 r = Rep True 1 None r"

definition any_char :: rx where
  "any_char = Cls (\<lambda>_. True)"

definition any_but_newline :: rx where
  "any_but_newline = Cls (\<lambda>c. (of_char c :: nat) \<noteq> 10)"

definition space :: rx where
  "space = Cls is_space"

subsection \<open>A match stays when text is added around it\<close>

primrec anchored :: "rx \<Rightarrow> bool" where
  "anchored Eps = False"
| "anchored (Cls P) = False"
| "anchored (Cat a b) = (anchored a \<or> anchored b)"
| "anchored (Or a b) = (anchored a \<or> anchored b)"
| "anchored (Rep g lo hi r) = anchored r"
| "anchored WordB = True"
| "anchored AtStart = True"
| "anchored AtEnd = True"

lemma repeat_shift:
  assumes "\<And>i j. j \<in> set (f i) \<Longrightarrow> n + j \<in> set (h (n + i))" "hi \<le> hi'"
    and "j \<in> set (repeat g lo hi f i)"
  shows "n + j \<in> set (repeat g lo hi' h (n + i))"
  using assms
proof (induction g lo hi f i arbitrary: hi' j rule: repeat.induct)
  case (1 g lo hi f i)
  then obtain k where k: "k \<in> set (f i)" "j \<in> set (repeat g lo (hi - 1) f k)" by auto
  have "n + j \<in> set (repeat g lo (hi' - 1) h (n + k))"
    using "1.IH" [OF k(1) "1.prems"(1) _ k(2), of "hi' - 1"] "1.prems"(2) by auto
  with "1.prems"(1) [OF k(1)] show ?case by (auto intro!: bexI [of _ "n + k"])
next
  case (2 g f i)
  then show ?case by (cases hi') (auto simp: Let_def)
next
  case (3 g hi f i)
  then obtain h' where h': "hi' = Suc h'" "hi \<le> h'" by (cases hi') auto
  consider "j = i" | k where "k \<in> set (f i)" "j \<in> set (repeat g 0 hi f k)"
    using "3.prems"(3) by (auto simp: Let_def split: if_splits)
  then show ?case
  proof cases
    case 1
    with h' show ?thesis by (auto simp: Let_def)
  next
    case (2 k)
    then have "n + j \<in> set (repeat g 0 h' h (n + k))"
      using "3.IH" [OF 2(1) "3.prems"(1) h'(2) 2(2)] by simp
    with "3.prems"(1) [OF 2(1)] h'(1) show ?thesis by (auto simp: Let_def intro!: bexI [of _ "n + k"])
  qed
qed

lemma ends_shift:
  assumes "\<not> anchored r" "j \<in> set (ends r s i)"
  shows "length u + j \<in> set (ends r (u @ s @ v) (length u + i))"
  using assms
proof (induction r arbitrary: i j)
  case (Cat a b)
  then obtain k where "k \<in> set (ends a s i)" "j \<in> set (ends b s k)" by auto
  with Cat show ?case by (auto intro!: bexI [of _ "length u + k"])
next
  case (Rep g lo hi r)
  have shift: "\<And>i j. j \<in> set (ends r s i) \<Longrightarrow> length u + j \<in> set (ends r (u @ s @ v) (length u + i))"
    using Rep by simp
  have "(case hi of None \<Rightarrow> lo + length s | Some h \<Rightarrow> h) \<le>
      (case hi of None \<Rightarrow> lo + length (u @ s @ v) | Some h \<Rightarrow> h)"
    by (simp split: option.split)
  from repeat_shift [where f = "ends r s" and h = "ends r (u @ s @ v)", OF shift this] Rep.prems(2)
  show ?case by simp
qed (auto simp: nth_append split: if_splits)

lemma search_context:
  assumes "\<not> anchored r" "rx_search r s"
  shows "rx_search r (u @ s @ v)"
proof -
  obtain i where i: "i \<le> length s" "ends r s i \<noteq> []"
    using assms(2) unfolding rx_search_def list_ex_iff by (metis atLeastLessThan_iff set_upt Suc_eq_plus1 less_Suc_eq_le)
  then obtain j where "j \<in> set (ends r s i)" by (meson list.set_sel(1))
  from ends_shift [OF assms(1) this, of u v]
  have "ends r (u @ s @ v) (length u + i) \<noteq> []" by (metis empty_iff list.set(1))
  with i(1) show ?thesis
    unfolding rx_search_def list_ex_iff by (intro bexI [of _ "length u + i"]) auto
qed

end
