(* ===== verification/Text_Gates.thy ===== *)
theory Text_Gates
  imports Py_Regex Job_Messages
begin

section \<open>The free gates before any paid call\<close>

text \<open>
  The two checks of app/recipe_builder.py that stop an import on its caption alone: captions that
  send the reader to the creator's bio, and long captions without a trace of cooking. The emoji of
  the cooking expression are outside the character range of the model.
\<close>

definition ae_i :: rx where "ae_i = one_of [CHR ''i'', char_of (237 :: nat)]"
definition ae_e :: rx where "ae_e = one_of [CHR ''e'', char_of (233 :: nat)]"
definition ae_u :: rx where "ae_u = one_of [CHR ''u'', char_of (250 :: nat)]"

definition up_to_40 :: rx where
  "up_to_40 = Rep False 0 (Some 40) any_char"

definition bio_noun :: rx where
  "bio_noun = Cat (maybe (cat [lit ''full'', many1 space]))
     (words [''recipe'', ''receta'', ''recetas'', ''link'', ''enlace'', ''liga'', ''url''])"

definition bio_word :: rx where
  "bio_word = Or (lit ''bio'') (cat [lit ''biograf'', ae_i, lit ''a''])"

definition in_bio :: rx where
  "in_bio = cat [words [''in'', ''en''], many1 space,
     maybe (Cat (words [''the'', ''la'', ''mi'', ''my'']) (many1 space)), bio_word]"

definition see_bio :: rx where
  "see_bio = cat
     [alts [lit ''check'', lit ''see'', lit ''look'', lit ''mira'', Cat (lit ''ve'') (maybe (one_of ''ea'')), lit ''revisa''],
      many1 space,
      maybe (alts [Cat (lit ''my'') (many1 space), Cat (lit ''mi'') (many1 space),
        cat [lit ''en'', many1 space, maybe (Cat (words [''la'', ''mi'']) (many1 space))]]),
      bio_word]"

definition link_in_bio_re :: rx where
  "link_in_bio_re = alts [cat [bio_noun, up_to_40, in_bio], cat [in_bio, up_to_40, bio_noun], see_bio]"

text \<open>A part that is None or blank does not count; the others are joined as they are.\<close>

definition has_text :: "string option \<Rightarrow> bool" where
  "has_text p = (case p of None \<Rightarrow> False | Some t \<Rightarrow> strip t \<noteq> [])"

definition text_points_to_link_in_bio :: "string option list \<Rightarrow> bool" where
  "text_points_to_link_in_bio parts =
     (let blob = join '' '' (map the (filter has_text parts)) in
      blob \<noteq> [] \<and> rx_search link_in_bio_re blob)"

definition reject_link_in_bio :: "string option list \<Rightarrow> unit res" where
  "reject_link_in_bio parts =
     (if text_points_to_link_in_bio parts then Inl (ExtractError link_in_bio) else Inr ())"

definition min_non_recipe_caption_chars :: nat where
  "min_non_recipe_caption_chars = 48"

definition culinary_tags :: rx where
  "culinary_tags = cat [lit ''#'',
     words [''recipe'', ''recipes'', ''receta'', ''recetas'', ''cooking'', ''cocina'', ''foodtok'', ''baking'',
       ''hornear'', ''cocinando'', ''comida'', ''foodie'', ''asmrfood''], WordB]"

definition stem :: "string \<Rightarrow> string list \<Rightarrow> rx" where
  "stem w suffixes = Cat (lit w) (maybe (words suffixes))"

definition culinary_words :: rx where
  "culinary_words = alts (map lit [''recipe'', ''recipes'', ''receta'', ''recetas''] @
     [stem ''ingredient'' [''s'', ''es''], cat [lit ''ingr'', ae_e, lit ''dient'', maybe (lit ''s'')],
      lit ''zutaten'', lit ''ingredienti'',
      stem ''cook'' [''ing'', ''ed''], stem ''cocin'' [''a'', ''ar'', ''ado'', ''ada'', ''ando''],
      Cat (lit ''bake'') (maybe (one_of ''dr'')), lit ''baking'',
      stem ''fry'' [''ing'', ''ed''], cat [lit ''fre'', ae_i, lit ''r''], stem ''grill'' [''ed'', ''ing''],
      stem ''roast'' [''ed'', ''ing''], lit ''saute'', Cat (lit ''saut'') ae_e, stem ''boil'' [''ed'', ''ing''],
      lit ''simmer'', Cat (lit ''horne'') (words [''ar'', ''ado''])] @
     map lit [''meal'', ''dinner'', ''lunch'', ''breakfast'', ''brunch'', ''dessert'', ''snack'',
       ''cena'', ''almuerzo'', ''desayuno'', ''postre'', ''merienda'',
       ''pasta'', ''pizza'', ''salad'', ''soup'', ''sauce'', ''salsa'', ''dough'', ''masa'', ''batter'',
       ''flour'', ''harina'', ''sugar''] @
     [cat [lit ''az'', ae_u, lit ''car'']] @
     map lit [''salt'', ''butter'', ''mantequilla'', ''oil'', ''aceite'', ''garlic'', ''ajo'', ''onion'',
       ''cebolla'', ''chicken'', ''pollo'', ''beef'', ''pork'', ''carne'', ''fish'', ''pescado''] @
     [stem ''egg'' [''s''], stem ''huevo'' [''s'']] @
     map lit [''cheese'', ''queso'', ''milk'', ''leche'', ''cream'', ''nata'', ''chocolate'',
       ''cake'', ''pastel'', ''cookie'', ''galleta'', ''bread'', ''arroz'',
       ''noodle'', ''fideo'', ''taco'', ''burrito'', ''sushi'', ''steak'',
       ''marinade'', ''adobo'', ''seasoning'', ''tbsp'', ''tsp''] @
     [Cat (lit ''cucharad'') (one_of ''ao'')] @
     map lit [''oven'', ''horno'', ''skillet''] @ [cat [lit ''sart'', ae_e, lit ''n'']] @
     map lit [''whisk'', ''chop'', ''mince'', ''slice''] @
     [stem ''serving'' [''s''], stem ''porcione'' [''s''], stem ''racione'' [''s'']])"

definition culinary_signal_re :: rx where
  "culinary_signal_re = Or culinary_tags (cat [WordB, culinary_words, WordB])"

definition caption_blob :: "string option list \<Rightarrow> string" where
  "caption_blob parts = join '' '' (map (strip \<circ> the) (filter has_text parts))"

definition caption_has_culinary_signal :: "string option list \<Rightarrow> bool" where
  "caption_has_culinary_signal parts =
     (let blob = caption_blob parts in blob \<noteq> [] \<and> rx_search culinary_signal_re blob)"

definition reject_clearly_non_recipe :: "string option list \<Rightarrow> unit res" where
  "reject_clearly_non_recipe parts =
     (let blob = caption_blob parts in
      if length blob < min_non_recipe_caption_chars then Inr ()
      else if caption_has_culinary_signal [Some blob] then Inr ()
      else Inl (ExtractError recipe_undetermined))"

subsection \<open>More evidence never hides a pointer to the bio\<close>

lemma join_append: "xs \<noteq> [] \<Longrightarrow> ys \<noteq> [] \<Longrightarrow> join sep (xs @ ys) = join sep xs @ sep @ join sep ys"
proof (induction xs)
  case (Cons x xs)
  then show ?case by (cases "xs = []") (simp_all add: join_Cons)
qed simp

lemma link_free: "\<not> anchored link_in_bio_re"
  by (simp add: link_in_bio_re_def bio_noun_def in_bio_def see_bio_def bio_word_def up_to_40_def maybe_def many1_def
    space_def any_char_def one_of_def ae_i_def)

text \<open>The bio gate is monotone: once some texts send the reader to the bio, adding texts before or after them
  (subtitles, speech, on-screen notes) cannot undo it, so a caption that is rejected before any paid call
  is not accepted at a later stage that sees more evidence.\<close>

theorem bio_gate_monotone:
  assumes "reject_link_in_bio parts = Inl (ExtractError link_in_bio)"
  shows "reject_link_in_bio (before @ parts @ after) = Inl (ExtractError link_in_bio)"
proof -
  let ?t = "\<lambda>ps. map the (filter has_text ps)"
  have s: "join '' '' (?t parts) \<noteq> []" "rx_search link_in_bio_re (join '' '' (?t parts))"
    using assms by (auto simp: reject_link_in_bio_def text_points_to_link_in_bio_def Let_def split: if_splits)
  then have n: "?t parts \<noteq> []" by (metis join.simps(1))
  obtain v where v: "join '' '' (?t parts @ ?t after) = join '' '' (?t parts) @ v"
    using join_append [OF n, of "?t after" "'' ''"] by (cases "?t after = []") auto
  obtain u where "join '' '' (?t before @ ?t parts @ ?t after) = u @ join '' '' (?t parts @ ?t after)"
    using join_append [of "?t before" "?t parts @ ?t after" "'' ''"] n by (cases "?t before = []") auto
  then have j: "join '' '' (?t (before @ parts @ after)) = u @ join '' '' (?t parts) @ v"
    using v by simp
  have "rx_search link_in_bio_re (u @ join '' '' (?t parts) @ v)"
    by (rule search_context [OF link_free s(2)])
  then show ?thesis
    unfolding reject_link_in_bio_def text_points_to_link_in_bio_def Let_def j using s(1) by simp
qed

theorem bio_gate_monotone_witness:
  "reject_link_in_bio [Some ''More soon'', Some ''see my bio'', Some ''mix''] = Inl (ExtractError link_in_bio)"
proof -
  have "text_points_to_link_in_bio [Some ''see my bio'']" by code_simp
  then have "reject_link_in_bio [Some ''see my bio''] = Inl (ExtractError link_in_bio)"
    by (simp add: reject_link_in_bio_def)
  from bio_gate_monotone [OF this, of "[Some ''More soon'']" "[Some ''mix'']"] show ?thesis by simp
qed

end
