(* ===== verification/Pipeline.thy ===== *)
theory Pipeline
  imports Job_Queue Text_Gates Quota Costing Job_Guard Url_Norm
begin

section \<open>The import pipeline\<close>

text \<open>
  app/pipeline.py: one import from the claimed job to its terminal state. The paid and the external
  steps (downloads, speech to text, reading of frames, the recipe model) are the fields of \<open>tools\<close>:
  any functions that answer or raise and may add to the cost meter. Everything the pipeline decides
  itself is written out: the order of the stages, what stops or escalates an import, the budget of
  the visual stage, the job's progress and final state, the cost accounting and the release of the
  slot. The recipe is opaque (\<open>'r\<close>), audio files are \<open>'a\<close>, frames \<open>'f\<close>; logging and the removal of
  temporary files are left out.
\<close>

subsection \<open>State\<close>

record slide_info =
  sl_title :: string
  sl_description :: string
  sl_author :: "string option"
  sl_image_urls :: "string list"
  sl_incomplete :: "string option"

record media =
  md_title :: string
  md_description :: string
  md_author :: "string option"
  md_thumbnail :: "string option"
  md_duration :: "rat option"
  md_webpage :: string
  md_subtitles :: "string option"
  md_extra :: "string option"

record evidence =
  ev_platform :: platform
  ev_source :: string
  ev_title :: string
  ev_description :: string
  ev_author :: "string option"
  ev_thumbnail :: "string option"
  ev_carousel :: "string list"
  ev_transcript :: "string option"
  ev_slide_text :: "string option"
  ev_language :: string

type_synonym reasons = "string list"

record ('r, 'a, 'f) tools =
  slides_of :: "string \<Rightarrow> slide_info option res"
  ocr_slide :: "string \<Rightarrow> nat \<Rightarrow> meter \<Rightarrow> string res \<times> meter"
  media_of :: "string \<Rightarrow> media res"
  captions_of :: "string \<Rightarrow> string option res"
  build :: "evidence \<Rightarrow> meter \<times> reasons \<Rightarrow> 'r option res \<times> (meter \<times> reasons)"
  audio_of :: "media \<Rightarrow> 'a res"
  spoken :: "'a \<Rightarrow> rat option \<Rightarrow> string \<Rightarrow> meter \<Rightarrow> string res \<times> meter"
  frames_of :: "media \<Rightarrow> nat \<Rightarrow> 'f list res"
  ocr_frames :: "'f list \<Rightarrow> meter \<Rightarrow> string option res \<times> meter"
  cover_of :: "media \<Rightarrow> string option"
  with_thumbnail :: "string \<Rightarrow> 'r \<Rightarrow> 'r"

record 'r recipe_row =
  rr_id :: uuid
  rr_norm :: string
  rr_lang :: string
  rr_recipe :: 'r

record 'r pipe =
  pi_db :: job_db
  pi_recipes :: "'r recipe_row list"
  pi_saved :: "(uuid \<times> uuid) list"    \<comment> \<open>\<open>user_recipes\<close>\<close>
  pi_usage :: "usage_event list"
  pi_guard :: guard
  pi_meter :: meter
  pi_reasons :: reasons

type_synonym ('r, 'x) step = "('r pipe, 'x) tx"

definition metered :: "(meter \<Rightarrow> 'x res \<times> meter) \<Rightarrow> ('r, 'x) step" where
  "metered f = local (\<lambda>p. case f (pi_meter p) of (r, m) \<Rightarrow> (r, p\<lparr>pi_meter := m\<rparr>))"

definition read_meter :: "('r, meter) step" where
  "read_meter = local (\<lambda>p. (Inr (pi_meter p), p))"

definition read_reasons :: "('r, reasons) step" where
  "read_reasons = local (\<lambda>p. (Inr (pi_reasons p), p))"

text \<open>A statement on the job tables, in the service session of the pipeline.\<close>

definition on_db :: "(job_db \<Rightarrow> 'x res \<times> job_db) \<Rightarrow> ('r, 'x) step" where
  "on_db f = atomically (\<lambda>p. case f (pi_db p) of (r, d) \<Rightarrow> (r, p\<lparr>pi_db := d\<rparr>))"

definition set_job :: "stamp \<Rightarrow> uuid \<Rightarrow> job_col list \<Rightarrow> ('r, job option) step" where
  "set_job st i cols = on_db (update_row service st (list_ex is_status cols) (fold set_col cols) i)"

text \<open>\<open>except ExtractError\<close> and \<open>except Exception\<close>.\<close>

fun is_extract_error :: "exn \<Rightarrow> bool" where
  "is_extract_error (ExtractError _) = True"
| "is_extract_error _ = False"

definition catch_extract :: "('db, 'x) tx \<Rightarrow> (exn \<Rightarrow> ('db, 'x) tx) \<Rightarrow> ('db, 'x) tx" where
  "catch_extract m h = tx_catch m (\<lambda>e. if is_extract_error e then h e else tx_raise e)"

subsection \<open>Evidence\<close>

text \<open>\<open>_merge_evidence\<close>: the parts with text, stripped, each once without regard to case.\<close>

fun merge_new :: "string list \<Rightarrow> string list \<Rightarrow> string list" where
  "merge_new seen [] = []"
| "merge_new seen (p # ps) =
     (if lower p \<in> set seen then merge_new seen ps else p # merge_new (lower p # seen) ps)"

definition paragraph_break :: string where
  "paragraph_break = [char_of (10 :: nat), char_of (10 :: nat)]"

definition merge_evidence :: "string option list \<Rightarrow> string option" where
  "merge_evidence parts =
     (let cleaned = map (strip \<circ> the) (filter has_text parts) in
      if cleaned = [] then None else Some (join paragraph_break (merge_new [] cleaned)))"

definition or_none :: "string \<Rightarrow> string option" where
  "or_none s = (if s = [] then None else Some s)"

text \<open>\<open>int (a // max (b, 0.01))\<close> of non-negative floats.\<close>

definition affordable :: "settings \<Rightarrow> rat \<Rightarrow> int" where
  "affordable cfg remaining = \<lfloor>remaining / max (cost_ocr_cents_per_slide cfg) (1 / 100)\<rfloor>"

definition remaining_budget :: "settings \<Rightarrow> meter \<Rightarrow> rat" where
  "remaining_budget cfg m = max (max_job_cost_cents cfg - cents m) 0"

text \<open>\<open>select_spread_frame_indexes\<close> of app/extract.py.\<close>

fun dedup_neighbours :: "nat list \<Rightarrow> nat list" where
  "dedup_neighbours [] = []"
| "dedup_neighbours [x] = [x]"
| "dedup_neighbours (x # y # xs) =
     (if x = y then dedup_neighbours (y # xs) else x # dedup_neighbours (y # xs))"

fun fill_picks :: "nat \<Rightarrow> nat list \<Rightarrow> nat list \<Rightarrow> nat list" where
  "fill_picks n picks [] = picks"
| "fill_picks n picks (x # xs) =
     (if n \<le> length picks then picks
      else if x \<in> set picks then fill_picks n picks xs else fill_picks n (picks @ [x]) xs)"

definition select_spread_frame_indexes :: "nat \<Rightarrow> nat \<Rightarrow> nat list" where
  "select_spread_frame_indexes total_frames n =
     (if total_frames = 0 \<or> n = 0 then []
      else if total_frames \<le> n then [0..<total_frames]
      else if n = 1 then [0]
      else
        let stride = of_nat (total_frames - 1) / of_nat (n - 1) :: rat;
            picks = dedup_neighbours (map (\<lambda>i. nat (py_round (of_nat i * stride))) [0..<n])
        in take n (sort (fill_picks n picks [0..<total_frames])))"

subsection \<open>The visual stage\<close>

definition vision_batch :: nat where "vision_batch = 4"

fun batches :: "nat \<Rightarrow> 'x list \<Rightarrow> 'x list list" where
  "batches n xs = (if xs = [] \<or> n = 0 then [] else take n xs # batches n (drop n xs))"

declare batches.simps [simp del]

type_synonym ('r) builder = "string option \<Rightarrow> string option \<Rightarrow> ('r, 'r option) step"

definition run_batch ::
  "settings \<Rightarrow> ('r, 'a, 'f) tools \<Rightarrow> 'f list \<Rightarrow> string \<Rightarrow> ('r, string) step" where
  "run_batch cfg T batch video_text =
     (if batch = [] then tx_return video_text
      else tx_bind read_meter (\<lambda>m.
        if max_job_cost_cents cfg < cents m + of_nat (length batch) * cost_ocr_cents_per_slide cfg
        then tx_return video_text
        else tx_bind (metered (ocr_frames T batch)) (\<lambda>chunk.
          case chunk of
            None \<Rightarrow> tx_return video_text
          | Some c \<Rightarrow>
              tx_return (if c = [] then video_text
                else case merge_evidence [Some video_text, Some c] of None \<Rightarrow> '''' | Some t \<Rightarrow> t))))"

fun vision_batches ::
  "settings \<Rightarrow> ('r, 'a, 'f) tools \<Rightarrow> 'r builder \<Rightarrow> string option \<Rightarrow> string \<Rightarrow> 'f list list \<Rightarrow>
   ('r, 'r option \<times> string) step" where
  "vision_batches cfg T try_build transcript video_text [] = tx_return (None, video_text)"
| "vision_batches cfg T try_build transcript video_text (b # bs) =
     tx_bind (run_batch cfg T b video_text) (\<lambda>vt.
       tx_bind (try_build transcript (or_none vt)) (\<lambda>r.
         case r of
           Some recipe \<Rightarrow> tx_return (Some recipe, vt)
         | None \<Rightarrow> vision_batches cfg T try_build transcript vt bs))"

definition vision_incremental_build ::
  "settings \<Rightarrow> ('r, 'a, 'f) tools \<Rightarrow> 'f list \<Rightarrow> 'r builder \<Rightarrow> string option \<Rightarrow> string \<Rightarrow>
   ('r, 'r option \<times> string) step" where
  "vision_incremental_build cfg T frames try_build transcript video_text =
     (if frames = [] then tx_return (None, video_text)
      else tx_bind read_meter (\<lambda>m.
        let paths = take (nat (max 1 (affordable cfg (remaining_budget cfg m)))) frames;
            first_n = nat (max 1 (first_vision_pass_frames cfg));
            first = select_spread_frame_indexes (length paths) (min first_n (length paths));
            leftover = [i \<leftarrow> [0..<length paths]. i \<notin> set first]
        in vision_batches cfg T try_build transcript video_text
             (map ((!) paths) first # batches vision_batch (map ((!) paths) leftover))))"

subsection \<open>A carousel of slides\<close>

definition carousel_evidence :: "string \<Rightarrow> string \<Rightarrow> slide_info \<Rightarrow> string option \<Rightarrow> evidence" where
  "carousel_evidence url lang s slide_text =
     \<lparr>ev_platform = Tiktok, ev_source = url, ev_title = sl_title s, ev_description = sl_description s,
      ev_author = sl_author s, ev_thumbnail = Some (hd (sl_image_urls s)), ev_carousel = sl_image_urls s,
      ev_transcript = None, ev_slide_text = slide_text, ev_language = lang\<rparr>"

definition call_build :: "('r, 'a, 'f) tools \<Rightarrow> evidence \<Rightarrow> ('r, 'r option) step" where
  "call_build T ev = local (\<lambda>p. case build T ev (pi_meter p, pi_reasons p) of
     (r, (m, rs)) \<Rightarrow> (r, p\<lparr>pi_meter := m, pi_reasons := rs\<rparr>))"

definition last_reason :: "reasons \<Rightarrow> string" where
  "last_reason rs = (if rs = [] then recipe_incomplete else last rs)"

definition raise_last :: "('r, 'x) step" where
  "raise_last = tx_bind read_reasons (\<lambda>rs. tx_raise (ExtractError (last_reason rs)))"

definition slide_list :: "nat list \<Rightarrow> string" where
  "slide_list is = join '','' (map nat_str is)"

fun slide_loop ::
  "(nat \<Rightarrow> stamp) \<Rightarrow> ('r, 'a, 'f) tools \<Rightarrow> uuid \<Rightarrow> string \<Rightarrow> string \<Rightarrow> slide_info \<Rightarrow>
   nat \<Rightarrow> string list \<Rightarrow> string list \<Rightarrow> nat list \<Rightarrow> ('r, 'r) step" where
  "slide_loop st T i url lang s idx [] parts failures =
     (if failures \<noteq> [] \<and> parts = []
      then tx_raise (ExtractError (''Incomplete TikTok carousel: unreadable slides '' @ slide_list failures))
      else if failures \<noteq> [] then tx_raise (ExtractError incomplete_carousel)
      else raise_last)"
| "slide_loop st T i url lang s idx (img # images) parts failures =
     tx_bind (catch_extract
         (tx_bind (metered (ocr_slide T img idx)) (\<lambda>c. tx_return (Some c)))
         (\<lambda>_. tx_return None)) (\<lambda>chunk.
       case chunk of
         None \<Rightarrow> slide_loop st T i url lang s (idx + 1) images parts (failures @ [idx])
       | Some c \<Rightarrow>
           let parts' = (if strip c \<noteq> [] then parts @ [strip c] else parts);
               slide_text = (if parts' = [] then None else Some (join paragraph_break parts'))
           in tx_bind (tx_lift (reject_link_in_bio [Some (sl_title s), Some (sl_description s), slide_text])) (\<lambda>_.
              tx_bind (set_job (st idx) i [SetProgress (min (30 + int idx * 5) 80)]) (\<lambda>_.
              tx_bind (call_build T (carousel_evidence url lang s slide_text)) (\<lambda>r.
                case r of
                  Some recipe \<Rightarrow> tx_return recipe
                | None \<Rightarrow> slide_loop st T i url lang s (idx + 1) images parts' failures))))"

definition carousel_stage ::
  "(nat \<Rightarrow> stamp) \<Rightarrow> ('r, 'a, 'f) tools \<Rightarrow> uuid \<Rightarrow> string \<Rightarrow> string \<Rightarrow> slide_info \<Rightarrow> ('r, 'r) step" where
  "carousel_stage st T i url lang s =
     (if sl_incomplete s \<noteq> None \<and> sl_incomplete s \<noteq> Some [] then tx_raise (ExtractError incomplete_carousel)
      else tx_bind (tx_lift (reject_link_in_bio [Some (sl_title s), Some (sl_description s)])) (\<lambda>_.
        tx_bind (tx_lift (reject_clearly_non_recipe [Some (sl_title s), Some (sl_description s)])) (\<lambda>_.
        tx_bind
          (if has_text (Some (sl_title s)) \<or> has_text (Some (sl_description s))
           then call_build T (carousel_evidence url lang s None) else tx_return None) (\<lambda>r.
        tx_bind
          (case r of Some recipe \<Rightarrow> tx_return recipe
           | None \<Rightarrow> slide_loop st T i url lang s 1 (sl_image_urls s) [] []) (\<lambda>recipe.
        tx_bind (set_job (st 1000) i [SetProgress 60]) (\<lambda>_. tx_return recipe))))))"

subsection \<open>A video\<close>

definition has_any_text :: "string option list \<Rightarrow> bool" where
  "has_any_text parts = list_ex has_text parts"

text \<open>\<open>try_build\<close>: the model is asked only when there is some text.\<close>

definition try_build ::
  "('r, 'a, 'f) tools \<Rightarrow> platform \<Rightarrow> string \<Rightarrow> media \<Rightarrow> 'r builder" where
  "try_build T pf lang md transcript visual =
     (if \<not> has_any_text [transcript, Some (md_title md), Some (md_description md), visual]
      then tx_return None
      else call_build T
        \<lparr>ev_platform = pf, ev_source = md_webpage md, ev_title = md_title md, ev_description = md_description md,
         ev_author = md_author md, ev_thumbnail = md_thumbnail md, ev_carousel = [], ev_transcript = transcript,
         ev_slide_text = (case visual of None \<Rightarrow> None | Some v \<Rightarrow> or_none v), ev_language = lang\<rparr>)"

text \<open>Speech: a failed download or transcription leaves the import without it.\<close>

definition speech_stage ::
  "('r, 'a, 'f) tools \<Rightarrow> string \<Rightarrow> media \<Rightarrow> 'r builder \<Rightarrow> string option \<Rightarrow> string \<Rightarrow>
   ('r, string option \<times> 'r option) step" where
  "speech_stage T lang md tb transcript video_text =
     tx_bind (catch_extract (tx_bind (tx_lift (audio_of T md)) (\<lambda>a. tx_return (Some a))) (\<lambda>_. tx_return None)) (\<lambda>audio.
       case audio of
         None \<Rightarrow> tx_return (transcript, None)
       | Some a \<Rightarrow>
           tx_catch
             (tx_bind (metered (spoken T a (case md_duration md of None \<Rightarrow> None | Some q \<Rightarrow> if q = 0 then None else Some q) lang)) (\<lambda>words.
               let t = merge_evidence [transcript, Some words] in
               tx_catch
                 (tx_bind (tb t (Some video_text)) (\<lambda>r. tx_return (t, r)))
                 (\<lambda>_. tx_return (t, None))))
             (\<lambda>_. tx_return (transcript, None)))"

definition frame_limit :: "settings \<Rightarrow> meter \<Rightarrow> nat" where
  "frame_limit cfg m = nat (max 1 (min (affordable cfg (remaining_budget cfg m)) (max_vision_frames cfg)))"

definition visual_stage ::
  "settings \<Rightarrow> ('r, 'a, 'f) tools \<Rightarrow> media \<Rightarrow> 'r builder \<Rightarrow> string option \<Rightarrow> string \<Rightarrow>
   ('r, 'r option \<times> string) step" where
  "visual_stage cfg T md tb transcript video_text =
     tx_bind (tx_lift (reject_link_in_bio
         [Some (md_title md), Some (md_description md), transcript, Some video_text])) (\<lambda>_.
       tx_bind read_meter (\<lambda>m.
         catch_extract
           (tx_bind (tx_lift (frames_of T md (frame_limit cfg m))) (\<lambda>frames.
              vision_incremental_build cfg T frames tb transcript video_text))
           (\<lambda>_. tx_return (None, video_text))))"

definition finish_video ::
  "('r, 'a, 'f) tools \<Rightarrow> media \<Rightarrow> string option \<Rightarrow> string \<Rightarrow> 'r option \<Rightarrow> ('r, 'r) step" where
  "finish_video T md transcript video_text r =
     (case r of
        None \<Rightarrow>
          if (transcript = None \<or> transcript = Some []) \<and>
             \<not> has_any_text [Some (md_title md), Some (md_description md), Some video_text]
          then tx_raise (ExtractError recipe_undetermined)
          else raise_last
      | Some recipe \<Rightarrow>
          tx_return (case cover_of T md of
              None \<Rightarrow> recipe
            | Some url \<Rightarrow> if url = [] then recipe else with_thumbnail T url recipe))"

text \<open>The stages after the free gates: text, then speech, then frames, each only while there is no recipe.\<close>

definition escalate ::
  "settings \<Rightarrow> (nat \<Rightarrow> stamp) \<Rightarrow> ('r, 'a, 'f) tools \<Rightarrow> uuid \<Rightarrow> string \<Rightarrow> media \<Rightarrow> 'r builder \<Rightarrow>
   string option \<Rightarrow> string \<Rightarrow> ('r, 'r) step" where
  "escalate cfg st T i lang md tb transcript video_text =
     tx_bind (tb transcript (Some video_text)) (\<lambda>r1.
     tx_bind (set_job (st 4) i [SetProgress 45]) (\<lambda>_.
     tx_bind read_reasons (\<lambda>rs.
     if r1 = None \<and> rs \<noteq> [] \<and> last rs = recipe_undetermined then tx_raise (ExtractError recipe_undetermined)
     else
     tx_bind (case r1 of Some _ \<Rightarrow> tx_return (transcript, r1)
              | None \<Rightarrow> speech_stage T lang md tb transcript video_text) (\<lambda>tr.
     tx_bind (set_job (st 5) i [SetProgress 60]) (\<lambda>_.
     tx_bind (case snd tr of Some _ \<Rightarrow> tx_return (snd tr, video_text)
              | None \<Rightarrow> visual_stage cfg T md tb (fst tr) video_text) (\<lambda>rv.
     finish_video T md (fst tr) (snd rv) (fst rv)))))))"

definition video_stage ::
  "settings \<Rightarrow> (nat \<Rightarrow> stamp) \<Rightarrow> ('r, 'a, 'f) tools \<Rightarrow> uuid \<Rightarrow> platform \<Rightarrow> string \<Rightarrow> string \<Rightarrow> ('r, 'r) step" where
  "video_stage cfg st T i pf url lang =
     tx_bind (tx_lift (media_of T url)) (\<lambda>md.
     tx_bind (set_job (st 3) i [SetProgress 30]) (\<lambda>_.
     tx_bind (tx_lift (reject_link_in_bio [Some (md_title md), Some (md_description md), md_extra md])) (\<lambda>_.
     tx_bind
       (if (md_subtitles md = None \<or> md_subtitles md = Some []) \<and> pf = Youtube
        then tx_lift (captions_of T url) else tx_return (md_subtitles md)) (\<lambda>transcript.
     tx_bind (tx_lift (reject_link_in_bio [Some (md_title md), Some (md_description md), transcript])) (\<lambda>_.
     tx_bind (tx_lift (reject_clearly_non_recipe [Some (md_title md), Some (md_description md), md_extra md])) (\<lambda>_.
     escalate cfg st T i lang md (try_build T pf lang md) transcript
       (case md_extra md of None \<Rightarrow> [] | Some t \<Rightarrow> t)))))))"

definition extract_stage ::
  "settings \<Rightarrow> (nat \<Rightarrow> stamp) \<Rightarrow> ('r, 'a, 'f) tools \<Rightarrow> uuid \<Rightarrow> string \<Rightarrow> string \<Rightarrow> ('r, 'r) step" where
  "extract_stage cfg st T i url lang =
     tx_bind (set_job (st 0) i [SetStatus Processing, SetProgress 5]) (\<lambda>_.
     tx_bind (set_job (st 1) i [SetProgress 15]) (\<lambda>_.
     if detect_platform url = UnknownPlatform then tx_raise (ExtractError unsupported_url)
     else tx_bind
       (if detect_platform url = Tiktok then
          tx_bind (tx_lift (slides_of T url)) (\<lambda>s.
          tx_bind (set_job (st 2) i [SetProgress 30]) (\<lambda>_.
          if s \<noteq> None then tx_return s
          else tx_bind (tx_lift (urlparse url)) (\<lambda>u.
            if contains (lower (u_path u)) ''/photo/'' then tx_raise (ExtractError incomplete_carousel)
            else tx_return None)))
        else tx_return None) (\<lambda>s.
     if s \<noteq> None \<and> sl_image_urls (the s) \<noteq> [] then carousel_stage st T i url lang (the s)
     else video_stage cfg st T i (detect_platform url) url lang)))"

subsection \<open>One job\<close>

text \<open>
  \<open>upsert_recipe\<close>: one recipe per normalised source. The row is read first; a row inserted in between
  wins. The result is the identifier of the row.
\<close>

definition recipe_by_norm :: "string \<Rightarrow> ('r, 'r recipe_row option) step" where
  "recipe_by_norm url_norm = atomically (\<lambda>p. (Inr (find (\<lambda>x. rr_norm x = url_norm) (pi_recipes p)), p))"

definition insert_recipe :: "'r recipe_row \<Rightarrow> 'r pipe \<Rightarrow> uuid res \<times> 'r pipe" where
  "insert_recipe row p =
     (if list_ex (\<lambda>x. rr_norm x = rr_norm row \<or> rr_id x = rr_id row) (pi_recipes p) then (Inl UniqueViolation, p)
      else (Inr (rr_id row), p\<lparr>pi_recipes := pi_recipes p @ [row]\<rparr>))"

definition update_recipe :: "'r recipe_row \<Rightarrow> 'r pipe \<Rightarrow> uuid res \<times> 'r pipe" where
  "update_recipe row p =
     (Inr (rr_id row), p\<lparr>pi_recipes := map (\<lambda>x. if rr_id x = rr_id row then row else x) (pi_recipes p)\<rparr>)"

definition upsert_recipe :: "uuid \<Rightarrow> string \<Rightarrow> string \<Rightarrow> 'r \<Rightarrow> ('r, uuid) step" where
  "upsert_recipe new_id url_norm lang recipe =
     tx_bind (recipe_by_norm url_norm) (\<lambda>existing.
       let row = (\<lambda>i. \<lparr>rr_id = i, rr_norm = url_norm, rr_lang = lang, rr_recipe = recipe\<rparr>) in
       case existing of
         Some x \<Rightarrow> atomically (update_recipe (row (rr_id x)))
       | None \<Rightarrow>
           tx_catch (atomically (insert_recipe (row new_id)))
             (\<lambda>e. if e = UniqueViolation
                  then tx_bind (recipe_by_norm url_norm) (\<lambda>winner.
                    case winner of Some x \<Rightarrow> tx_return (rr_id x) | None \<Rightarrow> tx_raise e)
                  else tx_raise e))"

text \<open>Nothing is saved for a closed account.\<close>

definition save_user_recipe :: "uuid \<Rightarrow> uuid \<Rightarrow> 'r pipe \<Rightarrow> unit res \<times> 'r pipe" where
  "save_user_recipe u r p =
     (Inr (), if u \<in> set (closed_profiles (pi_db p)) \<or> (u, r) \<in> set (pi_saved p) then p
              else p\<lparr>pi_saved := pi_saved p @ [(u, r)]\<rparr>)"

definition log_usage :: "instant \<Rightarrow> uuid \<Rightarrow> rat \<Rightarrow> uuid option \<Rightarrow> uuid \<Rightarrow> ('r, unit) step" where
  "log_usage now u cost recipe i =
     tx_catch (atomically (\<lambda>p. (Inr (), p\<lparr>pi_usage := record_usage now u miss_kind cost recipe (Some i) (pi_usage p)\<rparr>)))
       (\<lambda>_. tx_return ())"

definition settle_job :: "uuid \<Rightarrow> rat \<Rightarrow> string \<Rightarrow> ('r, unit) step" where
  "settle_job i cost status =
     tx_catch (on_db (\<lambda>d. (Inr (), d\<lparr>spend := settle_api_spend i (max cost 0) status (spend d)\<rparr>)))
       (\<lambda>_. tx_return ())"

definition mark_job_failed :: "stamp \<Rightarrow> uuid \<Rightarrow> string \<Rightarrow> rat \<Rightarrow> ('r, unit) step" where
  "mark_job_failed st i err cost =
     tx_catch
       (tx_bind (set_job st i [SetStatus Failed, SetProgress 0, SetLease None,
            SetError (Some (take 1000 (canonicalize_job_error err))), SetCost cost]) (\<lambda>_. tx_return ()))
       (\<lambda>_. tx_return ())"

definition error_text :: "exn \<Rightarrow> string" where
  "error_text e = (case e of ExtractError m \<Rightarrow> safe_job_error m | _ \<Rightarrow> extraction_retryable)"

definition fail_job :: "(nat \<Rightarrow> stamp) \<Rightarrow> uuid \<Rightarrow> uuid \<Rightarrow> exn \<Rightarrow> ('r, unit) step" where
  "fail_job st i u e =
     tx_bind read_meter (\<lambda>m.
       let cost = (if openai_called m then round4 (cents m) else 0) in
       tx_bind (mark_job_failed (st 2000) i (error_text e) cost) (\<lambda>_.
       tx_bind (if openai_called m \<and> 0 < cost then log_usage (st_now (st 2001)) u cost None i else tx_return ()) (\<lambda>_.
       settle_job i cost ''failed'')))"

definition complete_job ::
  "(nat \<Rightarrow> stamp) \<Rightarrow> uuid \<Rightarrow> uuid \<Rightarrow> string \<Rightarrow> string \<Rightarrow> 'r \<Rightarrow> ('r, unit) step" where
  "complete_job st i u url_norm lang recipe =
     tx_bind (set_job (st 1001) i [SetProgress 85]) (\<lambda>_.
     tx_bind read_meter (\<lambda>m.
     let cost = round4 (cents m) in
     tx_bind (upsert_recipe (st_id (st 1002) ''recipe'') url_norm lang recipe) (\<lambda>r.
     tx_bind (atomically (save_user_recipe u r)) (\<lambda>_.
     tx_bind (set_job (st 1003) i [SetStatus Completed, SetProgress 100, SetLease None, SetRecipe (Some r),
                SetCost cost, SetHit False]) (\<lambda>_.
     tx_bind (log_usage (st_now (st 1004)) u cost (Some r) i) (\<lambda>_.
     settle_job i cost ''settled''))))))"

definition release_slot :: "uuid \<Rightarrow> ('r, unit) step" where
  "release_slot u = local (\<lambda>p. (Inr (), p\<lparr>pi_guard := release u (pi_guard p)\<rparr>))"

definition reset_meter :: "('r, unit) step" where
  "reset_meter = local (\<lambda>p. (Inr (), p\<lparr>pi_meter := new_meter, pi_reasons := []\<rparr>))"

definition work_job ::
  "settings \<Rightarrow> (nat \<Rightarrow> stamp) \<Rightarrow> ('r, 'a, 'f) tools \<Rightarrow> uuid \<Rightarrow> uuid \<Rightarrow> string \<Rightarrow> string \<Rightarrow> string \<Rightarrow> ('r, unit) step" where
  "work_job cfg st T i u url url_norm lang =
     tx_catch
       (tx_bind (extract_stage cfg st T i url lang) (complete_job st i u url_norm lang))
       (fail_job st i u)"

text \<open>The body of \<open>_run_extract_job\<close> up to the release of the slot.\<close>

definition import_job ::
  "settings \<Rightarrow> (nat \<Rightarrow> stamp) \<Rightarrow> ('r, 'a, 'f) tools \<Rightarrow> uuid \<Rightarrow> uuid \<Rightarrow> string \<Rightarrow> string \<Rightarrow> string \<Rightarrow> ('r, unit) step" where
  "import_job cfg st T i u url url_norm language =
     tx_bind reset_meter (\<lambda>_.
       finally_do (work_job cfg st T i u url url_norm (normalize_language (Some language))) (release_slot u))"

subsection \<open>The queue of the web process\<close>

text \<open>
  \<open>_drain_next_extract_for_user\<close>: with the slot free again, the oldest waiting import of the user,
  else the oldest of anybody, is run in the same call. \<open>run\<close> is \<open>_run_claimed_pending\<close>.
\<close>

definition claim_slot :: "settings \<Rightarrow> uuid \<Rightarrow> ('r, bool) step" where
  "claim_slot cfg u = local (\<lambda>p. case try_claim cfg u (pi_guard p) of (b, g) \<Rightarrow> (Inr b, p\<lparr>pi_guard := g\<rparr>))"

definition drain_own :: "settings \<Rightarrow> stamp \<Rightarrow> (job \<Rightarrow> uuid \<Rightarrow> ('r, unit) step) \<Rightarrow> uuid \<Rightarrow> ('r, bool) step" where
  "drain_own cfg st run u =
     tx_bind (claim_slot cfg u) (\<lambda>ok.
       if \<not> ok then tx_return False
       else tx_bind (on_db (next_pending service st (Some u))) (\<lambda>row.
         case row of
           Some j \<Rightarrow> tx_bind (run j u) (\<lambda>_. tx_return True)
         | None \<Rightarrow> tx_bind (release_slot u) (\<lambda>_. tx_return False)))"

definition drain_any :: "settings \<Rightarrow> stamp \<Rightarrow> (job \<Rightarrow> uuid \<Rightarrow> ('r, unit) step) \<Rightarrow> ('r, unit) step" where
  "drain_any cfg st run =
     tx_bind (on_db (next_pending service st None)) (\<lambda>row.
       case row of
         None \<Rightarrow> tx_return ()
       | Some j \<Rightarrow>
           (case jowner j of
              None \<Rightarrow> tx_raise (ValueError ''badly formed hexadecimal UUID string'')
            | Some owner \<Rightarrow>
                tx_bind (claim_slot cfg owner) (\<lambda>ok.
                  if ok then run j owner
                  else tx_bind (set_job st (jid j) [SetStatus Pending, SetProgress 0]) (\<lambda>_. tx_return ()))))"

definition drain :: "settings \<Rightarrow> stamp \<Rightarrow> (job \<Rightarrow> uuid \<Rightarrow> ('r, unit) step) \<Rightarrow> uuid \<Rightarrow> ('r, unit) step" where
  "drain cfg st run u =
     (if maintenance_mode cfg \<or> worker_enabled cfg then tx_return ()
      else tx_bind (drain_own cfg st run u) (\<lambda>served.
        if served then tx_return () else drain_any cfg st run))"

text \<open>
  \<open>_run_extract_job\<close>: the calls nest, one level for each import found waiting; the first argument is
  what is left of the interpreter's stack.
\<close>

fun run_extract_job ::
  "nat \<Rightarrow> settings \<Rightarrow> (nat \<Rightarrow> nat \<Rightarrow> stamp) \<Rightarrow> (nat \<Rightarrow> ('r, 'a, 'f) tools) \<Rightarrow>
   uuid \<Rightarrow> uuid \<Rightarrow> string \<Rightarrow> string \<Rightarrow> string \<Rightarrow> ('r, unit) step" where
  "run_extract_job 0 cfg st T i u url url_norm language =
     tx_raise (RuntimeError ''maximum recursion depth exceeded'')"
| "run_extract_job (Suc n) cfg st T i u url url_norm language =
     (if maintenance_mode cfg then release_slot u
      else tx_bind (import_job cfg (st n) (T n) i u url url_norm language) (\<lambda>_.
        drain cfg (st n 3000)
          (\<lambda>j owner. tx_catch (run_extract_job n cfg st T (jid j) owner (jraw j) (jnorm j) (jlang j)) (\<lambda>_. tx_return ()))
          u))"

end
