(* ===== verification/Pipeline_Runs.thy ===== *)
theory Pipeline_Runs
  imports Pipeline
begin

section \<open>What an import leaves behind\<close>

text \<open>
  Facts on \<open>Pipeline\<close>. The stages of an import touch its job row (state and progress) and the cost
  meter, nothing else: the locale \<open>stages\<close> proves for any relation that allows this that every stage
  keeps it, whatever the external tools answer and whatever the other transactions do. Two
  relations interpret it: \<open>same_guard\<close> (the slots of the process) and \<open>tracked\<close> (the row of the
  import stays active, all else is as before). They give the release of the slot and the final state
  of the job.
\<close>

fun running_col :: "job_col \<Rightarrow> bool" where
  "running_col (SetStatus s) = (s = Processing)"
| "running_col (SetProgress n) = (0 \<le> n \<and> n \<le> 100)"
| "running_col _ = False"

locale stages = guarantee R for R :: "'r pipe \<Rightarrow> 'r pipe \<Rightarrow> bool" +
  fixes i :: uuid
  assumes meter_kept: "R p (p\<lparr>pi_meter := m, pi_reasons := rs\<rparr>)"
    and progress_kept: "list_all running_col cols \<Longrightarrow>
      R p (p\<lparr>pi_db := snd (update_row service st (list_ex is_status cols) (fold set_col cols) i (pi_db p))\<rparr>)"
begin

lemma only_meter: "R p (p\<lparr>pi_meter := m\<rparr>)"
  using meter_kept [where p = p and m = m and rs = "pi_reasons p"] by simp

lemma keeps_metered: "keeps R (metered f)"
  unfolding metered_def by (rule keeps_local) (simp add: only_meter split: prod.split)

lemma keeps_read_meter: "keeps R read_meter"
  unfolding read_meter_def by (rule keeps_local) (simp add: R_refl)

lemma keeps_read_reasons: "keeps R read_reasons"
  unfolding read_reasons_def by (rule keeps_local) (simp add: R_refl)

lemma keeps_call_build: "keeps R (call_build T ev)"
  unfolding call_build_def by (rule keeps_local) (simp add: meter_kept split: prod.split)

lemma keeps_set_job: "list_all running_col cols \<Longrightarrow> keeps R (set_job st i cols)"
  unfolding set_job_def on_db_def
  by (rule keeps_atomically) (simp add: progress_kept case_prod_unfold)

lemma keeps_catch_extract: "keeps R m \<Longrightarrow> (\<And>e. keeps R (h e)) \<Longrightarrow> keeps R (catch_extract m h)"
  unfolding catch_extract_def by (intro keeps_rules)

lemma keeps_raise_last: "keeps R raise_last"
  unfolding raise_last_def by (intro keeps_rules keeps_read_reasons)

lemmas stage_rules = keeps_metered keeps_read_meter keeps_read_reasons keeps_call_build keeps_set_job
  keeps_catch_extract keeps_raise_last keeps_rules

lemma keeps_try_build: "keeps R (try_build T pf lang md t v)"
  unfolding try_build_def by (intro stage_rules)

lemma keeps_run_batch: "keeps R (run_batch cfg T b vt)"
  unfolding run_batch_def by (intro stage_rules)

lemma keeps_vision_batches:
  assumes "\<And>t v. keeps R (tb t v)"
  shows "keeps R (vision_batches cfg T tb t vt bs)"
proof (induction bs arbitrary: vt)
  case Nil
  show ?case unfolding vision_batches.simps by (rule keeps_return)
next
  case (Cons b bs)
  show ?case unfolding vision_batches.simps
    by (intro stage_rules keeps_run_batch assms Cons.IH)
qed

lemma keeps_vision:
  assumes "\<And>t v. keeps R (tb t v)"
  shows "keeps R (vision_incremental_build cfg T fs tb t vt)"
  unfolding vision_incremental_build_def by (intro stage_rules keeps_vision_batches assms)

lemma keeps_slide_loop: "keeps R (slide_loop st T i url lang s idx imgs parts failures)"
proof (induction imgs arbitrary: idx parts failures)
  case Nil
  show ?case unfolding slide_loop.simps by (intro stage_rules)
next
  case (Cons img imgs)
  show ?case unfolding slide_loop.simps
    by (intro stage_rules Cons.IH) simp
qed

lemma keeps_carousel: "keeps R (carousel_stage st T i url lang s)"
  unfolding carousel_stage_def by (intro stage_rules keeps_slide_loop) simp

lemma keeps_speech:
  assumes "\<And>t v. keeps R (tb t v)"
  shows "keeps R (speech_stage T lang md tb t vt)"
  unfolding speech_stage_def by (intro stage_rules assms)

lemma keeps_visual:
  assumes "\<And>t v. keeps R (tb t v)"
  shows "keeps R (visual_stage cfg T md tb t vt)"
  unfolding visual_stage_def by (intro stage_rules keeps_vision assms)

lemma keeps_finish: "keeps R (finish_video T md t vt r)"
  unfolding finish_video_def by (intro stage_rules)

lemma keeps_escalate:
  assumes "\<And>t v. keeps R (tb t v)"
  shows "keeps R (escalate cfg st T i lang md tb t vt)"
  unfolding escalate_def
  by (intro stage_rules keeps_speech keeps_visual keeps_finish assms) simp_all

lemma keeps_video: "keeps R (video_stage cfg st T i pf url lang)"
  unfolding video_stage_def
  by (intro stage_rules keeps_escalate keeps_try_build) simp

lemma keeps_extract: "keeps R (extract_stage cfg st T i url lang)"
  unfolding extract_stage_def
  by (intro stage_rules keeps_carousel keeps_video) simp_all

end

subsection \<open>The slot\<close>

definition same_guard :: "'r pipe \<Rightarrow> 'r pipe \<Rightarrow> bool" where
  "same_guard p p' \<longleftrightarrow> pi_guard p' = pi_guard p"

interpretation sg: stages same_guard i for i
  by unfold_locales (simp_all add: same_guard_def)

lemma keeps_guard_on_db: "keeps same_guard (on_db f)"
  unfolding on_db_def by (rule sg.keeps_atomically) (simp add: same_guard_def split: prod.split)

lemma keeps_guard_atomically: "(\<And>p. pi_guard (snd (f p)) = pi_guard p) \<Longrightarrow> keeps same_guard (atomically f)"
  by (rule sg.keeps_atomically) (simp add: same_guard_def)

lemma keeps_guard_upsert: "keeps same_guard (upsert_recipe n un lang r)"
  unfolding upsert_recipe_def recipe_by_norm_def
  by (intro sg.stage_rules keeps_guard_atomically) (simp_all add: insert_recipe_def update_recipe_def)

lemma keeps_guard_log: "keeps same_guard (log_usage now u c r i)"
  unfolding log_usage_def by (intro sg.stage_rules keeps_guard_atomically) simp

lemma keeps_guard_settle: "keeps same_guard (settle_job i c s)"
  unfolding settle_job_def by (intro sg.stage_rules keeps_guard_on_db)

lemma keeps_guard_set_job: "keeps same_guard (set_job st i cols)"
  unfolding set_job_def by (rule keeps_guard_on_db)

lemma keeps_guard_fail: "keeps same_guard (fail_job st i u e)"
  unfolding fail_job_def mark_job_failed_def
  by (intro sg.keeps_read_meter sg.keeps_rules keeps_guard_set_job keeps_guard_log keeps_guard_settle)

lemma keeps_guard_complete: "keeps same_guard (complete_job st i u un lang r)"
  unfolding complete_job_def
  by (intro sg.keeps_read_meter sg.keeps_rules keeps_guard_set_job keeps_guard_log keeps_guard_settle
      keeps_guard_upsert keeps_guard_atomically) (simp add: save_user_recipe_def)

lemma keeps_guard_work: "keeps same_guard (work_job cfg st T i u url un lang)"
  unfolding work_job_def
  by (intro sg.keeps_rules sg.keeps_extract keeps_guard_complete keeps_guard_fail)

text \<open>The accounting after a failure cannot fail, so an import never raises.\<close>

definition never_raises :: "('db, 'x) tx \<Rightarrow> bool" where
  "never_raises m \<longleftrightarrow> (\<forall>w. \<exists>x w'. m w = (Inr x, w'))"

lemma never_raises_rules:
  "never_raises (tx_return x)"
  "never_raises m \<Longrightarrow> (\<And>x. never_raises (f x)) \<Longrightarrow> never_raises (tx_bind m f)"
  "(\<And>e. never_raises (h e)) \<Longrightarrow> never_raises (tx_catch m h)"
  "never_raises read_meter"
  "(b \<Longrightarrow> never_raises m) \<Longrightarrow> (\<not> b \<Longrightarrow> never_raises m') \<Longrightarrow> never_raises (if b then m else m')"
  "(\<And>y. y = t \<Longrightarrow> never_raises (g y)) \<Longrightarrow> never_raises (let y = t in g y)"
proof -
  show "never_raises m \<Longrightarrow> (\<And>x. never_raises (f x)) \<Longrightarrow> never_raises (tx_bind m f)"
    unfolding never_raises_def tx_bind_def by (metis (no_types, lifting) case_prod_conv sum.simps(6))
  show "(\<And>e. never_raises (h e)) \<Longrightarrow> never_raises (tx_catch m h)"
    unfolding never_raises_def tx_catch_def by (auto split: prod.split sum.split)
qed (auto simp: never_raises_def read_meter_def local_def)

lemma work_never_raises: "never_raises (work_job cfg st T i u url un lang)"
  unfolding work_job_def fail_job_def mark_job_failed_def log_usage_def settle_job_def
  by (intro never_raises_rules)

subsection \<open>The row of the import\<close>

fun col_ok :: "job_col \<Rightarrow> bool" where
  "col_ok (SetProgress n) = (0 \<le> n \<and> n \<le> 100)"
| "col_ok _ = True"

lemma running_cols_ok: "list_all running_col cols \<Longrightarrow> list_all col_ok cols"
  by (induction cols) (auto elim: running_col.elims)

lemma cols_checked: "list_all col_ok cols \<Longrightarrow> job_checks j \<Longrightarrow> job_checks (fold set_col cols j)"
proof (induction cols arbitrary: j)
  case (Cons c cols)
  then have "job_checks (set_col c j)" by (cases c) (auto simp: job_checks_def)
  with Cons show ?case by simp
qed simp

lemma running_cols_active: "list_all running_col cols \<Longrightarrow> active j \<Longrightarrow> active (fold set_col cols j)"
proof (induction cols arbitrary: j)
  case (Cons c cols)
  then have "active (set_col c j)" by (cases c) (auto simp: active_def)
  with Cons show ?case by simp
qed simp

lemma same_conflicts:
  "jkind j = Extract \<Longrightarrow> active j \<Longrightarrow> same_job j j' \<Longrightarrow> conflicting j' k \<Longrightarrow> conflicting j k"
  unfolding conflicting_def same_job_def by (elim conjE disjE) simp_all

lemma others_replace: "jid new = i \<Longrightarrow> [k \<leftarrow> replace_job new js. jid k \<noteq> i] = [k \<leftarrow> js. jid k \<noteq> i]"
  by (induction js) (auto simp: replace_job_def)

definition the_row :: "uuid \<Rightarrow> job_db \<Rightarrow> job \<Rightarrow> bool" where
  "the_row i d j \<longleftrightarrow> db_ok d \<and> j \<in> set (jobs d) \<and> jid j = i \<and> jkind j = Extract \<and> active j"

text \<open>The database accepts every write of an import on its own active row.\<close>

lemma write_row:
  assumes j: "the_row i d j" and c: "list_all col_ok cols"
    and new: "new = (fold set_col cols j)\<lparr>jupdated := st_now st\<rparr>"
  shows "update_row service st b (fold set_col cols) i d =
     (Inr (Some new), (if b then enqueue_pushes st (Some j) new else (\<lambda>x. x)) (d\<lparr>jobs := replace_job new (jobs d)\<rparr>))"
proof -
  have ok: "jobs_ok (jobs d)" and mem: "j \<in> set (jobs d)" "jid j = i" using j by (simp_all add: the_row_def db_ok_def)
  have by_id: "job_by_id i d = Some j"
    using job_by_id_unique [of d j] ok mem by (simp add: jobs_ok_def)
  have same: "same_job j new" using new by (simp add: same_job_def)
  have "job_checks j" using ok mem by (simp add: jobs_ok_def list_all_iff)
  then have ch: "job_checks new" using cols_checked [OF c] new by (simp add: job_checks_def)
  have "\<not> conflicting new k" if "k \<in> set (jobs d)" "jid k \<noteq> i" for k
    using same_conflicts [OF _ _ same, of k] j ok that mem unfolding the_row_def jobs_ok_def no_conflicts_def by metis
  then have nc: "\<not> list_ex (\<lambda>k. jid k \<noteq> i \<and> conflicting new k) (jobs d)" by (auto simp: list_ex_iff)
  have v: "Job_Db.visible service d x" for x by (simp add: Job_Db.visible_def service_def)
  show ?thesis
    using by_id ch nc v unfolding update_row_def Let_def new by simp
qed

lemma enqueue_open [simp]: "jstatus new \<noteq> Completed \<Longrightarrow> enqueue_pushes st old new d = d"
  by (simp add: enqueue_pushes_def completion_fires_def)

lemma write_db_ok: "db_ok d \<Longrightarrow> db_ok (snd (update_row s st b (fold set_col cols) i d))"
  using update_row_ok [of d "fold set_col cols" s st b i] by (simp add: db_ok_def)

definition others :: "uuid \<Rightarrow> job_db \<Rightarrow> job list" where
  "others i d = [k \<leftarrow> jobs d. jid k \<noteq> i]"

definition running :: "uuid \<Rightarrow> 'r pipe \<Rightarrow> bool" where
  "running i p \<longleftrightarrow> (\<exists>j. the_row i (pi_db p) j)"

text \<open>The stages before the end: the row stays active, the rest of the tables is untouched.\<close>

definition only_jobs :: "job_db \<Rightarrow> job_db \<Rightarrow> bool" where
  "only_jobs d d' \<longleftrightarrow> d' = d\<lparr>jobs := jobs d'\<rparr>"

lemma only_jobs_refl [simp]: "only_jobs d d" "only_jobs d (d\<lparr>jobs := js\<rparr>)"
  by (simp_all add: only_jobs_def)

lemma only_jobs_trans: "only_jobs a b \<Longrightarrow> only_jobs b c \<Longrightarrow> only_jobs a c"
  unfolding only_jobs_def by (metis job_db.update_convs(1) job_db.surjective)

lemma only_jobsD:
  assumes "only_jobs d d'"
  shows "spend d' = spend d" "closed_profiles d' = closed_profiles d" "deliveries d' = deliveries d"
    "devices d' = devices d" "shared_access d' = shared_access d"
  by (subst assms [unfolded only_jobs_def], simp)+

definition tracked :: "uuid \<Rightarrow> 'r pipe \<Rightarrow> 'r pipe \<Rightarrow> bool" where
  "tracked i p p' \<longleftrightarrow> (running i p \<longrightarrow> running i p' \<and> others i (pi_db p') = others i (pi_db p) \<and>
     only_jobs (pi_db p) (pi_db p') \<and> pi_recipes p' = pi_recipes p \<and> pi_saved p' = pi_saved p \<and>
     pi_usage p' = pi_usage p \<and> pi_guard p' = pi_guard p)"

lemma write_running:
  assumes c: "list_all running_col cols" and j: "the_row i d j"
  shows "\<exists>new. the_row i (snd (update_row service st b (fold set_col cols) i d)) new \<and> jid new = i \<and>
      fst (update_row service st b (fold set_col cols) i d) = Inr (Some new) \<and>
      snd (update_row service st b (fold set_col cols) i d) = d\<lparr>jobs := replace_job new (jobs d)\<rparr>"
proof -
  define new where "new = (fold set_col cols j)\<lparr>jupdated := st_now st\<rparr>"
  have a: "active new" using running_cols_active [OF c, of j] j by (simp add: the_row_def active_def new_def)
  then have "jstatus new \<noteq> Completed" by (auto simp: active_def)
  then have e: "update_row service st b (fold set_col cols) i d = (Inr (Some new), d\<lparr>jobs := replace_job new (jobs d)\<rparr>)"
    using write_row [OF j running_cols_ok [OF c] new_def, of b] by simp
  have n: "jid new = i" "jid new = jid j" using j by (simp_all add: new_def the_row_def)
  then have "new \<in> set (replace_job new (jobs d))" using j by (force simp: the_row_def replace_job_def)
  moreover have "db_ok (d\<lparr>jobs := replace_job new (jobs d)\<rparr>)"
    using write_db_ok [of d service st b cols i] e j by (simp add: the_row_def)
  moreover have "jkind new = Extract" using j by (simp add: new_def the_row_def)
  ultimately show ?thesis using e a n by (auto simp: the_row_def)
qed

lemma tracked_write:
  assumes c: "list_all running_col cols"
  shows "tracked i p (p\<lparr>pi_db := snd (update_row service st b (fold set_col cols) i (pi_db p))\<rparr>)"
proof (cases "running i p")
  case True
  then obtain j where "the_row i (pi_db p) j" by (auto simp: running_def)
  from write_running [OF c this, of st b] True show ?thesis
    by (auto simp: tracked_def running_def others_def others_replace)
qed (simp add: tracked_def)

lemma tracked_trans: "tracked i a b \<Longrightarrow> tracked i b c \<Longrightarrow> tracked i a c"
  unfolding tracked_def using only_jobs_trans [of "pi_db a" "pi_db b" "pi_db c"] by simp

interpretation tr: stages "tracked i" i for i
proof unfold_locales
  show "tracked i p p" for p :: "'r pipe" by (simp add: tracked_def)
  show "tracked i p (p\<lparr>pi_meter := m, pi_reasons := rs\<rparr>)" for p :: "'r pipe" and m rs
    by (simp add: tracked_def running_def)
qed (rule tracked_trans tracked_write; assumption)+

subsection \<open>The end of an import that runs alone\<close>

lemma on_db_alone [simp]: "on_db f (alone p) = (fst (f (pi_db p)), alone (p\<lparr>pi_db := snd (f (pi_db p))\<rparr>))"
  by (simp add: on_db_def case_prod_unfold)

lemma local_alone [simp]: "local f (alone p) = (fst (f p), alone (snd (f p)))"
  by (simp add: local_def case_prod_unfold)

lemma set_job_alone:
  assumes "the_row i (pi_db p) j" "list_all col_ok cols" "new = (fold set_col cols j)\<lparr>jupdated := st_now st\<rparr>"
  shows "set_job st i cols (alone p) = (Inr (Some new),
     alone (p\<lparr>pi_db := (if list_ex is_status cols then enqueue_pushes st (Some j) new else (\<lambda>x. x))
       ((pi_db p)\<lparr>jobs := replace_job new (jobs (pi_db p))\<rparr>)\<rparr>))"
  unfolding set_job_def on_db_alone using write_row [OF assms] by simp

definition charge_event :: "instant \<Rightarrow> uuid \<Rightarrow> rat \<Rightarrow> uuid option \<Rightarrow> uuid \<Rightarrow> usage_event" where
  "charge_event now u c r i = \<lparr>us_user = u, us_kind = miss_kind, us_cost = c, us_recipe = r, us_job = Some i, us_created = now\<rparr>"

lemma log_usage_alone: "log_usage now u c r i (alone p) = (Inr (), alone (p\<lparr>pi_usage := pi_usage p @ [charge_event now u c r i]\<rparr>))"
  by (simp add: log_usage_def tx_catch_def record_usage_def charge_event_def)

lemma settle_alone:
  "settle_job i c s (alone p) =
     (Inr (), alone (p\<lparr>pi_db := (pi_db p)\<lparr>spend := settle_api_spend i (max c 0) s (spend (pi_db p))\<rparr>\<rparr>))"
  by (simp add: settle_job_def tx_catch_def)

definition books_closed :: "uuid \<Rightarrow> job_db \<Rightarrow> bool" where
  "books_closed i d \<longleftrightarrow> (\<forall>r \<in> set (ledger (spend d)). lg_job r = i \<longrightarrow> lg_status r \<noteq> SpendReserved)"

lemma settled_books: "books_closed i (d\<lparr>spend := settle_api_spend i c s (spend d)\<rparr>)"
proof -
  have "lg_status (settle_row i c s r) \<noteq> SpendReserved" if "lg_job (settle_row i c s r) = i" for r
    using that by (cases "lg_job r = i \<and> lg_status r = SpendReserved") (simp_all add: settle_row_def)
  then show ?thesis by (simp add: books_closed_def settle_api_spend_def)
qed

text \<open>How an import ends: the fields of its row, its recipe and its charges.\<close>

definition ended_well :: "uuid \<Rightarrow> string \<Rightarrow> 'r pipe \<Rightarrow> 'r pipe \<Rightarrow> job \<Rightarrow> bool" where
  "ended_well u un p p' j \<longleftrightarrow> jstatus j = Completed \<and> jprogress j = 100 \<and> \<not> jhit j \<and>
     (\<exists>r now. jrecipe j = Some r \<and> list_ex (\<lambda>x. rr_id x = r \<and> rr_norm x = un) (pi_recipes p') \<and>
       (u \<in> set (closed_profiles (pi_db p')) \<or> (u, r) \<in> set (pi_saved p')) \<and>
       pi_usage p' = pi_usage p @ [charge_event now u (jcost j) (Some r) (jid j)])"

definition ended_badly :: "uuid \<Rightarrow> 'r pipe \<Rightarrow> 'r pipe \<Rightarrow> job \<Rightarrow> bool" where
  "ended_badly u p p' j \<longleftrightarrow> jstatus j = Failed \<and> jprogress j = 0 \<and>
     (\<exists>m. jerror j = Some m \<and> m \<in> fst ` set messages) \<and>
     pi_recipes p' = pi_recipes p \<and> pi_saved p' = pi_saved p \<and>
     (\<exists>now. pi_usage p' = pi_usage p @ (if 0 < jcost j then [charge_event now u (jcost j) None (jid j)] else []))"

definition ended :: "uuid \<Rightarrow> uuid \<Rightarrow> string \<Rightarrow> 'r pipe \<Rightarrow> 'r pipe \<Rightarrow> bool" where
  "ended i u un p p' \<longleftrightarrow> db_ok (pi_db p') \<and> others i (pi_db p') = others i (pi_db p) \<and> books_closed i (pi_db p') \<and>
     (\<exists>j \<in> set (jobs (pi_db p')). jid j = i \<and> jlease j = None \<and> (ended_well u un p p' j \<or> ended_badly u p p' j))"

lemma canonical_error: "take 1000 (canonicalize_job_error m) \<in> fst ` set messages"
proof -
  have "length (canonicalize_job_error m) \<le> 1000"
    using message_shape(3) [OF canonical_known [of m]] by linarith
  then have "take 1000 (canonicalize_job_error m) = canonicalize_job_error m" by (rule take_all)
  then show ?thesis using canonical_known [of m] by (simp only:)
qed

lemma fail_alone:
  assumes run: "running i p"
  shows "\<exists>p'. fail_job st i u e (alone p) = (Inr (), alone p') \<and> ended i u un p p' \<and> pi_guard p' = pi_guard p"
proof -
  obtain j where j: "the_row i (pi_db p) j" using run by (auto simp: running_def)
  let ?c = "if openai_called (pi_meter p) then round4 (cents (pi_meter p)) else 0"
  let ?err = "take 1000 (canonicalize_job_error (error_text e))"
  let ?cols = "[SetStatus Failed, SetProgress 0, SetLease None, SetError (Some ?err), SetCost ?c]"
  define new where "new = (fold set_col ?cols j)\<lparr>jupdated := st_now (st 2000)\<rparr>"
  define d1 where "d1 = (pi_db p)\<lparr>jobs := replace_job new (jobs (pi_db p))\<rparr>"
  define es where "es = (if openai_called (pi_meter p) \<and> 0 < ?c
      then pi_usage p @ [charge_event (st_now (st 2001)) u ?c None i] else pi_usage p)"
  define p' where "p' = p\<lparr>pi_db := d1\<lparr>spend := settle_api_spend i (max ?c 0) ''failed'' (spend d1)\<rparr>, pi_usage := es\<rparr>"
  have n: "jid new = i" "jstatus new = Failed" "jprogress new = 0" "jlease new = None" "jerror new = Some ?err" "jcost new = ?c"
    using j by (simp_all add: new_def the_row_def)
  have "set_job (st 2000) i ?cols (alone p) = (Inr (Some new), alone (p\<lparr>pi_db := d1\<rparr>))"
    using set_job_alone [OF j _ new_def] n(2) by (simp add: d1_def)
  then have m: "mark_job_failed (st 2000) i (error_text e) ?c (alone p) = (Inr (), alone (p\<lparr>pi_db := d1\<rparr>))"
    by (simp add: mark_job_failed_def tx_run)
  have "fail_job st i u e (alone p) = (Inr (), alone p')"
    using m by (simp add: fail_job_def Let_def read_meter_def tx_bind_def log_usage_alone settle_alone p'_def es_def)
  moreover have "db_ok (pi_db p')"
    using write_db_ok [of "pi_db p" service "st 2000" True ?cols i] write_row [OF j _ new_def, of True] n(2) j
    by (simp add: p'_def d1_def db_ok_def the_row_def pushes_ok_def)
  moreover have "others i (pi_db p') = others i (pi_db p)"
    using n(1) by (simp add: p'_def d1_def others_def others_replace)
  moreover have "books_closed i (pi_db p')" by (simp add: p'_def settled_books)
  moreover have "new \<in> set (jobs (pi_db p'))"
    using j n(1) by (force simp: p'_def d1_def the_row_def replace_job_def)
  moreover have "ended_badly u p p' new"
    using n canonical_error [of "error_text e"] by (auto simp: ended_badly_def p'_def es_def)
  ultimately show ?thesis using n by (auto simp: ended_def p'_def)
qed

lemma upsert_alone:
  "(\<exists>e. upsert_recipe n un lang r (alone p) = (Inl e, alone p)) \<or>
   (\<exists>x rs. upsert_recipe n un lang r (alone p) = (Inr x, alone (p\<lparr>pi_recipes := rs\<rparr>)) \<and>
      list_ex (\<lambda>y. rr_id y = x \<and> rr_norm y = un) rs)"
proof (cases "find (\<lambda>x. rr_norm x = un) (pi_recipes p)")
  case None
  then show ?thesis
    by (cases "list_ex (\<lambda>x. rr_norm x = un \<or> rr_id x = n) (pi_recipes p)")
       (auto simp: upsert_recipe_def recipe_by_norm_def insert_recipe_def tx_run)
next
  case (Some y)
  let ?row = "\<lparr>rr_id = rr_id y, rr_norm = un, rr_lang = lang, rr_recipe = r\<rparr>"
  let ?rs = "map (\<lambda>x. if rr_id x = rr_id y then ?row else x) (pi_recipes p)"
  have "upsert_recipe n un lang r (alone p) = (Inr (rr_id y), alone (p\<lparr>pi_recipes := ?rs\<rparr>))"
    using Some by (simp add: upsert_recipe_def recipe_by_norm_def update_recipe_def tx_run)
  moreover have "?row \<in> set ?rs"
    using Some unfolding set_map by (intro image_eqI [of _ _ y]) (auto simp: find_Some_iff)
  then have "list_ex (\<lambda>x. rr_id x = rr_id y \<and> rr_norm x = un) ?rs"
    unfolding list_ex_iff by (rule bexI [rotated]) simp
  ultimately show ?thesis by blast
qed

lemma save_alone:
  "atomically (save_user_recipe u r) (alone p) =
     (Inr (), alone (p\<lparr>pi_saved := pi_saved (snd (save_user_recipe u r p))\<rparr>))"
  by (simp add: save_user_recipe_def)

lemma saved_recipe: "u \<in> set (closed_profiles (pi_db p)) \<or> (u, r) \<in> set (pi_saved (snd (save_user_recipe u r p)))"
  by (simp add: save_user_recipe_def)

text \<open>With the recipe stored, the rest of a successful import: the row, the usage event, the ledger.\<close>

lemma finish_alone:
  assumes j: "the_row i (pi_db p) j"
    and new: "new = (fold set_col [SetStatus Completed, SetProgress 100, SetLease None, SetRecipe (Some r), SetCost c, SetHit False] j)
                 \<lparr>jupdated := st_now sa\<rparr>"
    and da: "da = enqueue_pushes sa (Some j) new ((pi_db p)\<lparr>jobs := replace_job new (jobs (pi_db p))\<rparr>)"
    and p': "p' = p\<lparr>pi_db := da\<lparr>spend := settle_api_spend i (max c 0) ''settled'' (spend da)\<rparr>,
                pi_usage := pi_usage p @ [charge_event now u c (Some r) i]\<rparr>"
  shows "tx_bind (set_job sa i [SetStatus Completed, SetProgress 100, SetLease None, SetRecipe (Some r), SetCost c, SetHit False])
          (\<lambda>_. tx_bind (log_usage now u c (Some r) i) (\<lambda>_. settle_job i c ''settled'')) (alone p) = (Inr (), alone p')"
    and "db_ok (pi_db p')" "others i (pi_db p') = others i (pi_db p)" "books_closed i (pi_db p')"
    and "new \<in> set (jobs (pi_db p'))" "closed_profiles (pi_db p') = closed_profiles (pi_db p)"
proof -
  let ?cols = "[SetStatus Completed, SetProgress 100, SetLease None, SetRecipe (Some r), SetCost c, SetHit False]"
  have n: "jid new = i" using j new by (simp add: the_row_def)
  have s: "set_job sa i ?cols (alone p) = (Inr (Some new), alone (p\<lparr>pi_db := da\<rparr>))"
    using set_job_alone [OF j _ new] by (simp add: da)
  then show "tx_bind (set_job sa i ?cols)
      (\<lambda>_. tx_bind (log_usage now u c (Some r) i) (\<lambda>_. settle_job i c ''settled'')) (alone p) = (Inr (), alone p')"
    by (simp add: tx_bind_def log_usage_alone settle_alone p')
  have "db_ok da"
    using write_db_ok [of "pi_db p" service sa True ?cols i] write_row [OF j _ new, of True] j
    by (simp add: the_row_def da)
  then show "db_ok (pi_db p')" by (simp add: p' db_ok_def pushes_ok_def)
  show "others i (pi_db p') = others i (pi_db p)" using n by (simp add: p' da others_def others_replace)
  show "books_closed i (pi_db p')" by (simp add: p' settled_books)
  show "new \<in> set (jobs (pi_db p'))" using j n by (force simp: p' da the_row_def replace_job_def)
  show "closed_profiles (pi_db p') = closed_profiles (pi_db p)" by (simp add: p' da)
qed

lemma complete_alone:
  assumes run: "running i p"
  shows "(\<exists>e p1. complete_job st i u un lang r (alone p) = (Inl e, alone p1) \<and> tracked i p p1) \<or>
         (\<exists>p'. complete_job st i u un lang r (alone p) = (Inr (), alone p') \<and> ended i u un p p' \<and> pi_guard p' = pi_guard p)"
proof -
  let ?c = "round4 (cents (pi_meter p))"
  obtain j0 where j0: "the_row i (pi_db p) j0" using run by (auto simp: running_def)
  obtain p1 x1 where s1: "set_job (st 1001) i [SetProgress 85] (alone p) = (Inr x1, alone p1)"
    and t1: "tracked i p p1" and m1: "read_meter (alone p1) = (Inr (pi_meter p), alone p1)"
  proof -
    from set_job_alone [OF j0 _ refl, of "[SetProgress 85]" "st 1001"]
    obtain x d1 where x: "set_job (st 1001) i [SetProgress 85] (alone p) = (Inr x, alone (p\<lparr>pi_db := d1\<rparr>))" by simp
    have "keeps (tracked i) (set_job (st 1001) i [SetProgress 85] :: ('b, job option) step)"
      by (rule tr.keeps_set_job) simp
    from tr.keeps_alone [OF this _ x] have "tracked i p (p\<lparr>pi_db := d1\<rparr>)" by simp
    with x show thesis by (rule that) (simp add: read_meter_def)
  qed
  have run1: "running i p1" and f1: "others i (pi_db p1) = others i (pi_db p)" "pi_usage p1 = pi_usage p"
      "pi_guard p1 = pi_guard p"
    using t1 run by (simp_all add: tracked_def)
  obtain j where j: "the_row i (pi_db p1) j" using run1 by (auto simp: running_def)
  consider (refused) e where "upsert_recipe (st_id (st 1002) ''recipe'') un lang r (alone p1) = (Inl e, alone p1)"
    | (stored) x rs where "upsert_recipe (st_id (st 1002) ''recipe'') un lang r (alone p1) = (Inr x, alone (p1\<lparr>pi_recipes := rs\<rparr>))"
        "list_ex (\<lambda>y. rr_id y = x \<and> rr_norm y = un) rs"
    using upsert_alone [of "st_id (st 1002) ''recipe''" un lang r p1] by blast
  then show ?thesis
  proof cases
    case refused
    have "complete_job st i u un lang r (alone p) = (Inl e, alone p1)"
      unfolding complete_job_def Let_def
      by (subst tx_bind_alone, rule s1, subst tx_bind_alone, rule m1, rule tx_bind_fail, rule refused)
    with t1 show ?thesis by blast
  next
    case (stored x rs)
    define p2 where "p2 = p1\<lparr>pi_recipes := rs\<rparr>"
    define p3 where "p3 = p2\<lparr>pi_saved := pi_saved (snd (save_user_recipe u x p2))\<rparr>"
    have j3: "the_row i (pi_db p3) j" using j by (simp add: p3_def p2_def)
    obtain new p' where p': "complete_job st i u un lang r (alone p) = (Inr (), alone p')"
      and new: "new = (fold set_col [SetStatus Completed, SetProgress 100, SetLease None, SetRecipe (Some x), SetCost ?c, SetHit False] j)
                 \<lparr>jupdated := st_now (st 1003)\<rparr>"
      and ok: "db_ok (pi_db p')" "others i (pi_db p') = others i (pi_db p3)" "books_closed i (pi_db p')"
        "new \<in> set (jobs (pi_db p'))" "closed_profiles (pi_db p') = closed_profiles (pi_db p3)"
      and frame: "pi_recipes p' = rs" "pi_saved p' = pi_saved p3" "pi_guard p' = pi_guard p1"
        "pi_usage p' = pi_usage p1 @ [charge_event (st_now (st 1004)) u ?c (Some x) i]"
    proof -
      note fin = finish_alone [OF j3 refl refl refl, where r = x and c = ?c and sa = "st 1003" and now = "st_now (st 1004)" and u = u]
      have c: "complete_job st i u un lang r (alone p) =
          tx_bind (set_job (st 1003) i [SetStatus Completed, SetProgress 100, SetLease None, SetRecipe (Some x), SetCost ?c, SetHit False])
          (\<lambda>_. tx_bind (log_usage (st_now (st 1004)) u ?c (Some x) i) (\<lambda>_. settle_job i ?c ''settled'')) (alone p3)"
        unfolding complete_job_def Let_def p3_def p2_def
        by (subst tx_bind_alone, rule s1, subst tx_bind_alone, rule m1, subst tx_bind_alone, rule stored(1),
              subst tx_bind_alone, rule save_alone, rule refl)
      show thesis
        by (rule that [OF trans [OF c fin(1)] refl fin(2-6)]) (simp_all add: p3_def p2_def)
    qed
    have n: "jid new = i" "jlease new = None" "jcost new = ?c" using j by (simp_all add: new the_row_def)
    have saved: "u \<in> set (closed_profiles (pi_db p')) \<or> (u, x) \<in> set (pi_saved p')"
      using saved_recipe [of u p2 x] ok(5) frame(2) by (simp add: p3_def)
    have "ended_well u un p p' new"
      unfolding ended_well_def using stored(2) saved frame f1 n by (auto simp: new)
    moreover have "others i (pi_db p') = others i (pi_db p)" using ok(2) f1 by (simp add: p3_def p2_def)
    ultimately have "ended i u un p p'" unfolding ended_def using ok n by blast
    with p' frame(3) f1(3) show ?thesis by auto
  qed
qed

lemma ended_tracked:
  assumes "running i p" "tracked i p p1" "ended i u un p1 p'"
  shows "ended i u un p p'"
  using assms unfolding tracked_def ended_def ended_well_def ended_badly_def by simp

lemma work_alone:
  assumes run: "running i p"
  shows "\<exists>p'. work_job cfg st T i u url un lang (alone p) = (Inr (), alone p') \<and> ended i u un p p' \<and> pi_guard p' = pi_guard p"
proof -
  obtain r1 w1 where x: "extract_stage cfg st T i url lang (alone p) = (r1, w1)" by (metis surj_pair)
  from tr.keeps_alone [OF tr.keeps_extract _ x] obtain p1 where w1: "w1 = alone p1" and t1: "tracked i p p1" by auto
  have run1: "running i p1" and g1: "pi_guard p1 = pi_guard p" using t1 run by (simp_all add: tracked_def)
  have failed: ?thesis if f: "work_job cfg st T i u url un lang (alone p) = fail_job st i u e (alone p2)"
    and t2: "tracked i p p2" for e p2
  proof -
    have "running i p2" "pi_guard p2 = pi_guard p" using t2 run by (simp_all add: tracked_def)
    with fail_alone [of i p2 st u e un] ended_tracked [OF run t2] f show ?thesis by fastforce
  qed
  show ?thesis
  proof (cases r1)
    case (Inl e)
    then have "work_job cfg st T i u url un lang (alone p) = fail_job st i u e (alone p1)"
      using x w1 by (simp add: work_job_def tx_run)
    with t1 show ?thesis by (rule failed [rotated])
  next
    case (Inr r)
    consider (refused) e p2 where "complete_job st i u un lang r (alone p1) = (Inl e, alone p2)" "tracked i p1 p2"
      | (through) p' where "complete_job st i u un lang r (alone p1) = (Inr (), alone p')" "ended i u un p1 p'" "pi_guard p' = pi_guard p1"
      using complete_alone [OF run1] by blast
    then show ?thesis
    proof cases
      case refused
      then have "work_job cfg st T i u url un lang (alone p) = fail_job st i u e (alone p2)"
        using x w1 Inr by (simp add: work_job_def tx_run)
      with tracked_trans [OF t1 refused(2)] show ?thesis by (rule failed [rotated])
    next
      case through
      then have "work_job cfg st T i u url un lang (alone p) = (Inr (), alone p')"
        using x w1 Inr by (simp add: work_job_def tx_run)
      with through ended_tracked [OF run t1] g1 show ?thesis by simp
    qed
  qed
qed

lemma reset_running: "running i (p\<lparr>pi_meter := m, pi_reasons := rs\<rparr>) = running i p"
  by (simp add: running_def)

lemma import_releases:
  assumes "env_in same_guard w"
  shows "fst (import_job cfg st T i u url un lang w) = Inr () \<and>
    pi_guard (db (snd (import_job cfg st T i u url un lang w))) = release u (pi_guard (db w))"
proof -
  define w0 where "w0 = w\<lparr>db := (db w)\<lparr>pi_meter := new_meter, pi_reasons := []\<rparr>\<rparr>"
  have e: "env_in same_guard w0" using assms by (simp add: env_in_def w0_def)
  obtain w1 where w1: "work_job cfg st T i u url un (normalize_language (Some lang)) w0 = (Inr (), w1)"
    using work_never_raises unfolding never_raises_def by fastforce
  from sg.keepsD [OF keeps_guard_work e w1] have "pi_guard (db w1) = pi_guard (db w)"
    by (simp add: same_guard_def w0_def)
  moreover have "import_job cfg st T i u url un lang w = (Inr (), snd (release_slot u w1))"
    using w1 by (simp add: import_job_def tx_bind_def reset_meter_def local_def finally_do_def w0_def)
  ultimately show ?thesis by (simp add: release_slot_def local_def)
qed


lemma import_alone:
  assumes "running i p"
  shows "\<exists>p'. import_job cfg st T i u url un lang (alone p) = (Inr (), alone p') \<and> ended i u un p p' \<and>
    pi_guard p' = release u (pi_guard p)"
proof -
  let ?p = "p\<lparr>pi_meter := new_meter, pi_reasons := []\<rparr>"
  have run: "running i ?p" using assms by (simp only: reset_running)
  from work_alone [OF run, of cfg st T u url un "normalize_language (Some lang)"] obtain p' where
    w: "work_job cfg st T i u url un (normalize_language (Some lang)) (alone ?p) = (Inr (), alone p')"
    and "ended i u un ?p p'" and g: "pi_guard p' = pi_guard ?p" by blast
  then have e: "ended i u un p p'" using ended_tracked [OF assms tr.meter_kept] by blast
  have "import_job cfg st T i u url un lang (alone p) = (Inr (), alone (p'\<lparr>pi_guard := release u (pi_guard p')\<rparr>))"
    using w by (simp add: import_job_def tx_bind_def reset_meter_def finally_do_def release_slot_def)
  moreover have "ended i u un p (p'\<lparr>pi_guard := release u (pi_guard p')\<rparr>)"
    using e by (simp add: ended_def ended_well_def ended_badly_def)
  ultimately show ?thesis using g by auto
qed

text \<open>C22: An import of an active row that runs alone always ends its row: completed at 100 with the recipe
  stored under its source, saved for the user and charged, or failed at 0 with a canonical message and
  charged only if a paid call was made. The lease is gone, no reservation of the job stays open, no other
  job is touched and the slot is free.\<close>

theorem job_settled:
  assumes "running i p"
  shows "\<exists>p'. import_job cfg st T i u url un lang (alone p) = (Inr (), alone p') \<and> ended i u un p p' \<and>
    pi_guard p' = release u (pi_guard p)"
  using assms by (rule import_alone)

subsection \<open>An example\<close>

definition ex_tools :: "(unit, unit, unit) tools" where
  "ex_tools = \<lparr>slides_of = (\<lambda>_. Inr None), ocr_slide = (\<lambda>_ _ m. (Inr [], m)),
     media_of = (\<lambda>_. Inl (ExtractError ''offline'')), captions_of = (\<lambda>_. Inr None),
     build = (\<lambda>_ s. (Inr None, s)), audio_of = (\<lambda>_. Inl (ExtractError ''offline'')),
     spoken = (\<lambda>_ _ _ m. (Inr [], m)), frames_of = (\<lambda>_ _. Inr []), ocr_frames = (\<lambda>_ m. (Inr None, m)),
     cover_of = (\<lambda>_. None), with_thumbnail = (\<lambda>_ r. r)\<rparr>"

definition ex_pipe :: "unit pipe" where
  "ex_pipe = \<lparr>pi_db = ex_jobs [ex_waiting], pi_recipes = [], pi_saved = [], pi_usage = [],
     pi_guard = snd (try_claim default_settings ''u'' init_guard), pi_meter = new_meter, pi_reasons = []\<rparr>"

lemma ex_running: "running (jid ex_waiting) ex_pipe"
proof -
  have "the_row (jid ex_waiting) (ex_jobs [ex_waiting]) ex_waiting"
    using ex_waiting_ok
    by (simp add: the_row_def db_ok_def pushes_ok_def ex_jobs_def active_def ex_waiting_def job_row_def ex_request_def)
  then show ?thesis by (auto simp: running_def ex_pipe_def)
qed


theorem job_settled_witness:
  "\<exists>p'. import_job default_settings (\<lambda>_. ex_stamp) ex_tools (jid ex_waiting) ''u'' ''x'' ''x'' ''en'' (alone ex_pipe) =
      (Inr (), alone p') \<and> ended (jid ex_waiting) ''u'' ''x'' ex_pipe p'"
  using job_settled [OF ex_running] by blast

end
