(* ===== verification/Drain.thy ===== *)
theory Drain
  imports Pipeline_Runs
begin

section \<open>The queue of the web process\<close>

text \<open>
  Without a worker, each import that ends starts the next waiting one (\<open>_drain_next_extract_for_user\<close>).
  Alone and with enough stack this empties the queue, up to a first job whose owner has no free slot, and
  gives back every slot it took. A statement that fails in between costs a slot for good.
\<close>

definition waits :: "job \<Rightarrow> bool" where
  "waits j \<longleftrightarrow> jkind j = Extract \<and> jstatus j = Pending"

definition waiting :: "'r pipe \<Rightarrow> job list" where
  "waiting p = filter waits (jobs (pi_db p))"

definition finished :: "job \<Rightarrow> bool" where
  "finished j \<longleftrightarrow> (jstatus j = Completed \<or> jstatus j = Failed) \<and> jlease j = None"

definition ready :: "'r pipe \<Rightarrow> bool" where
  "ready p \<longleftrightarrow> db_ok (pi_db p) \<and> guard_ok (pi_guard p) \<and> (\<forall>j \<in> set (waiting p). jowner j \<noteq> None)"

text \<open>What a drained queue still holds: nothing, or a job whose owner, or the process, has no slot left.\<close>

definition no_slot :: "settings \<Rightarrow> guard \<Rightarrow> uuid \<Rightarrow> bool" where
  "no_slot cfg g u \<longleftrightarrow> nat (max_concurrent_jobs cfg) \<le> size (held g) \<or>
     nat (max_concurrent_jobs_per_user cfg) \<le> count (held g) u"

definition drained :: "settings \<Rightarrow> 'r pipe \<Rightarrow> bool" where
  "drained cfg p \<longleftrightarrow> waiting p = [] \<or> (\<exists>j \<in> set (waiting p). \<exists>u. jowner j = Some u \<and> no_slot cfg (pi_guard p) u)"

text \<open>Rows stay as they are or, if they waited, are finished or wait again; the row \<open>i\<close> is finished.\<close>

definition moved :: "job \<Rightarrow> job \<Rightarrow> bool" where
  "moved j j' \<longleftrightarrow> jid j' = jid j \<and> (j' = j \<or> waits j \<and> (finished j' \<or> waits j'))"

definition queue_after :: "'r pipe \<Rightarrow> 'r pipe \<Rightarrow> bool" where
  "queue_after p p' \<longleftrightarrow> (\<forall>j \<in> set (jobs (pi_db p)). \<exists>j' \<in> set (jobs (pi_db p')). moved j j')"

definition import_after :: "uuid \<Rightarrow> 'r pipe \<Rightarrow> 'r pipe \<Rightarrow> bool" where
  "import_after i p p' \<longleftrightarrow> (\<forall>j \<in> set (jobs (pi_db p)). \<exists>j' \<in> set (jobs (pi_db p')).
     if jid j = i then jid j' = i \<and> finished j' else moved j j')"

lemma finished_not_waits: "finished j \<Longrightarrow> \<not> waits j"
  by (auto simp: finished_def waits_def)

lemma moved_trans: "moved a b \<Longrightarrow> moved b c \<Longrightarrow> moved a c"
  unfolding moved_def using finished_not_waits by auto

lemma queue_after_refl [simp]: "queue_after p p"
  by (auto simp: queue_after_def moved_def)

lemma import_then_queue: "import_after i p p1 \<Longrightarrow> queue_after p1 p2 \<Longrightarrow> import_after i p p2"
proof -
  assume a: "import_after i p p1" and q: "queue_after p1 p2"
  have "\<exists>j2 \<in> set (jobs (pi_db p2)). if jid j = i then jid j2 = i \<and> finished j2 else moved j j2"
    if "j \<in> set (jobs (pi_db p))" for j
  proof -
    obtain j1 where 1: "j1 \<in> set (jobs (pi_db p1))" "if jid j = i then jid j1 = i \<and> finished j1 else moved j j1"
      using a \<open>j \<in> _\<close> unfolding import_after_def by blast
    obtain j2 where 2: "j2 \<in> set (jobs (pi_db p2))" "moved j1 j2"
      using q 1(1) unfolding queue_after_def by blast
    show ?thesis
    proof (cases "jid j = i")
      case True
      then have "j2 = j1" using 1 2(2) finished_not_waits [of j1] by (auto simp: moved_def)
      with 1 2 True show ?thesis by auto
    next
      case False
      with 1 2 moved_trans [of j j1 j2] show ?thesis by auto
    qed
  qed
  then show ?thesis unfolding import_after_def by blast
qed

text \<open>A waiting row is claimed (\<open>new\<close>) and imported, or claimed and put back.\<close>

lemma claimed_then_import:
  assumes j: "j \<in> set (jobs (pi_db p))" "waits j" and d: "distinct (map jid (jobs (pi_db p)))"
    and new: "jid new = jid j" "jobs (pi_db p1) = replace_job new (jobs (pi_db p))"
    and a: "import_after (jid j) p1 p2"
  shows "queue_after p p2"
  unfolding queue_after_def
proof
  fix k assume k: "k \<in> set (jobs (pi_db p))"
  show "\<exists>k' \<in> set (jobs (pi_db p2)). moved k k'"
  proof (cases "jid k = jid j")
    case True
    then have "k = j" using k j(1) d by (auto simp: distinct_map dest: inj_onD)
    have "new \<in> set (jobs (pi_db p1))" using j(1) new by (force simp: replace_job_def)
    with a new(1) obtain j2 where "j2 \<in> set (jobs (pi_db p2))" "jid j2 = jid j" "finished j2"
      unfolding import_after_def by fastforce
    with \<open>k = j\<close> j(2) show ?thesis by (auto simp: moved_def)
  next
    case False
    then have "k \<in> set (jobs (pi_db p1))" using k new by (force simp: replace_job_def)
    with a False show ?thesis unfolding import_after_def by fastforce
  qed
qed

lemma claimed_put_back:
  assumes j: "j \<in> set (jobs (pi_db p))" "waits j" and d: "distinct (map jid (jobs (pi_db p)))"
    and new: "jid again = jid j" "waits again" "jobs (pi_db p2) = replace_job again (jobs (pi_db p))"
  shows "queue_after p p2"
  unfolding queue_after_def
proof
  fix k assume k: "k \<in> set (jobs (pi_db p))"
  show "\<exists>k' \<in> set (jobs (pi_db p2)). moved k k'"
  proof (cases "jid k = jid j")
    case True
    then have "k = j" using k j(1) d by (auto simp: distinct_map dest: inj_onD)
    have "again \<in> set (jobs (pi_db p2))" using j(1) new by (force simp: replace_job_def)
    with \<open>k = j\<close> j(2) new show ?thesis by (auto simp: moved_def)
  next
    case False
    then have "k \<in> set (jobs (pi_db p2))" using k new by (force simp: replace_job_def)
    then show ?thesis by (auto simp: moved_def)
  qed
qed

subsection \<open>Claiming the next import\<close>

lemma to_processing_cols: "to_processing = fold set_col [SetStatus Processing, SetProgress 0, SetError None]"
  by (simp add: fun_eq_iff to_processing_def)

lemma waiting_replace:
  assumes "\<not> waits new"
  shows "filter waits (replace_job new js) = [k \<leftarrow> filter waits js. jid k \<noteq> jid new]"
  using assms by (induction js) (auto simp: replace_job_def)

lemma next_pending_cases:
  assumes ok: "db_ok d"
  obtains (none) "next_pending service st u d = (Inr None, d)"
      "\<forall>j \<in> set (jobs d). \<not> (waits j \<and> (u = None \<or> jowner j = u))"
    | (some) j new where "next_pending service st u d = (Inr (Some new), d\<lparr>jobs := replace_job new (jobs d)\<rparr>)"
      "j \<in> set (jobs d)" "waits j" "u = None \<or> jowner j = u" "jid new = jid j" "jowner new = jowner j" "\<not> waits new"
      "the_row (jid j) (d\<lparr>jobs := replace_job new (jobs d)\<rparr>) new"
proof (cases "oldest (rows service (\<lambda>j. jkind j = Extract \<and> jstatus j = Pending \<and> (u = None \<or> jowner j = u)) d)")
  case None
  then have "rows service (\<lambda>j. jkind j = Extract \<and> jstatus j = Pending \<and> (u = None \<or> jowner j = u)) d = []" by simp
  then have "\<forall>j \<in> set (jobs d). \<not> (waits j \<and> (u = None \<or> jowner j = u))"
    by (auto simp: rows_def waits_def Job_Db.visible_def service_def filter_empty_conv)
  with None show ?thesis by (intro none) (simp add: next_pending_def)
next
  case (Some j)
  then have mem: "j \<in> set (jobs d)" "waits j" "u = None \<or> jowner j = u"
    using oldest_mem [OF Some] by (auto simp: rows_def waits_def)
  then have row: "the_row (jid j) d j" using ok by (simp add: the_row_def waits_def active_def)
  define new where "new = (to_processing j)\<lparr>jupdated := st_now st\<rparr>"
  have st: "jstatus new = Processing" by (simp add: new_def to_processing_def)
  have "update_row service st True to_processing (jid j) d = (Inr (Some new), d\<lparr>jobs := replace_job new (jobs d)\<rparr>)"
    using write_row [OF row _ refl, of "[SetStatus Processing, SetProgress 0, SetError None]" st True] st
    by (simp add: to_processing_cols new_def del: fold.simps)
  moreover from this have "db_ok (d\<lparr>jobs := replace_job new (jobs d)\<rparr>)"
    using write_db_ok [OF ok, of service st True "[SetStatus Processing, SetProgress 0, SetError None]" "jid j"]
    by (simp only: to_processing_cols snd_conv)
  moreover have n: "jid new = jid j" "jowner new = jowner j" "jkind new = Extract"
    using mem by (simp_all add: new_def to_processing_def waits_def)
  moreover have "new \<in> set (replace_job new (jobs d))" using mem n by (force simp: replace_job_def)
  ultimately show ?thesis
    using Some mem st by (intro some [of new j]) (auto simp: next_pending_def the_row_def active_def waits_def)
qed

lemma waiting_fewer:
  assumes "j \<in> set (jobs d)" "waits j" "jid new = jid j" "\<not> waits new"
  shows "length (filter waits (replace_job new (jobs d))) < length (filter waits (jobs d))"
proof -
  have "j \<in> set (filter waits (jobs d))" using assms by simp
  from length_filter_less [OF this, of "\<lambda>k. jid k \<noteq> jid new"] assms(3)
  show ?thesis unfolding waiting_replace [OF assms(4)] by simp
qed

text \<open>What \<open>_run_claimed_pending\<close> does for a queue of at most \<open>n\<close> further jobs.\<close>

definition serves :: "settings \<Rightarrow> nat \<Rightarrow> (job \<Rightarrow> uuid \<Rightarrow> ('r, unit) step) \<Rightarrow> bool" where
  "serves cfg n run \<longleftrightarrow> (\<forall>j u p. running (jid j) p \<longrightarrow> ready p \<longrightarrow> u \<in># held (pi_guard p) \<longrightarrow> length (waiting p) < n \<longrightarrow>
     (\<exists>p'. run j u (alone p) = (Inr (), alone p') \<and> import_after (jid j) p p' \<and> ready p' \<and>
        held (pi_guard p') = held (pi_guard p) - {#u#} \<and> drained cfg p'))"

lemma claim_slot_alone:
  "claim_slot cfg u (alone p) =
     (Inr (fst (try_claim cfg u (pi_guard p))), alone (p\<lparr>pi_guard := snd (try_claim cfg u (pi_guard p))\<rparr>))"
  by (simp add: claim_slot_def case_prod_unfold)

lemma slot_granted:
  assumes "guard_ok g" "fst (try_claim cfg u g)"
  shows "guard_ok (snd (try_claim cfg u g)) \<and> held (snd (try_claim cfg u g)) = add_mset u (held g)"
  using try_claim_keeps [OF assms(1), of cfg u True] assms(2) by (metis prod.collapse)

lemma slot_refused:
  assumes "guard_ok g" "\<not> fst (try_claim cfg u g)"
  shows "guard_ok (snd (try_claim cfg u g)) \<and> held (snd (try_claim cfg u g)) = held g \<and>
    no_slot cfg (snd (try_claim cfg u g)) u"
  using try_claim_keeps [OF assms(1), of cfg u False] assms(2) unfolding no_slot_def by (metis prod.collapse)

lemma run_claimed:
  assumes run: "serves cfg n run" and rdy: "ready p" and len: "length (waiting p) \<le> n"
    and j: "j \<in> set (jobs (pi_db p))" "waits j" "jid new = jid j" "\<not> waits new"
      "the_row (jid j) ((pi_db p)\<lparr>jobs := replace_job new (jobs (pi_db p))\<rparr>) new"
    and g: "guard_ok g" "held g = add_mset u (held (pi_guard p))"
  shows "\<exists>p'. run new u (alone (p\<lparr>pi_guard := g, pi_db := (pi_db p)\<lparr>jobs := replace_job new (jobs (pi_db p))\<rparr>\<rparr>)) =
      (Inr (), alone p') \<and> queue_after p p' \<and> ready p' \<and> held (pi_guard p') = held (pi_guard p) \<and> drained cfg p'"
proof -
  define p1 where "p1 = p\<lparr>pi_guard := g, pi_db := (pi_db p)\<lparr>jobs := replace_job new (jobs (pi_db p))\<rparr>\<rparr>"
  have "running (jid new) p1" using j by (auto simp: running_def p1_def)
  moreover have "db_ok (pi_db p1)" using j(5) by (simp add: the_row_def p1_def)
  then have "ready p1"
    using rdy g(1) by (auto simp: ready_def p1_def waiting_def waiting_replace [OF j(4)])
  moreover have "u \<in># held (pi_guard p1)" using g by (simp add: p1_def)
  moreover have "length (waiting p1) < n"
    using waiting_fewer [OF j(1-4)] len by (simp add: p1_def waiting_def)
  ultimately obtain p' where p': "run new u (alone p1) = (Inr (), alone p')" "import_after (jid j) p1 p'" "ready p'"
      "held (pi_guard p') = held (pi_guard p1) - {#u#}" "drained cfg p'"
    using run j(3) unfolding serves_def by metis
  have "queue_after p p'"
    using rdy by (intro claimed_then_import [OF j(1,2) _ j(3) _ p'(2)]) (simp_all add: p1_def ready_def db_ok_def jobs_ok_def)
  with p' g show ?thesis by (auto simp: p1_def)
qed

lemma update_swap: "p\<lparr>pi_guard := g, pi_db := d\<rparr> = p\<lparr>pi_db := d, pi_guard := g\<rparr>" for p :: "'r pipe"
  by simp

lemma drain_own_alone:
  assumes run: "serves cfg n run" and rdy: "ready p" and len: "length (waiting p) \<le> n"
  shows "(\<exists>p'. drain_own cfg st run u (alone p) = (Inr True, alone p') \<and> queue_after p p' \<and> ready p' \<and>
      held (pi_guard p') = held (pi_guard p) \<and> drained cfg p') \<or>
    (\<exists>g. drain_own cfg st run u (alone p) = (Inr False, alone (p\<lparr>pi_guard := g\<rparr>)) \<and> guard_ok g \<and> held g = held (pi_guard p))"
proof (cases "fst (try_claim cfg u (pi_guard p))")
  case False
  then show ?thesis
    using slot_refused [of "pi_guard p" cfg u] rdy
    by (intro disjI2 exI [of _ "snd (try_claim cfg u (pi_guard p))"])
       (simp add: drain_own_def tx_bind_def claim_slot_alone ready_def)
next
  case True
  define g where "g = snd (try_claim cfg u (pi_guard p))"
  have g: "guard_ok g" "held g = add_mset u (held (pi_guard p))"
    using slot_granted [of "pi_guard p" cfg u] rdy True by (simp_all add: g_def ready_def)
  have ok: "db_ok (pi_db p)" using rdy by (simp add: ready_def)
  from ok show ?thesis
  proof (cases rule: next_pending_cases [where st = st and u = "Some u"])
    case none
    then have "drain_own cfg st run u (alone p) = (Inr False, alone (p\<lparr>pi_guard := release u g\<rparr>))"
      using True by (simp add: drain_own_def tx_bind_def claim_slot_alone release_slot_def g_def)
    moreover have "guard_ok (release u g)" "held (release u g) = held (pi_guard p)"
      using release_keeps [of g u] g by simp_all
    ultimately show ?thesis by blast
  next
    case (some j new)
    let ?d = "(pi_db p)\<lparr>jobs := replace_job new (jobs (pi_db p))\<rparr>"
    obtain p' where p': "run new u (alone (p\<lparr>pi_guard := g, pi_db := ?d\<rparr>)) = (Inr (), alone p')"
        "queue_after p p'" "ready p'" "held (pi_guard p') = held (pi_guard p)" "drained cfg p'"
      using run_claimed [OF run rdy len some(2,3,5,7,8) g] by blast
    have "drain_own cfg st run u (alone p) = (Inr True, alone p')"
      using True some(1) p'(1) by (simp add: drain_own_def tx_bind_def claim_slot_alone g_def)
    with p' show ?thesis by blast
  qed
qed

lemma put_back:
  assumes rdy: "ready p" and j: "j \<in> set (jobs (pi_db p))" "waits j" "jid new = jid j"
    and row: "the_row (jid j) d new" and d: "d = (pi_db p)\<lparr>jobs := replace_job new (jobs (pi_db p))\<rparr>"
    and own: "jowner new = Some o'" "jowner j = jowner new" and g: "guard_ok g" "held g = held (pi_guard p)" "no_slot cfg g o'"
  shows "\<exists>x p'. set_job st (jid new) [SetStatus Pending, SetProgress 0] (alone (p\<lparr>pi_db := d, pi_guard := g\<rparr>)) =
      (Inr x, alone p') \<and> queue_after p p' \<and> ready p' \<and> held (pi_guard p') = held (pi_guard p) \<and> drained cfg p'"
proof -
  define again where "again = (fold set_col [SetStatus Pending, SetProgress 0] new)\<lparr>jupdated := st_now st\<rparr>"
  have b: "jid again = jid j" "waits again" "jowner again = Some o'"
    using j row own by (simp_all add: again_def waits_def the_row_def)
  then have st: "jstatus again \<noteq> Completed" by (simp add: waits_def)
  have twice: "replace_job again (replace_job new js) = replace_job again js" for js
    using b j(3) by (induction js) (simp_all add: replace_job_def)
  define p' where "p' = p\<lparr>pi_db := (pi_db p)\<lparr>jobs := replace_job again (jobs (pi_db p))\<rparr>, pi_guard := g\<rparr>"
  have row': "the_row (jid new) (pi_db (p\<lparr>pi_db := d, pi_guard := g\<rparr>)) new" using row j(3) by simp
  have s: "set_job st (jid new) [SetStatus Pending, SetProgress 0] (alone (p\<lparr>pi_db := d, pi_guard := g\<rparr>)) =
      (Inr (Some again), alone p')"
    using set_job_alone [OF row' _ again_def] st by (simp add: p'_def d twice)
  have "db_ok d" using row by (simp add: the_row_def)
  from write_db_ok [OF this, of service st True "[SetStatus Pending, SetProgress 0]" "jid new"]
  have "db_ok (pi_db p')"
    using write_row [OF row _ refl, of "[SetStatus Pending, SetProgress 0]" st True] st j(3)
    by (simp add: again_def [symmetric] p'_def d twice del: fold.simps)
  moreover have "set (waiting p') \<subseteq> insert again (set (waiting p))"
    using set_replace_job [of again "jobs (pi_db p)"] by (auto simp: waiting_def p'_def)
  ultimately have "ready p'" using rdy b g by (auto simp: ready_def p'_def)
  moreover have "queue_after p p'"
    using rdy by (intro claimed_put_back [OF j(1,2) _ b(1,2)]) (simp_all add: p'_def ready_def db_ok_def jobs_ok_def)
  moreover have "again \<in> set (waiting p')" using j(1) b by (force simp: waiting_def p'_def replace_job_def)
  then have "drained cfg p'" using b g by (auto simp: drained_def p'_def)
  ultimately show ?thesis using s g by (auto simp: p'_def)
qed

lemma drain_any_alone:
  assumes run: "serves cfg n run" and rdy: "ready p" and len: "length (waiting p) \<le> n"
  shows "\<exists>p'. drain_any cfg st run (alone p) = (Inr (), alone p') \<and> queue_after p p' \<and> ready p' \<and>
    held (pi_guard p') = held (pi_guard p) \<and> drained cfg p'"
proof -
  have ok: "db_ok (pi_db p)" using rdy by (simp add: ready_def)
  from ok show ?thesis
  proof (cases rule: next_pending_cases [where st = st and u = None])
    case none
    then have "drain_any cfg st run (alone p) = (Inr (), alone p)" by (simp add: drain_any_def tx_bind_def)
    moreover have "waiting p = []" using none(2) by (simp add: waiting_def filter_empty_conv)
    ultimately show ?thesis using rdy by (auto simp: drained_def)
  next
    case (some j new)
    let ?d = "(pi_db p)\<lparr>jobs := replace_job new (jobs (pi_db p))\<rparr>"
    have "j \<in> set (waiting p)" using some(2,3) by (simp add: waiting_def)
    then have "jowner j \<noteq> None" using rdy unfolding ready_def by blast
    then obtain u where u: "jowner new = Some u" "jowner j = jowner new" using some(6) by (metis option.exhaust)
    define g where "g = snd (try_claim cfg u (pi_guard p))"
    let ?rest = "if fst (try_claim cfg u (pi_guard p)) then run new u
      else tx_bind (set_job st (jid new) [SetStatus Pending, SetProgress 0]) (\<lambda>_. tx_return ())"
    have d: "drain_any cfg st run (alone p) = ?rest (alone (p\<lparr>pi_db := ?d, pi_guard := g\<rparr>))"
      using some(1) u by (simp add: drain_any_def tx_bind_def claim_slot_alone g_def)
    show ?thesis
    proof (cases "fst (try_claim cfg u (pi_guard p))")
      case True
      then have g: "guard_ok g" "held g = add_mset u (held (pi_guard p))"
        using slot_granted [of "pi_guard p" cfg u] rdy by (simp_all add: g_def ready_def)
      from run_claimed [OF run rdy len some(2,3,5,7,8) g] d True show ?thesis by (simp add: update_swap)
    next
      case False
      then have g: "guard_ok g" "held g = held (pi_guard p)" "no_slot cfg g u"
        using slot_refused [of "pi_guard p" cfg u] rdy by (simp_all add: g_def ready_def)
      obtain x p' where x: "set_job st (jid new) [SetStatus Pending, SetProgress 0] (alone (p\<lparr>pi_db := ?d, pi_guard := g\<rparr>)) = (Inr x, alone p')"
        and p': "queue_after p p'" "ready p'" "held (pi_guard p') = held (pi_guard p)" "drained cfg p'"
        using put_back [OF rdy some(2,3,5,8) refl u g, of st] by blast
      have "drain_any cfg st run (alone p) = (Inr (), alone p')"
        unfolding d if_not_P [OF False] by (subst tx_bind_alone, rule x, simp)
      with p' show ?thesis by blast
    qed
  qed
qed

lemma drain_alone:
  assumes run: "serves cfg n run" and rdy: "ready p" and len: "length (waiting p) \<le> n"
    and cfg: "\<not> maintenance_mode cfg" "\<not> worker_enabled cfg"
  shows "\<exists>p'. drain cfg st run u (alone p) = (Inr (), alone p') \<and> queue_after p p' \<and> ready p' \<and>
    held (pi_guard p') = held (pi_guard p) \<and> drained cfg p'"
  using drain_own_alone [OF run rdy len, of st u]
proof (elim disjE exE conjE)
  fix p' assume "drain_own cfg st run u (alone p) = (Inr True, alone p')" and "queue_after p p'" "ready p'"
    "held (pi_guard p') = held (pi_guard p)" "drained cfg p'"
  then show ?thesis using cfg by (simp add: drain_def tx_bind_def)
next
  fix g assume own: "drain_own cfg st run u (alone p) = (Inr False, alone (p\<lparr>pi_guard := g\<rparr>))" and g: "guard_ok g" "held g = held (pi_guard p)"
  let ?p = "p\<lparr>pi_guard := g\<rparr>"
  have "ready ?p" "length (waiting ?p) \<le> n" using rdy len g by (simp_all add: ready_def waiting_def)
  from drain_any_alone [OF run this, of st] own cfg g show ?thesis
    by (auto simp: drain_def tx_bind_def queue_after_def)
qed

lemma import_step:
  assumes run: "running i p" and rdy: "ready p" and u: "u \<in># held (pi_guard p)"
  shows "\<exists>p1. import_job cfg st T i u url un lang (alone p) = (Inr (), alone p1) \<and> import_after i p p1 \<and> ready p1 \<and>
    held (pi_guard p1) = held (pi_guard p) - {#u#} \<and> length (waiting p1) \<le> length (waiting p)"
proof -
  obtain p1 where p1: "import_job cfg st T i u url un lang (alone p) = (Inr (), alone p1)" "ended i u un p p1"
      "pi_guard p1 = release u (pi_guard p)"
    using import_alone [OF run] by blast
  obtain j where j: "j \<in> set (jobs (pi_db p1))" "jid j = i" "finished j"
    using p1(2) by (auto simp: ended_def ended_well_def ended_badly_def finished_def)
  have oth: "[k \<leftarrow> jobs (pi_db p1). jid k \<noteq> i] = [k \<leftarrow> jobs (pi_db p). jid k \<noteq> i]" and ok: "db_ok (pi_db p1)"
    using p1(2) by (simp_all add: ended_def others_def)
  have "jid k \<noteq> i" if "k \<in> set (jobs (pi_db p1))" "waits k" for k
    using that j ok finished_not_waits [of j] by (auto simp: db_ok_def jobs_ok_def distinct_map dest: inj_onD)
  then have "waiting p1 = filter waits [k \<leftarrow> jobs (pi_db p1). jid k \<noteq> i]"
    unfolding waiting_def filter_filter by (auto intro: filter_cong)
  then have w: "waiting p1 = [k \<leftarrow> waiting p. jid k \<noteq> i]"
    unfolding oth waiting_def filter_filter by (auto intro: filter_cong)
  have "import_after i p p1"
    unfolding import_after_def
  proof
    fix k assume k: "k \<in> set (jobs (pi_db p))"
    show "\<exists>k' \<in> set (jobs (pi_db p1)). if jid k = i then jid k' = i \<and> finished k' else moved k k'"
    proof (cases "jid k = i")
      case False
      then have "k \<in> set [k \<leftarrow> jobs (pi_db p1). jid k \<noteq> i]" using k unfolding oth by simp
      with False show ?thesis by (auto simp: moved_def)
    qed (use j in auto)
  qed
  moreover have "ready p1" "held (pi_guard p1) = held (pi_guard p) - {#u#}"
    using rdy release_keeps [of "pi_guard p" u] u ok by (auto simp: ready_def w p1(3))
  ultimately show ?thesis using p1(1) w by auto
qed

lemma runs_drain:
  fixes p :: "'r pipe"
  assumes cfg: "\<not> maintenance_mode cfg" "\<not> worker_enabled cfg"
  shows "running i p \<Longrightarrow> ready p \<Longrightarrow> u \<in># held (pi_guard p) \<Longrightarrow> length (waiting p) < n \<Longrightarrow>
    \<exists>p'. run_extract_job n cfg st T i u url un lang (alone p) = (Inr (), alone p') \<and> import_after i p p' \<and> ready p' \<and>
      held (pi_guard p') = held (pi_guard p) - {#u#} \<and> drained cfg p'"
proof (induction n arbitrary: i p u url un lang)
  case (Suc n)
  let ?run = "\<lambda>j owner. tx_catch (run_extract_job n cfg st T (jid j) owner (jraw j) (jnorm j) (jlang j)) (\<lambda>_. tx_return ())"
  have serves: "serves cfg n ?run"
    unfolding serves_def
  proof (intro allI impI)
    fix j u and p :: "'r pipe" assume "running (jid j) p" "ready p" "u \<in># held (pi_guard p)" "length (waiting p) < n"
    from Suc.IH [OF this, of "jraw j" "jnorm j" "jlang j"]
    show "\<exists>p'. ?run j u (alone p) = (Inr (), alone p') \<and> import_after (jid j) p p' \<and> ready p' \<and>
        held (pi_guard p') = held (pi_guard p) - {#u#} \<and> drained cfg p'"
      by (auto simp: tx_catch_def)
  qed
  obtain p1 where p1: "import_job cfg (st n) (T n) i u url un lang (alone p) = (Inr (), alone p1)" "import_after i p p1"
      "ready p1" "held (pi_guard p1) = held (pi_guard p) - {#u#}" "length (waiting p1) \<le> length (waiting p)"
    using import_step [OF Suc.prems(1-3)] by blast
  have "length (waiting p1) \<le> n" using p1(5) Suc.prems(4) by simp
  from drain_alone [OF serves p1(3) this cfg, of "st n 3000" u] obtain p' where
    p': "drain cfg (st n 3000) ?run u (alone p1) = (Inr (), alone p')" "queue_after p1 p'" "ready p'"
      "held (pi_guard p') = held (pi_guard p1)" "drained cfg p'" by blast
  have "run_extract_job (Suc n) cfg st T i u url un lang (alone p) = (Inr (), alone p')"
    using p1(1) p'(1) cfg by (simp add: tx_bind_def)
  with p' p1 import_then_queue [OF p1(2) p'(2)] show ?case by auto
qed simp


text \<open>One statement that fails in the drain, after the slot was taken again, leaves the slot held although
  nothing runs in it: the user loses it until the process restarts.\<close>

theorem drain_leaks_slot:
  assumes "env_in same_guard w" "guard_ok (pi_guard (db w))" "u \<in># held (pi_guard (db w))"
    and "size (held (pi_guard (db w))) \<le> nat (max_concurrent_jobs cfg)"
    and "count (held (pi_guard (db w))) u \<le> nat (max_concurrent_jobs_per_user cfg)"
    and "\<not> maintenance_mode cfg" "\<not> worker_enabled cfg"
    and "env (snd (import_job cfg (st n) (T n) i u url un lang w)) = Outage # es"
  shows "fst (run_extract_job (Suc n) cfg st T i u url un lang w) = Inl DbError \<and>
    held (pi_guard (db (snd (run_extract_job (Suc n) cfg st T i u url un lang w)))) = held (pi_guard (db w))"
proof -
  let ?g = "pi_guard (db w)"
  obtain w1 where w1: "import_job cfg (st n) (T n) i u url un lang w = (Inr (), w1)" "pi_guard (db w1) = release u ?g"
      "env w1 = Outage # es"
    using import_releases [OF assms(1)] assms(8) by (metis prod.collapse)
  have r: "guard_ok (release u ?g)" "held (release u ?g) = held ?g - {#u#}"
    using release_keeps assms(2,3) by blast+
  have "size (held ?g - {#u#}) < nat (max_concurrent_jobs cfg)"
    using assms(3,4) size_Diff1_less [OF assms(3)] by linarith
  moreover have "count (held ?g - {#u#}) u < nat (max_concurrent_jobs_per_user cfg)"
    using assms(3,5) by (simp flip: count_greater_zero_iff)
  ultimately have ok: "fst (try_claim cfg u (release u ?g))"
    using slot_refused [OF r(1), of cfg u] r(2) unfolding no_slot_def by (metis linorder_not_le)
  from slot_granted [OF r(1) ok] r(2) assms(3)
  have h: "held (snd (try_claim cfg u (release u ?g))) = held ?g" by simp
  have "drain_own cfg (st n 3000) run u w1 =
      (Inl DbError, w1\<lparr>db := (db w1)\<lparr>pi_guard := snd (try_claim cfg u (release u ?g))\<rparr>, env := es\<rparr>)" for run
    using ok w1 by (simp add: drain_own_def tx_bind_def claim_slot_def local_def on_db_def atomically_def case_prod_unfold)
  with w1(1) h assms(6,7) show ?thesis by (simp add: drain_def tx_bind_def)
qed

subsection \<open>An example\<close>

lemma ex_slot:
  "guard_ok (pi_guard ex_pipe)" "held (pi_guard ex_pipe) = {#''u''#}"
proof -
  have "fst (try_claim default_settings ''u'' init_guard)"
    by (simp add: try_claim_def touch_def user_count_def init_guard_def default_settings_def Let_def)
  from slot_granted [OF guard_ok_init this] show "guard_ok (pi_guard ex_pipe)" "held (pi_guard ex_pipe) = {#''u''#}"
    by (simp_all add: ex_pipe_def)
qed

lemma ex_limits:
  "\<not> maintenance_mode default_settings" "\<not> worker_enabled default_settings"
  "1 \<le> nat (max_concurrent_jobs default_settings)" "1 \<le> nat (max_concurrent_jobs_per_user default_settings)"
  by (simp_all add: default_settings_def)


theorem drain_leaks_slot_witness:
  "held (pi_guard (db (snd (run_extract_job (Suc 0) default_settings (\<lambda>_ _. ex_stamp) (\<lambda>_. ex_tools) ''j'' ''u'' ''x'' ''x'' ''en''
      \<lparr>db = ex_pipe, env = [Outage, Outage, Outage, Outage]\<rparr>)))) = {#''u''#}"
proof -
  let ?w = "\<lparr>db = ex_pipe, env = [Outage, Outage, Outage, Outage]\<rparr>"
  have e: "env_in same_guard ?w" by (simp add: env_in_def)
  have "env (snd (import_job default_settings (\<lambda>_. ex_stamp) ex_tools ''j'' ''u'' ''x'' ''x'' ''en'' ?w)) = Outage # []"
    by (simp add: import_job_def reset_meter_def local_def finally_do_def work_job_def extract_stage_def set_job_def on_db_def
        atomically_def tx_run fail_job_def read_meter_def Let_def mark_job_failed_def settle_job_def release_slot_def new_meter_def)
  from drain_leaks_slot [OF e _ _ _ _ ex_limits(1,2) this] ex_slot ex_limits(3,4) show ?thesis by simp
qed

end
