(* ===== verification/Import_Handler.thy ===== *)
theory Import_Handler
  imports Drain Rate_Limit Url_Guard
begin

section \<open>The import endpoint\<close>

text \<open>
  \<open>POST /v1/extract\<close> of app/main.py and the helpers it shares with the polling endpoint: the order of
  the checks (address, delivery identifier, rate limits, cache, active import, quota, queue), the
  reservation of the spend, the slot of the web process, sharing and expiry of active jobs, and the
  background task that runs the import. The handler runs in the database session of its user
  (\<open>as_user\<close>). Its world is the pipeline's (\<open>ap_pipe\<close>) with the translations, the limiters of the
  process and the background tasks of the request. Request logging and the response model are left out.
\<close>

subsection \<open>State\<close>

record 'r translation =
  tl_recipe :: uuid
  tl_lang :: string
  tl_payload :: 'r
  tl_print :: string

datatype task =
    RunExtract uuid uuid string string string
  | RunTranslation uuid uuid uuid string

record 'r app =
  ap_pipe :: "'r pipe"
  ap_sec :: sec_state
  ap_translations :: "'r translation list"
  ap_tasks :: "task list"

type_synonym ('r, 'x) handler = "('r app, 'x) tx"

text \<open>
  What a request brings and the server reads for it: its user and the rows of the profile and the
  settings table, the peer, the clock, the state of Redis; the resolver; the fingerprint of a recipe and
  the recipe with a translation's texts.
\<close>

record 'r call =
  ca_user :: uuid
  ca_pro :: bool
  ca_limits :: "limit_columns option"
  ca_settings :: "settings_row option"
  ca_ip :: string
  ca_mono :: mono_time
  ca_redis :: "nat \<Rightarrow> redis_env"
  ca_audit_ok :: bool
  ca_resolve :: "string \<Rightarrow> int \<Rightarrow> string list option"
  ca_print :: "'r \<Rightarrow> string"
  ca_overlay :: "'r \<Rightarrow> 'r \<Rightarrow> 'r"

definition on_pipe :: "('r pipe \<Rightarrow> 'x res \<times> 'r pipe) \<Rightarrow> ('r, 'x) handler" where
  "on_pipe f = atomically (\<lambda>a. case f (ap_pipe a) of (r, p) \<Rightarrow> (r, a\<lparr>ap_pipe := p\<rparr>))"

definition on_jobs :: "(job_db \<Rightarrow> 'x res \<times> job_db) \<Rightarrow> ('r, 'x) handler" where
  "on_jobs f = on_pipe (\<lambda>p. case f (pi_db p) of (r, d) \<Rightarrow> (r, p\<lparr>pi_db := d\<rparr>))"

lemma on_pipe_alone: "on_pipe f (alone a) = (fst (f (ap_pipe a)), alone (a\<lparr>ap_pipe := snd (f (ap_pipe a))\<rparr>))"
  by (simp add: on_pipe_def case_prod_unfold)

lemma on_jobs_alone:
  "on_jobs f (alone a) = (fst (f (pi_db (ap_pipe a))), alone (a\<lparr>ap_pipe := (ap_pipe a)\<lparr>pi_db := snd (f (pi_db (ap_pipe a)))\<rparr>\<rparr>))"
  by (simp add: on_jobs_def on_pipe_def case_prod_unfold)

text \<open>A call of \<open>Job_Store\<close> that is one statement.\<close>

definition sql :: "(job_db, 'x) tx \<Rightarrow> ('r, 'x) handler" where
  "sql m = on_jobs (\<lambda>d. case m (alone d) of (r, w) \<Rightarrow> (r, db w))"

text \<open>The slots of the process.\<close>

definition take_slot :: "settings \<Rightarrow> uuid \<Rightarrow> ('r, bool) handler" where
  "take_slot cfg u = local (\<lambda>a. case try_claim cfg u (pi_guard (ap_pipe a)) of
     (b, g) \<Rightarrow> (Inr b, a\<lparr>ap_pipe := (ap_pipe a)\<lparr>pi_guard := g\<rparr>\<rparr>))"

definition require_slot :: "settings \<Rightarrow> uuid \<Rightarrow> ('r, unit) handler" where
  "require_slot cfg u = local (\<lambda>a. case claim cfg u (pi_guard (ap_pipe a)) of
     (r, g) \<Rightarrow> (r, a\<lparr>ap_pipe := (ap_pipe a)\<lparr>pi_guard := g\<rparr>\<rparr>))"

definition give_slot :: "uuid \<Rightarrow> ('r, unit) handler" where
  "give_slot u = local (\<lambda>a. (Inr (), a\<lparr>ap_pipe := (ap_pipe a)\<lparr>pi_guard := release u (pi_guard (ap_pipe a))\<rparr>\<rparr>))"

definition add_task :: "task \<Rightarrow> ('r, unit) handler" where
  "add_task t = local (\<lambda>a. (Inr (), a\<lparr>ap_tasks := ap_tasks a @ [t]\<rparr>))"

subsection \<open>Errors of the endpoint\<close>

definition key_reused :: exn where
  "key_reused = HTTPException 409 (Some ''IDEMPOTENCY_KEY_REUSED'')
     ''This delivery identifier was already used for another import.'' None"

definition attach_unavailable :: exn where
  "attach_unavailable = HTTPException 503 (Some ''RECIPE_ATTACH_UNAVAILABLE'') ''Recipe temporarily unavailable. Retry.'' (Some 1)"

definition access_unavailable :: exn where
  "access_unavailable = HTTPException 503 (Some ''JOB_ACCESS_UNAVAILABLE'') ''Job access temporarily unavailable.'' None"

definition maintenance :: exn where
  "maintenance = HTTPException 503 None ''Maintenance in progress. Retry.'' (Some 30)"

definition no_api_key :: exn where
  "no_api_key = HTTPException 503 None ''OPENAI_API_KEY not configured'' None"

definition queue_full :: exn where
  "queue_full = HTTPException 429 None ''Import queue is full. Wait for a recipe to finish.'' (Some 30)"

definition unsafe_url :: exn where
  "unsafe_url = HTTPException 422 None ''Unsupported or unsafe URL'' None"

definition usage_unavailable :: string where
  "usage_unavailable = ''Usage protection unavailable''"

fun is_http :: "exn \<Rightarrow> bool" where
  "is_http (HTTPException _ _ _ _) = True"
| "is_http _ = False"

fun is_value_error :: "exn \<Rightarrow> bool" where
  "is_value_error (ValueError _) = True"
| "is_value_error _ = False"

subsection \<open>Helpers\<close>

definition require_writes_enabled :: "settings \<Rightarrow> ('r, unit) handler" where
  "require_writes_enabled cfg = (if maintenance_mode cfg then tx_raise maintenance else tx_return ())"

text \<open>The timestamps of a row are never missing and never malformed.\<close>

definition job_is_stale :: "settings \<Rightarrow> instant \<Rightarrow> job \<Rightarrow> bool" where
  "job_is_stale cfg now j \<longleftrightarrow> active j \<and> job_ttl_seconds cfg * second < now - jupdated j"

definition put_job :: "session \<Rightarrow> stamp \<Rightarrow> uuid \<Rightarrow> job_col list \<Rightarrow> ('r, job option) handler" where
  "put_job s st i cols = on_jobs (update_row s st (list_ex is_status cols) (fold set_col cols) i)"

definition settle_spend_of :: "uuid \<Rightarrow> rat \<Rightarrow> string \<Rightarrow> ('r, unit) handler" where
  "settle_spend_of i c status =
     tx_catch (on_jobs (\<lambda>d. (Inr (), d\<lparr>spend := settle_api_spend i (max c 0) status (spend d)\<rparr>))) (\<lambda>_. tx_return ())"

definition expire_stale_job :: "settings \<Rightarrow> session \<Rightarrow> stamp \<Rightarrow> job \<Rightarrow> ('r, bool) handler" where
  "expire_stale_job cfg s st j =
     (if maintenance_mode cfg \<or> \<not> job_is_stale cfg (st_now st) j then tx_return False
      else tx_bind (put_job s st (jid j) [SetStatus Failed, SetProgress 0, SetLease None, SetError (Some stale_job)]) (\<lambda>_.
           tx_bind (settle_spend_of (jid j) 0 ''failed'') (\<lambda>_. tx_return True)))"

definition attach_recipe_or_retry :: "uuid \<Rightarrow> uuid \<Rightarrow> ('r, unit) handler" where
  "attach_recipe_or_retry u r = tx_catch (on_pipe (save_user_recipe u r)) (\<lambda>_. tx_raise attach_unavailable)"

definition share_job_or_http :: "session \<Rightarrow> uuid \<Rightarrow> job \<Rightarrow> ('r, unit) handler" where
  "share_job_or_http s u j =
     (if jowner j = Some u then tx_return ()
      else tx_catch (on_jobs (insert_access s (jid j) u)) (\<lambda>_. tx_raise access_unavailable))"

text \<open>\<open>create_job\<close> and \<open>reserve_spend\<close>, statement by statement.\<close>

definition active_row :: "session \<Rightarrow> job_request \<Rightarrow> ('r, job option) handler" where
  "active_row s q =
     (if rq_kind q = Translation \<and> rq_recipe q = None then tx_return None
      else sql (get_active_job s (rq_norm q) (rq_lang q) (rq_kind q) (rq_recipe q)))"

definition winner_or_raise :: "session \<Rightarrow> job_request \<Rightarrow> ('r, job \<times> bool) handler" where
  "winner_or_raise s q = tx_bind (active_row s q) (\<lambda>found.
     case found of Some j \<Rightarrow> tx_return (j, False) | None \<Rightarrow> tx_raise UniqueViolation)"

definition new_job :: "session \<Rightarrow> stamp \<Rightarrow> job_request \<Rightarrow> ('r, job \<times> bool) handler" where
  "new_job s st q =
     tx_catch (tx_bind (on_jobs (insert_job s st (job_row st q))) (\<lambda>j. tx_return (j, False)))
       (\<lambda>e. if e = UniqueViolation
            then (case rq_delivery q of
                None \<Rightarrow> winner_or_raise s q
              | Some dl \<Rightarrow> tx_bind (sql (get_job_by_delivery_id s (rq_user q) dl)) (\<lambda>replay.
                  case replay of Some j \<Rightarrow> tx_return (j, True) | None \<Rightarrow> winner_or_raise s q))
            else tx_raise e)"

definition reserve :: "settings \<Rightarrow> stamp \<Rightarrow> 'r call \<Rightarrow> uuid \<Rightarrow> ('r, uuid \<times> rat) handler" where
  "reserve cfg st ca i =
     (if \<not> billing_guard_enabled cfg then tx_raise (HTTPException 503 None ''Usage protection is disabled'' None)
      else tx_catch
        (on_jobs (\<lambda>d. case reserve_spend cfg True (st_now st) (st_id st ''reservation'') (ca_settings ca)
             (case ca_limits ca of None \<Rightarrow> None | Some l \<Rightarrow> Some (ca_pro ca, l)) (ca_user ca) i (spend d) of
           (r, s) \<Rightarrow> (r, d\<lparr>spend := s\<rparr>)))
        (\<lambda>e. if is_http e then tx_raise e else tx_raise (HTTPException 503 None usage_unavailable None)))"

definition check_quota :: "'r call \<Rightarrow> instant \<Rightarrow> bool \<Rightarrow> ('r, unit) handler" where
  "check_quota ca now cache_hit =
     on_pipe (\<lambda>p. (fst (assert_can_extract (get_quota now (ca_settings ca) (ca_limits ca) (ca_user ca) (ca_pro ca) (pi_usage p)) cache_hit True), p))"

definition limit_calls :: "settings \<Rightarrow> 'r call \<Rightarrow> nat \<Rightarrow> string \<Rightarrow> int \<Rightarrow> int \<Rightarrow> string \<Rightarrow> int \<Rightarrow> string option \<Rightarrow> ('r, unit) handler" where
  "limit_calls cfg ca n key lmt win event retry who =
     local (\<lambda>a. case require_rate_limit cfg (ca_redis ca n) (ca_audit_ok ca) (ca_mono ca) (Some (ca_ip ca)) key lmt win event retry who (ap_sec a) of
       (r, s) \<Rightarrow> (r, a\<lparr>ap_sec := s\<rparr>))"

text \<open>\<open>localized_recipe_row\<close>: the stored texts count only for the recipe they were made from.\<close>

definition localized_recipe_row :: "'r call \<Rightarrow> 'r recipe_row \<Rightarrow> string \<Rightarrow> ('r, 'r option) handler" where
  "localized_recipe_row ca x lang =
     (let code = normalize_language (Some lang) in
      if normalize_language (Some (rr_lang x)) = code then tx_return (Some (rr_recipe x))
      else atomically (\<lambda>a.
        (Inr (case find (\<lambda>t. tl_recipe t = rr_id x \<and> tl_lang t = code) (ap_translations a) of
           None \<Rightarrow> None
         | Some t \<Rightarrow> if tl_print t \<noteq> ca_print ca (rr_recipe x) then None
                     else Some (ca_overlay ca (rr_recipe x) (tl_payload t))), a)))"

subsection \<open>Translations\<close>

definition reused :: "string \<Rightarrow> string \<Rightarrow> job \<Rightarrow> bool" where
  "reused url_norm lang j \<longleftrightarrow> jnorm j \<noteq> url_norm \<or> jlang j \<noteq> lang"

definition free_if :: "bool \<Rightarrow> uuid \<Rightarrow> ('r, unit) handler" where
  "free_if local_claimed u = (if local_claimed then give_slot u else tx_return ())"

definition translation_request :: "uuid \<Rightarrow> uuid \<Rightarrow> string \<Rightarrow> string \<Rightarrow> string \<Rightarrow> uuid option \<Rightarrow> job_request" where
  "translation_request u recipe url url_norm lang dl =
     \<lparr>rq_user = u, rq_raw = url, rq_norm = url_norm, rq_lang = lang, rq_kind = Translation, rq_status = Pending,
      rq_hit = False, rq_recipe = Some recipe, rq_delivery = dl, rq_cost = 0\<rparr>"

text \<open>
  The creation in the \<open>try\<close> block: an existing job (\<open>Inl\<close>) is the answer, a new one (\<open>Inr\<close>) has still to
  be paid for. On an exception the slot is given back before anything else, then the job that won a
  race is looked up.
\<close>

definition create_translation ::
  "(nat \<Rightarrow> stamp) \<Rightarrow> session \<Rightarrow> uuid \<Rightarrow> bool \<Rightarrow> job_request \<Rightarrow> ('r, job + job) handler" where
  "create_translation st s u claimed q =
     tx_catch
       (tx_bind (new_job s (st 20) q) (\<lambda>(j, replay).
          if replay then
            if reused (rq_norm q) (rq_lang q) j then tx_raise key_reused
            else tx_bind (free_if claimed u) (\<lambda>_. tx_return (Inl j))
          else tx_return (Inr j)))
       (\<lambda>e. tx_bind (free_if claimed u) (\<lambda>_.
            tx_bind (active_row s q) (\<lambda>found.
              case found of
                Some j \<Rightarrow> tx_bind (share_job_or_http s u j) (\<lambda>_. tx_return (Inl j))
              | None \<Rightarrow> tx_raise e)))"

text \<open>The reservation of the new job: when it fails, so does the job.\<close>

definition pay_or_fail ::
  "settings \<Rightarrow> (nat \<Rightarrow> stamp) \<Rightarrow> session \<Rightarrow> 'r call \<Rightarrow> bool \<Rightarrow> (exn \<Rightarrow> string) \<Rightarrow> job \<Rightarrow> ('r, unit) handler" where
  "pay_or_fail cfg st s c claimed message j =
     tx_catch (tx_bind (reserve cfg (st 21) c (jid j)) (\<lambda>_. tx_return ()))
       (\<lambda>e. tx_bind (free_if claimed (ca_user c)) (\<lambda>_.
            tx_bind (put_job s (st 22) (jid j) [SetStatus Failed, SetError (Some (message e))]) (\<lambda>_. tx_raise e)))"

definition ensure_translation_job ::
  "settings \<Rightarrow> (nat \<Rightarrow> stamp) \<Rightarrow> 'r call \<Rightarrow> uuid \<Rightarrow> string \<Rightarrow> string \<Rightarrow> string \<Rightarrow> uuid option \<Rightarrow> ('r, job) handler" where
  "ensure_translation_job cfg st c recipe url url_norm language dl =
     (let u = ca_user c; s = as_user u; lang = normalize_language (Some language);
          q = translation_request u recipe url url_norm lang dl; claimed = \<not> worker_enabled cfg
      in tx_bind (require_writes_enabled cfg) (\<lambda>_.
         tx_bind (active_row s q) (\<lambda>found.
         tx_bind (case found of None \<Rightarrow> tx_return None
           | Some j \<Rightarrow> tx_bind (expire_stale_job cfg s (st 23) j) (\<lambda>expired.
               if expired then tx_return None
               else tx_bind (share_job_or_http s u j) (\<lambda>_. tx_return (Some j)))) (\<lambda>shared.
         case shared of Some j \<Rightarrow> tx_return j
         | None \<Rightarrow>
             tx_bind (check_quota c (st_now (st 24)) False) (\<lambda>_.
             tx_bind (if claimed then require_slot cfg u else tx_return ()) (\<lambda>_.
             tx_bind (create_translation st s u claimed q) (\<lambda>made.
             case made of
               Inl j \<Rightarrow> tx_return j
             | Inr j \<Rightarrow>
                 tx_bind (pay_or_fail cfg st s c claimed (\<lambda>_. usage_unavailable) j) (\<lambda>_.
                 tx_bind (if claimed then add_task (RunTranslation (jid j) u recipe lang) else tx_return ()) (\<lambda>_.
                 tx_return j)))))))))"

subsection \<open>\<open>extract_recipe\<close>\<close>

record response =
  re_job :: uuid
  re_status :: job_status
  re_hit :: bool
  re_progress :: int
  re_queued :: bool
  re_position :: "nat option"

definition answer :: "job \<Rightarrow> bool \<Rightarrow> bool \<Rightarrow> response" where
  "answer j hit queued = \<lparr>re_job = jid j, re_status = jstatus j, re_hit = hit, re_progress = jprogress j,
     re_queued = queued, re_position = None\<rparr>"

definition import_hosts :: "string list" where
  "import_hosts = [''youtube.com'', ''youtu.be'', ''tiktok.com'', ''instagram.com'', ''facebook.com'', ''fb.watch'']"

definition check_url :: "'r call \<Rightarrow> string \<Rightarrow> unit res" where
  "check_url c url =
     (case validate_public_url (ca_resolve c) import_hosts url of
        Inr x \<Rightarrow> Inr x
      | Inl e \<Rightarrow> Inl (if is_value_error e then unsafe_url else e))"

definition delivery_replay :: "session \<Rightarrow> uuid \<Rightarrow> uuid option \<Rightarrow> string \<Rightarrow> string \<Rightarrow> ('r, response option) handler" where
  "delivery_replay s u dl url_norm lang =
     (case dl of
        None \<Rightarrow> tx_return None
      | Some d \<Rightarrow>
          tx_bind (sql (get_job_by_delivery_id s u d)) (\<lambda>found.
            case found of
              None \<Rightarrow> tx_return None
            | Some j \<Rightarrow>
                if reused url_norm lang j then tx_raise key_reused
                else tx_bind
                  (case jrecipe j of
                     Some r \<Rightarrow> if jstatus j = Completed \<and> jhit j then attach_recipe_or_retry u r else tx_return ()
                   | None \<Rightarrow> tx_return ())
                  (\<lambda>_. tx_return (Some (answer j (jhit j) (active j))))))"

definition extract_limits :: "settings \<Rightarrow> 'r call \<Rightarrow> ('r, unit) handler" where
  "extract_limits cfg c =
     tx_bind (limit_calls cfg c 0 (''extract-ip:'' @ ca_ip c) (rate_limit_extract_per_ip_per_minute cfg) 60
         ''extract_ip_rate_limited'' 60 None) (\<lambda>_.
     tx_bind (limit_calls cfg c 1 (''extract-user:'' @ ca_user c) (rate_limit_extract_per_user_per_minute cfg) 60
         ''extract_user_rate_limited'' 60 (Some (ca_user c))) (\<lambda>_.
     limit_calls cfg c 2 (''extract-user-day:'' @ ca_user c) (rate_limit_extract_daily_per_user cfg) 86400
         ''extract_user_daily_rate_limited'' 3600 (Some (ca_user c))))"

definition hit_request :: "uuid \<Rightarrow> uuid \<Rightarrow> string \<Rightarrow> string \<Rightarrow> string \<Rightarrow> uuid option \<Rightarrow> job_request" where
  "hit_request u recipe url url_norm lang dl =
     \<lparr>rq_user = u, rq_raw = url, rq_norm = url_norm, rq_lang = lang, rq_kind = Extract, rq_status = Completed,
      rq_hit = True, rq_recipe = Some recipe, rq_delivery = dl, rq_cost = 0\<rparr>"

definition serve_hit ::
  "(nat \<Rightarrow> stamp) \<Rightarrow> uuid \<Rightarrow> uuid \<Rightarrow> string \<Rightarrow> string \<Rightarrow> string \<Rightarrow> uuid option \<Rightarrow> ('r, response) handler" where
  "serve_hit st u recipe url url_norm lang dl =
     tx_bind (new_job (as_user u) (st 10) (hit_request u recipe url url_norm lang dl)) (\<lambda>(j, replay).
       if replay then
         if reused url_norm lang j then tx_raise key_reused else tx_return (answer j (jhit j) False)
       else
         tx_bind (attach_recipe_or_retry u recipe) (\<lambda>_.
         tx_bind (tx_catch (on_pipe (\<lambda>p. (Inr (), p\<lparr>pi_usage :=
               record_usage (st_now (st 11)) u ''extract_hit'' 0 (Some recipe) (Some (jid j)) (pi_usage p)\<rparr>)))
             (\<lambda>_. tx_return ())) (\<lambda>_.
         tx_return \<lparr>re_job = jid j, re_status = Completed, re_hit = True, re_progress = 100, re_queued = False, re_position = None\<rparr>)))"

definition import_of :: "uuid \<Rightarrow> string \<Rightarrow> string \<Rightarrow> string \<Rightarrow> uuid option \<Rightarrow> job_request" where
  "import_of u url url_norm lang dl =
     \<lparr>rq_user = u, rq_raw = url, rq_norm = url_norm, rq_lang = lang, rq_kind = Extract, rq_status = Pending,
      rq_hit = False, rq_recipe = None, rq_delivery = dl, rq_cost = 0\<rparr>"

text \<open>An active import of the same address, unless it is stale, is shared.\<close>

definition join_active ::
  "settings \<Rightarrow> (nat \<Rightarrow> stamp) \<Rightarrow> session \<Rightarrow> uuid \<Rightarrow> job_request \<Rightarrow> ('r, response option) handler" where
  "join_active cfg st s u q =
     tx_bind (active_row s q) (\<lambda>found.
       case found of
         None \<Rightarrow> tx_return None
       | Some j \<Rightarrow> tx_bind (expire_stale_job cfg s (st 30) j) (\<lambda>expired.
           if expired then tx_return None
           else tx_bind (share_job_or_http s u j) (\<lambda>_. tx_return (Some (answer j False False)))))"

definition create_import ::
  "settings \<Rightarrow> (nat \<Rightarrow> stamp) \<Rightarrow> session \<Rightarrow> uuid \<Rightarrow> bool \<Rightarrow> job_request \<Rightarrow> ('r, response + job) handler" where
  "create_import cfg st s u claimed q =
     tx_catch
       (tx_bind (new_job s (st 20) q) (\<lambda>(j, replay).
          if replay then
            if reused (rq_norm q) (rq_lang q) j then tx_raise key_reused
            else tx_bind (free_if claimed u) (\<lambda>_. tx_return (Inl (answer j (jhit j) (active j))))
          else tx_return (Inr j)))
       (\<lambda>e. tx_bind (free_if claimed u) (\<lambda>_.
            if is_http e then tx_raise e
            else tx_bind (join_active cfg st s u q) (\<lambda>joined.
              case joined of Some r \<Rightarrow> tx_return (Inl r) | None \<Rightarrow> tx_raise e)))"

definition denial_text :: "exn \<Rightarrow> string" where
  "denial_text e = (if is_http e then take 300 (if exn_message e = [] then usage_unavailable else exn_message e)
     else usage_unavailable)"

definition start_import ::
  "settings \<Rightarrow> (nat \<Rightarrow> stamp) \<Rightarrow> 'r call \<Rightarrow> string \<Rightarrow> string \<Rightarrow> string \<Rightarrow> uuid option \<Rightarrow> ('r, response) handler" where
  "start_import cfg st c url url_norm lang dl =
     (let u = ca_user c; s = as_user u; q = import_of u url url_norm lang dl in
      tx_bind (check_quota c (st_now (st 12)) False) (\<lambda>_.
      tx_bind (sql (count_user_open_extract_jobs s u)) (\<lambda>open_count.
      if max_pending_jobs_per_user cfg \<le> int open_count then tx_raise queue_full
      else
      tx_bind (if \<not> worker_enabled cfg \<and> open_count = 0 then take_slot cfg u else tx_return False) (\<lambda>claimed.
      tx_bind (create_import cfg st s u claimed q) (\<lambda>made.
      case made of
        Inl r \<Rightarrow> tx_return r
      | Inr j \<Rightarrow>
          tx_bind (pay_or_fail cfg st s c claimed denial_text j) (\<lambda>_.
          tx_bind (if claimed then add_task (RunExtract (jid j) u url url_norm lang) else tx_return ()) (\<lambda>_.
          tx_return \<lparr>re_job = jid j, re_status = Pending, re_hit = False, re_progress = 0, re_queued = \<not> claimed,
            re_position = Some (open_count + 1)\<rparr>)))))))"

definition extract_recipe ::
  "settings \<Rightarrow> (nat \<Rightarrow> stamp) \<Rightarrow> 'r call \<Rightarrow> string \<Rightarrow> string \<Rightarrow> uuid option \<Rightarrow> ('r, response) handler" where
  "extract_recipe cfg st c url language dl =
     (let u = ca_user c; s = as_user u; lang = normalize_language (Some language) in
      tx_bind (tx_lift (check_url c url)) (\<lambda>_.
      tx_bind (tx_lift (normalize_url url)) (\<lambda>url_norm.
      tx_bind (delivery_replay s u dl url_norm lang) (\<lambda>replayed.
      case replayed of Some r \<Rightarrow> tx_return r
      | None \<Rightarrow>
      tx_bind (extract_limits cfg c) (\<lambda>_.
      tx_bind (on_pipe (\<lambda>p. (Inr (find (\<lambda>x. rr_norm x = url_norm) (pi_recipes p)), p))) (\<lambda>cached.
      case cached of
        Some x \<Rightarrow>
          tx_bind (localized_recipe_row c x lang) (\<lambda>localized.
          if localized \<noteq> None then serve_hit st u (rr_id x) url url_norm lang dl
          else if openai_api_key cfg = [] then tx_raise no_api_key
          else tx_bind (ensure_translation_job cfg st c (rr_id x) url url_norm lang dl) (\<lambda>j.
            tx_return (answer j False False)))
      | None \<Rightarrow>
          tx_bind (join_active cfg st s u (import_of u url url_norm lang dl)) (\<lambda>joined.
          case joined of Some r \<Rightarrow> tx_return r
          | None \<Rightarrow>
              if openai_api_key cfg = [] then tx_raise no_api_key
              else start_import cfg st c url url_norm lang dl)))))))"

end
