(* ===== verification/Rely.thy ===== *)
theory Rely
  imports Tx
begin

section \<open>Contracts under interference\<close>

text \<open>
  Beyond a guarantee, a handler has a result: \<open>spec R P m Q\<close> says that a run of \<open>m\<close> that starts in
  \<open>P\<close>, while every other transaction stays in \<open>R\<close> and any call may fail, ends in \<open>Q\<close> of its result.
  Assertions on what \<open>R\<close> leaves alone (\<open>stable\<close>) pass over every call that keeps \<open>R\<close>. The rules
  decompose a handler along its text.
\<close>

definition spec ::
  "('db \<Rightarrow> 'db \<Rightarrow> bool) \<Rightarrow> ('db \<Rightarrow> bool) \<Rightarrow> ('db, 'r) tx \<Rightarrow> ('r res \<Rightarrow> 'db \<Rightarrow> bool) \<Rightarrow> bool" where
  "spec R P m Q \<longleftrightarrow> (\<forall>w r w'. env_in R w \<longrightarrow> P (db w) \<longrightarrow> m w = (r, w') \<longrightarrow> env_in R w' \<and> Q r (db w'))"

definition stable :: "('db \<Rightarrow> 'db \<Rightarrow> bool) \<Rightarrow> ('db \<Rightarrow> bool) \<Rightarrow> bool" where
  "stable R P \<longleftrightarrow> (\<forall>d d'. R d d' \<longrightarrow> P d \<longrightarrow> P d')"

lemma specD: "spec R P m Q \<Longrightarrow> env_in R w \<Longrightarrow> P (db w) \<Longrightarrow> m w = (r, w') \<Longrightarrow> Q r (db w')"
  unfolding spec_def by blast

lemma spec_return: "(\<And>d. P d \<Longrightarrow> Q (Inr x) d) \<Longrightarrow> spec R P (tx_return x) Q"
  and spec_raise: "(\<And>d. P d \<Longrightarrow> Q (Inl e) d) \<Longrightarrow> spec R P (tx_raise e) Q"
  and spec_lift: "(\<And>d. P d \<Longrightarrow> Q r d) \<Longrightarrow> spec R P (tx_lift r) Q"
  by (auto simp: spec_def)

lemma spec_bind:
  assumes "spec R P m (\<lambda>r d. case r of Inl e \<Rightarrow> Q (Inl e) d | Inr x \<Rightarrow> I x d)"
    and "\<And>x. spec R (I x) (f x) Q"
  shows "spec R P (tx_bind m f) Q"
  unfolding spec_def
proof (intro allI impI)
  fix w r w' assume q: "env_in R w" and p: "P (db w)" and b: "tx_bind m f w = (r, w')"
  obtain r1 w1 where m1: "m w = (r1, w1)" by (cases "m w")
  with assms(1) q p have 1: "env_in R w1" "case r1 of Inl e \<Rightarrow> Q (Inl e) (db w1) | Inr x \<Rightarrow> I x (db w1)"
    unfolding spec_def by blast+
  show "env_in R w' \<and> Q r (db w')"
    using b m1 1 assms(2) by (cases r1) (auto simp: tx_bind_def spec_def)
qed

lemma spec_catch:
  assumes "spec R P m (\<lambda>r d. case r of Inl e \<Rightarrow> I e d | Inr x \<Rightarrow> Q (Inr x) d)"
    and "\<And>e. spec R (I e) (h e) Q"
  shows "spec R P (tx_catch m h) Q"
  unfolding spec_def
proof (intro allI impI)
  fix w r w' assume q: "env_in R w" and p: "P (db w)" and b: "tx_catch m h w = (r, w')"
  obtain r1 w1 where m1: "m w = (r1, w1)" by (cases "m w")
  with assms(1) q p have 1: "env_in R w1" "case r1 of Inl e \<Rightarrow> I e (db w1) | Inr x \<Rightarrow> Q (Inr x) (db w1)"
    unfolding spec_def by blast+
  show "env_in R w' \<and> Q r (db w')"
    using b m1 1 assms(2) by (cases r1) (auto simp: tx_catch_def spec_def)
qed

lemma spec_if: "(b \<Longrightarrow> spec R P m Q) \<Longrightarrow> (\<not> b \<Longrightarrow> spec R P n Q) \<Longrightarrow> spec R P (if b then m else n) Q"
  by simp

lemma spec_option:
  "(x = None \<Longrightarrow> spec R P m Q) \<Longrightarrow> (\<And>y. x = Some y \<Longrightarrow> spec R P (f y) Q) \<Longrightarrow>
   spec R P (case x of None \<Rightarrow> m | Some y \<Rightarrow> f y) Q"
  by (cases x) auto

lemma spec_sum:
  "(\<And>y. x = Inl y \<Longrightarrow> spec R P (m y) Q) \<Longrightarrow> (\<And>y. x = Inr y \<Longrightarrow> spec R P (f y) Q) \<Longrightarrow>
   spec R P (case x of Inl y \<Rightarrow> m y | Inr y \<Rightarrow> f y) Q"
  by (cases x) auto

lemma spec_prod: "(\<And>a b. x = (a, b) \<Longrightarrow> spec R P (f a b) Q) \<Longrightarrow> spec R P (case x of (a, b) \<Rightarrow> f a b) Q"
  by (cases x) auto

lemma spec_let: "(\<And>x. x = t \<Longrightarrow> spec R P (f x) Q) \<Longrightarrow> spec R P (let x = t in f x) Q"
  by simp

lemma spec_conseq: "spec R P m Q \<Longrightarrow> (\<And>d. P' d \<Longrightarrow> P d) \<Longrightarrow> (\<And>r d. Q r d \<Longrightarrow> Q' r d) \<Longrightarrow> spec R P' m Q'"
  unfolding spec_def by blast

lemma spec_pure: "(F \<Longrightarrow> spec R P m Q) \<Longrightarrow> spec R (\<lambda>d. P d \<and> F) m Q"
  unfolding spec_def by blast

lemma spec_local:
  assumes "\<And>d. P d \<Longrightarrow> Q (fst (f d)) (snd (f d))"
  shows "spec R P (local f) Q"
  using assms by (fastforce simp: spec_def local_def env_in_def split: prod.splits)

text \<open>A call that keeps \<open>R\<close> passes a stable assertion on.\<close>

lemma spec_quiet:
  assumes "keeps R m" "stable R P" "\<And>r d. P d \<Longrightarrow> Q r d"
  shows "spec R P m Q"
  using assms unfolding spec_def keeps_def stable_def by blast

lemma spec_seq:
  assumes "spec R P m (\<lambda>_. P')" "\<And>e d. P' d \<Longrightarrow> Q (Inl e) d" "\<And>x. spec R P' (f x) Q"
  shows "spec R P (tx_bind m f) Q"
  by (rule spec_bind [OF spec_conseq [OF assms(1)] assms(3)]) (auto simp: assms(2) split: sum.split)

lemma spec_seq_sure:
  assumes "spec R P m (\<lambda>r d. (\<exists>x. r = Inr x) \<and> P' d)" "\<And>x. spec R P' (f x) Q"
  shows "spec R P (tx_bind m f) Q"
  by (rule spec_bind [OF spec_conseq [OF assms(1)] assms(2)]) auto

lemma spec_seq_quiet:
  assumes "keeps R m" "stable R P" "\<And>e d. P d \<Longrightarrow> Q (Inl e) d" "\<And>x. spec R P (f x) Q"
  shows "spec R P (tx_bind m f) Q"
  by (rule spec_seq [OF spec_quiet [OF assms(1,2)] assms(3,4)])

text \<open>A call whose success establishes \<open>A\<close>, which the other transactions leave alone.\<close>

lemma spec_atomically:
  assumes R: "\<And>d. R d (snd (f d))" and P: "stable R P"
    and A: "\<And>d x. P d \<Longrightarrow> fst (f d) = Inr x \<Longrightarrow> A x (snd (f d))"
  shows "spec R P (atomically f) (\<lambda>r d. P d \<and> (\<forall>x. r = Inr x \<longrightarrow> A x d))"
  unfolding spec_def
proof (intro allI impI)
  fix w r w' assume e: "env_in R w" and p: "P (db w)" and a: "atomically f w = (r, w')"
  have keep: "P d1" if "P d" "f d = (r1, d1)" for d r1 d1
    using that P R [of d] unfolding stable_def by force
  have got: "A x d1" if "P d" "f d = (Inr x, d1)" for d x d1 using A [of d x] that by simp
  show "env_in R w' \<and> P (db w') \<and> (\<forall>x. r = Inr x \<longrightarrow> A x (db w'))"
  proof (cases "env w")
    case Nil
    with a e p keep got show ?thesis by (auto simp: atomically_def env_in_def split: prod.splits)
  next
    case (Cons x es)
    have out: "env_in R (w\<lparr>db := d, env := es\<rparr>)" for d using e Cons by (auto simp: env_in_def)
    show ?thesis
    proof (cases x)
      case (Interfere g)
      with e p P Cons have "P (g (db w))" unfolding env_in_def stable_def by (metis list.set_intros(1))
      with a Cons Interfere out keep got show ?thesis by (auto simp: atomically_def split: prod.splits)
    next
      case LostReply
      with a Cons p keep [of "db w" "fst (f (db w))" "snd (f (db w))"] out show ?thesis
        by (auto simp: atomically_def)
    qed (use a Cons p keep got out [of "db w"] out in \<open>auto simp: atomically_def split: prod.splits\<close>)
  qed
qed

subsection \<open>Results\<close>

text \<open>What holds of every value a handler returns, whatever happens around it.\<close>

definition yields :: "('r \<Rightarrow> bool) \<Rightarrow> ('db, 'r) tx \<Rightarrow> bool" where
  "yields Y m \<longleftrightarrow> (\<forall>w x w'. m w = (Inr x, w') \<longrightarrow> Y x)"

lemma yields_rules:
  "Y x \<Longrightarrow> yields Y (tx_return x)"
  "yields Y (tx_raise e)"
  "(\<And>x. yields Y (f x)) \<Longrightarrow> yields Y (tx_bind k f)"
  "yields Y m \<Longrightarrow> (\<And>e. yields Y (h e)) \<Longrightarrow> yields Y (tx_catch m h)"
  "(b \<Longrightarrow> yields Y m) \<Longrightarrow> (\<not> b \<Longrightarrow> yields Y m') \<Longrightarrow> yields Y (if b then m else m')"
  by (auto simp: yields_def tx_bind_def tx_catch_def split: prod.splits sum.splits)

lemma yields_bind2: "yields X m \<Longrightarrow> (\<And>x. X x \<Longrightarrow> yields Y (f x)) \<Longrightarrow> yields Y (tx_bind m f)"
  by (fastforce simp: yields_def tx_bind_def split: prod.splits sum.splits)

lemma yields_cases:
  "(v = None \<Longrightarrow> yields Y m) \<Longrightarrow> (\<And>y. v = Some y \<Longrightarrow> yields Y (f y)) \<Longrightarrow>
   yields Y (case v of None \<Rightarrow> m | Some y \<Rightarrow> f y)"
  "(\<And>y. s = Inl y \<Longrightarrow> yields Y (l y)) \<Longrightarrow> (\<And>y. s = Inr y \<Longrightarrow> yields Y (k y)) \<Longrightarrow>
   yields Y (case s of Inl y \<Rightarrow> l y | Inr y \<Rightarrow> k y)"
  "(\<And>a b. p = (a, b) \<Longrightarrow> yields Y (g a b)) \<Longrightarrow> yields Y (case p of (a, b) \<Rightarrow> g a b)"
  by (auto split: option.split sum.split prod.split)

lemma spec_yields: "spec R P m Q \<Longrightarrow> yields Y m \<Longrightarrow> spec R P m (\<lambda>r d. Q r d \<and> (\<forall>x. r = Inr x \<longrightarrow> Y x))"
  unfolding spec_def yields_def by blast

end
