(* ===== verification/Admission.thy ===== *)
theory Admission
  imports Import_Handler Rely
begin

section \<open>What the import endpoint admits\<close>

text \<open>
  Facts on \<open>Import_Handler\<close>. Whatever fails and whatever other transactions do to the database, an
  import request leaves the slots of the process as they were, or it has added exactly one
  background task, whose slot is taken and whose spend is reserved in the ledger. The other
  transactions are those of other processes (\<open>beside\<close>): they do not reach the slots and the tasks of
  this one, and no transaction of the server removes a row of the ledger.
\<close>

definition ledger_jobs :: "'r app \<Rightarrow> uuid set" where
  "ledger_jobs a = lg_job ` set (ledger (spend (pi_db (ap_pipe a))))"

definition beside :: "'r app \<Rightarrow> 'r app \<Rightarrow> bool" where
  "beside a a' \<longleftrightarrow> pi_guard (ap_pipe a') = pi_guard (ap_pipe a) \<and> ap_tasks a' = ap_tasks a \<and>
     ledger_jobs a \<subseteq> ledger_jobs a'"

definition stands_at :: "uuid multiset \<Rightarrow> task list \<Rightarrow> 'r app \<Rightarrow> bool" where
  "stands_at h ts a \<longleftrightarrow> guard_ok (pi_guard (ap_pipe a)) \<and> held (pi_guard (ap_pipe a)) = h \<and> ap_tasks a = ts"

definition reserved_at :: "uuid multiset \<Rightarrow> task list \<Rightarrow> uuid \<Rightarrow> 'r app \<Rightarrow> bool" where
  "reserved_at h ts i a \<longleftrightarrow> stands_at h ts a \<and> i \<in> ledger_jobs a"

lemma stable_stands: "stable beside (stands_at h ts)" and stable_reserved: "stable beside (reserved_at h ts i)"
  by (auto simp: stable_def beside_def stands_at_def reserved_at_def)

interpretation bs: guarantee beside
  by unfold_locales (auto simp: beside_def)

subsection \<open>Calls that take no slot\<close>

lemma keeps_on_pipe:
  assumes "\<And>p. pi_guard (snd (f p)) = pi_guard p \<and>
      lg_job ` set (ledger (spend (pi_db p))) \<subseteq> lg_job ` set (ledger (spend (pi_db (snd (f p)))))"
  shows "keeps beside (on_pipe f)"
  unfolding on_pipe_def
  by (rule bs.keeps_atomically) (use assms in \<open>simp add: beside_def ledger_jobs_def case_prod_unfold\<close>)

lemma keeps_on_jobs:
  assumes "\<And>d. lg_job ` set (ledger (spend d)) \<subseteq> lg_job ` set (ledger (spend (snd (f d))))"
  shows "keeps beside (on_jobs f)"
  unfolding on_jobs_def by (rule keeps_on_pipe) (use assms in \<open>simp add: case_prod_unfold\<close>)

lemma keeps_query: "keeps beside (sql (atomically (\<lambda>d. (g d, d))))"
  unfolding sql_def by (rule keeps_on_jobs) simp

lemma keeps_active_row: "keeps beside (active_row s q)"
  unfolding active_row_def get_active_job_def by (simp add: keeps_query bs.keeps_return)

lemma keeps_delivery: "keeps beside (sql (get_job_by_delivery_id s u d))"
  and keeps_open_count: "keeps beside (sql (count_user_open_extract_jobs s u))"
  unfolding get_job_by_delivery_id_def count_user_open_extract_jobs_def by (rule keeps_query)+

lemma spend_enqueue [simp]: "spend (enqueue_pushes st old new d) = spend d"
  by (simp add: enqueue_pushes_def)

lemma spend_update_row [simp]: "spend (snd (update_row s st b f i d)) = spend d"
  by (simp add: update_row_def Let_def split: option.split)

lemma spend_insert_job [simp]: "spend (snd (insert_job s st j d)) = spend d"
  by (simp add: insert_job_def)

lemma spend_insert_access [simp]: "spend (snd (insert_access s i u d)) = spend d"
  by (simp add: insert_access_def)

lemma keeps_put_job: "keeps beside (put_job s st i cols)"
  unfolding put_job_def by (rule keeps_on_jobs) simp

lemma keeps_insert: "keeps beside (on_jobs (insert_job s st j))"
  by (rule keeps_on_jobs) simp

lemma settled_jobs [simp]: "lg_job ` set (ledger (settle_api_spend i c status sp)) = lg_job ` set (ledger sp)"
proof -
  have "lg_job (settle_row i c status r) = lg_job r" for r by (simp add: settle_row_def)
  then show ?thesis by (simp add: settle_api_spend_def image_image)
qed

lemma keeps_settle: "keeps beside (settle_spend_of i c status)"
  unfolding settle_spend_of_def by (intro bs.keeps_rules keeps_on_jobs) simp

lemma keeps_expire: "keeps beside (expire_stale_job cfg s st j)"
  unfolding expire_stale_job_def by (intro bs.keeps_rules keeps_put_job keeps_settle)

lemma keeps_share: "keeps beside (share_job_or_http s u j)"
  unfolding share_job_or_http_def by (intro bs.keeps_rules keeps_on_jobs) simp

lemma keeps_attach: "keeps beside (attach_recipe_or_retry u r)"
  unfolding attach_recipe_or_retry_def by (intro bs.keeps_rules keeps_on_pipe) (auto simp: save_user_recipe_def)

lemma keeps_winner: "keeps beside (winner_or_raise s q)"
  unfolding winner_or_raise_def by (intro bs.keeps_rules keeps_active_row)

lemma keeps_new_job: "keeps beside (new_job s st q)"
  unfolding new_job_def by (intro bs.keeps_rules keeps_insert keeps_delivery keeps_winner)

lemma keeps_quota: "keeps beside (check_quota c now hit)"
  unfolding check_quota_def by (rule keeps_on_pipe) simp

lemma keeps_limit: "keeps beside (limit_calls cfg c n key lmt win event retry who)"
  unfolding limit_calls_def
  by (rule bs.keeps_local) (simp add: beside_def ledger_jobs_def split: prod.split)

lemma keeps_limits: "keeps beside (extract_limits cfg c)"
  unfolding extract_limits_def by (intro bs.keeps_rules keeps_limit)

lemma keeps_localized: "keeps beside (localized_recipe_row c x lang)"
  unfolding localized_recipe_row_def
  by (intro bs.keeps_rules bs.keeps_atomically) (simp add: beside_def)

lemma keeps_join: "keeps beside (join_active cfg st s u q)"
  unfolding join_active_def by (intro bs.keeps_rules keeps_active_row keeps_expire keeps_share)

lemma keeps_replay: "keeps beside (delivery_replay s u dl url_norm lang)"
  unfolding delivery_replay_def by (intro bs.keeps_rules keeps_delivery keeps_attach)

lemma keeps_hit: "keeps beside (serve_hit st u recipe url url_norm lang dl)"
  unfolding serve_hit_def by (intro bs.keeps_rules keeps_new_job keeps_attach keeps_on_pipe) simp

lemma keeps_writes: "keeps beside (require_writes_enabled cfg)"
  unfolding require_writes_enabled_def by (intro bs.keeps_rules)

lemmas quiet = keeps_active_row keeps_delivery keeps_open_count keeps_put_job keeps_expire keeps_share
  keeps_new_job keeps_quota keeps_limits keeps_localized keeps_join keeps_replay keeps_hit keeps_writes

subsection \<open>Slots and reservations\<close>

definition with_slot :: "bool \<Rightarrow> uuid \<Rightarrow> uuid multiset \<Rightarrow> uuid multiset" where
  "with_slot c u h = (if c then add_mset u h else h)"

lemma spec_take:
  "spec beside (stands_at h ts) (take_slot cfg u)
     (\<lambda>r a. case r of Inl _ \<Rightarrow> False | Inr b \<Rightarrow> stands_at (with_slot b u h) ts a)"
  unfolding take_slot_def
  by (rule spec_local) (use try_claim_keeps in \<open>fastforce simp: stands_at_def with_slot_def split: prod.split\<close>)

lemma spec_require:
  "spec beside (stands_at h ts) (require_slot cfg u)
     (\<lambda>r a. case r of Inl _ \<Rightarrow> stands_at h ts a | Inr _ \<Rightarrow> stands_at (add_mset u h) ts a)"
  unfolding require_slot_def claim_def
  by (rule spec_local)
    (use try_claim_keeps in \<open>fastforce simp: stands_at_def split: prod.split bool.split\<close>)

lemma spec_free:
  "spec beside (stands_at (with_slot c u h) ts) (free_if c u) (\<lambda>r a. (\<exists>x. r = Inr x) \<and> stands_at h ts a)"
proof (cases c)
  case True
  then show ?thesis unfolding free_if_def give_slot_def with_slot_def
    by (simp, intro spec_local) (simp add: stands_at_def release_keeps)
qed (simp add: free_if_def with_slot_def spec_return)

lemma expired_jobs [simp]: "lg_job ` expire now ` rs = lg_job ` rs"
  by (simp add: image_image)

lemma allowed_books:
  assumes "rs_allowed (fst (reserve_api_spend now n u i c b1 b2 b3 sp))"
  shows "i \<in> lg_job ` set (ledger (snd (reserve_api_spend now n u i c b1 b2 b3 sp)))"
proof (cases "find (\<lambda>r. lg_job r = i) (map (expire now) (ledger sp))")
  case None
  with assms show ?thesis by (auto simp: reserve_api_spend_def Let_def split: if_splits)
next
  case (Some r)
  then have "r \<in> expire now ` set (ledger sp)" "lg_job r = i"
    by (auto simp: find_Some_iff in_set_conv_nth) (metis nth_map nth_mem image_eqI)
  then have "i \<in> lg_job ` expire now ` set (ledger sp)" by blast
  with assms Some show ?thesis by (simp add: reserve_api_spend_def Let_def split: if_splits)
qed

lemma reserve_books:
  assumes "fst (reserve_spend cfg ok now n row prof u i sp) = Inr x"
  shows "i \<in> lg_job ` set (ledger (snd (reserve_spend cfg ok now n row prof u i sp)))"
proof -
  let ?a = "reserve_api_spend now n u i (max_job_cost_cents cfg) (daily_api_budget_cents cfg)
      (monthly_api_budget_cents cfg) (user_monthly_budget cfg row prof) sp"
  have "rs_allowed (fst ?a)" "snd (reserve_spend cfg ok now n row prof u i sp) = snd ?a"
    using assms by (auto simp: reserve_spend_def case_prod_unfold split: if_splits option.splits)
  then show ?thesis using allowed_books by metis
qed

lemma reserve_monotone:
  "lg_job ` set (ledger sp) \<subseteq> lg_job ` set (ledger (snd (reserve_spend cfg ok now n row prof u i sp)))"
proof -
  let ?a = "reserve_api_spend now n u i (max_job_cost_cents cfg) (daily_api_budget_cents cfg)
      (monthly_api_budget_cents cfg) (user_monthly_budget cfg row prof) sp"
  have "lg_job ` set (ledger sp) \<subseteq> lg_job ` set (ledger (snd ?a))"
    using reserve_ledger [of now n u i "max_job_cost_cents cfg" "daily_api_budget_cents cfg"
      "monthly_api_budget_cents cfg" "user_monthly_budget cfg row prof" sp] by auto
  moreover have "snd (reserve_spend cfg ok now n row prof u i sp) \<in> {sp, snd ?a}"
    by (auto simp: reserve_spend_def case_prod_unfold split: if_splits option.splits)
  ultimately show ?thesis by auto
qed

lemma spec_reserve:
  "spec beside (stands_at h ts) (reserve cfg st c i)
     (\<lambda>r a. stands_at h ts a \<and> (\<forall>x. r = Inr x \<longrightarrow> i \<in> ledger_jobs a))"
proof (cases "billing_guard_enabled cfg")
  case True
  let ?f = "\<lambda>d. case reserve_spend cfg True (st_now st) (st_id st ''reservation'') (ca_settings c)
      (case ca_limits c of None \<Rightarrow> None | Some l \<Rightarrow> Some (ca_pro c, l)) (ca_user c) i (spend d) of
        (r, s) \<Rightarrow> (r, d\<lparr>spend := s\<rparr>)"
  have "spec beside (stands_at h ts) (on_jobs ?f)
     (\<lambda>r a. stands_at h ts a \<and> (\<forall>x. r = Inr x \<longrightarrow> i \<in> ledger_jobs a))"
    unfolding on_jobs_def on_pipe_def
    by (rule spec_atomically [OF _ stable_stands])
      (simp_all add: beside_def ledger_jobs_def case_prod_unfold reserve_monotone reserve_books)
  then show ?thesis
    unfolding reserve_def using True
    by (simp, intro spec_catch [where I = "\<lambda>_. stands_at h ts"] spec_if spec_raise)
      (auto elim!: spec_conseq split: sum.splits)
qed (simp add: reserve_def spec_raise)

lemmas quietly = spec_seq_quiet [OF _ stable_stands] spec_seq_quiet [OF _ stable_reserved]

text \<open>A creation that ends with an existing job, or fails, has given the slot back.\<close>

lemma spec_create_import:
  "spec beside (stands_at (with_slot c u h) ts) (create_import cfg st s u c q)
     (\<lambda>r a. case r of Inr (Inr j) \<Rightarrow> stands_at (with_slot c u h) ts a | _ \<Rightarrow> stands_at h ts a)"
  unfolding create_import_def
proof (rule spec_catch [where I = "\<lambda>_. stands_at (with_slot c u h) ts"], goal_cases)
  case 1
  show ?case
    by (intro quietly(1) [OF keeps_new_job] spec_prod spec_if spec_raise spec_seq_sure [OF spec_free] spec_return) simp_all
next
  case (2 e)
  show ?case
    by (intro spec_seq_sure [OF spec_free] quietly keeps_join spec_if spec_option spec_raise spec_return) simp_all
qed

lemma spec_create_translation:
  "spec beside (stands_at (with_slot c u h) ts) (create_translation st s u c q)
     (\<lambda>r a. case r of Inr (Inr j) \<Rightarrow> stands_at (with_slot c u h) ts a | _ \<Rightarrow> stands_at h ts a)"
  unfolding create_translation_def
proof (rule spec_catch [where I = "\<lambda>_. stands_at (with_slot c u h) ts"], goal_cases)
  case 1
  show ?case
    by (intro quietly(1) [OF keeps_new_job] spec_prod spec_if spec_raise spec_seq_sure [OF spec_free] spec_return) simp_all
next
  case (2 e)
  show ?case
    by (intro spec_seq_sure [OF spec_free] quietly keeps_active_row keeps_share spec_if spec_option spec_raise spec_return) simp_all
qed

text \<open>A job that is paid for is in the ledger; otherwise the slot has been given back.\<close>

lemma spec_pay:
  assumes "ca_user ca = u"
  shows "spec beside (stands_at (with_slot c u h) ts) (pay_or_fail cfg st s ca c msg j)
     (\<lambda>r a. case r of Inr _ \<Rightarrow> reserved_at (with_slot c u h) ts (jid j) a | Inl _ \<Rightarrow> stands_at h ts a)"
  unfolding pay_or_fail_def assms
proof (rule spec_catch [where I = "\<lambda>_. stands_at (with_slot c u h) ts"], goal_cases)
  case 1
  show ?case
    by (rule spec_bind [where I = "\<lambda>_. reserved_at (with_slot c u h) ts (jid j)"])
      (auto intro!: spec_conseq [OF spec_reserve] spec_return simp: reserved_at_def split: sum.splits)
next
  case (2 e)
  show ?case
    by (intro spec_seq_sure [OF spec_free] quietly keeps_put_job spec_raise) simp_all
qed

lemma spec_add_task: "spec beside (reserved_at h ts i) (add_task t) (\<lambda>r. reserved_at h (ts @ [t]) i)"
  unfolding add_task_def by (rule spec_local) (simp add: reserved_at_def stands_at_def ledger_jobs_def)

subsection \<open>Requests\<close>

text \<open>
  The end of a request: nothing is held for it, or the task it started, in \<open>T\<close>, is paid for. A result
  in \<open>F\<close> is paid for in any case.
\<close>

definition ran ::
  "uuid \<Rightarrow> uuid multiset \<Rightarrow> task list \<Rightarrow> ('x \<Rightarrow> uuid) \<Rightarrow> ('x \<Rightarrow> bool) \<Rightarrow> ('x \<Rightarrow> task \<Rightarrow> bool) \<Rightarrow> 'x res \<Rightarrow> 'r app \<Rightarrow> bool" where
  "ran u h ts i F T r a \<longleftrightarrow> stands_at h ts a \<and> (\<forall>x. r = Inr x \<longrightarrow> F x \<longrightarrow> i x \<in> ledger_jobs a) \<or>
     (\<exists>x t. r = Inr x \<and> T x t \<and> reserved_at (add_mset u h) (ts @ [t]) (i x) a)"

lemma ran_idle: "stands_at h ts a \<Longrightarrow> (\<And>x. r = Inr x \<Longrightarrow> \<not> F x) \<Longrightarrow> ran u h ts i F T r a"
  and ran_failed: "stands_at h ts a \<Longrightarrow> ran u h ts i F T (Inl e) a"
  by (auto simp: ran_def)

lemma spec_run_quiet:
  "keeps beside m \<Longrightarrow> yields (\<lambda>x. \<not> F x) m \<Longrightarrow> spec beside (stands_at h ts) m (ran u h ts i F T)"
  by (rule spec_conseq [OF spec_yields [OF spec_quiet [OF _ stable_stands, where Q = "\<lambda>_. stands_at h ts"]]])
    (auto simp: ran_def)

lemma spec_pay_and_run:
  assumes "ca_user c = u" "i x = jid j" "b \<Longrightarrow> T x t"
  shows "spec beside (stands_at (with_slot b u h) ts)
     (tx_bind (pay_or_fail cfg st s c b msg j) (\<lambda>_.
        tx_bind (if b then add_task t else tx_return ()) (\<lambda>_. tx_return x)))
     (ran u h ts i F T)"
proof (rule spec_bind [where I = "\<lambda>_. reserved_at (with_slot b u h) ts (jid j)"], goal_cases)
  case 1
  show ?case by (rule spec_conseq [OF spec_pay [OF assms(1)]]) (auto simp: ran_failed split: sum.splits)
next
  case 2
  show ?case
  proof (cases b)
    case True
    show ?thesis
      by (rule spec_seq_sure [where P' = "reserved_at (add_mset u h) (ts @ [t]) (jid j)"])
        (use True assms in \<open>auto intro!: spec_return simp: ran_def add_task_def with_slot_def reserved_at_def
            stands_at_def ledger_jobs_def spec_def local_def env_in_def\<close>)
  next
    case False
    then show ?thesis
      by (intro spec_seq_sure [where P' = "reserved_at h ts (jid j)"] spec_if spec_return)
        (auto simp: ran_def with_slot_def reserved_at_def assms)
  qed
qed

text \<open>Only a new import has a place in the queue.\<close>

definition placed :: "response \<Rightarrow> bool" where
  "placed x \<longleftrightarrow> re_position x \<noteq> None"

lemma answer_unplaced [simp]: "\<not> placed (answer j hit queued)"
  by (simp add: placed_def answer_def)

lemma yields_join: "yields (\<lambda>v. \<forall>x. v = Some x \<longrightarrow> \<not> placed x) (join_active cfg st s u q)"
  unfolding join_active_def by (intro yields_rules yields_cases) auto

lemma yields_replay: "yields (\<lambda>v. \<forall>x. v = Some x \<longrightarrow> \<not> placed x) (delivery_replay s u dl un lang)"
  unfolding delivery_replay_def by (intro yields_rules yields_cases) auto

lemma yields_hit: "yields (\<lambda>x. \<not> placed x) (serve_hit st u recipe url un lang dl)"
  unfolding serve_hit_def by (intro yields_rules yields_cases) (auto simp: placed_def answer_def)

lemma yields_create: "yields (\<lambda>m. \<forall>x. m = Inl x \<longrightarrow> \<not> placed x) (create_import cfg st s u c q)"
  unfolding create_import_def
  by (intro yields_rules(3-5) yields_cases yields_bind2 [OF yields_join] yields_rules(1,2)) auto

lemma spec_start_import:
  "spec beside (stands_at h ts) (start_import cfg st c url un lang dl)
     (ran (ca_user c) h ts re_job placed (\<lambda>x t. \<not> worker_enabled cfg \<and> t = RunExtract (re_job x) (ca_user c) url un lang))"
  unfolding start_import_def Let_def
proof (intro quietly(1) [OF keeps_quota] quietly(1) [OF keeps_open_count] spec_if spec_raise ran_failed, goal_cases)
  case (4 x n)
  let ?u = "ca_user c"
  show ?case
  proof (rule spec_bind [where I = "\<lambda>b a. stands_at (with_slot b ?u h) ts a \<and> (b \<longrightarrow> \<not> worker_enabled cfg)"], goal_cases)
    case 1
    show ?case
      by (intro spec_if spec_return spec_conseq [OF spec_take]) (auto simp: with_slot_def split: sum.splits)
  next
    case (2 b)
    show ?case
    proof (rule spec_pure, rule spec_bind [where I = "\<lambda>m a. case m of Inr j \<Rightarrow> stands_at (with_slot b ?u h) ts a
          | Inl x \<Rightarrow> stands_at h ts a \<and> \<not> placed x"], goal_cases)
      case 1
      show ?case
        by (rule spec_conseq [OF spec_yields [OF spec_create_import yields_create]]) (auto simp: ran_failed split: sum.splits)
    next
      case (2 m)
      show ?case
      proof (cases m)
        case (Inl x)
        then show ?thesis by (simp only: sum.case) (rule spec_return, rule ran_idle, auto simp: placed_def)
      next
        case (Inr j)
        then show ?thesis by (simp only: sum.case) (rule spec_pay_and_run, use 2 in simp_all)
      qed
    qed
  qed
qed simp_all

lemma spec_ensure:
  "spec beside (stands_at h ts) (ensure_translation_job cfg st c recipe url un lang dl)
     (ran (ca_user c) h ts jid (\<lambda>x. False) (\<lambda>x t. \<not> worker_enabled cfg \<and>
        t = RunTranslation (jid x) (ca_user c) recipe (normalize_language (Some lang))))"
  unfolding ensure_translation_job_def Let_def
proof (intro quietly(1) [OF keeps_writes] quietly(1) [OF keeps_active_row], goal_cases)
  case (3 x found)
  let ?u = "ca_user c" and ?b = "\<not> worker_enabled cfg"
  have shared: "keeps beside (case found of None \<Rightarrow> tx_return None
      | Some j \<Rightarrow> tx_bind (expire_stale_job cfg (as_user ?u) (st 23) j) (\<lambda>expired.
          if expired then tx_return None
          else tx_bind (share_job_or_http (as_user ?u) ?u j) (\<lambda>_. tx_return (Some j))))"
    by (intro bs.keeps_rules keeps_expire keeps_share)
  show ?case
  proof (rule quietly(1) [OF shared], goal_cases)
    case (2 found)
    show ?case
    proof (rule spec_option, goal_cases)
      case 1
      show ?case
      proof (rule quietly(1) [OF keeps_quota], erule ran_failed, rule spec_bind [where I = "\<lambda>_. stands_at (with_slot ?b ?u h) ts"], goal_cases)
        case 1
        show ?case
          by (intro spec_if spec_return spec_conseq [OF spec_require]) (auto simp: with_slot_def ran_failed split: sum.splits)
      next
        case (2 x)
        show ?case
        proof (rule spec_bind [where I = "\<lambda>m a. case m of Inr j \<Rightarrow> stands_at (with_slot ?b ?u h) ts a
            | Inl _ \<Rightarrow> stands_at h ts a"], goal_cases)
          case 1
          show ?case by (rule spec_conseq [OF spec_create_translation]) (auto simp: ran_failed split: sum.splits)
        next
          case (2 m)
          then show ?case
            by (cases m) (simp_all only: sum.case, rule spec_return, simp add: ran_idle, rule spec_pay_and_run, simp_all)
        qed
      qed
    qed (auto intro: spec_return ran_idle)
  qed (rule ran_failed)
qed (rule ran_failed; assumption)+

subsection \<open>The endpoint\<close>

text \<open>A task of an import request: the address has passed the check of the gateway.\<close>

definition started :: "settings \<Rightarrow> 'r call \<Rightarrow> string \<Rightarrow> string \<Rightarrow> response \<Rightarrow> task \<Rightarrow> bool" where
  "started cfg c url language x t \<longleftrightarrow> \<not> worker_enabled cfg \<and> openai_api_key cfg \<noteq> [] \<and> check_url c url = Inr () \<and>
     (let lang = normalize_language (Some language) in
      (\<exists>un. normalize_url url = Inr un \<and> t = RunExtract (re_job x) (ca_user c) url un lang) \<or>
      (\<exists>recipe. t = RunTranslation (re_job x) (ca_user c) recipe (normalize_language (Some lang))))"

lemma spec_tx_lift:
  assumes "\<And>e d. P d \<Longrightarrow> Q (Inl e) d" "\<And>x. v = Inr x \<Longrightarrow> spec R P (f x) Q"
  shows "spec R P (tx_bind (tx_lift v) f) Q"
  using assms by (cases v) (simp_all add: spec_raise del: tx_simps)

text \<open>A step that may answer the request itself.\<close>

lemma spec_or_answer:
  assumes "keeps beside m" "yields (\<lambda>v. \<forall>x. v = Some x \<longrightarrow> \<not> placed x) m"
    and "spec beside (stands_at h ts) k (ran u h ts re_job placed T)"
  shows "spec beside (stands_at h ts) (tx_bind m (\<lambda>v. case v of None \<Rightarrow> k | Some x \<Rightarrow> tx_return x))
     (ran u h ts re_job placed T)"
proof (rule spec_bind [where I = "\<lambda>v a. stands_at h ts a \<and> (\<forall>x. v = Some x \<longrightarrow> \<not> placed x)"], goal_cases)
  case 1
  show ?case
    by (rule spec_conseq [OF spec_yields [OF spec_quiet [OF assms(1) stable_stands, where Q = "\<lambda>_. stands_at h ts"] assms(2)]])
      (auto simp: ran_failed split: sum.split)
next
  case (2 v)
  show ?case
    by (rule spec_pure, cases v)
      (auto simp: assms(3) intro!: spec_return ran_idle simp del: tx_simps)
qed

lemma keeps_cached: "keeps beside (on_pipe (\<lambda>p. (Inr (find P (pi_recipes p)), p)))"
  by (rule keeps_on_pipe) simp

lemma spec_extract:
  "spec beside (stands_at h ts) (extract_recipe cfg st c url language dl)
     (ran (ca_user c) h ts re_job placed (started cfg c url language))"
  unfolding extract_recipe_def Let_def
proof (intro spec_tx_lift ran_failed spec_or_answer [OF keeps_replay yields_replay]
    quietly(1) [OF keeps_limits] quietly(1) [OF keeps_cached], goal_cases)
  case (5 y un x cached)
  let ?lang = "normalize_language (Some language)" and ?u = "ca_user c"
  show ?case
  proof (rule spec_option, goal_cases)
    case 1
    have T: "\<not> worker_enabled cfg \<and> t = RunExtract (re_job x) ?u url un ?lang \<Longrightarrow> openai_api_key cfg \<noteq> [] \<Longrightarrow>
        started cfg c url language x t" for x t
      using 5 by (auto simp: started_def)
    show ?case
      by (intro spec_or_answer [OF keeps_join yields_join] spec_if spec_raise ran_failed
          spec_conseq [OF spec_start_import]) (auto simp: ran_def T)
  next
    case (2 r)
    have T: "\<not> worker_enabled cfg \<and> t = RunTranslation i ?u (rr_id r) (normalize_language (Some ?lang)) \<Longrightarrow>
        openai_api_key cfg \<noteq> [] \<Longrightarrow> re_job x = i \<Longrightarrow> started cfg c url language x t" for x t i
      using 5 by (auto simp: started_def)
    show ?case
    proof (rule quietly(1) [OF keeps_localized], erule ran_failed, intro spec_if, goal_cases)
      case 1
      show ?case
        by (rule spec_run_quiet [OF keeps_hit yields_hit])
    next
      case 2
      show ?case by (rule spec_raise) (erule ran_failed)
    next
      case 3
      then show ?case
        by (intro spec_bind [where I = "\<lambda>j a. ran ?u h ts jid (\<lambda>_. False) (\<lambda>x t. \<not> worker_enabled cfg \<and>
              t = RunTranslation (jid x) ?u (rr_id r) (normalize_language (Some ?lang))) (Inr j) a"]
            spec_return spec_conseq [OF spec_ensure])
          (fastforce simp: ran_def answer_def T placed_def split: sum.splits)+
    qed
  qed
qed


subsection \<open>Examples\<close>

definition ex_call :: "unit call" where
  "ex_call = \<lparr>ca_user = ''u'', ca_pro = False, ca_limits = None, ca_settings = None, ca_ip = ''203.0.113.7'', ca_mono = 0,
     ca_redis = (\<lambda>_. \<lparr>connect_ok = False, incr_reply = None, expire_ok = False\<rparr>), ca_audit_ok = True,
     ca_resolve = (\<lambda>_ _. Some [''8.8.8.8'']), ca_print = (\<lambda>_. []), ca_overlay = (\<lambda>r _. r)\<rparr>"

definition ex_app :: "job list \<Rightarrow> unit recipe_row list \<Rightarrow> unit app" where
  "ex_app js rs = \<lparr>ap_pipe = \<lparr>pi_db = ex_jobs js, pi_recipes = rs, pi_saved = [], pi_usage = [], pi_guard = init_guard,
       pi_meter = new_meter, pi_reasons = []\<rparr>,
     ap_sec = \<lparr>sec_cache = reset_cache, sec_limiters = (\<lambda>_. None), sec_bans = (\<lambda>_. None), sec_audit = []\<rparr>,
     ap_translations = [], ap_tasks = []\<rparr>"

definition ex_cfg :: settings where
  "ex_cfg = default_settings\<lparr>openai_api_key := ''sk''\<rparr>"

definition ex_import :: "unit app fault list \<Rightarrow> (response res) \<times> unit app world" where
  "ex_import es = extract_recipe ex_cfg (\<lambda>_. ex_stamp) ex_call ''https://youtu.be/x'' ''en'' None \<lparr>db = ex_app [] [], env = es\<rparr>"


subsection \<open>The same import requested twice at once\<close>

definition twin :: "unit app fault list \<Rightarrow> unit app \<Rightarrow> unit app" where
  "twin es a = db (snd (start_import ex_cfg (\<lambda>_. ex_stamp) ex_call ''x'' ''x'' ''en-US'' None \<lparr>db = a, env = es\<rparr>))"

text \<open>Two simultaneous requests of a user for the same address start the same job twice: when the second one is
  answered between the count of open imports and the insertion of the first, the insertion finds the job of the
  other, which is not marked as a replay, and starts it again; both runs share one reservation.\<close>

theorem import_started_twice:
  "(let a = twin [Quiet, Quiet, Interfere (twin [])] (ex_app [] []) in
     (\<exists>t. ap_tasks a = [t, t]) \<and> length (ledger (spend (pi_db (ap_pipe a)))) = 1)"
proof -
  define a where "a = twin [Quiet, Quiet, Interfere (twin [])] (ex_app [] [])"
  have "case ap_tasks a of [t, t'] \<Rightarrow> t = t' | _ \<Rightarrow> False" unfolding a_def by code_simp
  moreover have "length (ledger (spend (pi_db (ap_pipe a)))) = 1" unfolding a_def by code_simp
  ultimately show ?thesis unfolding a_def [symmetric] Let_def by (auto split: list.splits)
qed

end
