(* ===== verification/Job_Status.thy ===== *)
theory Job_Status
  imports Admission
begin

section \<open>The job endpoints\<close>

text \<open>
  \<open>GET /v1/jobs/{job_id}\<close> and \<open>GET /v1/me/jobs\<close> of app/main.py: who may see a job, the expiry of a stale
  one, the recipe in the requested language, and the queue of the caller. The branch that starts a
  translation evaluates the name \<open>request\<close>, which neither the function nor the module binds, so
  it raises \<open>NameError\<close> before anything of the translation is done.
\<close>

record 'r poll =
  po_job :: uuid
  po_status :: job_status
  po_hit :: bool
  po_recipe :: "'r option"
  po_recipe_id :: "uuid option"
  po_error :: "utext option"
  po_code :: "string option"
  po_progress :: int

definition job_missing :: exn where
  "job_missing = HTTPException 404 None ''Job not found'' None"

definition not_your_job :: exn where
  "not_your_job = HTTPException 403 None ''Not your job'' None"

text \<open>\<open>user_can_access_job\<close> with the row at hand: the owner needs no query.\<close>

definition may_see :: "session \<Rightarrow> uuid \<Rightarrow> job \<Rightarrow> ('r, bool) handler" where
  "may_see s u j =
     (if jowner j = Some u then tx_return True
      else tx_catch (on_jobs (\<lambda>d. (Inr ((se_service s \<or> se_user s = Some u) \<and> (jid j, u) \<in> set (shared_access d)), d)))
        (\<lambda>_. tx_raise access_unavailable))"

definition expired_row :: "job \<Rightarrow> job" where
  "expired_row j = j\<lparr>jstatus := Failed, jprogress := 0, jerror := Some stale_job\<rparr>"

definition recipe_of :: "uuid option \<Rightarrow> ('r, 'r recipe_row option) handler" where
  "recipe_of r = (case r of None \<Rightarrow> tx_return None
     | Some i \<Rightarrow> on_pipe (\<lambda>p. (Inr (find (\<lambda>x. rr_id x = i) (pi_recipes p)), p)))"

text \<open>An error without text is no error.\<close>

definition poll_error :: "string option \<Rightarrow> string \<Rightarrow> utext option res" where
  "poll_error e language = (if e = None \<or> e = Some [] then Inr None else localize_job_error e (Some language))"

definition poll_answer :: "job \<Rightarrow> 'r option \<Rightarrow> string \<Rightarrow> 'r poll res" where
  "poll_answer j r language =
     (case poll_error (jerror j) language of
        Inl e \<Rightarrow> Inl e
      | Inr e \<Rightarrow> Inr \<lparr>po_job = jid j, po_status = jstatus j, po_hit = jhit j, po_recipe = r, po_recipe_id = jrecipe j,
          po_error = e, po_code = job_error_code (jerror j), po_progress = jprogress j\<rparr>)"

definition get_job_status :: "settings \<Rightarrow> (nat \<Rightarrow> stamp) \<Rightarrow> 'r call \<Rightarrow> uuid \<Rightarrow> string \<Rightarrow> ('r, 'r poll) handler" where
  "get_job_status cfg st c i language =
     (let u = ca_user c; s = as_user u; wanted = normalize_language (Some language) in
      tx_bind (require_writes_enabled cfg) (\<lambda>_.
      tx_bind (sql (get_job s i)) (\<lambda>row.
      case row of
        None \<Rightarrow> tx_raise job_missing
      | Some j0 \<Rightarrow>
          tx_bind (may_see s u j0) (\<lambda>may.
          if \<not> may then tx_raise not_your_job
          else tx_bind (expire_stale_job cfg s (st 0) j0) (\<lambda>expired.
          let j = (if expired then expired_row j0 else j0); own = normalize_language (Some (jlang j)) in
          tx_bind (recipe_of (jrecipe j)) (\<lambda>found.
          case found of
            None \<Rightarrow> tx_lift (poll_answer j None language)
          | Some x \<Rightarrow>
              tx_bind (attach_recipe_or_retry u (rr_id x)) (\<lambda>_.
              tx_bind (localized_recipe_row c x (if jkind j = Translation then own else wanted)) (\<lambda>localized.
              if jkind j = Extract \<and> jstatus j = Completed \<and> localized = None \<and> wanted \<noteq> own then tx_raise NameError
              else tx_lift (poll_answer j (Some (case localized of None \<Rightarrow> rr_recipe x | Some r \<Rightarrow> r)) language)))))))))"

record queue_item =
  qi_job :: uuid
  qi_status :: job_status
  qi_progress :: int
  qi_source :: string
  qi_position :: nat
  qi_created :: instant
  qi_kind :: job_kind

definition queue_row :: "nat \<times> job \<Rightarrow> queue_item" where
  "queue_row p = (case p of (n, j) \<Rightarrow> \<lparr>qi_job = jid j, qi_status = jstatus j, qi_progress = jprogress j,
     qi_source = (if jraw j = [] then jnorm j else jraw j), qi_position = n + 1, qi_created = jcreated j, qi_kind = jkind j\<rparr>)"

definition list_my_jobs :: "settings \<Rightarrow> 'r call \<Rightarrow> ('r, queue_item list) handler" where
  "list_my_jobs cfg c =
     tx_bind (sql (list_user_open_extract_jobs (as_user (ca_user c)) (ca_user c) (nat (max_pending_jobs_per_user cfg))))
       (\<lambda>js. tx_return (map queue_row (List.enumerate 0 js)))"

subsection \<open>Access\<close>

definition can_see :: "uuid \<Rightarrow> uuid \<Rightarrow> job_db \<Rightarrow> bool" where
  "can_see u i d \<longleftrightarrow> list_ex (\<lambda>j. jid j = i \<and> (jowner j = Some u \<or> (i, u) \<in> set (shared_access d))) (jobs d)"

declare on_pipe_alone [simp] on_jobs_alone [simp]

lemma same_app: "a\<lparr>ap_pipe := (ap_pipe a)\<lparr>pi_db := pi_db (ap_pipe a)\<rparr>\<rparr> = a"
  by simp

lemma get_job_alone:
  "sql (get_job s i) (alone a) = (Inr (find (\<lambda>_. True) (rows s (\<lambda>j. jid j = i) (pi_db (ap_pipe a)))), alone a)"
  by (simp add: sql_def get_job_def)

lemma get_job_some:
  "find (\<lambda>_. True) (rows s (\<lambda>j. jid j = i) d) = Some j \<Longrightarrow> j \<in> set (jobs d) \<and> jid j = i"
  by (auto simp: rows_def find_Some_iff dest!: nth_mem)

text \<open>A job is nobody else's business: a caller who neither owns the job nor was given access to it learns only
  that it does not exist or is not his, and his request changes nothing.\<close>

theorem poll_refused:
  assumes "\<not> can_see (ca_user c) i (pi_db (ap_pipe a))"
  shows "fst (get_job_status cfg st c i language (alone a)) \<in> {Inl maintenance, Inl job_missing, Inl not_your_job} \<and>
    snd (get_job_status cfg st c i language (alone a)) = alone a"
proof (cases "find (\<lambda>_. True) (rows (as_user (ca_user c)) (\<lambda>j. jid j = i) (pi_db (ap_pipe a)))")
  case None
  then show ?thesis
    by (simp add: get_job_status_def Let_def require_writes_enabled_def tx_bind_def get_job_alone)
next
  case (Some j)
  have "jowner j \<noteq> Some (ca_user c)" "(jid j, ca_user c) \<notin> set (shared_access (pi_db (ap_pipe a)))"
    using assms get_job_some [OF Some] by (auto simp: can_see_def list_ex_iff)
  with Some show ?thesis
    by (simp add: get_job_status_def Let_def require_writes_enabled_def tx_bind_def get_job_alone may_see_def tx_catch_def)
qed

subsection \<open>The queue of a user\<close>

lemma queue_row_fields [simp]:
  "qi_position (queue_row p) = Suc (fst p)" "qi_created (queue_row p) = jcreated (snd p)" "qi_job (queue_row p) = jid (snd p)"
  by (simp_all add: queue_row_def split: prod.split)

lemma enumerate_positions: "map (\<lambda>p. Suc (fst p)) (List.enumerate 0 xs) = [1..<length xs + 1]"
proof -
  have "map (\<lambda>p. Suc (fst p)) (List.enumerate 0 xs) = map Suc (map fst (List.enumerate 0 xs))"
    by (simp only: map_map comp_def)
  also have "\<dots> = map Suc [0..<length xs]" by (simp only: map_fst_enumerate) simp
  finally show ?thesis by (simp only: map_Suc_upt) simp
qed

lemma list_alone: "list_my_jobs cfg c (alone a) =
   (Inr (map queue_row (List.enumerate 0 (take (nat (max_pending_jobs_per_user cfg)) (sort_key jcreated
      (rows (as_user (ca_user c)) (\<lambda>j. jowner j = Some (ca_user c) \<and> jkind j = Extract \<and> active j) (pi_db (ap_pipe a))))))), alone a)"
  unfolding list_my_jobs_def list_user_open_extract_jobs_def sql_def tx_bind_def on_jobs_alone atomically_alone
  by (simp only: prod.case fst_conv snd_conv sum.case tx_return_def world.select_convs same_app)

text \<open>The queue a user is shown is his open imports, oldest first, with the places 1, 2, 3 and so on, and no
  longer than the queue may be.\<close>

theorem queue_shown:
  "\<exists>items. list_my_jobs cfg c (alone a) = (Inr items, alone a) \<and>
     map qi_position items = [1..<length items + 1] \<and> sorted (map qi_created items) \<and>
     length items \<le> nat (max_pending_jobs_per_user cfg) \<and>
     (\<forall>x \<in> set items. \<exists>j \<in> set (jobs (pi_db (ap_pipe a))).
        qi_job x = jid j \<and> jowner j = Some (ca_user c) \<and> jkind j = Extract \<and> active j)"
proof -
  define js where "js = take (nat (max_pending_jobs_per_user cfg)) (sort_key jcreated
      (rows (as_user (ca_user c)) (\<lambda>j. jowner j = Some (ca_user c) \<and> jkind j = Extract \<and> active j) (pi_db (ap_pipe a))))"
  define items where "items = map queue_row (List.enumerate 0 js)"
  have run: "list_my_jobs cfg c (alone a) = (Inr items, alone a)"
    unfolding items_def js_def by (rule list_alone)
  have "map qi_created items = map jcreated (map snd (List.enumerate 0 js))"
    by (simp only: items_def map_map comp_def queue_row_fields)
  then have "map qi_created items = map jcreated js" by (simp only: map_snd_enumerate)
  then have "sorted (map qi_created items)" by (simp add: js_def take_map [symmetric] sorted_wrt_take)
  moreover have "map qi_position items = [1..<length items + 1]"
    using enumerate_positions [of js] by (simp add: items_def comp_def)
  moreover have "length items \<le> nat (max_pending_jobs_per_user cfg)" by (simp add: items_def js_def)
  moreover have "\<exists>j \<in> set (jobs (pi_db (ap_pipe a))). qi_job x = jid j \<and> jowner j = Some (ca_user c) \<and> jkind j = Extract \<and> active j"
    if "x \<in> set items" for x
  proof -
    from that obtain p where "p \<in> set (List.enumerate 0 js)" "x = queue_row p" by (auto simp: items_def)
    then have "snd p \<in> set (map snd (List.enumerate 0 js))" "qi_job x = jid (snd p)" by (simp_all only: set_map imageI queue_row_fields)
    then have "snd p \<in> set js" "qi_job x = jid (snd p)" by (simp_all only: map_snd_enumerate)
    then show ?thesis by (auto simp: js_def rows_def dest!: in_set_takeD)
  qed
  ultimately show ?thesis using run by blast
qed

lemma language_twice [simp]: "normalize_language (Some (normalize_language v)) = normalize_language v"
  using normalize_language_supported [of v] supported_fixed by (auto simp: list_all_iff)

lemma own_row:
  assumes "jobs_ok (jobs d)" "j \<in> set (jobs d)" "Job_Db.visible s d j"
  shows "find (\<lambda>_. True) (rows s (\<lambda>k. jid k = jid j) d) = Some j"
proof -
  have "j \<in> set (rows s (\<lambda>k. jid k = jid j) d)" using assms by (simp add: rows_def)
  then obtain k where k: "find (\<lambda>_. True) (rows s (\<lambda>k. jid k = jid j) d) = Some k"
    by (cases "rows s (\<lambda>k. jid k = jid j) d") auto
  then have "k \<in> set (jobs d)" "jid k = jid j" using get_job_some by blast+
  then have "k = j" using assms(1,2) by (auto simp: jobs_ok_def distinct_map dest: inj_onD)
  with k show ?thesis by simp
qed

text \<open>The status of a finished import never starts a translation. When its owner asks for the recipe in a language
  that it is not stored in, the request ends in a \<open>NameError\<close>: the code evaluates a name it has not bound.\<close>

theorem translation_never_started:
  assumes "jobs_ok (jobs (pi_db (ap_pipe a)))" "j \<in> set (jobs (pi_db (ap_pipe a)))" "jowner j = Some (ca_user c)"
    and "jkind j = Extract" "jstatus j = Completed" "jrecipe j = Some (rr_id x)"
    and "find (\<lambda>y. rr_id y = rr_id x) (pi_recipes (ap_pipe a)) = Some x"
    and "normalize_language (Some (rr_lang x)) \<noteq> normalize_language (Some language)"
    and "normalize_language (Some (jlang j)) \<noteq> normalize_language (Some language)"
    and "\<forall>t \<in> set (ap_translations a). tl_recipe t \<noteq> rr_id x" "\<not> maintenance_mode cfg"
  shows "fst (get_job_status cfg st c (jid j) language (alone a)) = Inl NameError"
proof -
  let ?s = "as_user (ca_user c)" and ?d = "pi_db (ap_pipe a)"
  have "Job_Db.visible ?s ?d j" using assms(3) by (simp add: Job_Db.visible_def as_user_def)
  then have row: "find (\<lambda>_. True) (rows ?s (\<lambda>k. jid k = jid j) ?d) = Some j"
    using own_row [OF assms(1,2)] by blast
  have idle: "\<not> active j" using assms(5) by (simp add: active_def)
  have none: "find (\<lambda>t. tl_recipe t = rr_id x \<and> tl_lang t = l) (ap_translations b) = None"
    if "ap_translations b = ap_translations a" for b :: "'a app" and l
    using assms(10) that by (auto simp: find_None_iff)
  have saved: "fst (save_user_recipe u r p) = Inr ()" for u r and p :: "'a pipe" by (simp add: save_user_recipe_def)
  show ?thesis
    using assms row idle
    by (simp add: get_job_status_def Let_def require_writes_enabled_def tx_run get_job_alone may_see_def
      expire_stale_job_def job_is_stale_def recipe_of_def attach_recipe_or_retry_def saved
      localized_recipe_row_def none)
qed

subsection \<open>Examples\<close>

definition ex_done :: job where
  "ex_done = ex_waiting\<lparr>jstatus := Completed, jprogress := 100, jrecipe := Some ''r''\<rparr>"

definition ex_recipe :: "unit recipe_row" where
  "ex_recipe = \<lparr>rr_id = ''r'', rr_norm = ''tiktok:v'', rr_lang = ''en'', rr_recipe = ()\<rparr>"

theorem translation_never_started_witness:
  "fst (get_job_status ex_cfg (\<lambda>_. ex_stamp) ex_call (jid ex_done) ''de'' (alone (ex_app [ex_done] [ex_recipe]))) = Inl NameError"
proof -
  have "jobs_ok [ex_done]" by code_simp
  moreover have "normalize_language (Some ''en'') \<noteq> normalize_language (Some ''de'')"
    "normalize_language (Some (jlang ex_done)) \<noteq> normalize_language (Some ''de'')" by code_simp+
  ultimately show ?thesis
    by (intro translation_never_started [where x = ex_recipe])
      (simp_all add: ex_app_def ex_jobs_def ex_done_def ex_waiting_def job_row_def ex_request_def ex_call_def ex_recipe_def ex_cfg_def
        default_settings_def)
qed

theorem poll_refused_witness:
  "snd (get_job_status ex_cfg (\<lambda>_. ex_stamp) (ex_call\<lparr>ca_user := ''w''\<rparr>) (jid ex_done) ''de'' (alone (ex_app [ex_done] [ex_recipe]))) =
     alone (ex_app [ex_done] [ex_recipe])"
proof -
  have "\<not> can_see ''w'' (jid ex_done) (ex_jobs [ex_done])" by code_simp
  then show ?thesis
    using poll_refused [of "ex_call\<lparr>ca_user := ''w''\<rparr>" "jid ex_done" "ex_app [ex_done] [ex_recipe]"]
    by (simp add: ex_app_def ex_call_def)
qed

theorem queue_shown_witness:
  "\<exists>items. list_my_jobs ex_cfg ex_call (alone (ex_app [ex_waiting] [])) = (Inr items, alone (ex_app [ex_waiting] [])) \<and>
     map qi_position items = [1..<length items + 1] \<and> list_all (\<lambda>x. qi_job x = jid ex_waiting) items"
proof -
  have "jobs (pi_db (ap_pipe (ex_app [ex_waiting] []))) = [ex_waiting]" by (simp add: ex_app_def ex_jobs_def)
  with queue_shown [of ex_cfg ex_call "ex_app [ex_waiting] []"] show ?thesis by (auto simp: list_all_iff)
qed

end
