(* ===== verification/Ingredient_Density.thy ===== *)
theory Ingredient_Density
  imports Py_Regex
begin

section \<open>Ingredient densities (app/ingredient_density.py)\<close>

text \<open>
  The densities that convert volumes to weights: a fixed table, the normalisation of an ingredient's
  name to a key, and the choice of the longest phrase of the table in the name. Counted
  ingredients and amounts to taste have no density.
\<close>

definition density_table :: "(string \<times> rat) list" where
  "density_table = [
     (''all-purpose flour'', 53 / 100), (''all purpose flour'', 53 / 100), (''plain flour'', 53 / 100),
     (''flour'', 53 / 100), (''sifted all-purpose flour'', 9 / 20), (''sifted flour'', 9 / 20),
     (''bread flour'', 27 / 50), (''cake flour'', 12 / 25), (''whole wheat flour'', 51 / 100),
     (''harina'', 53 / 100), (''harina de trigo'', 53 / 100), (''harina tamizada'', 9 / 20), (''farine'', 53 / 100),
     (''farine tamisee'', 9 / 20), (''granulated sugar'', 17 / 20), (''white sugar'', 17 / 20), (''sugar'', 17 / 20),
     (''caster sugar'', 4 / 5), (''powdered sugar'', 12 / 25), (''confectioners sugar'', 12 / 25),
     (''icing sugar'', 12 / 25), (''brown sugar'', 18 / 25), (''light brown sugar'', 18 / 25),
     (''dark brown sugar'', 39 / 50), (''packed brown sugar'', 17 / 20), (''packed light brown sugar'', 17 / 20),
     (''azucar'', 17 / 20), (''azucar moreno'', 18 / 25), (''azucar moreno compacto'', 17 / 20),
     (''table salt'', 6 / 5), (''fine salt'', 6 / 5), (''salt'', 6 / 5), (''kosher salt'', 4 / 5), (''sea salt'', 1),
     (''flaky salt'', 12 / 25), (''sal'', 6 / 5), (''sal fina'', 6 / 5), (''sal kosher'', 4 / 5),
     (''sal marina'', 1), (''butter'', 24 / 25), (''melted butter'', 91 / 100), (''oil'', 23 / 25),
     (''olive oil'', 91 / 100), (''vegetable oil'', 23 / 25), (''mantequilla'', 24 / 25),
     (''mantequilla derretida'', 91 / 100), (''aceite'', 23 / 25), (''aceite de oliva'', 91 / 100),
     (''milk'', 103 / 100), (''whole milk'', 103 / 100), (''leche'', 103 / 100), (''water'', 1), (''agua'', 1),
     (''honey'', 71 / 50), (''miel'', 71 / 50), (''cocoa powder'', 1 / 2), (''unsweetened cocoa powder'', 1 / 2),
     (''cacao en polvo'', 1 / 2), (''rice'', 17 / 20), (''uncooked rice'', 17 / 20), (''arroz'', 17 / 20)]"

definition countable_units :: "string list" where
  "countable_units = [
     ''piece'', ''pieces'', ''pc'', ''pcs'', ''unit'', ''units'', ''unidad'', ''unidades'', ''egg'', ''eggs'',
     ''huevo'', ''huevos'', ''clove'', ''cloves'', ''diente'', ''dientes'', ''slice'', ''slices'', ''rebanada'',
     ''rebanadas'', ''leaf'', ''leaves'', ''hoja'', ''hojas'', ''sprig'', ''sprigs'', ''stalk'', ''stalks'',
     ''bunch'', ''bunches'', ''can'', ''cans'', ''package'', ''packages'', ''pack'', ''packs'', ''large'',
     ''medium'', ''small'', ''whole'', ''halves'', ''half'']"

definition to_taste_re :: rx where
  "to_taste_re = cat [AtStart, alts
     [cat [lit ''to'', many1 space, lit ''taste''], cat [lit ''al'', many1 space, lit ''gusto''],
      cat [lit ''q'', maybe (lit ''.''), many space, lit ''b'', maybe (lit ''.'')],
      cat [lit ''nach'', many1 space, lit ''geschmack''], cat [lit ''a'', many1 space, lit ''piacere''],
      cat [lit ''au'', many1 space, lit ''go'', one_of [CHR ''u'', char_of (251 :: nat)], lit ''t''],
      cat [lit ''a'', many1 space, lit ''gosto''], cat [lit ''smak'', many1 space, lit ''etter'']], AtEnd]"

subsection \<open>Keys\<close>

text \<open>
  One character after \<open>unicodedata.normalize(''NFKD'', \<dots>)\<close>, the removal of the combining marks and
  \<open>casefold\<close>: letters lose their accents, superscripts and fractions become digits, and what stays
  outside the letters, the digits and the white space is written as \<open>?\<close>, like the characters of that
  kind the expression \<open>[^a-z0-9\s]\<close> replaces next.
\<close>

definition fold_table :: "(nat list \<times> string) list" where
  "fold_table =
     [([160, 168, 175, 180, 184], '' ''), ([170] @ [192..<198] @ [224..<230], ''a''), ([199, 231], ''c''),
      ([200..<204] @ [232..<236], ''e''), ([204..<208] @ [236..<240], ''i''), ([209, 241], ''n''),
      ([186] @ [210..<215] @ [242..<247], ''o''), ([217..<221] @ [249..<253], ''u''), ([221, 253, 255], ''y''),
      ([223], ''ss''), ([185], ''1''), ([178], ''2''), ([179], ''3''), ([188], ''1?4''), ([189], ''1?2''), ([190], ''3?4'')]"

definition fold_char :: "char \<Rightarrow> string" where
  "fold_char c =
     (let n = of_char c :: nat in
      if n < 128 then [lower_char c]
      else case find (\<lambda>(ns, s). n \<in> set ns) fold_table of
        Some (_, s) \<Rightarrow> s
      | None \<Rightarrow> if n = 133 then [c] else ''?'')"

definition is_key_char :: "char \<Rightarrow> bool" where
  "is_key_char c = (let n = of_char c :: nat in (48 \<le> n \<and> n \<le> 57) \<or> (97 \<le> n \<and> n \<le> 122))"

text \<open>Both by the bits of the character, for evaluation.\<close>

lemma fold_char_code [code]:
  "fold_char (Char b0 b1 b2 b3 b4 b5 b6 b7) =
     (let c = Char b0 b1 b2 b3 b4 b5 b6 b7 in
      if \<not> b7 then [lower_char c]
      else case find (\<lambda>(ns, s). (of_char c :: nat) \<in> set ns) fold_table of
        Some (_, s) \<Rightarrow> s
      | None \<Rightarrow> if (of_char c :: nat) = 133 then [c] else ''?'')"
proof -
  have "(of_char (Char b0 b1 b2 b3 b4 b5 b6 b7) :: nat) < 128 \<longleftrightarrow> \<not> b7"
    by (cases b0; cases b1; cases b2; cases b3; cases b4; cases b5; cases b6; cases b7) simp_all
  then show ?thesis by (simp only: fold_char_def Let_def)
qed

lemma is_key_char_code [code]:
  "is_key_char (Char b0 b1 b2 b3 b4 b5 b6 b7) =
     (\<not> b7 \<and> b5 \<and> (if b6 then (b0 \<or> b1 \<or> b2 \<or> b3 \<or> b4) \<and> \<not> (b3 \<and> b4 \<and> (b2 \<or> b0 \<and> b1)) else b4 \<and> \<not> (b3 \<and> (b2 \<or> b1))))"
  by (cases b0; cases b1; cases b2; cases b3; cases b4; cases b5; cases b6; cases b7) (simp_all add: is_key_char_def)

text \<open>\<open>re.sub(''[\<dots>]+'', '' '', s)\<close> for a class of characters.\<close>

function squash :: "(char \<Rightarrow> bool) \<Rightarrow> string \<Rightarrow> string" where
  "squash P [] = []"
| "squash P (c # s) = (if P c then CHR '' '' # squash P (dropWhile P s) else c # squash P s)"
  by pat_completeness auto
termination
  by (relation "measure (length \<circ> snd)") (auto simp: less_Suc_eq_le length_dropWhile_le)

definition normalize_ingredient_key :: "string \<Rightarrow> string" where
  "normalize_ingredient_key name =
     strip (squash is_space (squash (\<lambda>c. \<not> is_key_char c \<and> \<not> is_space c) (concat (map fold_char name))))"

subsection \<open>Densities\<close>

text \<open>\<open>float(raw)\<close> of a text is the argument \<open>num\<close>; None stands for an error or NaN.\<close>

definition parse_density_g_per_ml :: "(json \<Rightarrow> rat option) \<Rightarrow> json \<Rightarrow> rat option" where
  "parse_density_g_per_ml num raw =
     (case raw of
        JNull \<Rightarrow> None
      | JBool _ \<Rightarrow> None
      | v \<Rightarrow> (case num v of None \<Rightarrow> None | Some q \<Rightarrow> if q \<le> 0 then None else Some q))"

text \<open>Whether the name, padded with blanks, contains the phrase as whole words.\<close>

definition mentions :: "string \<Rightarrow> string \<Rightarrow> bool" where
  "mentions key phrase \<longleftrightarrow> contains ('' '' @ key @ '' '') ('' '' @ phrase @ '' '')"

fun best_match :: "string \<Rightarrow> (string \<times> rat) list \<Rightarrow> (nat \<times> rat) option \<Rightarrow> (nat \<times> rat) option" where
  "best_match key [] best = best"
| "best_match key ((phrase, density) # rest) best =
     best_match key rest
       (if mentions key phrase \<and> (case best of None \<Rightarrow> True | Some (n, _) \<Rightarrow> n < length phrase)
        then Some (length phrase, density) else best)"

definition resolve_density_g_per_ml :: "string \<Rightarrow> string option \<Rightarrow> string option \<Rightarrow> rat option" where
  "resolve_density_g_per_ml name quantity unit =
     (let qty = strip (case quantity of None \<Rightarrow> [] | Some q \<Rightarrow> q);
          unit_key = normalize_ingredient_key (case unit of None \<Rightarrow> [] | Some u \<Rightarrow> u);
          key = normalize_ingredient_key name
      in if strip name = [] then None
         else if qty \<noteq> [] \<and> rx_match to_taste_re qty then None
         else if unit_key \<in> set countable_units then None
         else if key = [] then None
         else case map_of density_table key of
           Some d \<Rightarrow> Some d
         | None \<Rightarrow> map_option snd (best_match key density_table None))"

subsection \<open>Only densities of the table\<close>

text \<open>The scan keeps the first of the longest phrases seen.\<close>

lemma best_match_keeps:
  "best_match key rows best = Some (n, d) \<Longrightarrow>
   (best = Some (n, d) \<or> (\<exists>phrase. (phrase, d) \<in> set rows \<and> mentions key phrase \<and> length phrase = n)) \<and>
   (\<forall>b. best = Some b \<longrightarrow> fst b \<le> n) \<and> (\<forall>(phrase, w) \<in> set rows. mentions key phrase \<longrightarrow> length phrase \<le> n)"
proof (induction rows arbitrary: best)
  case (Cons r rows)
  obtain phrase w where r: "r = (phrase, w)" by (cases r)
  define taken where "taken \<longleftrightarrow> mentions key phrase \<and> (case best of None \<Rightarrow> True | Some (n, _) \<Rightarrow> n < length phrase)"
  have "best_match key rows (if taken then Some (length phrase, w) else best) = Some (n, d)"
    using Cons.prems by (simp add: r taken_def)
  note IH = Cons.IH [OF this]
  show ?case
  proof (cases taken)
    case True
    with IH have "length phrase \<le> n" by simp
    moreover have "\<forall>b. best = Some b \<longrightarrow> fst b \<le> n"
      using True calculation by (auto simp: taken_def split: option.splits)
    moreover have "(n, d) = (length phrase, w) \<or> (\<exists>p. (p, d) \<in> set rows \<and> mentions key p \<and> length p = n)"
      using IH True by auto
    ultimately show ?thesis using IH True by (auto simp: r taken_def)
  next
    case False
    then have "mentions key phrase \<Longrightarrow> \<exists>b. best = Some b \<and> length phrase \<le> fst b"
      by (auto simp: taken_def split: option.splits)
    then have "mentions key phrase \<Longrightarrow> length phrase \<le> n" using IH False by force
    with IH False show ?thesis by (auto simp: r)
  qed
qed auto

lemma best_match_none: "best_match key rows best = None \<longleftrightarrow> best = None \<and> (\<forall>(phrase, d) \<in> set rows. \<not> mentions key phrase)"
  by (induction rows arbitrary: best) (auto split: if_splits option.splits)

definition measured :: "string \<Rightarrow> string option \<Rightarrow> string option \<Rightarrow> bool" where
  "measured name quantity unit \<longleftrightarrow>
     strip name \<noteq> [] \<and> normalize_ingredient_key name \<noteq> [] \<and>
     (let qty = strip (case quantity of None \<Rightarrow> [] | Some q \<Rightarrow> q) in qty = [] \<or> \<not> rx_match to_taste_re qty) \<and>
     normalize_ingredient_key (case unit of None \<Rightarrow> [] | Some u \<Rightarrow> u) \<notin> set countable_units"

text \<open>A density is never invented: the one an ingredient gets is a positive value of the table, under its whole
  name or under the longest phrase of the table that its name contains as words; an ingredient that
  is counted, or given to taste, or without a phrase of the table has none.\<close>

theorem density_from_table:
  "(case resolve_density_g_per_ml name quantity unit of
      Some d \<Rightarrow> measured name quantity unit \<and> 0 < d \<and>
        (let key = normalize_ingredient_key name in
         (key, d) \<in> set density_table \<or>
         (\<exists>phrase. (phrase, d) \<in> set density_table \<and> mentions key phrase \<and>
            (\<forall>(other, w) \<in> set density_table. mentions key other \<longrightarrow> length other \<le> length phrase)))
    | None \<Rightarrow> \<not> measured name quantity unit \<or>
        (\<forall>(phrase, d) \<in> set density_table. \<not> mentions (normalize_ingredient_key name) phrase))"
proof -
  let ?key = "normalize_ingredient_key name"
  have pos: "\<forall>(p, d) \<in> set density_table. 0 < d" by (simp add: density_table_def)
  consider "\<not> measured name quantity unit" | d where "measured name quantity unit" "map_of density_table ?key = Some d"
    | "measured name quantity unit" "map_of density_table ?key = None" by fastforce
  then show ?thesis
  proof cases
    case 1
    then have "resolve_density_g_per_ml name quantity unit = None"
      by (auto simp: resolve_density_g_per_ml_def measured_def Let_def)
    with 1 show ?thesis by simp
  next
    case (2 d)
    then have "resolve_density_g_per_ml name quantity unit = Some d"
      by (auto simp: resolve_density_g_per_ml_def measured_def Let_def)
    moreover have "(?key, d) \<in> set density_table" using 2 by (rule_tac map_of_SomeD)
    ultimately show ?thesis using 2 pos by auto
  next
    case 3
    then have r: "resolve_density_g_per_ml name quantity unit = map_option snd (best_match ?key density_table None)"
      by (auto simp: resolve_density_g_per_ml_def measured_def Let_def)
    show ?thesis
    proof (cases "best_match ?key density_table None")
      case None
      then show ?thesis using r best_match_none [of ?key density_table None] by simp
    next
      case (Some b)
      then obtain n d where b: "best_match ?key density_table None = Some (n, d)" by (cases b) auto
      from best_match_keeps [OF b] obtain phrase where "(phrase, d) \<in> set density_table" "mentions ?key phrase"
        "\<forall>(other, w) \<in> set density_table. mentions ?key other \<longrightarrow> length other \<le> length phrase" by auto
      then show ?thesis using r b 3 pos by (auto simp: Let_def)
    qed
  qed
qed

lemma set_squash: "set (squash P s) \<subseteq> insert CHR '' '' {c \<in> set s. \<not> P c}"
  by (induction P s rule: squash.induct) (auto dest: set_dropWhileD)

lemma set_strip: "set (strip s) \<subseteq> set s"
  by (auto simp: strip_def rstrip_def lstrip_def dest!: set_dropWhileD)

lemma key_chars:
  assumes "c \<in> set (normalize_ingredient_key name)"
  shows "is_key_char c \<or> is_space c"
proof -
  let ?s = "squash (\<lambda>c. \<not> is_key_char c \<and> \<not> is_space c) (concat (map fold_char name))"
  have "c \<in> set (squash is_space ?s)"
    using assms set_strip [of "squash is_space ?s"] by (auto simp: normalize_ingredient_key_def)
  with set_squash [of is_space ?s] have "c = CHR '' '' \<or> c \<in> set ?s" by blast
  with set_squash [of "\<lambda>c. \<not> is_key_char c \<and> \<not> is_space c" "concat (map fold_char name)"] show ?thesis
    by (auto simp: is_space_def)
qed

text \<open>The spelling of a name with a hyphen hides the preparation from the table: the entry of sifted all-purpose
  flour can never be found, because keys have no hyphens, and the ingredient gets the density of
  unsifted flour.\<close>

theorem sifted_flour_density:
  "map_of density_table ''sifted all-purpose flour'' = Some (45 / 100) \<and>
   resolve_density_g_per_ml ''sifted all-purpose flour'' None None = Some (53 / 100) \<and>
   normalize_ingredient_key name \<noteq> ''sifted all-purpose flour''"
proof -
  have "CHR ''-'' \<notin> set (normalize_ingredient_key name)"
    using key_chars [of "CHR ''-''" name] by (auto simp: is_key_char_def is_space_def)
  then have "normalize_ingredient_key name \<noteq> ''sifted all-purpose flour''" by auto
  moreover have "map_of density_table ''sifted all-purpose flour'' = Some (45 / 100)" by code_simp
  moreover have "resolve_density_g_per_ml ''sifted all-purpose flour'' None None = Some (53 / 100)" by code_simp
  ultimately show ?thesis by blast
qed

theorem density_from_table_witness:
  "resolve_density_g_per_ml ''Olive oil, extra'' (Some ''2'') (Some ''tbsp'') = Some (91 / 100) \<and>
   (\<exists>phrase. (phrase, 91 / 100) \<in> set density_table \<and>
      (phrase = normalize_ingredient_key ''Olive oil, extra'' \<or> mentions (normalize_ingredient_key ''Olive oil, extra'') phrase))"
proof -
  have r: "resolve_density_g_per_ml ''Olive oil, extra'' (Some ''2'') (Some ''tbsp'') = Some (91 / 100)" by code_simp
  from density_from_table [of "''Olive oil, extra''" "Some ''2''" "Some ''tbsp''"] r show ?thesis
    by (auto simp: Let_def)
qed

end
