(* ===== verification/Recipe_Builder.thy ===== *)
theory Recipe_Builder
  imports Pipeline Ingredient_Density "HOL-Library.Multiset"
begin

section \<open>The recipe builder (app/recipe_builder.py)\<close>

text \<open>
  From the evidence of an import to a recipe: the bounded source text, the structured request to the
  model and its retry, the repair of what the model answers (blank values, headings and optional
  markers among the ingredients, densities, numbering of the steps), the completeness gate, and the
  translation of a stored recipe. Texts are Latin-1; the dashes and quotation marks outside it that
  the code lists among its blank values and markers do not occur in the model. What the language
  tables of app/localization.py hold for the language of the recipe is an argument (\<open>labels\<close>), as are
  the services the code calls and the validation of pydantic (\<open>kitchen\<close>).
\<close>

subsection \<open>Characters by their bits\<close>

text \<open>For the evaluation of concrete texts.\<close>

lemma lower_char_code [code]:
  "lower_char (Char b0 b1 b2 b3 b4 b5 b6 b7) =
     (if b6 \<and> \<not> b5 \<and> (if b7 then \<not> (b0 \<and> b1 \<and> b2 \<and> b4) else (b0 \<or> b1 \<or> b2 \<or> b3 \<or> b4) \<and> \<not> (b3 \<and> b4 \<and> (b2 \<or> b0 \<and> b1)))
      then Char b0 b1 b2 b3 b4 True b6 b7 else Char b0 b1 b2 b3 b4 b5 b6 b7)"
  by (cases b0; cases b1; cases b2; cases b3; cases b4; cases b5; cases b6; cases b7) (simp_all add: lower_char_def char_of_def bit_Suc_0_iff)

lemma is_space_code [code]:
  "is_space (Char b0 b1 b2 b3 b4 b5 b6 b7) =
     (if b7 then \<not> b6 \<and> \<not> b4 \<and> \<not> b3 \<and> \<not> b1 \<and> (if b5 then \<not> b2 \<and> \<not> b0 else b2 \<and> b0)
      else \<not> b6 \<and> (if b5 then \<not> (b0 \<or> b1 \<or> b2 \<or> b3 \<or> b4)
        else if b4 then b3 \<and> b2 else b3 \<and> \<not> (b2 \<and> b1) \<and> (b2 \<or> b1 \<or> b0)))"
  by (cases b0; cases b1; cases b2; cases b3; cases b4; cases b5; cases b6; cases b7) (simp_all add: is_space_def)

lemma any_code [code]: "any_but_newline = Cls (\<lambda>c. c \<noteq> CHR 0x0A)"
proof -
  have "((of_char c :: nat) \<noteq> 10) = (c \<noteq> CHR 0x0A)" for c
    using of_char_eq_iff [where 'a = nat, of c "CHR 0x0A"] by simp
  then show ?thesis by (simp add: any_but_newline_def)
qed

subsection \<open>Data\<close>

record labels =
  lb_section :: string
  lb_optional :: string
  lb_taste :: string
  lb_untitled :: string

record ingredient =
  in_name :: string
  in_quantity :: "string option"
  in_unit :: "string option"
  in_density :: "rat option"

record ingredient_section =
  sc_title :: string
  sc_items :: "ingredient list"

record recipe_tip =
  tp_title :: "string option"
  tp_text :: string

record recipe_step =
  sp_order :: int
  sp_text :: string
  sp_minutes :: "int option"

record recipe =
  rc_id :: "uuid option"
  rc_title :: string
  rc_ingredients :: "ingredient list"
  rc_sections :: "ingredient_section list"
  rc_steps :: "recipe_step list"
  rc_servings :: "int option"
  rc_prep :: "int option"
  rc_cook :: "int option"
  rc_tags :: "string list"
  rc_confidence :: rat
  rc_missing :: "string list"
  rc_source :: string
  rc_platform :: platform
  rc_thumbnail :: "string option"
  rc_carousel :: "string list"
  rc_author :: "string option"
  rc_description :: "string option"
  rc_tips :: "recipe_tip list"
  rc_transcript :: "string option"
  rc_language :: string

text \<open>The validator of \<open>density_g_per_ml\<close>.\<close>

definition sane :: "rat option \<Rightarrow> rat option" where
  "sane d = (case d of None \<Rightarrow> None | Some q \<Rightarrow> if q \<le> 0 then None else Some q)"

definition ingredient :: "string \<Rightarrow> string option \<Rightarrow> string option \<Rightarrow> rat option \<Rightarrow> ingredient" where
  "ingredient name quantity unit density =
     \<lparr>in_name = name, in_quantity = quantity, in_unit = unit, in_density = sane density\<rparr>"

text \<open>A text field counts when it is neither None nor empty.\<close>

definition given :: "string option \<Rightarrow> bool" where
  "given t \<longleftrightarrow> t \<noteq> None \<and> t \<noteq> Some []"

subsection \<open>Blank values\<close>

definition blank_values :: "string list" where
  "blank_values = [[], ''null'', ''none'', ''n/a'', ''nil'', ''undefined'', ''-'', ''--'', ''---'']"

definition visible_str :: "string \<Rightarrow> string" where
  "visible_str s = (let t = strip s in if t = [] \<or> lower t \<in> set blank_values then [] else t)"

definition visible_text :: "(json \<Rightarrow> string) \<Rightarrow> json \<Rightarrow> string" where
  "visible_text rep v = (if v = JNull then [] else visible_str (py_str rep v))"

definition optional_text :: "(json \<Rightarrow> string) \<Rightarrow> json \<Rightarrow> string option" where
  "optional_text rep v = (let t = visible_text rep v in if t = [] then None else Some t)"

subsection \<open>Headings and optional markers\<close>

definition rstrip_set :: "string \<Rightarrow> string \<Rightarrow> string" where
  "rstrip_set cs s = rev (dropWhile (\<lambda>c. c \<in> set cs) (rev s))"

definition strip_set :: "string \<Rightarrow> string \<Rightarrow> string" where
  "strip_set cs s = rstrip_set cs (dropWhile (\<lambda>c. c \<in> set cs) s)"

definition e_acute :: char where "e_acute = char_of (233 :: nat)"
definition o_acute :: char where "o_acute = char_of (243 :: nat)"
definition n_tilde :: char where "n_tilde = char_of (241 :: nat)"

definition generic_ingredient_titles :: "string list" where
  "generic_ingredient_titles = [''ingredients'', ''ingredient'', ''ingredientes'', ''ingr'' @ [e_acute] @ ''dient'',
     ''ingr'' @ [e_acute] @ ''dients'', ''zutaten'', ''ingredienti'']"

definition optional_titles :: "string list" where
  "optional_titles = [''optional'', ''opcionales'', ''opcional'', ''optionnel'', ''optionnelle'', ''opzionale'',
     ''optional ingredients'', ''ingredientes opcionales'']"

definition norm_title :: "string \<Rightarrow> string" where
  "norm_title s = rstrip_set '':.-'' (squash is_space (lower (strip s)))"

definition is_optional_title :: "string \<Rightarrow> bool" where
  "is_optional_title title \<longleftrightarrow> norm_title title \<in> set optional_titles \<or> starts_with (norm_title title) ''optional''"

definition is_generic_title :: "string \<Rightarrow> bool" where
  "is_generic_title title \<longleftrightarrow> norm_title title \<in> set generic_ingredient_titles"

definition anything :: rx where "anything = Cat (many1 space) (many1 any_but_newline)"

definition section_heading_re :: rx where
  "section_heading_re = cat [AtStart, alts
     [Cat (lit ''optional'') (maybe (cat [many1 space, stem ''ingredient'' [''s'']])),
      Cat (stem ''opcionale'' [''s'']) (maybe (cat [many1 space, stem ''ingrediente'' [''s'']])),
      cat [stem ''optionnel'' [''le''], maybe (lit ''s''),
        maybe (cat [many1 space, lit ''ingr'', one_of [CHR ''e'', e_acute], lit ''dient'', maybe (lit ''s'')])],
      Cat (lit ''opzionale'') (maybe (cat [many1 space, lit ''ingredienti''])),
      Cat (lit ''for the'') anything,
      cat [lit ''para '', words [''el'', ''la'', ''los'', ''las''], anything],
      cat [lit ''pour '', words [''la'', ''le'', ''les''], anything],
      cat [many1 any_but_newline, many1 space, words [''sauce'', ''dough'', ''marinade'', ''dressing'', ''topping'',
        ''toppings'', ''garnish'', ''filling'', ''glaze'', ''base'', ''mix'']],
      Cat (alts [lit ''salsa'', lit ''masa'', lit ''adobo'', lit ''cobertura'', lit ''relleno'',
          cat [lit ''ali'', one_of [CHR ''n'', n_tilde], lit ''o''], lit ''cobertura'',
          cat [lit ''guarnici'', one_of [CHR ''o'', o_acute], lit ''n''], lit ''recheio''])
        (many any_but_newline)], AtEnd]"

text \<open>\<open>s.split()\<close>.\<close>

function py_split :: "string \<Rightarrow> string list" where
  "py_split s =
     (case dropWhile is_space s of [] \<Rightarrow> []
      | c # t \<Rightarrow> (c # takeWhile (\<lambda>x. \<not> is_space x) t) # py_split (dropWhile (\<lambda>x. \<not> is_space x) t))"
  by pat_completeness auto
termination
proof (relation "measure length", simp)
  fix s t :: string and c assume "dropWhile is_space s = c # t"
  then have "length (c # t) \<le> length s" by (metis length_dropWhile_le)
  moreover have "length (dropWhile (\<lambda>x. \<not> is_space x) t) \<le> length t" by (rule length_dropWhile_le)
  ultimately show "(dropWhile (\<lambda>x. \<not> is_space x) t, s) \<in> measure length" by simp
qed

declare py_split.simps [simp del]

definition looks_like_section_heading :: "ingredient \<Rightarrow> bool" where
  "looks_like_section_heading i =
     (let name = strip (in_name i); cleaned = strip (rstrip_set '':.-'' name) in
      if name = [] then False
      else if given (in_quantity i) \<or> given (in_unit i) then False
      else if is_generic_title cleaned \<or> is_optional_title cleaned then True
      else if (ends_with name '':'' \<or> ends_with name ''-'') \<and> length (py_split cleaned) \<le> 6 then True
      else rx_match section_heading_re cleaned)"

definition optional_word :: rx where
  "optional_word = alts [lit ''optional'', stem ''opcional'' [''es''], stem ''optionnel'' [''le''], lit ''opzionale'']"

definition optional_prefix_re :: rx where
  "optional_prefix_re = cat [AtStart, many space, optional_word, many space, maybe (one_of '':-''), many1 space]"

definition optional_marker_re :: rx where
  "optional_marker_re = cat [maybe (cat [many space, one_of ''(['', many space]),
     Or optional_word (lit ''opcjonalnie''), maybe (cat [many space, one_of '')]'', many space]), AtEnd]"

definition strip_optional_marker :: "ingredient \<Rightarrow> ingredient \<times> bool" where
  "strip_optional_marker i =
     (let name0 = strip (in_name i); pre = rx_match optional_prefix_re name0;
          name1 = (if pre then strip (rx_cut optional_prefix_re name0) else name0);
          suf = rx_search optional_marker_re name1;
          name = (if suf then strip_set '' ,;-'' (rx_cut optional_marker_re name1) else name1);
          optional = (pre \<or> suf)
      in if name = [] then (i, optional)
         else if name = in_name i \<and> \<not> optional then (i, False)
         else (ingredient name (in_quantity i) (in_unit i) (in_density i), optional))"

subsection \<open>\<open>power_up_ingredient_sections\<close>\<close>

record rebuild =
  rb_done :: "ingredient_section list"
  rb_title :: string
  rb_current :: "ingredient list"
  rb_bucket :: "ingredient list"
  rb_optional :: bool    \<comment> \<open>\<open>route_all_optional\<close>\<close>

definition with_taste :: "labels \<Rightarrow> ingredient \<Rightarrow> ingredient" where
  "with_taste lb i = (if given (in_quantity i) \<or> given (in_unit i) then i
     else ingredient (in_name i) (Some (lb_taste lb)) None None)"

definition flush_current :: "rebuild \<Rightarrow> rebuild" where
  "flush_current b = (if rb_current b = [] then b
     else b\<lparr>rb_done := rb_done b @ [\<lparr>sc_title = rb_title b, sc_items = rb_current b\<rparr>], rb_current := []\<rparr>)"

definition begin_section :: "labels \<Rightarrow> string \<Rightarrow> rebuild \<Rightarrow> rebuild" where
  "begin_section lb title b =
     (let b = flush_current b in
      if is_optional_title title then b\<lparr>rb_title := lb_optional lb, rb_optional := True\<rparr>
      else if is_generic_title title then b\<lparr>rb_title := lb_section lb, rb_optional := False\<rparr>
      else b\<lparr>rb_title := title, rb_optional := False\<rparr>)"

definition add_ingredient :: "labels \<Rightarrow> ingredient \<Rightarrow> rebuild \<Rightarrow> rebuild" where
  "add_ingredient lb i b =
     (if looks_like_section_heading i
      then let h = strip (rstrip_set '':.-'' (strip (in_name i)))
           in begin_section lb (if h = [] then lb_section lb else h) b
      else case strip_optional_marker i of (cleaned, marked) \<Rightarrow>
        if strip (in_name cleaned) = [] then b
        else let c = with_taste lb cleaned
             in if rb_optional b \<or> marked then b\<lparr>rb_bucket := rb_bucket b @ [c]\<rparr>
                else b\<lparr>rb_current := rb_current b @ [c]\<rparr>)"

definition add_section :: "labels \<Rightarrow> ingredient_section \<Rightarrow> rebuild \<Rightarrow> rebuild" where
  "add_section lb s b =
     (let t = visible_str (sc_title s) in
      fold (add_ingredient lb) (sc_items s) (begin_section lb (if t = [] then lb_section lb else t) b))"

text \<open>The optional ingredients join the first optional section, else they are a new one.\<close>

fun merge_optional :: "labels \<Rightarrow> ingredient list \<Rightarrow> ingredient_section list \<Rightarrow> ingredient_section list" where
  "merge_optional lb bucket [] = [\<lparr>sc_title = lb_optional lb, sc_items = bucket\<rparr>]"
| "merge_optional lb bucket (s # ss) =
     (if is_optional_title (sc_title s) then s\<lparr>sc_items := sc_items s @ bucket\<rparr> # ss
      else s # merge_optional lb bucket ss)"

definition power_up_ingredient_sections :: "labels \<Rightarrow> ingredient_section list \<Rightarrow> ingredient_section list" where
  "power_up_ingredient_sections lb sections =
     (let b = flush_current (fold (add_section lb) sections
            \<lparr>rb_done = [], rb_title = lb_section lb, rb_current = [], rb_bucket = [], rb_optional = False\<rparr>);
          merged = (if rb_bucket b = [] then rb_done b else merge_optional lb (rb_bucket b) (rb_done b));
          rebuilt = [s \<leftarrow> merged. sc_items s \<noteq> []]
      in if rebuilt = [] then sections else rebuilt)"

subsection \<open>The parts of an answer\<close>

text \<open>\<open>for x in v or []\<close>: a number or a true value cannot be iterated.\<close>

fun iterate :: "json \<Rightarrow> json list res" where
  "iterate (JArr xs) = Inr xs"
| "iterate (JObj d) = Inr (map (\<lambda>(k, _). JStr k) d)"
| "iterate (JStr s) = Inr (map (\<lambda>c. JStr [c]) s)"
| "iterate v = (if truthy v then Inl TypeError else Inr [])"

text \<open>
  What the code calls: the model (\<open>chat\<close>), \<open>json.loads\<close>, \<open>float\<close> and \<open>int\<close> on a text, \<open>str\<close> of a
  value that is no text, and the fields pydantic checks.
\<close>

datatype chat_reply =
    CallFailed bool    \<comment> \<open>whether the exception is a rate limit\<close>
  | Answered node "chat_choice option"
and chat_choice = Choice bool string bool    \<comment> \<open>refused, content, cut off by the length limit\<close>

record kitchen =
  kt_chat :: "nat \<Rightarrow> string \<Rightarrow> chat_reply"
  kt_loads :: "string \<Rightarrow> json option"
  kt_float :: "string \<Rightarrow> rat option"
  kt_int :: "string \<Rightarrow> int option"
  kt_rep :: "json \<Rightarrow> string"
  kt_opt_int :: "json \<Rightarrow> int option option"
  kt_strings :: "json \<Rightarrow> string list option"
  kt_tips :: "json \<Rightarrow> recipe_tip list option"
  kt_steps :: "json \<Rightarrow> recipe_step list option"

definition to_float :: "kitchen \<Rightarrow> json \<Rightarrow> rat option" where
  "to_float K v = (case v of JStr s \<Rightarrow> kt_float K s | _ \<Rightarrow> num_value v)"

definition item_of :: "kitchen \<Rightarrow> dict \<Rightarrow> ingredient option" where
  "item_of K d =
     (let name = visible_text (kt_rep K) (dget d ''name'') in
      if name = [] then None
      else let q = optional_text (kt_rep K) (dget d ''quantity''); u = optional_text (kt_rep K) (dget d ''unit'')
           in Some (ingredient name q u (resolve_density_g_per_ml name q u)))"

definition dicts_of :: "json list \<Rightarrow> dict list" where
  "dicts_of vs = concat (map (\<lambda>v. case v of JObj d \<Rightarrow> [d] | _ \<Rightarrow> []) vs)"

definition section_of :: "kitchen \<Rightarrow> labels \<Rightarrow> dict \<Rightarrow> ingredient_section option res" where
  "section_of K lb d =
     res_bind (iterate (dget d ''ingredients'')) (\<lambda>vs.
       let t = visible_text (kt_rep K) (dget d ''title''); items = List.map_filter (item_of K) (dicts_of vs)
       in Inr (if items = [] then None else Some \<lparr>sc_title = (if t = [] then lb_section lb else t), sc_items = items\<rparr>))"

definition usable_ingredient_sections :: "kitchen \<Rightarrow> labels \<Rightarrow> json \<Rightarrow> ingredient_section list res" where
  "usable_ingredient_sections K lb v =
     (case v of
        JArr vs \<Rightarrow> res_bind (res_map (section_of K lb) (dicts_of vs)) (\<lambda>ss.
          Inr (power_up_ingredient_sections lb (List.map_filter id ss)))
      | _ \<Rightarrow> Inr [])"

text \<open>\<open>int(duration)\<close>: the fraction is cut off.\<close>

definition to_minutes :: "kitchen \<Rightarrow> json \<Rightarrow> int option" where
  "to_minutes K v =
     (case v of
        JInt i \<Rightarrow> Some i
      | JNum q \<Rightarrow> Some (if 0 \<le> q then \<lfloor>q\<rfloor> else \<lceil>q\<rceil>)
      | JBool b \<Rightarrow> Some (if b then 1 else 0)
      | JStr s \<Rightarrow> kt_int K s
      | _ \<Rightarrow> None)"

fun number_steps :: "kitchen \<Rightarrow> int \<Rightarrow> dict list \<Rightarrow> recipe_step list" where
  "number_steps K n [] = []"
| "number_steps K n (d # ds) =
     (let text = visible_text (kt_rep K) (dget d ''text'') in
      if text = [] then number_steps K n ds
      else \<lparr>sp_order = n, sp_text = text, sp_minutes = to_minutes K (dget d ''duration_minutes'')\<rparr> # number_steps K (n + 1) ds)"

definition usable_steps :: "kitchen \<Rightarrow> json \<Rightarrow> recipe_step list" where
  "usable_steps K v = (case v of JArr vs \<Rightarrow> number_steps K 1 (dicts_of vs) | _ \<Rightarrow> [])"

definition merge_text :: "string option \<Rightarrow> string option \<Rightarrow> string option" where
  "merge_text a b =
     (let parts = map (strip \<circ> the) (filter has_text [a, b])
      in if parts = [] then None else Some (join [char_of (10 :: nat), char_of (10 :: nat)] parts))"

subsection \<open>The completeness gate\<close>

definition min_recipe_confidence :: rat where
  "min_recipe_confidence = 7 / 10"

definition time_word :: rx where
  "time_word = maybe (cat [many1 space, lit ''time''])"

definition soft_blocking_gap_re :: rx where
  "soft_blocking_gap_re = cat [WordB, alts
     [stem ''serving'' [''s''], stem ''porcione'' [''s''], stem ''racione'' [''s''],
      Cat (stem ''prep'' [''aration'']) time_word,
      cat [lit ''tiempo'', many1 space, lit ''de'', many1 space, lit ''preparaci'', one_of [CHR ''o'', o_acute], lit ''n''],
      Cat (stem ''cook'' [''ing'']) time_word,
      cat [lit ''tiempo'', many1 space, lit ''de'', many1 space, lit ''cocci'', one_of [CHR ''o'', o_acute], lit ''n''],
      stem ''minute'' [''s''], stem ''minuto'' [''s''], stem ''hora'' [''s''], lit ''temperature'', lit ''temperatura''], WordB]"

definition material_blocking_gaps :: "string list \<Rightarrow> string list" where
  "material_blocking_gaps gaps = [t \<leftarrow> map strip gaps. t \<noteq> [] \<and> \<not> rx_search soft_blocking_gap_re t]"

text \<open>
  \<open>recipe_is_complete\<close>. Whether a step mentions the words of an ingredient makes no difference: both
  branches of that test keep the ingredient. The verdict \<open>is_complete\<close> of the model is not used either.
\<close>

definition recipe_is_complete :: "recipe \<Rightarrow> string list \<Rightarrow> bool" where
  "recipe_is_complete r gaps \<longleftrightarrow>
     material_blocking_gaps gaps = [] \<and> min_recipe_confidence \<le> rc_confidence r \<and>
     rc_sections r \<noteq> [] \<and> rc_steps r \<noteq> [] \<and> rc_ingredients r \<noteq> [] \<and>
     map sp_order (rc_steps r) = [1..int (length (rc_steps r))] \<and>
     list_all (\<lambda>s. strip (sp_text s) \<noteq> []) (rc_steps r) \<and>
     list_all (\<lambda>i. strip (in_name i) \<noteq> []) (rc_ingredients r)"

subsection \<open>The source text\<close>

text \<open>\<open>json.dumps(\<dots>, ensure_ascii=False)\<close> of a text and of an object of texts.\<close>

definition hex_digit :: "nat \<Rightarrow> char" where
  "hex_digit n = (if n < 10 then char_of (48 + n) else char_of (87 + n))"

definition json_escape :: "char \<Rightarrow> string" where
  "json_escape c =
     (let n = of_char c :: nat; bs = char_of (92 :: nat) in
      if n = 34 then [bs, c] else if n = 92 then [bs, bs]
      else if n = 10 then [bs, CHR ''n''] else if n = 13 then [bs, CHR ''r''] else if n = 9 then [bs, CHR ''t'']
      else if n = 12 then [bs, CHR ''f''] else if n = 8 then [bs, CHR ''b'']
      else if n < 32 then bs # ''u00'' @ [hex_digit (n div 16), hex_digit (n mod 16)]
      else [c])"

definition json_text :: "string option \<Rightarrow> string" where
  "json_text v = (case v of None \<Rightarrow> ''null'' | Some s \<Rightarrow> [CHR 0x22] @ concat (map json_escape s) @ [CHR 0x22])"

definition json_object :: "(string \<times> string option) list \<Rightarrow> string" where
  "json_object kvs = ''{'' @ join '', '' (map (\<lambda>(k, v). json_text (Some k) @ '': '' @ json_text v) kvs) @ ''}''"

definition truncated_mark :: string where
  "truncated_mark = char_of (10 :: nat) # ''[metadata truncated at supported input bound]''"

definition omitted_mark :: string where
  "omitted_mark = ''[omitted at supported input bound]''"

definition cut_field :: "string \<times> nat \<Rightarrow> (string \<times> string option) list \<Rightarrow> (string \<times> string option) list" where
  "cut_field kl p = (case kl of (k, n) \<Rightarrow>
     case map_of p k of
       Some (Some v) \<Rightarrow> if n < length v then dput k (Some (take n v @ truncated_mark)) p else p
     | _ \<Rightarrow> p)"

fun omit_fields :: "nat \<Rightarrow> string list \<Rightarrow> (string \<times> string option) list \<Rightarrow> string res" where
  "omit_fields n [] p = Inl (ExtractError ''Recipe source text exceeds supported bound'')"
| "omit_fields n (k # ks) p =
     (if map_of p k = Some None \<or> map_of p k = Some (Some []) \<or> map_of p k = None then omit_fields n ks p
      else let p' = dput k (Some omitted_mark) p
           in if length (json_object p') \<le> n then Inr (json_object p') else omit_fields n ks p')"

definition field_limits :: "(string \<times> nat) list" where
  "field_limits = [(''title'', 2000), (''author'', 500), (''description'', 8000), (''transcript'', 16000)]"

definition bounded_source_json :: "(string \<times> string option) list \<Rightarrow> nat \<Rightarrow> string res" where
  "bounded_source_json payload max_chars =
     (let p = fold cut_field field_limits payload in
      if length (json_object p) \<le> max_chars then Inr (json_object p)
      else omit_fields max_chars [''description'', ''title'', ''author'', ''transcript''] p)"

subsection \<open>The request to the model\<close>

definition unavailable :: exn where
  "unavailable = ExtractError ''Recipe model temporarily unavailable or returned invalid output''"

text \<open>
  One attempt: the data, an error that ends the request, or nothing, which lets the loop go on. An
  answer is paid for before it is looked at. The second attempt sends the first 8000 characters of the
  prompt.
\<close>

datatype attempt = Done "dict res" | Retry | GiveUp

definition read_choice :: "kitchen \<Rightarrow> bool \<Rightarrow> chat_choice option \<Rightarrow> attempt" where
  "read_choice K final ch =
     (case ch of
        None \<Rightarrow> Retry
      | Some (Choice refused content shortened) \<Rightarrow>
          if refused \<or> content = [] then Retry
          else case kt_loads K content of
            None \<Rightarrow> Retry
          | Some v \<Rightarrow>
              if shortened \<and> \<not> final then Retry
              else case v of JObj d \<Rightarrow> Done (Inr d)
                | _ \<Rightarrow> Done (Inl (ExtractError ''Recipe model returned invalid structured output'')))"

definition one_attempt :: "settings \<Rightarrow> kitchen \<Rightarrow> nat \<Rightarrow> string \<Rightarrow> meter \<Rightarrow> attempt \<times> meter" where
  "one_attempt cfg K n prompt m =
     (case kt_chat K n (if n = 0 then prompt else take 8000 prompt) of
        CallFailed limited \<Rightarrow> (if limited then GiveUp else Retry, m)
      | Answered response ch \<Rightarrow>
          (read_choice K (n = 1) ch, snd (add_chat cfg response (Some (estimate_miss_cost_cents cfg None 0 0 False)) 0 m)))"

definition request_structured_recipe :: "settings \<Rightarrow> kitchen \<Rightarrow> string \<Rightarrow> meter \<Rightarrow> dict res \<times> meter" where
  "request_structured_recipe cfg K prompt m =
     (case one_attempt cfg K 0 prompt m of
        (Done r, m1) \<Rightarrow> (r, m1)
      | (GiveUp, m1) \<Rightarrow> (Inl unavailable, m1)
      | (Retry, m1) \<Rightarrow>
          (case one_attempt cfg K 1 prompt m1 of
             (Done r, m2) \<Rightarrow> (r, m2)
           | (_, m2) \<Rightarrow> (Inl unavailable, m2)))"

subsection \<open>\<open>build_recipe\<close>\<close>

fun platform_name :: "platform \<Rightarrow> string" where
  "platform_name Tiktok = ''tiktok''"
| "platform_name Youtube = ''youtube''"
| "platform_name Instagram = ''instagram''"
| "platform_name Facebook = ''facebook''"
| "platform_name UnknownPlatform = ''unknown''"

definition payload_of :: "evidence \<Rightarrow> (string \<times> string option) list" where
  "payload_of ev = [(''platform'', Some (platform_name (ev_platform ev))), (''title'', Some (ev_title ev)),
     (''description'', Some (ev_description ev)), (''author'', ev_author ev), (''slide_text'', ev_slide_text ev),
     (''transcript'', ev_transcript ev)]"

definition mentions_any :: "string list \<Rightarrow> string \<Rightarrow> bool" where
  "mentions_any ws s \<longleftrightarrow> list_ex (contains s) ws"

text \<open>The reason of a rejection by the gate, from the gaps that count.\<close>

definition gap_reason :: "string list \<Rightarrow> string" where
  "gap_reason gaps =
     (let blob = lower (join '' '' (material_blocking_gaps gaps)) in
      if mentions_any [''ingredient'', ''ingrediente'', ''zutaten'', ''mat'' @ [e_acute] @ ''riau'', ''material''] blob
      then recipe_no_ingredients
      else if mentions_any [''step'', ''method'', ''paso'', e_acute # ''tape'', ''anweisung'', ''istruzione''] blob
      then recipe_no_method
      else recipe_incomplete)"

definition to_confidence :: "kitchen \<Rightarrow> json \<Rightarrow> rat" where
  "to_confidence K v = (case to_float K v of None \<Rightarrow> 0 | Some q \<Rightarrow> q)"

definition gaps_of :: "kitchen \<Rightarrow> dict \<Rightarrow> string list res" where
  "gaps_of K d = res_bind (iterate (dget d ''blocking_gaps''))
     (\<lambda>vs. Inr [t \<leftarrow> map (\<lambda>v. strip (py_str (kt_rep K) v)) vs. t \<noteq> []])"

definition or_list :: "json \<Rightarrow> json" where
  "or_list v = (if truthy v then v else JArr [])"

text \<open>The \<open>Recipe\<close> of an answer; None is a \<open>ValidationError\<close>.\<close>

definition assemble ::
  "kitchen \<Rightarrow> labels \<Rightarrow> evidence \<Rightarrow> string \<Rightarrow> dict \<Rightarrow> ingredient_section list \<Rightarrow> recipe_step list \<Rightarrow> recipe option" where
  "assemble K lb ev lang d sections steps =
     (let conf = to_confidence K (dget d ''confidence''); title = visible_text (kt_rep K) (dget d ''title'') in
      case (kt_opt_int K (dget d ''servings''), kt_opt_int K (dget d ''prep_minutes''), kt_opt_int K (dget d ''cook_minutes''),
            kt_strings K (or_list (dget d ''tags'')), kt_strings K (or_list (dget d ''missing_fields'')),
            kt_tips K (or_list (dget d ''tips''))) of
        (Some sv, Some pm, Some cm, Some tags, Some missing, Some tips) \<Rightarrow>
          if conf < 0 \<or> 1 < conf then None
          else Some \<lparr>rc_id = None, rc_title = (if title = [] then lb_untitled lb else title),
            rc_ingredients = concat (map sc_items sections), rc_sections = sections, rc_steps = steps,
            rc_servings = sv, rc_prep = pm, rc_cook = cm, rc_tags = tags, rc_confidence = conf, rc_missing = missing,
            rc_source = ev_source ev, rc_platform = ev_platform ev, rc_thumbnail = ev_thumbnail ev,
            rc_carousel = ev_carousel ev, rc_author = ev_author ev,
            rc_description = optional_text (kt_rep K) (dget d ''description''), rc_tips = tips,
            rc_transcript = merge_text (ev_transcript ev) (ev_slide_text ev), rc_language = lang\<rparr>
      | _ \<Rightarrow> None)"

text \<open>What becomes of an answer: a recipe or the reason of its rejection.\<close>

definition judge :: "kitchen \<Rightarrow> labels \<Rightarrow> evidence \<Rightarrow> string \<Rightarrow> dict \<Rightarrow> (string + recipe) res" where
  "judge K lb ev lang d =
     res_bind (usable_ingredient_sections K lb (dget d ''ingredient_sections'')) (\<lambda>sections.
     res_bind (gaps_of K d) (\<lambda>gaps.
     let steps = usable_steps K (dget d ''steps'') in
     Inr (if sections = [] \<and> steps = [] then Inl recipe_undetermined
       else if sections = [] then Inl recipe_no_ingredients
       else if steps = [] then Inl recipe_no_method
       else if to_confidence K (dget d ''confidence'') < min_recipe_confidence then Inl recipe_incomplete
       else case assemble K lb ev lang d sections steps of
         None \<Rightarrow> Inl recipe_incomplete
       | Some r \<Rightarrow> if recipe_is_complete r gaps then Inr r else Inl (gap_reason gaps))))"

text \<open>\<open>prompt\<close> is \<open>build_recipe_prompt\<close> for the language of the recipe.\<close>

definition build_recipe ::
  "settings \<Rightarrow> kitchen \<Rightarrow> (string \<Rightarrow> labels) \<Rightarrow> (string \<Rightarrow> string \<Rightarrow> string) \<Rightarrow> evidence \<Rightarrow> meter \<times> reasons \<Rightarrow>
   recipe option res \<times> (meter \<times> reasons)" where
  "build_recipe cfg K lbs prompt ev s =
     (case s of (m, rs) \<Rightarrow>
      if openai_api_key cfg = [] then (Inl (ExtractError ''OPENAI_API_KEY is not configured''), s)
      else let lang = normalize_language (Some (ev_language ev)) in
        case bounded_source_json (payload_of ev) 24000 of
          Inl e \<Rightarrow> (Inl e, s)
        | Inr src \<Rightarrow>
            (case request_structured_recipe cfg K (prompt lang src) m of
               (Inl e, m') \<Rightarrow> (Inl e, (m', rs))
             | (Inr d, m') \<Rightarrow>
                 (case judge K (lbs lang) ev lang d of
                    Inl e \<Rightarrow> (Inl e, (m', rs))
                  | Inr (Inl reason) \<Rightarrow> (Inr None, (m', [reason]))
                  | Inr (Inr r) \<Rightarrow> (Inr (Some r), (m', rs)))))"

subsection \<open>\<open>translate_recipe\<close>\<close>

text \<open>Quantities and densities come from the source recipe, by position.\<close>

fun restore_items :: "ingredient list \<Rightarrow> ingredient list \<Rightarrow> ingredient list" where
  "restore_items src [] = []"
| "restore_items [] (i # is) = ingredient (in_name i) (in_quantity i) (in_unit i) (sane (in_density i)) # restore_items [] is"
| "restore_items (s # src) (i # is) = ingredient (in_name i) (in_quantity s) (in_unit i) (sane (in_density s)) # restore_items src is"

fun restore_sections :: "ingredient list \<Rightarrow> ingredient_section list \<Rightarrow> ingredient_section list" where
  "restore_sections src [] = []"
| "restore_sections src (s # ss) =
     s\<lparr>sc_items := restore_items src (sc_items s)\<rparr> # restore_sections (drop (length (sc_items s)) src) ss"

definition restore_quantity_and_density :: "ingredient_section list \<Rightarrow> ingredient_section list \<Rightarrow> ingredient_section list" where
  "restore_quantity_and_density source translated = restore_sections (concat (map sc_items source)) translated"

text \<open>A title that is true but no text is refused by pydantic.\<close>

definition translated_title :: "labels \<Rightarrow> json \<Rightarrow> string res" where
  "translated_title lb v = (if truthy v then (case v of JStr s \<Rightarrow> Inr s | _ \<Rightarrow> Inl (ValueError ''validation'')) else Inr (lb_section lb))"

definition translated_item :: "kitchen \<Rightarrow> dict \<Rightarrow> ingredient option" where
  "translated_item K d =
     (let v = dget d ''name''; name = strip (if truthy v then py_str (kt_rep K) v else []) in
      if name = [] then None
      else Some (ingredient name (optional_text (kt_rep K) (dget d ''quantity'')) (optional_text (kt_rep K) (dget d ''unit''))
        (parse_density_g_per_ml (to_float K) (dget d ''density_g_per_ml''))))"

definition translated_section :: "kitchen \<Rightarrow> labels \<Rightarrow> dict \<Rightarrow> ingredient_section res" where
  "translated_section K lb d =
     res_bind (translated_title lb (dget d ''title'')) (\<lambda>t.
     res_bind (iterate (dget d ''ingredients'')) (\<lambda>vs.
     Inr \<lparr>sc_title = t, sc_items = List.map_filter (translated_item K) (dicts_of vs)\<rparr>))"

definition invalid_translation :: exn where
  "invalid_translation = ExtractError ''Translated recipe output failed validation''"

definition assemble_translation ::
  "kitchen \<Rightarrow> labels \<Rightarrow> recipe \<Rightarrow> string \<Rightarrow> dict \<Rightarrow> ingredient_section list \<Rightarrow> recipe option" where
  "assemble_translation K lb r lang d sections =
     (case (map_of d ''title'', kt_steps K (or_list (dget d ''steps'')), kt_opt_int K (dget d ''servings''),
            kt_opt_int K (dget d ''prep_minutes''), kt_opt_int K (dget d ''cook_minutes''),
            kt_strings K (or_list (dget d ''tags'')),
            (if truthy (dget d ''missing_fields'') then kt_strings K (dget d ''missing_fields'') else Some (rc_missing r)),
            kt_tips K (or_list (dget d ''tips'')), translated_title lb (dget d ''description'')) of
        (Some v, Some steps, Some sv, Some pm, Some cm, Some tags, Some missing, Some tips, Inr _) \<Rightarrow>
          (case translated_title (lb\<lparr>lb_section := lb_untitled lb\<rparr>) v of
             Inl _ \<Rightarrow> None
           | Inr title \<Rightarrow> Some (r\<lparr>rc_title := title, rc_ingredients := concat (map sc_items sections), rc_sections := sections,
               rc_steps := steps, rc_servings := sv, rc_prep := pm, rc_cook := cm, rc_tags := tags, rc_missing := missing,
               rc_description := (case dget d ''description'' of JStr (c # s) \<Rightarrow> Some (c # s) | _ \<Rightarrow> None),
               rc_tips := tips, rc_language := lang\<rparr>))
      | _ \<Rightarrow> None)"

definition translate_recipe ::
  "settings \<Rightarrow> kitchen \<Rightarrow> (string \<Rightarrow> labels) \<Rightarrow> (string \<Rightarrow> recipe \<Rightarrow> string) \<Rightarrow> recipe \<Rightarrow> string \<Rightarrow> meter \<Rightarrow> recipe res \<times> meter" where
  "translate_recipe cfg K lbs prompt r target m =
     (if openai_api_key cfg = [] then (Inl (ExtractError ''OPENAI_API_KEY is not configured''), m)
      else let lang = normalize_language (Some target); lb = lbs lang in
        case request_structured_recipe cfg K (take 16000 (prompt lang r)) m of
          (Inl e, m') \<Rightarrow> (Inl e, m')
        | (Inr d, m') \<Rightarrow>
            (res_bind (iterate (dget d ''ingredient_sections'')) (\<lambda>vs.
             res_bind (res_map (translated_section K lb) (dicts_of vs)) (\<lambda>ts.
             let sections = power_up_ingredient_sections lb (restore_quantity_and_density (rc_sections r) ts)
             in case assemble_translation K lb r lang d sections of
                  None \<Rightarrow> Inl invalid_translation
                | Some r' \<Rightarrow> Inr r')), m'))"

end
