(* ===== verification/Recipe_Facts.thy ===== *)
theory Recipe_Facts
  imports Recipe_Builder
begin

section \<open>What the recipe builder guarantees\<close>

text \<open>
  Facts on \<open>Recipe_Builder\<close>: the regrouping of the ingredients loses none but headings and blanks,
  an accepted recipe is complete, the source text stays within its bound with the on-screen text
  intact, and a translation keeps quantities and densities.
\<close>

subsection \<open>Regrouping ingredients\<close>

definition all_items :: "rebuild \<Rightarrow> ingredient multiset" where
  "all_items b = mset (concat (map sc_items (rb_done b)) @ rb_current b @ rb_bucket b)"

definition kept_item :: "ingredient \<Rightarrow> bool" where
  "kept_item i \<longleftrightarrow> \<not> looks_like_section_heading i \<and> strip (in_name (fst (strip_optional_marker i))) \<noteq> []"

definition cleaned_item :: "labels \<Rightarrow> ingredient \<Rightarrow> ingredient" where
  "cleaned_item lb i = with_taste lb (fst (strip_optional_marker i))"

definition kept_items :: "labels \<Rightarrow> ingredient_section list \<Rightarrow> ingredient list" where
  "kept_items lb sections = map (cleaned_item lb) (filter kept_item (concat (map sc_items sections)))"

lemma flush_items [simp]: "all_items (flush_current b) = all_items b"
  by (simp add: flush_current_def all_items_def)

lemma flush_empty [simp]: "rb_current (flush_current b) = []"
  by (simp add: flush_current_def)

lemma begin_items [simp]: "all_items (begin_section lb t b) = all_items b"
proof -
  have "all_items (b'\<lparr>rb_title := x, rb_optional := y\<rparr>) = all_items b'" for b' x y by (simp add: all_items_def)
  then show ?thesis by (simp add: begin_section_def Let_def)
qed

lemma add_item_items:
  "all_items (add_ingredient lb i b) = all_items b + mset (if kept_item i then [cleaned_item lb i] else [])"
proof (cases "looks_like_section_heading i")
  case True
  then show ?thesis by (simp add: add_ingredient_def kept_item_def Let_def)
next
  case False
  obtain c m where c: "strip_optional_marker i = (c, m)" by (cases "strip_optional_marker i")
  show ?thesis using False c by (simp add: add_ingredient_def kept_item_def cleaned_item_def Let_def all_items_def)
qed

lemma add_items_items:
  "all_items (fold (add_ingredient lb) is b) = all_items b + mset (map (cleaned_item lb) (filter kept_item is))"
  by (induction "is" arbitrary: b) (simp_all add: add_item_items)

lemma add_sections_items: "all_items (fold (add_section lb) ss b) = all_items b + mset (kept_items lb ss)"
  by (induction ss arbitrary: b) (simp_all add: add_section_def Let_def add_items_items kept_items_def)

lemma merge_items: "mset (concat (map sc_items (merge_optional lb bucket ss))) = mset (concat (map sc_items ss)) + mset bucket"
  by (induction ss) simp_all

lemma nonempty_items: "concat (map sc_items [s \<leftarrow> ss. sc_items s \<noteq> []]) = concat (map sc_items ss)"
  by (induction ss) simp_all

text \<open>C37: Regrouping the ingredients under their headings loses and invents none: apart from the rows that are headings
  themselves and the rows without a name, every ingredient of the model's answer, without its
  optional marker and with an amount to taste where it had none, is in exactly one section of
  the result, and no section is empty. When nothing is left the answer stays as it is.\<close>

theorem ingredients_conserved:
  "(if kept_items lb sections = [] then power_up_ingredient_sections lb sections = sections
    else mset (concat (map sc_items (power_up_ingredient_sections lb sections))) = mset (kept_items lb sections) \<and>
      list_all (\<lambda>s. sc_items s \<noteq> []) (power_up_ingredient_sections lb sections))"
proof -
  define b where "b = flush_current (fold (add_section lb) sections
      \<lparr>rb_done = [], rb_title = lb_section lb, rb_current = [], rb_bucket = [], rb_optional = False\<rparr>)"
  define merged where "merged = (if rb_bucket b = [] then rb_done b else merge_optional lb (rb_bucket b) (rb_done b))"
  have "all_items b = mset (kept_items lb sections)"
    unfolding b_def by (simp add: add_sections_items) (simp add: all_items_def)
  moreover have "rb_current b = []" by (simp add: b_def)
  ultimately have m: "mset (concat (map sc_items merged)) = mset (kept_items lb sections)"
    by (cases "rb_bucket b = []") (simp_all add: merged_def merge_items all_items_def add.commute)
  let ?r = "[s \<leftarrow> merged. sc_items s \<noteq> []]"
  have p: "power_up_ingredient_sections lb sections = (if ?r = [] then sections else ?r)"
    unfolding power_up_ingredient_sections_def Let_def b_def [symmetric] merged_def [symmetric] by simp
  have "concat (map sc_items ?r) = [] \<longleftrightarrow> ?r = []" by (auto simp: filter_empty_conv)
  moreover have "concat (map sc_items merged) = [] \<longleftrightarrow> kept_items lb sections = []"
    using m by (metis mset_zero_iff)
  ultimately have "?r = [] \<longleftrightarrow> kept_items lb sections = []" by (simp only: nonempty_items)
  with p m show ?thesis by (simp add: nonempty_items list_all_iff)
qed

text \<open>An ingredient whose name ends like a heading, and that has no amount, is taken for one: a list of rice and
  soy sauce loses the soy sauce.\<close>

definition english :: labels where
  "english = \<lparr>lb_section = ''Ingredients'', lb_optional = ''Optional'', lb_taste = ''to taste'', lb_untitled = ''Untitled recipe''\<rparr>"

definition rice :: ingredient where
  "rice = ingredient ''Rice'' (Some ''1'') (Some ''cup'') None"

theorem plain_ingredient_lost:
  "power_up_ingredient_sections english
     [\<lparr>sc_title = ''Ingredients'', sc_items = [rice, ingredient ''Soy sauce'' None None None]\<rparr>] =
   [\<lparr>sc_title = ''Ingredients'', sc_items = [rice]\<rparr>]"
  by code_simp

theorem ingredients_conserved_witness:
  "mset (concat (map sc_items (power_up_ingredient_sections english
     [\<lparr>sc_title = ''Ingredients'', sc_items = [rice, ingredient ''Salt (optional)'' None None None]\<rparr>]))) =
   {#rice, ingredient ''Salt'' (Some ''to taste'') None None#}"
proof -
  let ?ss = "[\<lparr>sc_title = ''Ingredients'', sc_items = [rice, ingredient ''Salt (optional)'' None None None]\<rparr>]"
  have k: "kept_items english ?ss = [rice, ingredient ''Salt'' (Some ''to taste'') None None]" by code_simp
  from ingredients_conserved [of english ?ss] show ?thesis unfolding k by simp
qed

subsection \<open>Accepted recipes\<close>

lemma strip_nil: "strip [] = []"
  by (simp add: strip_def lstrip_def rstrip_def)

lemma number_steps_facts:
  "map sp_order (number_steps K n ds) = [n..n + int (length (number_steps K n ds)) - 1] \<and>
   list_all (\<lambda>s. strip (sp_text s) \<noteq> []) (number_steps K n ds)"
proof (induction K n ds rule: number_steps.induct)
  case (2 K n d ds)
  have "strip t = t" if "t = visible_text (kt_rep K) v" for t v
    using that by (auto simp: visible_text_def visible_str_def Let_def strip_nil)
  then show ?case using 2 by (auto simp: Let_def upto_rec1)
qed simp

definition cookable :: "recipe \<Rightarrow> bool" where
  "cookable r \<longleftrightarrow>
     map sp_order (rc_steps r) = [1..int (length (rc_steps r))] \<and> rc_steps r \<noteq> [] \<and>
     (\<forall>s \<in> set (rc_steps r). strip (sp_text s) \<noteq> []) \<and>
     rc_ingredients r = concat (map sc_items (rc_sections r)) \<and> rc_ingredients r \<noteq> [] \<and>
     (\<forall>i \<in> set (rc_ingredients r). strip (in_name i) \<noteq> []) \<and>
     min_recipe_confidence \<le> rc_confidence r \<and> rc_confidence r \<le> 1"

lemma judged_cookable:
  assumes "judge K lb ev lang d = Inr (Inr r)"
  shows "cookable r \<and> rc_source r = ev_source ev \<and> rc_language r = lang \<and>
    (\<exists>gaps. gaps_of K d = Inr gaps \<and> material_blocking_gaps gaps = [])"
proof -
  from assms obtain sections gaps where g: "gaps_of K d = Inr gaps"
    and a: "assemble K lb ev lang d sections (usable_steps K (dget d ''steps'')) = Some r"
    and c: "recipe_is_complete r gaps"
    by (auto simp: judge_def res_bind_eq_Inr Let_def split: if_splits option.splits)
  have "rc_ingredients r = concat (map sc_items (rc_sections r))" "rc_confidence r \<le> 1" "rc_source r = ev_source ev"
    "rc_language r = lang"
    using a by (auto simp: assemble_def Let_def split: option.splits if_splits)
  with c g show ?thesis by (auto simp: cookable_def recipe_is_complete_def list_all_iff)
qed

lemma built_cookable:
  assumes "build_recipe cfg K lbs prompt ev s = (Inr (Some r), s')"
  shows "cookable r \<and> rc_source r = ev_source ev \<and> rc_language r = normalize_language (Some (ev_language ev))"
proof -
  from assms obtain d where "judge K (lbs (normalize_language (Some (ev_language ev)))) ev (normalize_language (Some (ev_language ev))) d
      = Inr (Inr r)"
    by (auto simp: build_recipe_def Let_def split: prod.splits sum.splits if_splits)
  from judged_cookable [OF this] show ?thesis by blast
qed

text \<open>A recipe that the builder accepts can be cooked: its steps are numbered 1, 2, 3 and so on without blank
  ones, it has ingredients, all of them named and exactly those of its sections, the model was
  confident enough, and none of the gaps it listed matters; it carries the address and the language
  of the import.\<close>

theorem accepted_recipe_complete:
  assumes "build_recipe cfg K lbs prompt ev s = (Inr (Some r), s')"
  shows "cookable r \<and> rc_source r = ev_source ev \<and> rc_language r = normalize_language (Some (ev_language ev))"
  using assms by (rule built_cookable)

subsection \<open>The source text\<close>

lemma dput_keys: "k \<in> fst ` set d \<Longrightarrow> map fst (dput k v d) = map fst d"
  by (induction k v d rule: dput.induct) auto

lemma cut_keys: "map fst (cut_field kl p) = map fst p"
proof -
  have "map_of p k = Some v \<Longrightarrow> k \<in> fst ` set p" for k v by (metis domI dom_map_of_conv_image_fst)
  then show ?thesis by (auto simp: cut_field_def dput_keys split: prod.split option.split)
qed

lemma cut_other: "k \<noteq> fst kl \<Longrightarrow> map_of (cut_field kl p) k = map_of p k"
  by (auto simp: cut_field_def split: prod.split option.split)

lemma cuts_keep:
  "map fst (fold cut_field kls p) = map fst p \<and> (k \<notin> fst ` set kls \<longrightarrow> map_of (fold cut_field kls p) k = map_of p k)"
  by (induction kls arbitrary: p) (simp_all add: cut_keys cut_other)

lemma omit_keeps:
  assumes "omit_fields n ks p = Inr s"
  shows "length s \<le> n \<and> (\<exists>p'. s = json_object p' \<and> map fst p' = map fst p \<and> (\<forall>k. k \<notin> set ks \<longrightarrow> map_of p' k = map_of p k))"
  using assms
proof (induction n ks p rule: omit_fields.induct)
  case (2 n k ks p)
  let ?p = "dput k (Some omitted_mark) p"
  show ?case
  proof (cases "map_of p k = Some None \<or> map_of p k = Some (Some []) \<or> map_of p k = None")
    case True
    then show ?thesis using 2 by auto
  next
    case False
    then have "k \<in> fst ` set p" by (metis domIff dom_map_of_conv_image_fst)
    then have keys: "map fst ?p = map fst p" by (rule dput_keys)
    show ?thesis
    proof (cases "length (json_object ?p) \<le> n")
      case True
      then show ?thesis using "2.prems" False keys by (auto simp: Let_def)
    next
      case len: False
      have "omit_fields n ks ?p = Inr s" using "2.prems" False len by (simp add: Let_def)
      from "2.IH"(2) [OF False refl len this] obtain p' where "length s \<le> n" "s = json_object p'"
        "map fst p' = map fst ?p" "\<forall>k'. k' \<notin> set ks \<longrightarrow> map_of p' k' = map_of ?p k'" by blast
      then show ?thesis using keys by auto
    qed
  qed
qed simp

text \<open>The source text sent to the model is one whole JSON object of at most the given length: a field may be cut
  or left out, but the fields are those of the payload, and neither the platform nor the text read
  off the slides is ever changed.\<close>

theorem source_bounded:
  assumes "bounded_source_json payload n = Inr s"
  shows "length s \<le> n \<and> (\<exists>p. s = json_object p \<and> map fst p = map fst payload \<and>
    map_of p ''slide_text'' = map_of payload ''slide_text'' \<and> map_of p ''platform'' = map_of payload ''platform'')"
proof -
  let ?p = "fold cut_field field_limits payload"
  have k: "map fst ?p = map fst payload" "map_of ?p ''slide_text'' = map_of payload ''slide_text''"
    "map_of ?p ''platform'' = map_of payload ''platform''"
    using cuts_keep [of field_limits payload] by (simp_all add: field_limits_def)
  show ?thesis
  proof (cases "length (json_object ?p) \<le> n")
    case True
    then show ?thesis using assms k by (auto simp: bounded_source_json_def Let_def)
  next
    case False
    then have "omit_fields n [''description'', ''title'', ''author'', ''transcript''] ?p = Inr s"
      using assms by (simp add: bounded_source_json_def Let_def)
    from omit_keeps [OF this] obtain p' where p': "length s \<le> n" "s = json_object p'" "map fst p' = map fst ?p"
      "\<And>k. k \<notin> set [''description'', ''title'', ''author'', ''transcript''] \<Longrightarrow> map_of p' k = map_of ?p k" by blast
    have "map_of p' ''slide_text'' = map_of ?p ''slide_text''" "map_of p' ''platform'' = map_of ?p ''platform''"
      by (simp_all add: p'(4))
    with p'(1-3) k show ?thesis by metis
  qed
qed

text \<open>A payload that is refused is too long even with every optional field left out.\<close>

definition blank_out :: "string option \<Rightarrow> string option" where
  "blank_out v = (if v = None \<or> v = Some [] then v else Some omitted_mark)"

definition omit_one :: "string \<Rightarrow> (string \<times> string option) list \<Rightarrow> (string \<times> string option) list" where
  "omit_one k p = (if map_of p k = Some None \<or> map_of p k = Some (Some []) \<or> map_of p k = None then p
     else dput k (Some omitted_mark) p)"

lemma omit_refused:
  "omit_fields n ks p = Inl e \<Longrightarrow> n < length (json_object p) \<Longrightarrow> n < length (json_object (fold omit_one ks p))"
  by (induction n ks p rule: omit_fields.induct) (auto simp: omit_one_def Let_def split: if_splits)

definition fields :: "string option \<Rightarrow> string option \<Rightarrow> string option \<Rightarrow> string option \<Rightarrow> string option \<Rightarrow> string option \<Rightarrow> (string \<times> string option) list" where
  "fields a b c d e f = [(''platform'', a), (''title'', b), (''description'', c), (''author'', d), (''slide_text'', e), (''transcript'', f)]"

lemma cut_fields: "\<exists>b' c' d' f'. fold cut_field field_limits (fields a b c d e f) = fields a b' c' d' e f'"
proof -
  have one: "\<exists>b'. cut_field (''title'', n) (fields a b c d e f) = fields a b' c d e f"
    "\<exists>d'. cut_field (''author'', n) (fields a b c d e f) = fields a b c d' e f"
    "\<exists>c'. cut_field (''description'', n) (fields a b c d e f) = fields a b c' d e f"
    "\<exists>f'. cut_field (''transcript'', n) (fields a b c d e f) = fields a b c d e f'" for b c d f n
    by (auto simp: cut_field_def fields_def split: option.split)
  obtain b' where 1: "cut_field (''title'', 2000) (fields a b c d e f) = fields a b' c d e f" using one(1) by blast
  obtain d' where 2: "cut_field (''author'', 500) (fields a b' c d e f) = fields a b' c d' e f" using one(2) by blast
  obtain c' where 3: "cut_field (''description'', 8000) (fields a b' c d' e f) = fields a b' c' d' e f" using one(3) by blast
  obtain f' where 4: "cut_field (''transcript'', 16000) (fields a b' c' d' e f) = fields a b' c' d' e f'" using one(4) by blast
  have "fold cut_field field_limits (fields a b c d e f) = fields a b' c' d' e f'"
    by (simp add: field_limits_def 1 2 3 4)
  then show ?thesis by blast
qed

lemma omit_fields_one:
  "omit_one ''title'' (fields a b c d e f) = fields a (blank_out b) c d e f"
  "omit_one ''description'' (fields a b c d e f) = fields a b (blank_out c) d e f"
  "omit_one ''author'' (fields a b c d e f) = fields a b c (blank_out d) e f"
  "omit_one ''transcript'' (fields a b c d e f) = fields a b c d e (blank_out f)"
  by (simp_all add: omit_one_def fields_def blank_out_def)

lemma omit_all_fields:
  "fold omit_one [''description'', ''title'', ''author'', ''transcript''] (fields a b c d e f) =
   fields a (blank_out b) (blank_out c) (blank_out d) e (blank_out f)"
  by (simp add: omit_fields_one)

definition plain_char :: "char \<Rightarrow> bool" where
  "plain_char c \<longleftrightarrow> 35 \<le> (of_char c :: nat) \<and> (of_char c :: nat) \<noteq> 92 \<or> c = CHR '' ''"

lemma plain_text: "list_all plain_char s \<Longrightarrow> length (json_text (Some s)) = length s + 2"
proof -
  have "length (json_escape c) = 1" if "plain_char c" for c
    using that by (auto simp: json_escape_def plain_char_def Let_def)
  then have "list_all plain_char s \<Longrightarrow> length (concat (map json_escape s)) = length s"
    by (induction s) simp_all
  then show "list_all plain_char s \<Longrightarrow> length (json_text (Some s)) = length s + 2" by (simp add: json_text_def)
qed

lemma blank_length: "length (json_text (blank_out v)) \<le> 36"
proof -
  have "list_all plain_char omitted_mark" by (simp add: omitted_mark_def plain_char_def)
  then have "length (json_text (Some omitted_mark)) = 36" by (simp add: plain_text) (simp add: omitted_mark_def)
  then show ?thesis by (auto simp: blank_out_def) (auto simp: json_text_def)
qed

lemma fields_length: "length (json_object (fields a b c d e f)) =
    86 + length (json_text a) + length (json_text b) + length (json_text c) + length (json_text d) +
    length (json_text e) + length (json_text f)"
proof -
  have k: "length (json_text (Some ''platform'')) = 10" "length (json_text (Some ''title'')) = 7"
    "length (json_text (Some ''description'')) = 13" "length (json_text (Some ''author'')) = 8"
    "length (json_text (Some ''slide_text'')) = 12" "length (json_text (Some ''transcript'')) = 12"
    by (simp_all add: plain_text plain_char_def)
  show ?thesis by (simp add: json_object_def fields_def k)
qed

lemma platform_length: "length (json_text (Some (platform_name p))) \<le> 11"
  by (cases p) (simp_all add: plain_text plain_char_def)

lemma short_source:
  assumes "length (json_text (ev_slide_text ev)) \<le> 23750"
  shows "\<exists>s. bounded_source_json (payload_of ev) 24000 = Inr s"
proof (rule ccontr)
  assume no: "\<nexists>s. bounded_source_json (payload_of ev) 24000 = Inr s"
  have p: "payload_of ev = fields (Some (platform_name (ev_platform ev))) (Some (ev_title ev)) (Some (ev_description ev))
      (ev_author ev) (ev_slide_text ev) (ev_transcript ev)"
    by (simp add: payload_of_def fields_def)
  obtain b c d f where q: "fold cut_field field_limits (payload_of ev) =
      fields (Some (platform_name (ev_platform ev))) b c d (ev_slide_text ev) f"
    unfolding p using cut_fields by blast
  let ?q = "fields (Some (platform_name (ev_platform ev))) b c d (ev_slide_text ev) f"
  from no obtain e where "24000 < length (json_object ?q)"
    "omit_fields 24000 [''description'', ''title'', ''author'', ''transcript''] ?q = Inl e"
    unfolding bounded_source_json_def q Let_def
    by (metis not_le sum.exhaust)
  from omit_refused [OF this(2,1)] show False
    unfolding omit_all_fields fields_length
    using assms platform_length [of "ev_platform ev"] blank_length [of b] blank_length [of c] blank_length [of d] blank_length [of f]
    by linarith
qed

text \<open>Text from the slides is only refused when it alone fills the bound: below 23750 characters of it, as JSON,
  every import gets a prompt, however long its title, description, author and transcript are.\<close>

theorem source_accepted:
  assumes "length (json_text (ev_slide_text ev)) \<le> 23750"
  shows "\<exists>s. bounded_source_json (payload_of ev) 24000 = Inr s"
  using assms by (rule short_source)

subsection \<open>Translations\<close>

lemma sane_twice [simp]: "sane (sane d) = sane d"
  by (simp add: sane_def split: option.split)

lemma restore_append:
  "restore_items src (xs @ ys) = restore_items src xs @ restore_items (drop (length xs) src) ys"
  by (induction src xs rule: restore_items.induct) simp_all

lemma restore_flat:
  "concat (map sc_items (restore_sections src ss)) = restore_items src (concat (map sc_items ss))"
  by (induction src ss rule: restore_sections.induct) (simp_all add: restore_append)

lemma restore_same_length:
  "length src = length xs \<Longrightarrow>
   map in_quantity (restore_items src xs) = map in_quantity src \<and>
   map in_density (restore_items src xs) = map (sane \<circ> in_density) src \<and>
   map in_name (restore_items src xs) = map in_name xs \<and> map in_unit (restore_items src xs) = map in_unit xs"
  by (induction src xs rule: restore_items.induct) (simp_all add: ingredient_def)


text \<open>A translation that drops an ingredient gives its amount to the next one: the salt of a recipe of 500 g of flour
  and 5 g of salt is translated to 500 g of salt.\<close>

theorem translation_shifts_amounts:
  "restore_quantity_and_density
     [\<lparr>sc_title = ''Dough'', sc_items = [ingredient ''Flour'' (Some ''500'') (Some ''g'') None, ingredient ''Salt'' (Some ''5'') (Some ''g'') None]\<rparr>]
     [\<lparr>sc_title = ''Teig'', sc_items = [ingredient ''Salz'' (Some ''5'') (Some ''g'') None]\<rparr>] =
   [\<lparr>sc_title = ''Teig'', sc_items = [ingredient ''Salz'' (Some ''500'') (Some ''g'') None]\<rparr>]"
  by code_simp


theorem source_bounded_witness:
  "length (projr (bounded_source_json (fields (Some ''tiktok'') (Some ''Pie'') None None (Some ''2 eggs'') None) 24000)) \<le> 24000"
proof -
  have "length (json_object (fields (Some ''tiktok'') (Some ''Pie'') None None (Some ''2 eggs'') None)) \<le> 24000"
    unfolding fields_length by (simp add: plain_text plain_char_def) (simp add: json_text_def)
  then obtain s where s: "bounded_source_json (fields (Some ''tiktok'') (Some ''Pie'') None None (Some ''2 eggs'') None) 24000 = Inr s"
    by (simp add: bounded_source_json_def field_limits_def cut_field_def fields_def)
  from source_bounded [OF s] show ?thesis by (simp add: s)
qed

theorem source_accepted_witness:
  "\<exists>s. bounded_source_json (payload_of \<lparr>ev_platform = Tiktok, ev_source = ''x'', ev_title = replicate 30000 CHR ''a'',
     ev_description = [], ev_author = None, ev_thumbnail = None, ev_carousel = [], ev_transcript = None,
     ev_slide_text = Some ''2 eggs'', ev_language = ''en''\<rparr>) 24000 = Inr s"
  by (rule source_accepted) (simp add: plain_text plain_char_def)

subsection \<open>Example\<close>

text \<open>A video with a caption, of which the model makes a recipe of one step.\<close>

definition ex_items :: json where
  "ex_items = JArr [JObj [(''name'', JStr ''rice''), (''quantity'', JStr ''1''), (''unit'', JStr ''cup'')]]"

definition ex_sect :: json where
  "ex_sect = JArr [JObj [(''title'', JStr ''Ingredients''),(''ingredients'', ex_items)]]"

definition ex_data :: dict where
  "ex_data = [(''title'', JStr ''Rice''), (''confidence'', JNum (9 / 10)), (''blocking_gaps'', JArr []),
     (''ingredient_sections'', ex_sect), (''steps'', JArr [JObj [(''text'', JStr ''Boil.'')]])]"

definition ex_kitchen :: kitchen where
  "ex_kitchen = \<lparr>kt_chat = (\<lambda>_ _. Answered NNone (Some (Choice False ''{}'' False))), kt_loads = (\<lambda>_. Some (JObj ex_data)),
     kt_float = (\<lambda>_. None), kt_int = (\<lambda>_. None), kt_rep = (\<lambda>_. []), kt_opt_int = (\<lambda>_. Some None),
     kt_strings = (\<lambda>_. Some []), kt_tips = (\<lambda>_. Some []), kt_steps = (\<lambda>_. None)\<rparr>"

definition ex_evidence :: evidence where
  "ex_evidence = \<lparr>ev_platform = Tiktok, ev_source = ''x'', ev_title = ''Rice'', ev_description = [], ev_author = None,
     ev_thumbnail = None, ev_carousel = [], ev_transcript = None, ev_slide_text = None, ev_language = ''en''\<rparr>"

lemma ex_sections: "usable_ingredient_sections ex_kitchen english ex_sect =
  Inr [\<lparr>sc_title = ''Ingredients'', sc_items = [\<lparr>in_name = ''rice'', in_quantity = Some ''1'', in_unit = Some ''cup'', in_density = Some (17 / 20)\<rparr>]\<rparr>]"
  by code_simp

lemma ex_steps:
  "usable_steps ex_kitchen (JArr [JObj [(''text'', JStr ''Boil.'')]]) =
   [\<lparr>sp_order = 1, sp_text = ''Boil.'', sp_minutes = None\<rparr>]"
  by code_simp

lemma ex_judged: "\<exists>r. judge ex_kitchen english ex_evidence ''en-US'' ex_data = Inr (Inr r)"
proof -
  have g: "dget ex_data ''ingredient_sections'' = ex_sect" "dget ex_data ''blocking_gaps'' = JArr []" "dget ex_data ''steps'' = JArr [JObj [(''text'', JStr ''Boil.'')]]"
    "dget ex_data ''confidence'' = JNum (9 / 10)"
    by (simp_all add: ex_data_def dget_def)
  have cf: "to_confidence ex_kitchen (JNum (9 / 10)) = 9 / 10" by (simp add: to_confidence_def to_float_def)
  have p: "kt_opt_int ex_kitchen v = Some None" "kt_strings ex_kitchen v = Some []" "kt_tips ex_kitchen v = Some []" for v
    by (simp_all add: ex_kitchen_def)
  have s: "strip ''rice'' \<noteq> []" "strip ''Boil.'' \<noteq> []" by code_simp+
  show ?thesis
    unfolding judge_def g ex_sections ex_steps gaps_of_def cf
    by (simp add: Let_def min_recipe_confidence_def assemble_def p g cf recipe_is_complete_def material_blocking_gaps_def s)
qed

definition ex_cfg :: settings where
  "ex_cfg = default_settings\<lparr>openai_api_key := ''sk''\<rparr>"

definition ex_build :: "recipe option res \<times> (meter \<times> reasons)" where
  "ex_build = build_recipe ex_cfg ex_kitchen (\<lambda>_. english) (\<lambda>_ s. s) ex_evidence (new_meter, [])"

theorem accepted_recipe_complete_witness:
  "\<exists>r. fst ex_build = Inr (Some r) \<and> cookable r"
proof -
  obtain src where src: "bounded_source_json (payload_of ex_evidence) 24000 = Inr src"
    using short_source [of ex_evidence] by (auto simp: ex_evidence_def json_text_def)
  obtain m where req: "request_structured_recipe ex_cfg ex_kitchen src new_meter = (Inr ex_data, m)"
    by (simp add: request_structured_recipe_def one_attempt_def read_choice_def ex_kitchen_def)
  obtain r where j: "judge ex_kitchen english ex_evidence ''en-US'' ex_data = Inr (Inr r)" using ex_judged by blast
  have "normalize_language (Some (ev_language ex_evidence)) = ''en-US''"
  by code_simp
  moreover have "openai_api_key ex_cfg \<noteq> []" by (simp add: ex_cfg_def)
  ultimately have b: "build_recipe ex_cfg ex_kitchen (\<lambda>_. english) (\<lambda>_ s. s) ex_evidence (new_meter, []) = (Inr (Some r), (m, []))"
    using src req j by (simp add: build_recipe_def Let_def)
  from accepted_recipe_complete [OF this] show ?thesis by (simp add: ex_build_def b)
qed

end
