(* ===== verification/Recipe_Flow.thy ===== *)
theory Recipe_Flow
  imports Recipe_Facts Pipeline_Runs Rely
begin

section \<open>Which recipes an import stores\<close>

text \<open>
  The composition of the pipeline with the recipe builder. Every recipe that a stage of an import
  hands on was accepted by \<open>build\<close>, so that what holds of all accepted recipes holds of every recipe
  an import writes to the table.
\<close>

definition all_some :: "('r \<Rightarrow> bool) \<Rightarrow> 'r option \<Rightarrow> bool" where
  "all_some P v \<longleftrightarrow> (case v of None \<Rightarrow> True | Some r \<Rightarrow> P r)"

lemma all_some_simps [simp]: "all_some P None" "all_some P (Some r) = P r"
  by (simp_all add: all_some_def)

lemma yields_true: "yields (\<lambda>_. True) m"
  by (simp add: yields_def)

lemma yields_lift: "(\<And>x. v = Inr x \<Longrightarrow> Y x) \<Longrightarrow> yields Y (tx_lift v)"
  by (cases v) (auto simp: yields_def)

lemma yields_catch_extract: "yields Y m \<Longrightarrow> (\<And>e. yields Y (h e)) \<Longrightarrow> yields Y (catch_extract m h)"
  unfolding catch_extract_def by (intro yields_rules)

lemma yields_raise_last: "yields Y raise_last"
  unfolding raise_last_def by (intro yields_rules)

text \<open>From evidence with \<open>Q\<close> the tools build only recipes with \<open>P\<close>, and a thumbnail does not change that.\<close>

definition builds :: "(evidence \<Rightarrow> bool) \<Rightarrow> ('r \<Rightarrow> bool) \<Rightarrow> ('r, 'a, 'f) tools \<Rightarrow> bool" where
  "builds Q P T \<longleftrightarrow> (\<forall>ev s r s'. Q ev \<longrightarrow> build T ev s = (Inr (Some r), s') \<longrightarrow> P r) \<and> (\<forall>t r. P r \<longrightarrow> P (with_thumbnail T t r))"

text \<open>What a video and what the slides of an address give has \<open>Q\<close>; a carousel marked as incomplete is not used.\<close>

definition evidence_ok :: "(evidence \<Rightarrow> bool) \<Rightarrow> (string \<Rightarrow> slide_info option res) \<Rightarrow> string \<Rightarrow> bool" where
  "evidence_ok Q slides url \<longleftrightarrow> (\<forall>ev. ev_carousel ev = [] \<longrightarrow> Q ev) \<and>
     (\<forall>s lang t. slides url = Inr (Some s) \<longrightarrow> sl_incomplete s \<in> {None, Some []} \<longrightarrow> Q (carousel_evidence url lang s t))"

lemma yields_call_build: "builds Q P T \<Longrightarrow> Q ev \<Longrightarrow> yields (all_some P) (call_build T ev)"
  unfolding builds_def yields_def call_build_def local_def
  by (fastforce simp: all_some_def split: prod.splits option.splits)

lemma yields_try_build:
  assumes T: "builds Q P T" and Q: "evidence_ok Q slides url"
  shows "yields (all_some P) (try_build T pf lang md t v)"
  unfolding try_build_def by (intro yields_rules yields_call_build [OF T]) (use Q in \<open>simp_all add: evidence_ok_def\<close>)

lemma yields_batches:
  assumes "\<And>t v. yields (all_some P) (tb t v)"
  shows "yields (\<lambda>x. all_some P (fst x)) (vision_batches cfg T tb t vt bs)"
proof (induction bs arbitrary: vt)
  case Nil
  show ?case by (simp add: yields_rules del: tx_simps)
next
  case (Cons b bs)
  show ?case unfolding vision_batches.simps
    by (intro yields_rules(3) yields_bind2 [OF assms] yields_cases yields_rules(1) Cons.IH) simp
qed

lemma yields_vision:
  assumes "\<And>t v. yields (all_some P) (tb t v)"
  shows "yields (\<lambda>x. all_some P (fst x)) (vision_incremental_build cfg T fs tb t vt)"
  unfolding vision_incremental_build_def Let_def
  by (intro yields_rules yields_batches [OF assms]) simp

lemma yields_slides:
  assumes "builds Q P T" "\<And>t. Q (carousel_evidence url lang s t)"
  shows "yields P (slide_loop st T i url lang s idx imgs parts failures)"
proof (induction imgs arbitrary: idx parts failures)
  case Nil
  show ?case unfolding slide_loop.simps by (intro yields_rules yields_raise_last)
next
  case (Cons img imgs)
  show ?case unfolding slide_loop.simps Let_def
    by (intro yields_rules(3) yields_cases yields_bind2 [OF yields_call_build [OF assms]] yields_rules(1) Cons.IH) simp
qed

lemma yields_carousel:
  assumes T: "builds Q P T" and ev: "sl_incomplete s \<in> {None, Some []} \<Longrightarrow> (\<And>t. Q (carousel_evidence url lang s t))"
  shows "yields P (carousel_stage st T i url lang s)"
proof (cases "sl_incomplete s \<in> {None, Some []}")
  case True
  have first: "yields (all_some P) (if has_text (Some (sl_title s)) \<or> has_text (Some (sl_description s))
      then call_build T (carousel_evidence url lang s None) else tx_return None)"
    by (intro yields_rules yields_call_build [OF T ev [OF True]]) simp
  have rest: "yields P (case r of None \<Rightarrow> slide_loop st T i url lang s 1 (sl_image_urls s) [] [] | Some x \<Rightarrow> tx_return x)"
    if "all_some P r" for r
    using that by (intro yields_cases yields_slides [OF T ev [OF True]] yields_rules) simp
  show ?thesis unfolding carousel_stage_def
    by (intro yields_rules(2,3,5) yields_bind2 [OF first] yields_bind2 [OF rest] yields_rules(1))
next
  case False
  then show ?thesis unfolding carousel_stage_def by (simp add: yields_rules del: tx_simps)
qed

lemma yields_speech:
  assumes "\<And>t v. yields (all_some P) (tb t v)"
  shows "yields (\<lambda>x. all_some P (snd x)) (speech_stage T lang md tb t vt)"
  unfolding speech_stage_def Let_def
  by (intro yields_rules(3) yields_cases yields_rules(4) yields_bind2 [OF assms] yields_rules(1)) simp_all

lemma yields_visual:
  assumes "\<And>t v. yields (all_some P) (tb t v)"
  shows "yields (\<lambda>x. all_some P (fst x)) (visual_stage cfg T md tb t vt)"
  unfolding visual_stage_def
  by (intro yields_rules(3) yields_catch_extract yields_vision [OF assms] yields_rules(1)) simp

lemma yields_finish:
  assumes "builds Q P T" "all_some P r"
  shows "yields P (finish_video T md t vt r)"
  unfolding finish_video_def
  by (intro yields_cases yields_rules yields_raise_last)
    (use assms in \<open>auto simp: builds_def split: option.split\<close>)

lemma yields_escalate:
  assumes T: "builds Q P T" and tb: "\<And>t v. yields (all_some P) (tb t v)"
  shows "yields P (escalate cfg st T i lang md tb t vt)"
proof -
  have speech: "yields (\<lambda>x. all_some P (snd x)) (case r1 of None \<Rightarrow> speech_stage T lang md tb t vt | Some _ \<Rightarrow> tx_return (t, r1))"
    if "all_some P r1" for r1
    using that by (intro yields_cases yields_speech [OF tb] yields_rules) simp
  have visual: "yields (\<lambda>x. all_some P (fst x)) (case snd tr of None \<Rightarrow> visual_stage cfg T md tb (fst tr) vt | Some _ \<Rightarrow> tx_return (snd tr, vt))"
    if "all_some P (snd tr)" for tr :: "string option \<times> 'a option"
    using that by (intro yields_cases yields_visual [OF tb] yields_rules) simp
  show ?thesis unfolding escalate_def
    by (intro yields_bind2 [OF tb] yields_rules(2,3,5) yields_bind2 [OF speech] yields_bind2 [OF visual] yields_finish [OF T])
qed

lemma yields_video: "builds Q P T \<Longrightarrow> evidence_ok Q slides url \<Longrightarrow> yields P (video_stage cfg st T i pf url lang)"
  unfolding video_stage_def
  by (intro yields_rules(3) yields_escalate yields_try_build)

lemma yields_extract:
  assumes T: "builds Q P T" and Q: "evidence_ok Q (slides_of T) url"
  shows "yields P (extract_stage cfg st T i url lang)"
proof -
  have slides: "yields (\<lambda>s. s = None \<or> slides_of T url = Inr s) (if detect_platform url = Tiktok then
      tx_bind (tx_lift (slides_of T url)) (\<lambda>s.
      tx_bind (set_job (st 2) i [SetProgress 30]) (\<lambda>_.
      if s \<noteq> None then tx_return s
      else tx_bind (tx_lift (urlparse url)) (\<lambda>u.
        if contains (lower (u_path u)) ''/photo/'' then tx_raise (ExtractError incomplete_carousel)
        else tx_return None)))
    else tx_return None)"
    by (intro yields_rules(3,5) yields_bind2 [OF yields_lift [where Y = "\<lambda>s. slides_of T url = Inr s"]] yields_rules(1,2)) simp_all
  have rest: "yields P (if s \<noteq> None \<and> sl_image_urls (the s) \<noteq> [] then carousel_stage st T i url lang (the s)
      else video_stage cfg st T i (detect_platform url) url lang)" if "s = None \<or> slides_of T url = Inr s" for s
    using that Q by (auto intro!: yields_carousel [OF T] yields_video [OF T Q] simp: evidence_ok_def)
  show ?thesis unfolding extract_stage_def
    by (intro yields_rules(2,3,5) yields_bind2 [OF slides rest])
qed

subsection \<open>The table of recipes\<close>

text \<open>A transaction adds to the table, or writes into it, only recipes with \<open>P\<close>.\<close>

definition stores_only :: "('r \<Rightarrow> bool) \<Rightarrow> 'r pipe \<Rightarrow> 'r pipe \<Rightarrow> bool" where
  "stores_only P p p' \<longleftrightarrow> (\<forall>x \<in> set (pi_recipes p'). x \<in> set (pi_recipes p) \<or> P (rr_recipe x))"

interpretation so: stages "stores_only P" i for P i
  by unfold_locales (auto simp: stores_only_def)

lemma keeps_bind_yields:
  assumes "keeps R m" "yields Y m" "\<And>x. Y x \<Longrightarrow> keeps R (f x)" "\<And>a b c. R a b \<Longrightarrow> R b c \<Longrightarrow> R a c"
  shows "keeps R (tx_bind m f)"
  unfolding keeps_def
proof (intro allI impI)
  fix w r w' assume e: "env_in R w" and b: "tx_bind m f w = (r, w')"
  obtain r1 w1 where m1: "m w = (r1, w1)" by (cases "m w")
  with assms(1) e have 1: "R (db w) (db w1)" "env_in R w1" "env w = [] \<longrightarrow> env w1 = []" unfolding keeps_def by blast+
  show "R (db w) (db w') \<and> env_in R w' \<and> (env w = [] \<longrightarrow> env w' = [])"
  proof (cases r1)
    case (Inl x)
    with b m1 1 show ?thesis by (simp add: tx_bind_def)
  next
    case (Inr x)
    with m1 assms(2,3) have "keeps R (f x)" unfolding yields_def by blast
    moreover have "f x w1 = (r, w')" using b m1 Inr by (simp add: tx_bind_def)
    ultimately have "R (db w1) (db w') \<and> env_in R w' \<and> (env w1 = [] \<longrightarrow> env w' = [])" using 1 unfolding keeps_def by blast
    with 1 assms(4) show ?thesis by blast
  qed
qed

lemma so_on_db: "keeps (stores_only P) (on_db f)"
  unfolding on_db_def by (rule so.keeps_atomically) (simp add: stores_only_def split: prod.split)

lemma so_set_job: "keeps (stores_only P) (set_job st i cols)"
  unfolding set_job_def by (rule so_on_db)

lemma so_upsert:
  assumes "P r"
  shows "keeps (stores_only P) (upsert_recipe n un lang r)"
  unfolding upsert_recipe_def recipe_by_norm_def Let_def
  by (intro so.keeps_rules so.keeps_atomically)
    (use assms in \<open>auto simp: stores_only_def insert_recipe_def update_recipe_def\<close>)

lemma so_log: "keeps (stores_only P) (log_usage now u c r i)"
  unfolding log_usage_def by (intro so.keeps_rules so.keeps_atomically) (simp add: stores_only_def)

lemma so_settle: "keeps (stores_only P) (settle_job i c s)"
  unfolding settle_job_def by (intro so.keeps_rules so_on_db)

lemma so_fail: "keeps (stores_only P) (fail_job st i u e)"
  unfolding fail_job_def mark_job_failed_def
  by (intro so.keeps_read_meter so.keeps_rules so_set_job so_log so_settle)

lemma so_complete: "P r \<Longrightarrow> keeps (stores_only P) (complete_job st i u un lang r)"
  unfolding complete_job_def
  by (intro so.keeps_read_meter so.keeps_rules so_set_job so_log so_settle so_upsert so.keeps_atomically)
    (auto simp: stores_only_def save_user_recipe_def)

lemma so_work:
  assumes "builds Q P T" "evidence_ok Q (slides_of T) url"
  shows "keeps (stores_only P) (work_job cfg st T i u url un lang)"
  unfolding work_job_def
  by (intro so.keeps_catch keeps_bind_yields [OF so.keeps_extract yields_extract [OF assms]] so_complete so_fail)
    (auto simp: stores_only_def)

lemma so_import:
  assumes "builds Q P T" "evidence_ok Q (slides_of T) url"
  shows "keeps (stores_only P) (import_job cfg st T i u url un lang)"
proof -
  let ?m = "work_job cfg st T i u url un (normalize_language (Some lang))"
  have "keeps (stores_only P) (finally_do ?m (release_slot u))"
    unfolding keeps_def
  proof (intro allI impI)
    fix w r w' assume e: "env_in (stores_only P) w" and f: "finally_do ?m (release_slot u) w = (r, w')"
    obtain r1 w1 where m: "?m w = (r1, w1)" by (cases "?m w")
    with so_work [OF assms, of cfg st i u un "normalize_language (Some lang)"] e
    have 1: "stores_only P (db w) (db w1)" "env_in (stores_only P) w1" "env w = [] \<longrightarrow> env w1 = []"
      unfolding keeps_def by blast+
    have "w' = w1\<lparr>db := (db w1)\<lparr>pi_guard := release u (pi_guard (db w1))\<rparr>\<rparr>"
      using f m by (auto simp: finally_do_def release_slot_def local_def)
    with 1 show "stores_only P (db w) (db w') \<and> env_in (stores_only P) w' \<and> (env w = [] \<longrightarrow> env w' = [])"
      by (simp add: stores_only_def env_in_def)
  qed
  moreover have "keeps (stores_only P) reset_meter"
    unfolding reset_meter_def by (rule so.keeps_local) (simp add: stores_only_def)
  ultimately show ?thesis unfolding import_job_def by (intro so.keeps_bind)
qed

subsection \<open>With the builder of the server\<close>

text \<open>The tools of an import with \<open>build_recipe\<close>; a cover only replaces the thumbnail.\<close>

definition with_builder ::
  "settings \<Rightarrow> kitchen \<Rightarrow> (string \<Rightarrow> labels) \<Rightarrow> (string \<Rightarrow> string \<Rightarrow> string) \<Rightarrow> (recipe, 'a, 'f) tools \<Rightarrow> (recipe, 'a, 'f) tools" where
  "with_builder cfg K lbs prompt T =
     T\<lparr>build := build_recipe cfg K lbs prompt, with_thumbnail := (\<lambda>t r. r\<lparr>rc_thumbnail := Some t\<rparr>)\<rparr>"

lemma builder_builds: "builds (\<lambda>_. True) cookable (with_builder cfg K lbs prompt T)"
proof -
  have "cookable r" if "build_recipe cfg K lbs prompt ev s = (Inr (Some r), s')" for ev s r s'
    using built_cookable [OF that] by blast
  moreover have "cookable (r\<lparr>rc_thumbnail := Some t\<rparr>)" if "cookable r" for r t
  proof -
    have "rc_steps (r\<lparr>rc_thumbnail := Some t\<rparr>) = rc_steps r" "rc_ingredients (r\<lparr>rc_thumbnail := Some t\<rparr>) = rc_ingredients r"
      "rc_sections (r\<lparr>rc_thumbnail := Some t\<rparr>) = rc_sections r" "rc_confidence (r\<lparr>rc_thumbnail := Some t\<rparr>) = rc_confidence r"
      by simp_all
    with that show ?thesis unfolding cookable_def by metis
  qed
  ultimately show ?thesis by (simp add: builds_def with_builder_def)
qed

lemma any_evidence: "evidence_ok (\<lambda>_. True) slides url"
  by (simp add: evidence_ok_def)


subsection \<open>Example\<close>

definition ex_kitchen_tools :: "(recipe, unit, unit) tools" where
  "ex_kitchen_tools = \<lparr>slides_of = (\<lambda>_. Inr None), ocr_slide = (\<lambda>_ _ m. (Inr [], m)),
     media_of = (\<lambda>_. Inl (ExtractError ''offline'')), captions_of = (\<lambda>_. Inr None),
     build = (\<lambda>_ s. (Inr None, s)), audio_of = (\<lambda>_. Inl (ExtractError ''offline'')),
     spoken = (\<lambda>_ _ _ m. (Inr [], m)), frames_of = (\<lambda>_ _. Inr []), ocr_frames = (\<lambda>_ m. (Inr None, m)),
     cover_of = (\<lambda>_. None), with_thumbnail = (\<lambda>_ r. r)\<rparr>"

definition ex_kitchen_pipe :: "recipe pipe" where
  "ex_kitchen_pipe = \<lparr>pi_db = ex_jobs [ex_waiting], pi_recipes = [], pi_saved = [], pi_usage = [],
     pi_guard = snd (try_claim default_settings ''u'' init_guard), pi_meter = new_meter, pi_reasons = []\<rparr>"


end
