(* ===== verification/Apple_Auth.thy ===== *)
theory Apple_Auth
  imports Apple_Notifications Auth_Tokens Rate_Limit
begin

section \<open>Who calls (app/apple_auth.py, app/auth.py)\<close>

text \<open>
  The identity token of Sign in with Apple, Apple's refresh token of an account, the bearer token of
  a request and the key of the administrator. Apple's answers, PyJWT, SHA-256 and Fernet are the
  fields of \<open>apple_env\<close> and \<open>bearer_env\<close>; each decoder is given exactly the restrictions the code passes
  to it (key, algorithm, audience, issuer), which is what the properties speak about.
\<close>

subsection \<open>Identity tokens of Apple\<close>

text \<open>
  \<open>apple_keys n\<close> is the body of the \<open>n\<close>th request for Apple's keys, \<open>decode_rs256\<close> is \<open>jwt.decode\<close> with a
  key, an audience and an issuer for RS256 that requires the claims sub, iss, aud and exp.
\<close>

record 'k apple_env =
  apple_keys :: "nat \<Rightarrow> json res"
  unverified_header :: "string \<Rightarrow> dict res"
  key_set :: "json \<Rightarrow> (json \<times> 'k) list res"
  decode_rs256 :: "'k \<Rightarrow> string \<Rightarrow> string \<Rightarrow> string \<Rightarrow> dict res"
  sha256_hex :: "string \<Rightarrow> string"
  encode_es256 :: "dict \<Rightarrow> string \<Rightarrow> string \<Rightarrow> string res"     \<comment> \<open>payload, key, key id\<close>
  post_token :: "(string \<times> string) list \<Rightarrow> json res"
  post_revoke :: "(string \<times> string) list \<Rightarrow> (nat \<times> json res) res"
  fernet_encrypt :: "string \<Rightarrow> string \<Rightarrow> string"
  fernet_decrypt :: "string \<Rightarrow> string \<Rightarrow> string option"
  rendered :: "json \<Rightarrow> string"
  clock :: instant

record apple_identity =
  apple_sub :: string
  apple_email :: json

definition apple_issuer :: string where "apple_issuer = ''https://appleid.apple.com''"

definition lower_hex :: "char \<Rightarrow> bool" where
  "lower_hex c \<longleftrightarrow> c \<in> set ''0123456789abcdef''"

text \<open>The device sends the raw nonce or its SHA-256; Apple's token holds the hash.\<close>

definition normalize_apple_nonce :: "'k apple_env \<Rightarrow> string \<Rightarrow> string" where
  "normalize_apple_nonce E nonce =
     (let value = strip nonce in
      if length value = 64 \<and> list_all lower_hex (lower value) then lower value else sha256_hex E value)"

definition apple_client_configured :: "settings \<Rightarrow> bool" where
  "apple_client_configured cfg \<longleftrightarrow> apple_bundle_id cfg \<noteq> [] \<and> apple_team_id cfg \<noteq> [] \<and>
     apple_key_id cfg \<noteq> [] \<and> apple_private_key cfg \<noteq> []"

definition apple_private_key_pem :: "settings \<Rightarrow> string" where
  "apple_private_key_pem cfg =
     (let raw = strip (apple_private_key cfg) in
      if contains raw [CHR 0x5C, CHR ''n''] \<and> newline \<notin> set raw then unescape_newlines raw else raw)"

definition client_secret_ttl :: instant where "client_secret_ttl = 5 * 60 * second"

definition create_apple_client_secret :: "'k apple_env \<Rightarrow> settings \<Rightarrow> string res" where
  "create_apple_client_secret E cfg =
     (if \<not> apple_client_configured cfg then Inl (ValueError ''Apple client is not configured'')
      else case encode_es256 E
          [(''iss'', JStr (apple_team_id cfg)), (''iat'', JInt (clock E div second)),
           (''exp'', JInt ((clock E + client_secret_ttl) div second)), (''aud'', JStr apple_issuer),
           (''sub'', JStr (apple_bundle_id cfg))]
          (apple_private_key_pem cfg) (apple_key_id cfg) of
        Inl _ \<Rightarrow> Inl (ValueError ''Apple client secret could not be created'')
      | Inr s \<Rightarrow> Inr s)"

text \<open>The secret from which the key of Fernet is derived.\<close>

definition fernet_secret :: "settings \<Rightarrow> string res" where
  "fernet_secret cfg =
     (let secret = (if apple_token_encryption_key cfg \<noteq> [] then apple_token_encryption_key cfg
                    else auth_jwt_secret cfg) in
      if secret = [] then Inl (ValueError ''Apple token encryption key is not configured'') else Inr secret)"

definition encrypt_apple_refresh_token :: "'k apple_env \<Rightarrow> settings \<Rightarrow> string \<Rightarrow> string res" where
  "encrypt_apple_refresh_token E cfg raw =
     (if strip raw = [] then Inl (ValueError ''Apple refresh token is empty'')
      else res_bind (fernet_secret cfg) (\<lambda>k. Inr (fernet_encrypt E k (strip raw))))"

definition decrypt_apple_refresh_token :: "'k apple_env \<Rightarrow> settings \<Rightarrow> string \<Rightarrow> string res" where
  "decrypt_apple_refresh_token E cfg ciphertext =
     (case fernet_secret cfg of
        Inl _ \<Rightarrow> Inl (ValueError ''Apple refresh token could not be decrypted'')
      | Inr k \<Rightarrow> (case fernet_decrypt E k ciphertext of
          None \<Rightarrow> Inl (ValueError ''Apple refresh token could not be decrypted'')
        | Some t \<Rightarrow> Inr t))"

definition check_nonce :: "'k apple_env \<Rightarrow> string option \<Rightarrow> dict \<Rightarrow> unit res" where
  "check_nonce E nonce claims =
     (case nonce of
        None \<Rightarrow> Inr ()
      | Some n \<Rightarrow>
          if lower (strip (py_str (rendered E) (py_or (dget claims ''nonce'') (JStr [])))) = normalize_apple_nonce E n
          then Inr () else Inl (ValueError ''Invalid Apple nonce''))"

definition verify_apple_identity_token ::
  "'k apple_env \<Rightarrow> settings \<Rightarrow> nat \<Rightarrow> string \<Rightarrow> string option \<Rightarrow> apple_identity res" where
  "verify_apple_identity_token E cfg n token nonce =
     (if apple_bundle_id cfg = [] then Inl (ValueError ''Apple bundle id is not configured'')
      else res_bind (apple_keys E n) (\<lambda>jwks.
        res_bind (unverified_header E token) (\<lambda>header.
        res_bind (key_set E jwks) (\<lambda>keys.
        case find (\<lambda>(i, _). i = dget header ''kid'') keys of
          None \<Rightarrow> Inl (ValueError ''Apple signing key not found'')
        | Some (_, key) \<Rightarrow>
            res_bind (decode_rs256 E key (apple_bundle_id cfg) apple_issuer token) (\<lambda>claims.
            res_bind (check_nonce E nonce claims) (\<lambda>_.
            case map_of claims ''sub'' of
              None \<Rightarrow> Inl KeyError
            | Some v \<Rightarrow> Inr \<lparr>apple_sub = py_str (rendered E) v, apple_email = dget claims ''email''\<rparr>))))))"

subsection \<open>The refresh token of Apple\<close>

definition text_field :: "'k apple_env \<Rightarrow> dict \<Rightarrow> string \<Rightarrow> string" where
  "text_field E d k = strip (py_str (rendered E) (py_or (dget d k) (JStr [])))"

text \<open>Any failure gives None: signing in goes on without Apple's refresh token.\<close>

definition exchange_apple_authorization_code ::
  "'k apple_env \<Rightarrow> settings \<Rightarrow> string \<Rightarrow> string \<Rightarrow> string option" where
  "exchange_apple_authorization_code E cfg code expected_sub =
     (if strip code = [] \<or> expected_sub = [] \<or> \<not> apple_client_configured cfg then None
      else case res_bind (create_apple_client_secret E cfg) (\<lambda>secret.
          res_bind (post_token E [(''client_id'', apple_bundle_id cfg), (''client_secret'', secret),
            (''code'', strip code), (''grant_type'', ''authorization_code'')]) as_dict) of
        Inl _ \<Rightarrow> None
      | Inr payload \<Rightarrow>
          let refresh = text_field E payload ''refresh_token''; id_token = text_field E payload ''id_token'' in
          if refresh = [] \<or> id_token = [] then None
          else case verify_apple_identity_token E cfg 1 id_token None of
            Inl _ \<Rightarrow> None
          | Inr exchanged \<Rightarrow> if apple_sub exchanged \<noteq> expected_sub then None else Some refresh)"

text \<open>Revoked, or no longer valid at Apple.\<close>

definition revoke_apple_refresh_token :: "'k apple_env \<Rightarrow> settings \<Rightarrow> string \<Rightarrow> bool" where
  "revoke_apple_refresh_token E cfg refresh =
     (if strip refresh = [] \<or> \<not> apple_client_configured cfg then False
      else case res_bind (create_apple_client_secret E cfg) (\<lambda>secret.
          post_revoke E [(''client_id'', apple_bundle_id cfg), (''client_secret'', secret),
            (''token'', strip refresh), (''token_type_hint'', ''refresh_token'')]) of
        Inl _ \<Rightarrow> False
      | Inr (status, body) \<Rightarrow>
          let error_code = (case res_bind body (\<lambda>b. as_dict (py_or b (JObj []))) of
                Inl _ \<Rightarrow> [] | Inr d \<Rightarrow> py_str (rendered E) (py_or (dget d ''error'') (JStr [])))
          in status = 200 \<or> (status = 400 \<and> error_code = ''invalid_grant''))"

subsection \<open>The bearer of a request\<close>

text \<open>
  \<open>decode_hs256\<close> is \<open>jwt.decode\<close> with a secret, an issuer and an audience for HS256; None is a
  \<open>PyJWTError\<close>. The credentials are the scheme and the token of the Authorization header.
\<close>

record bearer_env =
  decode_hs256 :: "string \<Rightarrow> string \<Rightarrow> string \<Rightarrow> string \<Rightarrow> dict option"
  shown :: "json \<Rightarrow> string"

definition missing_bearer :: exn where "missing_bearer = HTTPException 401 None ''Missing Bearer token'' None"
definition invalid_token :: exn where "invalid_token = HTTPException 401 None ''Invalid token'' None"

definition account_error :: "string \<Rightarrow> string \<Rightarrow> nat \<Rightarrow> exn" where
  "account_error code message status = HTTPException status (Some code) message None"

definition bearer_claims ::
  "bearer_env \<Rightarrow> settings \<Rightarrow> (string \<times> string) option \<Rightarrow> (uuid \<times> string option) res" where
  "bearer_claims B cfg creds =
     (case creds of
        None \<Rightarrow> Inl missing_bearer
      | Some (scheme, credentials) \<Rightarrow>
          if lower scheme \<noteq> ''bearer'' then Inl missing_bearer
          else if auth_jwt_secret cfg = [] then Inl (HTTPException 503 None ''Authentication unavailable'' None)
          else case decode_hs256 B (auth_jwt_secret cfg) (auth_jwt_issuer cfg) (auth_jwt_audience cfg) credentials of
            None \<Rightarrow> Inl invalid_token
          | Some claims \<Rightarrow>
              (case py_uuid (py_str (shown B) (py_or (dget claims ''sub'') (JStr []))) of
                 Inl _ \<Rightarrow> Inl invalid_token
               | Inr uid \<Rightarrow> Inr (uid, if truthy (dget claims ''email'')
                                       then Some (py_str (shown B) (dget claims ''email'')) else None)))"

subsection \<open>The administrator\<close>

definition safe_compare :: "string option \<Rightarrow> string option \<Rightarrow> bool" where
  "safe_compare left right \<longleftrightarrow>
     (case (left, right) of (Some a, Some b) \<Rightarrow> a \<noteq> [] \<and> b \<noteq> [] \<and> a = b | _ \<Rightarrow> False)"

definition require_api_key ::
  "settings \<Rightarrow> bool \<Rightarrow> string option \<Rightarrow> string option \<Rightarrow> string option \<Rightarrow> sec_state \<Rightarrow> unit res \<times> sec_state" where
  "require_api_key cfg db_ok log_ip origin_header x_api_key st =
     (let audit = (\<lambda>e. audit_security_event cfg db_ok e log_ip None st);
          origin = strip (case origin_header of None \<Rightarrow> [] | Some v \<Rightarrow> v)
      in if api_key cfg = []
         then (Inl (HTTPException 503 None ''API_KEY not configured'' None), audit ''admin_api_key_unconfigured'')
         else if origin \<noteq> [] \<and> origin \<notin> set (cors_origin_list cfg)
         then (Inl (HTTPException 403 None ''Origin not allowed'' None), audit ''admin_api_key_origin_rejected'')
         else if \<not> safe_compare x_api_key (Some (api_key cfg))
         then (Inl (HTTPException 401 None ''Invalid API key'' None), audit ''admin_api_key_rejected'')
         else (Inr (), audit ''admin_api_key_accepted''))"

section \<open>Lemmas\<close>

lemma find_someD: "find P xs = Some x \<Longrightarrow> x \<in> set xs \<and> P x"
  by (auto simp: find_Some_iff)

text \<open>What a verified identity rests on: a key of Apple's with the token's key identifier, the
  audience and issuer of this application, and the nonce of the request.\<close>

definition apple_vouches :: "'k apple_env \<Rightarrow> settings \<Rightarrow> nat \<Rightarrow> string \<Rightarrow> string option \<Rightarrow> apple_identity \<Rightarrow> bool" where
  "apple_vouches E cfg n token nonce a \<longleftrightarrow> apple_bundle_id cfg \<noteq> [] \<and>
     (\<exists>jwks header keys key claims v. apple_keys E n = Inr jwks \<and> unverified_header E token = Inr header \<and>
        key_set E jwks = Inr keys \<and> (dget header ''kid'', key) \<in> set keys \<and>
        decode_rs256 E key (apple_bundle_id cfg) apple_issuer token = Inr claims \<and>
        (\<forall>m. nonce = Some m \<longrightarrow>
           lower (text_field E claims ''nonce'') = normalize_apple_nonce E m) \<and>
        map_of claims ''sub'' = Some v \<and> apple_sub a = py_str (rendered E) v)"

lemma check_nonce_ok:
  "check_nonce E nonce claims = Inr () \<longleftrightarrow>
     (\<forall>m. nonce = Some m \<longrightarrow> lower (text_field E claims ''nonce'') = normalize_apple_nonce E m)"
  by (auto simp: check_nonce_def text_field_def split: option.splits)

lemma verified_identity:
  assumes "verify_apple_identity_token E cfg n token nonce = Inr a"
  shows "apple_vouches E cfg n token nonce a"
proof -
  from assms obtain jwks header keys i key claims v where
    "apple_bundle_id cfg \<noteq> []" "apple_keys E n = Inr jwks" "unverified_header E token = Inr header"
    "key_set E jwks = Inr keys" and f: "find (\<lambda>(i, _). i = dget header ''kid'') keys = Some (i, key)" and
    "decode_rs256 E key (apple_bundle_id cfg) apple_issuer token = Inr claims" "check_nonce E nonce claims = Inr ()"
    "map_of claims ''sub'' = Some v" "apple_sub a = py_str (rendered E) v"
    unfolding verify_apple_identity_token_def
    by (auto simp: res_bind_eq_Inr split: if_splits option.splits)
  then show ?thesis using find_someD [OF f] unfolding apple_vouches_def check_nonce_ok by auto
qed

lemma bearer_known:
  assumes "bearer_claims B cfg creds = Inr (u, email)"
  obtains scheme credentials claims where "creds = Some (scheme, credentials)" "lower scheme = ''bearer''"
    "auth_jwt_secret cfg \<noteq> []"
    "decode_hs256 B (auth_jwt_secret cfg) (auth_jwt_issuer cfg) (auth_jwt_audience cfg) credentials = Some claims"
    "py_uuid (py_str (shown B) (py_or (dget claims ''sub'') (JStr []))) = Inr u"
  using assms unfolding bearer_claims_def by (auto split: option.splits if_splits sum.splits)

lemma bearer_refused: "bearer_claims B cfg creds = Inl e \<Longrightarrow> exn_status e = 401 \<or> exn_status e = 503"
  unfolding bearer_claims_def missing_bearer_def invalid_token_def
  by (auto split: option.splits if_splits sum.splits)

end
