(* ===== verification/Push_Queue.thy ===== *)
theory Push_Queue
  imports Job_Queue
begin

section \<open>Completion alerts\<close>

text \<open>
  The push side of app/store.py (registration, claim and completion of deliveries, migrations/010),
  the APNs client (app/apns.py) and the delivery step of the worker (app/worker.py). The request to
  Apple and the signing of the provider token are arguments. The properties: an alert in the queue
  always belongs to the account that holds the device, an alert that is over keeps no device token,
  there is one alert per job and device, and at most eight attempts with bounded pauses.
\<close>

subsection \<open>Devices\<close>

text \<open>\<open>hash\<close> is the hexadecimal SHA-256 of the token in lower case.\<close>

definition upsert_push_device ::
  "(string \<Rightarrow> string) \<Rightarrow> uuid \<Rightarrow> string \<Rightarrow> environment \<Rightarrow> string \<Rightarrow> job_db \<Rightarrow> job_db" where
  "upsert_push_device hash u token env_name lang d =
     (let t = lower token; h = hash t;
          v = \<lparr>dev_hash = h, dev_user = u, dev_token = t, dev_environment = env_name, dev_lang = lang\<rparr>
      in d\<lparr>devices := (if h \<in> dev_hash ` set (devices d)
                       then map (\<lambda>x. if dev_hash x = h then v else x) (devices d)
                       else devices d @ [v]),
           deliveries := [p \<leftarrow> deliveries d. \<not> (pd_hash p = h \<and> pd_user p \<noteq> u)]\<rparr>)"

definition remove_device :: "uuid \<Rightarrow> string \<Rightarrow> job_db \<Rightarrow> job_db" where
  "remove_device u h d =
     d\<lparr>deliveries := [p \<leftarrow> deliveries d. \<not> (pd_user p = u \<and> pd_hash p = h)],
       devices := [v \<leftarrow> devices d. \<not> (dev_user v = u \<and> dev_hash v = h)]\<rparr>"

definition delete_push_device :: "(string \<Rightarrow> string) \<Rightarrow> uuid \<Rightarrow> string \<Rightarrow> job_db \<Rightarrow> job_db" where
  "delete_push_device hash u token = remove_device u (hash (lower token))"

subsection \<open>Deliveries\<close>

record claimed_push =
  cp_id :: uuid
  cp_user :: uuid
  cp_job :: uuid
  cp_hash :: string
  cp_token :: "string option"
  cp_environment :: environment
  cp_attempts :: nat
  cp_lang :: string
  cp_recipe :: "uuid option"

definition push_exhaust :: "instant \<Rightarrow> delivery \<Rightarrow> delivery" where
  "push_exhaust now p =
     (if pd_status p = PushProcessing \<and> 8 \<le> pd_attempts p \<and> (\<exists>l \<in> set_option (pd_lease p). l < now)
      then p\<lparr>pd_status := PushFailed, pd_token := None, pd_lease := None, pd_error := Some ''attempts_exhausted''\<rparr>
      else p)"

definition push_due :: "instant \<Rightarrow> delivery \<Rightarrow> bool" where
  "push_due now p \<longleftrightarrow> pd_attempts p < 8 \<and> pd_token p \<noteq> None \<and>
     ((pd_status p = PushPending \<and> pd_next p \<le> now) \<or>
      (pd_status p = PushProcessing \<and> (\<exists>l \<in> set_option (pd_lease p). l < now)))"

text \<open>\<open>order by next_attempt_at, created_at limit 1\<close>.\<close>

fun first_due :: "delivery list \<Rightarrow> delivery option" where
  "first_due [] = None"
| "first_due (p # ps) =
     (case first_due ps of
        None \<Rightarrow> Some p
      | Some q \<Rightarrow> Some (if pd_next q < pd_next p \<or> (pd_next q = pd_next p \<and> pd_created q < pd_created p) then q else p))"

definition push_leased :: "instant \<Rightarrow> delivery \<Rightarrow> delivery" where
  "push_leased now p = p\<lparr>pd_status := PushProcessing, pd_attempts := pd_attempts p + 1,
     pd_lease := Some (now + 90 * second)\<rparr>"

text \<open>The final join: nothing is returned when the job or the registration is gone.\<close>

definition claimed_row :: "job_db \<Rightarrow> delivery \<Rightarrow> claimed_push option" where
  "claimed_row d p =
     (case find (\<lambda>v. dev_hash v = pd_hash p \<and> dev_user v = pd_user p) (devices d) of
        None \<Rightarrow> None
      | Some v \<Rightarrow>
          (case job_by_id (pd_job p) d of
             None \<Rightarrow> None
           | Some j \<Rightarrow> Some \<lparr>cp_id = pd_id p, cp_user = pd_user p, cp_job = pd_job p, cp_hash = pd_hash p,
                cp_token = pd_token p, cp_environment = pd_environment p, cp_attempts = pd_attempts p,
                cp_lang = dev_lang v, cp_recipe = jrecipe j\<rparr>))"

definition claim_push_delivery :: "instant \<Rightarrow> job_db \<Rightarrow> claimed_push option \<times> job_db" where
  "claim_push_delivery now d =
     (let ps = map (push_exhaust now) (deliveries d) in
      case first_due (filter (push_due now) (deliveries d)) of
        None \<Rightarrow> (None, d\<lparr>deliveries := ps\<rparr>)
      | Some p \<Rightarrow>
          (claimed_row d (push_leased now p),
           d\<lparr>deliveries := map (\<lambda>q. if pd_id q = pd_id p then push_leased now q else q) ps\<rparr>))"

datatype push_outcome = Sent | Retry | InvalidDevice | FailedPush

definition push_open :: "delivery \<Rightarrow> bool" where
  "push_open p \<longleftrightarrow> pd_status p = PushPending \<or> pd_status p = PushProcessing"

definition close_push :: "push_status \<Rightarrow> string option \<Rightarrow> delivery \<Rightarrow> delivery" where
  "close_push s e p = p\<lparr>pd_status := s, pd_token := None, pd_lease := None, pd_error := e\<rparr>"

definition retry_push :: "instant \<Rightarrow> int \<Rightarrow> string option \<Rightarrow> delivery \<Rightarrow> delivery" where
  "retry_push now wait e p =
     p\<lparr>pd_status := (if 8 \<le> pd_attempts p then PushFailed else PushPending),
       pd_token := (if 8 \<le> pd_attempts p then None else pd_token p),
       pd_next := now + max 1 (min wait 3600) * second, pd_lease := None, pd_error := e\<rparr>"

definition finish_push_delivery ::
  "instant \<Rightarrow> uuid \<Rightarrow> string \<Rightarrow> uuid \<Rightarrow> push_outcome \<Rightarrow> string option \<Rightarrow> int \<Rightarrow> job_db \<Rightarrow> job_db" where
  "finish_push_delivery now i h u outcome e wait d =
     (case outcome of
        InvalidDevice \<Rightarrow>
          d\<lparr>deliveries := map (\<lambda>p. if pd_hash p = h \<and> pd_user p = u \<and> push_open p
                                 then close_push PushFailed (Some ''Unregistered'') p else p) (deliveries d),
            devices := [v \<leftarrow> devices d. \<not> (dev_hash v = h \<and> dev_user v = u)]\<rparr>
      | Retry \<Rightarrow>
          d\<lparr>deliveries := map (\<lambda>p. if pd_id p = i \<and> pd_status p = PushProcessing
                                 then retry_push now wait e p else p) (deliveries d)\<rparr>
      | Sent \<Rightarrow>
          d\<lparr>deliveries := map (\<lambda>p. if pd_id p = i \<and> pd_status p = PushProcessing
                                 then (close_push PushSent e p)\<lparr>pd_sent := Some now\<rparr> else p) (deliveries d)\<rparr>
      | FailedPush \<Rightarrow>
          d\<lparr>deliveries := map (\<lambda>p. if pd_id p = i \<and> pd_status p = PushProcessing
                                 then close_push PushFailed e p else p) (deliveries d)\<rparr>)"

subsection \<open>The APNs client\<close>

record apns_result =
  ar_status :: push_outcome
  ar_error :: "string option"
  ar_retry_after :: int

definition retryable_reasons :: "string list" where
  "retryable_reasons = [''ExpiredProviderToken'', ''TooManyRequests'', ''InternalServerError'', ''ServiceUnavailable'']"

definition known_reasons :: "string list" where
  "known_reasons = retryable_reasons @
     [''BadDeviceToken'', ''DeviceTokenNotForTopic'', ''InvalidProviderToken'', ''MissingProviderToken'',
      ''PayloadEmpty'', ''PayloadTooLarge'', ''TopicDisallowed'', ''Unregistered'']"

text \<open>\<open>int (s)\<close> on text: surrounding blanks, a sign, digits with single underscores between them.\<close>

fun digits_value :: "int \<Rightarrow> bool \<Rightarrow> string \<Rightarrow> int option" where
  "digits_value acc after_digit [] = (if after_digit then Some acc else None)"
| "digits_value acc after_digit (c # s) =
     (let n = of_char c :: nat in
      if 48 \<le> n \<and> n \<le> 57 then digits_value (acc * 10 + int (n - 48)) True s
      else if c = CHR ''_'' \<and> after_digit then digits_value acc False s
      else None)"

definition int_of_text :: "string \<Rightarrow> int option" where
  "int_of_text t =
     (case strip t of
        [] \<Rightarrow> None
      | c # s \<Rightarrow>
          if c = CHR ''-'' then map_option uminus (digits_value 0 False s)
          else if c = CHR ''+'' then digits_value 0 False s
          else digits_value 0 False (c # s))"

text \<open>
  The provider token is kept for fifty minutes; \<open>sign\<close> is the third-party signature over the
  current time, None where encoding the key raises.
\<close>

type_synonym provider_token = "(string \<times> int) option"

definition provider_token :: "int \<Rightarrow> (int \<Rightarrow> string option) \<Rightarrow> provider_token \<Rightarrow> string option \<times> provider_token" where
  "provider_token now sign st =
     (case st of
        Some (t, created) \<Rightarrow>
          if t \<noteq> [] \<and> now - created < 50 * 60 then (Some t, st)
          else (case sign now of None \<Rightarrow> (None, st) | Some t' \<Rightarrow> (Some t', Some (t', now)))
      | None \<Rightarrow> (case sign now of None \<Rightarrow> (None, st) | Some t' \<Rightarrow> (Some t', Some (t', now))))"

definition apns_configured :: "settings \<Rightarrow> bool" where
  "apns_configured cfg \<longleftrightarrow> apns_enabled cfg \<and> length (apns_team_id cfg) = 10 \<and> length (apns_key_id cfg) = 10 \<and>
     (apns_auth_key cfg \<noteq> [] \<or> apns_auth_key_b64 cfg \<noteq> []) \<and> apns_topic cfg \<noteq> [] \<and>
     apns_topic cfg = apple_bundle_id cfg"

definition apns_ready :: "settings \<Rightarrow> int \<Rightarrow> (int \<Rightarrow> string option) \<Rightarrow> provider_token \<Rightarrow> bool \<times> provider_token" where
  "apns_ready cfg now sign st =
     (if \<not> apns_configured cfg then (False, st)
      else case provider_token now sign st of (t, st') \<Rightarrow> (t \<noteq> None, st'))"

fun environment_name :: "environment \<Rightarrow> string" where
  "environment_name Sandbox = ''sandbox''"
| "environment_name Production = ''production''"

text \<open>
  What Apple answers: no answer, or a status, the body (None where it is not JSON) and the
  \<open>retry-after\<close> header.
\<close>

datatype apns_answer = NetworkError | Answer nat "json option" "string option"

definition apns_reason :: "(json \<Rightarrow> string) \<Rightarrow> json option \<Rightarrow> string" where
  "apns_reason rep body =
     (case body of Some (JObj o') \<Rightarrow> py_str rep (py_or (dget o' ''reason'') (JStr '''')) | _ \<Rightarrow> '''')"

definition read_answer ::
  "(json \<Rightarrow> string) \<Rightarrow> provider_token \<Rightarrow> apns_answer \<Rightarrow> apns_result \<times> provider_token" where
  "read_answer rep st answer =
     (case answer of
        NetworkError \<Rightarrow> (\<lparr>ar_status = Retry, ar_error = Some ''network_error'', ar_retry_after = 0\<rparr>, st)
      | Answer code body header \<Rightarrow>
          if code = 200 then (\<lparr>ar_status = Sent, ar_error = None, ar_retry_after = 0\<rparr>, st)
          else
            let reason = apns_reason rep body;
                error_code = (if reason \<in> set known_reasons then reason else ''http_'' @ nat_str code)
            in if code = 410 \<or> reason = ''Unregistered''
               then (\<lparr>ar_status = InvalidDevice, ar_error = Some error_code, ar_retry_after = 0\<rparr>, st)
               else if code = 429 \<or> 500 \<le> code \<or> reason \<in> set retryable_reasons
               then (\<lparr>ar_status = Retry, ar_error = Some error_code,
                      ar_retry_after = max 0 (min (case int_of_text (case header of None \<Rightarrow> ''0'' | Some h \<Rightarrow> h) of
                                                     None \<Rightarrow> 0 | Some n \<Rightarrow> n) 3600)\<rparr>,
                     if reason = ''ExpiredProviderToken'' then None else st)
               else (\<lparr>ar_status = FailedPush, ar_error = Some error_code, ar_retry_after = 0\<rparr>, st))"

definition apns_send ::
  "(json \<Rightarrow> string) \<Rightarrow> settings \<Rightarrow> int \<Rightarrow> (int \<Rightarrow> string option) \<Rightarrow> provider_token \<Rightarrow>
   (string \<Rightarrow> apns_answer) \<Rightarrow> environment \<Rightarrow> apns_result \<times> provider_token" where
  "apns_send rep cfg now sign st post env_name =
     (if environment_name env_name \<noteq> lower (apns_environment cfg)
      then (\<lparr>ar_status = FailedPush, ar_error = Some ''environment_not_configured'', ar_retry_after = 0\<rparr>, st)
      else case apns_ready cfg now sign st of (ready, st1) \<Rightarrow>
        if \<not> ready then (\<lparr>ar_status = Retry, ar_error = Some ''configuration_missing'', ar_retry_after = 0\<rparr>, st1)
        else case provider_token now sign st1 of
          (None, st2) \<Rightarrow> (\<lparr>ar_status = FailedPush, ar_error = Some ''provider_auth_invalid'', ar_retry_after = 0\<rparr>, st2)
        | (Some authorization, st2) \<Rightarrow> read_answer rep st2 (post authorization))"

subsection \<open>The worker's delivery step\<close>

definition push_backoff :: "nat \<Rightarrow> int" where
  "push_backoff attempt = min (5 * 2 ^ (attempt - 1)) 3600"

definition push_wait :: "apns_result \<Rightarrow> nat \<Rightarrow> int" where
  "push_wait r attempts = max (ar_retry_after r) (push_backoff (if attempts = 0 then 1 else attempts))"

text \<open>
  \<open>UUID (str (row[''recipe_id'']))\<close> raises when the job has lost its recipe; \<open>send\<close> is the client call,
  None where it raises. \<open>db_ok\<close>: whether the update at the end succeeds the first time.
\<close>

definition run_push_delivery ::
  "instant \<Rightarrow> (claimed_push \<Rightarrow> apns_result option) \<Rightarrow> bool \<Rightarrow> bool \<Rightarrow> claimed_push \<Rightarrow> job_db \<Rightarrow> job_db" where
  "run_push_delivery now send ok1 ok2 row d =
     (let retry = (if ok2 then finish_push_delivery now (cp_id row) (cp_hash row) (cp_user row) Retry
                                 (Some ''worker_error'') 60 d else d) in
      if cp_recipe row = None then retry
      else case send row of
        None \<Rightarrow> retry
      | Some r \<Rightarrow>
          if ok1 then finish_push_delivery now (cp_id row) (cp_hash row) (cp_user row) (ar_status r) (ar_error r)
                        (push_wait r (cp_attempts row)) d
          else retry)"

subsection \<open>The invariant\<close>

definition delivery_ok :: "(string \<Rightarrow> string) \<Rightarrow> device list \<Rightarrow> delivery \<Rightarrow> bool" where
  "delivery_ok hash vs p \<longleftrightarrow> pd_attempts p \<le> 8 \<and>
     (\<forall>t. pd_token p = Some t \<longrightarrow> hash t = pd_hash p) \<and>
     (if push_open p then \<exists>v \<in> set vs. dev_hash v = pd_hash p \<and> dev_user v = pd_user p else pd_token p = None)"

definition push_inv :: "(string \<Rightarrow> string) \<Rightarrow> job_db \<Rightarrow> bool" where
  "push_inv hash d \<longleftrightarrow> pushes_ok d \<and> distinct (map pd_id (deliveries d)) \<and> (\<forall>v \<in> set (devices d). dev_hash v = hash (dev_token v)) \<and>
     (\<forall>p \<in> set (deliveries d). delivery_ok hash (devices d) p)"

text \<open>The identifiers the database generates are new.\<close>

definition fresh_ids :: "stamp \<Rightarrow> job_db \<Rightarrow> bool" where
  "fresh_ids st d \<longleftrightarrow> inj (st_id st) \<and> (\<forall>h. st_id st h \<notin> pd_id ` set (deliveries d))"

text \<open>Every call that touches devices, deliveries or jobs.\<close>

inductive push_step :: "(string \<Rightarrow> string) \<Rightarrow> job_db \<Rightarrow> job_db \<Rightarrow> bool" for hash where
  register: "push_step hash d (upsert_push_device hash u t e l d)"
| unregister: "push_step hash d (delete_push_device hash u t d)"
| claim_push: "push_step hash d (snd (claim_push_delivery now d))"
| deliver: "push_step hash d (run_push_delivery now send ok1 ok2 row d)"
| create: "fresh_ids st d \<Longrightarrow> push_step hash d (snd (insert_job s st j d))"
| update: "fresh_ids st d \<Longrightarrow> push_step hash d (snd (update_row s st b (fold set_col cols) i d))"
| claim_job: "push_step hash d (snd (claim_next now p d))"
| share: "push_step hash d (snd (insert_access s i u d))"

inductive_cases push_stepE: "push_step hash d d'"

lemma distinct_map_key: "(\<And>p. k (g p) = k p) \<Longrightarrow> distinct (map k ps) \<Longrightarrow> distinct (map k (map g ps))"
  by (simp add: o_def)

text \<open>Rows changed in place, kept with their keys, and devices unchanged.\<close>

definition same_keys :: "delivery \<Rightarrow> delivery \<Rightarrow> bool" where
  "same_keys p q \<longleftrightarrow> pd_id q = pd_id p \<and> pd_job q = pd_job p \<and> pd_hash q = pd_hash p"

lemma same_keys_simps [simp]:
  "same_keys p p" "same_keys p (close_push s e p)" "same_keys p (retry_push now w e p)"
  "same_keys p (push_exhaust now p)" "same_keys p (push_leased now p)" "same_keys p (q\<lparr>pd_sent := x\<rparr>) = same_keys p q"
  by (simp_all add: same_keys_def close_push_def retry_push_def push_exhaust_def push_leased_def)

lemma push_inv_map:
  assumes "push_inv hash d" "\<And>p. same_keys p (g p)"
    and "\<And>p. p \<in> set (deliveries d) \<Longrightarrow> delivery_ok hash (devices d) p \<Longrightarrow> delivery_ok hash (devices d) (g p)"
  shows "push_inv hash (d\<lparr>deliveries := map g (deliveries d)\<rparr>)"
proof -
  have "distinct (map (\<lambda>p. (pd_job p, pd_hash p)) (map g (deliveries d)))" "distinct (map pd_id (map g (deliveries d)))"
    using assms(1,2) by (intro distinct_map_key; simp add: push_inv_def pushes_ok_def same_keys_def)+
  with assms(1,3) show ?thesis
    by (simp add: push_inv_def pushes_ok_def del: map_map)
qed

lemma push_inv_enqueue:
  assumes "push_inv hash d" "fresh_ids st d"
  shows "push_inv hash (enqueue_pushes st old new d)"
proof -
  let ?vs = "[v \<leftarrow> devices d. notified d new v \<and>
      (\<forall>p \<in> set (deliveries d). \<not> (pd_job p = jid new \<and> pd_hash p = dev_hash v))]"
  have ok: "delivery_ok hash (devices d) (new_delivery st new v)" if "v \<in> set (devices d)" for v
    using assms that by (auto simp: delivery_ok_def new_delivery_def push_open_def push_inv_def)
  have "distinct (map (st_id st) (map dev_hash ?vs))"
    using assms unfolding push_inv_def pushes_ok_def fresh_ids_def
    by (simp only: distinct_map distinct_map_filter) (auto simp: inj_on_def distinct_map)
  then have "distinct (map pd_id (map (new_delivery st new) ?vs))"
    by (simp add: o_def new_delivery_def)
  moreover have "set (map pd_id (deliveries d)) \<inter> set (map pd_id (map (new_delivery st new) ?vs)) = {}"
    using assms(2) by (fastforce simp: fresh_ids_def new_delivery_def image_iff)
  ultimately have "distinct (map pd_id (deliveries (enqueue_pushes st old new d)))"
    using assms(1) by (simp add: enqueue_pushes_def push_inv_def del: map_map)
  then show ?thesis
    using assms ok pushes_ok_enqueue [of d st old new]
    by (auto simp: push_inv_def enqueue_pushes_def split: if_splits)
qed

lemma push_inv_frame:
  assumes "push_inv hash d" "devices d' = devices d" "deliveries d' = deliveries d"
  shows "push_inv hash d'"
  using assms by (simp add: push_inv_def pushes_ok_def)

lemma push_inv_register:
  assumes "push_inv hash d"
  shows "push_inv hash (upsert_push_device hash u t e l d)"
proof -
  define h where "h = hash (lower t)"
  define v where "v = \<lparr>dev_hash = h, dev_user = u, dev_token = lower t, dev_environment = e, dev_lang = l\<rparr>"
  define vs where "vs = (if h \<in> dev_hash ` set (devices d)
     then map (\<lambda>x. if dev_hash x = h then v else x) (devices d) else devices d @ [v])"
  have v: "dev_hash v = h" "dev_user v = u" "dev_token v = lower t" by (simp_all add: v_def)
  have mem: "v \<in> set vs" unfolding vs_def by (auto simp: image_iff)
  have keep: "x \<in> set vs" if "x \<in> set (devices d)" "dev_hash x \<noteq> h" for x
    unfolding vs_def using that by (auto simp: image_iff)
  have vs: "x = v \<or> x \<in> set (devices d)" if "x \<in> set vs" for x
    using that unfolding vs_def by (auto split: if_splits)
  have "distinct (map dev_hash vs)"
  proof (cases "h \<in> dev_hash ` set (devices d)")
    case True
    have "map dev_hash vs = map dev_hash (devices d)" using True v by (simp add: vs_def)
    then show ?thesis using assms by (simp add: push_inv_def pushes_ok_def)
  next
    case False
    with assms v show ?thesis by (auto simp: vs_def push_inv_def pushes_ok_def)
  qed
  moreover have "delivery_ok hash vs p"
    if p: "p \<in> set (deliveries d)" "\<not> (pd_hash p = h \<and> pd_user p \<noteq> u)" for p
  proof -
    have ok: "delivery_ok hash (devices d) p" using assms p(1) by (simp add: push_inv_def)
    have "\<exists>x \<in> set vs. dev_hash x = pd_hash p \<and> dev_user x = pd_user p"
      if x: "x \<in> set (devices d)" "dev_hash x = pd_hash p" "dev_user x = pd_user p" for x
      using keep [OF x(1)] mem v p(2) x by (cases "pd_hash p = h") auto
    with ok show ?thesis by (auto simp: delivery_ok_def split: if_splits)
  qed
  moreover have "dev_hash x = hash (dev_token x)" if "x \<in> set vs" for x
    using vs [OF that] assms v by (auto simp: push_inv_def h_def)
  ultimately have "push_inv hash (d\<lparr>devices := vs, deliveries := [p \<leftarrow> deliveries d. \<not> (pd_hash p = h \<and> pd_user p \<noteq> u)]\<rparr>)"
    using assms by (auto simp: push_inv_def pushes_ok_def intro: distinct_map_filter)
  then show ?thesis
    by (simp only: upsert_push_device_def Let_def h_def v_def vs_def)
qed

lemma delivery_ok_devices:
  assumes "delivery_ok hash vs p"
    and "\<And>v. v \<in> set vs \<Longrightarrow> dev_hash v = pd_hash p \<Longrightarrow> dev_user v = pd_user p \<Longrightarrow> v \<in> set vs'"
  shows "delivery_ok hash vs' p"
  using assms unfolding delivery_ok_def by (auto split: if_splits)

lemma push_inv_remove:
  assumes "push_inv hash d"
  shows "push_inv hash (remove_device u h d)"
proof -
  let ?vs = "[v \<leftarrow> devices d. \<not> (dev_user v = u \<and> dev_hash v = h)]"
  have "delivery_ok hash ?vs p" if "p \<in> set (deliveries d)" "\<not> (pd_user p = u \<and> pd_hash p = h)" for p
  proof (rule delivery_ok_devices)
    show "delivery_ok hash (devices d) p" using assms that(1) by (simp add: push_inv_def)
    show "v \<in> set ?vs" if "v \<in> set (devices d)" "dev_hash v = pd_hash p" "dev_user v = pd_user p" for v
      using that \<open>\<not> (pd_user p = u \<and> pd_hash p = h)\<close> by simp
  qed
  then show ?thesis
    using assms by (simp add: push_inv_def pushes_ok_def remove_device_def distinct_map_filter)
qed

lemma first_due_mem: "first_due ps = Some p \<Longrightarrow> p \<in> set ps"
  by (induction ps arbitrary: p) (auto split: option.splits if_splits)

lemma exhaust_keeps: "delivery_ok hash vs p \<Longrightarrow> delivery_ok hash vs (push_exhaust now p)"
  by (auto simp: delivery_ok_def push_exhaust_def push_open_def)

lemma close_keeps: "delivery_ok hash vs p \<Longrightarrow> s = PushSent \<or> s = PushFailed \<Longrightarrow> delivery_ok hash vs (close_push s e p)"
  by (auto simp: delivery_ok_def close_push_def push_open_def)

lemma retry_keeps: "delivery_ok hash vs p \<Longrightarrow> pd_status p = PushProcessing \<Longrightarrow> delivery_ok hash vs (retry_push now w e p)"
  by (auto simp: delivery_ok_def retry_push_def push_open_def)

lemma sent_keeps: "delivery_ok hash vs p \<Longrightarrow> delivery_ok hash vs ((close_push PushSent e p)\<lparr>pd_sent := x\<rparr>)"
  by (auto simp: delivery_ok_def close_push_def push_open_def)

lemma push_inv_invalid:
  assumes "push_inv hash d"
  shows "push_inv hash (finish_push_delivery now i h u InvalidDevice e w d)"
proof -
  define g where "g p = (if pd_hash p = h \<and> pd_user p = u \<and> push_open p
      then close_push PushFailed (Some ''Unregistered'') p else p)" for p
  define vs where "vs = [v \<leftarrow> devices d. \<not> (dev_hash v = h \<and> dev_user v = u)]"
  have "delivery_ok hash vs (g p)" if "p \<in> set (deliveries d)" for p
  proof -
    have ok: "delivery_ok hash (devices d) p" using assms that by (simp add: push_inv_def)
    show ?thesis
    proof (cases "push_open p")
      case True
      with ok obtain v where "v \<in> set (devices d)" "dev_hash v = pd_hash p" "dev_user v = pd_user p"
        by (auto simp: delivery_ok_def)
      with ok True show ?thesis
        by (auto simp: g_def vs_def delivery_ok_def close_push_def push_open_def)
    next
      case False
      with ok show ?thesis by (auto simp: g_def delivery_ok_def)
    qed
  qed
  moreover have "same_keys p (g p)" for p by (simp add: g_def)
  then have "distinct (map (\<lambda>p. (pd_job p, pd_hash p)) (map g (deliveries d)))" "distinct (map pd_id (map g (deliveries d)))"
    using assms by (intro distinct_map_key; simp add: push_inv_def pushes_ok_def same_keys_def)+
  moreover have "distinct (map dev_hash vs)" "\<forall>v \<in> set vs. dev_hash v = hash (dev_token v)"
    using assms by (simp_all add: vs_def push_inv_def pushes_ok_def distinct_map_filter)
  ultimately have "push_inv hash (d\<lparr>deliveries := map g (deliveries d), devices := vs\<rparr>)"
    by (simp add: push_inv_def pushes_ok_def del: map_map)
  then show ?thesis by (simp only: finish_push_delivery_def push_outcome.case g_def [abs_def] vs_def)
qed

lemma push_inv_finish:
  assumes "push_inv hash d"
  shows "push_inv hash (finish_push_delivery now i h u outcome e w d)"
proof (cases outcome)
  case Sent
  have "push_inv hash (d\<lparr>deliveries := map (\<lambda>p. if pd_id p = i \<and> pd_status p = PushProcessing
      then (close_push PushSent e p)\<lparr>pd_sent := Some now\<rparr> else p) (deliveries d)\<rparr>)"
    using assms by (rule push_inv_map) (auto intro: sent_keeps)
  with Sent show ?thesis by (simp add: finish_push_delivery_def)
next
  case Retry
  have "push_inv hash (d\<lparr>deliveries := map (\<lambda>p. if pd_id p = i \<and> pd_status p = PushProcessing
      then retry_push now w e p else p) (deliveries d)\<rparr>)"
    using assms by (rule push_inv_map) (auto intro: retry_keeps)
  with Retry show ?thesis by (simp add: finish_push_delivery_def)
next
  case FailedPush
  have "push_inv hash (d\<lparr>deliveries := map (\<lambda>p. if pd_id p = i \<and> pd_status p = PushProcessing
      then close_push PushFailed e p else p) (deliveries d)\<rparr>)"
    using assms by (rule push_inv_map) (auto intro: close_keeps)
  with FailedPush show ?thesis by (simp add: finish_push_delivery_def)
next
  case InvalidDevice
  with push_inv_invalid [OF assms] show ?thesis by simp
qed

lemma leased_keeps: "delivery_ok hash vs p \<Longrightarrow> push_due now p \<Longrightarrow> delivery_ok hash vs (push_leased now p)"
  by (auto simp: delivery_ok_def push_leased_def push_due_def push_open_def)

lemma due_not_exhausted: "push_due now p \<Longrightarrow> push_exhaust now p = p"
  by (simp add: push_due_def push_exhaust_def)

lemma push_inv_claim:
  assumes "push_inv hash d"
  shows "push_inv hash (snd (claim_push_delivery now d))"
proof (cases "first_due (filter (push_due now) (deliveries d))")
  case None
  have "push_inv hash (d\<lparr>deliveries := map (push_exhaust now) (deliveries d)\<rparr>)"
    using assms by (rule push_inv_map) (auto intro: exhaust_keeps)
  with None show ?thesis by (simp add: claim_push_delivery_def)
next
  case (Some p)
  have p: "p \<in> set (deliveries d)" "push_due now p" using first_due_mem [OF Some] by auto
  define g where "g q = (if pd_id (push_exhaust now q) = pd_id p then push_leased now (push_exhaust now q) else push_exhaust now q)" for q
  have "push_inv hash (d\<lparr>deliveries := map g (deliveries d)\<rparr>)"
  proof (rule push_inv_map [OF assms])
    show "same_keys q (g q)" for q
      by (simp add: g_def same_keys_def push_exhaust_def push_leased_def)
    show "delivery_ok hash (devices d) (g q)"
      if q: "q \<in> set (deliveries d)" "delivery_ok hash (devices d) q" for q
    proof (cases "pd_id q = pd_id p")
      case True
      have "inj_on pd_id (set (deliveries d))" using assms by (simp add: push_inv_def distinct_map)
      with True p(1) q(1) have "q = p" by (simp add: inj_on_eq_iff)
      with p(2) q(2) show ?thesis by (simp add: g_def due_not_exhausted leased_keeps)
    next
      case False
      then have "pd_id (push_exhaust now q) \<noteq> pd_id p" by (simp add: push_exhaust_def)
      with q(2) show ?thesis by (simp add: g_def exhaust_keeps)
    qed
  qed
  then show ?thesis
    using Some by (simp add: claim_push_delivery_def Let_def g_def [abs_def] o_def)
qed

lemma push_inv_update:
  assumes "push_inv hash d" "fresh_ids st d"
  shows "push_inv hash (snd (update_row s st b f i d))"
proof -
  have "push_inv hash (d\<lparr>jobs := js\<rparr>)" "fresh_ids st (d\<lparr>jobs := js\<rparr>)" for js
    using assms push_inv_frame [OF assms(1)] by (simp_all add: fresh_ids_def)
  then show ?thesis
    using assms(1) by (auto simp: update_row_def Let_def intro: push_inv_enqueue split: option.split)
qed

lemma push_inv_insert:
  assumes "push_inv hash d" "fresh_ids st d"
  shows "push_inv hash (snd (insert_job s st j d))"
proof -
  have "push_inv hash (d\<lparr>jobs := js\<rparr>)" "fresh_ids st (d\<lparr>jobs := js\<rparr>)" for js
    using assms push_inv_frame [OF assms(1)] by (simp_all add: fresh_ids_def)
  then show ?thesis
    using assms(1) by (auto simp: insert_job_def intro: push_inv_enqueue)
qed

lemma push_inv_step: "push_step hash d d' \<Longrightarrow> push_inv hash d \<Longrightarrow> push_inv hash d'"
proof (induction rule: push_step.induct)
  case (deliver d now send ok1 ok2 row)
  then show ?case
    by (auto simp: run_push_delivery_def Let_def push_inv_finish split: option.split)
next
  case (claim_job d now p)
  then show ?case
    by (intro push_inv_frame [OF claim_job]) (auto simp: claim_next_def Let_def split: option.split)
next
  case (share d s i u)
  then show ?case by (intro push_inv_frame [OF share]) (auto simp: insert_access_def)
next
  case (unregister d u t)
  then show ?case by (simp add: delete_push_device_def push_inv_remove)
qed (simp_all add: push_inv_register push_inv_claim push_inv_insert push_inv_update)



definition ex_finished :: job where
  "ex_finished = (job_row ex_stamp (ex_request ''u'' None))\<lparr>jstatus := Completed, jprogress := 100, jrecipe := Some ''r''\<rparr>"

lemma ex_push_inv: "push_inv (\<lambda>t. t) (ex_jobs [])"
  by (simp add: push_inv_def pushes_ok_def ex_jobs_def)


subsection \<open>Pauses\<close>

lemma push_backoff_bounds: "5 \<le> push_backoff n \<and> push_backoff n \<le> 3600"
proof -
  have "(1 :: int) \<le> 2 ^ (n - 1)" by simp
  then show ?thesis by (simp add: push_backoff_def)
qed

lemma retry_after_bounds:
  "0 \<le> ar_retry_after (fst (read_answer rep st a)) \<and> ar_retry_after (fst (read_answer rep st a)) \<le> 3600"
  by (cases a) (simp_all add: read_answer_def Let_def)

text \<open>Whatever Apple answers - any status, any body, any \<open>retry-after\<close> - the next attempt of an alert comes
  after five seconds to one hour, the pause never shrinks as attempts are used up, and the device is
  forgotten exactly when Apple says that it is gone.\<close>

theorem push_pause_bounds:
  "5 \<le> push_wait (fst (read_answer rep st a)) n \<and> push_wait (fst (read_answer rep st a)) n \<le> 3600 \<and>
   push_wait r n \<le> push_wait r (n + k) \<and>
   pd_next (retry_push now (push_wait (fst (read_answer rep st a)) n) e p) =
     now + push_wait (fst (read_answer rep st a)) n * second \<and>
   (ar_status (fst (read_answer rep st (Answer code body header))) = InvalidDevice \<longleftrightarrow>
     code \<noteq> 200 \<and> (code = 410 \<or> apns_reason rep body = ''Unregistered''))"
proof (intro conjI)
  show 1: "5 \<le> push_wait (fst (read_answer rep st a)) n" "push_wait (fst (read_answer rep st a)) n \<le> 3600"
    using retry_after_bounds [of rep st a] push_backoff_bounds by (auto simp: push_wait_def le_max_iff_disj)
  have "push_backoff m \<le> push_backoff (m + i)" for m i
    unfolding push_backoff_def by (intro min.mono mult_left_mono power_increasing) auto
  from this [of "if n = 0 then 1 else n" "(if n + k = 0 then 1 else n + k) - (if n = 0 then 1 else n)"]
  show "push_wait r n \<le> push_wait r (n + k)"
    by (auto simp: push_wait_def intro: max.mono)
  show "pd_next (retry_push now (push_wait (fst (read_answer rep st a)) n) e p) =
     now + push_wait (fst (read_answer rep st a)) n * second"
    using 1 by (simp add: retry_push_def)
  show "ar_status (fst (read_answer rep st (Answer code body header))) = InvalidDevice \<longleftrightarrow>
     code \<noteq> 200 \<and> (code = 410 \<or> apns_reason rep body = ''Unregistered'')"
    by (simp add: read_answer_def Let_def)
qed

end
