(* ===== verification/Accounts.thy ===== *)
theory Accounts
  imports Apple_Auth Library_State Push_Queue Rely
begin

section \<open>Accounts (app/main.py, app/store.py, app/auth.py)\<close>

text \<open>
  The tables that hold data of an account and the operations that open, close and delete one: the
  upsert of a profile at sign-in, the deletion of the account's data, Apple's stored refresh token,
  the handlers of /v1/auth, DELETE /v1/me and the administration of users. The tables of other
  components are those of their theories: jobs with devices, alerts and the spend ledger
  (\<open>job_db\<close>), refresh tokens, library documents. The requests run in the actor's session, under which
  every row they name is visible, so row-level security does not occur here.
\<close>

record profile_row =
  pr_id :: uuid
  pr_email :: "string option"
  pr_sub :: "string option"
  pr_name :: "string option"
  pr_pro :: bool
  pr_expires :: "instant option"
  pr_free_limit :: "int option"
  pr_price :: "int option"
  pr_margin :: "rat option"
  pr_deleted :: "instant option"

record account_db =
  ad_profiles :: "profile_row list"
  ad_jobs :: job_db
  ad_tokens :: "string \<rightharpoonup> token"
  ad_library :: "uuid \<rightharpoonup> lib_row"
  ad_saved :: "(uuid \<times> uuid) list"
  ad_events :: "audit_entry list"
  ad_provider :: "uuid \<rightharpoonup> string"     \<comment> \<open>\<open>auth_provider_tokens\<close>: ciphertexts\<close>

definition profile_of :: "uuid \<Rightarrow> account_db \<Rightarrow> profile_row option" where
  "profile_of u d = find (\<lambda>p. pr_id p = u) (ad_profiles d)"

definition is_open :: "account_db \<Rightarrow> uuid \<Rightarrow> bool" where
  "is_open d u \<longleftrightarrow> (case profile_of u d of None \<Rightarrow> False | Some p \<Rightarrow> pr_deleted p = None)"

definition is_closed :: "account_db \<Rightarrow> uuid \<Rightarrow> bool" where
  "is_closed d u \<longleftrightarrow> (case profile_of u d of None \<Rightarrow> False | Some p \<Rightarrow> pr_deleted p \<noteq> None)"

definition set_profile :: "profile_row \<Rightarrow> account_db \<Rightarrow> account_db" where
  "set_profile p d = d\<lparr>ad_profiles := map (\<lambda>q. if pr_id q = pr_id p then p else q) (ad_profiles d)\<rparr>"

text \<open>The job tables know the closed profiles.\<close>

definition sync_closed :: "account_db \<Rightarrow> account_db" where
  "sync_closed d = d\<lparr>ad_jobs := (ad_jobs d)\<lparr>closed_profiles :=
     map pr_id [p \<leftarrow> ad_profiles d. pr_deleted p \<noteq> None]\<rparr>\<rparr>"

subsection \<open>Profiles\<close>

text \<open>
  \<open>insert \<dots> on conflict (apple_sub) do update\<close>: a known subject keeps its row and its identifier; the
  e-mail address is unique over all rows, and \<open>new_id\<close> is what \<open>gen_random_uuid\<close> gives a new row.
\<close>

definition email_taken :: "(profile_row \<Rightarrow> bool) \<Rightarrow> string option \<Rightarrow> account_db \<Rightarrow> bool" where
  "email_taken other email d \<longleftrightarrow> email \<noteq> None \<and> list_ex (\<lambda>q. other q \<and> pr_email q = email) (ad_profiles d)"

definition new_profile :: "uuid \<Rightarrow> string option \<Rightarrow> string option \<Rightarrow> string option \<Rightarrow> bool \<Rightarrow> profile_row" where
  "new_profile i email sub name pro = \<lparr>pr_id = i, pr_email = email, pr_sub = sub, pr_name = name, pr_pro = pro,
     pr_expires = None, pr_free_limit = None, pr_price = None, pr_margin = None, pr_deleted = None\<rparr>"

definition insert_profile :: "profile_row \<Rightarrow> account_db \<Rightarrow> profile_row res \<times> account_db" where
  "insert_profile p d =
     (if email_taken (\<lambda>_. True) (pr_email p) d \<or> list_ex (\<lambda>q. pr_id q = pr_id p) (ad_profiles d)
      then (Inl UniqueViolation, d)
      else (Inr p, d\<lparr>ad_profiles := ad_profiles d @ [p]\<rparr>))"

definition upsert_apple_profile ::
  "uuid \<Rightarrow> string option \<Rightarrow> string \<Rightarrow> string option \<Rightarrow> account_db \<Rightarrow> profile_row res \<times> account_db" where
  "upsert_apple_profile new_id email sub name d =
     (case find (\<lambda>p. pr_sub p = Some sub) (ad_profiles d) of
        Some p \<Rightarrow>
          let p' = p\<lparr>pr_email := (case email of None \<Rightarrow> pr_email p | Some e \<Rightarrow> Some e),
                     pr_name := (case name of None \<Rightarrow> pr_name p | Some n \<Rightarrow> Some n), pr_deleted := None\<rparr>
          in if email_taken (\<lambda>q. pr_id q \<noteq> pr_id p) (pr_email p') d then (Inl UniqueViolation, d)
             else (Inr p', sync_closed (set_profile p' d))
      | None \<Rightarrow> insert_profile (new_profile new_id email (Some sub) name False) d)"

definition release_deleted_apple_identity :: "string \<Rightarrow> string option \<Rightarrow> account_db \<Rightarrow> account_db" where
  "release_deleted_apple_identity sub email d =
     d\<lparr>ad_profiles := map (\<lambda>p.
         if pr_deleted p \<noteq> None \<and>
            (pr_sub p = Some sub \<or> (email \<noteq> None \<and> email \<noteq> Some [] \<and> pr_email p = email))
         then p\<lparr>pr_sub := None, pr_email := None\<rparr> else p) (ad_profiles d)\<rparr>"

subsection \<open>Deletion (\<open>delete_account_data\<close>)\<close>

text \<open>The statements of the transaction, in its order.\<close>

definition close_profile :: "instant \<Rightarrow> uuid \<Rightarrow> account_db \<Rightarrow> account_db" where
  "close_profile now u d = sync_closed (d\<lparr>ad_profiles := map (\<lambda>p.
     if pr_id p = u
     then p\<lparr>pr_deleted := Some (case pr_deleted p of None \<Rightarrow> now | Some t \<Rightarrow> t), pr_email := None, pr_name := None,
            pr_pro := False, pr_expires := None\<rparr>
     else p) (ad_profiles d)\<rparr>)"

definition forget_job :: "instant \<Rightarrow> uuid \<Rightarrow> job \<Rightarrow> job" where
  "forget_job now u j =
     (if jowner j = Some u
      then j\<lparr>jowner := None, jstatus := (if active j then Failed else jstatus j),
             jprogress := (if active j then 0 else jprogress j), jlease := None, jraw := ''[deleted]'',
             jnorm := ''[deleted]:'' @ jid j, jerror := None, jupdated := now\<rparr>
      else j)"

definition forget_in_jobs :: "instant \<Rightarrow> uuid \<Rightarrow> job_db \<Rightarrow> job_db" where
  "forget_in_jobs now u d = d\<lparr>
     jobs := map (forget_job now u) (jobs d),
     shared_access := [(i, v) \<leftarrow> shared_access d. v \<noteq> u],
     devices := [v \<leftarrow> devices d. dev_user v \<noteq> u],
     deliveries := [p \<leftarrow> deliveries d. pd_user p \<noteq> u],
     spend := (spend d)\<lparr>ledger := map (\<lambda>r. if lg_user r = Some u then r\<lparr>lg_user := None\<rparr> else r) (ledger (spend d))\<rparr>\<rparr>"

definition end_sessions :: "instant \<Rightarrow> uuid \<Rightarrow> (string \<rightharpoonup> token) \<Rightarrow> (string \<rightharpoonup> token)" where
  "end_sessions now u ts = (\<lambda>h. map_option (\<lambda>t. if tk_user t = u \<and> tk_revoked_at t = None
     then t\<lparr>tk_revoked_at := Some now\<rparr> else t) (ts h))"

definition delete_account_data :: "instant \<Rightarrow> uuid \<Rightarrow> account_db \<Rightarrow> account_db" where
  "delete_account_data now u d0 =
     (let d = close_profile now u d0 in
      d\<lparr>ad_saved := [(v, r) \<leftarrow> ad_saved d. v \<noteq> u],
        ad_library := (ad_library d)(u := None),
        ad_jobs := forget_in_jobs now u (ad_jobs d),
        ad_events := map (\<lambda>e. if ae_user e = Some u then e\<lparr>ae_user := None\<rparr> else e) (ad_events d),
        ad_tokens := end_sessions now u (ad_tokens d)\<rparr>)"

subsection \<open>Apple's refresh token\<close>

definition upsert_apple_refresh_token :: "uuid \<Rightarrow> string \<Rightarrow> account_db \<Rightarrow> unit res \<times> account_db" where
  "upsert_apple_refresh_token u ciphertext d =
     (if profile_of u d = None then (Inl DbError, d)
      else (Inr (), d\<lparr>ad_provider := (ad_provider d)(u \<mapsto> ciphertext)\<rparr>))"

definition get_apple_refresh_token_ciphertext :: "uuid \<Rightarrow> account_db \<Rightarrow> string option" where
  "get_apple_refresh_token_ciphertext u d =
     (case ad_provider d u of None \<Rightarrow> None | Some c \<Rightarrow> if strip c = [] then None else Some (strip c))"

definition delete_apple_refresh_token :: "uuid \<Rightarrow> account_db \<Rightarrow> account_db" where
  "delete_apple_refresh_token u d = d\<lparr>ad_provider := (ad_provider d)(u := None)\<rparr>"

subsection \<open>Handlers\<close>

type_synonym 'x account_tx = "(account_db, 'x) tx"

definition ask :: "(account_db \<Rightarrow> 'x) \<Rightarrow> 'x account_tx" where
  "ask f = atomically (\<lambda>d. (Inr (f d), d))"

definition change :: "(account_db \<Rightarrow> account_db) \<Rightarrow> unit account_tx" where
  "change f = atomically (\<lambda>d. (Inr (), f d))"

definition persist_apple_authorization_code ::
  "'k apple_env \<Rightarrow> settings \<Rightarrow> uuid \<Rightarrow> string option \<Rightarrow> string \<Rightarrow> unit account_tx" where
  "persist_apple_authorization_code E cfg u code sub =
     (let c = strip (case code of None \<Rightarrow> [] | Some s \<Rightarrow> s) in
      if c = [] then tx_return ()
      else case exchange_apple_authorization_code E cfg c sub of
        None \<Rightarrow> tx_return ()
      | Some refresh \<Rightarrow> tx_catch
          (tx_bind (tx_lift (encrypt_apple_refresh_token E cfg refresh)) (\<lambda>ciphertext.
             atomically (upsert_apple_refresh_token u ciphertext)))
          (\<lambda>_. tx_return ()))"

definition revoke_stored_apple_authorization :: "'k apple_env \<Rightarrow> settings \<Rightarrow> uuid \<Rightarrow> unit account_tx" where
  "revoke_stored_apple_authorization E cfg u =
     tx_bind (tx_catch (ask (get_apple_refresh_token_ciphertext u)) (\<lambda>_. tx_return None)) (\<lambda>found.
     case found of
       None \<Rightarrow> tx_return ()
     | Some ciphertext \<Rightarrow>
         (case decrypt_apple_refresh_token E cfg ciphertext of
            Inl _ \<Rightarrow> tx_catch (change (delete_apple_refresh_token u)) (\<lambda>_. tx_return ())
          | Inr refresh \<Rightarrow>
              if \<not> revoke_apple_refresh_token E cfg refresh then tx_return ()
              else tx_catch (change (delete_apple_refresh_token u)) (\<lambda>_. tx_return ())))"

definition deletion_unavailable :: exn where
  "deletion_unavailable = HTTPException 503 (Some ''ACCOUNT_DELETION_UNAVAILABLE'')
     ''Account deletion temporarily unavailable. Retry.'' (Some 3)"

definition purge_account :: "'k apple_env \<Rightarrow> settings \<Rightarrow> instant \<Rightarrow> uuid \<Rightarrow> unit account_tx" where
  "purge_account E cfg now u =
     tx_bind (revoke_stored_apple_authorization E cfg u) (\<lambda>_.
       tx_catch (change (delete_account_data now u)) (\<lambda>_. tx_raise deletion_unavailable))"

text \<open>The user a request acts as.\<close>

record auth_user =
  au_id :: uuid
  au_email :: "string option"
  au_name :: "string option"
  au_pro :: bool
  au_expires :: "instant option"

definition auth_user_from_row :: "profile_row \<Rightarrow> string option \<Rightarrow> auth_user" where
  "auth_user_from_row p claims_email = \<lparr>au_id = pr_id p,
     au_email = (case pr_email p of Some (c # s) \<Rightarrow> Some (c # s) | _ \<Rightarrow> claims_email),
     au_name = pr_name p, au_pro = pr_pro p, au_expires = pr_expires p\<rparr>"

definition auth_unavailable :: exn where
  "auth_unavailable = HTTPException 503 None ''Authentication temporarily unavailable'' (Some 1)"

definition load_profile :: "uuid \<Rightarrow> profile_row option account_tx" where
  "load_profile u = tx_catch (ask (profile_of u)) (\<lambda>_. tx_raise auth_unavailable)"

definition current_user :: "bearer_env \<Rightarrow> settings \<Rightarrow> (string \<times> string) option \<Rightarrow> auth_user account_tx" where
  "current_user B cfg creds =
     tx_bind (tx_lift (bearer_claims B cfg creds)) (\<lambda>(u, claims_email).
     tx_bind (load_profile u) (\<lambda>row.
     case row of
       None \<Rightarrow> tx_raise (account_error ''ACCOUNT_UNAVAILABLE'' ''Account unavailable'' 403)
     | Some p \<Rightarrow> if pr_deleted p \<noteq> None then tx_raise (account_error ''ACCOUNT_DELETED'' ''Account deleted'' 403)
                 else tx_return (auth_user_from_row p claims_email)))"

definition current_user_allow_closed ::
  "bearer_env \<Rightarrow> settings \<Rightarrow> (string \<times> string) option \<Rightarrow> auth_user account_tx" where
  "current_user_allow_closed B cfg creds =
     tx_bind (tx_lift (bearer_claims B cfg creds)) (\<lambda>(u, claims_email).
     tx_bind (load_profile u) (\<lambda>row. tx_return
       (case row of
          Some p \<Rightarrow> if pr_deleted p = None then auth_user_from_row p claims_email
                    else \<lparr>au_id = u, au_email = None, au_name = None, au_pro = False, au_expires = None\<rparr>
        | None \<Rightarrow> \<lparr>au_id = u, au_email = None, au_name = None, au_pro = False, au_expires = None\<rparr>)))"

definition delete_me ::
  "'k apple_env \<Rightarrow> bearer_env \<Rightarrow> settings \<Rightarrow> instant \<Rightarrow> (string \<times> string) option \<Rightarrow> unit account_tx" where
  "delete_me E B cfg now creds =
     tx_bind (current_user_allow_closed B cfg creds) (\<lambda>user. purge_account E cfg now (au_id user))"

text \<open>The tables as app/auth_tokens.py sees them, and what its statements leave in them.\<close>

definition auth_view :: "account_db \<Rightarrow> auth_db" where
  "auth_view d = \<lparr>tokens = ad_tokens d,
     accounts = (\<lambda>u. map_option (\<lambda>p. \<lparr>ac_email = pr_email p, ac_deleted_at = pr_deleted p\<rparr>) (profile_of u d)),
     push_devices = map (\<lambda>v. (dev_user v, dev_hash v)) (devices (ad_jobs d)),
     push_deliveries = map (\<lambda>p. (pd_user p, pd_hash p)) (deliveries (ad_jobs d))\<rparr>"

definition put_auth :: "auth_db \<Rightarrow> account_db \<Rightarrow> account_db" where
  "put_auth a d = d\<lparr>ad_tokens := tokens a,
     ad_jobs := (ad_jobs d)\<lparr>
       devices := [v \<leftarrow> devices (ad_jobs d). (dev_user v, dev_hash v) \<in> set (push_devices a)],
       deliveries := [p \<leftarrow> deliveries (ad_jobs d). (pd_user p, pd_hash p) \<in> set (push_deliveries a)]\<rparr>\<rparr>"

definition on_auth :: "(auth_db \<Rightarrow> 'x res \<times> auth_db) \<Rightarrow> account_db \<Rightarrow> 'x res \<times> account_db" where
  "on_auth f d = (case f (auth_view d) of (r, a) \<Rightarrow> (r, put_auth a d))"

record auth_response =
  ar_access :: string
  ar_refresh :: string
  ar_expires_in :: int
  ar_user :: "auth_user option"

definition auth_user_response :: "profile_row \<Rightarrow> auth_user" where
  "auth_user_response p = \<lparr>au_id = pr_id p, au_email = pr_email p, au_name = pr_name p, au_pro = pr_pro p,
     au_expires = pr_expires p\<rparr>"

text \<open>\<open>str(exc)\<close>; the other exceptions of the model carry no text.\<close>

fun exn_text :: "exn \<Rightarrow> string" where
  "exn_text (ValueError m) = m"
| "exn_text (RuntimeError m) = m"
| "exn_text (ExtractError m) = m"
| "exn_text _ = []"

definition temporarily_unavailable :: "string \<Rightarrow> exn" where
  "temporarily_unavailable code = HTTPException 503 (Some code) ''Authentication temporarily unavailable'' (Some 1)"

definition require_auth_secret :: "settings \<Rightarrow> unit res" where
  "require_auth_secret cfg =
     (if auth_jwt_secret cfg = [] then Inl (HTTPException 503 None ''AUTH_JWT_SECRET not configured'' None) else Inr ())"

definition writes_enabled :: "settings \<Rightarrow> unit res" where
  "writes_enabled cfg =
     (if maintenance_mode cfg then Inl (HTTPException 503 None ''Maintenance in progress. Retry.'' (Some 30)) else Inr ())"

text \<open>A claim written into a text column.\<close>

fun text_column :: "(json \<Rightarrow> string) \<Rightarrow> json \<Rightarrow> string option" where
  "text_column rep JNull = None"
| "text_column rep (JStr s) = Some s"
| "text_column rep v = Some (rep v)"

record sign_in =
  si_token :: string
  si_nonce :: "string option"
  si_full_name :: "string option"
  si_code :: "string option"
  si_agent :: "string option"
  si_ip :: "string option"

definition rejected_identity :: "exn \<Rightarrow> exn" where
  "rejected_identity e = HTTPException 401
     (Some (if contains (lower (exn_text e)) ''nonce'' then ''APPLE_NONCE_INVALID'' else ''APPLE_TOKEN_INVALID''))
     ''Apple identity token rejected'' None"

text \<open>\<open>new_id\<close> and \<open>raw\<close> are the random identifier and refresh token of this request, \<open>now\<close> its clock.\<close>

definition auth_apple ::
  "'k apple_env \<Rightarrow> crypto_env \<Rightarrow> settings \<Rightarrow> instant \<Rightarrow> uuid \<Rightarrow> string \<Rightarrow> sign_in \<Rightarrow> auth_response account_tx" where
  "auth_apple E C cfg now new_id raw q =
     tx_bind (tx_lift (writes_enabled cfg)) (\<lambda>_.
     tx_bind (tx_lift (require_auth_secret cfg)) (\<lambda>_.
     tx_bind (tx_catch (tx_lift (verify_apple_identity_token E cfg 0 (si_token q) (si_nonce q)))
                (\<lambda>e. tx_raise (rejected_identity e))) (\<lambda>apple.
     let name = take 200 (strip (case si_full_name q of None \<Rightarrow> [] | Some s \<Rightarrow> s)) in
     tx_bind (tx_catch (atomically (upsert_apple_profile new_id (text_column (rendered E) (apple_email apple))
                          (apple_sub apple) (if name = [] then None else Some name)))
                (\<lambda>_. tx_raise (temporarily_unavailable ''AUTH_DATABASE_ERROR''))) (\<lambda>row.
     tx_bind (persist_apple_authorization_code E cfg (pr_id row) (si_code q) (apple_sub apple)) (\<lambda>_.
     tx_bind (tx_catch (atomically (on_auth (create_refresh_token C cfg now raw (pr_id row) (si_agent q) (si_ip q))))
                (\<lambda>_. tx_raise (temporarily_unavailable ''AUTH_SESSION_ISSUE_FAILED''))) (\<lambda>refresh.
     tx_return \<lparr>ar_access = create_access_token C cfg now (pr_id row) (pr_email row), ar_refresh = refresh,
       ar_expires_in = auth_access_token_ttl_seconds cfg, ar_user = Some (auth_user_response row)\<rparr>))))))"

text \<open>
  \<open>rotate_refresh_token\<close> with its statements as calls of their own; \<open>fresh\<close> is the random token of a
  request without identifier.
\<close>

definition rotate_session ::
  "crypto_env \<Rightarrow> settings \<Rightarrow> instant \<Rightarrow> instant \<Rightarrow> string \<Rightarrow> string \<Rightarrow> uuid option \<Rightarrow> token_pair option account_tx" where
  "rotate_session C cfg now later fresh raw request_id =
     tx_bind (tx_lift (case request_id of None \<Rightarrow> Inr fresh | Some q \<Rightarrow> refresh_token_for_request C cfg raw q)) (\<lambda>new_refresh.
     tx_bind (atomically (on_auth (rotate_statement now (now + auth_refresh_token_ttl_seconds cfg * second)
                (hash C raw) request_id (hash C new_refresh)))) (\<lambda>row.
     case row of
       Some (u, email) \<Rightarrow> tx_return (Some \<lparr>access_token = create_access_token C cfg now u email, refresh_token = new_refresh\<rparr>)
     | None \<Rightarrow>
         (case request_id of
            None \<Rightarrow> tx_return None
          | Some q \<Rightarrow>
              tx_bind (ask (\<lambda>d. replay_row later (hash C raw) q (auth_view d))) (\<lambda>replay.
              tx_return (case replay of
                 None \<Rightarrow> None
               | Some (u, email) \<Rightarrow> Some \<lparr>access_token = create_access_token C cfg later u email,
                                          refresh_token = new_refresh\<rparr>)))))"

definition auth_refresh ::
  "crypto_env \<Rightarrow> settings \<Rightarrow> instant \<Rightarrow> instant \<Rightarrow> string \<Rightarrow> string \<Rightarrow> uuid option \<Rightarrow> auth_response account_tx" where
  "auth_refresh C cfg now later fresh raw request_id =
     tx_bind (tx_lift (require_auth_secret cfg)) (\<lambda>_.
     tx_bind (tx_catch (rotate_session C cfg now later fresh raw request_id)
                (\<lambda>_. tx_raise (temporarily_unavailable ''REFRESH_DATABASE_ERROR''))) (\<lambda>pair.
     case pair of
       None \<Rightarrow> tx_raise (HTTPException 401 (Some ''REFRESH_TOKEN_EXPIRED'') ''Refresh token rejected'' None)
     | Some p \<Rightarrow> tx_return \<lparr>ar_access = access_token p, ar_refresh = refresh_token p,
         ar_expires_in = auth_access_token_ttl_seconds cfg, ar_user = None\<rparr>))"

definition auth_logout ::
  "crypto_env \<Rightarrow> instant \<Rightarrow> string \<Rightarrow> uuid option \<Rightarrow> string option \<Rightarrow> unit account_tx" where
  "auth_logout C now raw request_id push =
     tx_catch (change (\<lambda>d. put_auth (revoke_refresh_token C now raw request_id push (auth_view d)) d))
       (\<lambda>_. tx_raise (HTTPException 503 (Some ''LOGOUT_DATABASE_ERROR'') ''Logout temporarily unavailable'' None))"

subsection \<open>The administrator\<close>

definition admin_create_user ::
  "uuid \<Rightarrow> string \<Rightarrow> string option \<Rightarrow> bool \<Rightarrow> profile_row account_tx" where
  "admin_create_user new_id email name pro =
     atomically (insert_profile (new_profile new_id (Some email) None
       (Some (case name of Some (c # s) \<Rightarrow> c # s | _ \<Rightarrow> email)) pro))"

text \<open>The fields that are given; \<open>ed_expires\<close> is the text as the database reads it.\<close>

record edit =
  ed_name :: "string option"
  ed_pro :: "bool option"
  ed_expires :: "instant res option"
  ed_free_limit :: "int option"
  ed_price :: "int option"
  ed_margin :: "rat option"

definition is_empty_edit :: "edit \<Rightarrow> bool" where
  "is_empty_edit f \<longleftrightarrow> ed_name f = None \<and> ed_pro f = None \<and> ed_expires f = None \<and> ed_free_limit f = None \<and>
     ed_price f = None \<and> ed_margin f = None"

definition given_or :: "'a option \<Rightarrow> 'a \<Rightarrow> 'a" where
  "given_or x y = (case x of None \<Rightarrow> y | Some v \<Rightarrow> v)"

definition apply_edit :: "edit \<Rightarrow> profile_row \<Rightarrow> profile_row" where
  "apply_edit f p = p\<lparr>
     pr_name := (case ed_name f of None \<Rightarrow> pr_name p | Some n \<Rightarrow> Some n),
     pr_pro := given_or (ed_pro f) (pr_pro p),
     pr_expires := (case ed_expires f of Some (Inr t) \<Rightarrow> Some t | _ \<Rightarrow> pr_expires p),
     pr_free_limit := (case ed_free_limit f of None \<Rightarrow> pr_free_limit p | Some n \<Rightarrow> Some n),
     pr_price := (case ed_price f of None \<Rightarrow> pr_price p | Some n \<Rightarrow> Some n),
     pr_margin := (case ed_margin f of None \<Rightarrow> pr_margin p | Some q \<Rightarrow> Some q)\<rparr>"

definition edit_statement :: "uuid \<Rightarrow> edit \<Rightarrow> account_db \<Rightarrow> profile_row option res \<times> account_db" where
  "edit_statement u f d =
     (case (ed_expires f, profile_of u d) of
        (Some (Inl _), _) \<Rightarrow> (Inl DbError, d)
      | (_, None) \<Rightarrow> (Inr None, d)
      | (_, Some p) \<Rightarrow>
          if pr_deleted p \<noteq> None then (Inr None, d)
          else (Inr (Some (apply_edit f p)), set_profile (apply_edit f p) d))"

definition admin_patch_user :: "uuid \<Rightarrow> edit \<Rightarrow> profile_row account_tx" where
  "admin_patch_user u f =
     (if is_empty_edit f then tx_raise (HTTPException 400 None ''No fields to update'' None)
      else tx_bind (atomically (edit_statement u f)) (\<lambda>row.
        case row of
          None \<Rightarrow> tx_raise (HTTPException 404 None ''User not found'' None)
        | Some p \<Rightarrow> tx_return p))"

definition admin_delete_user :: "'k apple_env \<Rightarrow> settings \<Rightarrow> instant \<Rightarrow> uuid \<Rightarrow> unit account_tx" where
  "admin_delete_user E cfg now u = purge_account E cfg now u"

subsection \<open>Saved recipes and library documents\<close>

definition save_recipe_row :: "uuid \<Rightarrow> uuid \<Rightarrow> account_db \<Rightarrow> account_db" where
  "save_recipe_row u r d =
     (if is_open d u \<and> (u, r) \<notin> set (ad_saved d) then d\<lparr>ad_saved := ad_saved d @ [(u, r)]\<rparr> else d)"

definition delete_user_recipe :: "uuid \<Rightarrow> uuid \<Rightarrow> account_db \<Rightarrow> bool \<times> account_db" where
  "delete_user_recipe u r d = ((u, r) \<in> set (ad_saved d), d\<lparr>ad_saved := [x \<leftarrow> ad_saved d. x \<noteq> (u, r)]\<rparr>)"

definition remove_my_recipe :: "uuid \<Rightarrow> uuid \<Rightarrow> unit account_tx" where
  "remove_my_recipe u r =
     tx_bind (atomically (\<lambda>d. case delete_user_recipe u r d of (ok, d') \<Rightarrow> (Inr ok, d'))) (\<lambda>ok.
       if ok then tx_return () else tx_raise (HTTPException 404 None ''Recipe not in your list'' None))"

text \<open>The tables as app/library_state.py sees them.\<close>

definition on_library :: "(library_db \<Rightarrow> 'x res \<times> library_db) \<Rightarrow> account_db \<Rightarrow> 'x res \<times> account_db" where
  "on_library f d =
     (case f \<lparr>lib_rows = ad_library d, live = is_open d\<rparr> of (r, l) \<Rightarrow> (r, d\<lparr>ad_library := lib_rows l\<rparr>))"

end
