(* ===== verification/Account_Facts.thy ===== *)
theory Account_Facts
  imports Accounts
begin

section \<open>Accounts stay apart and closed\<close>

text \<open>
  Facts on \<open>Accounts\<close>. The deletion of an account leaves nothing of it and touches nothing of others. The
  statements of all other requests, in any interleaving, are the steps of \<open>account_step\<close>; along them a
  deleted account stays closed and empty until its owner signs in again, and a subject of Apple is
  always the same account. The handlers are sequences of such steps, so the facts carry over to them.
\<close>

subsection \<open>Deletion\<close>

definition erased :: "uuid \<Rightarrow> account_db \<Rightarrow> bool" where
  "erased u d \<longleftrightarrow>
     (\<forall>p \<in> set (ad_profiles d). pr_id p = u \<longrightarrow> pr_deleted p \<noteq> None \<and> pr_email p = None \<and> pr_name p = None \<and>
        \<not> pr_pro p \<and> pr_expires p = None) \<and>
     u \<notin> fst ` set (ad_saved d) \<and> ad_library d u = None \<and> sessions u (auth_view d) = {} \<and>
     u \<notin> dev_user ` set (devices (ad_jobs d)) \<and> u \<notin> pd_user ` set (deliveries (ad_jobs d)) \<and>
     u \<notin> snd ` set (shared_access (ad_jobs d)) \<and> Some u \<notin> jowner ` set (jobs (ad_jobs d)) \<and>
     Some u \<notin> lg_user ` set (ledger (spend (ad_jobs d))) \<and> Some u \<notin> ae_user ` set (ad_events d)"

definition same_for :: "uuid \<Rightarrow> account_db \<Rightarrow> account_db \<Rightarrow> bool" where
  "same_for v d d' \<longleftrightarrow>
     [p \<leftarrow> ad_profiles d'. pr_id p = v] = [p \<leftarrow> ad_profiles d. pr_id p = v] \<and>
     [x \<leftarrow> ad_saved d'. fst x = v] = [x \<leftarrow> ad_saved d. fst x = v] \<and> ad_library d' v = ad_library d v \<and>
     (\<forall>h t. tk_user t = v \<longrightarrow> ad_tokens d' h = Some t \<longleftrightarrow> ad_tokens d h = Some t) \<and>
     [x \<leftarrow> devices (ad_jobs d'). dev_user x = v] = [x \<leftarrow> devices (ad_jobs d). dev_user x = v] \<and>
     [x \<leftarrow> deliveries (ad_jobs d'). pd_user x = v] = [x \<leftarrow> deliveries (ad_jobs d). pd_user x = v] \<and>
     [x \<leftarrow> shared_access (ad_jobs d'). snd x = v] = [x \<leftarrow> shared_access (ad_jobs d). snd x = v] \<and>
     [j \<leftarrow> jobs (ad_jobs d'). jowner j = Some v] = [j \<leftarrow> jobs (ad_jobs d). jowner j = Some v] \<and>
     [r \<leftarrow> ledger (spend (ad_jobs d')). lg_user r = Some v] = [r \<leftarrow> ledger (spend (ad_jobs d)). lg_user r = Some v]"

lemma sync_frame [simp]:
  "ad_profiles (sync_closed d) = ad_profiles d" "ad_tokens (sync_closed d) = ad_tokens d"
  "ad_library (sync_closed d) = ad_library d" "ad_saved (sync_closed d) = ad_saved d"
  "ad_events (sync_closed d) = ad_events d" "ad_provider (sync_closed d) = ad_provider d"
  "jobs (ad_jobs (sync_closed d)) = jobs (ad_jobs d)" "devices (ad_jobs (sync_closed d)) = devices (ad_jobs d)"
  "deliveries (ad_jobs (sync_closed d)) = deliveries (ad_jobs d)" "spend (ad_jobs (sync_closed d)) = spend (ad_jobs d)"
  "shared_access (ad_jobs (sync_closed d)) = shared_access (ad_jobs d)"
  by (simp_all add: sync_closed_def)

lemma deletion_tables [simp]:
  "ad_profiles (delete_account_data now u d) = ad_profiles (close_profile now u d)"
  "ad_saved (delete_account_data now u d) = [(v, r) \<leftarrow> ad_saved d. v \<noteq> u]"
  "ad_library (delete_account_data now u d) = (ad_library d)(u := None)"
  "ad_tokens (delete_account_data now u d) = end_sessions now u (ad_tokens d)"
  "ad_events (delete_account_data now u d) = map (\<lambda>e. if ae_user e = Some u then e\<lparr>ae_user := None\<rparr> else e) (ad_events d)"
  "jobs (ad_jobs (delete_account_data now u d)) = map (forget_job now u) (jobs (ad_jobs d))"
  "shared_access (ad_jobs (delete_account_data now u d)) = [(i, v) \<leftarrow> shared_access (ad_jobs d). v \<noteq> u]"
  "devices (ad_jobs (delete_account_data now u d)) = [v \<leftarrow> devices (ad_jobs d). dev_user v \<noteq> u]"
  "deliveries (ad_jobs (delete_account_data now u d)) = [p \<leftarrow> deliveries (ad_jobs d). pd_user p \<noteq> u]"
  "ledger (spend (ad_jobs (delete_account_data now u d))) =
     map (\<lambda>r. if lg_user r = Some u then r\<lparr>lg_user := None\<rparr> else r) (ledger (spend (ad_jobs d)))"
  by (simp_all add: delete_account_data_def close_profile_def forget_in_jobs_def Let_def)

lemma closed_profiles_rows:
  "ad_profiles (close_profile now u d) = map (\<lambda>p.
     if pr_id p = u
     then p\<lparr>pr_deleted := Some (case pr_deleted p of None \<Rightarrow> now | Some t \<Rightarrow> t), pr_email := None, pr_name := None,
            pr_pro := False, pr_expires := None\<rparr>
     else p) (ad_profiles d)"
  by (simp add: close_profile_def)

lemma filter_map_other:
  assumes "\<And>x. x \<in> set xs \<Longrightarrow> P (f x) \<longleftrightarrow> P x" "\<And>x. x \<in> set xs \<Longrightarrow> P x \<Longrightarrow> f x = x"
  shows "[x \<leftarrow> map f xs. P x] = [x \<leftarrow> xs. P x]"
  using assms by (induction xs) auto

lemma deletion_sessions: "sessions u (auth_view (delete_account_data now u d)) = {}"
proof -
  have "tk_user t = u \<longrightarrow> tk_revoked_at t \<noteq> None" if "end_sessions now u (ad_tokens d) h = Some t" for h t
    using that by (cases "ad_tokens d h") (auto simp: end_sessions_def)
  then show ?thesis unfolding sessions_def live_token_def auth_view_def by simp
qed

lemma every_image: "(\<And>x. P (f x)) \<Longrightarrow> \<forall>y \<in> set (map f xs). P y"
  by simp

lemma forgotten_owner: "jowner (forget_job now u j) \<noteq> Some u"
  by (simp add: forget_job_def)

lemma deletion_erases: "erased u (delete_account_data now u d)"
proof -
  have "Some u \<notin> jowner ` set (map (forget_job now u) (jobs (ad_jobs d)))"
    using forgotten_owner by (metis (no_types, lifting) imageE list.set_map)
  moreover have "Some u \<notin> lg_user ` set (map (\<lambda>r. if lg_user r = Some u then r\<lparr>lg_user := None\<rparr> else r) rs)" for rs
    by auto
  moreover have "Some u \<notin> ae_user ` set (map (\<lambda>e. if ae_user e = Some u then e\<lparr>ae_user := None\<rparr> else e) es)" for es
    by auto
  moreover have "\<forall>p \<in> set (ad_profiles (close_profile now u d)). pr_id p = u \<longrightarrow> pr_deleted p \<noteq> None \<and>
      pr_email p = None \<and> pr_name p = None \<and> \<not> pr_pro p \<and> pr_expires p = None"
    unfolding closed_profiles_rows by (rule every_image) simp
  ultimately show ?thesis
    unfolding erased_def deletion_tables deletion_sessions by auto
qed

lemma filter_other: "v \<noteq> u \<Longrightarrow> [x \<leftarrow> [x \<leftarrow> xs. k x \<noteq> u]. k x = v] = [x \<leftarrow> xs. k x = v]"
  by (auto intro: filter_cong)

lemma deletion_spares:
  assumes "v \<noteq> u"
  shows "same_for v d (delete_account_data now u d)"
proof -
  let ?d = "delete_account_data now u d"
  have "[p \<leftarrow> ad_profiles ?d. pr_id p = v] = [p \<leftarrow> ad_profiles d. pr_id p = v]"
    unfolding deletion_tables closed_profiles_rows using assms by (intro filter_map_other) simp_all
  moreover have "[j \<leftarrow> jobs (ad_jobs ?d). jowner j = Some v] = [j \<leftarrow> jobs (ad_jobs d). jowner j = Some v]"
    unfolding deletion_tables using assms by (intro filter_map_other) (simp_all add: forget_job_def)
  moreover have "[r \<leftarrow> ledger (spend (ad_jobs ?d)). lg_user r = Some v] = [r \<leftarrow> ledger (spend (ad_jobs d)). lg_user r = Some v]"
    unfolding deletion_tables using assms by (intro filter_map_other) simp_all
  moreover have "ad_tokens ?d h = Some t \<longleftrightarrow> ad_tokens d h = Some t" if "tk_user t = v" for h t
    using assms that by (cases "ad_tokens d h") (auto simp: end_sessions_def)
  moreover have "[x \<leftarrow> ad_saved ?d. fst x = v] = [x \<leftarrow> ad_saved d. fst x = v]"
    "[x \<leftarrow> shared_access (ad_jobs ?d). snd x = v] = [x \<leftarrow> shared_access (ad_jobs d). snd x = v]"
    using filter_other [OF assms, of fst "ad_saved d"] filter_other [OF assms, of snd "shared_access (ad_jobs d)"]
    by (simp_all add: case_prod_beta)
  ultimately show ?thesis
    using assms by (simp add: same_for_def filter_other del: filter_filter)
qed

text \<open>The tables of jobs keep their constraints, and no cost is lost from the ledger.\<close>

lemma forget_job_id [simp]: "jid (forget_job now u j) = jid j"
  by (simp add: forget_job_def)

lemma forget_conflicts: "conflicting (forget_job now u a) (forget_job now u b) \<Longrightarrow> conflicting a b"
  by (auto simp: conflicting_def forget_job_def active_def split: if_splits)

lemma deletion_jobs_ok:
  assumes "jobs_ok js"
  shows "jobs_ok (map (forget_job now u) js)"
proof -
  have "jid \<circ> forget_job now u = jid" by (simp add: fun_eq_iff)
  moreover have "job_checks (forget_job now u j)" if "job_checks j" for j
    using that by (auto simp: job_checks_def forget_job_def)
  moreover have "no_conflicts (map (forget_job now u) js)"
    using assms forget_conflicts by (fastforce simp: jobs_ok_def no_conflicts_def)
  ultimately show ?thesis using assms by (simp add: jobs_ok_def list_all_iff)
qed

lemma deletion_keeps_costs:
  "spent_since t (ledger (spend (ad_jobs (delete_account_data now u d)))) = spent_since t (ledger (spend (ad_jobs d)))"
proof -
  let ?f = "\<lambda>r. if lg_user r = Some u then r\<lparr>lg_user := None\<rparr> else r"
  have "spent_since t (map ?f rs) = spent_since t rs" for rs
    by (induction rs) (auto simp: spent_since_def charge_def)
  then show ?thesis by simp
qed

text \<open>
  The charges of a deleted account no longer count for it: after it signs in again its monthly budget
  in the ledger is whole.
\<close>

lemma deletion_resets_user_budget:
  "user_spent_since u t (ledger (spend (ad_jobs (delete_account_data now u d)))) = 0"
proof -
  let ?f = "\<lambda>r. if lg_user r = Some u then r\<lparr>lg_user := None\<rparr> else r"
  have "user_spent_since u t (map ?f rs) = 0" for rs
    by (induction rs) (auto simp: user_spent_since_def)
  then show ?thesis by simp
qed

subsection \<open>The steps of other requests\<close>

text \<open>
  The statements that reach these tables, whoever sends them, except that nobody signs in as the
  subject \<open>s\<close>. Statements on jobs, devices, alerts and the ledger may do what they want to those
  tables; a subscription event changes an open profile only (\<open>Superwall.superwall_event_order\<close>).
\<close>

inductive account_step :: "string \<Rightarrow> account_db \<Rightarrow> account_db \<Rightarrow> bool" for s where
  sign_in: "sub \<noteq> s \<Longrightarrow> account_step s d (snd (upsert_apple_profile i email sub name d))"
| new_session: "account_step s d (snd (on_auth (create_refresh_token C cfg now raw u agent ip) d))"
| rotate: "account_step s d (snd (on_auth (rotate_statement now ex h q nh) d))"
| logout: "account_step s d (put_auth (revoke_refresh_token C now raw q push (auth_view d)) d)"
| delete: "account_step s d (delete_account_data now u d)"
| sync: "account_step s d (snd (on_library (save_statement now u rv snap) d))"
| save: "account_step s d (save_recipe_row u r d)"
| unsave: "account_step s d (snd (delete_user_recipe u r d))"
| job_tables: "closed_profiles J = closed_profiles (ad_jobs d) \<Longrightarrow> account_step s d (d\<lparr>ad_jobs := J\<rparr>)"
| audit: "account_step s d (d\<lparr>ad_events := es\<rparr>)"
| provider: "account_step s d (snd (upsert_apple_refresh_token u c d))"
| forget_provider: "account_step s d (delete_apple_refresh_token u d)"
| create: "account_step s d (snd (insert_profile (new_profile i email None name pro) d))"
| edit: "account_step s d (snd (edit_statement u f d))"
| subscription: "is_open d u \<Longrightarrow>
    account_step s d (d\<lparr>ad_profiles := map (\<lambda>p. if pr_id p = u then p\<lparr>pr_pro := b, pr_expires := t\<rparr> else p) (ad_profiles d)\<rparr>)"

text \<open>The keys of the table.\<close>

definition profiles_ok :: "account_db \<Rightarrow> bool" where
  "profiles_ok d \<longleftrightarrow> distinct (map pr_id (ad_profiles d)) \<and>
     (\<forall>p \<in> set (ad_profiles d). \<forall>q \<in> set (ad_profiles d). pr_sub p \<noteq> None \<longrightarrow> pr_sub p = pr_sub q \<longrightarrow> pr_id p = pr_id q)"

text \<open>What a statement does to the profiles: it keeps every row's identifier and subject, and a closed row as it is.\<close>

definition row_kept :: "string \<Rightarrow> profile_row \<Rightarrow> profile_row \<Rightarrow> bool" where
  "row_kept s p q \<longleftrightarrow> pr_id q = pr_id p \<and> pr_sub q = pr_sub p \<and>
     (pr_sub p \<in> {None, Some s} \<longrightarrow> pr_deleted p \<noteq> None \<longrightarrow>
        pr_deleted q \<noteq> None \<and> (pr_email p = None \<longrightarrow> pr_email q = None) \<and> (pr_name p = None \<longrightarrow> pr_name q = None) \<and>
        (\<not> pr_pro p \<longrightarrow> \<not> pr_pro q) \<and> (pr_expires p = None \<longrightarrow> pr_expires q = None))"

lemma row_kept_refl [simp]: "row_kept s p p"
  by (simp add: row_kept_def)

lemma row_kept_trans: "row_kept s p q \<Longrightarrow> row_kept s q r \<Longrightarrow> row_kept s p r"
  by (auto simp: row_kept_def)

definition rows_kept :: "string \<Rightarrow> account_db \<Rightarrow> account_db \<Rightarrow> bool" where
  "rows_kept s d d' \<longleftrightarrow> (\<exists>f new. ad_profiles d' = map f (ad_profiles d) @ new \<and> (\<forall>p \<in> set (ad_profiles d). row_kept s p (f p)) \<and>
     (\<forall>n \<in> set new. pr_deleted n = None \<and> pr_id n \<notin> pr_id ` set (ad_profiles d) \<and> new = [n] \<and>
        (pr_sub n \<noteq> None \<longrightarrow> pr_sub n \<noteq> Some s \<and> pr_sub n \<notin> pr_sub ` set (ad_profiles d))))"

lemma rows_keptI:
  "ad_profiles d' = map f (ad_profiles d) \<Longrightarrow> (\<And>p. p \<in> set (ad_profiles d) \<Longrightarrow> row_kept s p (f p)) \<Longrightarrow> rows_kept s d d'"
  unfolding rows_kept_def by (intro exI [of _ f] exI [of _ "[]"]) auto

lemma rows_same: "ad_profiles d' = ad_profiles d \<Longrightarrow> rows_kept s d d'"
  by (rule rows_keptI [where f = "\<lambda>p. p"]) auto

lemma insert_rows:
  assumes "pr_deleted p = None" "pr_sub p \<noteq> Some s" "pr_sub p \<noteq> None \<Longrightarrow> pr_sub p \<notin> pr_sub ` set (ad_profiles d)"
  shows "rows_kept s d (snd (insert_profile p d))"
proof (cases "email_taken (\<lambda>_. True) (pr_email p) d \<or> list_ex (\<lambda>q. pr_id q = pr_id p) (ad_profiles d)")
  case True
  then show ?thesis by (auto simp: insert_profile_def intro: rows_same)
next
  case False
  then have "pr_id p \<notin> pr_id ` set (ad_profiles d)" by (auto simp: list_ex_iff)
  with assms False show ?thesis
    unfolding rows_kept_def by (intro exI [of _ "\<lambda>q. q"] exI [of _ "[p]"]) (auto simp: insert_profile_def)
qed

lemma profile_ofD: "profile_of u d = Some p \<Longrightarrow> p \<in> set (ad_profiles d) \<and> pr_id p = u"
  unfolding profile_of_def by (drule find_someD) simp

lemma unique_profile: "profiles_ok d \<Longrightarrow> p \<in> set (ad_profiles d) \<Longrightarrow> q \<in> set (ad_profiles d) \<Longrightarrow> pr_id p = pr_id q \<Longrightarrow> p = q"
  unfolding profiles_ok_def by (meson distinct_map inj_onD)

lemma set_profile_rows:
  assumes "profiles_ok d" "p \<in> set (ad_profiles d)" "row_kept s p p'" "ad_profiles d' = ad_profiles (set_profile p' d)"
  shows "rows_kept s d d'"
proof (rule rows_keptI [where f = "\<lambda>q. if pr_id q = pr_id p' then p' else q"])
  have "pr_id p' = pr_id p" using assms(3) by (simp add: row_kept_def)
  then show "row_kept s q (if pr_id q = pr_id p' then p' else q)" if "q \<in> set (ad_profiles d)" for q
    using unique_profile [OF assms(1,2) that] assms(3) by (cases "pr_id p = pr_id q") simp_all
qed (simp add: assms(4) set_profile_def)

lemma upsert_rows:
  assumes "profiles_ok d" "sub \<noteq> s"
  shows "rows_kept s d (snd (upsert_apple_profile i email sub name d))"
proof (cases "find (\<lambda>p. pr_sub p = Some sub) (ad_profiles d)")
  case None
  then have "Some sub \<notin> pr_sub ` set (ad_profiles d)" by (auto simp: find_None_iff)
  with None assms show ?thesis
    by (auto simp: upsert_apple_profile_def new_profile_def intro!: insert_rows)
next
  case (Some p)
  note p = find_someD [OF this]
  let ?p = "p\<lparr>pr_email := (case email of None \<Rightarrow> pr_email p | Some e \<Rightarrow> Some e),
              pr_name := (case name of None \<Rightarrow> pr_name p | Some n \<Rightarrow> Some n), pr_deleted := None\<rparr>"
  have "row_kept s p ?p" using p assms(2) by (simp add: row_kept_def)
  with p assms(1) have "rows_kept s d (sync_closed (set_profile ?p d))" by (auto intro: set_profile_rows)
  then show ?thesis using Some by (simp add: upsert_apple_profile_def Let_def rows_same)
qed

lemma edit_rows:
  assumes "profiles_ok d"
  shows "rows_kept s d (snd (edit_statement u f d))"
proof (cases "profile_of u d")
  case (Some p)
  note p = profile_ofD [OF this]
  show ?thesis
  proof (cases "pr_deleted p = None")
    case True
    then have "row_kept s p (apply_edit f p)" by (simp add: row_kept_def apply_edit_def)
    with p assms have "rows_kept s d (set_profile (apply_edit f p) d)" by (auto intro: set_profile_rows)
    with Some True show ?thesis
      by (auto simp: edit_statement_def rows_same split: option.split sum.split)
  qed (use Some in \<open>auto simp: edit_statement_def rows_same split: option.split sum.split\<close>)
qed (auto simp: edit_statement_def rows_same split: option.split sum.split)

lemma delete_rows: "rows_kept s d (delete_account_data now u d)"
  by (rule rows_keptI [OF trans [OF deletion_tables(1) closed_profiles_rows]]) (simp add: row_kept_def)

lemma on_auth_profiles [simp]: "ad_profiles (snd (on_auth f d)) = ad_profiles d" "ad_profiles (put_auth a d) = ad_profiles d"
  by (simp_all add: on_auth_def put_auth_def split: prod.split)

lemma on_library_profiles [simp]: "ad_profiles (snd (on_library f d)) = ad_profiles d"
  by (simp add: on_library_def split: prod.split)

lemma step_rows:
  assumes "account_step s d d'" "profiles_ok d"
  shows "rows_kept s d d'"
  using assms
proof cases
  case sign_in
  with assms(2) show ?thesis by (simp add: upsert_rows)
next
  case delete
  then show ?thesis by (simp add: delete_rows)
next
  case create
  then show ?thesis by (auto simp: new_profile_def intro!: insert_rows)
next
  case edit
  with assms(2) show ?thesis by (simp add: edit_rows)
next
  case (subscription u t b)
  have "row_kept s p (if pr_id p = u then p\<lparr>pr_pro := b, pr_expires := t\<rparr> else p)" if "p \<in> set (ad_profiles d)" for p
  proof (cases "pr_id p = u")
    case True
    from subscription(2) obtain q where q: "profile_of u d = Some q" "pr_deleted q = None"
      by (auto simp: is_open_def split: option.splits)
    from profile_ofD [OF q(1)] unique_profile [OF assms(2) that] True have "p = q" by simp
    with q(2) show ?thesis by (simp add: row_kept_def)
  qed simp
  then show ?thesis
    by (intro rows_keptI [where f = "\<lambda>p. if pr_id p = u then p\<lparr>pr_pro := b, pr_expires := t\<rparr> else p"])
      (simp_all add: subscription(1))
qed (auto intro: rows_same simp: save_recipe_row_def delete_user_recipe_def upsert_apple_refresh_token_def
       delete_apple_refresh_token_def)

lemma rows_kept_ok:
  assumes "rows_kept s d d'" "profiles_ok d"
  shows "profiles_ok d'"
proof -
  obtain f new where d': "ad_profiles d' = map f (ad_profiles d) @ new"
    and f: "\<And>p. p \<in> set (ad_profiles d) \<Longrightarrow> row_kept s p (f p)"
    and new: "\<And>n. n \<in> set new \<Longrightarrow> pr_id n \<notin> pr_id ` set (ad_profiles d) \<and> new = [n] \<and>
        (pr_sub n \<noteq> None \<longrightarrow> pr_sub n \<notin> pr_sub ` set (ad_profiles d))"
    using assms(1) unfolding rows_kept_def by blast
  have ids: "map pr_id (map f (ad_profiles d)) = map pr_id (ad_profiles d)"
    using f by (simp add: row_kept_def)
  have "distinct (map pr_id new)"
  proof (cases new)
    case (Cons n ns)
    with new [of n] have "new = [n]" by simp
    then show ?thesis by simp
  qed simp
  moreover have "set (map pr_id (ad_profiles d)) \<inter> set (map pr_id new) = {}" using new by (force simp: image_iff)
  ultimately have "distinct (map pr_id (ad_profiles d'))"
    using assms(2) unfolding d' map_append ids profiles_ok_def distinct_append by blast
  moreover have "pr_id p = pr_id q"
    if "p \<in> set (ad_profiles d')" "q \<in> set (ad_profiles d')" "pr_sub p \<noteq> None" "pr_sub p = pr_sub q" for p q
  proof -
    have old: "pr_sub x \<in> pr_sub ` set (ad_profiles d)" if "x \<in> set (map f (ad_profiles d))" for x
      using that f unfolding row_kept_def by (metis (no_types, lifting) imageE imageI list.set_map)
    from that(1,2) consider (kept) a b where "a \<in> set (ad_profiles d)" "b \<in> set (ad_profiles d)" "p = f a" "q = f b"
      | (both) "p \<in> set new" "q \<in> set new"
      | (left) "p \<in> set new" "q \<in> set (map f (ad_profiles d))"
      | (right) "q \<in> set new" "p \<in> set (map f (ad_profiles d))"
      unfolding d' by auto
    then show ?thesis
    proof cases
      case kept
      with f [of a] f [of b] that assms(2) show ?thesis unfolding row_kept_def profiles_ok_def by metis
    next
      case both
      with new [of p] show ?thesis by auto
    next
      case left
      with new [of p] old [of q] that show ?thesis by auto
    next
      case right
      with new [of q] old [of p] that show ?thesis by auto
    qed
  qed
  ultimately show ?thesis unfolding profiles_ok_def by blast
qed

subsection \<open>Closed accounts stay closed\<close>

text \<open>A closed account of the subject \<open>s\<close> without data.\<close>

definition gone :: "uuid \<Rightarrow> string \<Rightarrow> account_db \<Rightarrow> bool" where
  "gone u s d \<longleftrightarrow> (\<exists>p \<in> set (ad_profiles d). pr_id p = u \<and> pr_sub p \<in> {None, Some s} \<and> pr_deleted p \<noteq> None \<and>
      pr_email p = None \<and> pr_name p = None \<and> \<not> pr_pro p \<and> pr_expires p = None) \<and>
     u \<notin> fst ` set (ad_saved d) \<and> ad_library d u = None"

definition owned_by :: "uuid \<Rightarrow> string \<Rightarrow> account_db \<Rightarrow> bool" where
  "owned_by u s d \<longleftrightarrow> profiles_ok d \<and> (\<exists>p \<in> set (ad_profiles d). pr_id p = u \<and> pr_sub p \<in> {None, Some s})"

lemma profile_of_row: "profiles_ok d \<Longrightarrow> p \<in> set (ad_profiles d) \<Longrightarrow> profile_of (pr_id p) d = Some p"
  unfolding profile_of_def profiles_ok_def by (intro find_unique) auto

lemma gone_profile:
  assumes "profiles_ok d" "gone u s d"
  obtains p where "profile_of u d = Some p" "pr_deleted p \<noteq> None"
  using assms profile_of_row unfolding gone_def by blast

lemma gone_not_open: "profiles_ok d \<Longrightarrow> gone u s d \<Longrightarrow> \<not> is_open d u"
  by (erule (1) gone_profile) (simp add: is_open_def)

lemma rows_gone:
  assumes "rows_kept s d d'" "p \<in> set (ad_profiles d)" "pr_sub p \<in> {None, Some s}" "pr_deleted p \<noteq> None"
    "pr_email p = None" "pr_name p = None" "\<not> pr_pro p" "pr_expires p = None"
  shows "\<exists>q \<in> set (ad_profiles d'). pr_id q = pr_id p \<and> pr_sub q \<in> {None, Some s} \<and> pr_deleted q \<noteq> None \<and>
      pr_email q = None \<and> pr_name q = None \<and> \<not> pr_pro q \<and> pr_expires q = None"
proof -
  obtain f new where d': "ad_profiles d' = map f (ad_profiles d) @ new" and f: "row_kept s p (f p)"
    using assms(1,2) unfolding rows_kept_def by blast
  have "f p \<in> set (ad_profiles d')" using d' assms(2) by simp
  moreover have "pr_id (f p) = pr_id p \<and> pr_sub (f p) = pr_sub p" using f unfolding row_kept_def by blast
  moreover have "pr_deleted (f p) \<noteq> None \<and> pr_email (f p) = None \<and> pr_name (f p) = None \<and> \<not> pr_pro (f p) \<and>
      pr_expires (f p) = None"
    using f assms(3-8) unfolding row_kept_def by blast
  ultimately show ?thesis using assms(3) by metis
qed

lemma step_data:
  assumes "account_step s d d'" "\<not> is_open d u" "u \<notin> fst ` set (ad_saved d)" "ad_library d u = None"
  shows "u \<notin> fst ` set (ad_saved d') \<and> ad_library d' u = None"
  using assms
proof cases
  case (sync now v rv snap)
  have "lib_rows (snd (save_statement now v rv snap \<lparr>lib_rows = ad_library d, live = is_open d\<rparr>)) u = None"
    using assms(2,4) by (auto simp: save_statement_def save_library_state_def Let_def split: option.splits)
  with sync assms show ?thesis by (auto simp: on_library_def split: prod.splits)
qed (auto simp: save_recipe_row_def delete_user_recipe_def upsert_apple_refresh_token_def
       delete_apple_refresh_token_def on_auth_def put_auth_def insert_profile_def edit_statement_def
       upsert_apple_profile_def set_profile_def Let_def split: prod.splits option.splits sum.splits if_splits)

lemma step_gone:
  assumes "account_step s d d'" "profiles_ok d" "gone u s d"
  shows "profiles_ok d' \<and> gone u s d'"
proof -
  have r: "rows_kept s d d'" by (rule step_rows [OF assms(1,2)])
  have "u \<notin> fst ` set (ad_saved d') \<and> ad_library d' u = None"
    using step_data [OF assms(1) gone_not_open [OF assms(2,3)]] assms(3) by (simp add: gone_def)
  moreover have "\<exists>q \<in> set (ad_profiles d'). pr_id q = u \<and> pr_sub q \<in> {None, Some s} \<and> pr_deleted q \<noteq> None \<and>
      pr_email q = None \<and> pr_name q = None \<and> \<not> pr_pro q \<and> pr_expires q = None"
    using assms(3) rows_gone [OF r] unfolding gone_def by blast
  ultimately show ?thesis using rows_kept_ok [OF r assms(2)] by (simp add: gone_def)
qed

lemma steps_gone:
  assumes "(account_step s)\<^sup>*\<^sup>* d d'" "profiles_ok d" "gone u s d"
  shows "profiles_ok d' \<and> gone u s d'"
  using assms by (induction rule: rtranclp_induct) (auto dest: step_gone)

lemma step_owned:
  assumes "account_step s d d'" "owned_by u s d"
  shows "owned_by u s d'"
proof -
  have r: "rows_kept s d d'" using step_rows assms unfolding owned_by_def by blast
  then obtain f new where "ad_profiles d' = map f (ad_profiles d) @ new"
    and "\<And>p. p \<in> set (ad_profiles d) \<Longrightarrow> row_kept s p (f p)"
    unfolding rows_kept_def by blast
  with assms(2) have "\<exists>q \<in> set (ad_profiles d'). pr_id q = u \<and> pr_sub q \<in> {None, Some s}"
    unfolding owned_by_def row_kept_def by (metis UnCI image_eqI list.set_map set_append)
  with assms(2) rows_kept_ok [OF r] show ?thesis by (simp add: owned_by_def)
qed

lemma deletion_gone:
  assumes "owned_by u s d"
  shows "gone u s (delete_account_data now u d)"
proof -
  from assms obtain p where p: "p \<in> set (ad_profiles d)" "pr_id p = u" "pr_sub p \<in> {None, Some s}"
    unfolding owned_by_def by blast
  have "p\<lparr>pr_deleted := Some (case pr_deleted p of None \<Rightarrow> now | Some t \<Rightarrow> t), pr_email := None, pr_name := None,
            pr_pro := False, pr_expires := None\<rparr> \<in> set (ad_profiles (delete_account_data now u d))"
    unfolding deletion_tables closed_profiles_rows set_map using p by (intro image_eqI [of _ _ p]) simp_all
  moreover have "u \<notin> fst ` set (filter (\<lambda>(v, r). v \<noteq> u) (ad_saved d))" by auto
  ultimately show ?thesis unfolding gone_def deletion_tables using p by (intro conjI bexI) simp_all
qed

text \<open>A closed account cannot renew a session and no bearer token acts for it.\<close>

lemma gone_no_account: "profiles_ok d \<Longrightarrow> gone u s d \<Longrightarrow> open_account (auth_view d) u = None"
  by (erule (1) gone_profile) (auto simp: open_account_def auth_view_def)

lemma gone_no_rotation:
  assumes "profiles_ok d" "gone u s d"
  shows "fst (rotate_statement now ex h q nh (auth_view d)) \<noteq> Inr (Some (u, e))"
    "replay_row now h r (auth_view d) \<noteq> Some (u, e)"
  using gone_no_account [OF assms]
  by (auto simp: rotate_statement_def replay_row_def Let_def split: option.splits if_splits)

lemma gone_refused:
  assumes "profiles_ok d" "gone u s d" "bearer_claims B cfg creds = Inr (u, email)"
  shows "current_user B cfg creds (alone d) = (Inl (account_error ''ACCOUNT_DELETED'' ''Account deleted'' 403), alone d)"
proof -
  from assms(1,2) obtain p where "profile_of u d = Some p" "pr_deleted p \<noteq> None" by (rule gone_profile)
  then show ?thesis by (simp add: current_user_def load_profile_def ask_def tx_run assms(3))
qed

subsection \<open>Properties\<close>


interpretation acc: guarantee "(account_step s)\<^sup>*\<^sup>*"
  by unfold_locales auto


lemma steps_owned: "(account_step s)\<^sup>*\<^sup>* d d' \<Longrightarrow> owned_by u s d \<Longrightarrow> owned_by u s d'"
  by (induction rule: rtranclp_induct) (auto dest: step_owned)

lemma stable_owned: "stable (account_step s)\<^sup>*\<^sup>* (owned_by u s)"
  by (simp add: stable_def steps_owned)

lemma keeps_step: "(\<And>d. account_step s d (snd (f d))) \<Longrightarrow> keeps (account_step s)\<^sup>*\<^sup>* (atomically f)"
  by (rule acc.keeps_atomically) blast

lemma keeps_ask: "keeps (account_step s)\<^sup>*\<^sup>* (ask f)"
  unfolding ask_def by (rule acc.keeps_atomically) simp

lemma keeps_forget: "keeps (account_step s)\<^sup>*\<^sup>* (change (delete_apple_refresh_token u))"
  unfolding change_def by (rule keeps_step) (simp add: account_step.forget_provider)

lemma keeps_revoke: "keeps (account_step s)\<^sup>*\<^sup>* (revoke_stored_apple_authorization E cfg u)"
  unfolding revoke_stored_apple_authorization_def
  by (intro acc.keeps_rules keeps_ask keeps_forget)

lemma spec_delete:
  "spec (account_step s)\<^sup>*\<^sup>* (owned_by u s) (change (delete_account_data now u))
     (\<lambda>r d. owned_by u s d \<and> (\<forall>x. r = Inr x \<longrightarrow> gone u s d))"
  unfolding change_def
proof (rule spec_atomically [OF _ stable_owned])
  show "(account_step s)\<^sup>*\<^sup>* d (snd (Inr (), delete_account_data now u d))" for d
    using account_step.delete by auto
qed (auto intro: deletion_gone)

lemma spec_purge:
  "spec (account_step s)\<^sup>*\<^sup>* (owned_by u s) (purge_account E cfg now u) (\<lambda>r d. \<forall>x. r = Inr x \<longrightarrow> gone u s d)"
  unfolding purge_account_def
proof (rule spec_seq_quiet [OF keeps_revoke stable_owned])
  show "spec (account_step s)\<^sup>*\<^sup>* (owned_by u s)
      (tx_catch (change (delete_account_data now u)) (\<lambda>_. tx_raise deletion_unavailable))
      (\<lambda>r d. \<forall>x. r = Inr x \<longrightarrow> gone u s d)"
    by (rule spec_catch [where I = "\<lambda>_ _. True", OF spec_conseq [OF spec_delete]])
      (auto split: sum.split intro!: spec_raise)
qed simp

lemma keeps_load: "keeps (account_step s)\<^sup>*\<^sup>* (load_profile u)"
  unfolding load_profile_def by (intro acc.keeps_rules keeps_ask)

lemma load_yields: "yields (\<lambda>row. \<forall>p. row = Some p \<longrightarrow> pr_id p = u) (load_profile u)"
  unfolding load_profile_def
proof (rule yields_rules(4))
  show "yields (\<lambda>row. \<forall>p. row = Some p \<longrightarrow> pr_id p = u) (ask (profile_of u))"
    by (auto simp: yields_def ask_def atomically_def dest!: profile_ofD split: list.splits fault.splits)
qed (rule yields_rules)


subsection \<open>Signing in\<close>

text \<open>Any statement: a step that excludes no subject that matters.\<close>

definition any_step :: "account_db \<Rightarrow> account_db \<Rightarrow> bool" where
  "any_step d d' \<longleftrightarrow> (\<exists>s. account_step s d d')"

text \<open>A subject that has a row keeps it, with its identifier.\<close>

definition subject_row :: "uuid \<Rightarrow> string \<Rightarrow> account_db \<Rightarrow> bool" where
  "subject_row u s d \<longleftrightarrow> profiles_ok d \<and> (\<exists>p \<in> set (ad_profiles d). pr_id p = u \<and> pr_sub p = Some s)"

lemma rows_subject:
  assumes "rows_kept x d d'" "subject_row u s d"
  shows "subject_row u s d'"
proof -
  obtain f new where "ad_profiles d' = map f (ad_profiles d) @ new"
    and "\<And>p. p \<in> set (ad_profiles d) \<Longrightarrow> row_kept x p (f p)"
    using assms(1) unfolding rows_kept_def by blast
  with assms(2) have "\<exists>q \<in> set (ad_profiles d'). pr_id q = u \<and> pr_sub q = Some s"
    unfolding subject_row_def row_kept_def by (metis UnCI image_eqI list.set_map set_append)
  with assms rows_kept_ok [OF assms(1)] show ?thesis by (simp add: subject_row_def)
qed

lemma steps_subject: "any_step\<^sup>*\<^sup>* d d' \<Longrightarrow> subject_row u s d \<Longrightarrow> subject_row u s d'"
proof (induction rule: rtranclp_induct)
  case (step d' d'')
  then show ?case using rows_subject step_rows unfolding any_step_def subject_row_def by blast
qed simp

lemma steps_ok: "any_step\<^sup>*\<^sup>* d d' \<Longrightarrow> profiles_ok d \<Longrightarrow> profiles_ok d'"
proof (induction rule: rtranclp_induct)
  case (step d' d'')
  then show ?case using rows_kept_ok step_rows unfolding any_step_def by blast
qed simp

lemma any_sign_in: "any_step d (snd (upsert_apple_profile i email sub name d))"
proof -
  have "CHR ''x'' # sub \<noteq> sub" by simp
  then show ?thesis unfolding any_step_def by (metis account_step.sign_in)
qed

lemma upsert_steps: "any_step\<^sup>*\<^sup>* d (snd (upsert_apple_profile i email sub name d))"
  using any_sign_in by (rule r_into_rtranclp)

lemma upsert_result:
  assumes "upsert_apple_profile i email sub name d = (Inr p, d')" "profiles_ok d"
  shows "pr_sub p = Some sub \<and> subject_row (pr_id p) sub d'"
proof -
  have ok: "profiles_ok d'" using steps_ok [OF upsert_steps assms(2)] assms(1) by (metis snd_conv)
  show ?thesis
  proof (cases "find (\<lambda>p. pr_sub p = Some sub) (ad_profiles d)")
    case None
    with assms(1) ok show ?thesis
      by (auto simp: upsert_apple_profile_def insert_profile_def new_profile_def subject_row_def split: if_splits)
  next
    case (Some q)
    from find_someD [OF this] have q: "q \<in> set (ad_profiles d)" "pr_sub q = Some sub" by auto
    from Some assms(1) have "d' = sync_closed (set_profile p d)" "pr_id p = pr_id q" "pr_sub p = pr_sub q"
      by (auto simp: upsert_apple_profile_def Let_def split: if_splits)
    moreover from this q(1) have "p \<in> set (ad_profiles d')"
      by (simp add: set_profile_def)
    ultimately show ?thesis using ok q(2) unfolding subject_row_def by auto
  qed
qed

text \<open>An Apple subject is one account for good. Of two sign-ins, with anything in between, even the
  deletion of the account, the accounts are the same exactly when the subjects are.\<close>

theorem subject_is_account:
  assumes "profiles_ok d" "upsert_apple_profile i1 e1 s1 n1 d = (Inr p1, d1)" "any_step\<^sup>*\<^sup>* d1 d2"
    and "upsert_apple_profile i2 e2 s2 n2 d2 = (Inr p2, d3)"
  shows "pr_id p1 = pr_id p2 \<longleftrightarrow> s1 = s2"
proof -
  note 1 = upsert_result [OF assms(2,1)]
  have 2: "subject_row (pr_id p1) s1 d2" using steps_subject [OF assms(3)] 1 by blast
  then have "profiles_ok d2" by (simp add: subject_row_def)
  note 3 = upsert_result [OF assms(4) this]
  have "subject_row (pr_id p1) s1 d3"
    using steps_subject [OF upsert_steps 2] assms(4) by (metis snd_conv)
  then obtain p q where pq: "profiles_ok d3" "p \<in> set (ad_profiles d3)" "pr_id p = pr_id p1" "pr_sub p = Some s1"
    "q \<in> set (ad_profiles d3)" "pr_id q = pr_id p2" "pr_sub q = Some s2"
    using 3 unfolding subject_row_def by blast
  then show ?thesis using unique_profile [OF pq(1,2,5)] unfolding profiles_ok_def by (metis option.inject option.discI)
qed

interpretation anyone: guarantee "any_step\<^sup>*\<^sup>*"
  by unfold_locales auto

lemma stable_ok: "stable any_step\<^sup>*\<^sup>* profiles_ok"
  by (simp add: stable_def steps_ok)

lemma stable_subject: "stable any_step\<^sup>*\<^sup>* (subject_row u s)"
  by (simp add: stable_def steps_subject)

lemma keeps_any: "(\<And>d. account_step [] d (snd (f d))) \<Longrightarrow> keeps any_step\<^sup>*\<^sup>* (atomically f)"
  by (rule anyone.keeps_atomically) (blast intro: any_step_def [THEN iffD2])

lemma keeps_persist: "keeps any_step\<^sup>*\<^sup>* (persist_apple_authorization_code E cfg u code sub)"
  unfolding persist_apple_authorization_code_def
  by (intro anyone.keeps_rules keeps_any account_step.provider)

lemma keeps_session: "keeps any_step\<^sup>*\<^sup>* (atomically (on_auth (create_refresh_token C cfg now raw u agent ip)))"
  by (intro keeps_any account_step.new_session)

lemma spec_upsert:
  "spec any_step\<^sup>*\<^sup>* profiles_ok (atomically (upsert_apple_profile i email sub name))
     (\<lambda>r d. profiles_ok d \<and> (\<forall>p. r = Inr p \<longrightarrow> subject_row (pr_id p) sub d))"
proof (rule spec_atomically [OF upsert_steps stable_ok])
  show "subject_row (pr_id p) sub (snd (upsert_apple_profile i email sub name d))"
    if "profiles_ok d" "fst (upsert_apple_profile i email sub name d) = Inr p" for d p
    using upsert_result [of i email sub name d p] that by (simp add: prod_eq_iff)
qed

text \<open>What signing in gives: a session of the account of a subject Apple vouches for.\<close>

definition signed_in ::
  "'k apple_env \<Rightarrow> crypto_env \<Rightarrow> settings \<Rightarrow> instant \<Rightarrow> sign_in \<Rightarrow> auth_response \<Rightarrow> account_db \<Rightarrow> bool" where
  "signed_in E C cfg now q resp d \<longleftrightarrow> (\<exists>a user. apple_vouches E cfg 0 (si_token q) (si_nonce q) a \<and>
     ar_user resp = Some user \<and> subject_row (au_id user) (apple_sub a) d \<and>
     ar_access resp = create_access_token C cfg now (au_id user) (au_email user))"

lemma tx_bind_ok: "tx_bind m f w = (Inr x, w') \<longleftrightarrow> (\<exists>y w1. m w = (Inr y, w1) \<and> f y w1 = (Inr x, w'))"
  by (auto simp: tx_bind_def split: prod.splits sum.splits)

lemma tx_catch_raise_ok: "tx_catch m (\<lambda>e. tx_raise (g e)) w = (Inr x, w') \<longleftrightarrow> m w = (Inr x, w')"
  by (auto simp: tx_catch_def split: prod.splits sum.splits)

lemma tx_pure_ok: "tx_lift r w = (Inr x, w') \<longleftrightarrow> r = Inr x \<and> w' = w" "tx_return y w = (Inr x, w') \<longleftrightarrow> y = x \<and> w' = w"
  by auto

lemmas tx_ok = tx_bind_ok tx_catch_raise_ok tx_pure_ok

text \<open>C11: Signing in with Apple answers with a session only for an identity token that a key of Apple
  verifies for this application, with the nonce of the request; the session is for the one account
  of the token's subject, whatever else happens at the same time.\<close>

theorem sign_in_vouched:
  assumes "env_in any_step\<^sup>*\<^sup>* w" "profiles_ok (db w)" "auth_apple E C cfg now i raw q w = (Inr resp, w')"
  shows "signed_in E C cfg now q resp (db w')"
proof -
  obtain a name row w1 u2 w2 refresh where
    v: "verify_apple_identity_token E cfg 0 (si_token q) (si_nonce q) = Inr a"
    and u: "atomically (upsert_apple_profile i (text_column (rendered E) (apple_email a)) (apple_sub a) name) w = (Inr row, w1)"
    and p: "persist_apple_authorization_code E cfg (pr_id row) (si_code q) (apple_sub a) w1 = (Inr u2, w2)"
    and c: "atomically (on_auth (create_refresh_token C cfg now raw (pr_id row) (si_agent q) (si_ip q))) w2 = (Inr refresh, w')"
    and r: "resp = \<lparr>ar_access = create_access_token C cfg now (pr_id row) (pr_email row), ar_refresh = refresh,
       ar_expires_in = auth_access_token_ttl_seconds cfg, ar_user = Some (auth_user_response row)\<rparr>"
    using assms(3) unfolding auth_apple_def Let_def tx_ok
    by (elim exE conjE, hypsubst, intro that) (assumption | rule refl)+
  have 1: "subject_row (pr_id row) (apple_sub a) (db w1)" "env_in any_step\<^sup>*\<^sup>* w1"
    using spec_upsert u assms(1,2) unfolding spec_def by blast+
  have 2: "subject_row (pr_id row) (apple_sub a) (db w2)" "env_in any_step\<^sup>*\<^sup>* w2"
    using keeps_persist p 1 steps_subject unfolding keeps_def by blast+
  have "subject_row (pr_id row) (apple_sub a) (db w')"
    using keeps_session c 2 steps_subject unfolding keeps_def by blast
  moreover have "au_id (auth_user_response row) = pr_id row" "au_email (auth_user_response row) = pr_email row"
    by (simp_all add: auth_user_response_def)
  ultimately show ?thesis using r verified_identity [OF v] unfolding signed_in_def by force
qed

text \<open>C13: A profile an administrator created for an e-mail address keeps the owner of the address out:
  his first sign-in inserts a second row with the address, which the unique key refuses, and the
  answer is 503 with a request to retry, every time.\<close>

theorem created_user_locked_out:
  assumes "\<not> maintenance_mode cfg" "auth_jwt_secret cfg \<noteq> []"
    and "verify_apple_identity_token E cfg 0 (si_token q) (si_nonce q) = Inr a" "apple_email a = JStr e"
    and "p \<in> set (ad_profiles d)" "pr_email p = Some e" "Some (apple_sub a) \<notin> pr_sub ` set (ad_profiles d)"
  shows "auth_apple E C cfg now i raw q (alone d) =
    (Inl (HTTPException 503 (Some ''AUTH_DATABASE_ERROR'') ''Authentication temporarily unavailable'' (Some 1)), alone d)"
proof -
  have "find (\<lambda>p. pr_sub p = Some (apple_sub a)) (ad_profiles d) = None"
    using assms(7) unfolding find_None_iff by (metis imageI)
  moreover have "email_taken (\<lambda>_. True) (Some e) d" using assms(5,6) by (auto simp: email_taken_def list_ex_iff)
  ultimately have "upsert_apple_profile i (Some e) (apple_sub a) name d = (Inl UniqueViolation, d)" for name
    by (simp add: upsert_apple_profile_def insert_profile_def new_profile_def)
  then show ?thesis
    using assms(1-4) by (simp add: auth_apple_def Let_def writes_enabled_def require_auth_secret_def
        temporarily_unavailable_def tx_run)
qed

text \<open>The handler's rotation is \<open>rotate_refresh_token\<close> on the view of the tables.\<close>

lemma put_auth_view [simp]: "put_auth (auth_view d) d = d"
proof -
  have "[v \<leftarrow> devices (ad_jobs d). (dev_user v, dev_hash v) \<in> (\<lambda>v. (dev_user v, dev_hash v)) ` set (devices (ad_jobs d))] =
      devices (ad_jobs d)"
    "[p \<leftarrow> deliveries (ad_jobs d). (pd_user p, pd_hash p) \<in> (\<lambda>p. (pd_user p, pd_hash p)) ` set (deliveries (ad_jobs d))] =
      deliveries (ad_jobs d)"
    by (simp_all add: filter_id_conv)
  then show ?thesis by (simp add: put_auth_def auth_view_def)
qed

lemma rotation_None: "rotate_statement now ex h q nh a = (Inr None, a') \<Longrightarrow> a' = a"
  by (auto simp: rotate_statement_def Let_def split: option.splits if_splits)

theorem rotation_refines:
  "rotate_session C cfg now later fresh raw q (alone d) =
     (fst (rotate_refresh_token C cfg now later (\<lambda>a. a) fresh raw q (auth_view d)),
      alone (put_auth (snd (rotate_refresh_token C cfg now later (\<lambda>a. a) fresh raw q (auth_view d))) d))"
  by (auto simp: rotate_session_def rotate_refresh_token_def on_auth_def ask_def tx_run Let_def
      dest!: rotation_None split: sum.splits prod.splits option.splits)

subsection \<open>Examples\<close>

definition ex_apple :: "unit apple_env" where
  "ex_apple = \<lparr>apple_keys = (\<lambda>_. Inr JNull), unverified_header = (\<lambda>_. Inr [(''kid'', JStr ''k1'')]),
     key_set = (\<lambda>_. Inr [(JStr ''k1'', ())]),
     decode_rs256 = (\<lambda>_ audience issuer t.
       if t = ''tok'' then Inr [(''sub'', JStr ''s1''), (''email'', JStr ''a@b'')] else Inl (ValueError ''bad token'')),
     sha256_hex = (\<lambda>s. s), encode_es256 = (\<lambda>_ _ _. Inr ''jwt''), post_token = (\<lambda>_. Inr JNull),
     post_revoke = (\<lambda>_. Inr (200, Inr JNull)), fernet_encrypt = (\<lambda>_ t. t), fernet_decrypt = (\<lambda>_ t. Some t),
     rendered = (\<lambda>_. []), clock = 0\<rparr>"

definition ex_user_id :: uuid where
  "ex_user_id = ''00000000-0000-0000-0000-0000000000aa''"

definition ex_bearer :: bearer_env where
  "ex_bearer = \<lparr>decode_hs256 = (\<lambda>_ _ _ t. if t = ''jwt'' then Some [(''sub'', JStr ex_user_id)] else None), shown = (\<lambda>_. [])\<rparr>"

definition ex_account_settings :: settings where
  "ex_account_settings = default_settings\<lparr>auth_jwt_secret := ''secret'', apple_bundle_id := ''app''\<rparr>"

definition ex_account :: account_db where
  "ex_account = \<lparr>ad_profiles = [new_profile ex_user_id (Some ''a@b'') (Some ''s1'') (Some ''A'') True],
     ad_jobs = ex_jobs [], ad_tokens = Map.empty, ad_library = Map.empty, ad_saved = [(ex_user_id, ''r'')],
     ad_events = [], ad_provider = Map.empty\<rparr>"

definition ex_sign_in :: sign_in where
  "ex_sign_in = \<lparr>si_token = ''tok'', si_nonce = None, si_full_name = None, si_code = None, si_agent = None, si_ip = None\<rparr>"

lemma ex_owned: "owned_by ex_user_id ''s1'' ex_account"
  by (simp add: owned_by_def profiles_ok_def ex_account_def new_profile_def)

lemma ex_claims: "bearer_claims ex_bearer ex_account_settings (Some (''Bearer'', ''jwt'')) = Inr (ex_user_id, None)"
  by code_simp




lemma ex_identity:
  "verify_apple_identity_token ex_apple ex_account_settings 0 ''tok'' None =
     Inr \<lparr>apple_sub = ''s1'', apple_email = JStr ''a@b''\<rparr>"
  by code_simp

theorem sign_in_vouched_witness:
  "\<exists>resp. fst (auth_apple ex_apple toy_env ex_account_settings 0 ''i'' ''raw'' ex_sign_in (alone ex_account)) = Inr resp \<and>
     signed_in ex_apple toy_env ex_account_settings 0 ex_sign_in resp
       (db (snd (auth_apple ex_apple toy_env ex_account_settings 0 ''i'' ''raw'' ex_sign_in (alone ex_account))))"
proof -
  have "isl (fst (auth_apple ex_apple toy_env ex_account_settings 0 ''i'' ''raw'' ex_sign_in (alone ex_account))) = False"
    by code_simp
  then obtain resp w' where run: "auth_apple ex_apple toy_env ex_account_settings 0 ''i'' ''raw'' ex_sign_in (alone ex_account) = (Inr resp, w')"
    by (metis prod.collapse sum.collapse(2))
  have "env_in any_step\<^sup>*\<^sup>* (alone ex_account)" "profiles_ok (db (alone ex_account))"
    using ex_owned by (simp_all add: env_in_def owned_by_def)
  from sign_in_vouched [OF this run] run show ?thesis by simp
qed

theorem subject_is_account_witness:
  "\<exists>p1 d1 p2 d3. upsert_apple_profile ''i'' None ''s1'' None ex_account = (Inr p1, d1) \<and>
     upsert_apple_profile ''j'' None ''s1'' None (delete_account_data 5 ex_user_id d1) = (Inr p2, d3) \<and> pr_id p1 = pr_id p2"
proof -
  have "isl (fst (upsert_apple_profile ''i'' None ''s1'' None ex_account)) = False" by code_simp
  then obtain p1 d1 where 1: "upsert_apple_profile ''i'' None ''s1'' None ex_account = (Inr p1, d1)"
    by (metis prod.collapse sum.collapse(2))
  have "isl (fst (upsert_apple_profile ''j'' None ''s1'' None
      (delete_account_data 5 ex_user_id (snd (upsert_apple_profile ''i'' None ''s1'' None ex_account))))) = False" by code_simp
  then obtain p2 d3 where 2: "upsert_apple_profile ''j'' None ''s1'' None (delete_account_data 5 ex_user_id d1) = (Inr p2, d3)"
    unfolding 1 by (metis prod.collapse snd_conv sum.collapse(2))
  have "any_step d1 (delete_account_data 5 ex_user_id d1)" unfolding any_step_def using account_step.delete by blast
  then have "any_step\<^sup>*\<^sup>* d1 (delete_account_data 5 ex_user_id d1)" by (rule r_into_rtranclp)
  moreover have "profiles_ok ex_account" using ex_owned by (simp add: owned_by_def)
  ultimately have "pr_id p1 = pr_id p2" using subject_is_account [OF _ 1 _ 2] by simp
  with 1 2 show ?thesis by blast
qed

definition ex_created :: account_db where
  "ex_created = ex_account\<lparr>ad_profiles := [new_profile ''u'' (Some ''a@b'') None (Some ''a@b'') True]\<rparr>"

theorem created_user_locked_out_witness:
  "fst (auth_apple ex_apple toy_env ex_account_settings 0 ''i'' ''raw'' ex_sign_in (alone ex_created)) =
     Inl (HTTPException 503 (Some ''AUTH_DATABASE_ERROR'') ''Authentication temporarily unavailable'' (Some 1))"
proof -
  have v: "verify_apple_identity_token ex_apple ex_account_settings 0 (si_token ex_sign_in) (si_nonce ex_sign_in) =
      Inr \<lparr>apple_sub = ''s1'', apple_email = JStr ''a@b''\<rparr>"
    using ex_identity by (simp add: ex_sign_in_def)
  have s: "\<not> maintenance_mode ex_account_settings" "auth_jwt_secret ex_account_settings \<noteq> []"
    by (simp_all add: ex_account_settings_def default_settings_def)
  show ?thesis
    using created_user_locked_out [OF s v, of "''a@b''" "new_profile ''u'' (Some ''a@b'') None (Some ''a@b'') True" ex_created]
    by (simp add: ex_created_def new_profile_def)
qed

end
