(* ===== verification/Front_Door.thy ===== *)
theory Front_Door
  imports Rate_Limit Url_Guard Apple_Auth
begin

section \<open>The front door of the HTTP application\<close>

text \<open>
  What happens to a request before and after its handler: \<open>request_metrics\<close> and its helpers in
  app/main.py, the session of the database in app/db.py, the row of \<open>log_request\<close> in
  app/dashboard_stats.py. The routes and handlers behind it are the argument \<open>inner\<close>, a function on the
  rest of the world that gets the session and answers or raises.
\<close>

subsection \<open>Requests and responses\<close>

record web_request =
  wr_request :: request
  wr_method :: string
  wr_scheme :: string

abbreviation wr_path :: "web_request \<Rightarrow> string" where
  "wr_path r \<equiv> url_path (wr_request r)"

abbreviation wr_header :: "web_request \<Rightarrow> string \<Rightarrow> string" where
  "wr_header r k \<equiv> header (wr_request r) k"

text \<open>Header names are in lower case, as the server keeps them.\<close>

record response =
  hr_status :: int
  hr_body :: json
  hr_headers :: "(string \<times> string) list"

record log_row =
  lr_method :: string
  lr_path :: string
  lr_status :: int
  lr_ip :: "string option"
  lr_correlation :: string

record 'w front =
  fr_sec :: sec_state
  fr_logs :: "log_row list"
  fr_inner :: 'w

text \<open>
  What the server reads while it serves the request: the bearer's check, the digest, the clock, Redis and
  the outcome of the inserts for each call, and two fresh identifiers.
\<close>

record serving =
  sv_bearer :: bearer_env
  sv_sha256 :: "string \<Rightarrow> string"
  sv_now :: "nat \<Rightarrow> mono_time"
  sv_redis :: "nat \<Rightarrow> redis_env"
  sv_audit_ok :: bool
  sv_log_ok :: bool
  sv_request_id :: string
  sv_correlation_id :: string

definition production :: "settings \<Rightarrow> bool" where
  "production cfg \<longleftrightarrow> lower (environment cfg) \<in> {''production'', ''prod''}"

subsection \<open>Who asks\<close>

definition bearer_user_id :: "settings \<Rightarrow> serving \<Rightarrow> web_request \<Rightarrow> uuid option" where
  "bearer_user_id cfg sv r =
     (let (scheme, _, token) = partition1 (CHR '' '') (wr_header r ''authorization'')
      in if lower scheme \<noteq> ''bearer'' \<or> token = [] \<or> auth_jwt_secret cfg = [] then None
         else case decode_hs256 (sv_bearer sv) (auth_jwt_secret cfg) (auth_jwt_issuer cfg) (auth_jwt_audience cfg) token of
           None \<Rightarrow> None
         | Some claims \<Rightarrow>
             (case py_uuid (py_str (shown (sv_bearer sv)) (py_or (dget claims ''sub'') (JStr []))) of
                Inl _ \<Rightarrow> None
              | Inr uid \<Rightarrow> Some uid))"

text \<open>The actor and the user of the database session; an empty actor sees nothing.\<close>

definition db_context_for_request :: "string \<Rightarrow> uuid option \<Rightarrow> string \<times> string" where
  "db_context_for_request path user =
     (let u = (case user of None \<Rightarrow> [] | Some x \<Rightarrow> x) in
      if starts_with path ''/dashboard'' \<or> starts_with path ''/v1/admin'' \<or> starts_with path ''/v1/webhooks'' then (''service'', [])
      else if starts_with path ''/v1/auth/'' then (''auth'', u)
      else if u \<noteq> [] then (''user'', u) else ([], []))"

text \<open>\<open>str.isalnum\<close> of one character up to U+00FF.\<close>

definition is_alnum :: "char \<Rightarrow> bool" where
  "is_alnum c = (let n = of_char c :: nat in
     48 \<le> n \<and> n \<le> 57 \<or> 65 \<le> n \<and> n \<le> 90 \<or> 97 \<le> n \<and> n \<le> 122 \<or>
     n \<in> {170, 178, 179, 181, 185, 186, 188, 189, 190} \<or> 192 \<le> n \<and> n \<noteq> 215 \<and> n \<noteq> 247)"

definition request_id :: "serving \<Rightarrow> web_request \<Rightarrow> string" where
  "request_id sv r =
     (let x = wr_header r ''x-request-id'' in
      if 8 \<le> length x \<and> length x \<le> 64 \<and> list_all (\<lambda>c. is_alnum c \<or> c = CHR ''-'') x then x else sv_request_id sv)"

subsection \<open>Errors as responses\<close>

definition auth_path :: "string \<Rightarrow> bool" where
  "auth_path p \<longleftrightarrow> starts_with p ''/v1/auth/'' \<or> starts_with p ''/v1/me''"

definition auth_error_payload :: "serving \<Rightarrow> web_request \<Rightarrow> string \<Rightarrow> string \<Rightarrow> json" where
  "auth_error_payload sv r code message =
     JObj [(''code'', JStr code), (''message'', JStr message),
       (''detail'', JObj [(''code'', JStr code), (''message'', JStr message)]),
       (''request_id'', JStr (request_id sv r)), (''correlation_id'', JStr (sv_correlation_id sv))]"

definition detail_of :: "string option \<Rightarrow> string \<Rightarrow> json" where
  "detail_of code message = (case code of None \<Rightarrow> JStr message
     | Some c \<Rightarrow> JObj [(''code'', JStr c), (''message'', JStr message)])"

definition http_error_code :: "(json \<Rightarrow> string) \<Rightarrow> nat \<Rightarrow> json \<Rightarrow> string \<times> string" where
  "http_error_code rep status detail =
     (let other = ((case map_of [(401, ''AUTH_UNAUTHORIZED''), (403, ''AUTH_FORBIDDEN''), (422, ''AUTH_VALIDATION_FAILED''),
                       (500, ''INTERNAL_SERVER_ERROR''), (503, ''AUTH_UNAVAILABLE'')] status of
                      None \<Rightarrow> ''AUTH_REQUEST_FAILED'' | Some c \<Rightarrow> c),
                   py_str rep (py_or detail (JStr ''Authentication request failed'')))
      in case detail of
           JObj d \<Rightarrow> if truthy (dget d ''code'') \<and> truthy (dget d ''message'')
                    then (py_str rep (dget d ''code''), py_str rep (dget d ''message'')) else other
         | _ \<Rightarrow> other)"

definition retry_header :: "int option \<Rightarrow> (string \<times> string) list" where
  "retry_header s = (case s of None \<Rightarrow> [] | Some n \<Rightarrow> [(''retry-after'', int_str n)])"

text \<open>The exception handlers: \<open>HTTPException\<close>, a body that does not validate, a failing upstream.\<close>

definition auth_http_exception :: "serving \<Rightarrow> web_request \<Rightarrow> nat \<Rightarrow> string option \<Rightarrow> string \<Rightarrow> int option \<Rightarrow> response" where
  "auth_http_exception sv r status code message retry =
     \<lparr>hr_status = int status,
      hr_body = (if auth_path (wr_path r)
         then (let (c, m) = http_error_code (shown (sv_bearer sv)) status (detail_of code message) in auth_error_payload sv r c m)
         else JObj [(''detail'', detail_of code message)]),
      hr_headers = retry_header retry\<rparr>"

definition auth_validation_exception :: "serving \<Rightarrow> web_request \<Rightarrow> json \<Rightarrow> response" where
  "auth_validation_exception sv r errors =
     \<lparr>hr_status = 422,
      hr_body = (if auth_path (wr_path r)
         then auth_error_payload sv r ''AUTH_VALIDATION_FAILED'' ''Authentication request validation failed''
         else JObj [(''detail'', errors)]),
      hr_headers = []\<rparr>"

definition upstream_request_error :: "serving \<Rightarrow> web_request \<Rightarrow> bool \<Rightarrow> response" where
  "upstream_request_error sv r timeout =
     \<lparr>hr_status = 503,
      hr_body = (if auth_path (wr_path r)
         then auth_error_payload sv r (if timeout then ''AUTH_UPSTREAM_TIMEOUT'' else ''AUTH_UPSTREAM_ERROR'')
                ''Authentication temporarily unavailable''
         else JObj [(''detail'', JStr ''Backend temporarily unavailable. Retry.'')]),
      hr_headers = [(''retry-after'', ''1'')]\<rparr>"

text \<open>How a handler ends; any other exception leaves the middleware as it is.\<close>

datatype ending = Responded response | Raised exn | Invalid json | Upstream bool

type_synonym 'w inner = "string \<times> string \<Rightarrow> web_request \<Rightarrow> 'w \<Rightarrow> ending \<times> 'w"

fun rendered_ending :: "serving \<Rightarrow> web_request \<Rightarrow> ending \<Rightarrow> response res" where
  "rendered_ending sv r (Responded x) = Inr x"
| "rendered_ending sv r (Raised (HTTPException status code message retry)) =
     Inr (auth_http_exception sv r status code message retry)"
| "rendered_ending sv r (Raised e) = Inl e"
| "rendered_ending sv r (Invalid errors) = Inr (auth_validation_exception sv r errors)"
| "rendered_ending sv r (Upstream timeout) = Inr (upstream_request_error sv r timeout)"

definition call_next ::
  "'w inner \<Rightarrow> serving \<Rightarrow> string \<times> string \<Rightarrow> web_request \<Rightarrow> 'w front \<Rightarrow> response res \<times> 'w front" where
  "call_next inner sv s r st =
     (case inner s r (fr_inner st) of (x, w) \<Rightarrow> (rendered_ending sv r x, st\<lparr>fr_inner := w\<rparr>))"

subsection \<open>Headers\<close>

definition forwarded_proto :: "web_request \<Rightarrow> string" where
  "forwarded_proto r = lower (strip (before_comma (wr_header r ''x-forwarded-proto'')))"

definition set_headers :: "(string \<times> string) list \<Rightarrow> (string \<times> string) list \<Rightarrow> (string \<times> string) list" where
  "set_headers new hs = fold (\<lambda>(k, v). dput k v) new hs"

definition security_headers :: "settings \<Rightarrow> serving \<Rightarrow> web_request \<Rightarrow> (string \<times> string) list" where
  "security_headers cfg sv r =
     [(''x-correlation-id'', sv_correlation_id sv), (''x-content-type-options'', ''nosniff''), (''x-frame-options'', ''DENY''),
      (''referrer-policy'', ''no-referrer''), (''permissions-policy'', ''camera=(), microphone=(), geolocation=()''),
      (''cross-origin-resource-policy'', ''same-site''), (''cross-origin-opener-policy'', ''same-origin'')]
     @ (if starts_with (wr_path r) ''/v1/'' \<or> starts_with (wr_path r) ''/dashboard'' then [(''cache-control'', ''no-store'')] else [])
     @ (if production cfg \<or> wr_scheme r = ''https'' \<or> forwarded_proto r = ''https''
        then [(''strict-transport-security'', ''max-age=31536000; includeSubDomains'')] else [])
     @ (if starts_with (wr_path r) ''/dashboard''
        then [(''content-security-policy'', ''default-src 'self'; style-src 'self' 'unsafe-inline'; img-src 'self' data:; base-uri 'none'; frame-ancestors 'none'; form-action 'self'' @ [CHR 0x27])] else [])"

definition apply_security_headers :: "settings \<Rightarrow> serving \<Rightarrow> web_request \<Rightarrow> response \<Rightarrow> response" where
  "apply_security_headers cfg sv r x = x\<lparr>hr_headers := set_headers (security_headers cfg sv r) (hr_headers x)\<rparr>"

subsection \<open>\<open>request_metrics\<close>\<close>

definition is_probe :: "web_request \<Rightarrow> bool" where
  "is_probe r \<longleftrightarrow> wr_path r \<in> {''/health'', ''/ready''}"

definition log_ip :: "settings \<Rightarrow> serving \<Rightarrow> web_request \<Rightarrow> string option" where
  "log_ip cfg sv r = pseudonymous_ip (sv_sha256 sv) (Some (request_ip cfg (wr_request r)))"

definition log_request :: "serving \<Rightarrow> web_request \<Rightarrow> int \<Rightarrow> string option \<Rightarrow> log_row list \<Rightarrow> log_row list" where
  "log_request sv r status ip logs =
     (if starts_with (wr_path r) ''/dashboard'' \<or> wr_path r \<in> {''/health'', ''/favicon.ico''} \<or> \<not> sv_log_ok sv then logs
      else logs @ [\<lparr>lr_method = wr_method r, lr_path = take 500 (wr_path r), lr_status = status,
        lr_ip = (let x = take 64 (case ip of None \<Rightarrow> [] | Some v \<Rightarrow> v) in if x = [] then None else Some x),
        lr_correlation = sv_correlation_id sv\<rparr>])"

text \<open>The limits of the address and of the user, in this order.\<close>

definition general_limits :: "settings \<Rightarrow> serving \<Rightarrow> web_request \<Rightarrow> uuid option \<Rightarrow> sec_state \<Rightarrow> unit res \<times> sec_state" where
  "general_limits cfg sv r user st =
     (let ip = request_ip cfg (wr_request r) in
      case check_not_banned ip user (sv_now sv 0) (sec_bans st) of
        Inl e \<Rightarrow> (Inl e, st)
      | Inr _ \<Rightarrow>
          (case require_rate_limit cfg (sv_redis sv 1) (sv_audit_ok sv) (sv_now sv 1) (log_ip cfg sv r) (''ip:'' @ ip)
                  (rate_limit_per_ip_per_minute cfg) 60 ''general_ip_rate_limited'' 60 None st of
             (Inl e, st') \<Rightarrow> (Inl e, st')
           | (Inr _, st') \<Rightarrow>
               (case user of
                  None \<Rightarrow> (Inr (), st')
                | Some u \<Rightarrow>
                    if u = [] then (Inr (), st')
                    else require_rate_limit cfg (sv_redis sv 2) (sv_audit_ok sv) (sv_now sv 2) (log_ip cfg sv r) (''user:'' @ u)
                           (rate_limit_per_user_per_minute cfg) 60 ''general_user_rate_limited'' 60 (Some u) st')))"

text \<open>
  \<open>isdigit\<close> accepts the superscripts one, two and three, which \<open>int\<close> refuses. The result is whether the
  declared length is over the bound.
\<close>

definition over_length :: "settings \<Rightarrow> web_request \<Rightarrow> bool res" where
  "over_length cfg r =
     (let v = wr_header r ''content-length'' in
      if v = [] \<or> \<not> list_all (\<lambda>c. is_digit c \<or> (of_char c :: nat) \<in> {178, 179, 185}) v then Inr False
      else if list_all is_digit v then Inr (max_request_body_bytes cfg < digits_value v)
      else Inl (ValueError ''invalid literal for int() with base 10''))"

definition plain :: "int \<Rightarrow> string \<Rightarrow> (string \<times> string) list \<Rightarrow> response" where
  "plain status detail hs = \<lparr>hr_status = status, hr_body = JObj [(''detail'', JStr detail)], hr_headers = hs\<rparr>"

definition limit_response :: "exn \<Rightarrow> response res" where
  "limit_response e = (case e of
     HTTPException status code message retry \<Rightarrow>
       Inr \<lparr>hr_status = int status, hr_body = JObj [(''detail'', detail_of code message)], hr_headers = retry_header retry\<rparr>
   | _ \<Rightarrow> Inl e)"

definition respond ::
  "settings \<Rightarrow> serving \<Rightarrow> 'w inner \<Rightarrow> string \<times> string \<Rightarrow> web_request \<Rightarrow> uuid option \<Rightarrow> 'w front \<Rightarrow> response res \<times> 'w front" where
  "respond cfg sv inner s r user st =
     (case (if \<not> is_probe r \<and> starts_with (wr_path r) ''/v1/'' then general_limits cfg sv r user (fr_sec st)
            else (Inr (), fr_sec st)) of
        (Inl e, sec) \<Rightarrow> (limit_response e, st\<lparr>fr_sec := sec\<rparr>)
      | (Inr _, sec) \<Rightarrow>
          (let st' = st\<lparr>fr_sec := sec\<rparr> in
           if maintenance_mode cfg \<and> \<not> is_probe r \<and> wr_method r \<notin> {''GET'', ''HEAD'', ''OPTIONS''}
           then (Inr (plain 503 ''Maintenance in progress. Retry.'' [(''retry-after'', ''30'')]), st')
           else (case over_length cfg r of
              Inl e \<Rightarrow> (Inl e, st')
            | Inr True \<Rightarrow> (Inr (plain 413 ''Request body too large'' []), st')
            | Inr False \<Rightarrow> call_next inner sv s r st')))"

definition finish_request_metrics ::
  "settings \<Rightarrow> serving \<Rightarrow> 'w inner \<Rightarrow> string \<times> string \<Rightarrow> web_request \<Rightarrow> uuid option \<Rightarrow> 'w front \<Rightarrow> response res \<times> 'w front" where
  "finish_request_metrics cfg sv inner s r user st =
     (case respond cfg sv inner s r user st of
        (Inl e, st') \<Rightarrow> (Inl e, st')
      | (Inr x, st') \<Rightarrow>
          (Inr (apply_security_headers cfg sv r x),
           if is_probe r \<or> maintenance_mode cfg then st'
           else st'\<lparr>fr_logs := log_request sv r (hr_status x) (log_ip cfg sv r) (fr_logs st')\<rparr>))"

definition scanner_noted :: "settings \<Rightarrow> serving \<Rightarrow> web_request \<Rightarrow> sec_state \<Rightarrow> sec_state" where
  "scanner_noted cfg sv r st =
     (case allow_rate_limit cfg (sv_redis sv 0) (sv_now sv 0) (''scanner-log:'' @ request_ip cfg (wr_request r)) 30 3600
             (sec_cache st, sec_limiters st) of
        (ok, c, ls) \<Rightarrow>
          (let st' = st\<lparr>sec_cache := c, sec_limiters := ls\<rparr> in
           if ok then audit_security_event cfg (sv_audit_ok sv) ''scanner_probe'' (log_ip cfg sv r) None st' else st'))"

definition request_metrics ::
  "settings \<Rightarrow> serving \<Rightarrow> 'w inner \<Rightarrow> web_request \<Rightarrow> 'w front \<Rightarrow> response res \<times> 'w front" where
  "request_metrics cfg sv inner r st =
     (if dashboard_publicly_blocked (wr_request r)
      then (Inr (apply_security_headers cfg sv r (plain 404 ''Not Found'' [])), st)
      else if is_scanner_probe (wr_path r)
      then (Inr (apply_security_headers cfg sv r (plain 403 ''Forbidden'' [])), st\<lparr>fr_sec := scanner_noted cfg sv r (fr_sec st)\<rparr>)
      else let user = bearer_user_id cfg sv r in
        finish_request_metrics cfg sv inner (db_context_for_request (wr_path r) user) r user st)"

subsection \<open>What reaches a handler\<close>

text \<open>A user of a session: the subject of a token that was verified.\<close>

definition vouched :: "settings \<Rightarrow> serving \<Rightarrow> web_request \<Rightarrow> uuid \<Rightarrow> bool" where
  "vouched cfg sv r u \<longleftrightarrow> (\<exists>token claims. auth_jwt_secret cfg \<noteq> [] \<and> token \<noteq> [] \<and>
     (\<exists>scheme. lower scheme = ''bearer'' \<and> wr_header r ''authorization'' = scheme @ '' '' @ token) \<and>
     decode_hs256 (sv_bearer sv) (auth_jwt_secret cfg) (auth_jwt_issuer cfg) (auth_jwt_audience cfg) token = Some claims \<and>
     py_uuid (py_str (shown (sv_bearer sv)) (py_or (dget claims ''sub'') (JStr []))) = Inr u)"

lemma split_once_parts: "split_once p s = Some (a, b) \<Longrightarrow> s = a @ p @ b"
proof (induction p s arbitrary: a rule: split_once.induct)
  case (2 p c s)
  then show ?case
    by (auto simp: starts_with_def split: if_splits) (metis append_take_drop_id)+
qed (simp split: if_splits)

lemma partition1_token:
  assumes "partition1 c s = (a, b, t)" "t \<noteq> []"
  shows "s = a @ [c] @ t"
  using assms split_once_parts [of "[c]" s] by (auto simp: partition1_def split: option.splits)

lemma bearer_vouched:
  assumes "bearer_user_id cfg sv r = Some u"
  shows "vouched cfg sv r u"
proof -
  obtain scheme b token where p: "partition1 (CHR '' '') (wr_header r ''authorization'') = (scheme, b, token)"
    by (metis prod_cases3)
  have c: "lower scheme = ''bearer''" "token \<noteq> []" "auth_jwt_secret cfg \<noteq> []"
    using assms p by (auto simp: bearer_user_id_def split: if_splits)
  then obtain claims where
    "decode_hs256 (sv_bearer sv) (auth_jwt_secret cfg) (auth_jwt_issuer cfg) (auth_jwt_audience cfg) token = Some claims"
    "py_uuid (py_str (shown (sv_bearer sv)) (py_or (dget claims ''sub'') (JStr []))) = Inr u"
    using assms p by (auto simp: bearer_user_id_def split: option.splits sum.splits)
  with c partition1_token [OF p c(2)] show ?thesis unfolding vouched_def by auto
qed

definition ops_path :: "string \<Rightarrow> bool" where
  "ops_path p \<longleftrightarrow> starts_with p ''/dashboard'' \<or> starts_with p ''/v1/admin'' \<or> starts_with p ''/v1/webhooks''"

text \<open>The conditions under which a request gets to its handler.\<close>

definition let_in :: "settings \<Rightarrow> serving \<Rightarrow> web_request \<Rightarrow> sec_state \<Rightarrow> bool" where
  "let_in cfg sv r sec \<longleftrightarrow> \<not> dashboard_publicly_blocked (wr_request r) \<and> \<not> is_scanner_probe (wr_path r) \<and>
     (starts_with (wr_path r) ''/v1/'' \<longrightarrow> fst (general_limits cfg sv r (bearer_user_id cfg sv r) sec) = Inr ()) \<and>
     (maintenance_mode cfg \<longrightarrow> is_probe r \<or> wr_method r \<in> {''GET'', ''HEAD'', ''OPTIONS''}) \<and>
     over_length cfg r = Inr False"

lemma probe_path: "is_probe r \<Longrightarrow> \<not> starts_with (wr_path r) ''/v1/''"
  by (auto simp: is_probe_def starts_with_def)

lemma call_next_inner: "fr_inner (snd (call_next inner sv s r st)) = snd (inner s r (fr_inner st))"
  by (simp add: call_next_def case_prod_unfold)

lemma respond_inner:
  assumes "\<not> dashboard_publicly_blocked (wr_request r)" "\<not> is_scanner_probe (wr_path r)"
  shows "fr_inner (snd (respond cfg sv inner s r (bearer_user_id cfg sv r) st)) =
    (if let_in cfg sv r (fr_sec st) then snd (inner s r (fr_inner st)) else fr_inner st)"
proof -
  define gate where "gate = (if \<not> is_probe r \<and> starts_with (wr_path r) ''/v1/''
    then general_limits cfg sv r (bearer_user_id cfg sv r) (fr_sec st) else (Inr (), fr_sec st))"
  obtain x sec where g: "gate = (x, sec)" by (cases gate)
  have v1: "(starts_with (wr_path r) ''/v1/'' \<longrightarrow> fst (general_limits cfg sv r (bearer_user_id cfg sv r) (fr_sec st)) = Inr ()) \<longleftrightarrow> x = Inr ()"
    using g probe_path [of r] by (auto simp: gate_def split: if_splits)
  show ?thesis
  proof (cases x)
    case (Inl e)
    then show ?thesis using v1 assms unfolding respond_def gate_def [symmetric] g by (simp add: let_in_def)
  next
    case (Inr y)
    then show ?thesis using v1 assms unfolding respond_def gate_def [symmetric] g
      by (auto simp: let_in_def call_next_inner Let_def split: sum.split bool.split)
  qed
qed

lemma finish_inner: "fr_inner (snd (finish_request_metrics cfg sv inner s r u st)) = fr_inner (snd (respond cfg sv inner s r u st))"
  by (simp add: finish_request_metrics_def split: prod.split sum.split)

text \<open>C7: A handler runs exactly for the requests that pass every guard - the block of the public dashboard, the
  scanner list, bans and rate limits under \<open>/v1/\<close>, maintenance, the declared length - once, and in a database
  session that is the service only under the three operator prefixes and that names a user only if a
  verified token of that user came with the request.\<close>

theorem front_door:
  "let s = db_context_for_request (wr_path r) (bearer_user_id cfg sv r) in
     fr_inner (snd (request_metrics cfg sv inner r st)) =
       (if let_in cfg sv r (fr_sec st) then snd (inner s r (fr_inner st)) else fr_inner st)
     \<and> (fst s = ''service'' \<longleftrightarrow> ops_path (wr_path r))
     \<and> (snd s = [] \<or> vouched cfg sv r (snd s) \<and> fst s \<in> {''user'', ''auth''})
     \<and> s \<noteq> (''user'', [])"
proof -
  define s where "s = db_context_for_request (wr_path r) (bearer_user_id cfg sv r)"
  have "fr_inner (snd (request_metrics cfg sv inner r st)) =
      (if let_in cfg sv r (fr_sec st) then snd (inner s r (fr_inner st)) else fr_inner st)"
    using respond_inner [of r cfg sv inner s st]
    by (auto simp: request_metrics_def Let_def finish_inner s_def let_in_def)
  moreover have "fst s = ''service'' \<longleftrightarrow> ops_path (wr_path r)"
    by (simp add: s_def db_context_for_request_def ops_path_def Let_def)
  moreover have "snd s = [] \<or> vouched cfg sv r (snd s) \<and> fst s \<in> {''user'', ''auth''}"
    using bearer_vouched [of cfg sv r] by (simp add: s_def db_context_for_request_def Let_def split: option.split)
  moreover have "s \<noteq> (''user'', [])"
    by (simp add: s_def db_context_for_request_def Let_def)
  ultimately show ?thesis by (simp add: s_def)
qed

subsection \<open>What every answer carries\<close>

lemma set_headers_get: "distinct (map fst new) \<Longrightarrow> (k, v) \<in> set new \<Longrightarrow> map_of (set_headers new hs) k = Some v"
proof -
  have other: "map_of (set_headers new hs) k = map_of hs k" if "k \<notin> fst ` set new" for new hs
    using that unfolding set_headers_def by (induction new arbitrary: hs) auto
  show "distinct (map fst new) \<Longrightarrow> (k, v) \<in> set new \<Longrightarrow> map_of (set_headers new hs) k = Some v"
  proof (induction new arbitrary: hs)
    case (Cons p new)
    obtain a b where p: "p = (a, b)" by (cases p)
    have "set_headers (p # new) hs = set_headers new (dput a b hs)" by (simp add: set_headers_def p)
    with Cons p other [of new "dput a b hs"] show ?case by auto
  qed simp
qed

lemma security_headers_distinct: "distinct (map fst (security_headers cfg sv r))"
  by (simp add: security_headers_def)

text \<open>Every response, the refusals of the front door included, carries the correlation identifier of its
  request and the security headers with the server's values, whatever headers the handler set.\<close>

theorem headers_on_every_answer:
  assumes "request_metrics cfg sv inner r st = (Inr x, st')"
  shows "list_all (\<lambda>(k, v). map_of (hr_headers x) k = Some v) (security_headers cfg sv r)"
proof -
  obtain y where "x = apply_security_headers cfg sv r y"
    using assms
    by (auto simp: request_metrics_def finish_request_metrics_def Let_def split: if_splits prod.splits sum.splits)
  then show ?thesis
    using set_headers_get [OF security_headers_distinct] by (auto simp: apply_security_headers_def list_all_iff)
qed

definition ex_serving :: serving where
  "ex_serving = \<lparr>sv_bearer = \<lparr>decode_hs256 = (\<lambda>_ _ _ _. None), shown = (\<lambda>_. [])\<rparr>, sv_sha256 = (\<lambda>s. s), sv_now = (\<lambda>_. 0),
     sv_redis = (\<lambda>_. \<lparr>connect_ok = False, incr_reply = None, expire_ok = False\<rparr>), sv_audit_ok = True, sv_log_ok = True,
     sv_request_id = ''r1'', sv_correlation_id = ''c1''\<rparr>"

definition ex_visit :: web_request where
  "ex_visit = \<lparr>wr_request = \<lparr>client_host = Some ''203.0.113.9'', headers = [], url_path = ''/dashboard''\<rparr>, wr_method = ''GET'', wr_scheme = ''https''\<rparr>"

definition ex_front :: "unit front" where
  "ex_front = \<lparr>fr_sec = \<lparr>sec_cache = reset_cache, sec_limiters = Map.empty, sec_bans = Map.empty, sec_audit = []\<rparr>,
     fr_logs = [], fr_inner = ()\<rparr>"

theorem headers_on_every_answer_witness:
  "\<exists>x st'. request_metrics default_settings ex_serving (\<lambda>_ _ w. (Raised KeyError, w)) ex_visit ex_front = (Inr x, st') \<and>
     map_of (hr_headers x) ''x-frame-options'' = Some ''DENY''"
proof -
  have "dashboard_publicly_blocked (wr_request ex_visit)" by code_simp
  then obtain x st' where r: "request_metrics default_settings ex_serving (\<lambda>_ _ w. (Raised KeyError, w)) ex_visit ex_front = (Inr x, st')"
    by (simp add: request_metrics_def)
  from headers_on_every_answer [OF this] have "map_of (hr_headers x) ''x-frame-options'' = Some ''DENY''"
    by (simp add: security_headers_def)
  with r show ?thesis by blast
qed

subsection \<open>The host of the dashboard\<close>

text \<open>The name in \<open>X-Forwarded-Host\<close> is believed from any peer, so that a client from outside names a private
  host and gets past the block, into a service session. (\<open>request_ip\<close> believes its header only from
  configured proxies.)\<close>

theorem dashboard_block_spoofable:
  assumes "map_of (headers (wr_request r)) ''x-forwarded-host'' = Some ''localhost''"
    and "starts_with (wr_path r) ''/dashboard''"
  shows "\<not> dashboard_publicly_blocked (wr_request r) \<and>
    db_context_for_request (wr_path r) (bearer_user_id cfg sv r) = (''service'', [])"
proof
  have "request_host (wr_request r) = ''localhost''"
    using assms(1) by (simp add: request_host_def header_def str_or_def) code_simp
  moreover have "\<not> ends_with ''localhost'' ''.sslip.io''" "\<not> ends_with ''localhost'' ''.nip.io''" by code_simp+
  ultimately show "\<not> dashboard_publicly_blocked (wr_request r)"
    by (simp add: dashboard_publicly_blocked_def is_public_dashboard_host_def)
  show "db_context_for_request (wr_path r) (bearer_user_id cfg sv r) = (''service'', [])"
    using assms(2) by (simp add: db_context_for_request_def)
qed

subsection \<open>The envelope of an authentication error\<close>

lemma error_code_given: "fst (http_error_code rep status (detail_of code message)) \<noteq> []"
  by (simp add: http_error_code_def detail_of_def dget_def Let_def split: option.splits if_splits)

text \<open>An error under \<open>/v1/auth/\<close> or \<open>/v1/me\<close> always has a code, outside and inside of \<open>detail\<close>.\<close>

theorem auth_errors_coded:
  assumes "auth_path (wr_path r)"
  shows "\<exists>c m d. hr_body (auth_http_exception sv r status code message retry) = JObj d \<and> c \<noteq> [] \<and>
    dget d ''code'' = JStr c \<and> dget d ''detail'' = JObj [(''code'', JStr c), (''message'', JStr m)]"
  using assms error_code_given [of "shown (sv_bearer sv)" status code message]
  by (auto simp: auth_http_exception_def auth_error_payload_def dget_def split: prod.split)

end
