(* ===== verification/Translation_Job.thy ===== *)
theory Translation_Job
  imports Import_Handler Recipe_Flow
begin

section \<open>The translation of a recipe\<close>

text \<open>
  \<open>run_translation_job\<close> of app/pipeline.py with app/translation_cache.py: a job that stores the texts of
  a recipe in another language, from the claimed row to its terminal state. The fingerprint of a recipe
  (a SHA-256 of its JSON) is a parameter, and so is what \<open>translate_recipe\<close> gets from the model.
\<close>

subsection \<open>Stored texts\<close>

text \<open>The payload is a recipe of which only the translated fields are set; a lookup puts them over the row.\<close>

definition no_recipe :: recipe where
  "no_recipe = \<lparr>rc_id = None, rc_title = [], rc_ingredients = [], rc_sections = [], rc_steps = [], rc_servings = None,
     rc_prep = None, rc_cook = None, rc_tags = [], rc_confidence = 0, rc_missing = [], rc_source = [],
     rc_platform = UnknownPlatform, rc_thumbnail = None, rc_carousel = [], rc_author = None, rc_description = None,
     rc_tips = [], rc_transcript = None, rc_language = []\<rparr>"

definition recipe_translation_payload :: "recipe \<Rightarrow> recipe" where
  "recipe_translation_payload r = no_recipe\<lparr>rc_title := rc_title r, rc_description := rc_description r,
     rc_sections := rc_sections r, rc_steps := rc_steps r, rc_tags := rc_tags r, rc_missing := rc_missing r,
     rc_tips := rc_tips r\<rparr>"

text \<open>\<open>row.update (payload)\<close> and the reading of the row, whose ingredients are those of its sections.\<close>

definition overlay_payload :: "recipe \<Rightarrow> recipe \<Rightarrow> recipe" where
  "overlay_payload r p = r\<lparr>rc_title := rc_title p, rc_description := rc_description p, rc_sections := rc_sections p,
     rc_ingredients := concat (map sc_items (rc_sections p)), rc_steps := rc_steps p, rc_tags := rc_tags p,
     rc_missing := rc_missing p, rc_tips := rc_tips p\<rparr>"

text \<open>The statement of \<open>upsert_recipe_translation\<close>: one row per recipe and language.\<close>

definition same_key :: "'r translation \<Rightarrow> 'r translation \<Rightarrow> bool" where
  "same_key t t' \<longleftrightarrow> tl_recipe t = tl_recipe t' \<and> tl_lang t = tl_lang t'"

definition put_translation :: "'r translation \<Rightarrow> 'r translation list \<Rightarrow> 'r translation list" where
  "put_translation t ts = (if list_ex (same_key t) ts then map (\<lambda>x. if same_key t x then t else x) ts else ts @ [t])"

definition upsert_recipe_translation :: "uuid \<Rightarrow> string \<Rightarrow> 'r \<Rightarrow> string \<Rightarrow> ('r, unit) handler" where
  "upsert_recipe_translation r lang p fingerprint =
     atomically (\<lambda>a. (Inr (), a\<lparr>ap_translations := put_translation
       \<lparr>tl_recipe = r, tl_lang = normalize_language (Some lang), tl_payload = p, tl_print = fingerprint\<rparr> (ap_translations a)\<rparr>))"

subsection \<open>The job\<close>

text \<open>The cost meter of the job, and the calls that may add to it.\<close>

definition on_meter :: "(meter \<Rightarrow> 'x res \<times> meter) \<Rightarrow> ('r, 'x) handler" where
  "on_meter f = local (\<lambda>a. case f (pi_meter (ap_pipe a)) of (r, m) \<Rightarrow> (r, a\<lparr>ap_pipe := (ap_pipe a)\<lparr>pi_meter := m\<rparr>\<rparr>))"

definition get_recipe :: "uuid \<Rightarrow> ('r, 'r recipe_row option) handler" where
  "get_recipe r = on_pipe (\<lambda>p. (Inr (find (\<lambda>x. rr_id x = r) (pi_recipes p)), p))"

definition due :: "meter \<Rightarrow> rat" where
  "due m = (if openai_called m then round4 (cents m) else 0)"

definition log_translation :: "instant \<Rightarrow> uuid \<Rightarrow> rat \<Rightarrow> uuid \<Rightarrow> uuid \<Rightarrow> ('r, unit) handler" where
  "log_translation now u c r i =
     tx_catch (on_pipe (\<lambda>p. (Inr (), p\<lparr>pi_usage := record_usage now u miss_kind c (Some r) (Some i) (pi_usage p)\<rparr>)))
       (\<lambda>_. tx_return ())"

type_synonym translator = "recipe \<Rightarrow> string \<Rightarrow> meter \<Rightarrow> recipe res \<times> meter"

definition texts_in :: "translator \<Rightarrow> string \<Rightarrow> recipe recipe_row \<Rightarrow> (recipe, recipe) handler" where
  "texts_in translate lang x =
     tx_bind (if normalize_language (Some (rr_lang x)) = lang then tx_return (rr_recipe x)
              else on_meter (translate (rr_recipe x) lang))
       (\<lambda>r. tx_return (recipe_translation_payload r))"

text \<open>From the payload to the completed job.\<close>

definition store_translation ::
  "(nat \<Rightarrow> stamp) \<Rightarrow> (recipe \<Rightarrow> string) \<Rightarrow> uuid \<Rightarrow> uuid \<Rightarrow> string \<Rightarrow> recipe recipe_row \<Rightarrow> recipe \<Rightarrow> (recipe, unit) handler" where
  "store_translation st fingerprint i u lang x payload =
     tx_bind (on_meter (\<lambda>m. (Inr m, m))) (\<lambda>m.
     tx_bind (put_job service (st 1) i [SetProgress 75]) (\<lambda>_.
     tx_bind (upsert_recipe_translation (rr_id x) lang payload (fingerprint (rr_recipe x))) (\<lambda>_.
     tx_bind (on_pipe (save_user_recipe u (rr_id x))) (\<lambda>_.
     tx_bind (put_job service (st 2) i [SetStatus Completed, SetProgress 100, SetLease None, SetRecipe (Some (rr_id x)),
                SetCost (due m), SetHit (\<not> openai_called m)]) (\<lambda>_.
     tx_bind (if openai_called m then log_translation (st_now (st 3)) u (round4 (cents m)) (rr_id x) i else tx_return ()) (\<lambda>_.
     settle_spend_of i (due m) ''settled''))))))"

definition translate_job ::
  "(nat \<Rightarrow> stamp) \<Rightarrow> translator \<Rightarrow> (recipe \<Rightarrow> string) \<Rightarrow> uuid \<Rightarrow> uuid \<Rightarrow> uuid \<Rightarrow> string \<Rightarrow> (recipe, unit) handler" where
  "translate_job st translate fingerprint i u r lang =
     tx_bind (put_job service (st 0) i [SetStatus Processing, SetProgress 10]) (\<lambda>_.
     tx_bind (get_recipe r) (\<lambda>found.
       case found of
         None \<Rightarrow> tx_raise (ExtractError ''Recipe not found for translation'')
       | Some x \<Rightarrow> tx_bind (texts_in translate lang x) (store_translation st fingerprint i u lang x)))"

text \<open>A failure settles the reservation with what was spent; unlike a failed import it records no usage.\<close>

definition fail_translation :: "(nat \<Rightarrow> stamp) \<Rightarrow> uuid \<Rightarrow> exn \<Rightarrow> (recipe, unit) handler" where
  "fail_translation st i e =
     tx_bind (on_meter (\<lambda>m. (Inr (due m), m))) (\<lambda>cost.
     tx_bind (tx_catch
       (tx_bind (put_job service (st 4) i [SetStatus Failed, SetProgress 0, SetLease None,
          SetError (Some (take 1000 (canonicalize_job_error (error_text e)))), SetCost cost]) (\<lambda>_. tx_return ()))
       (\<lambda>_. tx_return ())) (\<lambda>_.
     settle_spend_of i cost ''failed''))"

definition run_translation_job ::
  "settings \<Rightarrow> (nat \<Rightarrow> stamp) \<Rightarrow> translator \<Rightarrow> (recipe \<Rightarrow> string) \<Rightarrow> uuid \<Rightarrow> uuid \<Rightarrow> uuid \<Rightarrow> string \<Rightarrow> (recipe, unit) handler" where
  "run_translation_job cfg st translate fingerprint i u r language =
     (if maintenance_mode cfg then give_slot u
      else tx_bind (on_meter (\<lambda>_. (Inr (), new_meter))) (\<lambda>_.
        finally_do
          (tx_catch (translate_job st translate fingerprint i u r (normalize_language (Some language))) (fail_translation st i))
          (give_slot u)))"

subsection \<open>The slot\<close>

definition same_slots :: "'r app \<Rightarrow> 'r app \<Rightarrow> bool" where
  "same_slots a a' \<longleftrightarrow> pi_guard (ap_pipe a') = pi_guard (ap_pipe a)"

interpretation sl: guarantee same_slots
  by unfold_locales (simp_all add: same_slots_def)

lemma slots_on_pipe: "(\<And>p. pi_guard (snd (f p)) = pi_guard p) \<Longrightarrow> keeps same_slots (on_pipe f)"
  unfolding on_pipe_def by (rule sl.keeps_atomically) (simp add: same_slots_def case_prod_unfold)

lemma slots_on_jobs: "keeps same_slots (on_jobs f)"
  unfolding on_jobs_def by (rule slots_on_pipe) (simp add: case_prod_unfold)

lemma slots_put: "keeps same_slots (put_job s st i cols)"
  unfolding put_job_def by (rule slots_on_jobs)

lemma slots_settle: "keeps same_slots (settle_spend_of i c s)"
  unfolding settle_spend_of_def by (intro sl.keeps_rules slots_on_jobs)

lemma slots_meter: "keeps same_slots (on_meter f)"
  unfolding on_meter_def by (rule sl.keeps_local) (simp add: same_slots_def case_prod_unfold)

lemma slots_upsert: "keeps same_slots (upsert_recipe_translation r lang p f)"
  unfolding upsert_recipe_translation_def by (rule sl.keeps_atomically) (simp add: same_slots_def)

lemma slots_get: "keeps same_slots (get_recipe r)"
  unfolding get_recipe_def by (rule slots_on_pipe) simp

lemma slots_save: "keeps same_slots (on_pipe (save_user_recipe u r))"
  by (rule slots_on_pipe) (simp add: save_user_recipe_def)

lemma slots_log: "keeps same_slots (log_translation now u c r i)"
  unfolding log_translation_def by (intro sl.keeps_rules slots_on_pipe) simp

lemmas slots_rules = sl.keeps_rules slots_put slots_settle slots_meter slots_upsert slots_get slots_save slots_log

lemma slots_translate: "keeps same_slots (translate_job st translate fingerprint i u r lang)"
  unfolding translate_job_def texts_in_def store_translation_def by (intro slots_rules)

lemma slots_fail: "keeps same_slots (fail_translation st i e)"
  unfolding fail_translation_def by (intro slots_rules)

lemma never_raises_meter: "(\<And>m. \<exists>x. fst (f m) = Inr x) \<Longrightarrow> never_raises (on_meter f)"
  unfolding never_raises_def on_meter_def local_def by (metis (mono_tags, lifting) case_prod_unfold fst_conv)

lemma fail_never_raises: "never_raises (fail_translation st i e)"
  unfolding fail_translation_def settle_spend_of_def
  by (intro never_raises_rules never_raises_meter) simp

text \<open>Whatever the model answers, whatever statement fails and whatever other requests do, a translation
  returns without an exception and gives its slot back exactly once.\<close>

theorem translation_releases:
  assumes "env_in same_slots w"
  shows "fst (run_translation_job cfg st translate fingerprint i u r lang w) = Inr () \<and>
    pi_guard (ap_pipe (db (snd (run_translation_job cfg st translate fingerprint i u r lang w)))) =
      release u (pi_guard (ap_pipe (db w)))"
proof -
  define work where "work = tx_catch (translate_job st translate fingerprint i u r (normalize_language (Some lang))) (fail_translation st i)"
  define w0 where "w0 = w\<lparr>db := (db w)\<lparr>ap_pipe := (ap_pipe (db w))\<lparr>pi_meter := new_meter\<rparr>\<rparr>\<rparr>"
  have e: "env_in same_slots w0" using assms by (simp add: env_in_def w0_def)
  have k: "keeps same_slots work" unfolding work_def by (intro sl.keeps_catch slots_translate slots_fail)
  have "never_raises work" unfolding work_def by (intro never_raises_rules fail_never_raises)
  then obtain w1 where w1: "work w0 = (Inr (), w1)" unfolding never_raises_def by fastforce
  from sl.keepsD [OF k e w1] have "pi_guard (ap_pipe (db w1)) = pi_guard (ap_pipe (db w))"
    by (simp add: same_slots_def w0_def)
  moreover have "run_translation_job cfg st translate fingerprint i u r lang w = (Inr (), snd (give_slot u w1))" if "\<not> maintenance_mode cfg"
    using w1 that by (simp add: run_translation_job_def work_def [symmetric] tx_bind_def on_meter_def local_def finally_do_def w0_def)
  ultimately show ?thesis by (cases "maintenance_mode cfg") (simp_all add: give_slot_def local_def run_translation_job_def)
qed

subsection \<open>The end of a translation that runs alone\<close>

abbreviation with_db :: "job_db \<Rightarrow> 'r app \<Rightarrow> 'r app" where
  "with_db d a \<equiv> a\<lparr>ap_pipe := (ap_pipe a)\<lparr>pi_db := d\<rparr>\<rparr>"

abbreviation app_db :: "'r app \<Rightarrow> job_db" where
  "app_db a \<equiv> pi_db (ap_pipe a)"

declare on_pipe_alone [simp] on_jobs_alone [simp]

lemma on_meter_alone [simp]:
  "on_meter f (alone a) = (fst (f (pi_meter (ap_pipe a))),
     alone (a\<lparr>ap_pipe := (ap_pipe a)\<lparr>pi_meter := snd (f (pi_meter (ap_pipe a)))\<rparr>\<rparr>))"
  by (simp add: on_meter_def case_prod_unfold)

text \<open>The row of the translation, and the writes of the job on it.\<close>

definition to_translate :: "uuid \<Rightarrow> uuid \<Rightarrow> job_db \<Rightarrow> job \<Rightarrow> bool" where
  "to_translate i r d j \<longleftrightarrow> db_ok d \<and> j \<in> set (jobs d) \<and> jid j = i \<and> jkind j = Translation \<and> jrecipe j = Some r \<and> active j"

lemma same_translation_conflicts:
  "jkind j = Translation \<Longrightarrow> active j \<Longrightarrow> same_job j j' \<Longrightarrow> jrecipe j' = jrecipe j \<Longrightarrow> conflicting j' k \<Longrightarrow> conflicting j k"
  unfolding conflicting_def same_job_def by (elim conjE disjE) simp_all

definition own_col :: "uuid \<Rightarrow> job_col \<Rightarrow> bool" where
  "own_col r c \<longleftrightarrow> col_ok c \<and> (case c of SetRecipe x \<Rightarrow> x = Some r | _ \<Rightarrow> True)"

lemma own_cols_recipe: "list_all (own_col r) cols \<Longrightarrow> jrecipe j = Some r \<Longrightarrow> jrecipe (fold set_col cols j) = Some r"
proof (induction cols arbitrary: j)
  case (Cons c cols)
  then have "jrecipe (set_col c j) = Some r" by (cases c) (auto simp: own_col_def)
  with Cons show ?case by simp
qed simp

lemma put_translation_row:
  assumes j: "to_translate i r (app_db a) j" and c: "list_all (own_col r) cols"
    and new: "new = (fold set_col cols j)\<lparr>jupdated := st_now st\<rparr>"
  shows "put_job service st i cols (alone a) = (Inr (Some new),
    alone (with_db ((if list_ex is_status cols then enqueue_pushes st (Some j) new else (\<lambda>x. x))
      ((app_db a)\<lparr>jobs := replace_job new (jobs (app_db a))\<rparr>)) a))"
proof -
  let ?d = "app_db a"
  have ok: "jobs_ok (jobs ?d)" and mem: "j \<in> set (jobs ?d)" "jid j = i" using j by (simp_all add: to_translate_def db_ok_def)
  have by_id: "job_by_id i ?d = Some j" using job_by_id_unique [of ?d j] ok mem by (simp add: jobs_ok_def)
  have same: "same_job j new" "jrecipe new = jrecipe j"
    using new own_cols_recipe [OF c, of j] j by (simp_all add: same_job_def to_translate_def)
  have "list_all col_ok cols" using c by (auto simp: own_col_def list_all_iff)
  moreover have "job_checks j" using ok mem by (simp add: jobs_ok_def list_all_iff)
  ultimately have ch: "job_checks new" using cols_checked new by (simp add: job_checks_def)
  have "\<not> conflicting new k" if "k \<in> set (jobs ?d)" "jid k \<noteq> i" for k
    using same_translation_conflicts [OF _ _ same, of k] j ok that mem unfolding to_translate_def jobs_ok_def no_conflicts_def by metis
  then have nc: "\<not> list_ex (\<lambda>k. jid k \<noteq> i \<and> conflicting new k) (jobs ?d)" by (auto simp: list_ex_iff)
  have v: "Job_Db.visible service d x" for d x by (simp add: Job_Db.visible_def service_def)
  have "update_row service st b (fold set_col cols) i ?d =
     (Inr (Some new), (if b then enqueue_pushes st (Some j) new else (\<lambda>x. x)) (?d\<lparr>jobs := replace_job new (jobs ?d)\<rparr>))" for b
    using by_id ch nc v unfolding update_row_def Let_def new by simp
  then show ?thesis unfolding put_job_def on_jobs_alone by simp
qed

text \<open>What such a write leaves.\<close>

definition row_put :: "uuid \<Rightarrow> job \<Rightarrow> job_db \<Rightarrow> job_db \<Rightarrow> bool" where
  "row_put i new d d' \<longleftrightarrow> db_ok d' \<and> new \<in> set (jobs d') \<and> jid new = i \<and> others i d' = others i d \<and>
     closed_profiles d' = closed_profiles d \<and> spend d' = spend d"

lemma put_own_row:
  assumes j: "to_translate i r (app_db a) j" and c: "list_all (own_col r) cols"
    and new: "new = (fold set_col cols j)\<lparr>jupdated := st_now st\<rparr>"
  shows "\<exists>d. put_job service st i cols (alone a) = (Inr (Some new), alone (with_db d a)) \<and> row_put i new (app_db a) d"
proof -
  let ?d = "snd (update_row service st (list_ex is_status cols) (fold set_col cols) i (app_db a))"
  have p: "put_job service st i cols (alone a) = (Inr (Some new), alone (with_db ?d a))"
    using put_translation_row [OF assms] unfolding put_job_def on_jobs_alone by simp
  have "?d = (if list_ex is_status cols then enqueue_pushes st (Some j) new else (\<lambda>x. x))
      ((app_db a)\<lparr>jobs := replace_job new (jobs (app_db a))\<rparr>)"
    using put_translation_row [OF assms] unfolding put_job_def on_jobs_alone by (auto dest!: arg_cong [where f = app_db])
  moreover have "db_ok ?d" using write_db_ok j by (simp add: to_translate_def)
  moreover have "jid new = i" "jid new = jid j" using j by (simp_all add: new to_translate_def)
  moreover have "new \<in> set (replace_job new (jobs (app_db a)))"
    using j calculation(3,4) by (force simp: to_translate_def replace_job_def)
  ultimately have "row_put i new (app_db a) ?d"
    by (simp add: row_put_def others_def others_replace)
  with p show ?thesis by blast
qed

definition lookup :: "uuid \<Rightarrow> string \<Rightarrow> 'r app \<Rightarrow> 'r translation option" where
  "lookup r lang a = find (\<lambda>t. tl_recipe t = r \<and> tl_lang t = lang) (ap_translations a)"

lemma put_translation_found: "find (\<lambda>t. tl_recipe t = tl_recipe n \<and> tl_lang t = tl_lang n) (put_translation n ts) = Some n"
proof (cases "list_ex (same_key n) ts")
  case True
  then have "find (\<lambda>t. tl_recipe t = tl_recipe n \<and> tl_lang t = tl_lang n) (map (\<lambda>x. if same_key n x then n else x) ts) = Some n"
    by (induction ts) (auto simp: same_key_def)
  with True show ?thesis by (simp add: put_translation_def)
next
  case False
  then have "find (\<lambda>t. tl_recipe t = tl_recipe n \<and> tl_lang t = tl_lang n) (ts @ [n]) = Some n"
    by (induction ts) (auto simp: same_key_def)
  with False show ?thesis by (simp add: put_translation_def)
qed

text \<open>
  How a translation of the row \<open>x\<close> ends, with the recipe \<open>y\<close> it was given: the texts are stored under the
  fingerprint of their source, saved for the user, and charged if the model was called; or the row fails.
\<close>

definition translated_well ::
  "(recipe \<Rightarrow> string) \<Rightarrow> uuid \<Rightarrow> string \<Rightarrow> recipe recipe_row \<Rightarrow> recipe \<Rightarrow> recipe app \<Rightarrow> recipe app \<Rightarrow> job \<Rightarrow> bool" where
  "translated_well fingerprint u lang x y a a' j \<longleftrightarrow>
     jstatus j = Completed \<and> jprogress j = 100 \<and> jrecipe j = Some (rr_id x) \<and>
     lookup (rr_id x) lang a' = Some \<lparr>tl_recipe = rr_id x, tl_lang = lang, tl_payload = recipe_translation_payload y,
       tl_print = fingerprint (rr_recipe x)\<rparr> \<and>
     (u \<in> set (closed_profiles (app_db a')) \<or> (u, rr_id x) \<in> set (pi_saved (ap_pipe a'))) \<and>
     (\<exists>now. pi_usage (ap_pipe a') = pi_usage (ap_pipe a) @ (if jhit j then [] else [charge_event now u (jcost j) (Some (rr_id x)) (jid j)]))"

definition translated_badly :: "recipe app \<Rightarrow> recipe app \<Rightarrow> job \<Rightarrow> bool" where
  "translated_badly a a' j \<longleftrightarrow> jstatus j = Failed \<and> jprogress j = 0 \<and>
     (\<exists>m. jerror j = Some m \<and> m \<in> fst ` set messages) \<and> ap_translations a' = ap_translations a \<and>
     pi_saved (ap_pipe a') = pi_saved (ap_pipe a) \<and> pi_usage (ap_pipe a') = pi_usage (ap_pipe a)"

definition closed_with :: "uuid \<Rightarrow> recipe app \<Rightarrow> recipe app \<Rightarrow> (job \<Rightarrow> bool) \<Rightarrow> bool" where
  "closed_with i a a' Q \<longleftrightarrow> db_ok (app_db a') \<and> others i (app_db a') = others i (app_db a) \<and> books_closed i (app_db a') \<and>
     pi_recipes (ap_pipe a') = pi_recipes (ap_pipe a) \<and> (\<exists>j \<in> set (jobs (app_db a')). jid j = i \<and> jlease j = None \<and> Q j)"

lemma settle_of_alone:
  "settle_spend_of i c s (alone a) = (Inr (), alone (with_db ((app_db a)\<lparr>spend := settle_api_spend i (max c 0) s (spend (app_db a))\<rparr>) a))"
  by (simp add: settle_spend_of_def tx_catch_def)

lemma log_translation_alone:
  "log_translation now u c r i (alone a) =
     (Inr (), alone (a\<lparr>ap_pipe := (ap_pipe a)\<lparr>pi_usage := pi_usage (ap_pipe a) @ [charge_event now u c (Some r) i]\<rparr>\<rparr>))"
  by (simp add: log_translation_def tx_catch_def record_usage_def charge_event_def)

lemma fail_translation_alone:
  assumes j: "to_translate i r (app_db a) j"
  shows "\<exists>a'. fail_translation st i e (alone a) = (Inr (), alone a') \<and> closed_with i a a' (translated_badly a a') \<and>
    pi_guard (ap_pipe a') = pi_guard (ap_pipe a)"
proof -
  let ?c = "due (pi_meter (ap_pipe a))"
  let ?cols = "[SetStatus Failed, SetProgress 0, SetLease None,
    SetError (Some (take 1000 (canonicalize_job_error (error_text e)))), SetCost ?c]"
  define new where "new = (fold set_col ?cols j)\<lparr>jupdated := st_now (st 4)\<rparr>"
  obtain d where p: "put_job service (st 4) i ?cols (alone a) = (Inr (Some new), alone (with_db d a))" and d: "row_put i new (app_db a) d"
    using put_own_row [OF j _ new_def] by (auto simp: own_col_def)
  define a' where "a' = with_db (d\<lparr>spend := settle_api_spend i (max ?c 0) ''failed'' (spend d)\<rparr>) a"
  have "fail_translation st i e (alone a) = (Inr (), alone a')"
    using p by (simp add: fail_translation_def tx_bind_def tx_catch_def settle_of_alone a'_def)
  moreover have "translated_badly a a' new"
    using canonical_error [of "error_text e"] by (simp add: translated_badly_def new_def a'_def)
  moreover have "jlease new = None" by (simp add: new_def)
  moreover have "books_closed i (app_db a')" by (simp add: a'_def settled_books)
  moreover have "db_ok (app_db a')" "others i (app_db a') = others i (app_db a)" "new \<in> set (jobs (app_db a'))" "jid new = i"
    "pi_guard (ap_pipe a') = pi_guard (ap_pipe a)" "pi_recipes (ap_pipe a') = pi_recipes (ap_pipe a)"
    using d by (simp_all add: a'_def row_put_def others_def db_ok_def pushes_ok_def)
  ultimately show ?thesis unfolding closed_with_def by blast
qed

lemma texts_kept: "row_put i new d d' \<Longrightarrow> to_translate i r d j \<Longrightarrow> jkind new = Translation \<Longrightarrow> jrecipe new = Some r \<Longrightarrow> active new \<Longrightarrow>
  to_translate i r d' new"
  by (simp add: row_put_def to_translate_def)

lemma store_translation_alone:
  assumes j: "to_translate i (rr_id x) (app_db a) j" and lang: "normalize_language (Some lang) = lang"
  shows "\<exists>a'. store_translation st fingerprint i u lang x (recipe_translation_payload y) (alone a) = (Inr (), alone a') \<and>
    closed_with i a a' (translated_well fingerprint u lang x y a a') \<and> pi_guard (ap_pipe a') = pi_guard (ap_pipe a)"
proof -
  let ?m = "pi_meter (ap_pipe a)" and ?r = "rr_id x"
  define n1 where "n1 = (fold set_col [SetProgress 75] j)\<lparr>jupdated := st_now (st 1)\<rparr>"
  obtain d1 where p1: "put_job service (st 1) i [SetProgress 75] (alone a) = (Inr (Some n1), alone (with_db d1 a))"
    and r1: "row_put i n1 (app_db a) d1"
    using put_own_row [OF j _ n1_def] by (auto simp: own_col_def)
  have t1: "to_translate i ?r d1 n1"
    using texts_kept [OF r1 j] j by (simp add: n1_def to_translate_def active_def)
  define t where "t = \<lparr>tl_recipe = ?r, tl_lang = lang, tl_payload = recipe_translation_payload y, tl_print = fingerprint (rr_recipe x)\<rparr>"
  define a2 where "a2 = (with_db d1 a)\<lparr>ap_translations := put_translation t (ap_translations a)\<rparr>"
  have u2: "upsert_recipe_translation ?r lang (recipe_translation_payload y) (fingerprint (rr_recipe x)) (alone (with_db d1 a)) = (Inr (), alone a2)"
    by (simp add: upsert_recipe_translation_def lang t_def a2_def)
  define a3 where "a3 = a2\<lparr>ap_pipe := snd (save_user_recipe u ?r (ap_pipe a2))\<rparr>"
  have s3: "on_pipe (save_user_recipe u ?r) (alone a2) = (Inr (), alone a3)"
    by (simp add: a3_def save_user_recipe_def)
  have f3: "app_db a3 = d1" "pi_meter (ap_pipe a3) = ?m" "pi_usage (ap_pipe a3) = pi_usage (ap_pipe a)"
    "pi_recipes (ap_pipe a3) = pi_recipes (ap_pipe a)" "pi_guard (ap_pipe a3) = pi_guard (ap_pipe a)"
    "ap_translations a3 = put_translation t (ap_translations a)"
    by (simp_all add: a3_def a2_def save_user_recipe_def)
  have saved: "u \<in> set (closed_profiles (app_db a3)) \<or> (u, ?r) \<in> set (pi_saved (ap_pipe a3))"
    using saved_recipe [of u "ap_pipe a2" ?r] by (simp add: a3_def save_user_recipe_def)
  let ?cols = "[SetStatus Completed, SetProgress 100, SetLease None, SetRecipe (Some ?r), SetCost (due ?m), SetHit (\<not> openai_called ?m)]"
  define n4 where "n4 = (fold set_col ?cols n1)\<lparr>jupdated := st_now (st 2)\<rparr>"
  obtain d4 where p4: "put_job service (st 2) i ?cols (alone a3) = (Inr (Some n4), alone (with_db d4 a3))"
    and r4: "row_put i n4 d1 d4"
    using put_own_row [of i ?r a3 n1 ?cols n4 "st 2"] t1 f3(1) by (auto simp: own_col_def n4_def)
  define a5 where "a5 = (with_db d4 a3)\<lparr>ap_pipe := (ap_pipe (with_db d4 a3))\<lparr>pi_usage := pi_usage (ap_pipe a) @
    (if openai_called ?m then [charge_event (st_now (st 3)) u (round4 (cents ?m)) (Some ?r) i] else [])\<rparr>\<rparr>"
  have l5: "(if openai_called ?m then log_translation (st_now (st 3)) u (round4 (cents ?m)) ?r i else tx_return ()) (alone (with_db d4 a3)) = (Inr (), alone a5)"
    using f3(3) by (simp add: log_translation_alone a5_def)
  define a' where "a' = with_db (d4\<lparr>spend := settle_api_spend i (max (due ?m) 0) ''settled'' (spend d4)\<rparr>) a5"
  have s6: "settle_spend_of i (due ?m) ''settled'' (alone a5) = (Inr (), alone a')"
    by (simp add: settle_of_alone a'_def a5_def)
  have m0: "on_meter (\<lambda>m. (Inr m, m)) (alone a) = (Inr ?m, alone a)" by simp
  have "store_translation st fingerprint i u lang x (recipe_translation_payload y) (alone a) = (Inr (), alone a')"
    unfolding store_translation_def
    by (subst tx_bind_alone, rule m0, subst tx_bind_alone, rule p1, subst tx_bind_alone, rule u2,
        subst tx_bind_alone, rule s3, subst tx_bind_alone, rule p4, subst tx_bind_alone, rule l5, rule s6)
  moreover have "translated_well fingerprint u lang x y a a' n4"
    unfolding translated_well_def
  proof (intro conjI)
    show "lookup ?r lang a' = Some \<lparr>tl_recipe = ?r, tl_lang = lang, tl_payload = recipe_translation_payload y, tl_print = fingerprint (rr_recipe x)\<rparr>"
      using put_translation_found [of t "ap_translations a"] f3(6) by (simp add: lookup_def a'_def a5_def t_def)
    show "u \<in> set (closed_profiles (app_db a')) \<or> (u, ?r) \<in> set (pi_saved (ap_pipe a'))"
      using saved r4 f3(1) by (simp add: a'_def a5_def row_put_def)
    show "\<exists>now. pi_usage (ap_pipe a') = pi_usage (ap_pipe a) @ (if jhit n4 then [] else [charge_event now u (jcost n4) (Some ?r) (jid n4)])"
      using r4 by (intro exI [of _ "st_now (st 3)"]) (simp add: a'_def a5_def n4_def row_put_def due_def)
  qed (simp_all add: n4_def)
  moreover have "jlease n4 = None" by (simp add: n4_def)
  moreover have "pi_guard (ap_pipe a') = pi_guard (ap_pipe a)" "pi_recipes (ap_pipe a') = pi_recipes (ap_pipe a)"
    using f3 by (simp_all add: a'_def a5_def)
  moreover have "books_closed i (app_db a')" by (simp add: a'_def settled_books)
  moreover have "db_ok (app_db a')" "others i (app_db a') = others i (app_db a)"
    "n4 \<in> set (jobs (app_db a'))" "jid n4 = i"
    using r1 r4 by (simp_all add: a'_def row_put_def others_def db_ok_def pushes_ok_def)
  ultimately show ?thesis unfolding closed_with_def by blast
qed

text \<open>What the stages before the payload leave as it was.\<close>

definition only_started :: "uuid \<Rightarrow> recipe app \<Rightarrow> recipe app \<Rightarrow> bool" where
  "only_started i a b \<longleftrightarrow> others i (app_db b) = others i (app_db a) \<and> pi_recipes (ap_pipe b) = pi_recipes (ap_pipe a) \<and>
     pi_saved (ap_pipe b) = pi_saved (ap_pipe a) \<and> pi_usage (ap_pipe b) = pi_usage (ap_pipe a) \<and>
     pi_guard (ap_pipe b) = pi_guard (ap_pipe a) \<and> ap_translations b = ap_translations a"

lemma closed_later:
  assumes "only_started i a b" "closed_with i b a' (Q b)" "\<And>j. Q b j \<Longrightarrow> Q a j"
  shows "closed_with i a a' (Q a)"
  using assms unfolding closed_with_def only_started_def by auto

definition given :: "translator \<Rightarrow> string \<Rightarrow> recipe recipe_row \<Rightarrow> recipe \<Rightarrow> bool" where
  "given translate lang x y \<longleftrightarrow>
     (if normalize_language (Some (rr_lang x)) = lang then y = rr_recipe x else fst (translate (rr_recipe x) lang new_meter) = Inr y)"

lemma texts_alone:
  assumes "pi_meter (ap_pipe a) = new_meter"
  shows "\<exists>m. let b = a\<lparr>ap_pipe := (ap_pipe a)\<lparr>pi_meter := m\<rparr>\<rparr> in
    (\<exists>e. texts_in translate lang x (alone a) = (Inl e, alone b)) \<or>
    (\<exists>y. texts_in translate lang x (alone a) = (Inr (recipe_translation_payload y), alone b) \<and> given translate lang x y)"
proof (cases "normalize_language (Some (rr_lang x)) = lang")
  case True
  then have "texts_in translate lang x (alone a) = (Inr (recipe_translation_payload (rr_recipe x)), alone (a\<lparr>ap_pipe := (ap_pipe a)\<lparr>pi_meter := pi_meter (ap_pipe a)\<rparr>\<rparr>))"
    by (simp add: texts_in_def)
  with True show ?thesis unfolding Let_def given_def by fastforce
next
  case False
  obtain r m where t: "translate (rr_recipe x) lang new_meter = (r, m)" by (cases "translate (rr_recipe x) lang new_meter")
  show ?thesis
    by (rule exI [of _ m], cases r) (use False t assms in \<open>auto simp: texts_in_def given_def Let_def tx_bind_def\<close>)
qed

lemma translate_alone:
  assumes j: "to_translate i r (app_db a) j" and m: "pi_meter (ap_pipe a) = new_meter" and lang: "normalize_language (Some lang) = lang"
  shows "(\<exists>e b j'. translate_job st translate fingerprint i u r lang (alone a) = (Inl e, alone b) \<and>
            to_translate i r (app_db b) j' \<and> only_started i a b) \<or>
    (\<exists>a' x y. translate_job st translate fingerprint i u r lang (alone a) = (Inr (), alone a') \<and>
       x \<in> set (pi_recipes (ap_pipe a)) \<and> rr_id x = r \<and> given translate lang x y \<and>
       closed_with i a a' (translated_well fingerprint u lang x y a a') \<and> pi_guard (ap_pipe a') = pi_guard (ap_pipe a))"
proof -
  define n0 where "n0 = (fold set_col [SetStatus Processing, SetProgress 10] j)\<lparr>jupdated := st_now (st 0)\<rparr>"
  obtain d0 where p0: "put_job service (st 0) i [SetStatus Processing, SetProgress 10] (alone a) = (Inr (Some n0), alone (with_db d0 a))"
    and r0: "row_put i n0 (app_db a) d0"
    using put_own_row [OF j _ n0_def] by (auto simp: own_col_def)
  have t0: "to_translate i r d0 n0" using texts_kept [OF r0 j] j by (simp add: n0_def to_translate_def active_def)
  let ?b = "with_db d0 a"
  have g: "get_recipe r (alone ?b) = (Inr (find (\<lambda>x. rr_id x = r) (pi_recipes (ap_pipe a))), alone ?b)"
    by (simp add: get_recipe_def)
  have s0: "only_started i a ?b" using r0 by (simp add: only_started_def row_put_def)
  show ?thesis
  proof (cases "find (\<lambda>x. rr_id x = r) (pi_recipes (ap_pipe a))")
    case None
    have "translate_job st translate fingerprint i u r lang (alone a) = (Inl (ExtractError ''Recipe not found for translation''), alone ?b)"
      unfolding translate_job_def by (subst tx_bind_alone, rule p0, subst tx_bind_alone, rule g) (simp add: None)
    with t0 s0 show ?thesis by (intro disjI1) auto
  next
    case (Some x)
    then have x: "x \<in> set (pi_recipes (ap_pipe a))" "rr_id x = r" by (auto simp: find_Some_iff)
    have run: "translate_job st translate fingerprint i u r lang (alone a) =
        tx_bind (texts_in translate lang x) (store_translation st fingerprint i u lang x) (alone ?b)"
      unfolding translate_job_def by (subst tx_bind_alone, rule p0, subst tx_bind_alone, rule g) (simp add: Some)
    from texts_alone [of ?b translate lang x] m obtain m1 where
      c: "(\<exists>e. texts_in translate lang x (alone ?b) = (Inl e, alone (?b\<lparr>ap_pipe := (ap_pipe ?b)\<lparr>pi_meter := m1\<rparr>\<rparr>))) \<or>
        (\<exists>y. texts_in translate lang x (alone ?b) = (Inr (recipe_translation_payload y), alone (?b\<lparr>ap_pipe := (ap_pipe ?b)\<lparr>pi_meter := m1\<rparr>\<rparr>)) \<and>
          given translate lang x y)"
      unfolding Let_def by auto
    define b1 where "b1 = ?b\<lparr>ap_pipe := (ap_pipe ?b)\<lparr>pi_meter := m1\<rparr>\<rparr>"
    have t1: "to_translate i (rr_id x) (app_db b1) n0" and s1: "only_started i a b1"
      using t0 x s0 by (simp_all add: b1_def only_started_def)
    from c [folded b1_def] show ?thesis
    proof (elim disjE exE conjE)
      fix e assume "texts_in translate lang x (alone ?b) = (Inl e, alone b1)"
      with run t1 s1 x show ?thesis by (intro disjI1) (auto simp: tx_bind_def)
    next
      fix y assume y: "texts_in translate lang x (alone ?b) = (Inr (recipe_translation_payload y), alone b1)" "given translate lang x y"
      obtain a' where a': "store_translation st fingerprint i u lang x (recipe_translation_payload y) (alone b1) = (Inr (), alone a')"
        "closed_with i b1 a' (translated_well fingerprint u lang x y b1 a')" "pi_guard (ap_pipe a') = pi_guard (ap_pipe b1)"
        using store_translation_alone [OF t1 lang] by blast
      have "closed_with i a a' (translated_well fingerprint u lang x y a a')"
        by (rule closed_later [OF s1, where Q = "\<lambda>b. translated_well fingerprint u lang x y b a'"])
          (use a'(2) s1 in \<open>simp_all add: translated_well_def only_started_def\<close>)
      with run y a' x s1 show ?thesis by (intro disjI2) (auto simp: tx_bind_def only_started_def)
    qed
  qed
qed

definition translation_ended ::
  "translator \<Rightarrow> (recipe \<Rightarrow> string) \<Rightarrow> uuid \<Rightarrow> uuid \<Rightarrow> uuid \<Rightarrow> string \<Rightarrow> recipe app \<Rightarrow> recipe app \<Rightarrow> bool" where
  "translation_ended translate fingerprint i u r lang a a' \<longleftrightarrow>
     closed_with i a a' (\<lambda>k. translated_badly a a' k \<or>
       (\<exists>x y. x \<in> set (pi_recipes (ap_pipe a)) \<and> rr_id x = r \<and> given translate lang x y \<and>
          translated_well fingerprint u lang x y a a' k))"

lemma closed_with_mono: "closed_with i a a' Q \<Longrightarrow> (\<And>j. Q j \<Longrightarrow> Q' j) \<Longrightarrow> closed_with i a a' Q'"
  unfolding closed_with_def by blast

lemma work_translation_alone:
  assumes j: "to_translate i r (app_db a) j" and m: "pi_meter (ap_pipe a) = new_meter" and lang: "normalize_language (Some lang) = lang"
  shows "\<exists>a'. tx_catch (translate_job st translate fingerprint i u r lang) (fail_translation st i) (alone a) = (Inr (), alone a') \<and>
    translation_ended translate fingerprint i u r lang a a' \<and> pi_guard (ap_pipe a') = pi_guard (ap_pipe a)"
  using translate_alone [OF assms, of st translate fingerprint u]
proof (elim disjE exE conjE)
  fix e b j' assume t: "translate_job st translate fingerprint i u r lang (alone a) = (Inl e, alone b)"
    and b: "to_translate i r (app_db b) j'" "only_started i a b"
  obtain a' where f: "fail_translation st i e (alone b) = (Inr (), alone a')" "closed_with i b a' (translated_badly b a')"
    "pi_guard (ap_pipe a') = pi_guard (ap_pipe b)"
    using fail_translation_alone [OF b(1)] by blast
  have "closed_with i a a' (translated_badly a a')"
    by (rule closed_later [OF b(2), where Q = "\<lambda>b. translated_badly b a'"])
      (use f(2) b(2) in \<open>simp_all add: translated_badly_def only_started_def\<close>)
  then have "translation_ended translate fingerprint i u r lang a a'"
    unfolding translation_ended_def by (rule closed_with_mono) simp
  with t f b(2) show ?thesis by (auto simp: tx_catch_def only_started_def)
next
  fix a' x y assume t: "translate_job st translate fingerprint i u r lang (alone a) = (Inr (), alone a')"
    and x: "x \<in> set (pi_recipes (ap_pipe a))" "rr_id x = r" "given translate lang x y"
    and c: "closed_with i a a' (translated_well fingerprint u lang x y a a')" and g: "pi_guard (ap_pipe a') = pi_guard (ap_pipe a)"
  have "translation_ended translate fingerprint i u r lang a a'"
    unfolding translation_ended_def by (rule closed_with_mono [OF c]) (use x in blast)
  with t g show ?thesis by (auto simp: tx_catch_def)
qed

lemma run_translation_alone:
  assumes j: "to_translate i r (app_db a) j" and up: "\<not> maintenance_mode cfg"
  shows "\<exists>a'. run_translation_job cfg st translate fingerprint i u r language (alone a) = (Inr (), alone a') \<and>
    translation_ended translate fingerprint i u r (normalize_language (Some language)) a a' \<and>
    pi_guard (ap_pipe a') = release u (pi_guard (ap_pipe a))"
proof -
  let ?lang = "normalize_language (Some language)"
  define a0 where "a0 = a\<lparr>ap_pipe := (ap_pipe a)\<lparr>pi_meter := new_meter\<rparr>\<rparr>"
  have fixed: "normalize_language (Some ?lang) = ?lang"
    using supported_fixed normalize_language_supported by (simp add: list_all_iff)
  have j0: "to_translate i r (app_db a0) j" "pi_meter (ap_pipe a0) = new_meter" using j by (simp_all add: a0_def)
  obtain a1 where w: "tx_catch (translate_job st translate fingerprint i u r ?lang) (fail_translation st i) (alone a0) = (Inr (), alone a1)"
    and e: "translation_ended translate fingerprint i u r ?lang a0 a1" and g: "pi_guard (ap_pipe a1) = pi_guard (ap_pipe a0)"
    using work_translation_alone [OF j0 fixed] by blast
  define a' where "a' = a1\<lparr>ap_pipe := (ap_pipe a1)\<lparr>pi_guard := release u (pi_guard (ap_pipe a1))\<rparr>\<rparr>"
  have "run_translation_job cfg st translate fingerprint i u r language (alone a) = (Inr (), alone a')"
    using w up by (simp add: run_translation_job_def tx_bind_def a0_def [symmetric] finally_do_def give_slot_def local_def a'_def)
  moreover have "translation_ended translate fingerprint i u r ?lang a a'"
    using e unfolding translation_ended_def closed_with_def translated_well_def translated_badly_def lookup_def
    by (simp add: a'_def a0_def)
  ultimately show ?thesis using g by (auto simp: a'_def a0_def)
qed

text \<open>C24: A translation of an active row that runs alone always ends its row: completed at 100 with the texts stored
  under the recipe, the language and the fingerprint of what was translated, saved for the user and charged
  exactly if the model was called; or failed at 0 with a canonical message and nothing stored. The lease is
  gone, no reservation of the job stays open, no other job and no recipe is touched and the slot is free.\<close>

theorem translation_settled:
  assumes "to_translate i r (app_db a) j" "\<not> maintenance_mode cfg"
  shows "\<exists>a'. run_translation_job cfg st translate fingerprint i u r language (alone a) = (Inr (), alone a') \<and>
    translation_ended translate fingerprint i u r (normalize_language (Some language)) a a' \<and>
    pi_guard (ap_pipe a') = release u (pi_guard (ap_pipe a))"
  using assms by (rule run_translation_alone)

subsection \<open>What the next request gets\<close>

text \<open>C25: After a translation that completed, a request for the recipe in that language is served from the store:
  the title, the description, the sections, the steps and the tips are those the model gave, all the rest
  is the recipe's own.\<close>

theorem translation_served:
  assumes j: "to_translate i r (app_db a) j" and up: "\<not> maintenance_mode cfg"
    and run: "run_translation_job cfg st translate fingerprint i u r language (alone a) = (Inr (), alone a')"
    and fin: "k \<in> set (jobs (app_db a'))" "jid k = i" "jstatus k = Completed"
    and c: "ca_print c = fingerprint" "ca_overlay c = overlay_payload"
  shows "\<exists>x y z. x \<in> set (pi_recipes (ap_pipe a')) \<and> rr_id x = r \<and> given translate (normalize_language (Some language)) x y \<and>
    localized_recipe_row c x language (alone a') = (Inr (Some z), alone a') \<and>
    (rc_title z, rc_description z, rc_sections z, rc_steps z, rc_tags z, rc_missing z, rc_tips z) =
      (rc_title y, rc_description y, rc_sections y, rc_steps y, rc_tags y, rc_missing y, rc_tips y) \<and>
    (rc_id z, rc_servings z, rc_prep z, rc_cook z, rc_source z, rc_author z) =
      (rc_id (rr_recipe x), rc_servings (rr_recipe x), rc_prep (rr_recipe x), rc_cook (rr_recipe x), rc_source (rr_recipe x), rc_author (rr_recipe x))"
proof -
  let ?lang = "normalize_language (Some language)"
  have e: "translation_ended translate fingerprint i u r ?lang a a'"
    using run_translation_alone [OF j up, of st translate fingerprint u language] run by auto
  have unique: "k' = k" if "k' \<in> set (jobs (app_db a'))" "jid k' = i" for k'
    using that fin e by (auto simp: translation_ended_def closed_with_def db_ok_def jobs_ok_def distinct_map inj_on_def)
  with e fin obtain x y where x: "x \<in> set (pi_recipes (ap_pipe a'))" "rr_id x = r" "given translate ?lang x y"
    and w: "translated_well fingerprint u ?lang x y a a' k"
    unfolding translation_ended_def closed_with_def translated_badly_def by force
  from w have l: "find (\<lambda>t. tl_recipe t = rr_id x \<and> tl_lang t = ?lang) (ap_translations a') =
      Some \<lparr>tl_recipe = rr_id x, tl_lang = ?lang, tl_payload = recipe_translation_payload y, tl_print = fingerprint (rr_recipe x)\<rparr>"
    by (simp add: translated_well_def lookup_def)
  define z where "z = (if normalize_language (Some (rr_lang x)) = ?lang then rr_recipe x
    else overlay_payload (rr_recipe x) (recipe_translation_payload y))"
  have "localized_recipe_row c x language (alone a') = (Inr (Some z), alone a')"
    by (simp add: localized_recipe_row_def Let_def l c z_def)
  with x show ?thesis
    by (intro exI [of _ x] exI [of _ y] exI [of _ z])
       (auto simp: z_def given_def overlay_payload_def recipe_translation_payload_def)
qed

text \<open>A translation that failed after a paid call leaves no trace in the usage of the user, although its row and
  the ledger carry the cost; a failed import is recorded (\<open>ended_badly\<close>).\<close>

theorem translation_failure_uncounted:
  assumes "to_translate i r (app_db a) j" "\<not> maintenance_mode cfg"
    and "run_translation_job cfg st translate fingerprint i u r language (alone a) = (Inr (), alone a')"
    and "k \<in> set (jobs (app_db a'))" "jid k = i" "jstatus k = Failed"
  shows "pi_usage (ap_pipe a') = pi_usage (ap_pipe a)"
proof -
  have e: "translation_ended translate fingerprint i u r (normalize_language (Some language)) a a'"
    using run_translation_alone [OF assms(1,2), of st translate fingerprint u language] assms(3) by auto
  have "k' = k" if "k' \<in> set (jobs (app_db a'))" "jid k' = i" for k'
    using that assms(4,5) e by (auto simp: translation_ended_def closed_with_def db_ok_def jobs_ok_def distinct_map inj_on_def)
  with e assms(6) show ?thesis
    unfolding translation_ended_def closed_with_def translated_badly_def translated_well_def by force
qed

subsection \<open>An example\<close>

definition ex_to_translate :: job where
  "ex_to_translate = ex_waiting\<lparr>jkind := Translation, jrecipe := Some ''r'', jstatus := Pending\<rparr>"

definition ex_source :: "recipe recipe_row" where
  "ex_source = \<lparr>rr_id = ''r'', rr_norm = ''x'', rr_lang = ''es-ES'', rr_recipe = no_recipe\<lparr>rc_title := ''Arroz''\<rparr>\<rparr>"

definition ex_app :: "recipe app" where
  "ex_app = \<lparr>ap_pipe = ex_kitchen_pipe\<lparr>pi_db := ex_jobs [ex_to_translate], pi_recipes := [ex_source]\<rparr>,
     ap_sec = \<lparr>sec_cache = reset_cache, sec_limiters = Map.empty, sec_bans = Map.empty, sec_audit = []\<rparr>,
     ap_translations = [], ap_tasks = []\<rparr>"

definition ex_translator :: translator where
  "ex_translator r lang m = (Inr (r\<lparr>rc_title := ''Rice''\<rparr>), m\<lparr>openai_called := True\<rparr>)"

lemma ex_to_translate_ok: "to_translate (jid ex_waiting) ''r'' (app_db ex_app) ex_to_translate"
  using ex_waiting_ok
  by (simp add: to_translate_def ex_app_def ex_jobs_def db_ok_def pushes_ok_def ex_to_translate_def active_def jobs_ok_def
      no_conflicts_def job_checks_def ex_waiting_def job_row_def ex_request_def)

theorem translation_settled_witness:
  "\<exists>a'. run_translation_job default_settings (\<lambda>_. ex_stamp) ex_translator rc_title (jid ex_waiting) ''u'' ''r'' ''en'' (alone ex_app) =
      (Inr (), alone a') \<and> translation_ended ex_translator rc_title (jid ex_waiting) ''u'' ''r'' (normalize_language (Some ''en'')) ex_app a'"
proof -
  have "\<not> maintenance_mode default_settings" by (simp add: default_settings_def)
  from translation_settled [OF ex_to_translate_ok this] show ?thesis by blast
qed

definition ex_call :: "recipe call" where
  "ex_call = \<lparr>ca_user = ''v'', ca_pro = False, ca_limits = None, ca_settings = None, ca_ip = ''198.51.100.7'', ca_mono = 0,
     ca_redis = (\<lambda>_. \<lparr>connect_ok = False, incr_reply = None, expire_ok = False\<rparr>), ca_audit_ok = True,
     ca_resolve = (\<lambda>_ _. None), ca_print = rc_title, ca_overlay = overlay_payload\<rparr>"

lemma ex_completed:
  "map (\<lambda>j. (jid j, jstatus j)) (jobs (app_db (db (snd (run_translation_job default_settings (\<lambda>_. ex_stamp) ex_translator
      rc_title (jid ex_waiting) ''u'' ''r'' ''en'' (alone ex_app)))))) = [(jid ex_waiting, Completed)]"
  by code_simp

theorem translation_served_witness:
  "\<exists>a' z. run_translation_job default_settings (\<lambda>_. ex_stamp) ex_translator rc_title (jid ex_waiting) ''u'' ''r'' ''en'' (alone ex_app) =
      (Inr (), alone a') \<and>
    localized_recipe_row ex_call ex_source ''en'' (alone a') = (Inr (Some z), alone a') \<and> rc_title z = ''Rice''"
proof -
  have up: "\<not> maintenance_mode default_settings" by (simp add: default_settings_def)
  obtain a' where run: "run_translation_job default_settings (\<lambda>_. ex_stamp) ex_translator rc_title (jid ex_waiting) ''u'' ''r'' ''en'' (alone ex_app) =
      (Inr (), alone a')" and e: "translation_ended ex_translator rc_title (jid ex_waiting) ''u'' ''r'' (normalize_language (Some ''en'')) ex_app a'"
    using run_translation_alone [OF ex_to_translate_ok up] by blast
  from ex_completed obtain k where k: "k \<in> set (jobs (app_db a'))" "jid k = jid ex_waiting" "jstatus k = Completed"
    unfolding run by auto
  have c: "ca_print ex_call = rc_title" "ca_overlay ex_call = overlay_payload" by (simp_all add: ex_call_def)
  obtain x y z where x: "x \<in> set (pi_recipes (ap_pipe a'))" and g: "given ex_translator (normalize_language (Some ''en'')) x y"
    and l: "localized_recipe_row ex_call x ''en'' (alone a') = (Inr (Some z), alone a')" and t: "rc_title z = rc_title y"
    using translation_served [OF ex_to_translate_ok up run k c] by auto
  have "x = ex_source" using x e by (simp add: translation_ended_def closed_with_def ex_app_def)
  moreover have "normalize_language (Some ''es-ES'') \<noteq> normalize_language (Some ''en'')" by code_simp
  ultimately have "rc_title y = ''Rice''" using g by (auto simp: given_def ex_source_def ex_translator_def)
  with run l t \<open>x = ex_source\<close> show ?thesis by metis
qed

definition ex_unlucky :: "recipe app world" where
  "ex_unlucky = \<lparr>db = ex_app, env = [Outage, Interfere (\<lambda>a. a\<lparr>ap_translations := []\<rparr>), LostReply]\<rparr>"

theorem translation_releases_witness:
  "fst (run_translation_job default_settings (\<lambda>_. ex_stamp) ex_translator rc_title (jid ex_waiting) ''u'' ''r'' ''en'' ex_unlucky) = Inr ()"
proof -
  have "env_in same_slots ex_unlucky" by (auto simp: ex_unlucky_def env_in_def same_slots_def)
  from translation_releases [OF this] show ?thesis by blast
qed

end
