(* ===== verification/Recipe_Rows.thy ===== *)
theory Recipe_Rows
  imports Translation_Job
begin

section \<open>Recipes as rows\<close>

text \<open>
  The rows of the tables \<open>recipes\<close> and \<open>recipe_translations\<close> as app/store.py and app/translation_cache.py
  write and read them: a row is a dictionary of its columns, those of type jsonb as JSON. The lax
  reading of numbers by pydantic is the record \<open>pydantic\<close>; text columns hold a text or null. The titles
  of the language tables are an argument, as in Recipe_Builder.
\<close>

record pydantic =
  pd_int :: "json \<Rightarrow> int option"
  pd_float :: "json \<Rightarrow> rat option"

text \<open>What is relied on: a number is read as itself.\<close>

definition reads_numbers :: "pydantic \<Rightarrow> bool" where
  "reads_numbers P \<longleftrightarrow> (\<forall>n. pd_int P (JInt n) = Some n) \<and> (\<forall>q. pd_float P (JNum q) = Some q)"

subsection \<open>Models from JSON\<close>

definition invalid :: exn where
  "invalid = ValueError ''validation''"

definition str_field :: "json \<Rightarrow> string res" where
  "str_field v = (case v of JStr s \<Rightarrow> Inr s | _ \<Rightarrow> Inl invalid)"

definition int_field :: "pydantic \<Rightarrow> json \<Rightarrow> int res" where
  "int_field P v = (case pd_int P v of None \<Rightarrow> Inl invalid | Some n \<Rightarrow> Inr n)"

definition opt_field :: "(json \<Rightarrow> 'x res) \<Rightarrow> json \<Rightarrow> 'x option res" where
  "opt_field f v = (if v = JNull then Inr None else res_bind (f v) (\<lambda>x. Inr (Some x)))"

definition list_field :: "(json \<Rightarrow> 'x res) \<Rightarrow> json \<Rightarrow> 'x list res" where
  "list_field f v = (case v of JArr vs \<Rightarrow> res_map f vs | _ \<Rightarrow> Inl invalid)"

definition model_fields :: "json \<Rightarrow> dict res" where
  "model_fields v = (case v of JObj d \<Rightarrow> Inr d | _ \<Rightarrow> Inl invalid)"

definition load_ingredient :: "pydantic \<Rightarrow> json \<Rightarrow> ingredient res" where
  "load_ingredient P v =
     res_bind (model_fields v) (\<lambda>d.
     res_bind (str_field (dget d ''name'')) (\<lambda>name.
     res_bind (opt_field str_field (dget d ''quantity'')) (\<lambda>quantity.
     res_bind (opt_field str_field (dget d ''unit'')) (\<lambda>unit.
     Inr \<lparr>in_name = name, in_quantity = quantity, in_unit = unit,
       in_density = parse_density_g_per_ml (pd_float P) (dget d ''density_g_per_ml'')\<rparr>))))"

definition load_section :: "pydantic \<Rightarrow> json \<Rightarrow> ingredient_section res" where
  "load_section P v =
     res_bind (model_fields v) (\<lambda>d.
     res_bind (str_field (dget d ''title'')) (\<lambda>title.
     res_bind (if has_key d ''ingredients'' then list_field (load_ingredient P) (dget d ''ingredients'') else Inr []) (\<lambda>items.
     Inr \<lparr>sc_title = title, sc_items = items\<rparr>)))"

definition load_step :: "pydantic \<Rightarrow> json \<Rightarrow> recipe_step res" where
  "load_step P v =
     res_bind (model_fields v) (\<lambda>d.
     res_bind (int_field P (dget d ''order'')) (\<lambda>order.
     res_bind (str_field (dget d ''text'')) (\<lambda>t.
     res_bind (opt_field (int_field P) (dget d ''duration_minutes'')) (\<lambda>minutes.
     Inr \<lparr>sp_order = order, sp_text = t, sp_minutes = minutes\<rparr>))))"

definition load_tip :: "json \<Rightarrow> recipe_tip res" where
  "load_tip v =
     res_bind (model_fields v) (\<lambda>d.
     res_bind (opt_field str_field (dget d ''title'')) (\<lambda>title.
     res_bind (str_field (dget d ''text'')) (\<lambda>t. Inr \<lparr>tp_title = title, tp_text = t\<rparr>)))"

text \<open>\<open>model_dump\<close>.\<close>

definition or_null :: "('x \<Rightarrow> json) \<Rightarrow> 'x option \<Rightarrow> json" where
  "or_null f v = (case v of None \<Rightarrow> JNull | Some x \<Rightarrow> f x)"

definition dump_ingredient :: "ingredient \<Rightarrow> json" where
  "dump_ingredient i = JObj [(''name'', JStr (in_name i)), (''quantity'', or_null JStr (in_quantity i)),
     (''unit'', or_null JStr (in_unit i)), (''density_g_per_ml'', or_null JNum (in_density i))]"

definition dump_section :: "ingredient_section \<Rightarrow> json" where
  "dump_section s = JObj [(''title'', JStr (sc_title s)), (''ingredients'', JArr (map dump_ingredient (sc_items s)))]"

definition dump_step :: "recipe_step \<Rightarrow> json" where
  "dump_step s = JObj [(''order'', JInt (sp_order s)), (''text'', JStr (sp_text s)), (''duration_minutes'', or_null JInt (sp_minutes s))]"

definition dump_tip :: "recipe_tip \<Rightarrow> json" where
  "dump_tip t = JObj [(''title'', or_null JStr (tp_title t)), (''text'', JStr (tp_text t))]"

subsection \<open>Carousels\<close>

definition max_carousel_images :: nat where "max_carousel_images = 12"

definition web_url :: "string \<Rightarrow> bool res" where
  "web_url c = res_bind (urlparse c) (\<lambda>p. Inr (u_scheme p \<in> {''http'', ''https''} \<and> u_netloc p \<noteq> []))"

fun keep_urls :: "string list \<Rightarrow> string list \<Rightarrow> string list res" where
  "keep_urls urls [] = Inr urls"
| "keep_urls urls (c # cs) =
     res_bind (web_url c) (\<lambda>ok.
       if \<not> ok \<or> 2048 < length c \<or> c \<in> set urls then keep_urls urls cs
       else if max_carousel_images \<le> length urls + 1 then Inr (urls @ [c])
       else keep_urls (urls @ [c]) cs)"

definition carousel_urls :: "(json \<Rightarrow> string) \<Rightarrow> json \<Rightarrow> string list res" where
  "carousel_urls rep v = keep_urls [] (map (\<lambda>x. strip (py_str rep (py_or x (JStr [])))) (case v of JArr vs \<Rightarrow> vs | _ \<Rightarrow> []))"

subsection \<open>Writing a row\<close>

definition text_list :: "string list \<Rightarrow> json" where
  "text_list ts = JArr (map JStr ts)"

definition recipe_to_row :: "(json \<Rightarrow> string) \<Rightarrow> recipe \<Rightarrow> string \<Rightarrow> string \<Rightarrow> dict res" where
  "recipe_to_row rep r url_norm lang =
     res_bind (carousel_urls rep (text_list (rc_carousel r))) (\<lambda>urls.
     Inr [(''source_url_raw'', JStr (rc_source r)), (''source_url_norm'', JStr url_norm), (''language_code'', JStr lang),
       (''platform'', JStr (platform_name (rc_platform r))), (''title'', JStr (rc_title r)),
       (''description'', or_null JStr (rc_description r)), (''author'', or_null JStr (rc_author r)),
       (''thumbnail_url'', or_null JStr (rc_thumbnail r)), (''carousel_image_urls'', text_list urls),
       (''ingredients'', JArr (map dump_ingredient (rc_ingredients r))),
       (''ingredient_sections'', JArr (map dump_section (rc_sections r))),
       (''steps'', JArr (map dump_step (rc_steps r))), (''servings'', or_null JInt (rc_servings r)),
       (''prep_minutes'', or_null JInt (rc_prep r)), (''cook_minutes'', or_null JInt (rc_cook r)),
       (''tags'', text_list (rc_tags r)), (''confidence'', JNum (rc_confidence r)),
       (''missing_fields'', text_list (rc_missing r)), (''raw_transcript'', or_null JStr (rc_transcript r)),
       (''tips'', JArr (map dump_tip (rc_tips r)))])"

text \<open>The stored row has its identifier beside the columns that were written.\<close>

definition stored_row :: "uuid \<Rightarrow> dict \<Rightarrow> dict" where
  "stored_row i row = (''id'', JStr i) # row"

subsection \<open>Reading a row\<close>

text \<open>\<open>row.get (k) or []\<close> and \<open>row.get ("language_code")\<close>.\<close>

definition column_list :: "dict \<Rightarrow> string \<Rightarrow> json" where
  "column_list row k = py_or (dget row k) (JArr [])"

definition column_text :: "dict \<Rightarrow> string \<Rightarrow> string option" where
  "column_text row k = (case dget row k of JStr s \<Rightarrow> Some s | _ \<Rightarrow> None)"

definition sections_from_row :: "pydantic \<Rightarrow> (string \<Rightarrow> labels) \<Rightarrow> dict \<Rightarrow> ingredient_section list res" where
  "sections_from_row P lbs row =
     (let raw = column_list row ''ingredient_sections'' in
      if truthy raw then list_field (load_section P) raw
      else res_bind (list_field (load_ingredient P) (column_list row ''ingredients'')) (\<lambda>items.
        Inr (if items = [] then []
             else [\<lparr>sc_title = lb_section (lbs (normalize_language (column_text row ''language_code''))), sc_items = items\<rparr>])))"

fun platform_of :: "string \<Rightarrow> platform res" where
  "platform_of s = (case find (\<lambda>p. platform_name p = s) [Tiktok, Youtube, Instagram, Facebook, UnknownPlatform] of
     None \<Rightarrow> Inl (ValueError ''platform'') | Some p \<Rightarrow> Inr p)"

definition row_platform :: "dict \<Rightarrow> platform res" where
  "row_platform row = (case py_or (dget row ''platform'') (JStr ''unknown'') of JStr s \<Rightarrow> platform_of s | _ \<Rightarrow> Inl (ValueError ''platform''))"

definition row_source :: "dict \<Rightarrow> json" where
  "row_source row = py_or (py_or (dget row ''source_url_raw'') (dget row ''source_url'')) (JStr [])"

definition row_title :: "dict \<Rightarrow> string res" where
  "row_title row = (case map_of row ''title'' of None \<Rightarrow> Inl KeyError | Some v \<Rightarrow> str_field v)"

text \<open>\<open>float (row.get ("confidence") or 0.5)\<close> within the bounds of the field.\<close>

definition row_confidence :: "pydantic \<Rightarrow> dict \<Rightarrow> rat res" where
  "row_confidence P row =
     (case pd_float P (py_or (dget row ''confidence'') (JNum (1 / 2))) of
        None \<Rightarrow> Inl (ValueError ''float'')
      | Some q \<Rightarrow> if 0 \<le> q \<and> q \<le> 1 then Inr q else Inl invalid)"

definition recipe_from_row :: "pydantic \<Rightarrow> (json \<Rightarrow> string) \<Rightarrow> (string \<Rightarrow> labels) \<Rightarrow> dict \<Rightarrow> recipe res" where
  "recipe_from_row P rep lbs row =
     res_bind (sections_from_row P lbs row) (\<lambda>sections.
     res_bind (row_title row) (\<lambda>title.
     res_bind (list_field (load_step P) (column_list row ''steps'')) (\<lambda>steps.
     res_bind (opt_field (int_field P) (dget row ''servings'')) (\<lambda>servings.
     res_bind (opt_field (int_field P) (dget row ''prep_minutes'')) (\<lambda>prep.
     res_bind (opt_field (int_field P) (dget row ''cook_minutes'')) (\<lambda>cook.
     res_bind (list_field str_field (column_list row ''tags'')) (\<lambda>tags.
     res_bind (row_confidence P row) (\<lambda>confidence.
     res_bind (list_field str_field (column_list row ''missing_fields'')) (\<lambda>missing.
     res_bind (str_field (row_source row)) (\<lambda>source.
     res_bind (row_platform row) (\<lambda>platform.
     res_bind (opt_field str_field (dget row ''thumbnail_url'')) (\<lambda>thumbnail.
     res_bind (carousel_urls rep (dget row ''carousel_image_urls'')) (\<lambda>carousel.
     res_bind (opt_field str_field (dget row ''author'')) (\<lambda>author.
     res_bind (opt_field str_field (dget row ''description'')) (\<lambda>description.
     res_bind (list_field load_tip (column_list row ''tips'')) (\<lambda>tips.
     res_bind (opt_field str_field (dget row ''raw_transcript'')) (\<lambda>transcript.
     Inr \<lparr>rc_id = column_text row ''id'', rc_title = title, rc_ingredients = concat (map sc_items sections),
       rc_sections = sections, rc_steps = steps, rc_servings = servings, rc_prep = prep, rc_cook = cook, rc_tags = tags,
       rc_confidence = confidence, rc_missing = missing, rc_source = source, rc_platform = platform,
       rc_thumbnail = thumbnail, rc_carousel = carousel, rc_author = author, rc_description = description,
       rc_tips = tips, rc_transcript = transcript,
       rc_language = normalize_language (column_text row ''language_code'')\<rparr>)))))))))))))))))"

subsection \<open>What is kept of a carousel\<close>

text \<open>Clean addresses: what the column holds, and what its check constraint asks for.\<close>

definition clean_urls :: "string list \<Rightarrow> bool" where
  "clean_urls urls \<longleftrightarrow> distinct urls \<and> length urls \<le> max_carousel_images \<and>
     list_all (\<lambda>u. web_url u = Inr True \<and> length u \<le> 2048 \<and> strip u = u) urls"

lemma keep_urls_clean:
  assumes "keep_urls urls cs = Inr us" "clean_urls urls" "length urls < max_carousel_images" "list_all (\<lambda>c. strip c = c) cs"
  shows "clean_urls us"
  using assms
proof (induction cs arbitrary: urls)
  case (Cons c cs)
  obtain ok where o: "web_url c = Inr ok" using Cons.prems(1) by (auto simp: res_bind_eq_Inr)
  show ?case
  proof (cases "\<not> ok \<or> 2048 < length c \<or> c \<in> set urls")
    case True
    with o Cons show ?thesis by auto
  next
    case False
    then have k: "clean_urls (urls @ [c])" using o Cons.prems(2-4) by (auto simp: clean_urls_def)
    show ?thesis
    proof (cases "max_carousel_images \<le> length urls + 1")
      case True
      with o False k Cons.prems(1) show ?thesis by simp
    next
      case full: False
      then have "keep_urls (urls @ [c]) cs = Inr us" using o False Cons.prems(1) by simp
      from Cons.IH [OF this k] full Cons.prems(4) show ?thesis by simp
    qed
  qed
qed simp

lemma carousel_urls_clean:
  assumes "carousel_urls rep v = Inr us"
  shows "clean_urls us"
proof -
  have "clean_urls []" by (simp add: clean_urls_def)
  moreover have "(0 :: nat) < max_carousel_images" by (simp add: max_carousel_images_def)
  ultimately show ?thesis
    using keep_urls_clean [of "[]" _ us] assms unfolding carousel_urls_def by (auto simp: list_all_iff)
qed

lemma keep_urls_all:
  "clean_urls (urls @ cs) \<Longrightarrow> keep_urls urls cs = Inr (urls @ cs)"
proof (induction cs arbitrary: urls)
  case (Cons c cs)
  then have c: "web_url c = Inr True" "\<not> 2048 < length c" "c \<notin> set urls" by (auto simp: clean_urls_def)
  show ?case
  proof (cases "max_carousel_images \<le> length urls + 1")
    case True
    with Cons.prems have "length cs = 0" unfolding clean_urls_def length_append list.size by linarith
    then have "cs = []" by simp
    with c True show ?thesis by simp
  next
    case False
    with c Cons.IH [of "urls @ [c]"] Cons.prems show ?thesis by simp
  qed
qed simp

lemma carousel_urls_same:
  assumes "clean_urls us"
  shows "carousel_urls rep (text_list us) = Inr us"
proof -
  have "list_all (\<lambda>u. strip u = u) us" using assms by (auto simp: clean_urls_def list_all_iff)
  then have "map (\<lambda>x. strip (py_str rep (py_or x (JStr [])))) (map JStr us) = us"
    by (induction us) (auto simp: py_or_def strip_nil)
  with assms keep_urls_all [of "[]" us] show ?thesis by (simp add: carousel_urls_def text_list_def)
qed

subsection \<open>Reading what was written\<close>

definition validated_items :: "ingredient list \<Rightarrow> bool" where
  "validated_items is \<longleftrightarrow> list_all (\<lambda>i. sane (in_density i) = in_density i) is"

definition storable :: "recipe \<Rightarrow> bool" where
  "storable r \<longleftrightarrow> rc_ingredients r = concat (map sc_items (rc_sections r)) \<and> validated_items (rc_ingredients r) \<and>
     0 < rc_confidence r \<and> rc_confidence r \<le> 1"

lemma field_simps_json [simp]:
  "str_field (JStr s) = Inr s"
  "opt_field str_field (or_null JStr t) = Inr t"
  "model_fields (JObj d) = Inr d"
  "list_field f (JArr vs) = res_map f vs"
  "py_or (JArr vs) (JArr []) = JArr vs"
  by (cases t; auto simp: str_field_def opt_field_def or_null_def model_fields_def list_field_def py_or_def)+

lemma res_map_same: "(\<And>x. x \<in> set xs \<Longrightarrow> f (g x) = Inr x) \<Longrightarrow> res_map f (map g xs) = Inr xs"
  by (induction xs) simp_all

lemma texts_loaded [simp]: "res_map str_field (map JStr ts) = Inr ts"
  by (rule res_map_same) simp

lemma ints_loaded [simp]: "reads_numbers P \<Longrightarrow> opt_field (int_field P) (or_null JInt n) = Inr n"
  by (cases n) (simp_all add: opt_field_def or_null_def int_field_def reads_numbers_def)

lemma ingredient_loaded:
  "reads_numbers P \<Longrightarrow> sane (in_density i) = in_density i \<Longrightarrow> load_ingredient P (dump_ingredient i) = Inr i"
  by (cases "in_density i")
    (auto simp: load_ingredient_def dump_ingredient_def dget_def parse_density_g_per_ml_def reads_numbers_def sane_def or_null_def [of JNum])

lemma items_loaded: "reads_numbers P \<Longrightarrow> validated_items is \<Longrightarrow> res_map (load_ingredient P) (map dump_ingredient is) = Inr is"
  by (rule res_map_same) (auto simp: validated_items_def list_all_iff ingredient_loaded)

lemma sections_loaded:
  assumes "reads_numbers P" "validated_items (concat (map sc_items ss))"
  shows "res_map (load_section P) (map dump_section ss) = Inr ss"
proof (rule res_map_same)
  fix s assume "s \<in> set ss"
  with assms(2) have "validated_items (sc_items s)" by (auto simp: validated_items_def list_all_iff)
  with assms(1) show "load_section P (dump_section s) = Inr s"
    by (simp add: load_section_def dump_section_def dget_def has_key_def items_loaded)
qed

lemma steps_loaded [simp]: "reads_numbers P \<Longrightarrow> res_map (load_step P) (map dump_step ss) = Inr ss"
  by (rule res_map_same) (simp add: load_step_def dump_step_def dget_def int_field_def [of _ "JInt n" for n] reads_numbers_def
      opt_field_def or_null_def split: option.split)

lemma tips_loaded [simp]: "res_map load_tip (map dump_tip ts) = Inr ts"
  by (rule res_map_same) (simp add: load_tip_def dump_tip_def dget_def)

lemma platform_loaded [simp]: "platform_of (platform_name p) = Inr p"
  by (cases p) simp_all

lemma row_read:
  assumes P: "reads_numbers P" and r: "storable r" and c: "clean_urls (rc_carousel r)" and row: "recipe_to_row rep r url_norm lang = Inr row"
  shows "recipe_from_row P rep lbs (stored_row i row) = Inr (r\<lparr>rc_id := Some i, rc_language := normalize_language (Some lang)\<rparr>)"
proof -
  let ?row = "stored_row i row"
  have row: "row = [(''source_url_raw'', JStr (rc_source r)), (''source_url_norm'', JStr url_norm), (''language_code'', JStr lang),
       (''platform'', JStr (platform_name (rc_platform r))), (''title'', JStr (rc_title r)),
       (''description'', or_null JStr (rc_description r)), (''author'', or_null JStr (rc_author r)),
       (''thumbnail_url'', or_null JStr (rc_thumbnail r)), (''carousel_image_urls'', text_list (rc_carousel r)),
       (''ingredients'', JArr (map dump_ingredient (rc_ingredients r))),
       (''ingredient_sections'', JArr (map dump_section (rc_sections r))),
       (''steps'', JArr (map dump_step (rc_steps r))), (''servings'', or_null JInt (rc_servings r)),
       (''prep_minutes'', or_null JInt (rc_prep r)), (''cook_minutes'', or_null JInt (rc_cook r)),
       (''tags'', text_list (rc_tags r)), (''confidence'', JNum (rc_confidence r)),
       (''missing_fields'', text_list (rc_missing r)), (''raw_transcript'', or_null JStr (rc_transcript r)),
       (''tips'', JArr (map dump_tip (rc_tips r)))]"
    using row carousel_urls_same [OF c] by (simp add: recipe_to_row_def)
  have col: "column_list ?row ''ingredient_sections'' = JArr (map dump_section (rc_sections r))"
    "column_list ?row ''ingredients'' = JArr (map dump_ingredient (rc_ingredients r))"
    "column_list ?row ''steps'' = JArr (map dump_step (rc_steps r))" "column_list ?row ''tags'' = JArr (map JStr (rc_tags r))"
    "column_list ?row ''missing_fields'' = JArr (map JStr (rc_missing r))" "column_list ?row ''tips'' = JArr (map dump_tip (rc_tips r))"
    by (simp_all add: row stored_row_def column_list_def dget_def text_list_def)
  have get: "dget ?row ''servings'' = or_null JInt (rc_servings r)" "dget ?row ''prep_minutes'' = or_null JInt (rc_prep r)"
    "dget ?row ''cook_minutes'' = or_null JInt (rc_cook r)" "dget ?row ''thumbnail_url'' = or_null JStr (rc_thumbnail r)"
    "dget ?row ''carousel_image_urls'' = text_list (rc_carousel r)" "dget ?row ''author'' = or_null JStr (rc_author r)"
    "dget ?row ''description'' = or_null JStr (rc_description r)" "dget ?row ''raw_transcript'' = or_null JStr (rc_transcript r)"
    by (simp_all add: row stored_row_def dget_def)
  have one: "row_title ?row = Inr (rc_title r)" "row_platform ?row = Inr (rc_platform r)" "column_text ?row ''id'' = Some i"
    "column_text ?row ''language_code'' = Some lang"
    by (cases "rc_platform r"; simp add: row stored_row_def row_title_def row_platform_def column_text_def dget_def py_or_def)+
  have "str_field (row_source ?row) = Inr (rc_source r)"
    by (simp add: row stored_row_def row_source_def dget_def py_or_def str_field_def)
  moreover have "row_confidence P ?row = Inr (rc_confidence r)"
    using P r by (simp add: row stored_row_def row_confidence_def dget_def py_or_def reads_numbers_def storable_def)
  moreover have "sections_from_row P lbs ?row = Inr (rc_sections r)"
  proof -
    have i: "rc_ingredients r = concat (map sc_items (rc_sections r))" using r by (simp add: storable_def)
    have "validated_items (concat (map sc_items (rc_sections r)))" using r unfolding storable_def by metis
    from sections_loaded [OF P this] show ?thesis by (simp add: sections_from_row_def Let_def col i)
  qed
  ultimately show ?thesis using P r carousel_urls_same [OF c]
    by (simp add: recipe_from_row_def col get one storable_def)
qed

text \<open>C26: What is written is what is read. A recipe whose ingredients are those of its sections, with a confidence
  above zero and clean carousel addresses, is written without an error, and reading the row gives the
  same recipe with its identifier and the language of the row.\<close>

theorem recipe_row_roundtrip:
  assumes "reads_numbers P" "storable r" "clean_urls (rc_carousel r)"
  shows "\<exists>row. recipe_to_row rep r url_norm lang = Inr row \<and>
    recipe_from_row P rep lbs (stored_row i row) = Inr (r\<lparr>rc_id := Some i, rc_language := normalize_language (Some lang)\<rparr>)"
proof -
  obtain row where "recipe_to_row rep r url_norm lang = Inr row"
    using carousel_urls_same [OF assms(3)] by (simp add: recipe_to_row_def)
  with row_read [OF assms] show ?thesis by blast
qed

definition ex_pydantic :: pydantic where
  "ex_pydantic = \<lparr>pd_int = (\<lambda>v. case v of JInt n \<Rightarrow> Some n | _ \<Rightarrow> None), pd_float = num_value\<rparr>"

definition ex_dish :: recipe where
  "ex_dish = no_recipe\<lparr>rc_title := ''Arroz'', rc_sections := [\<lparr>sc_title = ''Base'', sc_items = [ingredient ''Arroz'' (Some ''1'') None (Some (17 / 20))]\<rparr>],
     rc_ingredients := [ingredient ''Arroz'' (Some ''1'') None (Some (17 / 20))], rc_confidence := 9 / 10,
     rc_carousel := [''https://a/1''], rc_servings := Some 2\<rparr>"

lemma ex_dish_ok: "reads_numbers ex_pydantic" "storable ex_dish" "clean_urls (rc_carousel ex_dish)"
proof -
  show "reads_numbers ex_pydantic" by (simp add: reads_numbers_def ex_pydantic_def)
  show "storable ex_dish" by (simp add: storable_def ex_dish_def validated_items_def ingredient_def sane_def)
  show "clean_urls (rc_carousel ex_dish)" by code_simp
qed

theorem recipe_row_roundtrip_witness:
  "\<exists>row. recipe_to_row (\<lambda>_. []) ex_dish ''x'' ''es-ES'' = Inr row \<and>
    recipe_from_row ex_pydantic (\<lambda>_. []) (\<lambda>_. english) (stored_row ''r'' row) =
      Inr (ex_dish\<lparr>rc_id := Some ''r'', rc_language := normalize_language (Some ''es-ES'')\<rparr>)"
  by (rule recipe_row_roundtrip [OF ex_dish_ok])

subsection \<open>Translated rows\<close>

text \<open>The payload of \<open>recipe_translation_payload\<close> as JSON, and \<open>row.update (payload)\<close> with the new language.\<close>

definition translation_json :: "recipe \<Rightarrow> dict" where
  "translation_json r = [(''title'', JStr (rc_title r)), (''description'', or_null JStr (rc_description r)),
     (''ingredient_sections'', JArr (map dump_section (rc_sections r))), (''steps'', JArr (map dump_step (rc_steps r))),
     (''tags'', text_list (rc_tags r)), (''missing_fields'', text_list (rc_missing r)), (''tips'', JArr (map dump_tip (rc_tips r)))]"

definition update_row_with :: "dict \<Rightarrow> dict \<Rightarrow> dict" where
  "update_row_with payload row = fold (\<lambda>(k, v). dput k v) payload row"

definition translated_row :: "string \<Rightarrow> dict \<Rightarrow> dict \<Rightarrow> dict" where
  "translated_row code payload row = dput ''language_code'' (JStr code) (update_row_with payload row)"

definition row_fingerprint :: "(json \<Rightarrow> string) \<Rightarrow> (string \<Rightarrow> labels) \<Rightarrow> dict \<Rightarrow> string" where
  "row_fingerprint digest lbs row =
     (let sections = column_list row ''ingredient_sections'';
          sections = (if \<not> truthy sections \<and> truthy (dget row ''ingredients'')
            then JArr [JObj [(''title'', JStr (lb_section (lbs (normalize_language (column_text row ''language_code''))))),
              (''ingredients'', column_list row ''ingredients'')]] else sections)
      in digest (JObj [(''title'', dget row ''title''), (''description'', dget row ''description''), (''ingredient_sections'', sections),
           (''steps'', column_list row ''steps''), (''servings'', dget row ''servings''), (''prep_minutes'', dget row ''prep_minutes''),
           (''cook_minutes'', dget row ''cook_minutes''), (''tags'', column_list row ''tags''),
           (''missing_fields'', column_list row ''missing_fields''), (''tips'', column_list row ''tips'')]))"

lemma dget_update: "dget (update_row_with p row) k = (case map_of (rev p) k of None \<Rightarrow> dget row k | Some v \<Rightarrow> v)"
proof -
  have "map_of (update_row_with p row) = map_of row ++ map_of (rev p)"
    unfolding update_row_with_def by (induction p arbitrary: row) (auto simp: map_add_def fun_eq_iff split: option.split)
  then show ?thesis by (auto simp: dget_def map_add_def split: option.split)
qed

lemma dget_translated:
  "dget (translated_row code p row) k = (if k = ''language_code'' then JStr code else case map_of (rev p) k of None \<Rightarrow> dget row k | Some v \<Rightarrow> v)"
  using dget_update [of p row k] by (simp add: translated_row_def dget_def)

lemma dget_Cons: "dget ((k', v) # d) k = (if k = k' then v else dget d k)" "dget [] k = JNull"
  by (simp_all add: dget_def)

text \<open>Reading depends on the columns only.\<close>

lemma row_title_present: "has_key row ''title'' \<Longrightarrow> row_title row = str_field (dget row ''title'')"
  by (auto simp: row_title_def has_key_def dget_def split: option.split)

text \<open>A translated row is read as the recipe with the texts laid over it: what Translation_Job calls
  \<open>overlay_payload\<close> is what the code does to the row.\<close>

theorem overlay_refines:
  assumes P: "reads_numbers P" and r: "storable r" "clean_urls (rc_carousel r)"
    and t: "rc_sections t \<noteq> []" "validated_items (concat (map sc_items (rc_sections t)))"
    and row: "recipe_to_row rep r url_norm lang = Inr row"
  shows "recipe_from_row P rep lbs (translated_row code (translation_json t) (stored_row i row)) =
    Inr ((overlay_payload r (recipe_translation_payload t))\<lparr>rc_id := Some i, rc_language := normalize_language (Some code)\<rparr>)"
proof -
  define R where "R = overlay_payload r (recipe_translation_payload t)"
  have e: "rc_source R = rc_source r" "rc_platform R = rc_platform r" "rc_author R = rc_author r" "rc_thumbnail R = rc_thumbnail r"
    "rc_servings R = rc_servings r" "rc_prep R = rc_prep r" "rc_cook R = rc_cook r" "rc_confidence R = rc_confidence r"
    "rc_transcript R = rc_transcript r" "rc_carousel R = rc_carousel r"
    "rc_title R = rc_title t" "rc_description R = rc_description t" "rc_sections R = rc_sections t" "rc_steps R = rc_steps t"
    "rc_tags R = rc_tags t" "rc_missing R = rc_missing t" "rc_tips R = rc_tips t"
    "rc_ingredients R = concat (map sc_items (rc_sections t))"
    by (simp_all add: R_def overlay_payload_def recipe_translation_payload_def)
  have R: "storable R" "clean_urls (rc_carousel R)" using r t e by (simp_all add: storable_def)
  obtain row' where row': "recipe_to_row rep R url_norm code = Inr row'"
    using carousel_urls_same [OF R(2)] by (simp add: recipe_to_row_def)
  let ?a = "translated_row code (translation_json t) (stored_row i row)" and ?b = "stored_row i row'"
  have c: "carousel_urls rep (text_list (rc_carousel r)) = Inr (rc_carousel r)" by (rule carousel_urls_same [OF r(2)])
  have same: "list_all (\<lambda>k. dget ?a k = dget ?b k) [''id'', ''source_url_raw'', ''source_url'', ''language_code'', ''platform'', ''title'',
      ''description'', ''author'', ''thumbnail_url'', ''carousel_image_urls'', ''ingredient_sections'', ''steps'', ''servings'',
      ''prep_minutes'', ''cook_minutes'', ''tags'', ''confidence'', ''missing_fields'', ''raw_transcript'', ''tips'']"
    using row row' by (auto simp: recipe_to_row_def e c dget_translated stored_row_def translation_json_def dget_Cons)
  have key: "has_key ?a ''title''" by (simp add: has_key_def translated_row_def update_row_with_def translation_json_def)
  have key': "has_key ?b ''title''" using row' by (auto simp: has_key_def stored_row_def recipe_to_row_def res_bind_eq_Inr)
  have sections: "truthy (column_list ?a ''ingredient_sections'')"
    using t(1) by (simp add: column_list_def dget_translated translation_json_def py_or_def)
  have "recipe_from_row P rep lbs ?a = recipe_from_row P rep lbs ?b"
    using sections
    by (simp add: recipe_from_row_def sections_from_row_def Let_def column_list_def same [simplified] row_title_present [OF key] row_title_present [OF key']
        row_confidence_def row_source_def row_platform_def column_text_def)
  with row_read [OF P R row'] show ?thesis by (simp add: R_def)
qed

end
