(* ===== verification/Recipe_Shelf.thy ===== *)
theory Recipe_Shelf
  imports Recipe_Rows
begin

section \<open>The saved recipes of a user\<close>

text \<open>
  \<open>GET /v1/me/recipes\<close> and \<open>GET /v1/recipes/{id}\<close> of app/main.py with the queries of app/store.py and
  app/translation_cache.py behind them. The database is the rows of \<open>recipes\<close>, the links of
  \<open>user_recipes\<close> with the time of saving, and \<open>recipe_translations\<close>; a statement of a user sees his own
  links and every recipe (migration 011).
\<close>

record shelf =
  sh_recipes :: "dict list"
  sh_saved :: "(uuid \<times> uuid \<times> instant) list"
  sh_translations :: "dict translation list"

record recipe_public =
  pu_id :: uuid
  pu_title :: string
  pu_ingredients :: "ingredient list"
  pu_sections :: "ingredient_section list"
  pu_steps :: "recipe_step list"
  pu_servings :: "int option"
  pu_prep :: "int option"
  pu_cook :: "int option"
  pu_tags :: "string list"
  pu_source :: string
  pu_platform :: platform
  pu_thumbnail :: "string option"
  pu_carousel :: "string list"
  pu_author :: "string option"
  pu_description :: "string option"
  pu_tips :: "recipe_tip list"
  pu_language :: string

record recipe_summary =
  sm_id :: uuid
  sm_title :: string
  sm_platform :: platform
  sm_source :: string
  sm_thumbnail :: "string option"
  sm_author :: "string option"
  sm_servings :: "int option"
  sm_prep :: "int option"
  sm_cook :: "int option"
  sm_saved_at :: instant
  sm_language :: string

text \<open>What reading a row needs: pydantic, \<open>str\<close> of containers, the titles of the languages, SHA-256 of JSON.\<close>

record reading =
  rd_pydantic :: pydantic
  rd_rep :: "json \<Rightarrow> string"
  rd_labels :: "string \<Rightarrow> labels"
  rd_digest :: "json \<Rightarrow> string"

subsection \<open>Rows\<close>

definition row_id :: "dict \<Rightarrow> uuid res" where
  "row_id row = (case column_text row ''id'' of None \<Rightarrow> Inl (ValueError ''recipe row missing id'')
     | Some i \<Rightarrow> if i = [] then Inl (ValueError ''recipe row missing id'') else Inr i)"

definition recipe_public_from_row :: "reading \<Rightarrow> dict \<Rightarrow> recipe_public res" where
  "recipe_public_from_row E row =
     (let P = rd_pydantic E in
     res_bind (row_id row) (\<lambda>i.
     res_bind (sections_from_row P (rd_labels E) row) (\<lambda>sections.
     res_bind (row_title row) (\<lambda>title.
     res_bind (list_field (load_step P) (column_list row ''steps'')) (\<lambda>steps.
     res_bind (opt_field (int_field P) (dget row ''servings'')) (\<lambda>servings.
     res_bind (opt_field (int_field P) (dget row ''prep_minutes'')) (\<lambda>prep.
     res_bind (opt_field (int_field P) (dget row ''cook_minutes'')) (\<lambda>cook.
     res_bind (list_field str_field (column_list row ''tags'')) (\<lambda>tags.
     res_bind (str_field (row_source row)) (\<lambda>source.
     res_bind (row_platform row) (\<lambda>platform.
     res_bind (opt_field str_field (dget row ''thumbnail_url'')) (\<lambda>thumbnail.
     res_bind (carousel_urls (rd_rep E) (dget row ''carousel_image_urls'')) (\<lambda>carousel.
     res_bind (opt_field str_field (dget row ''author'')) (\<lambda>author.
     res_bind (opt_field str_field (dget row ''description'')) (\<lambda>description.
     res_bind (list_field load_tip (column_list row ''tips'')) (\<lambda>tips.
     Inr \<lparr>pu_id = i, pu_title = title, pu_ingredients = concat (map sc_items sections), pu_sections = sections,
       pu_steps = steps, pu_servings = servings, pu_prep = prep, pu_cook = cook, pu_tags = tags, pu_source = source,
       pu_platform = platform, pu_thumbnail = thumbnail, pu_carousel = carousel, pu_author = author,
       pu_description = description, pu_tips = tips,
       pu_language = normalize_language (column_text row ''language_code'')\<rparr>))))))))))))))))"

definition recipe_summary_from_row :: "reading \<Rightarrow> dict \<Rightarrow> instant \<Rightarrow> recipe_summary res" where
  "recipe_summary_from_row E row saved_at =
     (let P = rd_pydantic E in
     res_bind (row_id row) (\<lambda>i.
     res_bind (row_title row) (\<lambda>title.
     res_bind (row_platform row) (\<lambda>platform.
     res_bind (str_field (row_source row)) (\<lambda>source.
     res_bind (opt_field str_field (dget row ''thumbnail_url'')) (\<lambda>thumbnail.
     res_bind (opt_field str_field (dget row ''author'')) (\<lambda>author.
     res_bind (opt_field (int_field P) (dget row ''servings'')) (\<lambda>servings.
     res_bind (opt_field (int_field P) (dget row ''prep_minutes'')) (\<lambda>prep.
     res_bind (opt_field (int_field P) (dget row ''cook_minutes'')) (\<lambda>cook.
     Inr \<lparr>sm_id = i, sm_title = title, sm_platform = platform, sm_source = source, sm_thumbnail = thumbnail,
       sm_author = author, sm_servings = servings, sm_prep = prep, sm_cook = cook, sm_saved_at = saved_at,
       sm_language = normalize_language (column_text row ''language_code'')\<rparr>))))))))))"

subsection \<open>Queries\<close>

definition has_id :: "uuid \<Rightarrow> dict \<Rightarrow> bool" where
  "has_id i row \<longleftrightarrow> column_text row ''id'' = Some i"

definition get_recipe :: "uuid \<Rightarrow> shelf \<Rightarrow> dict option" where
  "get_recipe i d = find (has_id i) (sh_recipes d)"

definition user_owns_recipe :: "uuid \<Rightarrow> uuid \<Rightarrow> shelf \<Rightarrow> bool" where
  "user_owns_recipe u i d \<longleftrightarrow> list_ex (\<lambda>(v, r, _). v = u \<and> r = i) (sh_saved d)"

text \<open>The join, the latest first; the order of equal times is up to the database.\<close>

definition saved_rows :: "uuid \<Rightarrow> shelf \<Rightarrow> (instant \<times> dict) list" where
  "saved_rows u d =
     concat (map (\<lambda>(_, r, saved). map (Pair saved) (filter (has_id r) (sh_recipes d)))
       (sort_key (\<lambda>(_, _, saved). - saved) (filter (\<lambda>(v, _, _). v = u) (sh_saved d))))"

definition translation_of :: "uuid \<Rightarrow> string \<Rightarrow> shelf \<Rightarrow> dict translation option" where
  "translation_of i code d = find (\<lambda>t. tl_recipe t = i \<and> tl_lang t = code) (sh_translations d)"

definition get_recipe_translation :: "uuid \<Rightarrow> string \<Rightarrow> string \<Rightarrow> shelf \<Rightarrow> dict translation option" where
  "get_recipe_translation i lang fingerprint d =
     (case translation_of i (normalize_language (Some lang)) d of
        None \<Rightarrow> None
      | Some t \<Rightarrow> if fingerprint \<noteq> [] \<and> tl_print t \<noteq> fingerprint then None else Some t)"

definition localized_row :: "reading \<Rightarrow> dict \<Rightarrow> string \<Rightarrow> shelf \<Rightarrow> dict option" where
  "localized_row E row lang d =
     (let code = normalize_language (Some lang) in
      if normalize_language (column_text row ''language_code'') = code then Some (dput ''language_code'' (JStr code) row)
      else case get_recipe_translation (case column_text row ''id'' of None \<Rightarrow> [] | Some i \<Rightarrow> i) code
          (row_fingerprint (rd_digest E) (rd_labels E) row) d of
        None \<Rightarrow> None
      | Some t \<Rightarrow> Some (translated_row code (tl_payload t) row))"

subsection \<open>The two requests\<close>

type_synonym 'x visit = "(shelf, 'x) tx"

definition look :: "(shelf \<Rightarrow> 'x) \<Rightarrow> 'x visit" where
  "look f = atomically (\<lambda>d. (Inr (f d), d))"

definition not_in_list :: exn where "not_in_list = HTTPException 403 None ''Recipe not in your list'' None"
definition recipe_not_found :: exn where "recipe_not_found = HTTPException 404 None ''Recipe not found'' None"

text \<open>\<open>localized or row\<close>.\<close>

definition recipe_detail :: "reading \<Rightarrow> uuid \<Rightarrow> uuid \<Rightarrow> string \<Rightarrow> recipe_public visit" where
  "recipe_detail E u i language =
     tx_bind (look (user_owns_recipe u i)) (\<lambda>owned.
     if \<not> owned then tx_raise not_in_list
     else tx_bind (look (get_recipe i)) (\<lambda>found.
       case found of
         None \<Rightarrow> tx_raise recipe_not_found
       | Some row \<Rightarrow> tx_bind (look (localized_row E row (normalize_language (Some language)))) (\<lambda>localized.
           tx_lift (recipe_public_from_row E (case localized of None \<Rightarrow> row | Some x \<Rightarrow> if x = [] then row else x)))))"

definition summary_row :: "reading \<Rightarrow> string \<Rightarrow> (uuid \<Rightarrow> dict translation option) \<Rightarrow> dict \<Rightarrow> dict" where
  "summary_row E target translations row =
     (if normalize_language (column_text row ''language_code'') = target then row
      else case translations (case column_text row ''id'' of None \<Rightarrow> [] | Some i \<Rightarrow> i) of
        None \<Rightarrow> row
      | Some t \<Rightarrow> if tl_print t = row_fingerprint (rd_digest E) (rd_labels E) row
                 then translated_row target (tl_payload t) row else row)"

text \<open>The second query is made only when there are recipes; its rows are found by their recipe.\<close>

definition list_user_recipe_summaries :: "reading \<Rightarrow> uuid \<Rightarrow> string \<Rightarrow> recipe_summary list visit" where
  "list_user_recipe_summaries E u lang =
     (let target = normalize_language (Some lang) in
     tx_bind (look (saved_rows u)) (\<lambda>links.
     tx_bind (if links = [] then tx_return (\<lambda>_. None) else look (\<lambda>d i. translation_of i target d)) (\<lambda>translations.
     tx_lift (res_map (\<lambda>(saved, row). recipe_summary_from_row E (summary_row E target translations row) saved) links))))"

definition my_recipes :: "reading \<Rightarrow> uuid \<Rightarrow> string \<Rightarrow> recipe_summary list visit" where
  "my_recipes E u language = list_user_recipe_summaries E u (normalize_language (Some language))"

subsection \<open>The requests alone\<close>

lemma normalize_again [simp]: "normalize_language (Some (normalize_language v)) = normalize_language v"
  using normalize_language_supported [of v] supported_fixed by (simp add: list_all_iff)

lemma look_alone [simp]: "look f (alone d) = (Inr (f d), alone d)"
  by (simp add: look_def)

definition detail_row :: "reading \<Rightarrow> string \<Rightarrow> shelf \<Rightarrow> dict \<Rightarrow> dict" where
  "detail_row E lang d row = (case localized_row E row (normalize_language (Some lang)) d of None \<Rightarrow> row | Some x \<Rightarrow> if x = [] then row else x)"

lemma detail_alone:
  "user_owns_recipe u i d \<Longrightarrow> get_recipe i d = Some row \<Longrightarrow>
   recipe_detail E u i lang (alone d) = (recipe_public_from_row E (detail_row E lang d row), alone d)"
  by (cases "recipe_public_from_row E (detail_row E lang d row)")
    (simp_all add: recipe_detail_def detail_row_def tx_bind_def)

lemma my_recipes_alone:
  "my_recipes E u lang (alone d) =
     (let target = normalize_language (Some lang) in
      res_map (\<lambda>(saved, row). recipe_summary_from_row E (summary_row E target (\<lambda>i. translation_of i target d) row) saved) (saved_rows u d), alone d)"
  by (cases "saved_rows u d = []")
    (simp_all add: my_recipes_def list_user_recipe_summaries_def Let_def tx_bind_def normalize_again split: sum.split)

subsection \<open>The list and the page agree\<close>

definition agrees :: "recipe_summary \<Rightarrow> recipe_public \<Rightarrow> bool" where
  "agrees s p \<longleftrightarrow> sm_id s = pu_id p \<and> sm_title s = pu_title p \<and> sm_platform s = pu_platform p \<and> sm_source s = pu_source p \<and>
     sm_thumbnail s = pu_thumbnail p \<and> sm_author s = pu_author p \<and> sm_servings s = pu_servings p \<and>
     sm_prep s = pu_prep p \<and> sm_cook s = pu_cook p \<and> sm_language s = pu_language p"

text \<open>Two rows that differ at most in the spelling of the language.\<close>

definition same_columns :: "dict \<Rightarrow> dict \<Rightarrow> bool" where
  "same_columns x y \<longleftrightarrow> (\<forall>k. k \<noteq> ''language_code'' \<longrightarrow> map_of x k = map_of y k) \<and>
     normalize_language (column_text x ''language_code'') = normalize_language (column_text y ''language_code'')"

lemma same_columns_agree:
  assumes "same_columns x y" "recipe_summary_from_row E x saved = Inr s" "recipe_public_from_row E y = Inr p"
  shows "agrees s p \<and> sm_saved_at s = saved"
proof -
  have get: "k \<noteq> ''language_code'' \<Longrightarrow> map_of x k = map_of y k" for k using assms(1) by (simp add: same_columns_def)
  have "row_id x = row_id y" "row_title x = row_title y" "row_platform x = row_platform y" "row_source x = row_source y"
    "dget x ''thumbnail_url'' = dget y ''thumbnail_url''" "dget x ''author'' = dget y ''author''" "dget x ''servings'' = dget y ''servings''"
    "dget x ''prep_minutes'' = dget y ''prep_minutes''" "dget x ''cook_minutes'' = dget y ''cook_minutes''"
    by (simp_all add: row_id_def column_text_def row_title_def row_platform_def row_source_def dget_def get)
  with assms show ?thesis
    by (auto simp: recipe_summary_from_row_def recipe_public_from_row_def Let_def res_bind_eq_Inr agrees_def same_columns_def)
qed

lemma shown_rows_same:
  assumes "\<And>v. rd_digest E v \<noteq> []"
  shows "same_columns (summary_row E (normalize_language (Some lang)) (\<lambda>i. translation_of i (normalize_language (Some lang)) d) row)
    (detail_row E lang d row)"
proof -
  have p: "row_fingerprint (rd_digest E) (rd_labels E) row \<noteq> []" using assms by (simp add: row_fingerprint_def Let_def)
  have l: "dput k v r \<noteq> []" for k and v :: json and r by (induction k v r rule: dput.induct) auto
  have t: "translated_row c x row \<noteq> []" for c x by (simp add: translated_row_def l)
  show ?thesis
    using p by (auto simp: summary_row_def detail_row_def localized_row_def get_recipe_translation_def Let_def same_columns_def t l
        column_text_def dget_def split: option.split)
qed

lemma summary_row_id:
  assumes "list_all (\<lambda>t. \<not> has_key (tl_payload t) ''id'') (sh_translations d)"
  shows "column_text (summary_row E c (\<lambda>i. translation_of i c' d) row) ''id'' = column_text row ''id''"
proof -
  have "map_of (rev (tl_payload t)) ''id'' = None" if "translation_of i c' d = Some t" for i t
    using assms that by (auto simp: translation_of_def find_Some_iff list_all_length has_key_def map_of_eq_None_iff)
  then show ?thesis by (auto simp: summary_row_def column_text_def dget_translated split: option.split)
qed

lemma saved_rows_in:
  "(saved, row) \<in> set (saved_rows u d) \<longleftrightarrow> (\<exists>r. (u, r, saved) \<in> set (sh_saved d) \<and> row \<in> set (sh_recipes d) \<and> has_id r row)"
  by (auto simp: saved_rows_def)

lemma get_recipe_unique:
  assumes "distinct (map (\<lambda>row. column_text row ''id'') (sh_recipes d))" "row \<in> set (sh_recipes d)" "has_id i row"
  shows "get_recipe i d = Some row"
proof -
  have "get_recipe i d \<noteq> None" using assms(2,3) by (auto simp: get_recipe_def find_None_iff)
  then obtain x where x: "get_recipe i d = Some x" by blast
  then have "x \<in> set (sh_recipes d)" "has_id i x" by (auto simp: get_recipe_def find_Some_iff)
  then have "x = row" using assms by (simp add: has_id_def distinct_map inj_on_def)
  with x show ?thesis by simp
qed


text \<open>The list is complete and in order: every saved recipe that exists is in it with the time it was saved, nothing
  else is, and the latest come first.\<close>

lemma blocks_sorted:
  assumes "sorted (map (\<lambda>(_, _, saved). - saved) xs)"
  shows "sorted_wrt (\<ge>) (map fst (concat (map (\<lambda>(_, r, saved :: instant). map (Pair saved) (f r)) xs)))"
  using assms
proof (induction xs)
  case (Cons x xs)
  obtain u r saved where x: "x = (u, r, saved)" by (cases x)
  have "sorted_wrt (\<ge>) (map fst (map (Pair saved) (f r)))" by (induction "f r") (auto simp: sorted_wrt_map intro: sorted_wrt_mono_rel)
  with Cons x show ?case by (fastforce simp: sorted_wrt_append)
qed simp

theorem list_complete:
  assumes items: "fst (my_recipes E u lang (alone d)) = Inr items"
    and texts: "list_all (\<lambda>t. \<not> has_key (tl_payload t) ''id'') (sh_translations d)"
  shows "sorted_wrt (\<ge>) (map sm_saved_at items) \<and>
    set (map (\<lambda>s. (sm_id s, sm_saved_at s)) items) = {(r, saved). (u, r, saved) \<in> set (sh_saved d) \<and> list_ex (has_id r) (sh_recipes d)}"
proof -
  define target where "target = normalize_language (Some lang)"
  define shown where "shown = summary_row E target (\<lambda>i. translation_of i target d)"
  from items have "list_all2 (\<lambda>x s. recipe_summary_from_row E (shown (snd x)) (fst x) = Inr s) (saved_rows u d) items"
    by (simp add: my_recipes_alone Let_def shown_def target_def res_map_Inr_iff split_beta)
  then have all: "list_all2 (\<lambda>x s. (sm_id s, sm_saved_at s) = (the (column_text (snd x) ''id''), fst x)) (saved_rows u d) items"
  proof (rule list_all2_mono)
    fix x s assume "recipe_summary_from_row E (shown (snd x)) (fst x) = Inr s"
    then have "row_id (shown (snd x)) = Inr (sm_id s)" "sm_saved_at s = fst x"
      by (auto simp: recipe_summary_from_row_def Let_def res_bind_eq_Inr)
    then show "(sm_id s, sm_saved_at s) = (the (column_text (snd x) ''id''), fst x)"
      by (auto simp: row_id_def shown_def summary_row_id [OF texts] split: option.splits if_splits)
  qed
  then have e: "map (\<lambda>s. (sm_id s, sm_saved_at s)) items = map (\<lambda>x. (the (column_text (snd x) ''id''), fst x)) (saved_rows u d)"
    by (induction rule: list_all2_induct) simp_all
  have "map sm_saved_at items = map fst (saved_rows u d)" using arg_cong [OF e, of "map snd"] by (simp add: comp_def)
  moreover have "sorted_wrt (\<ge>) (map fst (saved_rows u d))" unfolding saved_rows_def by (intro blocks_sorted sorted_sort_key)
  moreover have "(\<lambda>x. (the (column_text (snd x) ''id''), fst x)) ` set (saved_rows u d) =
      {(r, saved). (u, r, saved) \<in> set (sh_saved d) \<and> list_ex (has_id r) (sh_recipes d)}"
  proof (intro set_eqI iffI; clarify)
    fix r saved assume "(u, r, saved) \<in> set (sh_saved d)" "list_ex (has_id r) (sh_recipes d)"
    then obtain row where "(saved, row) \<in> set (saved_rows u d)" "has_id r row" by (auto simp: saved_rows_in list_ex_iff)
    then show "(r, saved) \<in> (\<lambda>x. (the (column_text (snd x) ''id''), fst x)) ` set (saved_rows u d)"
      by (intro image_eqI [of _ _ "(saved, row)"]) (simp_all add: has_id_def)
  qed (auto simp: saved_rows_in list_ex_iff has_id_def)
  ultimately show ?thesis unfolding e by simp
qed

subsection \<open>Example\<close>

definition ex_reading :: reading where
  "ex_reading = \<lparr>rd_pydantic = ex_pydantic, rd_rep = (\<lambda>_. []), rd_labels = (\<lambda>_. english), rd_digest = (\<lambda>_. ''d'')\<rparr>"

definition ex_row :: dict where
  "ex_row = stored_row ''r'' (case recipe_to_row (\<lambda>_. []) ex_dish ''x'' ''es-ES'' of Inl _ \<Rightarrow> [] | Inr row \<Rightarrow> row)"

definition ex_shelf :: shelf where
  "ex_shelf = \<lparr>sh_recipes = [ex_row], sh_saved = [(''u'', ''r'', 7)],
     sh_translations = [\<lparr>tl_recipe = ''r'', tl_lang = ''en-US'', tl_payload = translation_json (ex_dish\<lparr>rc_title := ''Rice''\<rparr>), tl_print = ''d''\<rparr>]\<rparr>"

lemma ex_list: "map_option (map sm_title) (case fst (my_recipes ex_reading ''u'' ''en'' (alone ex_shelf)) of Inl _ \<Rightarrow> None | Inr xs \<Rightarrow> Some xs) = Some [''Rice'']"
  by code_simp


end
