(* ===== verification/Tiktok_Slides.thy ===== *)
theory Tiktok_Slides
  imports Url_Guard Py_Regex Pipeline
begin

section \<open>TikTok pages\<close>

text \<open>
  app/tiktok_slides.py: what the server reads out of the page of a TikTok post - the slides of a photo
  carousel, the addresses of captions and of the media. The page is a text, the data of its scripts
  \<open>json\<close>; the network (one text or nothing per attempt), the JSON parser, \<open>html.unescape\<close> and the rendering of
  containers by \<open>str\<close> are the fields of \<open>page_env\<close>.
\<close>

record page_env =
  pe_resolve :: "string \<Rightarrow> int \<Rightarrow> string list option"
  pe_fetch :: "bool \<Rightarrow> nat \<Rightarrow> string option"    \<comment> \<open>mobile, attempt\<close>
  pe_loads :: "string \<Rightarrow> json option"
  pe_unescape :: "string \<Rightarrow> string"
  pe_rep :: "json \<Rightarrow> string"

text \<open>\<open>MAX_CAROUSEL_SLIDES\<close>.\<close>

definition max_slides :: nat where "max_slides = 12"

subsection \<open>Addresses\<close>

definition https_url :: "string \<Rightarrow> bool res" where
  "https_url s = res_bind (urlparse s) (\<lambda>p. Inr (u_scheme p = ''https'' \<and> u_netloc p \<noteq> []))"

definition text_of :: "page_env \<Rightarrow> json \<Rightarrow> string" where
  "text_of E v = strip (py_str (pe_rep E) (py_or v (JStr [])))"

fun first_or :: "dict \<Rightarrow> string list \<Rightarrow> json \<Rightarrow> json" where
  "first_or d [] v = v"
| "first_or d (k # ks) v = py_or (dget d k) (first_or d ks v)"

text \<open>The candidates of one image, and the first acceptable one from the end.\<close>

definition candidates_of :: "json \<Rightarrow> json list" where
  "candidates_of img =
     (case img of
        JStr s \<Rightarrow> [JStr s]
      | JObj d \<Rightarrow>
          (let data = first_or d [''imageURL'', ''imageUrl'', ''image_url'', ''displayImage'', ''display_image''] (JObj []);
               data = (case data of JObj u \<Rightarrow> first_or u [''urlList'', ''url_list''] data | _ \<Rightarrow> data)
           in case data of JStr s \<Rightarrow> [JStr s] | JArr vs \<Rightarrow> vs | _ \<Rightarrow> [])
      | _ \<Rightarrow> [])"

fun pick_url :: "page_env \<Rightarrow> string list \<Rightarrow> json list \<Rightarrow> string option res" where
  "pick_url E seen [] = Inr None"
| "pick_url E seen (v # vs) =
     (let c = text_of E v in
      res_bind (https_url c) (\<lambda>ok.
        if ok \<and> length c \<le> 2048 \<and> c \<notin> set seen then Inr (Some c) else pick_url E seen vs))"

fun collect_images :: "page_env \<Rightarrow> json list \<Rightarrow> string list \<Rightarrow> string list \<Rightarrow> string list res" where
  "collect_images E [] seen out = Inr out"
| "collect_images E (img # images) seen out =
     res_bind (pick_url E seen (rev (candidates_of img))) (\<lambda>selected.
       case selected of
         None \<Rightarrow> collect_images E images seen out
       | Some c \<Rightarrow> collect_images E images (c # seen) (if length out < max_slides then out @ [c] else out))"

definition image_urls_with_count :: "page_env \<Rightarrow> json \<Rightarrow> (string list \<times> nat) res" where
  "image_urls_with_count E raw =
     (case raw of
        JArr images \<Rightarrow> res_bind (collect_images E images [] []) (\<lambda>out. Inr (out, length images))
      | _ \<Rightarrow> Inr ([], 0))"

definition image_urls :: "page_env \<Rightarrow> json \<Rightarrow> string list res" where
  "image_urls E raw = res_bind (image_urls_with_count E raw) (\<lambda>(urls, _). Inr urls)"

subsection \<open>The data of a page\<close>

text \<open>\<open>data[k1][k2]...\<close>, None for any exception.\<close>

fun json_path :: "string list \<Rightarrow> json \<Rightarrow> json option" where
  "json_path [] v = Some v"
| "json_path (k # ks) v = (case v of JObj d \<Rightarrow> (case map_of d k of Some x \<Rightarrow> json_path ks x | None \<Rightarrow> None) | _ \<Rightarrow> None)"

primrec first_some :: "('x \<Rightarrow> 'y option) \<Rightarrow> 'x list \<Rightarrow> 'y option" where
  "first_some f [] = None"
| "first_some f (x # xs) = (case f x of Some y \<Rightarrow> Some y | None \<Rightarrow> first_some f xs)"

definition has_photo_post :: "dict \<Rightarrow> bool" where
  "has_photo_post d \<longleftrightarrow>
     (case py_or (dget d ''imagePost'') (dget d ''image_post'') of
        JObj p \<Rightarrow> (case dget p ''images'' of JArr _ \<Rightarrow> True | _ \<Rightarrow> False)
      | _ \<Rightarrow> False)"

text \<open>The first argument is the number of levels that are still looked at.\<close>

primrec walk :: "nat \<Rightarrow> json \<Rightarrow> json option" where
  "walk 0 v = None"
| "walk (Suc n) v =
     (case v of
        JObj d \<Rightarrow> if has_photo_post d then Some v else first_some (walk n) (map snd d)
      | JArr vs \<Rightarrow> first_some (walk n) vs
      | _ \<Rightarrow> None)"

definition dig_item_struct :: "json \<Rightarrow> json option res" where
  "dig_item_struct data =
     (case json_path [''__DEFAULT_SCOPE__'', ''webapp.video-detail'', ''itemInfo'', ''itemStruct''] data of
        Some v \<Rightarrow> Inr (Some v)
      | None \<Rightarrow>
          res_bind (as_dict data) (\<lambda>d.
            case dget d ''ItemModule'' of
              JObj (p # ps) \<Rightarrow> Inr (find is_dict (map snd (p # ps)))
            | _ \<Rightarrow> Inr (walk 9 data)))"

text \<open>
  \<open><script id="..."[^>]*>(.*?)</script>\<close>: the leftmost start decides, as any later one that could match
  ends behind the same closing tags.
\<close>

definition dquote :: string where "dquote = [CHR 0x22]"

definition script_text :: "string \<Rightarrow> string \<Rightarrow> string option" where
  "script_text ident html =
     (case split_once (''<script id='' @ dquote @ ident @ dquote) html of
        None \<Rightarrow> None
      | Some (_, rest) \<Rightarrow>
          (case split_once ''>'' rest of
             None \<Rightarrow> None
           | Some (_, body) \<Rightarrow> map_option fst (split_once ''</script>'' body)))"

fun item_from_scripts :: "page_env \<Rightarrow> string \<Rightarrow> string list \<Rightarrow> json option res" where
  "item_from_scripts E html [] = Inr None"
| "item_from_scripts E html (i # is) =
     (case script_text i html of
        None \<Rightarrow> item_from_scripts E html is
      | Some t \<Rightarrow>
          (case pe_loads E t of
             None \<Rightarrow> item_from_scripts E html is
           | Some data \<Rightarrow> res_bind (dig_item_struct data) (\<lambda>item.
               case item of
                 Some v \<Rightarrow> if truthy v then Inr (Some v) else item_from_scripts E html is
               | None \<Rightarrow> item_from_scripts E html is)))"

definition item_from_html :: "page_env \<Rightarrow> string \<Rightarrow> json option res" where
  "item_from_html E html = item_from_scripts E html [''__UNIVERSAL_DATA_FOR_REHYDRATION__'', ''SIGI_STATE'']"

definition fetch_html :: "page_env \<Rightarrow> string \<Rightarrow> bool \<Rightarrow> string option" where
  "fetch_html E url mobile =
     (case validate_public_url (pe_resolve E) [''tiktok.com''] url of
        Inl _ \<Rightarrow> None
      | Inr _ \<Rightarrow> (case pe_fetch E mobile 0 of Some t \<Rightarrow> Some t | None \<Rightarrow> pe_fetch E mobile 1))"

definition or_empty :: "string option \<Rightarrow> string" where
  "or_empty t = (case t of None \<Rightarrow> [] | Some s \<Rightarrow> s)"

definition fetch_tiktok_item :: "page_env \<Rightarrow> string \<Rightarrow> json option res" where
  "fetch_tiktok_item E url =
     res_bind (item_from_html E (or_empty (fetch_html E url False))) (\<lambda>item.
       case item of
         Some v \<Rightarrow> Inr (Some v)
       | None \<Rightarrow> item_from_html E (or_empty (fetch_html E url True)))"

subsection \<open>Carousels\<close>

text \<open>\<open>(x or y or "").strip ()\<close>.\<close>

definition stripped :: "json \<Rightarrow> string res" where
  "stripped v = (case v of JStr s \<Rightarrow> Inr (strip s) | _ \<Rightarrow> Inl AttributeError)"

text \<open>An author's \<open>uniqueId\<close> that is no text counts as none.\<close>

definition unique_id :: "json \<Rightarrow> string option res" where
  "unique_id author =
     res_bind (as_dict (py_or author (JObj []))) (\<lambda>d. Inr (case dget d ''uniqueId'' of JStr s \<Rightarrow> Some s | _ \<Rightarrow> None))"

definition incomplete_of :: "nat \<Rightarrow> nat \<Rightarrow> string option" where
  "incomplete_of whole readable =
     (if max_slides < whole
      then Some (''TikTok carousel has '' @ nat_str whole @ '' slides; the supported limit is '' @ nat_str max_slides)
      else if readable \<noteq> whole
      then Some (''TikTok carousel exposes '' @ nat_str whole @ '' slides but only '' @ nat_str readable @ '' readable image references'')
      else None)"

definition slide_info_from_html :: "page_env \<Rightarrow> string \<Rightarrow> slide_info option res" where
  "slide_info_from_html E html =
     res_bind (item_from_html E html) (\<lambda>found.
       case found of
         None \<Rightarrow> Inr None
       | Some v \<Rightarrow>
           res_bind (as_dict v) (\<lambda>item.
           let post = py_or (py_or (dget item ''imagePost'') (dget item ''image_post'')) (JObj []);
               pd = (case post of JObj d \<Rightarrow> d | _ \<Rightarrow> []);
               raw = (if is_dict post then dget pd ''images'' else JNull)
           in res_bind (image_urls_with_count E raw) (\<lambda>(images, whole).
              if images = [] then Inr None
              else
                res_bind (stripped (first_or pd [''title''] (py_or (dget item ''desc'') (JStr [])))) (\<lambda>title.
                res_bind (stripped (py_or (dget item ''desc'') (JStr []))) (\<lambda>description.
                res_bind (unique_id (dget item ''author'')) (\<lambda>author.
                Inr (Some \<lparr>sl_title = title, sl_description = description, sl_author = author, sl_image_urls = images,
                  sl_incomplete = incomplete_of whole (length images)\<rparr>)))))))"

text \<open>
  The fallback on the \<open>meta\<close> tags of the page. The two expressions of the code as terms of \<open>Py_Regex\<close>, their
  matches one after the other, and the two groups of an attribute read off the text of its match.
\<close>

definition not_gt :: rx where
  "not_gt = Cls (\<lambda>c. c \<noteq> CHR ''>'')"

definition meta_re :: rx where
  "meta_re = cat [lit ''<meta'', WordB, many not_gt, lit ''>'']"

definition is_name :: "char \<Rightarrow> bool" where
  "is_name c \<longleftrightarrow> c = CHR '':'' \<or> c = CHR ''-'' \<or> is_word c"

definition quote_re :: rx where
  "quote_re = Cls (\<lambda>c. c = CHR 0x22 \<or> c = CHR 0x27)"

definition attr_re :: rx where
  "attr_re = cat [many1 (Cls is_name), many space, lit ''='', many space, quote_re, Rep False 0 None any_char, quote_re]"

fun rx_findall :: "nat \<Rightarrow> rx \<Rightarrow> string \<Rightarrow> string list" where
  "rx_findall 0 r s = []"
| "rx_findall (Suc n) r s =
     (case rx_find r s of
        None \<Rightarrow> []
      | Some (i, j) \<Rightarrow> take (j - i) (drop i s) # (if i < j then rx_findall n r (drop j s) else []))"

definition attr_groups :: "string \<Rightarrow> string \<times> string" where
  "attr_groups m = (takeWhile is_name m,
     butlast (tl (dropWhile (\<lambda>c. c \<noteq> CHR 0x22 \<and> c \<noteq> CHR 0x27) m)))"

definition meta_attrs :: "string \<Rightarrow> (string \<times> string) list" where
  "meta_attrs tag = fold (\<lambda>m d. case attr_groups m of (k, v) \<Rightarrow> dput k v d) (rx_findall (length tag) attr_re tag) []"

definition attr_or :: "(string \<times> string) list \<Rightarrow> string \<Rightarrow> string" where
  "attr_or d k = or_empty (map_of d k)"

definition meta_value :: "page_env \<Rightarrow> string \<Rightarrow> string \<times> string" where
  "meta_value E tag =
     (let d = meta_attrs tag
      in (lower (if attr_or d ''property'' \<noteq> [] then attr_or d ''property'' else attr_or d ''name''),
          pe_unescape E (strip (attr_or d ''content''))))"

definition meta_values :: "page_env \<Rightarrow> string \<Rightarrow> string \<Rightarrow> string list" where
  "meta_values E html k =
     map snd (filter (\<lambda>(key, content). key = k \<and> key \<noteq> [] \<and> content \<noteq> []) (map (meta_value E) (rx_findall (length html) meta_re html)))"

fun collect_meta :: "string list \<Rightarrow> string list \<Rightarrow> string list res" where
  "collect_meta images [] = Inr images"
| "collect_meta images (c # cs) =
     res_bind (https_url c) (\<lambda>ok.
       if \<not> ok \<or> c \<in> set images then collect_meta images cs
       else if max_slides \<le> length images + 1 then Inr (images @ [c])
       else collect_meta (images @ [c]) cs)"

definition first_value :: "page_env \<Rightarrow> string \<Rightarrow> string \<Rightarrow> string \<Rightarrow> string" where
  "first_value E html k k' =
     (case meta_values E html k of v # _ \<Rightarrow> v | [] \<Rightarrow> (case meta_values E html k' of v # _ \<Rightarrow> v | [] \<Rightarrow> []))"

definition not_proven :: string where
  "not_proven = ''TikTok carousel hydration was unavailable; Open Graph images do not prove complete carousel coverage''"

definition photo_meta_fallback :: "page_env \<Rightarrow> string \<Rightarrow> string \<Rightarrow> slide_info option res" where
  "photo_meta_fallback E html url =
     res_bind (collect_meta [] (meta_values E html ''og:image'' @ meta_values E html ''twitter:image'')) (\<lambda>images.
       if images = [] then Inr None
       else res_bind (urlparse url) (\<lambda>u.
         Inr (Some \<lparr>sl_title = strip (first_value E html ''og:title'' ''twitter:title''),
           sl_description = strip (first_value E html ''og:description'' ''description''),
           sl_author = map_option tl (find (\<lambda>x. starts_with x ''@'') (filter (\<lambda>x. x \<noteq> []) (split_char (CHR ''/'') (u_path u)))),
           sl_image_urls = images, sl_incomplete = Some not_proven\<rparr>)))"

definition fetch_tiktok_slides :: "page_env \<Rightarrow> string \<Rightarrow> slide_info option res" where
  "fetch_tiktok_slides E url =
     res_bind (urlparse url) (\<lambda>u.
       if \<not> contains (lower (u_path u)) ''/photo/'' then Inr None
       else
         let mobile = fetch_html E url True in
         res_bind (slide_info_from_html E (or_empty mobile)) (\<lambda>found.
         if found \<noteq> None then Inr found
         else let html = fetch_html E url False in
           res_bind (slide_info_from_html E (or_empty html)) (\<lambda>found.
           if found \<noteq> None then Inr found
           else photo_meta_fallback E (if or_empty html \<noteq> [] then or_empty html else or_empty mobile) url)))"

subsection \<open>Captions and media\<close>

text \<open>The loops that keep an address once, if it is secure and not too long.\<close>

definition accept_url :: "string \<Rightarrow> string list \<Rightarrow> string list res" where
  "accept_url c urls =
     res_bind (https_url c) (\<lambda>ok. Inr (if \<not> ok \<or> c \<in> set urls \<or> 4096 < length c then urls else urls @ [c]))"

fun fold_res :: "('x \<Rightarrow> 'y \<Rightarrow> 'y res) \<Rightarrow> 'x list \<Rightarrow> 'y \<Rightarrow> 'y res" where
  "fold_res f [] y = Inr y"
| "fold_res f (x # xs) y = res_bind (f x y) (fold_res f xs)"

lemma fold_res_cong [fundef_cong]:
  "xs = ys \<Longrightarrow> y = z \<Longrightarrow> (\<And>x w. x \<in> set ys \<Longrightarrow> f x w = g x w) \<Longrightarrow> fold_res f xs y = fold_res g ys z"
proof (induction xs arbitrary: ys y z)
  case (Cons x xs)
  then show ?case by (cases ys) (auto intro!: res_bind_cong)
qed simp

text \<open>What a loop sees of a value: a dictionary or a text gives texts, which it passes over.\<close>

definition iterable :: "json \<Rightarrow> json list res" where
  "iterable v = (case v of JArr vs \<Rightarrow> Inr vs | JObj _ \<Rightarrow> Inr [] | JStr _ \<Rightarrow> Inr [] | _ \<Rightarrow> Inl TypeError)"

definition caption_targets :: "dict \<Rightarrow> json list res" where
  "caption_targets video =
     (let caps = (case first_or video [''claInfo'', ''cla''] (JObj []) of
            JObj cla \<Rightarrow> (case dget cla ''captionInfos'' of JArr vs \<Rightarrow> vs | _ \<Rightarrow> []) | _ \<Rightarrow> []);
          dicts = List.map_filter (\<lambda>v. case v of JObj d \<Rightarrow> Some d | _ \<Rightarrow> None);
          target = (\<lambda>c. first_or c [''url''] (dget c ''Url''));
          original = filter (\<lambda>c. truthy (dget c ''isOriginalCaption'')) (dicts caps);
          foreign = filter (\<lambda>c. \<not> truthy (dget c ''isOriginalCaption'')) (dicts caps)
      in res_bind (iterable (first_or video [''subtitleInfos'', ''subtitle_infos''] (JArr []))) (\<lambda>infos.
         Inr (map target original @ map target foreign @ map (\<lambda>i. first_or i [''Url''] (dget i ''url'')) (dicts infos))))"

definition video_of :: "json \<Rightarrow> dict option" where
  "video_of item = (case item of JObj d \<Rightarrow> (case dget d ''video'' of JObj v \<Rightarrow> Some v | _ \<Rightarrow> None) | _ \<Rightarrow> None)"

definition tiktok_caption_urls :: "page_env \<Rightarrow> json \<Rightarrow> string list res" where
  "tiktok_caption_urls E item =
     (case video_of item of
        None \<Rightarrow> Inr []
      | Some video \<Rightarrow> res_bind (caption_targets video) (\<lambda>ts. fold_res (\<lambda>t. accept_url (text_of E t)) ts []))"

definition play_keys :: "string list" where
  "play_keys = [''url_list'', ''urlList'', ''UrlList'', ''url'', ''Url'', ''playAddr'', ''PlayAddr'']"

lemma size_field: "map_of d k = Some v \<Longrightarrow> size v < size (JObj d)"
  by (drule map_of_SomeD, induction d) auto

lemma size_element: "v \<in> set vs \<Longrightarrow> size v < size (JArr vs)"
  by (induction vs) auto

function add_play_url :: "json \<Rightarrow> string list \<Rightarrow> string list res" where
  "add_play_url v urls =
     (if 6 \<le> length urls then Inr urls
      else case v of
        JStr s \<Rightarrow> accept_url (strip s) urls
      | JObj d \<Rightarrow> fold_res add_play_url (List.map_filter (map_of d) play_keys) urls
      | JArr vs \<Rightarrow> fold_res add_play_url (take 8 vs) urls
      | _ \<Rightarrow> Inr urls)"
  by pat_completeness auto
termination
proof (relation "measure (\<lambda>(v, _). size v)", goal_cases)
  case (2 v urls vs x w)
  then have "x \<in> set vs" by (auto dest: in_set_takeD)
  with 2 size_element show ?case by simp
next
  case (3 v urls d x w)
  then obtain k where "map_of d k = Some x" by (auto simp: List.map_filter_def)
  with 3 size_field show ?case by simp
qed simp

declare add_play_url.simps [simp del]

definition tiktok_play_urls :: "json \<Rightarrow> string list res" where
  "tiktok_play_urls item =
     (case video_of item of
        None \<Rightarrow> Inr []
      | Some v \<Rightarrow> fold_res add_play_url
          [first_or v [''playAddr''] (dget v ''play_addr''), dget v ''PlayAddrStruct'',
           first_or v [''downloadAddr''] (dget v ''download_addr''), first_or v [''bitrateInfo''] (dget v ''bitrate_info'')] [])"

subsection \<open>What the addresses are\<close>

definition secure :: "string list \<Rightarrow> bool" where
  "secure urls \<longleftrightarrow> distinct urls \<and> list_all (\<lambda>u. https_url u = Inr True) urls"

definition from_image :: "page_env \<Rightarrow> string \<Rightarrow> json \<Rightarrow> bool" where
  "from_image E u img \<longleftrightarrow> u \<in> text_of E ` set (candidates_of img)"

lemma pick_url_ok:
  "pick_url E seen vs = Inr (Some c) \<Longrightarrow> https_url c = Inr True \<and> c \<notin> set seen \<and> c \<in> text_of E ` set vs"
  by (induction vs) (auto simp: Let_def res_bind_eq_Inr split: if_splits)

lemma collect_images_ok:
  assumes "collect_images E imgs seen out = Inr res" "set out \<subseteq> set seen" "secure out" "length out \<le> max_slides"
  shows "secure res \<and> length res \<le> max_slides \<and>
    (\<exists>new. res = out @ new \<and> length new \<le> length imgs \<and> (length new = length imgs \<longrightarrow> list_all2 (from_image E) new imgs))"
  using assms
proof (induction imgs arbitrary: seen out)
  case (Cons img imgs)
  obtain sel where p: "pick_url E seen (rev (candidates_of img)) = Inr sel"
    and rest: "(case sel of None \<Rightarrow> collect_images E imgs seen out
      | Some c \<Rightarrow> collect_images E imgs (c # seen) (if length out < max_slides then out @ [c] else out)) = Inr res"
    using Cons.prems(1) by (auto simp: res_bind_eq_Inr)
  show ?case
  proof (cases sel)
    case None
    with rest Cons.IH [of seen out] Cons.prems(2-4) show ?thesis by fastforce
  next
    case (Some c)
    with pick_url_ok [of E seen "rev (candidates_of img)" c] p have c: "https_url c = Inr True" "c \<notin> set seen" "from_image E c img"
      by (auto simp: from_image_def)
    show ?thesis
    proof (cases "length out < max_slides")
      case True
      have "secure (out @ [c])" using c Cons.prems(2,3) by (auto simp: secure_def)
      moreover have r: "collect_images E imgs (c # seen) (out @ [c]) = Inr res" using rest Some True by simp
      moreover have "set (out @ [c]) \<subseteq> set (c # seen)" "length (out @ [c]) \<le> max_slides"
        using Cons.prems(2) True by auto
      ultimately obtain new where new: "secure res" "length res \<le> max_slides" "res = (out @ [c]) @ new"
        "length new \<le> length imgs" "length new = length imgs \<longrightarrow> list_all2 (from_image E) new imgs"
        using Cons.IH [OF r] by blast
      then show ?thesis using c(3) by (intro conjI exI [of _ "c # new"]) auto
    next
      case False
      have r: "collect_images E imgs (c # seen) out = Inr res" using rest Some False by simp
      have "set out \<subseteq> set (c # seen)" using Cons.prems(2) by auto
      from Cons.IH [OF r this Cons.prems(3,4)] obtain new where "secure res" "length res \<le> max_slides" "res = out @ new"
        "length new \<le> length imgs" by blast
      then show ?thesis by (intro conjI exI [of _ new]) auto
    qed
  qed
qed simp

lemma collect_meta_ok:
  "collect_meta images cs = Inr res \<Longrightarrow> secure images \<Longrightarrow> length images < max_slides \<Longrightarrow>
   secure res \<and> length res \<le> max_slides"
proof (induction cs arbitrary: images)
  case (Cons c cs)
  obtain ok where o: "https_url c = Inr ok" using Cons.prems(1) by (auto simp: res_bind_eq_Inr)
  show ?case
  proof (cases "\<not> ok \<or> c \<in> set images")
    case True
    with o Cons.prems Cons.IH [of images] show ?thesis by simp
  next
    case False
    then have "secure (images @ [c])" using o Cons.prems(2) by (auto simp: secure_def)
    with o False Cons.prems Cons.IH [of "images @ [c]"] show ?thesis by (auto split: if_splits)
  qed
qed (auto simp: max_slides_def)

definition carousel_ok :: "slide_info \<Rightarrow> bool" where
  "carousel_ok s \<longleftrightarrow> secure (sl_image_urls s) \<and> sl_image_urls s \<noteq> [] \<and> length (sl_image_urls s) \<le> 12"

text \<open>The slides of a complete carousel: one address of each image of the post.\<close>

definition covers_post :: "page_env \<Rightarrow> string \<Rightarrow> slide_info \<Rightarrow> bool" where
  "covers_post E html s \<longleftrightarrow> (\<exists>item post imgs. item_from_html E html = Inr (Some (JObj item)) \<and>
     py_or (dget item ''imagePost'') (dget item ''image_post'') = JObj post \<and> dget post ''images'' = JArr imgs \<and>
     list_all2 (from_image E) (sl_image_urls s) imgs)"

lemma html_slides:
  assumes "slide_info_from_html E html = Inr (Some s)"
  shows "carousel_ok s \<and> (sl_incomplete s = None \<longrightarrow> covers_post E html s)"
proof -
  from assms obtain item where item: "item_from_html E html = Inr (Some (JObj item))"
    by (auto simp: slide_info_from_html_def res_bind_eq_Inr split: option.splits elim!: as_dict.elims)
  define post where "post = py_or (py_or (dget item ''imagePost'') (dget item ''image_post'')) (JObj [])"
  define raw where "raw = (if is_dict post then dget (case post of JObj d \<Rightarrow> d | _ \<Rightarrow> []) ''images'' else JNull)"
  have "slide_info_from_html E html = res_bind (image_urls_with_count E raw) (\<lambda>(images, whole).
      if images = [] then Inr None
      else res_bind (stripped (first_or (case post of JObj d \<Rightarrow> d | _ \<Rightarrow> []) [''title''] (py_or (dget item ''desc'') (JStr [])))) (\<lambda>title.
        res_bind (stripped (py_or (dget item ''desc'') (JStr []))) (\<lambda>description.
        res_bind (unique_id (dget item ''author'')) (\<lambda>author.
        Inr (Some \<lparr>sl_title = title, sl_description = description, sl_author = author, sl_image_urls = images,
          sl_incomplete = incomplete_of whole (length images)\<rparr>)))))"
    unfolding slide_info_from_html_def item res_bind_simps option.case as_dict.simps Let_def post_def raw_def ..
  with assms obtain images whole where i: "image_urls_with_count E raw = Inr (images, whole)" "images \<noteq> []"
    and s: "sl_image_urls s = images" "sl_incomplete s = incomplete_of whole (length images)"
    by (cases "image_urls_with_count E raw") (auto simp: res_bind_eq_Inr split: if_splits)
  from i obtain imgs where raw: "raw = JArr imgs" "whole = length imgs" and c: "collect_images E imgs [] [] = Inr images"
    by (auto simp: image_urls_with_count_def res_bind_eq_Inr split: json.splits)
  from collect_images_ok [OF c] have ok: "secure images" "length images \<le> max_slides"
    "length images = length imgs \<longrightarrow> list_all2 (from_image E) images imgs" by (auto simp: secure_def)
  obtain d where d: "post = JObj d" "dget d ''images'' = JArr imgs"
    using raw(1) by (cases post) (auto simp: raw_def split: if_splits)
  have "d \<noteq> []" using d(2) by (auto simp: dget_def)
  then have "py_or (dget item ''imagePost'') (dget item ''image_post'') = JObj d"
    using d(1) by (auto simp: post_def py_or_def split: if_splits)
  with ok i s raw d item show ?thesis
    by (auto simp: carousel_ok_def covers_post_def max_slides_def incomplete_of_def split: if_splits)
qed

lemma meta_slides: "photo_meta_fallback E html url = Inr (Some s) \<Longrightarrow> carousel_ok s \<and> sl_incomplete s \<noteq> None"
  using collect_meta_ok [of "[]" "meta_values E html ''og:image'' @ meta_values E html ''twitter:image''"]
  by (auto simp: photo_meta_fallback_def res_bind_eq_Inr carousel_ok_def max_slides_def secure_def split: if_splits)

lemma meta_marked: "photo_meta_fallback E html url = Inr (Some s) \<Longrightarrow> sl_incomplete s = Some not_proven"
  by (auto simp: photo_meta_fallback_def res_bind_eq_Inr split: if_splits)

lemma html_marked: "slide_info_from_html E html = Inr (Some s) \<Longrightarrow> sl_incomplete s \<noteq> Some []"
  by (auto simp: slide_info_from_html_def res_bind_eq_Inr Let_def incomplete_of_def split: option.splits if_splits)

lemma fetched_slides:
  assumes "fetch_tiktok_slides E url = Inr (Some s)"
  shows "carousel_ok s \<and> sl_incomplete s \<noteq> Some [] \<and>
    (sl_incomplete s \<noteq> None \<or> (\<exists>mobile. covers_post E (or_empty (fetch_html E url mobile)) s))"
proof -
  define m where "m = slide_info_from_html E (or_empty (fetch_html E url True))"
  define d where "d = slide_info_from_html E (or_empty (fetch_html E url False))"
  define html where "html = (if or_empty (fetch_html E url False) \<noteq> [] then or_empty (fetch_html E url False)
    else or_empty (fetch_html E url True))"
  obtain u where u: "urlparse url = Inr u" "contains (lower (u_path u)) ''/photo/''"
    using assms by (cases "urlparse url") (auto simp: fetch_tiktok_slides_def split: if_splits)
  have "res_bind m (\<lambda>x. if x \<noteq> None then Inr x else res_bind d (\<lambda>x. if x \<noteq> None then Inr x else photo_meta_fallback E html url)) = Inr (Some s)"
    using assms u unfolding fetch_tiktok_slides_def Let_def m_def d_def html_def by simp
  then consider "m = Inr (Some s)" | "d = Inr (Some s)" | "photo_meta_fallback E html url = Inr (Some s)"
    by (cases m; cases d) (simp_all del: not_None_eq split: if_splits)
  then show ?thesis
  proof cases
    case 1
    with html_slides [of E "or_empty (fetch_html E url True)" s] html_marked show ?thesis unfolding m_def by blast
  next
    case 2
    with html_slides [of E "or_empty (fetch_html E url False)" s] html_marked show ?thesis unfolding d_def by blast
  next
    case 3
    with meta_slides meta_marked show ?thesis by (simp add: not_proven_def)
  qed
qed

text \<open>C39: Whatever a page says, the slides of a TikTok post are between one and twelve different secure addresses,
  and a carousel that is not marked incomplete has one address of each image of the post, in its order.\<close>

theorem carousel_complete_or_marked:
  assumes "fetch_tiktok_slides E url = Inr (Some s)"
  shows "carousel_ok s \<and> (sl_incomplete s \<noteq> None \<or> (\<exists>mobile. covers_post E (or_empty (fetch_html E url mobile)) s))"
  using fetched_slides [OF assms] by blast

subsection \<open>Media addresses\<close>

lemma fold_res_keeps:
  "(\<And>x y z. x \<in> set xs \<Longrightarrow> P y \<Longrightarrow> f x y = Inr z \<Longrightarrow> P z) \<Longrightarrow> P y \<Longrightarrow> fold_res f xs y = Inr z \<Longrightarrow> P z"
proof (induction xs arbitrary: y)
  case (Cons x xs)
  from Cons.prems(3) obtain w where w: "f x y = Inr w" "fold_res f xs w = Inr z" by (auto simp: res_bind_eq_Inr)
  have p: "P w" by (rule Cons.prems(1) [OF _ Cons.prems(2) w(1)]) simp
  have step: "\<And>x' y z. x' \<in> set xs \<Longrightarrow> P y \<Longrightarrow> f x' y = Inr z \<Longrightarrow> P z"
    by (rule Cons.prems(1)) simp_all
  show ?case by (rule Cons.IH [OF step p w(2)])
qed simp

lemma accept_url_ok: "accept_url c urls = Inr us \<Longrightarrow> secure urls \<Longrightarrow> secure us \<and> length us \<le> length urls + 1"
  by (auto simp: accept_url_def res_bind_eq_Inr secure_def)

lemma add_play_url_ok:
  "add_play_url v urls = Inr us \<Longrightarrow> secure urls \<and> length urls \<le> 6 \<Longrightarrow> secure us \<and> length us \<le> 6"
proof (induction v urls arbitrary: us rule: add_play_url.induct)
  case (1 v urls)
  show ?case
  proof (cases "6 \<le> length urls")
    case True
    with 1(3,4) show ?thesis by (simp add: add_play_url.simps)
  next
    case short: False
    show ?thesis
    proof (cases v)
      case (JStr s)
      with 1(3,4) short accept_url_ok [of "strip s" urls us] show ?thesis by (simp add: add_play_url.simps)
    next
      case (JArr vs)
      with 1(3) short have "fold_res add_play_url (take 8 vs) urls = Inr us" by (simp add: add_play_url.simps)
      with fold_res_keeps [of "take 8 vs" "\<lambda>us. secure us \<and> length us \<le> 6" add_play_url urls us] 1(1) [OF short JArr] 1(4)
      show ?thesis by blast
    next
      case (JObj d)
      with 1(3) short have "fold_res add_play_url (List.map_filter (map_of d) play_keys) urls = Inr us" by (simp add: add_play_url.simps)
      with fold_res_keeps [of "List.map_filter (map_of d) play_keys" "\<lambda>us. secure us \<and> length us \<le> 6" add_play_url urls us]
        1(2) [OF short JObj] 1(4)
      show ?thesis by blast
    qed (use 1(3,4) short in \<open>simp_all add: add_play_url.simps\<close>)
  qed
qed

text \<open>However the addresses of the media are nested, at most six different secure ones are kept.\<close>

theorem play_urls_bounded:
  assumes "tiktok_play_urls item = Inr us"
  shows "secure us \<and> length us \<le> 6"
proof (cases "video_of item")
  case None
  with assms show ?thesis by (simp add: tiktok_play_urls_def secure_def)
next
  case (Some v)
  with assms obtain xs where "fold_res add_play_url xs [] = Inr us" 
    unfolding tiktok_play_urls_def by (auto simp del: fold_res.simps)
  from fold_res_keeps [OF _ _ this, of "\<lambda>us. secure us \<and> length us \<le> 6"] add_play_url_ok
  show ?thesis by (simp add: secure_def)
qed

text \<open>A post whose author is given as a text, and not as an object, cannot be read: the error leaves
  \<open>fetch_tiktok_slides\<close>, though the reader of videos allows for both.\<close>

theorem text_author_raises:
  assumes "item_from_html E html = Inr (Some (JObj item))" "dget item ''author'' = JStr (c # name)"
    and "dget item ''desc'' = JStr t" "dget item ''imagePost'' = JObj post" "map_of post ''title'' = None"
    and "image_urls_with_count E (dget post ''images'') = Inr (u # us, n)"
  shows "slide_info_from_html E html = Inl AttributeError"
proof -
  have "post \<noteq> []" using assms(6) by (auto simp: image_urls_with_count_def dget_def)
  with assms show ?thesis
    by (cases t) (simp_all add: slide_info_from_html_def py_or_def Let_def stripped_def unique_id_def dget_def)
qed

subsection \<open>An example\<close>

definition ex_post :: json where
  "ex_post = JObj [(''ItemModule'', JObj [(''1'', JObj
     [(''desc'', JStr ''Rice ''), (''author'', JObj [(''uniqueId'', JStr ''ana'')]),
      (''imagePost'', JObj [(''images'', JArr
        [JObj [(''imageURL'', JObj [(''urlList'', JArr [JStr ''http://a/1'', JStr ''https://a/1''])])], JStr ''https://a/2''])])])])]"

definition ex_page :: page_env where
  "ex_page = \<lparr>pe_resolve = (\<lambda>_ _. Some [''8.8.8.8'']),
     pe_fetch = (\<lambda>_ _. Some (''<script id='' @ dquote @ ''SIGI_STATE'' @ dquote @ '' x>data</script>'')),
     pe_loads = (\<lambda>t. if t = ''data'' then Some ex_post else None), pe_unescape = (\<lambda>s. s), pe_rep = (\<lambda>_. [])\<rparr>"

lemma ex_slides:
  "fetch_tiktok_slides ex_page ''https://www.tiktok.com/@ana/photo/1'' =
     Inr (Some \<lparr>sl_title = ''Rice'', sl_description = ''Rice'', sl_author = Some ''ana'',
       sl_image_urls = [''https://a/1'', ''https://a/2''], sl_incomplete = None\<rparr>)"
  by code_simp

theorem carousel_complete_or_marked_witness:
  "\<exists>mobile s. sl_image_urls s = [''https://a/1'', ''https://a/2''] \<and>
     covers_post ex_page (or_empty (fetch_html ex_page ''https://www.tiktok.com/@ana/photo/1'' mobile)) s"
proof -
  from carousel_complete_or_marked [OF ex_slides] obtain mobile where "covers_post ex_page
      (or_empty (fetch_html ex_page ''https://www.tiktok.com/@ana/photo/1'' mobile))
      \<lparr>sl_title = ''Rice'', sl_description = ''Rice'', sl_author = Some ''ana'',
       sl_image_urls = [''https://a/1'', ''https://a/2''], sl_incomplete = None\<rparr>" by auto
  then show ?thesis by (intro exI conjI) simp_all
qed

end
