(* ===== verification/Video_Frames.thy ===== *)
theory Video_Frames
  imports Url_Guard "HOL-Library.Word"
begin

section \<open>Frames of a video\<close>

text \<open>
  The selection of frames in app/extract.py: the times that are sampled, the difference hash that drops
  repeated pictures, the choice of a cover, and the download around them with its bounds. The programs
  yt-dlp, ffprobe and ffmpeg and the network are functions of \<open>video_env\<close>; a file is its size or its
  bytes, a byte a word of eight bits, a float a rational.
\<close>

subsection \<open>Bounds\<close>

definition max_video_bytes :: nat where "max_video_bytes = 50000000"
definition max_video_frames :: nat where "max_video_frames = 32"
definition min_overlay_interval_seconds :: rat where "min_overlay_interval_seconds = 3 / 2"
definition max_frame_bytes :: nat where "max_frame_bytes = 2000000"
definition vision_fps :: rat where "vision_fps = 5"
definition dhash_hamming_threshold :: nat where "dhash_hamming_threshold = 6"
definition max_unique_vision_frames :: int where "max_unique_vision_frames = 12"
definition cover_window_seconds :: rat where "cover_window_seconds = 5 / 2"
definition cover_frame_count :: nat where "cover_frame_count = 5"
definition cover_gray_size :: nat where "cover_gray_size = 64"

definition round3 :: "rat \<Rightarrow> rat" where
  "round3 x = of_int (py_round (x * 1000)) / 1000"

subsection \<open>Times\<close>

definition overlay_frame_interval :: "rat \<Rightarrow> int \<Rightarrow> rat" where
  "overlay_frame_interval duration max_frames =
     (let frames = max 1 (min max_frames (int max_video_frames))
      in max min_overlay_interval_seconds (max duration 1 / of_int frames))"

text \<open>The loop appends while there are fewer than \<open>n\<close> times.\<close>

fun sample_loop :: "nat \<Rightarrow> rat \<Rightarrow> rat \<Rightarrow> rat \<Rightarrow> rat list" where
  "sample_loop 0 t interval stop = []"
| "sample_loop (Suc n) t interval stop =
     (if t < stop then round3 t # sample_loop n (t + interval) interval stop else [])"

fun drop_close :: "rat \<Rightarrow> rat list \<Rightarrow> rat list" where
  "drop_close prev [] = []"
| "drop_close prev (x # xs) = (if 1 / 5 < \<bar>prev - x\<bar> then x # drop_close x xs else drop_close prev xs)"

definition spaced :: "rat list \<Rightarrow> rat list" where
  "spaced xs = (case xs of [] \<Rightarrow> [] | x # xs \<Rightarrow> x # drop_close x xs)"

definition clip_time :: "rat \<Rightarrow> rat \<Rightarrow> rat" where
  "clip_time duration x = min (max x 0) (max (duration - 1 / 20) 0)"

definition with_last :: "int \<Rightarrow> rat \<Rightarrow> rat \<Rightarrow> rat list \<Rightarrow> rat list" where
  "with_last max_frames interval lst ts =
     (if interval * (9 / 20) < \<bar>last ts - lst\<bar>
      then if int (length ts) < max_frames then ts @ [lst] else butlast ts @ [lst]
      else ts)"

definition overlay_sample_times :: "rat \<Rightarrow> int \<Rightarrow> rat list" where
  "overlay_sample_times duration0 max_frames =
     (let duration = max duration0 1;
          interval = overlay_frame_interval duration max_frames;
          start = min (6 / 5) (max (duration * (8 / 100)) (1 / 5));
          ts = sample_loop (nat max_frames) start interval (duration - 12 / 100);
          lst = round3 (max (duration - 35 / 100) 0)
      in if ts = [] then [min lst (duration / 2)]
         else spaced (map (clip_time duration) (with_last max_frames interval lst ts)))"

definition cover_sample_times :: "rat \<Rightarrow> rat list" where
  "cover_sample_times duration =
     (let window = min cover_window_seconds (max duration (4 / 100))
      in map (\<lambda>i. round3 ((of_nat i + 1 / 2) * window / of_nat cover_frame_count)) [0..<cover_frame_count])"

subsection \<open>The difference hash\<close>

type_synonym byte = "8 word"

text \<open>The two loops over the rows and columns of a picture of nine by eight bytes, with the value and the
  number of the next bit.\<close>

definition hash_pixel :: "byte list \<Rightarrow> nat \<Rightarrow> nat \<Rightarrow> nat \<times> nat \<Rightarrow> nat \<times> nat" where
  "hash_pixel pixels base col vb =
     (if pixels ! (base + col) > pixels ! (base + col + 1) then or (fst vb) (push_bit (snd vb) 1) else fst vb, snd vb + 1)"

definition dhash64 :: "byte list \<Rightarrow> nat" where
  "dhash64 pixels = fst (fold (\<lambda>row. fold (hash_pixel pixels (row * 9)) [0..<8]) [0..<8] (0, 0))"

text \<open>\<open>bin (x).count ("1")\<close>.\<close>

fun count_ones :: "nat \<Rightarrow> nat" where
  "count_ones n = (if n = 0 then 0 else n mod 2 + count_ones (n div 2))"

declare count_ones.simps [simp del]

definition hamming64 :: "nat \<Rightarrow> nat \<Rightarrow> nat" where
  "hamming64 l r = count_ones (xor l r)"

text \<open>The pictures of the file with the thumbnails; what is left of an incomplete one is ignored.\<close>

definition thumbnails :: "byte list \<Rightarrow> byte list list" where
  "thumbnails blob = map (\<lambda>i. take 72 (drop (i * 72) blob)) [0..<length blob div 72]"

definition thumb_time :: "rat \<Rightarrow> nat \<Rightarrow> rat" where
  "thumb_time duration i = round3 (min (of_nat i / vision_fps) (max (duration - 1 / 20) 0))"

fun keep_changed :: "nat option \<Rightarrow> (nat \<times> nat) list \<Rightarrow> nat list" where
  "keep_changed last_hash [] = []"
| "keep_changed last_hash ((i, h) # hs) =
     (case last_hash of
        None \<Rightarrow> i # keep_changed (Some h) hs
      | Some l \<Rightarrow> if dhash_hamming_threshold < hamming64 l h then i # keep_changed (Some h) hs
                 else keep_changed last_hash hs)"

datatype thumbs = ThumbsTimedOut | NoThumbs | Thumbs "byte list"

definition unique_indexes :: "byte list list \<Rightarrow> nat list" where
  "unique_indexes ts = keep_changed None (enumerate 0 (map dhash64 ts))"

definition unique_frame_times :: "thumbs \<Rightarrow> rat \<Rightarrow> rat list res" where
  "unique_frame_times t duration =
     (case t of
        ThumbsTimedOut \<Rightarrow> Inl (ExtractError ''Video frame extraction timed out'')
      | NoThumbs \<Rightarrow> Inr (overlay_sample_times duration (int max_video_frames))
      | Thumbs blob \<Rightarrow>
          if length blob < 72 then Inr (overlay_sample_times duration (int max_video_frames))
          else Inr (map (thumb_time duration) (unique_indexes (thumbnails blob))))"

subsection \<open>Facts on the hash\<close>

lemma bits_half: "{k. bit n k} = (if odd n then {0} else {}) \<union> Suc ` {k. bit (n div 2) k}" for n :: nat
proof (intro set_eqI iffI)
  fix k assume "k \<in> {k. bit n k}"
  then show "k \<in> (if odd n then {0} else {}) \<union> Suc ` {k. bit (n div 2) k}"
    by (cases k) (auto simp: bit_0 bit_Suc)
next
  fix k assume "k \<in> (if odd n then {0} else {}) \<union> Suc ` {k. bit (n div 2) k}"
  then show "k \<in> {k. bit n k}" by (auto simp: bit_0 bit_Suc split: if_splits)
qed

lemma count_ones_bits: "finite {k. bit n k} \<and> count_ones n = card {k. bit n k}"
proof (induction n rule: count_ones.induct)
  case (1 n)
  show ?case
  proof (cases "n = 0")
    case True
    then show ?thesis by (simp add: count_ones.simps)
  next
    case False
    with 1 have IH: "finite {k. bit (n div 2) k}" "count_ones (n div 2) = card {k. bit (n div 2) k}" by simp_all
    have "card {k. bit n k} = n mod 2 + card (Suc ` {k. bit (n div 2) k})"
      unfolding bits_half [of n] using IH(1) by (subst card_Un_disjoint) (auto simp: mod2_eq_if)
    with IH False show ?thesis
      by (subst count_ones.simps) (simp add: card_image bits_half [of n])
  qed
qed

lemma hamming_bits: "hamming64 a b = card {k. bit a k \<noteq> bit b k}"
  by (simp add: hamming64_def count_ones_bits bit_xor_iff)

text \<open>The brightness falls from this pixel of the row to the next.\<close>

definition falls :: "byte list \<Rightarrow> nat \<Rightarrow> bool" where
  "falls pixels k \<longleftrightarrow> pixels ! (9 * (k div 8) + k mod 8) > pixels ! (9 * (k div 8) + k mod 8 + 1)"

lemma hash_row:
  "bit (fst (fold (hash_pixel pixels base) [0..<n] (v, b))) k \<longleftrightarrow>
     bit v k \<or> b \<le> k \<and> k < b + n \<and> pixels ! (base + (k - b)) > pixels ! (base + (k - b) + 1)"
  "snd (fold (hash_pixel pixels base) [0..<n] (v, b)) = b + n"
proof (induction n)
  case (Suc n)
  case 2
  show ?case using Suc by (simp add: hash_pixel_def)
  case 1
  have "bit (push_bit m (1 :: nat)) k \<longleftrightarrow> k = m" for m by (auto simp: bit_exp_iff)
  then show ?case using Suc by (auto simp: hash_pixel_def bit_or_iff less_Suc_eq)
qed auto

lemma hash_rows:
  "m \<le> 8 \<Longrightarrow> (bit (fst (fold (\<lambda>row. fold (hash_pixel pixels (row * 9)) [0..<8]) [0..<m] (0, 0))) k \<longleftrightarrow>
     k < 8 * m \<and> falls pixels k) \<and>
   snd (fold (\<lambda>row. fold (hash_pixel pixels (row * 9)) [0..<8]) [0..<m] (0, 0)) = 8 * m"
proof (induction m)
  case (Suc m)
  obtain v b where f: "fold (\<lambda>row. fold (hash_pixel pixels (row * 9)) [0..<8]) [0..<m] (0, 0) = (v, b)"
    by (cases "fold (\<lambda>row. fold (hash_pixel pixels (row * 9)) [0..<8]) [0..<m] (0, 0)")
  with Suc have v: "bit v k \<longleftrightarrow> k < 8 * m \<and> falls pixels k" and b: "b = 8 * m" by simp_all
  have "k div 8 = m \<and> k mod 8 = k - 8 * m" if "8 * m \<le> k" "k < 8 * m + 8"
    using that by (auto simp: div_nat_eqI modulo_nat_def)
  then have "8 * m \<le> k \<Longrightarrow> k < 8 * m + 8 \<Longrightarrow>
      falls pixels k \<longleftrightarrow> pixels ! (m * 9 + (k - 8 * m)) > pixels ! (m * 9 + (k - 8 * m) + 1)"
    by (simp add: falls_def mult.commute)
  with f v b show ?case by (auto simp: hash_row upt_Suc_append simp del: upt_Suc)
qed simp

lemma dhash_bits: "bit (dhash64 pixels) k \<longleftrightarrow> k < 64 \<and> falls pixels k"
  using hash_rows [of 8 pixels k] by (simp add: dhash64_def)

lemma hamming_dhash: "hamming64 (dhash64 p) (dhash64 q) = card {k. k < 64 \<and> falls p k \<noteq> falls q k}"
  unfolding hamming_bits dhash_bits by (rule arg_cong [where f = card]) auto

subsection \<open>Which frames are kept\<close>

lemma keep_changed_kept:
  "sorted_wrt (<) (map fst hs) \<Longrightarrow> sorted_wrt (<) (keep_changed l hs) \<and> set (keep_changed l hs) \<subseteq> fst ` set hs"
proof (induction hs arbitrary: l)
  case (Cons p hs)
  obtain i h where p: "p = (i, h)" by (cases p)
  have IH: "sorted_wrt (<) (keep_changed l' hs)" "set (keep_changed l' hs) \<subseteq> fst ` set hs" for l'
    using Cons by simp_all
  have later: "\<forall>x \<in> fst ` set hs. i < x" using Cons.prems p by simp
  have "sorted_wrt (<) (i # keep_changed (Some h) hs)" using IH [of "Some h"] later by auto
  moreover have "set (i # keep_changed (Some h) hs) \<subseteq> fst ` set (p # hs)" using IH(2) [of "Some h"] p by auto
  moreover have "set (keep_changed l hs) \<subseteq> fst ` set (p # hs)" using IH(2) [of l] by auto
  ultimately show ?case using IH(1) [of l] unfolding p keep_changed.simps
    by (cases l) (simp_all del: list.set(2) sorted_wrt.simps image_insert)
qed simp

definition represented :: "nat option \<Rightarrow> (nat \<times> nat) list \<Rightarrow> nat list \<Rightarrow> nat \<Rightarrow> nat \<Rightarrow> bool" where
  "represented l hs ks i h \<longleftrightarrow>
     (\<exists>(k, g) \<in> set hs. k \<in> set ks \<and> k \<le> i \<and> hamming64 g h \<le> dhash_hamming_threshold) \<or>
     (\<exists>g. l = Some g \<and> hamming64 g h \<le> dhash_hamming_threshold)"

lemma hamming_self: "hamming64 h h = 0"
  by (simp add: hamming_bits)

lemma represented_kept:
  assumes "(i, h) \<in> set ((j, g) # hs)" "\<forall>(k, _) \<in> set hs. j < k"
    and "(i, h) \<in> set hs \<Longrightarrow> represented (Some g) hs (keep_changed (Some g) hs) i h"
  shows "represented l ((j, g) # hs) (j # keep_changed (Some g) hs) i h"
proof (cases "(i, h) = (j, g)")
  case True
  then show ?thesis by (simp add: represented_def hamming_self)
next
  case False
  with assms have m: "(i, h) \<in> set hs" "j \<le> i" by force+
  with assms(3) show ?thesis unfolding represented_def by fastforce
qed

lemma represented_dropped:
  assumes "(i, h) \<in> set ((j, g) # hs)" "l = Some l'" "hamming64 l' g \<le> dhash_hamming_threshold"
    and "(i, h) \<in> set hs \<Longrightarrow> represented l hs ks i h"
  shows "represented l ((j, g) # hs) ks i h"
  using assms unfolding represented_def by fastforce

lemma keep_changed_represents:
  "sorted_wrt (<) (map fst hs) \<Longrightarrow> (i, h) \<in> set hs \<Longrightarrow> represented l hs (keep_changed l hs) i h"
proof (induction l hs rule: keep_changed.induct)
  case (2 l j g hs)
  have later: "\<forall>(k, _) \<in> set hs. j < k" using 2(4) by auto
  have rest: "sorted_wrt (<) (map fst hs)" using 2(4) by simp
  show ?case
  proof (cases l)
    case None
    have "represented l ((j, g) # hs) (j # keep_changed (Some g) hs) i h"
      by (rule represented_kept [OF 2(5) later 2(1) [OF None rest]])
    with None show ?thesis by simp
  next
    case (Some l')
    show ?thesis
    proof (cases "dhash_hamming_threshold < hamming64 l' g")
      case True
      have "represented l ((j, g) # hs) (j # keep_changed (Some g) hs) i h"
        by (rule represented_kept [OF 2(5) later 2(2) [OF Some True rest]])
      with Some True show ?thesis by simp
    next
      case False
      have "represented l ((j, g) # hs) (keep_changed l hs) i h"
        by (rule represented_dropped [OF 2(5) Some _ 2(3) [OF Some False rest]]) (use False in simp)
      with Some False show ?thesis by simp
    qed
  qed
qed simp

lemma thumbs_enumerated:
  "map fst (enumerate 0 (map dhash64 ts)) = [0..<length ts]"
  "(i, h) \<in> set (enumerate 0 (map dhash64 ts)) \<longleftrightarrow> i < length ts \<and> h = dhash64 (ts ! i)"
  by (auto simp: in_set_enumerate_eq)


subsection \<open>The first twelve\<close>

lemma keep_changed_chain:
  "(\<forall>i < length gs. dhash_hamming_threshold < hamming64 ((g # gs) ! i) (gs ! i)) \<Longrightarrow>
   keep_changed (Some g) (enumerate n gs @ rest) = [n..<n + length gs] @ keep_changed (Some (last (g # gs))) rest"
proof (induction gs arbitrary: g n)
  case (Cons h gs)
  have "dhash_hamming_threshold < hamming64 g h" using Cons.prems by (metis length_Cons nth_Cons_0 zero_less_Suc)
  moreover have "\<forall>i < length gs. dhash_hamming_threshold < hamming64 ((h # gs) ! i) (gs ! i)"
    using Cons.prems by (metis length_Cons nth_Cons_Suc Suc_less_eq)
  moreover have "[n..<n + length (h # gs)] = n # [Suc n..<Suc n + length gs]" by (simp add: upt_conv_Cons del: upt_Suc)
  ultimately show ?case using Cons.IH [of h "Suc n"] by (simp del: upt_Suc)
qed simp

text \<open>Only the first twelve kept frames are used. In a video whose picture keeps moving these are its first
  two and a half seconds, although the frames are meant to show the cards of the whole video.\<close>

theorem early_frames_only:
  assumes "12 \<le> length ts" and "\<forall>i < 11. 6 < hamming64 (dhash64 (ts ! i)) (dhash64 (ts ! Suc i))"
  shows "take 12 (map (thumb_time duration) (unique_indexes ts)) = map (thumb_time duration) [0..<12]"
proof -
  define gs where "gs = map dhash64 (take 11 (tl ts))"
  define g where "g = dhash64 (hd ts)"
  have l: "length gs = 11" using assms(1) by (simp add: gs_def)
  have ts: "ts = hd ts # take 11 (tl ts) @ drop 12 ts"
    using assms(1) by (cases ts) auto
  then have hs: "map dhash64 ts = g # gs @ map dhash64 (drop 12 ts)"
    unfolding g_def gs_def by (metis list.simps(9) map_append)
  have nth: "(g # gs) ! i = dhash64 (ts ! i)" if "i < 12" for i
  proof -
    have "(g # gs) ! i = map dhash64 ts ! i" using that l unfolding hs by (simp add: nth_append nth_Cons split: nat.split)
    with that assms(1) show ?thesis by simp
  qed
  have "dhash_hamming_threshold < hamming64 ((g # gs) ! i) (gs ! i)" if "i < length gs" for i
    using nth [of i] nth [of "Suc i"] assms(2) that l by (simp add: dhash_hamming_threshold_def)
  then have "keep_changed (Some g) (enumerate 1 gs @ enumerate 12 (map dhash64 (drop 12 ts))) =
      [1..<12] @ keep_changed (Some (last (g # gs))) (enumerate 12 (map dhash64 (drop 12 ts)))"
    using keep_changed_chain [of gs g 1] l by simp
  then have "unique_indexes ts = [0..<12] @ keep_changed (Some (last (g # gs))) (enumerate 12 (map dhash64 (drop 12 ts)))"
    unfolding unique_indexes_def hs by (simp add: enumerate_append_eq l upt_conv_Cons)
  then show ?thesis by (simp add: take_map del: upt_Suc)
qed

subsection \<open>Downloads\<close>

datatype ytdlp_run = NotInstalled | RunTimedOut | Exited int "nat option"    \<comment> \<open>code, size of the output file\<close>

record video_env =
  ve_resolve :: "string \<Rightarrow> int \<Rightarrow> string list option"
  ve_ytdlp :: "string \<Rightarrow> ytdlp_run"
  ve_ytdlp_cover :: "string \<Rightarrow> ytdlp_run"
  ve_open :: "string \<Rightarrow> nat list res"    \<comment> \<open>the lengths of the chunks of the body\<close>
  ve_tools :: bool
  ve_probe :: "(int \<times> rat option) option"    \<comment> \<open>None: timed out; the number printed\<close>
  ve_thumbs :: thumbs
  ve_jpeg :: "nat \<Rightarrow> rat \<Rightarrow> nat option"    \<comment> \<open>the size of a frame that was written\<close>
  ve_gray :: "(int \<times> byte list option) option"
  ve_covers :: "nat list option"

definition source_hosts :: "string list" where
  "source_hosts = [''youtube.com'', ''youtu.be'', ''tiktok.com'', ''instagram.com'', ''facebook.com'', ''fb.watch'']"

fun as_extract_error :: "'x res \<Rightarrow> 'x res" where
  "as_extract_error (Inl (ValueError m)) = Inl (ExtractError m)"
| "as_extract_error r = r"

definition host_matches :: "string \<Rightarrow> string list \<Rightarrow> bool res" where
  "host_matches url roots =
     res_bind (urlparse url) (\<lambda>p.
       let host = rstrip_char (CHR ''.'') (ascii_lower (case hostname p of None \<Rightarrow> [] | Some h \<Rightarrow> h))
       in Inr (host_allowed roots host))"

fun copy_chunks :: "nat \<Rightarrow> nat list \<Rightarrow> nat res" where
  "copy_chunks written [] = Inr written"
| "copy_chunks written (c # cs) =
     (if c = 0 then Inr written
      else if max_video_bytes < written + c then Inl (ExtractError ''TikTok video frame fallback exceeded the download bound'')
      else copy_chunks (written + c) cs)"

definition http_download_video :: "video_env \<Rightarrow> string \<Rightarrow> nat res" where
  "http_download_video E play_url =
     res_bind (validate_public_url (ve_resolve E) [] play_url) (\<lambda>_.
     res_bind (ve_open E play_url) (\<lambda>chunks.
     res_bind (copy_chunks 0 chunks) (\<lambda>written.
     if written = 0 then Inl (ExtractError ''TikTok video frame fallback download failed'') else Inr written)))"

text \<open>The size of the file, when it is there and within the bound.\<close>

definition in_bound :: "nat \<Rightarrow> bool" where
  "in_bound n \<longleftrightarrow> 0 < n \<and> n \<le> max_video_bytes"

fun good_run :: "ytdlp_run \<Rightarrow> nat option" where
  "good_run (Exited code (Some n)) = (if code = 0 \<and> in_bound n then Some n else None)"
| "good_run _ = None"

fun try_play_urls :: "video_env \<Rightarrow> string list \<Rightarrow> nat res" where
  "try_play_urls E [] = Inl (ExtractError ''TikTok video frame fallback download failed'')"
| "try_play_urls E (p # ps) =
     (case http_download_video E p of
        Inl _ \<Rightarrow> try_play_urls E ps
      | Inr n \<Rightarrow> if in_bound n then Inr n else try_play_urls E ps)"

definition download_tiktok_media :: "video_env \<Rightarrow> string \<Rightarrow> string list \<Rightarrow> nat res" where
  "download_tiktok_media E url play_urls =
     (case good_run (ve_ytdlp E url) of
        Some n \<Rightarrow> Inr n
      | None \<Rightarrow> try_play_urls E (take 3 play_urls))"

definition download_video_media :: "video_env \<Rightarrow> string \<Rightarrow> string list \<Rightarrow> nat res" where
  "download_video_media E url play_urls =
     res_bind (host_matches url [''tiktok.com'']) (\<lambda>tiktok.
       if tiktok then download_tiktok_media E url play_urls
       else case ve_ytdlp E url of
         NotInstalled \<Rightarrow> Inl (ExtractError ''yt-dlp is not installed on the extraction server'')
       | RunTimedOut \<Rightarrow> Inl (ExtractError ''yt-dlp timed out after 120s'')
       | Exited code output \<Rightarrow>
           (case output of
              None \<Rightarrow> Inl (ExtractError ''Video frame download failed'')
            | Some n \<Rightarrow>
                if code \<noteq> 0 \<or> n = 0 then Inl (ExtractError ''Video frame download failed'')
                else if max_video_bytes < n then Inl (ExtractError ''Video frame download exceeded the download bound'')
                else Inr n))"

definition download_cover_media :: "video_env \<Rightarrow> string \<Rightarrow> string list \<Rightarrow> nat res" where
  "download_cover_media E url play_urls =
     (case good_run (ve_ytdlp_cover E url) of
        Some n \<Rightarrow> Inr n
      | None \<Rightarrow> download_video_media E url play_urls)"

definition too_long :: "settings \<Rightarrow> int \<Rightarrow> exn" where
  "too_long cfg seconds = ExtractError (''Video too long ('' @ int_str seconds @ ''s). Max '' @ int_str (max_duration_seconds cfg) @ ''s.'')"

definition probe_duration :: "settings \<Rightarrow> video_env \<Rightarrow> rat \<Rightarrow> rat res" where
  "probe_duration cfg E least =
     (case ve_probe E of
        None \<Rightarrow> Inl (ExtractError ''Video duration probe timed out'')
      | Some (code, printed) \<Rightarrow>
          (case printed of
             None \<Rightarrow> Inl (ExtractError ''Video duration could not be verified'')
           | Some d \<Rightarrow>
               if code \<noteq> 0 \<or> d \<le> 0 then Inl (ExtractError ''Video duration could not be verified'')
               else if of_int (max_duration_seconds cfg) < d then Inl (too_long cfg (py_int d))
               else Inr (max d least)))"

definition no_frame :: exn where
  "no_frame = ExtractError ''Video frame 1 could not be sampled''"

fun check_sizes :: "nat \<Rightarrow> nat list \<Rightarrow> unit res" where
  "check_sizes i [] = Inr ()"
| "check_sizes i (n # ns) =
     (if n = 0 \<or> max_frame_bytes < n then Inl (ExtractError (''Video frame '' @ nat_str i @ '' exceeded the size bound''))
      else check_sizes (i + 1) ns)"

definition extract_jpeg_at_times :: "video_env \<Rightarrow> rat list \<Rightarrow> nat list" where
  "extract_jpeg_at_times E ts =
     List.map_filter (\<lambda>(i, t). case ve_jpeg E i t of Some n \<Rightarrow> if 0 < n then Some n else None | None \<Rightarrow> None) (enumerate 1 ts)"

definition bounded_frames :: "nat list \<Rightarrow> nat list res" where
  "bounded_frames paths = (if paths = [] then Inl no_frame else res_bind (check_sizes 1 paths) (\<lambda>_. Inr paths))"

definition check_size :: "nat \<Rightarrow> unit res" where
  "check_size n = (if in_bound n then Inr () else Inl (ExtractError ''Video frame download exceeded the download bound''))"

definition no_tools :: exn where
  "no_tools = ExtractError ''ffmpeg and ffprobe are required on the extraction server''"

definition sample_video :: "settings \<Rightarrow> video_env \<Rightarrow> string \<Rightarrow> string list \<Rightarrow> int \<Rightarrow> nat list res" where
  "sample_video cfg E url play_urls max_unique =
     res_bind (download_video_media E url play_urls) (\<lambda>size.
     res_bind (check_size size) (\<lambda>_.
     if \<not> ve_tools E then Inl no_tools
     else res_bind (probe_duration cfg E 1) (\<lambda>duration.
     res_bind (unique_frame_times (ve_thumbs E) duration) (\<lambda>ts.
     if ts = [] then Inl no_frame
     else bounded_frames (extract_jpeg_at_times E (take (nat (max 1 (min max_unique max_unique_vision_frames))) ts))))))"

text \<open>The directory of the frames exists afterwards exactly when they are returned (second result).\<close>

definition in_directory :: "'x res \<Rightarrow> 'x res \<times> bool" where
  "in_directory r = (case r of Inl e \<Rightarrow> (Inl e, False) | Inr x \<Rightarrow> (Inr x, True))"

definition check_source :: "settings \<Rightarrow> video_env \<Rightarrow> string list \<Rightarrow> string \<Rightarrow> int option \<Rightarrow> unit res" where
  "check_source cfg E hosts url seconds =
     res_bind (as_extract_error (validate_public_url (ve_resolve E) hosts url)) (\<lambda>_.
       case seconds of
         None \<Rightarrow> Inr ()
       | Some n \<Rightarrow> if max_duration_seconds cfg < n then Inl (too_long cfg n) else Inr ())"

definition download_video_frames ::
  "settings \<Rightarrow> video_env \<Rightarrow> string list \<Rightarrow> string \<Rightarrow> int option \<Rightarrow> string list \<Rightarrow> int \<Rightarrow> nat list res \<times> bool" where
  "download_video_frames cfg E hosts url seconds play_urls max_unique =
     (case check_source cfg E (if hosts = [] then source_hosts else hosts) url seconds of
        Inl e \<Rightarrow> (Inl e, False)
      | Inr _ \<Rightarrow> in_directory (sample_video cfg E url play_urls max_unique))"

definition download_tiktok_video_frames ::
  "settings \<Rightarrow> video_env \<Rightarrow> string \<Rightarrow> int option \<Rightarrow> string list \<Rightarrow> nat list res \<times> bool" where
  "download_tiktok_video_frames cfg E url seconds play_urls =
     download_video_frames cfg E [''tiktok.com''] url seconds play_urls max_unique_vision_frames"

subsection \<open>Covers\<close>

definition sample_cover :: "settings \<Rightarrow> video_env \<Rightarrow> string \<Rightarrow> string list \<Rightarrow> (nat list \<times> byte list) res" where
  "sample_cover cfg E url play_urls =
     (if \<not> ve_tools E then Inl no_tools
      else res_bind (download_cover_media E url play_urls) (\<lambda>size.
      res_bind (check_size size) (\<lambda>_.
      res_bind (probe_duration cfg E (4 / 100)) (\<lambda>duration.
      case ve_gray E of
        None \<Rightarrow> Inl (ExtractError ''Video frame extraction timed out'')
      | Some (code, gray) \<Rightarrow>
          (case ve_covers E of
             None \<Rightarrow> Inl (ExtractError ''Video frame extraction timed out'')
           | Some paths \<Rightarrow> res_bind (bounded_frames (take cover_frame_count paths)) (\<lambda>ps.
               Inr (ps, if code = 0 then (case gray of None \<Rightarrow> [] | Some b \<Rightarrow> b) else [])))))))"

definition download_cover_frames ::
  "settings \<Rightarrow> video_env \<Rightarrow> string \<Rightarrow> int option \<Rightarrow> string list \<Rightarrow> (nat list \<times> byte list) res \<times> bool" where
  "download_cover_frames cfg E url seconds play_urls =
     (case check_source cfg E source_hosts url seconds of
        Inl e \<Rightarrow> (Inl e, False)
      | Inr _ \<Rightarrow> in_directory (sample_cover cfg E url play_urls))"

definition brightness :: "byte list \<Rightarrow> rat list" where
  "brightness pixels = map (\<lambda>b. of_nat (unat b)) pixels"

definition gray_cover_score :: "byte list \<Rightarrow> rat" where
  "gray_cover_score pixels =
     (let n = of_nat (length pixels); xs = brightness pixels in
      if pixels = [] then 0
      else let mean = sum_list xs / n; variance = sum_list (map (\<lambda>x. (x - mean) ^ 2) xs) / n
           in if mean < 18 \<or> 238 < mean then variance * (5 / 100) else variance)"

text \<open>\<open>max (xs, key = f)\<close>: the first of the largest.\<close>

fun max_by :: "('x \<Rightarrow> rat) \<Rightarrow> 'x \<Rightarrow> 'x list \<Rightarrow> 'x" where
  "max_by f best [] = best"
| "max_by f best (x # xs) = max_by f (if f best < f x then x else best) xs"

text \<open>The files by their sizes; the result is the index of one of them.\<close>

definition select_best_cover_path :: "nat list \<Rightarrow> byte list \<Rightarrow> nat option" where
  "select_best_cover_path sizes gray =
     (let usable = filter (\<lambda>i. 0 < sizes ! i) [0..<length sizes];
          frame = cover_gray_size * cover_gray_size;
          count = min (length usable) (length gray div frame)
      in if usable = [] then None
         else if count \<noteq> 0
         then Some (usable ! max_by (\<lambda>i. gray_cover_score (take frame (drop (i * frame) gray))) 0 [1..<count])
         else Some (max_by (\<lambda>i. of_nat (sizes ! i)) (hd usable) (tl usable)))"

subsection \<open>What a download guarantees\<close>

lemma check_sizes_ok: "check_sizes i ns = Inr () \<longleftrightarrow> list_all (\<lambda>n. 0 < n \<and> n \<le> max_frame_bytes) ns"
  by (induction ns arbitrary: i) auto

lemma bounded_frames_ok: "bounded_frames ps = Inr qs \<longleftrightarrow> qs = ps \<and> ps \<noteq> [] \<and> list_all (\<lambda>n. 0 < n \<and> n \<le> max_frame_bytes) ps"
  by (auto simp: bounded_frames_def res_bind_eq_Inr check_sizes_ok)

lemma map_filter_length: "length (List.map_filter f xs) \<le> length xs"
  by (induction xs) (auto simp: List.map_filter_simps split: option.split)

lemma copy_chunks_bound: "copy_chunks w cs = Inr n \<Longrightarrow> w \<le> max_video_bytes \<Longrightarrow> w \<le> n \<and> n \<le> max_video_bytes"
  by (induction w cs rule: copy_chunks.induct) (auto split: if_splits)

lemma try_play_bound: "try_play_urls E ps = Inr n \<Longrightarrow> in_bound n"
  by (induction ps) (auto split: sum.splits if_splits)

lemma download_bound: "download_video_media E url plays = Inr n \<Longrightarrow> in_bound n"
proof -
  have good: "good_run r = Some n \<Longrightarrow> in_bound n" for r by (induction r rule: good_run.induct) (auto split: if_splits)
  assume "download_video_media E url plays = Inr n"
  then show "in_bound n"
    using good try_play_bound
    by (auto simp: download_video_media_def download_tiktok_media_def res_bind_eq_Inr in_bound_def
        split: if_splits option.splits ytdlp_run.splits)
qed

definition source_checked :: "settings \<Rightarrow> video_env \<Rightarrow> string list \<Rightarrow> string \<Rightarrow> int option \<Rightarrow> bool" where
  "source_checked cfg E hosts url seconds \<longleftrightarrow> validate_public_url (ve_resolve E) hosts url = Inr () \<and>
     (case seconds of None \<Rightarrow> True | Some n \<Rightarrow> n \<le> max_duration_seconds cfg)"

lemma check_source_ok: "check_source cfg E hosts url seconds = Inr x \<Longrightarrow> source_checked cfg E hosts url seconds"
proof -
  have "as_extract_error v = Inr y \<Longrightarrow> v = Inr y" for v :: "unit res" and y
    by (induction v rule: as_extract_error.induct) auto
  then show "check_source cfg E hosts url seconds = Inr x \<Longrightarrow> source_checked cfg E hosts url seconds"
    by (auto simp: check_source_def source_checked_def res_bind_eq_Inr split: option.splits if_splits)
qed

lemma sample_bounded:
  assumes "sample_video cfg E url plays m = Inr ps"
  shows "ps \<noteq> [] \<and> length ps \<le> 12 \<and> list_all (\<lambda>n. 0 < n \<and> n \<le> max_frame_bytes) ps"
proof -
  from assms obtain ts where b: "bounded_frames (extract_jpeg_at_times E (take (nat (max 1 (min m max_unique_vision_frames))) ts)) = Inr ps"
    by (auto simp: sample_video_def res_bind_eq_Inr split: if_splits)
  have "length (extract_jpeg_at_times E (take (nat (max 1 (min m max_unique_vision_frames))) ts)) \<le> nat (max 1 (min m max_unique_vision_frames))"
    unfolding extract_jpeg_at_times_def by (rule order_trans [OF map_filter_length]) simp
  also have "\<dots> \<le> 12" by (simp add: max_unique_vision_frames_def)
  finally show ?thesis using b by (auto simp: bounded_frames_ok)
qed

text \<open>Frames come only from a source that passed the guard and is not too long, at most twelve of them, each
  non-empty and within its bound; and the temporary directory is left behind exactly when the frames are
  returned.\<close>

theorem frames_bounded:
  "case download_video_frames cfg E hosts url seconds plays m of
     (Inl e, kept) \<Rightarrow> \<not> kept
   | (Inr ps, kept) \<Rightarrow> kept \<and> source_checked cfg E (if hosts = [] then source_hosts else hosts) url seconds \<and>
       ps \<noteq> [] \<and> length ps \<le> 12 \<and> list_all (\<lambda>n. 0 < n \<and> n \<le> 2000000) ps"
  using check_source_ok [of cfg E "if hosts = [] then source_hosts else hosts" url seconds] sample_bounded [of cfg E url plays m]
  by (auto simp: download_video_frames_def in_directory_def max_frame_bytes_def split: sum.split)

subsection \<open>The best cover\<close>

lemma max_by_best:
  "max_by f b xs \<in> set (b # xs) \<and> list_all (\<lambda>x. f x \<le> f (max_by f b xs)) (b # xs)"
proof (induction xs arbitrary: b)
  case (Cons x xs)
  show ?case using Cons [of "if f b < f x then x else b"] by (auto simp: list_all_iff split: if_splits)
qed simp

text \<open>The chosen cover is a non-empty file; without the grey pictures it is a largest one.\<close>

theorem cover_choice:
  assumes "select_best_cover_path sizes gray = Some i"
  shows "i < length sizes \<and> 0 < sizes ! i"
    and "length gray < 4096 \<Longrightarrow> k < length sizes \<Longrightarrow> sizes ! k \<le> sizes ! i"
proof -
  define usable where "usable = filter (\<lambda>i. 0 < sizes ! i) [0..<length sizes]"
  define count where "count = min (length usable) (length gray div (cover_gray_size * cover_gray_size))"
  define score where "score = (\<lambda>i. gray_cover_score (take (cover_gray_size * cover_gray_size) (drop (i * (cover_gray_size * cover_gray_size)) gray)))"
  define biggest where "biggest = max_by (\<lambda>i. of_nat (sizes ! i) :: rat) (hd usable) (tl usable)"
  have u: "usable \<noteq> []" and i: "i = (if count \<noteq> 0 then usable ! max_by score 0 [1..<count] else biggest)"
    using assms by (auto simp: select_best_cover_path_def Let_def usable_def [symmetric] count_def [symmetric] score_def biggest_def
        split: if_splits)
  have in_range: "max_by score 0 [1..<count] < length usable" if "count \<noteq> 0"
    using max_by_best [of score 0 "[1..<count]"] that by (auto simp: count_def)
  have b: "biggest \<in> set usable" "list_all (\<lambda>x. (of_nat (sizes ! x) :: rat) \<le> of_nat (sizes ! biggest)) usable"
    using max_by_best [of "\<lambda>i. of_nat (sizes ! i) :: rat" "hd usable" "tl usable"] u by (simp_all add: biggest_def)
  have "i \<in> set usable" using i in_range b(1) by (auto split: if_splits)
  then show "i < length sizes \<and> 0 < sizes ! i" by (simp add: usable_def)
  show "sizes ! k \<le> sizes ! i" if "length gray < 4096" "k < length sizes"
  proof -
    have "count = 0" using that by (simp add: count_def cover_gray_size_def)
    with i b(2) have "\<forall>x \<in> set usable. sizes ! x \<le> sizes ! i" by (auto simp: list_all_iff)
    with that(2) show ?thesis by (cases "0 < sizes ! k") (auto simp: usable_def)
  qed
qed

subsection \<open>The times of the fallback\<close>

lemma round3_mono: "x \<le> y \<Longrightarrow> round3 x \<le> round3 y"
  by (simp add: round3_def divide_right_mono py_round_mono)

lemma round3_near: "x - 1 / 2000 \<le> round3 x" "round3 x \<le> x + 1 / 2000"
  using py_round_ge [of "x * 1000"] py_round_le [of "x * 1000"] by (simp_all add: round3_def field_simps)

lemma round3_pos: "0 \<le> x \<Longrightarrow> 0 \<le> round3 x"
  using round3_mono [of 0 x] by (simp add: round3_def py_round_def)

lemma sample_loop_sorted:
  "0 \<le> interval \<Longrightarrow> sorted (sample_loop n t interval stop) \<and>
   (\<forall>x \<in> set (sample_loop n t interval stop). round3 t \<le> x \<and> x \<le> stop + 1 / 2000) \<and>
   length (sample_loop n t interval stop) \<le> n"
proof (induction n arbitrary: t)
  case (Suc n)
  have "round3 t \<le> round3 (t + interval)" using Suc.prems by (simp add: round3_mono)
  with Suc.IH [of "t + interval"] Suc.prems round3_near(2) [of t] show ?case by fastforce
qed simp

lemma drop_close_sorted:
  "sorted (prev # xs) \<Longrightarrow> sorted_wrt (<) (prev # drop_close prev xs) \<and> set (drop_close prev xs) \<subseteq> set xs \<and>
   length (drop_close prev xs) \<le> length xs"
proof (induction xs arbitrary: prev)
  case (Cons x xs)
  then have le: "prev \<le> x" "sorted (x # xs)" "sorted (prev # xs)" by auto
  show ?case
  proof (cases "1 / 5 < \<bar>prev - x\<bar>")
    case True
    then have "prev < x" using le(1) by auto
    with Cons.IH [OF le(2)] True show ?thesis by fastforce
  next
    case False
    with Cons.IH [OF le(3)] show ?thesis by auto
  qed
qed simp

lemma spaced_sorted: "sorted xs \<Longrightarrow> sorted_wrt (<) (spaced xs) \<and> set (spaced xs) \<subseteq> set xs \<and> length (spaced xs) \<le> length xs"
  using drop_close_sorted by (cases xs) (auto simp: spaced_def)

lemma sorted_replace_last:
  assumes "sorted ts" "ts \<noteq> []" "last ts \<le> y"
  shows "sorted (ts @ [y])" "sorted (butlast ts @ [y])"
proof -
  obtain as z where t: "ts = as @ [z]" using assms(2) by (metis append_butlast_last_id)
  with assms show "sorted (ts @ [y])" "sorted (butlast ts @ [y])" by (force simp: sorted_append)+
qed

lemma with_last_sorted:
  assumes "sorted ts" "ts \<noteq> []" "last ts \<le> lst + interval * (9 / 20)" "length ts \<le> nat n"
  shows "sorted (with_last n interval lst ts) \<and> length (with_last n interval lst ts) \<le> nat n"
proof (cases "interval * (9 / 20) < \<bar>last ts - lst\<bar>")
  case True
  with assms(3) have "last ts \<le> lst" by linarith
  from sorted_replace_last [OF assms(1,2) this] True assms(2,4) show ?thesis by (auto simp: with_last_def)
next
  case False
  then show ?thesis using assms by (simp add: with_last_def)
qed

lemma sorted_map_mono: "sorted xs \<Longrightarrow> (\<And>x y. x \<le> y \<Longrightarrow> f x \<le> f y) \<Longrightarrow> sorted (map f xs)" for f :: "rat \<Rightarrow> rat"
  by (induction xs) auto

text \<open>The times sampled without thumbnails are strictly increasing, within the clip, at least one and at most as
  many as asked for.\<close>

theorem overlay_times_ordered:
  "sorted_wrt (<) (overlay_sample_times d n) \<and> list_all (\<lambda>t. 0 \<le> t \<and> t \<le> max d 1) (overlay_sample_times d n) \<and>
   overlay_sample_times d n \<noteq> [] \<and> length (overlay_sample_times d n) \<le> max 1 (nat n)"
proof -
  define D where "D = max d 1"
  define interval where "interval = overlay_frame_interval D n"
  define start where "start = min (6 / 5) (max (D * (8 / 100)) (1 / 5))"
  define ts where "ts = sample_loop (nat n) start interval (D - 12 / 100)"
  define lst where "lst = round3 (max (D - 35 / 100) 0)"
  have D: "1 \<le> D" by (simp add: D_def)
  have i: "3 / 2 \<le> interval" by (simp add: interval_def overlay_frame_interval_def Let_def min_overlay_interval_seconds_def)
  have o: "overlay_sample_times d n = (if ts = [] then [min lst (D / 2)] else spaced (map (clip_time D) (with_last n interval lst ts)))"
    by (simp add: overlay_sample_times_def Let_def D_def ts_def lst_def interval_def start_def)
  have l: "D - 35 / 100 - 1 / 2000 \<le> lst" "0 \<le> lst" using round3_near(1) [of "max (D - 35 / 100) 0"] round3_pos D by (auto simp: lst_def)
  have s: "sorted ts" "\<forall>x \<in> set ts. x \<le> D - 12 / 100 + 1 / 2000" "length ts \<le> nat n"
    using sample_loop_sorted [of interval "nat n" start "D - 12 / 100"] i by (auto simp: ts_def)
  show ?thesis
  proof (cases "ts = []")
    case True
    have "min lst (D / 2) \<le> D" using D by linarith
    with o True l D show ?thesis by (simp add: D_def [symmetric])
  next
    case False
    have "last ts \<le> D - 12 / 100 + 1 / 2000" using s(2) False by simp
    with l i have "last ts \<le> lst + interval * (9 / 20)" by linarith
    from with_last_sorted [OF s(1) False this s(3)] have w: "sorted (with_last n interval lst ts)" "length (with_last n interval lst ts) \<le> nat n" by simp_all
    have c: "sorted (map (clip_time D) (with_last n interval lst ts))"
      by (rule sorted_map_mono [OF w(1)]) (auto simp: clip_time_def)
    have r: "0 \<le> clip_time D x \<and> clip_time D x \<le> D" for x using D by (auto simp: clip_time_def)
    have ne: "with_last n interval lst ts \<noteq> []" using False by (simp add: with_last_def)
    have "spaced (map (clip_time D) (with_last n interval lst ts)) \<noteq> []"
      using ne by (cases "with_last n interval lst ts") (simp_all add: spaced_def)
    with o False spaced_sorted [OF c] w(2) r show ?thesis
      by (auto simp: list_all_iff D_def [symmetric] subset_iff)
  qed
qed

end
