(* ===== verification/Media_Info.thy ===== *)
theory Media_Info
  imports Tiktok_Slides Video_Frames
begin

section \<open>What is known of a video\<close>

text \<open>
  The metadata of app/extract.py: \<open>fetch_media_info\<close> with the answers of yt-dlp, the oEmbed fallbacks, the
  page of a TikTok post, and the cleaning of subtitles. yt-dlp, the network and \<open>json.loads\<close> are the fields of
  \<open>media_env\<close>; \<open>str\<close> of a container is \<open>pe_rep\<close>.
\<close>

datatype meta_run = MetaNotInstalled | MetaTimedOut | MetaExited int string string    \<comment> \<open>code, output, errors\<close>

record media_env =
  me_page :: page_env
  me_run :: "string \<Rightarrow> meta_run"
  me_oembed :: "string \<Rightarrow> json option"    \<comment> \<open>the JSON at an endpoint, None for any exception\<close>
  me_text :: "string \<Rightarrow> string option"    \<comment> \<open>the text at an address, None for any exception\<close>

record media_info =
  mi_media :: media
  mi_id :: "string option"
  mi_play_urls :: "string list option"

subsection \<open>Subtitles\<close>

definition is_line_break :: "char \<Rightarrow> bool" where
  "is_line_break c \<longleftrightarrow> (of_char c :: nat) \<in> {10, 11, 12, 13, 28, 29, 30, 133}"

text \<open>\<open>str.splitlines\<close>.\<close>

fun splitlines_from :: "string \<Rightarrow> string \<Rightarrow> string list" where
  "splitlines_from l [] = (if l = [] then [] else [l])"
| "splitlines_from l [c] = (if is_line_break c then [l] else [l @ [c]])"
| "splitlines_from l (c # d # s) =
     (if is_line_break c
      then l # (if (of_char c :: nat) = 13 \<and> (of_char d :: nat) = 10 then splitlines_from [] s else splitlines_from [] (d # s))
      else splitlines_from (l @ [c]) (d # s))"

definition splitlines :: "string \<Rightarrow> string list" where
  "splitlines s = splitlines_from [] s"

text \<open>\<open>re.sub ("<[^>]+>", "", s)\<close>: a tag ends at the first bracket, and an empty one is none.\<close>

lemma split_once_shorter: "split_once p s = Some (a, b) \<Longrightarrow> length b \<le> length s"
proof (induction p s arbitrary: a rule: split_once.induct)
  case (2 p c s)
  then show ?case by (fastforce split: if_splits)
qed (simp split: if_splits)

function strip_tags :: "string \<Rightarrow> string" where
  "strip_tags [] = []"
| "strip_tags (c # s) =
     (if c = CHR ''<''
      then (case split_once ''>'' s of
              None \<Rightarrow> c # strip_tags s
            | Some (a, b) \<Rightarrow> if a = [] then c # strip_tags s else strip_tags b)
      else c # strip_tags s)"
  by pat_completeness auto
termination
  by (relation "measure length") (auto dest!: split_once_shorter)

definition digit_like :: "char \<Rightarrow> bool" where
  "digit_like c \<longleftrightarrow> is_digit c \<or> (of_char c :: nat) \<in> {178, 179, 185}"

definition subtitle_line :: "string \<Rightarrow> string option" where
  "subtitle_line raw =
     (let l = strip raw in
      if l = [] \<or> starts_with l ''WEBVTT'' \<or> contains l ''-->'' \<or> list_all digit_like l then None
      else or_none (strip (strip_tags l)))"

definition clean_subtitles :: "string \<Rightarrow> string option" where
  "clean_subtitles raw = or_none (strip (join '' '' (List.map_filter subtitle_line (splitlines raw))))"

definition download_subtitle_url :: "media_env \<Rightarrow> string \<Rightarrow> string option" where
  "download_subtitle_url M url =
     (case validate_public_url (pe_resolve (me_page M)) [] url of
        Inl _ \<Rightarrow> None
      | Inr _ \<Rightarrow> (case me_text M url of None \<Rightarrow> None | Some raw \<Rightarrow> clean_subtitles raw))"

definition subtitle_langs :: "string list" where
  "subtitle_langs = [''es'', ''es-ES'', ''en'', ''en-US'']"

definition entries_of :: "json \<Rightarrow> json list res" where
  "entries_of v = (case v of JArr vs \<Rightarrow> Inr vs | JObj [] \<Rightarrow> Inr [] | JObj _ \<Rightarrow> Inl AttributeError | JStr _ \<Rightarrow> Inl AttributeError | _ \<Rightarrow> Inl TypeError)"

text \<open>Membership in a set of texts needs a value with a hash.\<close>

definition readable_ext :: "json \<Rightarrow> bool res" where
  "readable_ext v = (case v of JArr _ \<Rightarrow> Inl TypeError | JObj _ \<Rightarrow> Inl TypeError
     | _ \<Rightarrow> Inr (v \<in> {JStr ''vtt'', JStr ''srv3'', JStr ''json3''}))"

text \<open>The first entry in a readable format that gives a text.\<close>

fun first_entry :: "media_env \<Rightarrow> json list \<Rightarrow> string option res" where
  "first_entry M [] = Inr None"
| "first_entry M (e # es) =
     res_bind (as_dict e) (\<lambda>d.
     res_bind (readable_ext (dget d ''ext'')) (\<lambda>ok.
       if ok \<and> truthy (dget d ''url'')
       then (case download_subtitle_url M (py_str (pe_rep (me_page M)) (dget d ''url'')) of
               Some t \<Rightarrow> Inr (Some t)
             | None \<Rightarrow> first_entry M es)
       else first_entry M es))"

fun first_lang :: "media_env \<Rightarrow> dict \<Rightarrow> string list \<Rightarrow> string option res" where
  "first_lang M tracks [] = Inr None"
| "first_lang M tracks (l # ls) =
     (let entries = py_or (dget tracks l) (dget tracks (hd (split_char (CHR ''-'') l))) in
      if \<not> truthy entries then first_lang M tracks ls
      else res_bind (entries_of entries) (\<lambda>es.
        res_bind (first_entry M es) (\<lambda>found.
          case found of Some t \<Rightarrow> Inr (Some t) | None \<Rightarrow> first_lang M tracks ls)))"

fun first_tracks :: "media_env \<Rightarrow> dict \<Rightarrow> string list \<Rightarrow> string option res" where
  "first_tracks M data [] = Inr None"
| "first_tracks M data (k # ks) =
     res_bind (as_dict (py_or (dget data k) (JObj []))) (\<lambda>tracks.
       res_bind (first_lang M tracks subtitle_langs) (\<lambda>found.
         case found of Some t \<Rightarrow> Inr (Some t) | None \<Rightarrow> first_tracks M data ks))"

definition extract_subtitles_from_info :: "media_env \<Rightarrow> dict \<Rightarrow> string option res" where
  "extract_subtitles_from_info M data =
     res_bind (first_tracks M data [''subtitles'', ''automatic_captions'']) (\<lambda>found.
       Inr (case found of None \<Rightarrow> None | Some t \<Rightarrow> or_none (strip t)))"

subsection \<open>The fields\<close>

definition author_from_info :: "(json \<Rightarrow> string) \<Rightarrow> dict \<Rightarrow> string option" where
  "author_from_info rep data =
     (let uploader = first_or data [''uploader''] (dget data ''channel''); creator = dget data ''creator''
      in if truthy uploader then Some (py_str rep uploader)
         else if truthy creator then Some (py_str rep creator) else None)"

text \<open>Thumbnails that are no list raise, with an exception the caller does not tell apart.\<close>

definition thumbnail_from_info :: "(json \<Rightarrow> string) \<Rightarrow> dict \<Rightarrow> string option res" where
  "thumbnail_from_info rep data =
     (if truthy (dget data ''thumbnail'') then Inr (Some (py_str rep (dget data ''thumbnail'')))
      else case dget data ''thumbnails'' of
        JArr (v # vs) \<Rightarrow> res_bind (as_dict (last (v # vs))) (\<lambda>d. Inr (Some (py_str rep (py_or (dget d ''url'') (JStr [])))))
      | v \<Rightarrow> if truthy v then Inl KeyError else Inr None)"

definition given_text :: "page_env \<Rightarrow> json \<Rightarrow> string option" where
  "given_text E v = or_none (text_of E v)"

definition media_from_oembed :: "page_env \<Rightarrow> string \<Rightarrow> json option \<Rightarrow> media_info option" where
  "media_from_oembed E url data =
     (case data of
        Some (JObj (p # ps)) \<Rightarrow>
          (let d = p # ps; title = text_of E (dget d ''title''); caption = take 12000 title in
           if title = [] then None
           else Some \<lparr>mi_media = \<lparr>md_title = caption, md_description = caption, md_author = given_text E (dget d ''author_name''),
               md_thumbnail = given_text E (dget d ''thumbnail_url''), md_duration = None, md_webpage = url,
               md_subtitles = None, md_extra = None\<rparr>, mi_id = None, mi_play_urls = None\<rparr>)
      | _ \<Rightarrow> None)"

text \<open>\<open>urllib.parse.quote (s, safe="")\<close> of the bytes of a text.\<close>

definition hex_upper :: "nat \<Rightarrow> char" where
  "hex_upper n = (if n < 10 then char_of (48 + n) else char_of (55 + n))"

definition url_quote :: "string \<Rightarrow> string" where
  "url_quote s = concat (map (\<lambda>c. let n = of_char c :: nat in
     if 48 \<le> n \<and> n \<le> 57 \<or> 65 \<le> n \<and> n \<le> 90 \<or> 97 \<le> n \<and> n \<le> 122 \<or> c \<in> {CHR ''_'', CHR ''.'', CHR ''-'', CHR ''~''}
     then [c] else CHR ''%'' # [hex_upper (n div 16), hex_upper (n mod 16)]) s)"

definition canonical_instagram_url :: "string \<Rightarrow> string res" where
  "canonical_instagram_url url =
     res_bind (urlparse url) (\<lambda>u.
       Inr (case filter (\<lambda>x. x \<noteq> []) (split_char (CHR ''/'') (u_path u)) of
              a # b # _ \<Rightarrow> if lower a \<in> {''reel'', ''p'', ''tv''}
                 then ''https://www.instagram.com/'' @ lower a @ ''/'' @ b @ ''/'' else url
            | _ \<Rightarrow> url))"

definition oembed :: "media_env \<Rightarrow> string \<Rightarrow> string list \<Rightarrow> string \<Rightarrow> media_info option res" where
  "oembed M url roots endpoint =
     res_bind (host_matches url roots) (\<lambda>ok.
       Inr (if ok then media_from_oembed (me_page M) url (me_oembed M endpoint) else None))"

definition fetch_tiktok_oembed :: "media_env \<Rightarrow> string \<Rightarrow> media_info option res" where
  "fetch_tiktok_oembed M url = oembed M url [''tiktok.com''] (''https://www.tiktok.com/oembed?url='' @ url_quote url)"

definition fetch_instagram_oembed :: "media_env \<Rightarrow> string \<Rightarrow> media_info option res" where
  "fetch_instagram_oembed M url =
     res_bind (canonical_instagram_url url) (\<lambda>target.
       oembed M url [''instagram.com''] (''https://www.instagram.com/api/v1/oembed/?url='' @ url_quote target))"

definition fetch_youtube_oembed :: "media_env \<Rightarrow> string \<Rightarrow> media_info option res" where
  "fetch_youtube_oembed M url =
     oembed M url [''youtube.com'', ''youtu.be''] (''https://www.youtube.com/oembed?url='' @ url_quote url @ ''&format=json'')"

definition metadata_fallback :: "media_env \<Rightarrow> string \<Rightarrow> media_info option res" where
  "metadata_fallback M url =
     res_bind (fetch_tiktok_oembed M url) (\<lambda>a.
       if a \<noteq> None then Inr a
       else res_bind (fetch_instagram_oembed M url) (\<lambda>b.
         if b \<noteq> None then Inr b else fetch_youtube_oembed M url))"

subsection \<open>The page of a TikTok post\<close>

fun first_caption :: "media_env \<Rightarrow> string list \<Rightarrow> string option" where
  "first_caption M [] = None"
| "first_caption M (u # us) = (case download_subtitle_url M u of Some t \<Rightarrow> Some t | None \<Rightarrow> first_caption M us)"

definition page_duration :: "dict \<Rightarrow> rat option" where
  "page_duration video = (case num_value (dget video ''duration'') of
     Some q \<Rightarrow> if 0 < q then Some (of_int (py_int q)) else None | None \<Rightarrow> None)"

definition or_text :: "string \<Rightarrow> string \<Rightarrow> string" where
  "or_text a b = (if a = [] then b else a)"

definition add_page :: "media_env \<Rightarrow> media_info \<Rightarrow> dict \<Rightarrow> media_info res" where
  "add_page M m item =
     (let E = me_page M; md = mi_media m; video = (case dget item ''video'' of JObj v \<Rightarrow> v | _ \<Rightarrow> []);
          desc = text_of E (dget item ''desc'') in
      res_bind (tiktok_caption_urls E (JObj item)) (\<lambda>urls.
      let captions = first_caption M (take 4 urls);
          author = (if or_empty (md_author md) = [] then
             (case dget item ''author'' of JObj d \<Rightarrow> given_text E (dget d ''uniqueId'') | _ \<Rightarrow> md_author md) else md_author md);
          subtitles = (case captions of Some c \<Rightarrow> if length (or_empty (md_subtitles md)) < length c then Some c else md_subtitles md
                                      | None \<Rightarrow> md_subtitles md)
      in res_bind (case mi_play_urls m of Some (u # us) \<Rightarrow> Inr (u # us) | _ \<Rightarrow> tiktok_play_urls (JObj item)) (\<lambda>plays.
         Inr (m\<lparr>mi_media := md\<lparr>md_title := or_text (md_title md) desc, md_description := or_text (md_description md) desc,
                  md_author := author, md_duration := (if md_duration md = None then page_duration video else md_duration md),
                  md_subtitles := subtitles\<rparr>,
                mi_play_urls := (if plays = [] then None else Some plays)\<rparr>))))"

definition with_tiktok_page_evidence :: "media_env \<Rightarrow> string \<Rightarrow> media_info \<Rightarrow> media_info res" where
  "with_tiktok_page_evidence M url m =
     res_bind (host_matches url [''tiktok.com'']) (\<lambda>tiktok.
       if \<not> tiktok then Inr m
       else case fetch_tiktok_item (me_page M) url of
         Inl _ \<Rightarrow> Inr m
       | Inr None \<Rightarrow> Inr m
       | Inr (Some v) \<Rightarrow>
           if \<not> truthy v then Inr m
           else res_bind (as_dict v) (\<lambda>item.
             if truthy (dget item ''imagePost'') \<or> truthy (dget item ''image_post'') then Inr m
             else add_page M m item))"

subsection \<open>\<open>fetch_media_info\<close>\<close>

text \<open>The fallback stands in for an error of yt-dlp.\<close>

definition fallback_or :: "media_env \<Rightarrow> string \<Rightarrow> exn \<Rightarrow> media_info res" where
  "fallback_or M url e =
     res_bind (metadata_fallback M url) (\<lambda>found.
       case found of Some m \<Rightarrow> with_tiktok_page_evidence M url m | None \<Rightarrow> Inl e)"

definition parse_json :: "page_env \<Rightarrow> string \<Rightarrow> json res" where
  "parse_json E out =
     (if strip out = [] then Inl (ExtractError ''yt-dlp returned empty output'')
      else case pe_loads E out of None \<Rightarrow> Inl (ExtractError ''yt-dlp returned invalid JSON'') | Some v \<Rightarrow> Inr v)"

definition last_chars :: "nat \<Rightarrow> string \<Rightarrow> string" where
  "last_chars n s = drop (length s - n) s"

definition info_from_data :: "settings \<Rightarrow> media_env \<Rightarrow> string \<Rightarrow> json \<Rightarrow> media_info res" where
  "info_from_data cfg M url v =
     res_bind (as_dict v) (\<lambda>data.
     let E = me_page M; duration = num_value (dget data ''duration'') in
     if (case duration of None \<Rightarrow> False | Some q \<Rightarrow> of_int (max_duration_seconds cfg) < q)
     then Inl (too_long cfg (py_int (the duration)))
     else
       res_bind (stripped (py_or (dget data ''title'') (JStr []))) (\<lambda>title.
       res_bind (stripped (py_or (dget data ''description'') (JStr []))) (\<lambda>description.
       res_bind (thumbnail_from_info (pe_rep E) data) (\<lambda>thumb.
       res_bind (extract_subtitles_from_info M data) (\<lambda>subtitles.
       with_tiktok_page_evidence M url
         \<lparr>mi_media = \<lparr>md_title = title, md_description = description, md_author = author_from_info (pe_rep E) data,
            md_thumbnail = thumb, md_duration = map_option (\<lambda>q. of_int (py_int q)) duration,
            md_webpage = (if truthy (dget data ''webpage_url'') then py_str (pe_rep E) (dget data ''webpage_url'') else url),
            md_subtitles = subtitles, md_extra = None\<rparr>,
          mi_id = Some (py_str (pe_rep E) (py_or (dget data ''id'') (JStr ''video''))), mi_play_urls = None\<rparr>)))))"

definition fetch_media_info :: "settings \<Rightarrow> media_env \<Rightarrow> string \<Rightarrow> media_info res" where
  "fetch_media_info cfg M url =
     res_bind (as_extract_error (validate_public_url (pe_resolve (me_page M)) source_hosts url)) (\<lambda>_.
     case me_run M url of
       MetaNotInstalled \<Rightarrow> fallback_or M url (ExtractError ''yt-dlp is not installed on the extraction server'')
     | MetaTimedOut \<Rightarrow> fallback_or M url (ExtractError ''yt-dlp timed out after 90s'')
     | MetaExited code out err \<Rightarrow>
         if code \<noteq> 0
         then fallback_or M url (ExtractError (last_chars 500 (strip (if err \<noteq> [] then err else or_text out ''unknown yt-dlp error''))))
         else case parse_json (me_page M) out of
           Inl e \<Rightarrow> fallback_or M url e
         | Inr v \<Rightarrow> info_from_data cfg M url v)"

subsection \<open>How long a video may be\<close>

lemma py_int_le: "q \<le> of_int n \<Longrightarrow> py_int q \<le> n"
  by (simp add: py_int_def) linarith

definition short_enough :: "settings \<Rightarrow> string \<Rightarrow> media_info \<Rightarrow> bool" where
  "short_enough cfg url m \<longleftrightarrow> (case md_duration (mi_media m) of None \<Rightarrow> True | Some q \<Rightarrow> q \<le> of_int (max_duration_seconds cfg)) \<or>
     host_matches url [''tiktok.com''] = Inr True"

lemma page_short: "with_tiktok_page_evidence M url m = Inr m' \<Longrightarrow> short_enough cfg url m \<Longrightarrow> short_enough cfg url m'"
  by (cases "host_matches url [''tiktok.com'']") (auto simp: with_tiktok_page_evidence_def short_enough_def split: if_splits)

lemma oembed_duration: "media_from_oembed E url v = Some m \<Longrightarrow> md_duration (mi_media m) = None"
  by (auto simp: media_from_oembed_def Let_def split: option.splits json.splits list.splits if_splits)

lemma fallback_duration: "metadata_fallback M url = Inr (Some m) \<Longrightarrow> md_duration (mi_media m) = None"
  by (auto simp: metadata_fallback_def fetch_tiktok_oembed_def fetch_instagram_oembed_def fetch_youtube_oembed_def oembed_def
      res_bind_eq_Inr dest: oembed_duration split: if_splits)

lemma fallback_short: "fallback_or M url e = Inr m \<Longrightarrow> short_enough cfg url m"
  using page_short fallback_duration
  by (fastforce simp: fallback_or_def res_bind_eq_Inr short_enough_def split: option.splits)

text \<open>What is fetched comes from an accepted source that passed the guard and is no longer than allowed, unless
  it is a TikTok post.\<close>

theorem media_duration_bounded:
  assumes "fetch_media_info cfg M url = Inr m"
  shows "validate_public_url (pe_resolve (me_page M)) source_hosts url = Inr () \<and> short_enough cfg url m"
proof -
  have "as_extract_error v = Inr y \<Longrightarrow> v = Inr y" for v :: "unit res" and y
    by (induction v rule: as_extract_error.induct) auto
  with assms have v: "validate_public_url (pe_resolve (me_page M)) source_hosts url = Inr ()"
    by (auto simp: fetch_media_info_def res_bind_eq_Inr)
  have data: "short_enough cfg url m" if d: "info_from_data cfg M url v = Inr m" for v
  proof -
    from d obtain m0 dur where m0: "with_tiktok_page_evidence M url m0 = Inr m"
      and dur: "md_duration (mi_media m0) = map_option (\<lambda>q. of_int (py_int q)) dur"
      and b: "\<not> (case dur of None \<Rightarrow> False | Some q \<Rightarrow> of_int (max_duration_seconds cfg) < q)"
      by (auto simp: info_from_data_def res_bind_eq_Inr Let_def split: if_splits)
    have "short_enough cfg url m0" using dur b py_int_le by (auto simp: short_enough_def not_less split: option.splits)
    with page_short m0 show ?thesis by blast
  qed
  from assms have "short_enough cfg url m"
    by (auto simp: fetch_media_info_def res_bind_eq_Inr dest: fallback_short data split: meta_run.splits if_splits sum.splits)
  with v show ?thesis by blast
qed

definition ex_post :: json where
  "ex_post = JObj [(''ItemModule'', JObj [(''1'', JObj [(''desc'', JStr ''Pasta''), (''video'', JObj [(''duration'', JInt 7200)])])])]"

definition ex_media_env :: media_env where
  "ex_media_env = \<lparr>me_page = \<lparr>pe_resolve = (\<lambda>_ _. Some [''203.0.114.7'']),
       pe_fetch = (\<lambda>_ _. Some (''<script id='' @ dquote @ ''SIGI_STATE'' @ dquote @ ''>{}</script>'')),
       pe_loads = (\<lambda>_. Some ex_post), pe_unescape = (\<lambda>s. s), pe_rep = (\<lambda>_. [])\<rparr>,
     me_run = (\<lambda>_. MetaTimedOut), me_oembed = (\<lambda>_. Some (JObj [(''title'', JStr ''Pasta'')])), me_text = (\<lambda>_. None)\<rparr>"

text \<open>With yt-dlp failing, the duration on the page of a TikTok post is taken over without a look at the limit: a post of
  two hours goes on to the download of its sound.\<close>

theorem long_post_accepted:
  "map_option (md_duration \<circ> mi_media) (case fetch_media_info default_settings ex_media_env ''https://www.tiktok.com/@a/video/1'' of
     Inl _ \<Rightarrow> None | Inr m \<Rightarrow> Some m) = Some (Some 7200) \<and> max_duration_seconds default_settings = 600"
proof
  show "map_option (md_duration \<circ> mi_media) (case fetch_media_info default_settings ex_media_env ''https://www.tiktok.com/@a/video/1'' of
     Inl _ \<Rightarrow> None | Inr m \<Rightarrow> Some m) = Some (Some 7200)" by code_simp
qed (simp add: default_settings_def)

end
