(* ===== verification/Ocr.thy ===== *)
theory Ocr
  imports Tiktok_Slides Recipe_Builder
begin

section \<open>Reading speech and pictures\<close>

text \<open>
  app/transcript.py and app/stt.py: captions of YouTube, speech to text, the text of slides and of video
  frames. What OpenAI answers, the captions and the downloads are arguments; every call that was answered
  is added to the cost meter before its answer is looked at.
\<close>

subsection \<open>Captions and speech\<close>

text \<open>\<open>captions\<close> is \<open>YouTubeTranscriptApi.get_transcript\<close>: the texts of the entries, None for any exception.\<close>

definition youtube_transcript :: "(string \<Rightarrow> string list option) \<Rightarrow> string \<Rightarrow> string option res" where
  "youtube_transcript captions url =
     res_bind (youtube_video_id url) (\<lambda>found.
       case found of
         None \<Rightarrow> Inr None
       | Some [] \<Rightarrow> Inr None
       | Some vid \<Rightarrow>
           (case captions vid of
              None \<Rightarrow> Inr None
            | Some entries \<Rightarrow> Inr (or_none (strip (join '' '' (map strip (filter (\<lambda>t. t \<noteq> []) entries)))))))"

text \<open>An answer of the transcription interface: the response for the meter, its \<open>text\<close> and its rendering.\<close>

datatype speech_reply = SpeechFailed exn | Spoken node string string

definition no_key :: exn where
  "no_key = ExtractError ''OPENAI_API_KEY is not configured''"

definition speech_fallback :: "settings \<Rightarrow> rat option \<Rightarrow> rat" where
  "speech_fallback cfg duration =
     estimate_miss_cost_cents cfg (case duration of None \<Rightarrow> None | Some d \<Rightarrow> if d = 0 then None else Some (py_int d)) 0 0 True
       - cost_text_cents_per_extract cfg"

definition heard :: "settings \<Rightarrow> speech_reply \<Rightarrow> rat option \<Rightarrow> exn \<Rightarrow> meter \<Rightarrow> string res \<times> meter" where
  "heard cfg reply duration silence m =
     (if openai_api_key cfg = [] then (Inl no_key, m)
      else case reply of
        SpeechFailed e \<Rightarrow> (Inl e, m)
      | Spoken response t shown_response \<Rightarrow>
          (let said = strip (if t \<noteq> [] then t else shown_response)
           in (if said = [] then Inl silence else Inr said,
               snd (add_transcription cfg response duration (Some (speech_fallback cfg duration)) m))))"

definition whisper_transcript :: "settings \<Rightarrow> speech_reply \<Rightarrow> rat option \<Rightarrow> meter \<Rightarrow> string res \<times> meter" where
  "whisper_transcript cfg reply duration m = heard cfg reply duration (ExtractError ''Transcription returned empty text'') m"

text \<open>The language of \<open>rotate_transcript\<close> goes to OpenAI: \<open>reply\<close> depends on it. \<open>SttBadResult\<close> is a
  \<open>RuntimeError\<close> here.\<close>

definition stt_lang :: "string option \<Rightarrow> string option" where
  "stt_lang code =
     (let raw = strip (or_empty code) in
      if raw = [] then None else or_none (lower (hd (split_char (CHR ''-'') raw))))"

definition rotate_transcript ::
  "settings \<Rightarrow> (string option \<Rightarrow> speech_reply) \<Rightarrow> (string \<Rightarrow> bool) option \<Rightarrow> rat option \<Rightarrow> string option \<Rightarrow> meter \<Rightarrow> string res \<times> meter" where
  "rotate_transcript cfg reply is_good duration code m =
     (case heard cfg (reply (stt_lang code)) duration (RuntimeError ''openai empty'') m of
        (Inl e, m') \<Rightarrow> (Inl e, m')
      | (Inr said, m') \<Rightarrow>
          (case is_good of
             None \<Rightarrow> (Inr said, m')
           | Some good \<Rightarrow> if good said then (Inr said, m') else (Inl (RuntimeError ''openai rejected_by_quality''), m')))"

subsection \<open>Slides\<close>

datatype fetch_try = Fetched string | TooLarge | FetchFailed string    \<comment> \<open>the name of the exception's type\<close>

text \<open>\<open>encode\<close> is \<open>base64.b64encode\<close>; \<open>attempts\<close> are the outcomes of the two downloads.\<close>

definition download_image_b64 ::
  "(string \<Rightarrow> int \<Rightarrow> string list option) \<Rightarrow> (string \<Rightarrow> nat \<Rightarrow> fetch_try) \<Rightarrow> (string \<Rightarrow> string) \<Rightarrow> string \<Rightarrow> string option res" where
  "download_image_b64 resolve attempts encode url =
     (case validate_public_url resolve [] url of
        Inl (ValueError m) \<Rightarrow> Inl (ExtractError m)
      | Inl e \<Rightarrow> Inl e
      | Inr _ \<Rightarrow>
          (let image = (\<lambda>content. if length content < 500 then Inr None else Inr (Some (encode content)));
               too_large = Inl (ExtractError ''Slide image is too large'')
           in case attempts url 0 of
                Fetched content \<Rightarrow> image content
              | TooLarge \<Rightarrow> too_large
              | FetchFailed _ \<Rightarrow>
                  (case attempts url 1 of
                     Fetched content \<Rightarrow> image content
                   | TooLarge \<Rightarrow> too_large
                   | FetchFailed t \<Rightarrow> Inl (ExtractError (''Failed to download slide image: '' @ t)))))"

text \<open>The choice of an answer: nothing, cut off, empty, or a text.\<close>

definition read_text :: "string \<Rightarrow> chat_choice option \<Rightarrow> string res" where
  "read_text label ch =
     (case ch of
        None \<Rightarrow> Inl (ExtractError (label @ '' OCR returned no result''))
      | Some (Choice refused content shortened) \<Rightarrow>
          if shortened then Inl (ExtractError (label @ '' OCR output was truncated''))
          else let chunk = strip content in
            if chunk = [] then Inl (ExtractError (label @ '' OCR returned empty text'')) else Inr chunk)"

definition ocr_image :: "settings \<Rightarrow> chat_reply \<Rightarrow> string \<Rightarrow> meter \<Rightarrow> string res \<times> meter" where
  "ocr_image cfg reply label m =
     (case reply of
        CallFailed _ \<Rightarrow> (Inl (RuntimeError ''OpenAI''), m)
      | Answered response ch \<Rightarrow>
          (read_text label ch, snd (add_chat cfg response (Some (cost_ocr_cents_per_slide cfg)) 1 m)))"

definition unreadable :: "nat list \<Rightarrow> exn" where
  "unreadable is = ExtractError (''Incomplete TikTok carousel: unreadable slides '' @ slide_list is)"

definition ocr_one_slide ::
  "settings \<Rightarrow> string option res \<Rightarrow> (string \<Rightarrow> chat_reply) \<Rightarrow> nat \<Rightarrow> meter \<Rightarrow> string res \<times> meter" where
  "ocr_one_slide cfg download reply idx m =
     (if openai_api_key cfg = [] then (Inl no_key, m)
      else case download of
        Inl _ \<Rightarrow> (Inl (unreadable [idx]), m)
      | Inr None \<Rightarrow> (Inl (unreadable [idx]), m)
      | Inr (Some []) \<Rightarrow> (Inl (unreadable [idx]), m)
      | Inr (Some b64) \<Rightarrow>
          (case ocr_image cfg (reply b64) (''Slide '' @ nat_str idx) m of
             (Inl e, m') \<Rightarrow> (Inl (if is_extract_error e then e else unreadable [idx]), m')
           | (Inr t, m') \<Rightarrow> (Inr t, m')))"

fun read_slides ::
  "(string \<Rightarrow> nat \<Rightarrow> meter \<Rightarrow> string res \<times> meter) \<Rightarrow> nat \<Rightarrow> string list \<Rightarrow> string list \<Rightarrow> nat list \<Rightarrow> meter \<Rightarrow>
   (string list \<times> nat list) res \<times> meter" where
  "read_slides read idx [] parts failures m = (Inr (parts, failures), m)"
| "read_slides read idx (u # us) parts failures m =
     (case read u idx m of
        (Inr t, m') \<Rightarrow> read_slides read (idx + 1) us (parts @ [t]) failures m'
      | (Inl e, m') \<Rightarrow> if is_extract_error e then read_slides read (idx + 1) us parts (failures @ [idx]) m' else (Inl e, m'))"

definition ocr_slides ::
  "settings \<Rightarrow> (string \<Rightarrow> nat \<Rightarrow> meter \<Rightarrow> string res \<times> meter) \<Rightarrow> slide_info \<Rightarrow> nat \<Rightarrow> nat \<Rightarrow> meter \<Rightarrow> string res \<times> meter" where
  "ocr_slides cfg read s whole max_images m =
     (let lmt = min max_images max_slides in
      if openai_api_key cfg = [] then (Inl no_key, m)
      else if or_empty (sl_incomplete s) \<noteq> []
      then (Inl (ExtractError (''Incomplete TikTok carousel: '' @ or_empty (sl_incomplete s))), m)
      else if lmt < whole \<or> lmt < length (sl_image_urls s)
      then (Inl (ExtractError (''Incomplete TikTok carousel: supported limit is '' @ nat_str lmt @ '' slides'')), m)
      else case read_slides read 1 (sl_image_urls s) [] [] m of
        (Inl e, m') \<Rightarrow> (Inl e, m')
      | (Inr (parts, failures), m') \<Rightarrow>
          (if failures \<noteq> [] then Inl (unreadable failures)
           else let merged = strip (join paragraph_break parts) in
             if merged = [] then Inl (ExtractError ''Could not OCR slideshow images'') else Inr merged, m'))"

subsection \<open>Frames\<close>

text \<open>\<open>str.upper\<close>; letters whose capital is beyond U+00FF stay as they are, no marker has them.\<close>

definition upper :: "string \<Rightarrow> string" where
  "upper s = concat (map (\<lambda>c. let n = of_char c :: nat in
     if n = 223 then ''SS''
     else if 97 \<le> n \<and> n \<le> 122 \<or> 224 \<le> n \<and> n \<le> 254 \<and> n \<noteq> 247 then [char_of (n - 32)] else [c]) s)"

definition no_text_markers :: "string list" where
  "no_text_markers = [''NO_RECIPE_TEXT'', ''NO_VISIBLE_TEXT'', ''NONE'', ''N_A'']"

definition usable_overlay_text :: "string \<Rightarrow> string option" where
  "usable_overlay_text t =
     (let cleaned = strip t;
          marker = strip_char (CHR ''.'') (replace_char (CHR '' '') (CHR ''_'') (replace_char (CHR ''-'') (CHR ''_'') (upper cleaned)))
      in if cleaned = [] \<or> marker \<in> set no_text_markers then None else Some cleaned)"

text \<open>Frames are their sizes; the reply to a batch is found under the number of its first frame.\<close>

definition max_overlay_frame :: nat where "max_overlay_frame = 2000000"

fun bad_frame :: "nat \<Rightarrow> nat list \<Rightarrow> nat option" where
  "bad_frame idx [] = None"
| "bad_frame idx (n # ns) = (if n = 0 \<or> max_overlay_frame < n then Some idx else bad_frame (idx + 1) ns)"

definition ocr_overlay_batch :: "settings \<Rightarrow> (nat \<Rightarrow> chat_reply) \<Rightarrow> nat list \<Rightarrow> nat \<Rightarrow> meter \<Rightarrow> string res \<times> meter" where
  "ocr_overlay_batch cfg reply frames start m =
     (case bad_frame start frames of
        Some idx \<Rightarrow> (Inl (ExtractError (''Video frame '' @ nat_str idx @ '' has an invalid size'')), m)
      | None \<Rightarrow>
          (case reply start of
             CallFailed _ \<Rightarrow> (Inl (RuntimeError ''OpenAI''), m)
           | Answered response ch \<Rightarrow>
               (read_text ''Overlay'' ch,
                snd (add_chat cfg response (Some (of_nat (length frames) * cost_ocr_cents_per_slide cfg)) (int (length frames)) m))))"

definition overlay_batch_size :: nat where "overlay_batch_size = 8"

fun read_batches :: "(nat list \<Rightarrow> nat \<Rightarrow> meter \<Rightarrow> string res \<times> meter) \<Rightarrow> nat \<Rightarrow> nat list list \<Rightarrow> meter \<Rightarrow> string list \<times> meter" where
  "read_batches read start [] m = ([], m)"
| "read_batches read start (b # bs) m =
     (case read b (start + 1) m of
        (r, m') \<Rightarrow>
          (case read_batches read (start + overlay_batch_size) bs m' of
             (ts, m'') \<Rightarrow>
               (case r of
                  Inl _ \<Rightarrow> (ts, m'')
                | Inr chunk \<Rightarrow> (case usable_overlay_text chunk of None \<Rightarrow> (ts, m'') | Some t \<Rightarrow> (t # ts, m'')))))"

definition ocr_video_frames :: "settings \<Rightarrow> (nat \<Rightarrow> chat_reply) \<Rightarrow> nat list \<Rightarrow> meter \<Rightarrow> string res \<times> meter" where
  "ocr_video_frames cfg reply frames m =
     (if openai_api_key cfg = [] then (Inl no_key, m)
      else if frames = [] \<or> 12 < length frames
      then (Inl (ExtractError ''Video frame set is invalid or exceeds supported bound''), m)
      else case read_batches (ocr_overlay_batch cfg reply) 0 (batches overlay_batch_size frames) m of
        (ts, m') \<Rightarrow> (Inr (join paragraph_break ts), m'))"

subsection \<open>All slides or none\<close>

lemma read_slides_ok:
  "read_slides read idx us parts failures m = (Inr (ps, fs), m') \<Longrightarrow> fs = [] \<Longrightarrow>
   failures = [] \<and> (\<exists>new ms. ps = parts @ new \<and> length new = length us \<and> ms 0 = m \<and> ms (length us) = m' \<and>
     (\<forall>k < length us. read (us ! k) (idx + k) (ms k) = (Inr (new ! k), ms (Suc k))))"
proof (induction us arbitrary: idx parts failures m)
  case Nil
  then show ?case by (auto intro!: exI [of _ "\<lambda>_. m'"])
next
  case (Cons u us)
  obtain r m1 where r: "read u idx m = (r, m1)" by (cases "read u idx m")
  show ?case
  proof (cases r)
    case (Inl e)
    show ?thesis
    proof (cases "is_extract_error e")
      case True
      with r Inl Cons.prems have "read_slides read (idx + 1) us parts (failures @ [idx]) m1 = (Inr (ps, fs), m')" by simp
      from Cons.IH [OF this Cons.prems(2)] show ?thesis by simp
    next
      case False
      with r Inl Cons.prems show ?thesis by simp
    qed
  next
    case (Inr t)
    with r Cons.prems have "read_slides read (idx + 1) us (parts @ [t]) failures m1 = (Inr (ps, fs), m')" by simp
    from Cons.IH [OF this Cons.prems(2)] obtain new ms where f: "failures = []" and n: "ps = (parts @ [t]) @ new" "length new = length us"
      and ms: "ms 0 = m1" "ms (length us) = m'" "\<forall>k < length us. read (us ! k) (idx + 1 + k) (ms k) = (Inr (new ! k), ms (Suc k))"
      by blast
    define ms' where "ms' = case_nat m ms"
    have "read ((u # us) ! k) (idx + k) (ms' k) = (Inr ((t # new) ! k), ms' (Suc k))" if "k < length (u # us)" for k
      using that r Inr ms(1,3) by (cases k) (auto simp: ms'_def)
    then show ?thesis using f n ms
      by (intro conjI exI [of _ "t # new"] exI [of _ ms']) (auto simp: ms'_def)
  qed
qed

text \<open>The text of a carousel is the text of every one of its slides, each read once and in order; one slide that
  cannot be read, or a carousel not known to be complete, gives no text at all.\<close>

theorem slides_all_read:
  assumes "ocr_slides cfg read s whole max_images m = (Inr t, m')"
  shows "or_empty (sl_incomplete s) = [] \<and> length (sl_image_urls s) \<le> max_slides \<and> t \<noteq> [] \<and>
    (\<exists>parts ms. t = strip (join paragraph_break parts) \<and> length parts = length (sl_image_urls s) \<and> ms 0 = m \<and>
       (\<forall>k < length parts. read (sl_image_urls s ! k) (Suc k) (ms k) = (Inr (parts ! k), ms (Suc k))))"
proof -
  from assms obtain parts where r: "read_slides read 1 (sl_image_urls s) [] [] m = (Inr (parts, []), m')"
    and t: "t = strip (join paragraph_break parts)" "t \<noteq> []"
    and c: "or_empty (sl_incomplete s) = []" "length (sl_image_urls s) \<le> max_slides"
    by (auto simp: ocr_slides_def Let_def split: if_splits prod.splits sum.splits)
  from read_slides_ok [OF r refl] obtain ms where "length parts = length (sl_image_urls s)" "ms 0 = m"
    "\<forall>k < length (sl_image_urls s). read (sl_image_urls s ! k) (1 + k) (ms k) = (Inr (parts ! k), ms (Suc k))" by auto
  with t c show ?thesis by (intro conjI exI [of _ parts] exI [of _ ms]) auto
qed

subsection \<open>The cost of the frames\<close>

lemma batches_length: "0 < n \<Longrightarrow> length (batches n xs) = (length xs + n - 1) div n"
proof (induction n xs rule: batches.induct)
  case (1 n xs)
  show ?case
  proof (cases "xs = []")
    case False
    then have "length (batches n xs) = Suc (length (batches n (drop n xs)))" using 1(2) by (subst batches.simps) simp
    also have "\<dots> = Suc ((length xs - n + n - 1) div n)" using 1 False by simp
    also have "\<dots> = (length xs + n - 1) div n"
    proof (cases "n \<le> length xs")
      case True
      have a: "length xs - n + n - 1 = length xs - 1" using True by simp
      have b: "length xs + n - 1 = (length xs - 1) + n" using True 1(2) by simp
      show ?thesis unfolding a b using 1(2) by simp
    next
      case short: False
      have a: "length xs - n + n - 1 = n - 1" using short by simp
      have b: "length xs + n - 1 = (length xs - 1) + n" using False by (cases xs) simp_all
      have c: "length xs - 1 < n" using short by simp
      show ?thesis unfolding a b using c 1(2) by simp
    qed
    finally show ?thesis .
  next
    case True
    then show ?thesis using 1(2) by (subst batches.simps) simp
  qed
qed

lemma batch_calls:
  "ocr_overlay_batch cfg reply b n m = (r, m') \<Longrightarrow> chat_calls m \<le> chat_calls m' \<and> chat_calls m' \<le> chat_calls m + 1"
  by (auto simp: ocr_overlay_batch_def add_chat_def Let_def split: option.splits chat_reply.splits)

lemma read_batches_calls:
  "read_batches (ocr_overlay_batch cfg reply) n bs m = (ts, m') \<Longrightarrow>
   chat_calls m' \<le> chat_calls m + int (length bs) \<and> length ts \<le> length bs"
proof (induction bs arbitrary: n m ts m')
  case (Cons b bs)
  obtain r m1 where r: "ocr_overlay_batch cfg reply b (n + 1) m = (r, m1)" by (cases "ocr_overlay_batch cfg reply b (n + 1) m")
  obtain ts1 m2 where t: "read_batches (ocr_overlay_batch cfg reply) (n + overlay_batch_size) bs m1 = (ts1, m2)"
    by (cases "read_batches (ocr_overlay_batch cfg reply) (n + overlay_batch_size) bs m1")
  from Cons.IH [OF t] batch_calls [OF r] Cons.prems r t show ?case
    by (auto split: sum.splits option.splits)
qed simp

text \<open>A set of frames costs at most two calls, whatever the model answers.\<close>

theorem frames_two_calls:
  "chat_calls (snd (ocr_video_frames cfg reply frames m)) \<le> chat_calls m + 2"
proof -
  obtain ts m' where b: "read_batches (ocr_overlay_batch cfg reply) 0 (batches overlay_batch_size frames) m = (ts, m')"
    by (cases "read_batches (ocr_overlay_batch cfg reply) 0 (batches overlay_batch_size frames) m")
  have "length (batches overlay_batch_size frames) \<le> 2" if "length frames \<le> 12"
    using that by (simp add: batches_length overlay_batch_size_def)
  with read_batches_calls [OF b] show ?thesis by (auto simp: ocr_video_frames_def b)
qed

end
