(* ===== verification/Extraction_Flow.thy ===== *)
theory Extraction_Flow
  imports Recipe_Flow Media_Info Ocr
begin

section \<open>An import with the readers of the server\<close>

text \<open>
  The composition of the pipeline with the readers of media: pages, metadata, captions and slides are
  those of app/tiktok_slides.py, app/extract.py and app/transcript.py in place of parameters.
\<close>

record outside =
  os_page :: page_env
  os_media :: media_env
  os_captions :: "string \<Rightarrow> string list option"
  os_image :: "string \<Rightarrow> nat \<Rightarrow> fetch_try"
  os_base64 :: "string \<Rightarrow> string"
  os_read :: "string \<Rightarrow> chat_reply"

definition with_readers :: "settings \<Rightarrow> outside \<Rightarrow> ('r, 'a, 'f) tools \<Rightarrow> ('r, 'a, 'f) tools" where
  "with_readers cfg X T =
     T\<lparr>slides_of := fetch_tiktok_slides (os_page X),
       ocr_slide := (\<lambda>image idx. ocr_one_slide cfg
         (download_image_b64 (pe_resolve (os_page X)) (os_image X) (os_base64 X) image) (os_read X) idx),
       media_of := (\<lambda>url. res_bind (fetch_media_info cfg (os_media X) url) (\<lambda>m. Inr (mi_media m))),
       captions_of := youtube_transcript (os_captions X)\<rparr>"

subsection \<open>Whole carousels\<close>

text \<open>The slides of a recipe of the address, if there are any, are the images of its post.\<close>

definition whole_carousel :: "page_env \<Rightarrow> string \<Rightarrow> recipe \<Rightarrow> bool" where
  "whole_carousel E url r \<longleftrightarrow> rc_carousel r = [] \<or> rc_source r \<noteq> url \<or>
     (\<exists>s mobile. rc_carousel r = sl_image_urls s \<and> carousel_ok s \<and> covers_post E (or_empty (fetch_html E url mobile)) s)"

text \<open>What the evidence of a carousel has.\<close>

definition whole_evidence :: "page_env \<Rightarrow> string \<Rightarrow> evidence \<Rightarrow> bool" where
  "whole_evidence E url ev \<longleftrightarrow> ev_carousel ev = [] \<or>
     (\<exists>s mobile. ev_carousel ev = sl_image_urls s \<and> carousel_ok s \<and> covers_post E (or_empty (fetch_html E url mobile)) s)"

lemma evidence_whole: "evidence_ok (whole_evidence E url) (fetch_tiktok_slides E) url"
  using fetched_slides [of E url] by (fastforce simp: evidence_ok_def whole_evidence_def carousel_evidence_def)

lemma built_carousel:
  assumes "build_recipe cfg K lbs prompt ev s = (Inr (Some r), s')"
  shows "rc_carousel r = ev_carousel ev"
proof -
  from assms obtain lang d sections steps where "assemble K (lbs lang) ev lang d sections steps = Some r"
    by (auto simp: build_recipe_def judge_def res_bind_eq_Inr Let_def split: prod.splits sum.splits if_splits option.splits)
  then show ?thesis by (auto simp: assemble_def Let_def split: option.splits if_splits)
qed

lemma builder_whole: "builds (whole_evidence E url) (whole_carousel E url) (with_builder cfg K lbs prompt T)"
  by (auto simp: builds_def with_builder_def whole_carousel_def whole_evidence_def dest: built_carousel)


subsection \<open>Example\<close>

definition ex_outside :: outside where
  "ex_outside = \<lparr>os_page = ex_page, os_media = ex_media_env, os_captions = (\<lambda>_. None), os_image = (\<lambda>_ _. TooLarge),
     os_base64 = (\<lambda>s. s), os_read = (\<lambda>_. CallFailed False)\<rparr>"

definition ex_post_url :: string where
  "ex_post_url = ''https://www.tiktok.com/@ana/photo/1''"


end
