(* ===== verification/Reset_Guard.thy ===== *)
theory Reset_Guard
  imports Py_Datetime Py_Regex
begin

section \<open>The guards of the reset\<close>

text \<open>
  scripts/reset_guard.py: what has to hold before the data of a deployment is deleted. JSON files are \<open>json\<close>,
  the environment of the process a function, SHA-256 of canonical JSON the argument \<open>digest\<close>, the versions
  that the PostgreSQL tools print an argument. A \<open>ResetGuardError\<close> is a \<open>RuntimeError\<close>.
\<close>

abbreviation reset_error :: "string \<Rightarrow> 'x res" where
  "reset_error m \<equiv> Inl (RuntimeError m)"

subsection \<open>The tables\<close>

definition public_delete_tables :: "string list" where
  "public_delete_tables = [''api_request_logs'', ''apple_notification_events'', ''api_spend_ledger'', ''extract_job_access'',
     ''usage_events'', ''user_recipes'', ''subscription_events'', ''security_events'', ''spend_alerts'', ''extract_jobs'',
     ''recipe_translations'', ''recipes'', ''auth_provider_tokens'', ''profiles'']"

definition public_preserve_tables :: "string list" where
  "public_preserve_tables = [''app_settings'']"

definition auth_delete_tables :: "string list" where
  "auth_delete_tables = [''audit_log_entries'', ''flow_state'', ''hook_payloads'', ''identities'', ''mfa_amr_claims'',
     ''mfa_challenges'', ''mfa_factors'', ''oauth_authorization_codes'', ''oauth_authorizations'', ''oauth_client_states'',
     ''oauth_consents'', ''oauth_sessions'', ''one_time_tokens'', ''refresh_tokens'', ''saml_relay_states'', ''sessions'', ''users'']"

definition auth_preserve_tables :: "string list" where
  "auth_preserve_tables = [''instances'', ''oauth_clients'', ''saml_providers'', ''schema_migrations'', ''sso_domains'', ''sso_providers'']"

definition required_writer_controls :: "string list" where
  "required_writer_controls = [''all_backend_instances_maintenance'', ''background_workers_stopped'', ''auth_signups_disabled'',
     ''auth_session_refresh_frozen'', ''direct_data_api_writers_frozen'', ''cron_writers_frozen'', ''service_role_clients_frozen'']"

subsection \<open>Receipts\<close>

text \<open>\<open>v == n\<close> of a JSON value and a number.\<close>

definition equals_int :: "json \<Rightarrow> int \<Rightarrow> bool" where
  "equals_int v n \<longleftrightarrow> num_value v = Some (of_int n)"

definition receipt_body :: "dict \<Rightarrow> dict" where
  "receipt_body receipt = filter (\<lambda>(k, _). k \<noteq> ''receipt_sha256'') receipt"

definition validate_receipt_integrity :: "(json \<Rightarrow> string) \<Rightarrow> dict \<Rightarrow> unit res" where
  "validate_receipt_integrity digest receipt =
     (if dget receipt ''receipt_sha256'' = JStr (digest (JObj (receipt_body receipt))) then Inr ()
      else reset_error ''Receipt digest is missing or invalid'')"

definition write_receipt :: "(json \<Rightarrow> string) \<Rightarrow> dict \<Rightarrow> dict" where
  "write_receipt digest payload = dput ''receipt_sha256'' (JStr (digest (JObj payload))) payload"

definition load_json :: "json option \<Rightarrow> dict res" where
  "load_json file = (case file of None \<Rightarrow> reset_error ''Invalid JSON receipt''
     | Some (JObj d) \<Rightarrow> Inr d | Some _ \<Rightarrow> reset_error ''Receipt must be a JSON object'')"

subsection \<open>The target\<close>

definition is_label :: "char \<Rightarrow> bool" where
  "is_label c \<longleftrightarrow> (let n = of_char c :: nat in 97 \<le> n \<and> n \<le> 122 \<or> 48 \<le> n \<and> n \<le> 57)"

text \<open>\<open>re.fullmatch\<close> of a letter or digit, then at most 61 of these, dots and hyphens, and one more letter or digit.\<close>

definition label_re :: rx where
  "label_re = Cat (Cls is_label)
     (maybe (Cat (Rep True 0 (Some 61) (Cls (\<lambda>c. is_label c \<or> c = CHR ''.'' \<or> c = CHR ''-''))) (Cls is_label)))"

definition rx_fullmatch :: "rx \<Rightarrow> string \<Rightarrow> bool" where
  "rx_fullmatch r s \<longleftrightarrow> length s \<in> set (ends r s 0)"

definition retired_vendors :: "string list" where
  "retired_vendors = [''supabase.co'', ''supabase.com'', ''onrender.com'', ''render.com'']"

definition validate_target :: "string \<Rightarrow> string \<Rightarrow> unit res" where
  "validate_target ref host =
     (if \<not> rx_fullmatch label_re ref then reset_error ''Target ref must be a hostname label''
      else if list_ex (contains (lower host)) retired_vendors then reset_error ''Target host must be self-hosted Postgres''
      else if host \<noteq> ref then reset_error ''Target host does not match the explicit project ref''
      else Inr ())"

definition set_in :: "(string \<Rightarrow> string option) \<Rightarrow> string \<Rightarrow> bool" where
  "set_in env k \<longleftrightarrow> (case env k of None \<Rightarrow> False | Some v \<Rightarrow> v \<noteq> [])"

definition validate_pg_environment :: "string list \<Rightarrow> (string \<Rightarrow> string option) \<Rightarrow> string \<Rightarrow> unit res" where
  "validate_pg_environment argv env host =
     (if list_ex (\<lambda>a. starts_with a ''postgres'' \<or> contains (lower a) ''password='') argv
      then reset_error ''Database credentials/URLs are forbidden in command arguments''
      else if env ''PGHOST'' \<noteq> Some host then reset_error ''PGHOST must exactly match --target-host''
      else if \<not> (set_in env ''PGSERVICE'' \<or> set_in env ''PGUSER'' \<and> set_in env ''PGDATABASE'')
      then reset_error ''Use PGSERVICE or PGHOST/PGUSER/PGDATABASE environment variables''
      else if env ''PGSSLMODE'' \<notin> {Some ''require'', Some ''verify-ca'', Some ''verify-full''}
      then reset_error ''PGSSLMODE must require TLS''
      else Inr ())"

text \<open>The output of \<open>--version\<close> with its exit code; the group is the digits the match begins with.\<close>

definition is_decimal :: "char \<Rightarrow> bool" where
  "is_decimal c \<longleftrightarrow> (let n = of_char c :: nat in 48 \<le> n \<and> n \<le> 57)"

definition version_re :: rx where
  "version_re = cat [WordB, many1 (Cls is_decimal), maybe (cat [lit ''.'', many1 (Cls is_decimal)]), WordB]"

definition is_seventeen :: "int \<times> string \<Rightarrow> bool" where
  "is_seventeen r = (case r of (code, out) \<Rightarrow>
     (case rx_find version_re out of
        None \<Rightarrow> False
      | Some (i, j) \<Rightarrow> code = 0 \<and> digits_int (takeWhile is_decimal (drop i out)) = 17))"

fun validate_pg17 :: "(string \<Rightarrow> int \<times> string) \<Rightarrow> string list \<Rightarrow> unit res" where
  "validate_pg17 version [] = Inr ()"
| "validate_pg17 version (tool # tools) =
     (if is_seventeen (version tool) then validate_pg17 version tools
      else reset_error (tool @ '' major version 17 is required''))"

definition pg_tools :: "string list" where
  "pg_tools = [''psql'', ''pg_dump'', ''pg_dumpall'', ''pg_restore'']"

subsection \<open>Evidence\<close>

fun first_failing :: "(string \<Rightarrow> bool) \<Rightarrow> string list \<Rightarrow> string option" where
  "first_failing P [] = None"
| "first_failing P (k # ks) = (if P k then first_failing P ks else Some k)"

text \<open>An ISO text without an offset gives a time without a zone.\<close>

definition has_zone :: "string \<Rightarrow> bool" where
  "has_zone s = (case parse_date (expand_z s) of None \<Rightarrow> False
     | Some (_, rest) \<Rightarrow> list_ex is_offset_char (drop 1 rest))"

definition validate_writer_evidence :: "(json \<Rightarrow> string) \<Rightarrow> dict \<Rightarrow> string \<Rightarrow> string \<Rightarrow> instant \<Rightarrow> unit res" where
  "validate_writer_evidence rep evidence ref host now =
     (if dget evidence ''target_ref'' \<noteq> JStr ref \<or> dget evidence ''target_host'' \<noteq> JStr host
      then reset_error ''Writer-freeze evidence targets another project''
      else case first_failing (\<lambda>k. dget evidence k = JBool True) required_writer_controls of
        Some k \<Rightarrow> reset_error (''Writer-freeze evidence missing control: '' @ k)
      | None \<Rightarrow>
        if \<not> equals_int (dget evidence ''in_flight_processes'') 0
        then reset_error ''Writer-freeze evidence must show zero in-flight processes''
        else if strip (py_str rep (py_or (dget evidence ''reviewed_by'') (JStr []))) = []
        then reset_error ''Writer-freeze evidence requires reviewed_by''
        else let observed = py_str rep (dget evidence ''observed_at'');
                 stale = reset_error ''Writer-freeze evidence must be timezone-aware and no older than 30 minutes''
          in if \<not> has_key evidence ''observed_at'' then reset_error ''Writer-freeze evidence needs an ISO-8601 observed_at''
             else case parse_iso observed of
               Inl OverflowError \<Rightarrow> stale
             | Inl _ \<Rightarrow> reset_error ''Writer-freeze evidence needs an ISO-8601 observed_at''
             | Inr t \<Rightarrow> if \<not> has_zone observed \<or> 30 * 60 * second < \<bar>now - t\<bar> then stale else Inr ())"

subsection \<open>The inventory\<close>

text \<open>The lists of an inventory; \<open>inventory.get (k) or []\<close>. A table that is no text counts as unknown.\<close>

definition inventory_list :: "dict \<Rightarrow> string \<Rightarrow> json list" where
  "inventory_list inventory k = (case dget inventory k of JArr vs \<Rightarrow> vs | _ \<Rightarrow> [])"

definition in_schema :: "string \<Rightarrow> string list \<Rightarrow> string list" where
  "in_schema schema ts = map (\<lambda>t. schema @ ''.'' @ t) ts"

definition allowed_sources :: "string list" where
  "allowed_sources = in_schema ''public'' public_delete_tables @ in_schema ''auth'' auth_delete_tables"

definition dependency_source :: "(json \<Rightarrow> string) \<Rightarrow> json \<Rightarrow> string" where
  "dependency_source rep v = (case split_once ''->'' (py_str rep v) of None \<Rightarrow> py_str rep v | Some (s, _) \<Rightarrow> s)"

definition validate_table_inventory :: "(json \<Rightarrow> string) \<Rightarrow> dict \<Rightarrow> unit res" where
  "validate_table_inventory rep inventory =
     (let public = inventory_list inventory ''public''; auth = inventory_list inventory ''auth'';
          expected_public = map JStr (public_delete_tables @ public_preserve_tables);
          expected_auth = map JStr (auth_delete_tables @ auth_preserve_tables)
      in if \<not> (set expected_public \<subseteq> set public \<and> set public \<subseteq> set expected_public) \<or>
           auth \<noteq> [] \<and> \<not> (set (map JStr [''users'', ''identities'', ''sessions'', ''refresh_tokens'']) \<subseteq> set auth \<and> set auth \<subseteq> set expected_auth)
         then reset_error ''Unreviewed table inventory''
         else if \<not> list_all (\<lambda>v. dependency_source rep v \<in> set allowed_sources) (inventory_list inventory ''dependencies'')
         then reset_error ''Unreviewed dependent tables''
         else Inr ())"

subsection \<open>The rehearsal\<close>

definition rehearsal_gates :: "string list" where
  "rehearsal_gates = [''decrypt_ok'', ''restore_exit_ok'', ''counts_match'', ''app_settings_match'', ''schema_fingerprint_match'',
     ''migration_fingerprint_match'', ''auth_config_match'', ''review_approved'']"

definition validate_rehearsal_receipt :: "dict \<Rightarrow> string \<Rightarrow> string \<Rightarrow> unit res" where
  "validate_rehearsal_receipt receipt backup_sha ref =
     (if \<not> equals_int (dget receipt ''version'') 1 then reset_error ''Unsupported rehearsal receipt version''
      else if dget receipt ''source_target_ref'' \<noteq> JStr ref then reset_error ''Rehearsal receipt belongs to another source project''
      else if dget receipt ''encrypted_backup_sha256'' \<noteq> JStr backup_sha
      then reset_error ''Rehearsal receipt does not match the encrypted backup digest''
      else case first_failing (\<lambda>k. dget receipt k = JBool True) rehearsal_gates of
        Some k \<Rightarrow> reset_error (''Rehearsal receipt failed gate: '' @ k)
      | None \<Rightarrow> if \<not> truthy (dget receipt ''disposable_target'') \<or> \<not> truthy (dget receipt ''reviewed_by'')
                then reset_error ''Rehearsal receipt lacks disposable target or reviewer'' else Inr ())"

end
