(* ===== verification/Reset_Chain.thy ===== *)
theory Reset_Chain
  imports Reset_Guard
begin

section \<open>The reset\<close>

text \<open>
  scripts/reset_execute.py with the approval of scripts/reset_approve_rehearsal.py: the chain of receipts that
  has to hold before the transaction runs, the transaction as a list of steps in place of its SQL text, and what
  it does to the tables. The content of the database is a function from the qualified name of a table to its
  rows; deleting from a table and the three fingerprints of what is preserved are the fields of \<open>postgres\<close>.
\<close>

type_synonym 'row store = "string \<Rightarrow> 'row list"

datatype reset_step =
    LockTable string
  | CheckCount string int
  | DeleteFrom string
  | CheckEmpty "string list"
  | CheckPreserved string string string    \<comment> \<open>settings, migrations, configuration\<close>

record 'row postgres =
  pg_lock :: "string \<Rightarrow> bool"
  pg_delete :: "string \<Rightarrow> 'row store \<Rightarrow> 'row store res"
  pg_settings :: "'row store \<Rightarrow> string"
  pg_migrations :: "'row store \<Rightarrow> string"
  pg_auth_config :: "'row store \<Rightarrow> string"

definition lock_timeout :: exn where "lock_timeout = DbError"

fun run_step :: "'row postgres \<Rightarrow> reset_step \<Rightarrow> 'row store \<Rightarrow> 'row store res" where
  "run_step G (LockTable t) d = (if pg_lock G t then Inr d else Inl lock_timeout)"
| "run_step G (CheckCount t n) d = (if int (length (d t)) \<noteq> n then Inl DbError else Inr d)"
| "run_step G (DeleteFrom t) d = pg_delete G t d"
| "run_step G (CheckEmpty ts) d = (if list_ex (\<lambda>t. d t \<noteq> []) ts then Inl DbError else Inr d)"
| "run_step G (CheckPreserved s m a) d =
     (if pg_settings G d \<noteq> s \<or> pg_migrations G d \<noteq> m \<or> pg_auth_config G d \<noteq> a then Inl DbError else Inr d)"

fun run_steps :: "'row postgres \<Rightarrow> reset_step list \<Rightarrow> 'row store \<Rightarrow> 'row store res" where
  "run_steps G [] d = Inr d"
| "run_steps G (s # ss) d = res_bind (run_step G s d) (run_steps G ss)"

text \<open>\<open>psql\<close> with \<open>ON_ERROR_STOP\<close>: an error ends the transaction, and what it did is undone.\<close>

definition execute_sql :: "'row postgres \<Rightarrow> reset_step list \<Rightarrow> 'row store \<Rightarrow> unit res \<times> 'row store" where
  "execute_sql G steps d =
     (case run_steps G steps d of
        Inl _ \<Rightarrow> (reset_error ''Reset transaction failed; commit status is not successful'', d)
      | Inr d' \<Rightarrow> (Inr (), d'))"

subsection \<open>The approval of a rehearsal\<close>

definition approval_gates :: "string list" where
  "approval_gates = butlast rehearsal_gates"

definition approve_rehearsal :: "(json \<Rightarrow> string) \<Rightarrow> string \<Rightarrow> dict \<Rightarrow> string \<Rightarrow> string \<Rightarrow> dict res" where
  "approve_rehearsal digest now_text receipt reviewed_by expected_target =
     res_bind (validate_receipt_integrity digest receipt) (\<lambda>_.
     if dget receipt ''kind'' \<noteq> JStr ''reciapp-restoration-rehearsal''
     then reset_error ''Approval input is not a restoration rehearsal receipt''
     else if dget receipt ''disposable_target'' \<noteq> JStr expected_target
     then reset_error ''Disposable target does not match the reviewed rehearsal''
     else if strip reviewed_by = [] then reset_error ''Rehearsal approval requires a reviewer name''
     else case first_failing (\<lambda>k. dget receipt k = JBool True) approval_gates of
       Some k \<Rightarrow> reset_error (''Cannot approve failed rehearsal gate: '' @ k)
     | None \<Rightarrow> Inr (dput ''unapproved_receipt_sha256'' (dget receipt ''receipt_sha256'')
         (dput ''reviewed_at'' (JStr now_text) (dput ''reviewed_by'' (JStr (strip reviewed_by))
         (dput ''review_approved'' (JBool True) (receipt_body receipt))))))"

subsection \<open>The checks before the transaction\<close>

definition validate_receipt_chain :: "dict \<Rightarrow> dict \<Rightarrow> dict \<Rightarrow> unit res" where
  "validate_receipt_chain preflight backup rehearsal =
     (let sha = dget preflight ''receipt_sha256'' in
      if dget backup ''preflight_receipt_sha256'' \<noteq> sha then reset_error ''Backup was not produced from this preflight''
      else if dget rehearsal ''preflight_receipt_sha256'' \<noteq> sha
      then reset_error ''Approved rehearsal was not produced from this preflight''
      else Inr ())"

text \<open>\<open>==\<close> of scalars and of dictionaries of scalars, which the counts of a database are.\<close>

definition scalar_eq :: "json \<Rightarrow> json \<Rightarrow> bool" where
  "scalar_eq v w \<longleftrightarrow> v = w \<or> num_value v \<noteq> None \<and> num_value v = num_value w"

definition counts_eq :: "json \<Rightarrow> json \<Rightarrow> bool" where
  "counts_eq v w =
     (case (v, w) of
        (JObj d, JObj e) \<Rightarrow> list_all (\<lambda>(k, x). case map_of e k of None \<Rightarrow> False | Some y \<Rightarrow> scalar_eq x y) d \<and>
          list_all (\<lambda>(k, _). has_key d k) e
      | _ \<Rightarrow> scalar_eq v w)"

definition fingerprint_fields :: "string list" where
  "fingerprint_fields = [''app_settings_fingerprint'', ''schema_fingerprint'', ''migration_fingerprint'', ''auth_config_fingerprint'']"

definition validate_current_reset_snapshot :: "dict \<Rightarrow> dict \<Rightarrow> unit res" where
  "validate_current_reset_snapshot current baseline =
     (if \<not> equals_int (dget current ''active_jobs'') 0 \<or> \<not> equals_int (dget current ''storage_objects'') 0
      then reset_error ''Reset requires zero active jobs/leases and empty Storage''
      else case first_failing (\<lambda>k. scalar_eq (dget current k) (dget baseline k)) fingerprint_fields of
        Some k \<Rightarrow> reset_error (''Target changed after preflight: '' @ k)
      | None \<Rightarrow> (case first_failing (\<lambda>k. counts_eq (dget current k) (dget baseline k)) [''public_counts'', ''auth_counts''] of
          Some k \<Rightarrow> reset_error (''Target row counts changed after approved backup: '' @ k)
        | None \<Rightarrow> Inr ()))"

text \<open>\<open>d[k]\<close>, and a value that has to be a text.\<close>

definition item :: "dict \<Rightarrow> string \<Rightarrow> json res" where
  "item d k = (case map_of d k of None \<Rightarrow> Inl KeyError | Some v \<Rightarrow> Inr v)"

definition text_item :: "dict \<Rightarrow> string \<Rightarrow> string res" where
  "text_item d k = res_bind (item d k) (\<lambda>v. case v of JStr s \<Rightarrow> Inr s | _ \<Rightarrow> Inl TypeError)"

definition is_sha256 :: "string \<Rightarrow> bool" where
  "is_sha256 s \<longleftrightarrow> length s = 64 \<and> list_all (\<lambda>c. c \<in> set ''0123456789abcdef'') s"

text \<open>The counts of the receipt: one for each table, a whole number that is not negative.\<close>

definition valid_counts :: "string list \<Rightarrow> dict \<Rightarrow> bool" where
  "valid_counts ts expected \<longleftrightarrow> set (map fst expected) = set ts \<and>
     list_all (\<lambda>(_, v). case v of JInt n \<Rightarrow> 0 \<le> n | _ \<Rightarrow> False) expected"

definition count_of :: "dict \<Rightarrow> string \<Rightarrow> int" where
  "count_of expected t = (case dget expected t of JInt n \<Rightarrow> n | _ \<Rightarrow> 0)"

definition build_reset_sql ::
  "json list \<Rightarrow> json list \<Rightarrow> string \<Rightarrow> string \<Rightarrow> string \<Rightarrow> dict \<Rightarrow> dict \<Rightarrow> reset_step list res" where
  "build_reset_sql public_tables auth_tables settings migrations auth_config public_counts auth_counts =
     (let publics = filter (\<lambda>t. JStr t \<in> set public_tables) public_delete_tables;
          auths = filter (\<lambda>t. JStr t \<in> set auth_tables) auth_delete_tables;
          targets = in_schema ''public'' publics @ in_schema ''auth'' auths
      in if \<not> list_all is_sha256 [settings, migrations, auth_config] then reset_error ''Reset receipt contains an invalid fingerprint''
         else if \<not> valid_counts publics public_counts then reset_error ''Reset receipt has invalid public counts''
         else if \<not> valid_counts auths auth_counts then reset_error ''Reset receipt has invalid auth counts''
         else Inr (map LockTable targets
           @ map (\<lambda>t. CheckCount (''public.'' @ t) (count_of public_counts t)) publics
           @ map (\<lambda>t. CheckCount (''auth.'' @ t) (count_of auth_counts t)) auths
           @ map DeleteFrom targets @ [CheckEmpty targets, CheckPreserved settings migrations auth_config]))"

subsection \<open>The command\<close>

record reset_call =
  ru_ref :: string
  ru_host :: string
  ru_argv :: "string list"
  ru_env :: "string \<Rightarrow> string option"
  ru_version :: "string \<Rightarrow> int \<times> string"
  ru_evidence :: "json option"
  ru_evidence_sha :: string
  ru_preflight :: "json option"
  ru_backup :: "json option"
  ru_rehearsal :: "json option"
  ru_inventory :: "json res"
  ru_snapshot :: "dict \<Rightarrow> json res"
  ru_now :: instant
  ru_execute :: bool
  ru_confirm :: "string option"
  ru_digest :: "json \<Rightarrow> string"
  ru_rep :: "json \<Rightarrow> string"

definition checked_receipts :: "reset_call \<Rightarrow> (dict \<times> string) res" where
  "checked_receipts u =
     res_bind (validate_target (ru_ref u) (ru_host u)) (\<lambda>_.
     res_bind (validate_pg_environment (ru_argv u) (ru_env u) (ru_host u)) (\<lambda>_.
     res_bind (validate_pg17 (ru_version u) pg_tools) (\<lambda>_.
     res_bind (load_json (ru_evidence u)) (\<lambda>evidence.
     res_bind (validate_writer_evidence (ru_rep u) evidence (ru_ref u) (ru_host u) (ru_now u)) (\<lambda>_.
     res_bind (load_json (ru_preflight u)) (\<lambda>preflight.
     res_bind (load_json (ru_backup u)) (\<lambda>backup.
     res_bind (load_json (ru_rehearsal u)) (\<lambda>rehearsal.
     res_bind (validate_receipt_integrity (ru_digest u) preflight) (\<lambda>_.
     res_bind (validate_receipt_integrity (ru_digest u) backup) (\<lambda>_.
     res_bind (validate_receipt_integrity (ru_digest u) rehearsal) (\<lambda>_.
     if dget preflight ''target_ref'' \<noteq> JStr (ru_ref u) \<or> dget preflight ''target_host'' \<noteq> JStr (ru_host u)
     then reset_error ''Preflight targets another project''
     else if dget preflight ''writer_evidence_sha256'' \<noteq> JStr (ru_evidence_sha u)
     then reset_error ''Continuous writer-freeze evidence changed after preflight''
     else res_bind (validate_receipt_chain preflight backup rehearsal) (\<lambda>_.
       let backup_sha = py_str (ru_rep u) (py_or (dget backup ''encrypted_backup_sha256'') (JStr [])) in
       res_bind (validate_rehearsal_receipt rehearsal backup_sha (ru_ref u)) (\<lambda>_.
       Inr (preflight, backup_sha))))))))))))))"

definition reset_plan :: "reset_call \<Rightarrow> (reset_step list \<times> string) res" where
  "reset_plan u =
     res_bind (checked_receipts u) (\<lambda>(preflight, backup_sha).
     res_bind (res_bind (ru_inventory u) as_dict) (\<lambda>inventory.
     res_bind (validate_table_inventory (ru_rep u) inventory) (\<lambda>_.
     res_bind (res_bind (ru_snapshot u inventory) as_dict) (\<lambda>current.
     res_bind (res_bind (item preflight ''snapshot'') as_dict) (\<lambda>baseline.
     res_bind (validate_current_reset_snapshot current baseline) (\<lambda>_.
     res_bind (text_item baseline ''app_settings_fingerprint'') (\<lambda>settings.
     res_bind (text_item baseline ''migration_fingerprint'') (\<lambda>migrations.
     res_bind (text_item baseline ''auth_config_fingerprint'') (\<lambda>auth_config.
     res_bind (res_bind (item baseline ''public_counts'') as_dict) (\<lambda>public_counts.
     res_bind (res_bind (item baseline ''auth_counts'') as_dict) (\<lambda>auth_counts.
     res_bind (build_reset_sql (inventory_list inventory ''public'') (inventory_list inventory ''auth'')
       settings migrations auth_config public_counts auth_counts) (\<lambda>steps.
     Inr (steps, ''RESET:'' @ ru_ref u @ '':'' @ backup_sha)))))))))))))"

text \<open>True for a reset that was committed, False for a dry run.\<close>

definition reset_execute :: "'row postgres \<Rightarrow> reset_call \<Rightarrow> 'row store \<Rightarrow> bool res \<times> 'row store" where
  "reset_execute G u d =
     (case reset_plan u of
        Inl e \<Rightarrow> (Inl e, d)
      | Inr (steps, confirmation) \<Rightarrow>
          if \<not> ru_execute u then (Inr False, d)
          else if ru_confirm u \<noteq> Some confirmation
          then (reset_error ''Execute confirmation does not match target ref and backup digest'', d)
          else (case execute_sql G steps d of (Inl e, d') \<Rightarrow> (Inl e, d') | (Inr _, d') \<Rightarrow> (Inr True, d')))"

subsection \<open>What deleting may touch\<close>

text \<open>
  The foreign keys, as pairs of the referring and the referred table. Documented of PostgreSQL: deleting all rows
  of a table leaves it empty, changes besides it only tables that refer to it, directly or through others,
  and puts no row into an empty table.
\<close>

type_synonym references = "(string \<times> string) set"

definition deletes_lawfully :: "references \<Rightarrow> 'row postgres \<Rightarrow> bool" where
  "deletes_lawfully R G \<longleftrightarrow> (\<forall>t d d'. pg_delete G t d = Inr d' \<longrightarrow> d' t = [] \<and>
     (\<forall>s. s \<noteq> t \<and> (s, t) \<notin> R\<^sup>+ \<longrightarrow> d' s = d s) \<and> (\<forall>s. d s = [] \<longrightarrow> d' s = []))"

text \<open>The inventory names every table and every foreign key into the tables to delete; names have no hyphen.\<close>

definition listed_tables :: "dict \<Rightarrow> string set" where
  "listed_tables inventory = {''public.'' @ t | t. JStr t \<in> set (inventory_list inventory ''public'')} \<union>
     {''auth.'' @ t | t. JStr t \<in> set (inventory_list inventory ''auth'')}"

definition reports :: "dict \<Rightarrow> references \<Rightarrow> bool" where
  "reports inventory R \<longleftrightarrow> (\<forall>(s, t) \<in> R. s \<in> listed_tables inventory \<and>
     (t \<in> set allowed_sources \<longrightarrow> CHR ''-'' \<notin> set s \<and> JStr (s @ ''->'' @ t) \<in> set (inventory_list inventory ''dependencies'')))"

text \<open>The tables that a reset deletes from.\<close>

definition reset_targets :: "dict \<Rightarrow> string list" where
  "reset_targets inventory =
     in_schema ''public'' (filter (\<lambda>t. JStr t \<in> set (inventory_list inventory ''public'')) public_delete_tables) @
     in_schema ''auth'' (filter (\<lambda>t. JStr t \<in> set (inventory_list inventory ''auth'')) auth_delete_tables)"

lemma target_iff: "x \<in> set (reset_targets iv) \<longleftrightarrow> x \<in> set allowed_sources \<and> x \<in> listed_tables iv"
  by (auto simp: reset_targets_def allowed_sources_def in_schema_def listed_tables_def)

lemma split_arrow: "CHR ''-'' \<notin> set s \<Longrightarrow> split_once ''->'' (s @ CHR ''-'' # CHR ''>'' # t) = Some (s, t)"
  by (induction s) (auto simp: starts_with_def)

lemma source_closed:
  assumes v: "validate_table_inventory rep iv = Inr ()" and r: "reports iv R" and st: "(s, t) \<in> R" and t: "t \<in> set (reset_targets iv)"
  shows "s \<in> set (reset_targets iv)"
proof -
  from r st t have s: "s \<in> listed_tables iv" "CHR ''-'' \<notin> set s" "JStr (s @ ''->'' @ t) \<in> set (inventory_list iv ''dependencies'')"
    by (auto simp: reports_def target_iff)
  from v s(3) have "dependency_source rep (JStr (s @ ''->'' @ t)) \<in> set allowed_sources"
    by (auto simp: validate_table_inventory_def Let_def list_all_iff split: if_splits)
  with s show ?thesis by (simp add: target_iff dependency_source_def split_arrow)
qed

lemma reference_closed:
  assumes "validate_table_inventory rep iv = Inr ()" "reports iv R" and st: "(s, t) \<in> R\<^sup>+" and t: "t \<in> set (reset_targets iv)"
  shows "s \<in> set (reset_targets iv)"
  using st t by (induction rule: converse_trancl_induct) (blast intro: source_closed [OF assms(1,2)])+

subsection \<open>What a committed reset did\<close>

lemma run_append: "run_steps G (xs @ ys) d = res_bind (run_steps G xs d) (run_steps G ys)"
  by (induction xs arbitrary: d) (auto split: sum.split simp: res_bind_def)

lemma run_locks: "run_steps G (map LockTable ts) d = Inr d' \<Longrightarrow> d' = d"
  by (induction ts) (auto simp: res_bind_eq_Inr split: if_splits)

lemma run_counts: "run_steps G (map (\<lambda>t. CheckCount (f t) (n t)) ts) d = Inr d' \<Longrightarrow> d' = d \<and> list_all (\<lambda>t. int (length (d (f t))) = n t) ts"
  by (induction ts) (auto simp: res_bind_eq_Inr split: if_splits)

lemma run_deletes:
  assumes "deletes_lawfully R G" "\<And>s t. (s, t) \<in> R\<^sup>+ \<Longrightarrow> t \<in> T \<Longrightarrow> s \<in> T"
  shows "run_steps G (map DeleteFrom ts) d = Inr d' \<Longrightarrow> set ts \<subseteq> T \<Longrightarrow>
    (\<forall>s. s \<notin> T \<longrightarrow> d' s = d s) \<and> (\<forall>s. d s = [] \<longrightarrow> d' s = []) \<and> (\<forall>t \<in> set ts. d' t = [])"
proof (induction ts arbitrary: d)
  case (Cons t ts)
  from Cons.prems(1) obtain e where e: "pg_delete G t d = Inr e" and rest: "run_steps G (map DeleteFrom ts) e = Inr d'" by (auto simp: res_bind_eq_Inr)
  have "e t = []" "\<forall>s. s \<noteq> t \<and> (s, t) \<notin> R\<^sup>+ \<longrightarrow> e s = d s" "\<forall>s. d s = [] \<longrightarrow> e s = []"
    using assms(1) e by (auto simp: deletes_lawfully_def)
  moreover have t: "t \<in> T" "set ts \<subseteq> T" using Cons.prems(2) by auto
  moreover note Cons.IH [OF rest t(2)]
  moreover have "\<forall>s. s \<notin> T \<longrightarrow> s \<noteq> t \<and> (s, t) \<notin> R\<^sup>+" using assms(2) t(1) by blast
  ultimately show ?case by simp
qed simp

lemma built_steps:
  assumes b: "build_reset_sql (inventory_list iv ''public'') (inventory_list iv ''auth'') s m a pc ac = Inr steps"
    and r: "run_steps G steps d = Inr d'" and law: "deletes_lawfully R G"
    and closed: "\<And>x t. (x, t) \<in> R\<^sup>+ \<Longrightarrow> t \<in> set (reset_targets iv) \<Longrightarrow> x \<in> set (reset_targets iv)"
  shows "(\<forall>x. x \<notin> set (reset_targets iv) \<longrightarrow> d' x = d x) \<and> (\<forall>t \<in> set (reset_targets iv). d' t = []) \<and>
    (\<forall>t \<in> set (filter (\<lambda>t. JStr t \<in> set (inventory_list iv ''public'')) public_delete_tables). int (length (d (''public.'' @ t))) = count_of pc t) \<and>
    (\<forall>t \<in> set (filter (\<lambda>t. JStr t \<in> set (inventory_list iv ''auth'')) auth_delete_tables). int (length (d (''auth.'' @ t))) = count_of ac t) \<and>
    pg_settings G d' = s \<and> pg_migrations G d' = m \<and> pg_auth_config G d' = a"
proof -
  define ps where "ps = filter (\<lambda>t. JStr t \<in> set (inventory_list iv ''public'')) public_delete_tables"
  define qs where "qs = filter (\<lambda>t. JStr t \<in> set (inventory_list iv ''auth'')) auth_delete_tables"
  define T where "T = reset_targets iv"
  have T: "T = in_schema ''public'' ps @ in_schema ''auth'' qs" by (simp add: T_def reset_targets_def ps_def qs_def)
  have "steps = map LockTable T @ map (\<lambda>t. CheckCount (''public.'' @ t) (count_of pc t)) ps
      @ map (\<lambda>t. CheckCount (''auth.'' @ t) (count_of ac t)) qs @ map DeleteFrom T @ [CheckEmpty T, CheckPreserved s m a]"
    using b by (auto simp: build_reset_sql_def Let_def T ps_def [symmetric] qs_def [symmetric] split: if_splits)
  with r obtain d1 d2 d3 e where l: "run_steps G (map LockTable T) d = Inr d1"
    and p: "run_steps G (map (\<lambda>t. CheckCount (''public.'' @ t) (count_of pc t)) ps) d1 = Inr d2"
    and a: "run_steps G (map (\<lambda>t. CheckCount (''auth.'' @ t) (count_of ac t)) qs) d2 = Inr d3"
    and del: "run_steps G (map DeleteFrom T) d3 = Inr e" and fin: "run_steps G [CheckEmpty T, CheckPreserved s m a] e = Inr d'"
    by (auto simp only: run_append res_bind_eq_Inr)
  have d: "d1 = d" "d2 = d" "d3 = d" and n: "list_all (\<lambda>t. int (length (d (''public.'' @ t))) = count_of pc t) ps"
    "list_all (\<lambda>t. int (length (d (''auth.'' @ t))) = count_of ac t) qs"
    using run_locks [OF l] run_counts [OF p] run_counts [OF a] by auto
  have "d' = e" "pg_settings G d' = s" "pg_migrations G d' = m" "pg_auth_config G d' = a"
    using fin by (auto simp: res_bind_eq_Inr split: if_splits)
  moreover from run_deletes [OF law closed del [unfolded d]] have "(\<forall>x. x \<notin> set T \<longrightarrow> e x = d x) \<and> (\<forall>t \<in> set T. e t = [])"
    by (simp add: T_def)
  ultimately show ?thesis using n by (simp add: T_def ps_def qs_def list_all_iff)
qed

lemma plan_parts:
  assumes "reset_plan u = Inr (steps, c)"
  obtains preflight sha iv current baseline s m a pc ac where "checked_receipts u = Inr (preflight, sha)"
    "ru_inventory u = Inr (JObj iv)" "validate_table_inventory (ru_rep u) iv = Inr ()" "ru_snapshot u iv = Inr (JObj current)"
    "map_of preflight ''snapshot'' = Some (JObj baseline)" "validate_current_reset_snapshot current baseline = Inr ()"
    "dget baseline ''public_counts'' = JObj pc" "dget baseline ''auth_counts'' = JObj ac"
    "build_reset_sql (inventory_list iv ''public'') (inventory_list iv ''auth'') s m a pc ac = Inr steps"
    "c = ''RESET:'' @ ru_ref u @ '':'' @ sha"
proof -
  have dict: "as_dict v = Inr x \<longleftrightarrow> v = JObj x" for v x by (cases v) auto
  have it: "item x k = Inr v \<longleftrightarrow> map_of x k = Some v" for x k v by (auto simp: item_def split: option.split)
  from assms show thesis
    by (auto simp: reset_plan_def res_bind_eq_Inr dict it split: prod.splits intro!: that) (auto simp: dget_def)
qed


subsection \<open>The tables of the migrations\<close>

lemma unknown_table_refused:
  assumes "JStr t \<in> set (inventory_list iv ''public'')" "t \<notin> set (public_delete_tables @ public_preserve_tables)"
  shows "validate_table_inventory rep iv \<noteq> Inr ()"
  using assms by (auto simp: validate_table_inventory_def Let_def)

text \<open>The tables that the migrations create; the last five are on no list of the guard, so that a reset of a
  deployment with these migrations is always refused.\<close>

definition deployed_tables :: "string list" where
  "deployed_tables = [''profiles'', ''recipes'', ''user_recipes'', ''extract_jobs'', ''usage_events'', ''api_request_logs'',
     ''app_settings'', ''subscription_events'', ''api_spend_ledger'', ''security_events'', ''spend_alerts'', ''extract_job_access'',
     ''apple_notification_events'', ''recipe_translations'', ''auth_provider_tokens'',
     ''auth_refresh_tokens'', ''push_devices'', ''push_deliveries'', ''app_runtime_heartbeats'', ''user_library_state'']"

theorem deployment_never_reset:
  assumes "ru_inventory u = Inr (JObj iv)" "set (map JStr deployed_tables) \<subseteq> set (inventory_list iv ''public'')"
  shows "(\<exists>e. fst (reset_execute G u d) = Inl e) \<and> snd (reset_execute G u d) = d"
proof -
  have "JStr ''push_devices'' \<in> set (inventory_list iv ''public'')" using assms(2) by (auto simp: deployed_tables_def)
  moreover have "''push_devices'' \<notin> set (public_delete_tables @ public_preserve_tables)" by code_simp
  ultimately have v: "validate_table_inventory rep iv \<noteq> Inr ()" for rep by (rule unknown_table_refused)
  then have "\<exists>e. reset_plan u = Inl e" using assms(1)
    by (cases "checked_receipts u"; cases "validate_table_inventory (ru_rep u) iv") (auto simp: reset_plan_def)
  then show ?thesis by (auto simp: reset_execute_def)
qed

subsection \<open>Receipts\<close>

text \<open>A receipt that was written passes the check of its digest, unless it came with a digest of its own.\<close>

lemma dput_new: "\<not> has_key d k \<Longrightarrow> dput k v d = d @ [(k, v)]"
  by (induction k v d rule: dput.induct) (auto simp: has_key_def split: if_splits)

theorem written_receipt_valid:
  assumes "\<not> has_key payload ''receipt_sha256''"
  shows "validate_receipt_integrity digest (write_receipt digest payload) = Inr ()"
proof -
  have "k \<noteq> ''receipt_sha256''" if "(k, v) \<in> set payload" for k v
    using assms that by (auto simp: has_key_def map_of_eq_None_iff image_iff)
  then have "receipt_body payload = payload" by (auto simp: receipt_body_def intro!: filter_True)
  then show ?thesis
    using assms by (auto simp: validate_receipt_integrity_def write_receipt_def dput_new receipt_body_def dget_def has_key_def map_add_def split: option.splits)
qed

subsection \<open>Example\<close>

definition ex_sha :: string where "ex_sha = replicate 64 CHR ''a''"

definition ex_inventory :: dict where
  "ex_inventory = [(''public'', JArr (map JStr (public_preserve_tables @ public_delete_tables))), (''auth'', JArr []), (''dependencies'', JArr [])]"

definition ex_snapshot :: dict where
  "ex_snapshot = [(''active_jobs'', JInt 0), (''storage_objects'', JInt 0), (''app_settings_fingerprint'', JStr ex_sha),
     (''schema_fingerprint'', JStr ex_sha), (''migration_fingerprint'', JStr ex_sha), (''auth_config_fingerprint'', JStr ex_sha),
     (''public_counts'', JObj (map (\<lambda>t. (t, JInt (if t = ''recipes'' then 1 else 0))) public_delete_tables)), (''auth_counts'', JObj [])]"

definition ex_evidence :: dict where
  "ex_evidence = map (\<lambda>k. (k, JBool True)) required_writer_controls @ [(''target_ref'', JStr ''db''), (''target_host'', JStr ''db''),
     (''in_flight_processes'', JInt 0), (''reviewed_by'', JStr ''ana''), (''observed_at'', JStr ''1970-01-01T00:10:00Z'')]"

definition ex_receipt :: "dict \<Rightarrow> json option" where
  "ex_receipt d = Some (JObj (write_receipt (\<lambda>_. ''d'') d))"

definition ex_call :: reset_call where
  "ex_call = \<lparr>ru_ref = ''db'', ru_host = ''db'', ru_argv = [], ru_env = (\<lambda>k. if k = ''PGHOST'' then Some ''db'' else Some ''require''),
     ru_version = (\<lambda>_. (0, ''psql 17.2'')), ru_evidence = Some (JObj ex_evidence), ru_evidence_sha = ''e'',
     ru_preflight = ex_receipt [(''target_ref'', JStr ''db''), (''target_host'', JStr ''db''), (''writer_evidence_sha256'', JStr ''e''), (''snapshot'', JObj ex_snapshot)],
     ru_backup = ex_receipt [(''preflight_receipt_sha256'', JStr ''d''), (''encrypted_backup_sha256'', JStr ''b'')],
     ru_rehearsal = ex_receipt (map (\<lambda>k. (k, JBool True)) rehearsal_gates @ [(''version'', JInt 1), (''source_target_ref'', JStr ''db''),
       (''encrypted_backup_sha256'', JStr ''b''), (''preflight_receipt_sha256'', JStr ''d''), (''disposable_target'', JStr ''x''), (''reviewed_by'', JStr ''ana'')]),
     ru_inventory = Inr (JObj ex_inventory), ru_snapshot = (\<lambda>_. Inr (JObj ex_snapshot)), ru_now = 900 * second,
     ru_execute = True, ru_confirm = Some ''RESET:db:b'', ru_digest = (\<lambda>_. ''d''), ru_rep = (\<lambda>_. [])\<rparr>"

definition ex_postgres :: "nat postgres" where
  "ex_postgres = \<lparr>pg_lock = (\<lambda>_. True), pg_delete = (\<lambda>t d. Inr (d(t := []))), pg_settings = (\<lambda>_. ex_sha),
     pg_migrations = (\<lambda>_. ex_sha), pg_auth_config = (\<lambda>_. ex_sha)\<rparr>"

definition ex_store :: "nat store" where
  "ex_store = (\<lambda>t. if t = ''public.recipes'' then [7] else if t = ''public.app_settings'' then [1] else [])"

lemma ex_committed: "fst (reset_execute ex_postgres ex_call ex_store) = Inr True"
  by code_simp


end
